(* ===== verification/Prelude.thy ===== *)
theory Prelude
  imports Main
begin

text \<open>
  What every component of the model shares: how the JavaScript values of the program are
  represented, the standard-library operations the sources call on them, and the lemma
  collections the component proofs draw on.

  \<^item> An optional property (\<open>name?: string\<close>) or a nullable column is an \<open>option\<close>: \<open>None\<close> stands
    for \<open>undefined\<close> and for \<open>null\<close>. Where the code tells the two apart the model says so.
  \<^item> A string is a \<open>string\<close> whose characters are its code units. The program compares, prefixes,
    trims and concatenates strings; it never relies on a code unit above 255 in what is modelled.
  \<^item> A test such as \<open>if (value)\<close> on an optional string, boolean, number or list length is the
    function that says which values JavaScript treats as true.
  \<^item> A thrown error is the left injection of a sum, or \<open>None\<close> where the message is not used.
\<close>

named_theorems guard_simps \<open>unfolding of the evidence guards and of the decision combinators\<close>
named_theorems machine_simps \<open>unfolding of the transition tables\<close>
named_theorems js_simps \<open>evaluation of the JavaScript primitives\<close>

subsection \<open>Truthiness\<close>

definition truthy :: "string option \<Rightarrow> bool" where
  "truthy v = (case v of None \<Rightarrow> False | Some s \<Rightarrow> s \<noteq> [])"

definition is_true :: "bool option \<Rightarrow> bool" where
  "is_true v = (v = Some True)"

definition truthy_list :: "'a list option \<Rightarrow> bool" where
  "truthy_list v = (case v of None \<Rightarrow> False | Some xs \<Rightarrow> xs \<noteq> [])"

definition num_or_zero :: "int option \<Rightarrow> int" where
  "num_or_zero v = (case v of None \<Rightarrow> 0 | Some n \<Rightarrow> n)"

lemma truthy_simps [simp, js_simps]:
  "truthy None = False" "truthy (Some s) = (s \<noteq> [])"
  by (simp_all add: truthy_def)

lemma truthyE [elim]:
  assumes "truthy v"
  obtains s where "v = Some s" "s \<noteq> []"
  using assms by (cases v) auto

lemma is_true_simps [simp, js_simps]:
  "is_true None = False" "is_true (Some b) = b"
  by (simp_all add: is_true_def)

lemma truthy_list_simps [simp, js_simps]:
  "truthy_list None = False" "truthy_list (Some xs) = (xs \<noteq> [])"
  by (simp_all add: truthy_list_def)

lemma num_or_zero_simps [simp, js_simps]:
  "num_or_zero None = 0" "num_or_zero (Some n) = n"
  by (simp_all add: num_or_zero_def)

subsection \<open>Safe integers\<close>

text \<open>\<open>Number.MAX_SAFE_INTEGER\<close>, and \<open>Number.isSafeInteger\<close> on a number that is an integer.\<close>

definition max_safe_integer :: int where
  "max_safe_integer = 9007199254740991"

definition is_safe_integer :: "int \<Rightarrow> bool" where
  "is_safe_integer n = (- max_safe_integer \<le> n \<and> n \<le> max_safe_integer)"

lemma div_bounds: "0 < k \<Longrightarrow> k * (a div k) \<le> a \<and> a < k * (a div k) + k" for a k :: int
  by (smt (verit) pos_mod_bound pos_mod_sign mult_div_mod_eq)

subsection \<open>Strings\<close>

text \<open>\<open>String.prototype.trim\<close>: the white space and line terminators of ECMAScript.\<close>

definition is_white :: "char \<Rightarrow> bool" where
  "is_white c = (of_char c \<in> {9, 10, 11, 12, 13, 32, 160 :: nat})"

definition trim_left :: "string \<Rightarrow> string" where
  "trim_left s = dropWhile is_white s"

definition trim :: "string \<Rightarrow> string" where
  "trim s = rev (trim_left (rev (trim_left s)))"

lemma trim_Nil [simp]: "trim [] = []"
  by (simp add: trim_def trim_left_def)

lemma trim_id:
  assumes "\<And>c. c \<in> set s \<Longrightarrow> \<not> is_white c"
  shows "trim s = s"
proof -
  have "dropWhile is_white t = t" if "set t \<subseteq> set s" for t
    using that assms by (cases t) auto
  then show ?thesis by (simp add: trim_def trim_left_def)
qed

text \<open>\<open>String.prototype.padStart\<close> with a one-character pad, and \<open>join\<close>.\<close>

definition pad_start :: "nat \<Rightarrow> char \<Rightarrow> string \<Rightarrow> string" where
  "pad_start n c s = replicate (n - length s) c @ s"

definition pad_end :: "nat \<Rightarrow> char \<Rightarrow> string \<Rightarrow> string" where
  "pad_end n c s = s @ replicate (n - length s) c"

fun join :: "string \<Rightarrow> string list \<Rightarrow> string" where
  "join sep [] = []"
| "join sep [s] = s"
| "join sep (s # t # ts) = s @ sep @ join sep (t # ts)"

lemma length_pad_start [simp]: "length (pad_start n c s) = max n (length s)"
  by (simp add: pad_start_def)

fun starts_with :: "string \<Rightarrow> string \<Rightarrow> bool" where
  "starts_with [] s = True"
| "starts_with (c # cs) [] = False"
| "starts_with (c # cs) (d # ds) = (c = d \<and> starts_with cs ds)"

lemma starts_with_append [simp]: "starts_with p (p @ s)"
  by (induction p) auto

subsection \<open>Lists\<close>

text \<open>\<open>[...new Set(xs)]\<close>: the elements in the order of their first occurrence.\<close>

definition js_unique :: "'a list \<Rightarrow> 'a list" where
  "js_unique xs = rev (remdups (rev xs))"

lemma set_js_unique [simp]: "set (js_unique xs) = set xs"
  by (simp add: js_unique_def)

lemma distinct_js_unique [simp]: "distinct (js_unique xs)"
  by (simp add: js_unique_def)

lemma js_unique_id: "distinct xs \<Longrightarrow> js_unique xs = xs"
  by (simp add: js_unique_def distinct_remdups_id)

text \<open>\<open>findIndex\<close>, with \<open>None\<close> for the answer \<open>-1\<close>.\<close>

fun find_index :: "('a \<Rightarrow> bool) \<Rightarrow> 'a list \<Rightarrow> nat option" where
  "find_index p [] = None"
| "find_index p (x # xs) = (if p x then Some 0 else map_option Suc (find_index p xs))"

lemma find_index_SomeD:
  "find_index p xs = Some i \<Longrightarrow> i < length xs \<and> p (xs ! i) \<and> (\<forall>j < i. \<not> p (xs ! j))"
proof (induction xs arbitrary: i)
  case Nil
  then show ?case by simp
next
  case (Cons x xs)
  show ?case
  proof (cases "p x")
    case True
    with Cons.prems show ?thesis by simp
  next
    case False
    with Cons.prems obtain k where k: "find_index p xs = Some k" "i = Suc k" by auto
    from Cons.IH [OF k(1)] k(2) False show ?thesis
      by (auto simp: less_Suc_eq_0_disj)
  qed
qed

lemma find_index_None: "find_index p xs = None \<longleftrightarrow> (\<forall>x \<in> set xs. \<not> p x)"
  by (induction xs) auto

lemma filter_Nil_iff [js_simps]: "filter P xs = [] \<longleftrightarrow> (\<forall>x \<in> set xs. \<not> P x)"
  by (rule filter_empty_conv)

text \<open>An association-list object: reading a property gives its value or \<open>undefined\<close>.\<close>

definition the_or :: "'a \<Rightarrow> 'a option \<Rightarrow> 'a" where
  "the_or d v = (case v of None \<Rightarrow> d | Some x \<Rightarrow> x)"

lemma the_or_simps [simp, js_simps]: "the_or d None = d" "the_or d (Some x) = x"
  by (simp_all add: the_or_def)

subsection \<open>The first row that fits\<close>

lemma find_distinct:
  "distinct (map f xs) \<Longrightarrow> List.find (\<lambda>x. f x = k) xs = Some r \<longleftrightarrow> r \<in> set xs \<and> f r = k"
  by (induction xs) (auto simp: rev_image_eqI)

lemma find_append: "List.find P (xs @ ys) = (case List.find P xs of None \<Rightarrow> List.find P ys | Some x \<Rightarrow> Some x)"
  by (induction xs) auto

end
