(* ===== verification/Decimal.thy ===== *)
theory Decimal
  imports Prelude
begin

text \<open>
  Decimal digits: \<open>String(n)\<close> of a non-negative integer, \<open>BigInt(text)\<close> of a text of digits, and
  the character classes the program's patterns use. The lemmas relate the two directions, with and
  without zero padding.
\<close>

definition digit_char :: "int \<Rightarrow> char" where
  "digit_char n = char_of (nat n + 48)"

definition is_digit :: "char \<Rightarrow> bool" where
  "is_digit c = (48 \<le> (of_char c :: nat) \<and> (of_char c :: nat) \<le> 57)"

definition digit_val :: "char \<Rightarrow> int" where
  "digit_val c = int (of_char c) - 48"

lemma digit_char [simp]:
  assumes "0 \<le> n" "n \<le> 9"
  shows "is_digit (digit_char n)" "digit_val (digit_char n) = n"
  using assms by (auto simp: is_digit_def digit_val_def digit_char_def of_char_of)

definition is_upper :: "char \<Rightarrow> bool" where
  "is_upper c = (65 \<le> (of_char c :: nat) \<and> (of_char c :: nat) \<le> 90)"

definition is_lower :: "char \<Rightarrow> bool" where
  "is_lower c = (97 \<le> (of_char c :: nat) \<and> (of_char c :: nat) \<le> 122)"

text \<open>\<open>toUpperCase\<close> and \<open>toLowerCase\<close> on the letters the program's patterns can match.\<close>

definition to_upper_char :: "char \<Rightarrow> char" where
  "to_upper_char c = (if is_lower c then char_of ((of_char c :: nat) - 32) else c)"

definition to_lower_char :: "char \<Rightarrow> char" where
  "to_lower_char c = (if is_upper c then char_of ((of_char c :: nat) + 32) else c)"

definition to_upper :: "string \<Rightarrow> string" where
  "to_upper = map to_upper_char"

definition to_lower :: "string \<Rightarrow> string" where
  "to_lower = map to_lower_char"

lemma digit_class [simp]:
  assumes "is_digit c"
  shows "\<not> is_lower c" "\<not> is_upper c" "\<not> is_white c" "to_upper_char c = c"
  using assms by (auto simp: is_digit_def is_lower_def is_upper_def is_white_def to_upper_char_def)

fun show_dec :: "nat \<Rightarrow> string" where
  "show_dec n = (if n < 10 then [digit_char (int n)]
     else show_dec (n div 10) @ [digit_char (int (n mod 10))])"

declare show_dec.simps [simp del]

definition dec_val :: "string \<Rightarrow> int" where
  "dec_val s = foldl (\<lambda>acc c. 10 * acc + digit_val c) 0 s"

definition all_digits :: "string \<Rightarrow> bool" where
  "all_digits s = list_all is_digit s"

lemma dec_val_acc:
  "foldl (\<lambda>acc c. 10 * acc + digit_val c) a s = a * 10 ^ length s + dec_val s"
proof (induction s arbitrary: a)
  case Nil
  then show ?case by (simp add: dec_val_def)
next
  case (Cons c s)
  show ?case
    using Cons [of "10 * a + digit_val c"] Cons [of "digit_val c"]
    by (simp add: dec_val_def algebra_simps)
qed

lemma dec_val_append: "dec_val (s @ t) = dec_val s * 10 ^ length t + dec_val t"
  using dec_val_acc [of "dec_val s" t] by (simp add: dec_val_def)

lemma dec_val_simps [simp]: "dec_val [] = 0" "dec_val [c] = digit_val c"
  by (simp_all add: dec_val_def)

lemma show_dec_digits: "all_digits (show_dec n) \<and> show_dec n \<noteq> []"
proof (induction n rule: show_dec.induct)
  case (1 n)
  then show ?case by (cases "n < 10") (simp_all add: show_dec.simps [of n] all_digits_def)
qed

lemma show_dec_all_digits [simp]: "all_digits (show_dec n)" "show_dec n \<noteq> []"
  using show_dec_digits by auto

lemma dec_val_show_dec [simp]: "dec_val (show_dec n) = int n"
proof (induction n rule: show_dec.induct)
  case (1 n)
  show ?case
  proof (cases "n < 10")
    case True
    then show ?thesis by (simp add: show_dec.simps [of n])
  next
    case False
    have "int (n div 10) * 10 + int (n mod 10) = int n"
      by (metis div_mult_mod_eq of_nat_add of_nat_mult of_nat_numeral)
    then show ?thesis using False 1 by (simp add: show_dec.simps [of n] dec_val_append)
  qed
qed

lemma length_show_dec: "n < 10 ^ k \<Longrightarrow> 0 < k \<Longrightarrow> length (show_dec n) \<le> k"
proof (induction n arbitrary: k rule: show_dec.induct)
  case (1 n)
  show ?case
  proof (cases "n < 10")
    case True
    then show ?thesis using 1 by (simp add: show_dec.simps [of n])
  next
    case False
    then obtain j where k: "k = Suc j" "0 < j" using 1(2,3) by (cases k; cases "k - 1") auto
    then have "n div 10 < 10 ^ j" using 1(2) by (simp add: less_mult_imp_div_less mult.commute)
    then have "length (show_dec (n div 10)) \<le> j" using 1(1) False k by blast
    then show ?thesis using False k by (simp add: show_dec.simps [of n])
  qed
qed

lemma dec_val_zeros [simp]: "dec_val (replicate k CHR ''0'' @ s) = dec_val s"
proof -
  have "dec_val (replicate k CHR ''0'') = 0"
    by (induction k) (simp_all add: dec_val_def digit_val_def)
  then show ?thesis by (simp add: dec_val_append)
qed

lemma all_digits_simps [simp]:
  "all_digits []" "all_digits (c # s) = (is_digit c \<and> all_digits s)"
  "all_digits (s @ t) = (all_digits s \<and> all_digits t)"
  by (simp_all add: all_digits_def)

lemma is_digit_0 [simp]: "is_digit CHR ''0''"
  by (simp add: is_digit_def)

lemma all_digits_replicate [simp]: "all_digits (replicate k CHR ''0'')"
  by (induction k) simp_all

lemma all_digits_pad_start [simp]: "all_digits (pad_start k CHR ''0'' s) = all_digits s"
  by (simp add: pad_start_def)

lemma dec_val_pad_start [simp]: "dec_val (pad_start k CHR ''0'' s) = dec_val s"
  by (simp add: pad_start_def)

lemma dec_val_nonneg: "all_digits s \<Longrightarrow> 0 \<le> dec_val s"
proof (induction s rule: rev_induct)
  case Nil
  then show ?case by simp
next
  case (snoc c s)
  then show ?case by (simp add: dec_val_append is_digit_def digit_val_def)
qed

end
