(* ===== verification/Json.thy ===== *)
theory Json
  imports Decimal "HOL-Library.Multiset" "HOL-Library.List_Lexorder" "HOL-Library.Char_ord"
begin

text \<open>
  \<open>canonicalJson\<close> of \<open>src/src/domain/approval.ts\<close>: the deterministic text whose hash binds an
  approval to its subject. A value is what \<open>JSON.stringify\<close> can meet in the program: \<open>undefined\<close>,
  \<open>null\<close>, a boolean, a finite number, a string, an array or an object with its properties in
  insertion order. A finite number is represented by the text \<open>Number::toString\<close> gives it, which
  determines it; a string's order is that of its code units.
\<close>

datatype json = JUndefined | JNull | JBool bool | JNumber string | JString string
  | JArray "json list" | JObject "(string \<times> json) list"

definition hex_digit :: "nat \<Rightarrow> char" where
  "hex_digit n = char_of (if n < 10 then 48 + n else 87 + n)"

text \<open>The escapes of \<open>JSON.stringify\<close>.\<close>

definition escape_char :: "char \<Rightarrow> string" where
  "escape_char c = (let n = (of_char c :: nat) in
     if c = CHR 0x22 then [CHR 0x5C, CHR 0x22]
     else if c = CHR 0x5C then [CHR 0x5C, CHR 0x5C]
     else if n = 8 then [CHR 0x5C, CHR ''b'']
     else if n = 9 then [CHR 0x5C, CHR ''t'']
     else if n = 10 then [CHR 0x5C, CHR ''n'']
     else if n = 12 then [CHR 0x5C, CHR ''f'']
     else if n = 13 then [CHR 0x5C, CHR ''r'']
     else if n < 32 then [CHR 0x5C, CHR ''u'', CHR ''0'', CHR ''0'', hex_digit (n div 16), hex_digit (n mod 16)]
     else [c])"

definition json_string :: "string \<Rightarrow> string" where
  "json_string s = CHR 0x22 # concat (map escape_char s) @ [CHR 0x22]"

text \<open>\<open>Object.entries(value).filter(([, v]) => v !== undefined).sort(by key)\<close>\<close>

definition sorted_entries :: "(string \<times> json) list \<Rightarrow> (string \<times> json) list" where
  "sorted_entries es = sort_key fst (filter (\<lambda>(k, v). v \<noteq> JUndefined) es)"

lemma set_sorted_entries [simp]: "set (sorted_entries es) = {e \<in> set es. snd e \<noteq> JUndefined}"
  by (auto simp: sorted_entries_def)

lemma json_size_entry [termination_simp]: "(k, v) \<in> set es \<Longrightarrow> size v < Suc (size_list (size_prod (\<lambda>_. 0) size) es)"
  by (induction es) auto

fun canonicalJson :: "json \<Rightarrow> string" where
  "canonicalJson JUndefined = ''null''"
| "canonicalJson JNull = ''null''"
| "canonicalJson (JBool b) = (if b then ''true'' else ''false'')"
| "canonicalJson (JNumber s) = s"
| "canonicalJson (JString s) = json_string s"
| "canonicalJson (JArray vs) = ''['' @ join '','' (map canonicalJson vs) @ '']''"
| "canonicalJson (JObject es) =
     ''{'' @ join '','' (map (\<lambda>(k, v). json_string k @ '':'' @ canonicalJson v) (sorted_entries es)) @ ''}''"

subsection \<open>The content of a value\<close>

text \<open>
  What an approval is about: an object is the finite map of its defined properties, whatever their
  order, and \<open>undefined\<close> elsewhere is \<open>null\<close>.
\<close>

datatype content = CNull | CBool bool | CNumber string | CString string | CArray "content list"
  | CObject "string \<Rightarrow> content option"

fun content_of :: "json \<Rightarrow> content" where
  "content_of JUndefined = CNull"
| "content_of JNull = CNull"
| "content_of (JBool b) = CBool b"
| "content_of (JNumber s) = CNumber s"
| "content_of (JString s) = CString s"
| "content_of (JArray vs) = CArray (map content_of vs)"
| "content_of (JObject es) = CObject (map_of (map (\<lambda>(k, v). (k, content_of v)) (sorted_entries es)))"

definition is_num_char :: "char \<Rightarrow> bool" where
  "is_num_char c = (c \<in> set ''0123456789+-.e'')"

definition is_num_start :: "char \<Rightarrow> bool" where
  "is_num_start c = (c \<in> set ''0123456789-'')"

text \<open>A numeral's characters, and an object's properties named once.\<close>

fun wf_json :: "json \<Rightarrow> bool" where
  "wf_json (JNumber s) = (s \<noteq> [] \<and> is_num_start (hd s) \<and> list_all is_num_char s)"
| "wf_json (JArray vs) = list_all wf_json vs"
| "wf_json (JObject es) = (distinct (map fst es) \<and> list_all (\<lambda>(k, v). wf_json v) es)"
| "wf_json _ = True"

lemma sorted_entries_keys:
  assumes "distinct (map fst es)"
  shows "distinct (map fst (sorted_entries es))" "sorted (map fst (sorted_entries es))"
proof -
  have "distinct (map fst (filter (\<lambda>(k, v). v \<noteq> JUndefined) es))" using assms by (rule distinct_map_filter)
  moreover have "mset (map fst (sorted_entries es)) = mset (map fst (filter (\<lambda>(k, v). v \<noteq> JUndefined) es))"
    by (simp add: sorted_entries_def)
  ultimately show "distinct (map fst (sorted_entries es))" by (metis mset_eq_imp_distinct_iff)
  show "sorted (map fst (sorted_entries es))" by (simp add: sorted_entries_def)
qed

subsection \<open>Reading a text back\<close>

definition hex_val :: "char \<Rightarrow> nat" where
  "hex_val c = (let n = (of_char c :: nat) in if n < 58 then n - 48 else n - 87)"

lemma hex_val_digit: "n < 16 \<Longrightarrow> hex_val (hex_digit n) = n"
  by (simp add: hex_val_def hex_digit_def of_char_of take_bit_eq_mod Let_def)

text \<open>The inverse of \<open>escape_char\<close>, reading one escaped character off a text.\<close>

definition unescape :: "string \<Rightarrow> char \<times> string" where
  "unescape s =
     (if hd s \<noteq> CHR 0x5C then (hd s, tl s)
      else let e = hd (tl s); r = tl (tl s) in
        if e = CHR ''u'' then (char_of (16 * hex_val (r ! 2) + hex_val (r ! 3)), drop 4 r)
        else (if e = CHR ''b'' then char_of (8 :: nat) else if e = CHR ''t'' then char_of (9 :: nat)
          else if e = CHR ''n'' then char_of (10 :: nat) else if e = CHR ''f'' then char_of (12 :: nat)
          else if e = CHR ''r'' then char_of (13 :: nat) else e, r))"

lemma unescape_escape: "unescape (escape_char c @ x) = (c, x)"
proof -
  define n where "n = (of_char c :: nat)"
  have c: "char_of n = c" by (simp add: n_def)
  have hx: "16 * hex_val (hex_digit (n div 16)) + hex_val (hex_digit (n mod 16)) = n" if "n < 32"
    using that by (subst (1 2) hex_val_digit) auto
  have small: ?thesis if "n < 32" "n \<notin> {8, 9, 10, 12, 13}" "c \<noteq> CHR 0x22" "c \<noteq> CHR 0x5C"
  proof -
    have "escape_char c =
        [CHR 0x5C, CHR ''u'', CHR ''0'', CHR ''0'', hex_digit (n div 16), hex_digit (n mod 16)]"
      using that by (simp add: escape_char_def n_def Let_def)
    moreover have "unescape (CHR 0x5C # CHR ''u'' # CHR ''0'' # CHR ''0'' # a # b # x) =
        (char_of (16 * hex_val a + hex_val b), x)" for a b
      by (simp add: unescape_def Let_def)
    ultimately show ?thesis using hx [OF that(1)] c by simp
  qed
  consider "c = CHR 0x22" | "c = CHR 0x5C" | "n = 8" | "n = 9" | "n = 10" | "n = 12" | "n = 13"
    | "n < 32" "n \<notin> {8, 9, 10, 12, 13}" "c \<noteq> CHR 0x22" "c \<noteq> CHR 0x5C"
    | "32 \<le> n" "c \<noteq> CHR 0x22" "c \<noteq> CHR 0x5C"
    by (cases "n < 32") auto
  then show ?thesis
  proof cases
    case 8
    then show ?thesis by (rule small)
  next
    case 9
    then show ?thesis by (simp add: escape_char_def n_def unescape_def Let_def)
  qed (use c in \<open>auto simp: escape_char_def n_def unescape_def Let_def\<close>)
qed

lemma escape_cancel: "escape_char c @ x = escape_char d @ y \<Longrightarrow> c = d \<and> x = y"
  by (metis unescape_escape prod.inject)

lemma escape_not_quote: "\<exists>a r. escape_char c = a # r \<and> a \<noteq> CHR 0x22"
  by (simp add: escape_char_def Let_def)

lemma json_string_cancel:
  "json_string s @ x = json_string t @ y \<Longrightarrow> s = t \<and> x = y"
proof -
  have "concat (map escape_char s) @ CHR 0x22 # x = concat (map escape_char t) @ CHR 0x22 # y \<Longrightarrow> s = t \<and> x = y"
  proof (induction s arbitrary: t)
    case Nil
    then show ?case using escape_not_quote by (cases t) (auto, metis append_Cons list.inject)
  next
    case (Cons c s)
    show ?case
    proof (cases t)
      case Nil
      with Cons.prems escape_not_quote [of c] show ?thesis by auto
    next
      case (Cons d u)
      then show ?thesis
        using Cons.prems Cons.IH [of u] escape_cancel [of c "concat (map escape_char s) @ CHR 0x22 # x" d]
        by auto
    qed
  qed
  then show "json_string s @ x = json_string t @ y \<Longrightarrow> s = t \<and> x = y" by (simp add: json_string_def)
qed

text \<open>What may follow a value in a text: its end, or a character no numeral goes on with.\<close>

definition delim :: "string \<Rightarrow> bool" where
  "delim s = (s = [] \<or> \<not> is_num_char (hd s))"

lemma numeral_cancel:
  assumes "list_all is_num_char s" "list_all is_num_char t" "s @ x = t @ y" "delim x" "delim y"
  shows "s = t \<and> x = y"
  using assms
proof (induction s arbitrary: t)
  case Nil
  then show ?case by (cases t) (auto simp: delim_def)
next
  case (Cons c s)
  then show ?case by (cases t) (auto simp: delim_def)
qed

lemma join_Cons: "join '','' (x # xs) = x @ concat (map ((#) CHR '','') xs)"
  by (induction xs arbitrary: x) auto

lemma delim_commas: "c \<in> set '',]}'' \<Longrightarrow> delim (concat (map ((#) CHR '','') xs) @ c # r)"
  by (cases xs) (auto simp: delim_def is_num_char_def)

text \<open>
  A list of elements, separated by commas and closed by a bracket, is read back element by
  element, provided each element can be, and none begins like the bracket.
\<close>

lemma commas_cancel:
  fixes f :: "'a \<Rightarrow> string" and h :: "'a \<Rightarrow> 'b"
  assumes "\<And>v w x y. \<lbrakk>v \<in> set vs; w \<in> set ws; f v @ x = f w @ y; delim x; delim y\<rbrakk> \<Longrightarrow> h v = h w \<and> x = y"
    and "c \<in> set '']}''"
    and "concat (map ((#) CHR '','') (map f vs)) @ c # x = concat (map ((#) CHR '','') (map f ws)) @ c # y"
  shows "map h vs = map h ws \<and> x = y"
  using assms(1,3)
proof (induction vs arbitrary: ws)
  case Nil
  then show ?case using assms(2) by (cases ws) auto
next
  case (Cons v vs)
  show ?case
  proof (cases ws)
    case Nil
    then show ?thesis using Cons.prems(2) assms(2) by auto
  next
    case ws: (Cons w us)
    let ?x = "concat (map ((#) CHR '','') (map f vs)) @ c # x"
    let ?y = "concat (map ((#) CHR '','') (map f us)) @ c # y"
    have d: "delim ?x" "delim ?y" using assms(2) by (intro delim_commas; auto)+
    have "f v @ ?x = f w @ ?y" using Cons.prems(2) ws by simp
    then have vw: "h v = h w" "?x = ?y" using Cons.prems(1) [of v w ?x ?y] d ws by simp_all
    moreover have "map h vs = map h us \<and> x = y"
      by (rule Cons.IH) (use Cons.prems(1) ws vw(2) in auto)
    ultimately show ?thesis using ws by simp
  qed
qed

lemma seq_cancel:
  fixes f :: "'a \<Rightarrow> string" and h :: "'a \<Rightarrow> 'b"
  assumes elem: "\<And>v w x y. \<lbrakk>v \<in> set vs; w \<in> set ws; f v @ x = f w @ y; delim x; delim y\<rbrakk> \<Longrightarrow> h v = h w \<and> x = y"
    and start: "\<And>v. v \<in> set vs \<union> set ws \<Longrightarrow> f v \<noteq> [] \<and> hd (f v) \<noteq> c"
    and c: "c \<in> set '']}''"
    and eq: "join '','' (map f vs) @ c # x = join '','' (map f ws) @ c # y"
  shows "map h vs = map h ws \<and> x = y"
proof (cases vs)
  case Nil
  then show ?thesis using eq start by (cases ws) (auto simp: join_Cons, metis append_is_Nil_conv hd_append2 list.sel(1))
next
  case vs: (Cons v us)
  show ?thesis
  proof (cases ws)
    case Nil
    then show ?thesis using eq start vs
      by (auto simp: join_Cons) (metis hd_append2 list.sel(1))
  next
    case ws: (Cons w zs)
    let ?x = "concat (map ((#) CHR '','') (map f us)) @ c # x"
    let ?y = "concat (map ((#) CHR '','') (map f zs)) @ c # y"
    have d: "delim ?x" "delim ?y" using c by (intro delim_commas; auto)+
    have "f v @ ?x = f w @ ?y" using eq vs ws by (simp add: join_Cons)
    then have vw: "h v = h w" "?x = ?y" using elem [of v w ?x ?y] d vs ws by simp_all
    moreover have "map h us = map h zs \<and> x = y"
      by (rule commas_cancel [OF _ c vw(2)]) (use elem vs ws in auto)
    ultimately show ?thesis using vs ws by simp
  qed
qed

text \<open>The first character tells what a value is.\<close>

definition json_start :: "json \<Rightarrow> char \<Rightarrow> bool" where
  "json_start v c = (case v of
       JUndefined \<Rightarrow> c = CHR ''n'' | JNull \<Rightarrow> c = CHR ''n''
     | JBool b \<Rightarrow> c = (if b then CHR ''t'' else CHR ''f'')
     | JNumber s \<Rightarrow> is_num_start c
     | JString s \<Rightarrow> c = CHR 0x22 | JArray vs \<Rightarrow> c = CHR ''['' | JObject es \<Rightarrow> c = CHR ''{'')"

lemma canonical_start:
  assumes "wf_json v"
  obtains c r where "canonicalJson v = c # r" "json_start v c"
proof (cases v)
  case (JNumber s)
  then show thesis using assms that [of "hd s" "tl s"] by (auto simp: json_start_def)
next
  case (JBool b)
  then show thesis using that by (cases b) (auto simp: json_start_def)
qed (use that in \<open>auto simp: json_start_def json_string_def\<close>)

text \<open>Two values that begin alike are built alike.\<close>

lemma start_char:
  "json_start v c \<Longrightarrow> c \<notin> set '']},:''"
  by (cases v) (auto simp: json_start_def is_num_start_def split: if_splits)

lemma canonical_hd: "wf_json v \<Longrightarrow> canonicalJson v \<noteq> [] \<and> hd (canonicalJson v) \<notin> set '']},:''"
  using start_char by (elim canonical_start) auto

lemma wf_entries: "wf_json (JObject es) \<Longrightarrow> (k, v) \<in> set (sorted_entries es) \<Longrightarrow> wf_json v"
  by (auto simp: list_all_iff)

lemma same_start:
  assumes "canonicalJson v @ x = canonicalJson w @ y" "wf_json v" "wf_json w"
  obtains c where "json_start v c" "json_start w c"
proof -
  obtain a r where a: "canonicalJson v = a # r" "json_start v a" by (rule canonical_start [OF assms(2)])
  obtain b u where b: "canonicalJson w = b # u" "json_start w b" by (rule canonical_start [OF assms(3)])
  from assms(1) a b show thesis using that [of a] by simp
qed

fun is_leaf :: "json \<Rightarrow> bool" where
  "is_leaf (JArray vs) = False" | "is_leaf (JObject es) = False" | "is_leaf _ = True"

lemma leaf_cancel:
  assumes "is_leaf v" "wf_json v" "wf_json w" "canonicalJson v @ x = canonicalJson w @ y" "delim x" "delim y"
  shows "content_of v = content_of w \<and> x = y"
proof -
  obtain c where c: "json_start v c" "json_start w c" by (rule same_start [OF assms(4,2,3)])
  note starts = json_start_def is_num_start_def
  show ?thesis
  proof (cases v)
    case (JBool b)
    then show ?thesis using c assms by (cases w; cases b) (auto simp: starts split: if_splits)
  next
    case (JNumber s)
    then obtain t where "w = JNumber t" using c by (cases w) (auto simp: starts split: if_splits)
    then show ?thesis using JNumber assms numeral_cancel [of s t x y] by simp
  next
    case (JString s)
    then obtain t where "w = JString t" using c by (cases w) (auto simp: starts split: if_splits)
    then show ?thesis using JString assms json_string_cancel [of s x t y] by simp
  qed (use c assms in \<open>cases w; auto simp: starts split: if_splits\<close>)+
qed

lemma canonicalJson_cancel:
  "\<lbrakk>wf_json v; wf_json w; canonicalJson v @ x = canonicalJson w @ y; delim x; delim y\<rbrakk>
    \<Longrightarrow> content_of v = content_of w \<and> x = y"
proof (induction v arbitrary: w x y rule: canonicalJson.induct)
  case (6 vs)
  obtain c where "json_start (JArray vs) c" "json_start w c" by (rule same_start [OF 6(4) 6(2,3)])
  then obtain ws where w: "w = JArray ws"
    by (cases w) (auto simp: json_start_def is_num_start_def split: if_splits)
  have wf: "a \<in> set vs \<union> set ws \<Longrightarrow> wf_json a" for a using 6(2,3) w by (auto simp: list_all_iff)
  have elem: "content_of a = content_of b \<and> x = y"
    if "a \<in> set vs" "b \<in> set ws" "canonicalJson a @ x = canonicalJson b @ y" "delim x" "delim y"
    for a b x y
    using 6(1) [OF that(1) _ _ that(3-5)] wf that(1,2) by simp
  have "map content_of vs = map content_of ws \<and> x = y"
  proof (rule seq_cancel [where f = canonicalJson and c = "CHR '']''", OF elem])
    show "canonicalJson a \<noteq> [] \<and> hd (canonicalJson a) \<noteq> CHR '']''" if "a \<in> set vs \<union> set ws" for a
      using canonical_hd [OF wf [OF that]] by simp
    show "join '','' (map canonicalJson vs) @ CHR '']'' # x = join '','' (map canonicalJson ws) @ CHR '']'' # y"
      using 6(4) w by simp
  qed simp_all
  then show ?case using w by simp
next
  case (7 es)
  obtain c where "json_start (JObject es) c" "json_start w c" by (rule same_start [OF 7(4) 7(2,3)])
  then obtain fs where w: "w = JObject fs"
    by (cases w) (auto simp: json_start_def is_num_start_def split: if_splits)
  let ?f = "\<lambda>(k, v). json_string k @ '':'' @ canonicalJson v"
  let ?h = "\<lambda>(k, v). (k, content_of v)"
  have elem: "?h p = ?h q \<and> x = y"
    if pq: "p \<in> set (sorted_entries es)" "q \<in> set (sorted_entries fs)" and eq: "?f p @ x = ?f q @ y"
      and d: "delim x" "delim y" for p q x y
  proof -
    obtain k a where p: "p = (k, a)" by (cases p)
    obtain l b where q: "q = (l, b)" by (cases q)
    have "k = l \<and> '':'' @ canonicalJson a @ x = '':'' @ canonicalJson b @ y"
      by (rule json_string_cancel) (use eq p q in simp)
    moreover have "content_of a = content_of b \<and> x = y"
      if "canonicalJson a @ x = canonicalJson b @ y"
    proof (rule 7(1) [OF pq(1) p [symmetric] _ _ that d])
      show "wf_json a" by (rule wf_entries [OF 7(2), where k = k]) (use pq(1) p in simp)
      show "wf_json b" by (rule wf_entries [OF 7(3) [unfolded w], where k = l]) (use pq(2) q in simp)
    qed
    ultimately show ?thesis using p q by simp
  qed
  have "map ?h (sorted_entries es) = map ?h (sorted_entries fs) \<and> x = y"
  proof (rule seq_cancel [where f = ?f and c = "CHR ''}''", OF elem])
    show "?f p \<noteq> [] \<and> hd (?f p) \<noteq> CHR ''}''" for p by (cases p) (simp add: json_string_def)
    show "join '','' (map ?f (sorted_entries es)) @ CHR ''}'' # x =
        join '','' (map ?f (sorted_entries fs)) @ CHR ''}'' # y"
      using 7(4) w by simp
  qed simp_all
  then show ?case using w by simp
qed (rule leaf_cancel; simp)+

text \<open>And a finite map determines its sorted list of entries.\<close>

lemma map_of_list:
  assumes "distinct (map fst xs)"
  shows "xs = map (\<lambda>k. (k, the (map_of xs k))) (map fst xs)"
proof (rule nth_equalityI)
  fix i
  assume i: "i < length xs"
  have "map_of xs (fst (xs ! i)) = Some (snd (xs ! i))"
    using i by (intro map_of_is_SomeI [OF assms]) simp
  then show "xs ! i = map (\<lambda>k. (k, the (map_of xs k))) (map fst xs) ! i" using i by (simp add: prod_eq_iff)
qed simp

lemma sorted_map_of_inject:
  fixes xs ys :: "('a :: linorder \<times> 'b) list"
  assumes "map_of xs = map_of ys" "distinct (map fst xs)" "distinct (map fst ys)"
    "sorted (map fst xs)" "sorted (map fst ys)"
  shows "xs = ys"
proof -
  have "set (map fst xs) = set (map fst ys)"
    using assms(1) dom_map_of_conv_image_fst [of xs] dom_map_of_conv_image_fst [of ys] by simp
  then have "map fst xs = map fst ys" using assms(2-5) by (intro sorted_distinct_set_unique)
  then show ?thesis using map_of_list [OF assms(2)] map_of_list [OF assms(3)] assms(1) by simp
qed

lemma map_hom:
  assumes "map h vs = map h ws" "\<And>v w. v \<in> set vs \<Longrightarrow> w \<in> set ws \<Longrightarrow> h v = h w \<Longrightarrow> f v = f w"
  shows "map f vs = map f ws"
  using assms by (intro nth_equalityI) (auto dest: map_eq_imp_length_eq simp: list_eq_iff_nth_eq)

lemma canonicalJson_content:
  "\<lbrakk>wf_json v; wf_json w; content_of v = content_of w\<rbrakk> \<Longrightarrow> canonicalJson v = canonicalJson w"
proof (induction v arbitrary: w rule: canonicalJson.induct)
  case (6 vs)
  then obtain ws where w: "w = JArray ws" by (cases w) auto
  have "map canonicalJson vs = map canonicalJson ws"
    by (rule map_hom [where h = content_of]) (use 6 w in \<open>auto simp: list_all_iff\<close>)
  then show ?case using w by simp
next
  case (7 es)
  then obtain fs where w: "w = JObject fs" by (cases w) auto
  let ?h = "\<lambda>(k, v). (k, content_of v)"
  have fst: "map fst (map ?h xs) = map fst xs" for xs by (induction xs) auto
  have eq: "map ?h (sorted_entries es) = map ?h (sorted_entries fs)"
    by (rule sorted_map_of_inject) (use 7(2-4) w in \<open>simp_all only: fst wf_json.simps
      content_of.simps content.inject sorted_entries_keys\<close>)
  have "map (\<lambda>(k, v). json_string k @ '':'' @ canonicalJson v) (sorted_entries es) =
      map (\<lambda>(k, v). json_string k @ '':'' @ canonicalJson v) (sorted_entries fs)"
  proof (rule map_hom [OF eq])
    fix p q
    assume pq: "p \<in> set (sorted_entries es)" "q \<in> set (sorted_entries fs)" "?h p = ?h q"
    obtain k a where p: "p = (k, a)" by (cases p)
    obtain l b where q: "q = (l, b)" by (cases q)
    have "canonicalJson a = canonicalJson b"
    proof (rule 7(1) [OF pq(1) p [symmetric]])
      show "wf_json a" by (rule wf_entries [OF 7(2), where k = k]) (use pq(1) p in simp)
      show "wf_json b" by (rule wf_entries [OF 7(3) [unfolded w], where k = l]) (use pq(2) q in simp)
      show "content_of a = content_of b" using pq(3) p q by simp
    qed
    then show "(case p of (k, v) \<Rightarrow> json_string k @ '':'' @ canonicalJson v) =
        (case q of (k, v) \<Rightarrow> json_string k @ '':'' @ canonicalJson v)"
      using pq(3) p q by simp
  qed
  then show ?case using w by simp
qed (case_tac w; simp)+

lemma canonicalJson_iff:
  assumes "wf_json v" "wf_json w"
  shows "canonicalJson v = canonicalJson w \<longleftrightarrow> content_of v = content_of w"
  using canonicalJson_cancel [OF assms, of "[]" "[]"] canonicalJson_content [OF assms]
  by (auto simp: delim_def)

subsection \<open>Numbers and objects built by the program\<close>

text \<open>\<open>Number::toString\<close> of an integer below \<open>10 ^ 21\<close> in absolute value.\<close>

definition int_text :: "int \<Rightarrow> string" where
  "int_text n = (if n < 0 then ''-'' else []) @ show_dec (nat \<bar>n\<bar>)"

definition json_int :: "int \<Rightarrow> json" where
  "json_int n = JNumber (int_text n)"

definition json_opt :: "('a \<Rightarrow> json) \<Rightarrow> 'a option \<Rightarrow> json" where
  "json_opt f v = (case v of None \<Rightarrow> JNull | Some x \<Rightarrow> f x)"

lemma content_json_opt:
  assumes "\<And>x y. content_of (f x) = content_of (f y) \<longleftrightarrow> x = y" "\<And>x. content_of (f x) \<noteq> CNull"
  shows "content_of (json_opt f u) = content_of (json_opt f v) \<longleftrightarrow> u = v"
  using assms(2) assms(2) [symmetric] by (cases u; cases v) (auto simp: json_opt_def assms(1))

text \<open>The content of an object, read off its entries.\<close>

lemma content_of_object:
  assumes "distinct (map fst es)" "\<And>k v. (k, v) \<in> set es \<Longrightarrow> v \<noteq> JUndefined"
  shows "content_of (JObject es) = CObject (\<lambda>k. map_option content_of (map_of es k))"
proof -
  have f: "filter (\<lambda>(k, v). v \<noteq> JUndefined) es = es" using assms(2) by (auto intro: filter_True)
  have "map_of (sorted_entries es) = map_of es"
    by (subst map_of_inject_set) (use assms(1) f sorted_entries_keys [OF assms(1)] in \<open>auto simp: sorted_entries_def\<close>)
  then show ?thesis by (simp add: map_of_map comp_def)
qed

lemma digit_codes: "48 \<le> n \<Longrightarrow> n \<le> 57 \<Longrightarrow> n \<in> {48, 49, 50, 51, 52, 53, 54, 55, 56, 57 :: nat}"
  by (simp only: insert_iff empty_iff) presburger

lemma digit_num_char: "is_digit c \<Longrightarrow> is_num_char c \<and> is_num_start c"
proof -
  assume "is_digit c"
  then have "(of_char c :: nat) \<in> {48, 49, 50, 51, 52, 53, 54, 55, 56, 57}"
    unfolding is_digit_def using digit_codes by blast
  also have "\<dots> = of_char ` set ''0123456789''" by simp
  finally have "c \<in> set ''0123456789''" by (auto simp: of_char_eq_iff simp del: list.set)
  then show ?thesis by (auto simp: is_num_char_def is_num_start_def)
qed

lemma wf_json_int [simp]: "wf_json (json_int n)"
proof -
  obtain c r where s: "show_dec (nat \<bar>n\<bar>) = c # r" using show_dec_all_digits(2) by (cases "show_dec (nat \<bar>n\<bar>)") auto
  have "\<forall>d \<in> set (show_dec (nat \<bar>n\<bar>)). is_digit d"
    using show_dec_all_digits(1) [of "nat \<bar>n\<bar>"] by (simp add: all_digits_def list_all_iff)
  then show ?thesis
    using s digit_num_char by (auto simp: json_int_def int_text_def list_all_iff is_num_char_def is_num_start_def)
qed

lemma int_text_inj: "int_text m = int_text n \<longleftrightarrow> m = n"
proof
  assume eq: "int_text m = int_text n"
  have dig: "hd (show_dec k) \<noteq> CHR ''-''" for k
    using show_dec_all_digits [of k] by (cases "show_dec k") (auto simp: is_digit_def)
  have "(m < 0) = (n < 0)"
    using eq dig [of "nat \<bar>m\<bar>"] dig [of "nat \<bar>n\<bar>"] by (auto simp: int_text_def split: if_splits)
      (metis append_Cons list.sel(1))+
  then have "show_dec (nat \<bar>m\<bar>) = show_dec (nat \<bar>n\<bar>)" using eq by (auto simp: int_text_def split: if_splits)
  then have "\<bar>m\<bar> = \<bar>n\<bar>" by (metis dec_val_show_dec int_nat_eq abs_ge_zero)
  then show "m = n" using \<open>(m < 0) = (n < 0)\<close> by arith
qed simp

lemma content_simps [simp]:
  "content_of (json_int m) = content_of (json_int n) \<longleftrightarrow> m = n"
  "content_of (JString s) = content_of (JString t) \<longleftrightarrow> s = t"
  "content_of (json_int m) \<noteq> CNull" "content_of (JString s) \<noteq> CNull"
  by (simp_all add: json_int_def int_text_inj)

lemma json_int_defined [simp]: "json_int n \<noteq> JUndefined"
  by (simp add: json_int_def)

lemma json_opt_wf: "(\<And>x. wf_json (f x)) \<Longrightarrow> wf_json (json_opt f v)"
  by (cases v) (simp_all add: json_opt_def)

lemma json_opt_defined: "(\<And>x. f x \<noteq> JUndefined) \<Longrightarrow> json_opt f v \<noteq> JUndefined"
  by (cases v) (simp_all add: json_opt_def)

lemma content_strings:
  "content_of (JArray (map JString xs)) = content_of (JArray (map JString ys)) \<longleftrightarrow> xs = ys"
  by (simp add: comp_def inj_map_eq_map inj_def)

subsection \<open>Reading stored JSON\<close>

text \<open>Reading a property of a value that is an object or an array: \<open>undefined\<close> when there is none.\<close>

fun json_get :: "json \<Rightarrow> string \<Rightarrow> json" where
  "json_get (JObject es) k = (case map_of es k of None \<Rightarrow> JUndefined | Some v \<Rightarrow> v)"
| "json_get _ k = JUndefined"

text \<open>The values JavaScript treats as true.\<close>

fun json_truthy :: "json \<Rightarrow> bool" where
  "json_truthy JUndefined = False"
| "json_truthy JNull = False"
| "json_truthy (JBool b) = b"
| "json_truthy (JNumber s) = (s \<noteq> ''0'')"
| "json_truthy (JString s) = (s \<noteq> [])"
| "json_truthy (JArray vs) = True"
| "json_truthy (JObject es) = True"

text \<open>\<open>JSON.parse(JSON.stringify(value))\<close>, with \<open>null\<close> for \<open>undefined\<close> itself.\<close>

fun json_roundtrip :: "json \<Rightarrow> json" where
  "json_roundtrip JUndefined = JNull"
| "json_roundtrip (JArray vs) = JArray (map json_roundtrip vs)"
| "json_roundtrip (JObject es) =
     JObject (map (\<lambda>(k, v). (k, json_roundtrip v)) (filter (\<lambda>(k, v). v \<noteq> JUndefined) es))"
| "json_roundtrip v = v"

end
