(* ===== verification/Errors.thy ===== *)
theory Errors
  imports Json
begin

text \<open>
  \<open>src/src/server/errors.ts\<close>: the application's error codes with what is known of the outcome, the
  error the code throws, and the body a response carries. \<open>fieldErrors\<close> and \<open>current\<close> are JSON.
\<close>

datatype knownOutcome = Not_applied | Outcome_applied | Unknown_outcome

fun knownOutcome_name :: "knownOutcome \<Rightarrow> string" where
  "knownOutcome_name Not_applied = ''not_applied''"
| "knownOutcome_name Outcome_applied = ''applied''"
| "knownOutcome_name Unknown_outcome = ''unknown''"

datatype errorCode = Err_validation_failed | Err_unauthenticated | Err_step_up_required
  | Err_forbidden | Err_butler_approval_required | Err_not_found | Err_cross_origin_request
  | Err_version_conflict | Err_idempotency_key_reused | Err_operation_pending | Err_outcome_unknown
  | Err_approval_stale | Err_publication_ineligible | Err_listing_unavailable
  | Err_transition_denied | Err_link_invalid | Err_link_expired | Err_link_consumed
  | Err_link_revoked | Err_invitation_expired | Err_invitation_used | Err_invitation_revoked
  | Err_passkey_failed | Err_rate_limited | Err_unavailable | Err_internal_error

definition errorCodes :: "errorCode list" where
  "errorCodes = [Err_validation_failed, Err_unauthenticated, Err_step_up_required, Err_forbidden,
     Err_butler_approval_required, Err_not_found, Err_cross_origin_request, Err_version_conflict,
     Err_idempotency_key_reused, Err_operation_pending, Err_outcome_unknown, Err_approval_stale,
     Err_publication_ineligible, Err_listing_unavailable, Err_transition_denied, Err_link_invalid,
     Err_link_expired, Err_link_consumed, Err_link_revoked, Err_invitation_expired,
     Err_invitation_used, Err_invitation_revoked, Err_passkey_failed, Err_rate_limited,
     Err_unavailable, Err_internal_error]"

primrec error_name :: "errorCode \<Rightarrow> string" where
  "error_name Err_validation_failed = ''validation_failed''"
| "error_name Err_unauthenticated = ''unauthenticated''"
| "error_name Err_step_up_required = ''step_up_required''"
| "error_name Err_forbidden = ''forbidden''"
| "error_name Err_butler_approval_required = ''butler_approval_required''"
| "error_name Err_not_found = ''not_found''"
| "error_name Err_cross_origin_request = ''cross_origin_request''"
| "error_name Err_version_conflict = ''version_conflict''"
| "error_name Err_idempotency_key_reused = ''idempotency_key_reused''"
| "error_name Err_operation_pending = ''operation_pending''"
| "error_name Err_outcome_unknown = ''outcome_unknown''"
| "error_name Err_approval_stale = ''approval_stale''"
| "error_name Err_publication_ineligible = ''publication_ineligible''"
| "error_name Err_listing_unavailable = ''listing_unavailable''"
| "error_name Err_transition_denied = ''transition_denied''"
| "error_name Err_link_invalid = ''link_invalid''"
| "error_name Err_link_expired = ''link_expired''"
| "error_name Err_link_consumed = ''link_consumed''"
| "error_name Err_link_revoked = ''link_revoked''"
| "error_name Err_invitation_expired = ''invitation_expired''"
| "error_name Err_invitation_used = ''invitation_used''"
| "error_name Err_invitation_revoked = ''invitation_revoked''"
| "error_name Err_passkey_failed = ''passkey_failed''"
| "error_name Err_rate_limited = ''rate_limited''"
| "error_name Err_unavailable = ''unavailable''"
| "error_name Err_internal_error = ''internal_error''"

fun error_standard :: "errorCode \<Rightarrow> string option" where
  "error_standard Err_validation_failed = Some ''VALIDATION_FAILED''"
| "error_standard Err_unauthenticated = None"
| "error_standard Err_step_up_required = None"
| "error_standard Err_forbidden = Some ''NOT_AUTHORIZED''"
| "error_standard Err_butler_approval_required = None"
| "error_standard Err_not_found = None"
| "error_standard Err_cross_origin_request = None"
| "error_standard Err_version_conflict = Some ''REVISION_CONFLICT''"
| "error_standard Err_idempotency_key_reused = None"
| "error_standard Err_operation_pending = None"
| "error_standard Err_outcome_unknown = Some ''OUTCOME_UNKNOWN''"
| "error_standard Err_approval_stale = Some ''APPROVAL_STALE''"
| "error_standard Err_publication_ineligible = Some ''PUBLICATION_INELIGIBLE''"
| "error_standard Err_listing_unavailable = Some ''LISTING_UNAVAILABLE''"
| "error_standard Err_transition_denied = None"
| "error_standard Err_link_invalid = None"
| "error_standard Err_link_expired = None"
| "error_standard Err_link_consumed = None"
| "error_standard Err_link_revoked = None"
| "error_standard Err_invitation_expired = None"
| "error_standard Err_invitation_used = None"
| "error_standard Err_invitation_revoked = None"
| "error_standard Err_passkey_failed = None"
| "error_standard Err_rate_limited = Some ''RATE_LIMITED''"
| "error_standard Err_unavailable = Some ''DEPENDENCY_UNAVAILABLE''"
| "error_standard Err_internal_error = None"

primrec error_status :: "errorCode \<Rightarrow> int" where
  "error_status Err_validation_failed = 422"
| "error_status Err_unauthenticated = 401"
| "error_status Err_step_up_required = 401"
| "error_status Err_forbidden = 403"
| "error_status Err_butler_approval_required = 409"
| "error_status Err_not_found = 404"
| "error_status Err_cross_origin_request = 403"
| "error_status Err_version_conflict = 409"
| "error_status Err_idempotency_key_reused = 409"
| "error_status Err_operation_pending = 409"
| "error_status Err_outcome_unknown = 409"
| "error_status Err_approval_stale = 409"
| "error_status Err_publication_ineligible = 422"
| "error_status Err_listing_unavailable = 409"
| "error_status Err_transition_denied = 422"
| "error_status Err_link_invalid = 400"
| "error_status Err_link_expired = 410"
| "error_status Err_link_consumed = 410"
| "error_status Err_link_revoked = 410"
| "error_status Err_invitation_expired = 410"
| "error_status Err_invitation_used = 410"
| "error_status Err_invitation_revoked = 410"
| "error_status Err_passkey_failed = 400"
| "error_status Err_rate_limited = 429"
| "error_status Err_unavailable = 503"
| "error_status Err_internal_error = 500"

primrec error_message :: "errorCode \<Rightarrow> string" where
  "error_message Err_validation_failed = ''Some details need attention.''"
| "error_message Err_unauthenticated = ''Please sign in to continue.''"
| "error_message Err_step_up_required = ''Please confirm it is you before this action.''"
| "error_message Err_forbidden = ''You do not have permission for this action.''"
| "error_message Err_butler_approval_required = ''Butler did not take this step. An authorized staff member must do it manually.''"
| "error_message Err_not_found = ''We could not find this item.''"
| "error_message Err_cross_origin_request = ''This request did not come from this site.''"
| "error_message Err_version_conflict = ''Someone else changed this in the meantime. Review the latest version.''"
| "error_message Err_idempotency_key_reused = ''This request conflicts with an earlier one. Start again from the current page.''"
| "error_message Err_operation_pending = ''This request is still being processed.''"
| "error_message Err_outcome_unknown = ''We could not confirm whether this went through. We are checking it.''"
| "error_message Err_approval_stale = ''The approval this step relies on no longer matches the current version.''"
| "error_message Err_publication_ineligible = ''This listing cannot be published until its missing approvals are recorded.''"
| "error_message Err_listing_unavailable = ''This listing is not currently offered.''"
| "error_message Err_transition_denied = ''This step is not available for the item in its current state.''"
| "error_message Err_link_invalid = ''This sign-in link is not valid. Request a new one.''"
| "error_message Err_link_expired = ''This sign-in link has expired. Request a new one.''"
| "error_message Err_link_consumed = ''This sign-in link was already used. Request a new one if you are not signed in.''"
| "error_message Err_link_revoked = ''This sign-in link was withdrawn. Request a new one.''"
| "error_message Err_invitation_expired = ''This invitation has expired. Ask the person who invited you for a new one.''"
| "error_message Err_invitation_used = ''This invitation was already answered.''"
| "error_message Err_invitation_revoked = ''This invitation is no longer valid. A newer one may have replaced it.''"
| "error_message Err_passkey_failed = ''We could not verify this passkey. Try again or use an email link.''"
| "error_message Err_rate_limited = ''Too many attempts. Please wait a moment and try again.''"
| "error_message Err_unavailable = ''This service is temporarily unavailable. Please try again shortly.''"
| "error_message Err_internal_error = ''Something went wrong on our side.''"

definition error_retryable :: "errorCode \<Rightarrow> bool" where
  "error_retryable c = (c \<in> {Err_operation_pending, Err_rate_limited, Err_unavailable, Err_internal_error})"

definition error_outcome :: "errorCode \<Rightarrow> knownOutcome" where
  "error_outcome c = (if c \<in> {Err_operation_pending, Err_outcome_unknown, Err_internal_error} then Unknown_outcome else Not_applied)"

definition wireCode :: "errorCode \<Rightarrow> string" where
  "wireCode c = the_or (to_upper (error_name c)) (error_standard c)"

record appErrorOptions =
  aeo_fieldErrors :: "json option"
  aeo_retryAfterSeconds :: "int option"
  aeo_outcome :: "knownOutcome option"
  aeo_current :: "json option"

definition no_options :: appErrorOptions where
  "no_options = \<lparr>aeo_fieldErrors = None, aeo_retryAfterSeconds = None, aeo_outcome = None, aeo_current = None\<rparr>"

record appError =
  err_code :: errorCode
  err_status :: int
  err_retryable :: bool
  err_outcome :: knownOutcome
  err_fieldErrors :: "json option"
  err_retryAfterSeconds :: "int option"
  err_current :: "json option"

definition AppError :: "errorCode \<Rightarrow> appErrorOptions \<Rightarrow> appError" where
  "AppError c opts =
     \<lparr>err_code = c, err_status = error_status c, err_retryable = error_retryable c,
      err_outcome = the_or (error_outcome c) (aeo_outcome opts), err_fieldErrors = aeo_fieldErrors opts,
      err_retryAfterSeconds = aeo_retryAfterSeconds opts, err_current = aeo_current opts\<rparr>"

text \<open>What a function can throw: an application error, or anything else.\<close>

datatype thrown = ThrownApp appError | ThrownOther string

record errorBody =
  eb_code :: string
  eb_message :: string
  eb_fieldErrors :: "json option"
  eb_retryable :: bool
  eb_retryAfterSeconds :: "int option"
  eb_correlationId :: string
  eb_outcome :: knownOutcome
  eb_current :: "json option"

definition app_error_of :: "thrown \<Rightarrow> appError" where
  "app_error_of e = (case e of ThrownApp a \<Rightarrow> a | ThrownOther _ \<Rightarrow> AppError Err_internal_error no_options)"

definition toErrorBody :: "thrown \<Rightarrow> string \<Rightarrow> errorBody" where
  "toErrorBody e correlationId =
     (let a = app_error_of e
      in \<lparr>eb_code = wireCode (err_code a), eb_message = error_message (err_code a),
          eb_fieldErrors = err_fieldErrors a, eb_retryable = err_retryable a,
          eb_retryAfterSeconds = err_retryAfterSeconds a, eb_correlationId = correlationId,
          eb_outcome = err_outcome a, eb_current = err_current a\<rparr>)"

definition errorStatus :: "thrown \<Rightarrow> int" where
  "errorStatus e = (case e of ThrownApp a \<Rightarrow> err_status a | ThrownOther _ \<Rightarrow> 500)"

definition error_of_name :: "string \<Rightarrow> errorCode option" where
  "error_of_name s = List.find (\<lambda>c. error_name c = s) errorCodes"

lemma error_of_name [simp]: "error_of_name (error_name c) = Some c"
  by (cases c) (simp_all add: error_of_name_def errorCodes_def)

text \<open>What a detail of the program cannot leak: the body of anything else thrown is the same.\<close>

lemma toErrorBody_other: "toErrorBody (ThrownOther x) cid = toErrorBody (ThrownOther y) cid"
  by (simp add: toErrorBody_def app_error_of_def)

subsection \<open>Steps that may throw\<close>

definition plain_error :: "errorCode \<Rightarrow> thrown" where
  "plain_error code = ThrownApp (AppError code no_options)"

definition found :: "'a option \<Rightarrow> thrown + 'a" where
  "found v = (case v of None \<Rightarrow> Inl (plain_error Err_not_found) | Some x \<Rightarrow> Inr x)"

text \<open>\<open>proceed\<close> runs what follows unless something was thrown; \<open>require\<close> throws unless a test holds.\<close>

definition proceed :: "thrown + 'a \<Rightarrow> ('a \<Rightarrow> thrown + 'b) \<Rightarrow> thrown + 'b" where
  "proceed v f = (case v of Inl e \<Rightarrow> Inl e | Inr x \<Rightarrow> f x)"

definition require :: "bool \<Rightarrow> thrown \<Rightarrow> thrown + unit" where
  "require b e = (if b then Inr () else Inl e)"

lemma proceed_Inr [simp]: "proceed v f = Inr y \<longleftrightarrow> (\<exists>x. v = Inr x \<and> f x = Inr y)"
  by (cases v) (simp_all add: proceed_def)

lemma require_Inr [simp]: "require b e = Inr u \<longleftrightarrow> b"
  by (simp add: require_def)

lemma found_Inr [simp]: "found v = Inr x \<longleftrightarrow> v = Some x"
  by (cases v) (simp_all add: found_def)

end
