(* ===== verification/StateMachine.thy ===== *)
theory StateMachine
  imports Prelude
begin

text \<open>
  \<open>src/src/domain/state-machine.ts\<close>: the decisions every guard returns, the combinators the guards
  are written with, and the transition tables. A \<open>Machine\<close> object's methods \<open>check\<close> and
  \<open>isTerminal\<close> are functions of the machine here.
\<close>

datatype decision = Allowed | Denied string

definition denied :: "string \<Rightarrow> decision" where
  "denied code = Denied code"

text \<open>A check that is \<open>false\<close>, \<open>null\<close> or \<open>undefined\<close> is \<open>None\<close>: it denies nothing.\<close>

fun firstDenial :: "decision option list \<Rightarrow> decision" where
  "firstDenial [] = Allowed"
| "firstDenial (None # checks) = firstDenial checks"
| "firstDenial (Some Allowed # checks) = firstDenial checks"
| "firstDenial (Some (Denied code) # checks) = Denied code"

definition need :: "bool \<Rightarrow> string \<Rightarrow> decision" where
  "need condition code = (if condition then Allowed else denied code)"

record 's machine =
  states :: "'s list"
  transitions :: "'s \<Rightarrow> 's list"

definition defineMachine :: "'s list \<Rightarrow> ('s \<Rightarrow> 's list) \<Rightarrow> 's machine" where
  "defineMachine ss ts = \<lparr>states = ss, transitions = ts\<rparr>"

definition check :: "'s machine \<Rightarrow> 's \<Rightarrow> 's \<Rightarrow> decision" where
  "check m from to =
     (if from = to then denied ''no_change''
      else if to \<in> set (transitions m from) then Allowed
      else denied ''transition_not_allowed'')"

definition isTerminal :: "'s machine \<Rightarrow> 's \<Rightarrow> bool" where
  "isTerminal m s = (length (transitions m s) = 0)"

subsection \<open>Decisions\<close>

lemma need_Allowed [simp, guard_simps]: "need c code = Allowed \<longleftrightarrow> c"
  by (simp add: need_def denied_def)

lemma need_Denied [simp]: "need c code = Denied e \<longleftrightarrow> \<not> c \<and> e = code"
  by (auto simp: need_def denied_def)

lemma denied_not_Allowed [simp]: "denied code \<noteq> Allowed" "Allowed \<noteq> denied code"
  by (simp_all add: denied_def)

lemma firstDenial_Some [simp]:
  "firstDenial (Some d # ds) = (case d of Allowed \<Rightarrow> firstDenial ds | Denied c \<Rightarrow> Denied c)"
  by (cases d) simp_all

lemma firstDenial_Allowed_iff:
  "firstDenial ds = Allowed \<longleftrightarrow> (\<forall>d \<in> set ds. d = None \<or> d = Some Allowed)"
  by (induction ds rule: firstDenial.induct) auto

lemma case_decision_Allowed [guard_simps]:
  "(case d of Allowed \<Rightarrow> e | Denied c \<Rightarrow> Denied c) = Allowed \<longleftrightarrow> d = Allowed \<and> e = Allowed"
  by (cases d) auto

lemma not_Allowed_iff: "d \<noteq> Allowed \<longleftrightarrow> (\<exists>c. d = Denied c)"
  by (cases d) auto

text \<open>
  The first denial in the order the code lists its checks: all checks before it pass.
\<close>

lemma firstDenial_Denied_iff:
  "firstDenial ds = Denied c \<longleftrightarrow>
     (\<exists>as bs. ds = as @ Some (Denied c) # bs \<and> firstDenial as = Allowed)"
proof (induction ds rule: firstDenial.induct)
  case 1
  then show ?case by simp
next
  case (2 ds)
  show ?case
  proof
    assume "firstDenial (None # ds) = Denied c"
    with 2 obtain as bs where "ds = as @ Some (Denied c) # bs" "firstDenial as = Allowed" by auto
    then have "None # ds = (None # as) @ Some (Denied c) # bs" "firstDenial (None # as) = Allowed"
      by simp_all
    then show "\<exists>as bs. None # ds = as @ Some (Denied c) # bs \<and> firstDenial as = Allowed" by blast
  next
    assume "\<exists>as bs. None # ds = as @ Some (Denied c) # bs \<and> firstDenial as = Allowed"
    then show "firstDenial (None # ds) = Denied c" using 2 by (auto simp: Cons_eq_append_conv)
  qed
next
  case (3 ds)
  show ?case
  proof
    assume "firstDenial (Some Allowed # ds) = Denied c"
    with 3 obtain as bs where "ds = as @ Some (Denied c) # bs" "firstDenial as = Allowed" by auto
    then have "Some Allowed # ds = (Some Allowed # as) @ Some (Denied c) # bs"
      "firstDenial (Some Allowed # as) = Allowed"
      by simp_all
    then show "\<exists>as bs. Some Allowed # ds = as @ Some (Denied c) # bs \<and> firstDenial as = Allowed"
      by blast
  next
    assume "\<exists>as bs. Some Allowed # ds = as @ Some (Denied c) # bs \<and> firstDenial as = Allowed"
    then show "firstDenial (Some Allowed # ds) = Denied c" using 3
      by (auto simp: Cons_eq_append_conv)
  qed
next
  case (4 e ds)
  then show ?case by (auto simp: Cons_eq_append_conv)
qed

subsection \<open>Tables\<close>

lemma check_Allowed_iff: "check m a b = Allowed \<longleftrightarrow> a \<noteq> b \<and> b \<in> set (transitions m a)"
  by (simp add: check_def)

lemma defineMachine_sel [simp]:
  "states (defineMachine ss ts) = ss" "transitions (defineMachine ss ts) = ts"
  by (simp_all add: defineMachine_def)

lemma isTerminal_iff: "isTerminal m s \<longleftrightarrow> transitions m s = []"
  by (simp add: isTerminal_def)

text \<open>
  A table is well formed when it lists each state once, leads only to listed states, never lists
  a state as its own target, and lists no target twice.
\<close>

definition wf_machine :: "'s machine \<Rightarrow> bool" where
  "wf_machine m \<longleftrightarrow> distinct (states m) \<and>
     list_all (\<lambda>s. distinct (transitions m s) \<and> s \<notin> set (transitions m s) \<and>
       list_all (\<lambda>t. t \<in> set (states m)) (transitions m s)) (states m)"

text \<open>The states a record can be in after a sequence of moves the table allows.\<close>

inductive reaches :: "'s machine \<Rightarrow> 's \<Rightarrow> 's \<Rightarrow> bool" for m where
  reaches_refl: "reaches m s s"
| reaches_step: "reaches m s t \<Longrightarrow> check m t u = Allowed \<Longrightarrow> reaches m s u"

lemma reaches_trans:
  assumes "reaches m s t" "reaches m t u"
  shows "reaches m s u"
  using assms(2,1) by (induction rule: reaches.induct) (auto intro: reaches.intros)

lemma reaches_terminal:
  assumes "reaches m s t" "isTerminal m s"
  shows "t = s"
  using assms by (induction rule: reaches.induct) (auto simp: check_Allowed_iff isTerminal_iff)

lemma reaches_listed:
  assumes "reaches m s t" "wf_machine m" "s \<in> set (states m)"
  shows "t \<in> set (states m)"
  using assms
  by (induction rule: reaches.induct) (auto simp: wf_machine_def check_Allowed_iff list_all_iff)

text \<open>A set of states the table never leaves contains everything reachable from inside it.\<close>

lemma reaches_closed:
  assumes "reaches m s t" "s \<in> A"
    and closed: "\<And>x y. x \<in> A \<Longrightarrow> y \<in> set (transitions m x) \<Longrightarrow> y \<in> A"
  shows "t \<in> A"
  using assms(1,2)
  by (induction rule: reaches.induct) (auto simp: check_Allowed_iff intro: closed)

end
