(* ===== verification/Dates.thy ===== *)
theory Dates
  imports Decimal
begin

text \<open>
  The part of JavaScript's \<open>Date\<close> the program computes with: \<open>Date.UTC\<close>, \<open>Date.parse\<close> and
  \<open>toISOString\<close>. A time value is the integer of milliseconds since 1970-01-01T00:00:00Z, an invalid
  one (\<open>NaN\<close>) is \<open>None\<close>. \<open>Date.parse\<close> reads the ECMAScript date-time format with years of four
  digits, as V8 does: a day of month up to 31 is accepted and normalised (30 February is
  2 March), fraction digits beyond the third are dropped, and a date-time without an offset is read in
  the process's zone, which is UTC in the deployed container. Every other text is invalid.

  The lemmas show that the calendar functions invert each other on every day and that
  \<open>Date.parse\<close> reads back what \<open>toISOString\<close> prints.
\<close>

subsection \<open>The calendar\<close>

definition day_ms :: int where "day_ms = 86400000"

definition leap :: "int \<Rightarrow> bool" where
  "leap y = (y mod 4 = 0 \<and> (y mod 100 \<noteq> 0 \<or> y mod 400 = 0))"

definition day_from_year :: "int \<Rightarrow> int" where
  "day_from_year y = 365 * (y - 1970) + (y - 1969) div 4 - (y - 1901) div 100 + (y - 1601) div 400"

text \<open>Days of the year before month \<open>m\<close>, counted from 0 for January.\<close>

definition days_before_month :: "bool \<Rightarrow> int \<Rightarrow> int" where
  "days_before_month lp m =
     (if m \<le> 0 then 0 else if m = 1 then 31
      else (if lp then 1 else 0) +
        (if m = 2 then 59 else if m = 3 then 90 else if m = 4 then 120 else if m = 5 then 151
         else if m = 6 then 181 else if m = 7 then 212 else if m = 8 then 243
         else if m = 9 then 273 else if m = 10 then 304 else if m = 11 then 334 else 365))"

text \<open>\<open>MakeDay\<close>: months outside 0..11 carry into the year, days outside the month carry on.\<close>

definition make_day :: "int \<Rightarrow> int \<Rightarrow> int \<Rightarrow> int" where
  "make_day y m d = (let ym = y + m div 12; mn = m mod 12
     in day_from_year ym + days_before_month (leap ym) mn + d - 1)"

text \<open>\<open>Date.UTC\<close>, whose years 0 to 99 mean 1900 to 1999.\<close>

definition date_utc :: "int \<Rightarrow> int \<Rightarrow> int \<Rightarrow> int \<Rightarrow> int \<Rightarrow> int \<Rightarrow> int" where
  "date_utc y m d h mi s =
     make_day (if 0 \<le> y \<and> y \<le> 99 then 1900 + y else y) m d * day_ms
       + h * 3600000 + mi * 60000 + s * 1000"

definition year_of_day :: "int \<Rightarrow> int" where
  "year_of_day d = (let y = 1970 + (400 * d) div 146097
     in if day_from_year (y + 1) \<le> d then y + 1 else if day_from_year y \<le> d then y else y - 1)"

definition month_of :: "bool \<Rightarrow> int \<Rightarrow> int" where
  "month_of lp n =
     (let b = days_before_month lp
      in if n < b 1 then 0 else if n < b 2 then 1 else if n < b 3 then 2 else if n < b 4 then 3
         else if n < b 5 then 4 else if n < b 6 then 5 else if n < b 7 then 6
         else if n < b 8 then 7 else if n < b 9 then 8 else if n < b 10 then 9
         else if n < b 11 then 10 else 11)"

text \<open>Year, month (from 0) and day of the month (from 1) of a day number.\<close>

definition civil_of_day :: "int \<Rightarrow> int \<times> int \<times> int" where
  "civil_of_day d = (let y = year_of_day d; n = d - day_from_year y; m = month_of (leap y) n
     in (y, m, n - days_before_month (leap y) m + 1))"

lemma day_from_year_bounds:
  "146097 * (y - 1970) - 1000 \<le> 400 * day_from_year y"
  "400 * day_from_year y \<le> 146097 * (y - 1970) + 1000"
  using div_bounds [of 4 "y - 1969"] div_bounds [of 100 "y - 1901"] div_bounds [of 400 "y - 1601"]
  by (simp_all add: day_from_year_def)

lemma div_step:
  fixes a k :: int
  assumes "0 < k"
  shows "a div k = (a - 1) div k + (if a mod k = 0 then 1 else 0)"
proof (cases "a mod k = 0")
  case True
  have "(a - 1) div k = a div k - 1"
  proof (rule int_div_pos_eq)
    show "a - 1 = k * (a div k - 1) + (k - 1)"
      using mult_div_mod_eq [of k a] True by (simp add: algebra_simps)
  qed (use assms in auto)
  with True show ?thesis by simp
next
  case False
  have "(a - 1) div k = a div k"
  proof (rule int_div_pos_eq)
    show "a - 1 = k * (a div k) + (a mod k - 1)"
      using mult_div_mod_eq [of k a] by (simp add: algebra_simps)
    have "0 \<le> a mod k" "a mod k < k" using assms by simp_all
    with False show "0 \<le> a mod k - 1" "a mod k - 1 < k" by simp_all
  qed
  with False show ?thesis by simp
qed

lemma day_from_year_Suc: "day_from_year (y + 1) = day_from_year y + (if leap y then 366 else 365)"
proof -
  have m: "(y - 1968) mod 4 = y mod 4" "(y - 1900) mod 100 = y mod 100"
    "(y - 1600) mod 400 = y mod 400"
    unfolding mod_eq_dvd_iff by simp_all
  have e: "y - 1968 - 1 = y - 1969" "y - 1900 - 1 = y - 1901" "y - 1600 - 1 = y - 1601" by simp_all
  have 4: "(y - 1968) div 4 = (y - 1969) div 4 + (if y mod 4 = 0 then 1 else 0)"
    by (rule div_step [of 4 "y - 1968", OF zero_less_numeral, unfolded m e])
  have 100: "(y - 1900) div 100 = (y - 1901) div 100 + (if y mod 100 = 0 then 1 else 0)"
    by (rule div_step [of 100 "y - 1900", OF zero_less_numeral, unfolded m e])
  have 400: "(y - 1600) div 400 = (y - 1601) div 400 + (if y mod 400 = 0 then 1 else 0)"
    by (rule div_step [of 400 "y - 1600", OF zero_less_numeral, unfolded m e])
  have "(100::int) dvd 400" "(4::int) dvd 100" by simp_all
  then have d: "y mod 400 = 0 \<longrightarrow> y mod 100 = 0" "y mod 100 = 0 \<longrightarrow> y mod 4 = 0"
    unfolding mod_eq_0_iff_dvd by (blast intro: dvd_trans)+
  define a b c where "a = (y - 1969) div 4" and "b = (y - 1901) div 100" and "c = (y - 1601) div 400"
  have "day_from_year y = 365 * (y - 1970) + a - b + c"
    by (simp add: day_from_year_def a_def b_def c_def)
  moreover have "day_from_year (y + 1) = 365 * (y + 1 - 1970) +
      (a + (if y mod 4 = 0 then 1 else 0)) - (b + (if y mod 100 = 0 then 1 else 0)) +
      (c + (if y mod 400 = 0 then 1 else 0))"
    by (simp only: day_from_year_def a_def b_def c_def 4 [symmetric] 100 [symmetric] 400 [symmetric])
      simp
  ultimately show ?thesis using d by (auto simp: leap_def algebra_simps simp del: mod_eq_0_iff_dvd)
qed

lemma day_from_year_mono: "a \<le> b \<Longrightarrow> day_from_year a \<le> day_from_year b"
proof (induction b rule: int_ge_induct)
  case base
  then show ?case by simp
next
  case (step i)
  then show ?case by (simp add: day_from_year_Suc)
qed

lemma year_of_day:
  "day_from_year (year_of_day d) \<le> d" "d < day_from_year (year_of_day d + 1)"
proof -
  define y where "y = 1970 + (400 * d) div 146097"
  have b: "146097 * (y - 1970) \<le> 400 * d" "400 * d < 146097 * (y - 1970) + 146097"
    using div_bounds [of 146097 "400 * d"] by (simp_all add: y_def)
  have lo: "day_from_year (y - 1) \<le> d"
    using b(1) day_from_year_bounds(2) [of "y - 1"] by (simp add: algebra_simps)
  have hi: "d < day_from_year (y + 2)"
    using b(2) day_from_year_bounds(1) [of "y + 2"] by (simp add: algebra_simps)
  have "year_of_day d =
      (if day_from_year (y + 1) \<le> d then y + 1 else if day_from_year y \<le> d then y else y - 1)"
    by (simp only: year_of_day_def y_def Let_def)
  then show "day_from_year (year_of_day d) \<le> d" "d < day_from_year (year_of_day d + 1)"
    using lo hi by (auto simp: add.commute)
qed

lemma day_in_year:
  fixes d :: int
  defines "n \<equiv> d - day_from_year (year_of_day d)"
  shows "0 \<le> n" "n < (if leap (year_of_day d) then 366 else 365)"
  using year_of_day [of d] by (simp_all add: n_def day_from_year_Suc)

lemma month_of_bounds:
  assumes "0 \<le> n" "n < (if lp then 366 else 365)"
  shows "0 \<le> month_of lp n" "month_of lp n \<le> 11"
    and "days_before_month lp (month_of lp n) \<le> n"
    and "n < days_before_month lp (month_of lp n + 1)"
  using assms by (cases lp; simp add: month_of_def days_before_month_def Let_def)+

theorem make_day_civil:
  assumes "civil_of_day d = (y, m, dy)"
  shows "make_day y m dy = d" "0 \<le> m" "m \<le> 11" "1 \<le> dy" "dy \<le> 31"
proof -
  define n where "n = d - day_from_year (year_of_day d)"
  have n: "0 \<le> n" "n < (if leap (year_of_day d) then 366 else 365)"
    using day_in_year [of d] by (simp_all add: n_def)
  note mb = month_of_bounds [OF n]
  have c: "y = year_of_day d" "m = month_of (leap y) n" "dy = n - days_before_month (leap y) m + 1"
    using assms by (auto simp: civil_of_day_def Let_def n_def)
  show m: "0 \<le> m" "m \<le> 11" using mb c by auto
  then show "make_day y m dy = d" using c by (simp add: make_day_def Let_def n_def)
  show "1 \<le> dy" using mb c by simp
  have "days_before_month (leap y) (m + 1) - days_before_month (leap y) m \<le> 31"
    using m by (auto simp: days_before_month_def)
  then show "dy \<le> 31" using mb(4) c by simp
qed

subsection \<open>Reading and printing digits\<close>

text \<open>Exactly \<open>n\<close> digits at the front of a text, and what follows them.\<close>

fun read_digits :: "nat \<Rightarrow> int \<Rightarrow> string \<Rightarrow> (int \<times> string) option" where
  "read_digits 0 acc s = Some (acc, s)"
| "read_digits (Suc n) acc [] = None"
| "read_digits (Suc n) acc (c # s) =
     (if is_digit c then read_digits n (10 * acc + digit_val c) s else None)"

fun read_char :: "char \<Rightarrow> string \<Rightarrow> string option" where
  "read_char c [] = None"
| "read_char c (d # s) = (if c = d then Some s else None)"

definition show2 :: "int \<Rightarrow> string" where
  "show2 n = [digit_char (n div 10 mod 10), digit_char (n mod 10)]"

definition show3 :: "int \<Rightarrow> string" where
  "show3 n = [digit_char (n div 100 mod 10), digit_char (n div 10 mod 10), digit_char (n mod 10)]"

definition show4 :: "int \<Rightarrow> string" where
  "show4 n = [digit_char (n div 1000 mod 10), digit_char (n div 100 mod 10),
     digit_char (n div 10 mod 10), digit_char (n mod 10)]"

lemma mod10_digit [simp]: "0 \<le> n mod (10::int)" "n mod (10::int) \<le> 9"
  by (simp_all add: int_one_le_iff_zero_less zle_diff1_eq [symmetric])

text \<open>The decimal digits of a number, one \<open>div\<close> at a time.\<close>

lemma digits_of:
  fixes n :: int
  assumes "0 \<le> n"
  obtains q r where "n div 10 = q" "n mod 10 = r" "n = 10 * q + r" "0 \<le> q" "0 \<le> r" "r \<le> 9"
proof (rule that [of "n div 10" "n mod 10"])
  show "n = 10 * (n div 10) + n mod 10" by simp
  show "0 \<le> n div 10" using assms by (simp add: pos_imp_zdiv_nonneg_iff)
qed simp_all

lemma read_show2:
  assumes "0 \<le> n" "n \<le> 99"
  shows "read_digits 2 0 (show2 n @ s) = Some (n, s)"
proof -
  obtain q r where q: "n div 10 = q" "n mod 10 = r" "n = 10 * q + r" "0 \<le> q" "0 \<le> r"
    using digits_of [OF assms(1)] by metis
  then have "q mod 10 = q" using assms(2) by simp
  with q show ?thesis using mod10_digit [of n] mod10_digit [of q]
    by (simp add: show2_def numeral_2_eq_2)
qed

lemma read_show3:
  assumes "0 \<le> n" "n \<le> 999"
  shows "read_digits 3 0 (show3 n @ s) = Some (n, s)"
proof -
  obtain q r where q: "n div 10 = q" "n mod 10 = r" "n = 10 * q + r" "0 \<le> q"
    using digits_of [OF assms(1)] by metis
  obtain q' r' where q': "q div 10 = q'" "q mod 10 = r'" "q = 10 * q' + r'" "0 \<le> q'" "0 \<le> r'"
    using digits_of [OF q(4)] by metis
  have "0 \<le> r" using q(2) by force
  then have small: "q' mod 10 = q'" using assms q q' by simp
  have "n div 100 = q'" using q(1) q'(1) zdiv_zmult2_eq [of 10 n 10] by simp
  with q q' small show ?thesis
    using mod10_digit [of n] mod10_digit [of q] mod10_digit [of q']
    by (simp add: show3_def numeral_3_eq_3)
qed

lemma read_show4:
  assumes "0 \<le> n" "n \<le> 9999"
  shows "read_digits 4 0 (show4 n @ s) = Some (n, s)"
proof -
  obtain q r where q: "n div 10 = q" "n mod 10 = r" "n = 10 * q + r" "0 \<le> q" "0 \<le> r"
    using digits_of [OF assms(1)] by metis
  have q_le: "q \<le> 999" using q assms by simp
  have eq: "n div 100 = q div 10" "n div 1000 = q div 100"
    using q(1) zdiv_zmult2_eq [of 10 n 10] zdiv_zmult2_eq [of 100 n 10] by simp_all
  have "read_digits 3 0 (show3 q @ (digit_char r # s)) = Some (q, digit_char r # s)"
    by (rule read_show3) (use q(4) q_le in auto)
  moreover have "show4 n = show3 q @ [digit_char r]"
    by (simp add: show4_def show3_def eq q(1,2))
  moreover have "read_digits 4 0 (show3 q @ digit_char r # s) =
      (case read_digits 3 0 (show3 q @ digit_char r # s) of None \<Rightarrow> None
        | Some (a, t) \<Rightarrow> read_digits 1 a t)"
    by (simp add: show3_def eval_nat_numeral)
  ultimately show ?thesis
    using q mod10_digit [of n] by simp
qed

subsection \<open>toISOString\<close>

definition clock_ms :: "int \<Rightarrow> int \<Rightarrow> int \<Rightarrow> int \<Rightarrow> int" where
  "clock_ms h mi s ms = h * 3600000 + mi * 60000 + s * 1000 + ms"

definition show_time :: "int \<Rightarrow> string" where
  "show_time t = show2 (t div 3600000) @ '':'' @ show2 (t div 60000 mod 60) @ '':'' @
     show2 (t div 1000 mod 60) @ ''.'' @ show3 (t mod 1000)"

definition show_date :: "int \<Rightarrow> string" where
  "show_date d = (case civil_of_day d of (y, m, dy) \<Rightarrow>
     (if 0 \<le> y \<and> y \<le> 9999 then show4 y
      else (if y < 0 then ''-'' else ''+'') @ show3 (\<bar>y\<bar> div 1000) @ show3 (\<bar>y\<bar> mod 1000))
     @ ''-'' @ show2 (m + 1) @ ''-'' @ show2 dy)"

definition to_iso :: "int \<Rightarrow> string" where
  "to_iso t = show_date (t div day_ms) @ ''T'' @ show_time (t mod day_ms) @ ''Z''"

subsection \<open>Date.parse\<close>

fun take_digit_run :: "string \<Rightarrow> string \<times> string" where
  "take_digit_run [] = ([], [])"
| "take_digit_run (c # s) =
     (if is_digit c then (case take_digit_run s of (ds, r) \<Rightarrow> (c # ds, r)) else ([], c # s))"

definition read_offset :: "string \<Rightarrow> int option" where
  "read_offset s = (case s of [] \<Rightarrow> Some 0
     | c # r \<Rightarrow>
        if c = CHR ''Z'' then (if r = [] then Some 0 else None)
        else if c = CHR ''+'' \<or> c = CHR ''-'' then
          Option.bind (read_digits 2 0 r) (\<lambda>(h, r1).
            Option.bind (read_char CHR '':'' r1) (\<lambda>r2.
              Option.bind (read_digits 2 0 r2) (\<lambda>(m, r3).
                if r3 = [] \<and> h \<le> 23 \<and> m \<le> 59
                then Some ((if c = CHR ''+'' then 1 else -1) * (h * 3600000 + m * 60000))
                else None)))
        else None)"

definition read_fraction :: "string \<Rightarrow> (int \<times> string) option" where
  "read_fraction s = (case s of [] \<Rightarrow> Some (0, s)
     | c # r \<Rightarrow> if c = CHR ''.'' then
           (case take_digit_run r of (ds, rest) \<Rightarrow>
              if ds = [] then None
              else map_option (\<lambda>(n, _). (n, rest)) (read_digits 3 0 (pad_end 3 (CHR ''0'') (take 3 ds))))
         else Some (0, s))"

definition read_seconds :: "string \<Rightarrow> (int \<times> int \<times> string) option" where
  "read_seconds s = (case read_char CHR '':'' s of None \<Rightarrow> Some (0, 0, s)
     | Some r \<Rightarrow> Option.bind (read_digits 2 0 r) (\<lambda>(sec, r1).
          map_option (\<lambda>(ms, r2). (sec, ms, r2)) (read_fraction r1)))"

definition read_clock :: "string \<Rightarrow> int option" where
  "read_clock s =
     Option.bind (read_digits 2 0 s) (\<lambda>(h, r1).
     Option.bind (read_char CHR '':'' r1) (\<lambda>r2.
     Option.bind (read_digits 2 0 r2) (\<lambda>(mi, r3).
     Option.bind (read_seconds r3) (\<lambda>(sec, ms, r4).
     Option.bind (read_offset r4) (\<lambda>off.
       if mi \<le> 59 \<and> sec \<le> 59 \<and> (h \<le> 23 \<or> h = 24 \<and> mi = 0 \<and> sec = 0 \<and> ms = 0)
       then Some (clock_ms h mi sec ms - off) else None)))))"

definition date_parse :: "string \<Rightarrow> int option" where
  "date_parse s =
     Option.bind (read_digits 4 0 s) (\<lambda>(y, r1).
       if r1 = [] then Some (make_day y 0 1 * day_ms)
       else Option.bind (read_char CHR ''-'' r1) (\<lambda>r2.
         Option.bind (read_digits 2 0 r2) (\<lambda>(mo, r3).
           if mo < 1 \<or> 12 < mo then None
           else if r3 = [] then Some (make_day y (mo - 1) 1 * day_ms)
           else Option.bind (read_char CHR ''-'' r3) (\<lambda>r4.
             Option.bind (read_digits 2 0 r4) (\<lambda>(d, r5).
               if d < 1 \<or> 31 < d then None
               else if r5 = [] then Some (make_day y (mo - 1) d * day_ms)
               else Option.bind (read_char CHR ''T'' r5) (\<lambda>r6.
                 map_option (\<lambda>c. make_day y (mo - 1) d * day_ms + c) (read_clock r6)))))))"

subsection \<open>Reading back what is printed\<close>

lemma read_char_Cons [simp]: "read_char c (c # s) = Some s"
  by simp

lemma digit_not_sep [simp]: "digit_char n \<noteq> CHR '':''" if "0 \<le> n" "n \<le> 9"
  using digit_char(1) [OF that] by (auto simp: is_digit_def)

lemma read_fraction_show3:
  assumes "0 \<le> ms" "ms \<le> 999"
  shows "read_fraction (''.'' @ show3 ms @ ''Z'') = Some (ms, ''Z'')"
proof -
  have "take_digit_run (show3 ms @ ''Z'') = (show3 ms, ''Z'')"
    by (simp add: show3_def is_digit_def [of "CHR ''Z''"])
  moreover have "show3 ms \<noteq> []" "take 3 (show3 ms) = show3 ms"
    "pad_end 3 (CHR ''0'') (show3 ms) = show3 ms"
    by (simp_all add: show3_def pad_end_def)
  ultimately show ?thesis
    using read_show3 [OF assms, of "[]"] by (simp add: read_fraction_def)
qed

lemma clock_parts:
  assumes "0 \<le> t" "t < day_ms"
  obtains h mi s ms where "t div 3600000 = h" "t div 60000 mod 60 = mi" "t div 1000 mod 60 = s"
    "t mod 1000 = ms" "0 \<le> h" "h \<le> 23" "0 \<le> mi" "mi \<le> 59" "0 \<le> s" "s \<le> 59" "0 \<le> ms" "ms \<le> 999"
    "clock_ms h mi s ms = t"
proof -
  define a where "a = t div 1000"
  define b where "b = a div 60"
  define h mi s ms where "h = b div 60" and "mi = b mod 60" and "s = a mod 60" and "ms = t mod 1000"
  have q: "t div 60000 = b" "t div 3600000 = h"
    using zdiv_zmult2_eq [of 60 t 1000] zdiv_zmult2_eq [of 3600 t 1000] zdiv_zmult2_eq [of 60 a 60]
    by (simp_all add: a_def b_def h_def)
  have e: "t = 1000 * a + ms" "a = 60 * b + s" "b = 60 * h + mi"
    by (simp_all add: a_def b_def h_def mi_def s_def ms_def)
  have r: "0 \<le> mi" "mi \<le> 59" "0 \<le> s" "s \<le> 59" "0 \<le> ms" "ms \<le> 999"
    using pos_mod_bound [of 60 b] pos_mod_bound [of 60 a] pos_mod_bound [of 1000 t]
    by (simp_all add: mi_def s_def ms_def)
  have h0: "0 \<le> h" using assms(1) q(2) by (simp add: pos_imp_zdiv_nonneg_iff)
  have c: "clock_ms h mi s ms = t" using e by (simp add: clock_ms_def)
  then have "h * 3600000 \<le> t" using r by (simp add: clock_ms_def)
  then have "h \<le> 23" using assms(2) by (simp add: day_ms_def)
  show thesis
    by (rule that [of h mi s ms])
      (simp_all add: q h0 \<open>h \<le> 23\<close> r c a_def [symmetric] mi_def [symmetric] s_def [symmetric]
        ms_def [symmetric])
qed

lemma read_clock_show:
  assumes "0 \<le> t" "t < day_ms"
  shows "read_clock (show_time t @ ''Z'') = Some t"
proof -
  obtain h mi s ms where d: "t div 3600000 = h" "t div 60000 mod 60 = mi" "t div 1000 mod 60 = s"
      "t mod 1000 = ms"
    and b: "0 \<le> h" "h \<le> 23" "0 \<le> mi" "mi \<le> 59" "0 \<le> s" "s \<le> 59" "0 \<le> ms" "ms \<le> 999"
    and c: "clock_ms h mi s ms = t"
    by (rule clock_parts [OF assms])
  have 1: "read_digits 2 0 (show2 h @ r) = Some (h, r)" for r by (rule read_show2) (use b in auto)
  have 2: "read_digits 2 0 (show2 mi @ r) = Some (mi, r)" for r by (rule read_show2) (use b in auto)
  have 3: "read_digits 2 0 (show2 s @ r) = Some (s, r)" for r by (rule read_show2) (use b in auto)
  have 4: "read_fraction (CHR ''.'' # show3 ms @ ''Z'') = Some (ms, ''Z'')"
    using read_fraction_show3 [of ms] b by simp
  have sec: "read_seconds (CHR '':'' # show2 s @ CHR ''.'' # show3 ms @ ''Z'') = Some (s, ms, ''Z'')"
    by (simp add: read_seconds_def 3 4)
  show ?thesis
    using b c by (simp add: show_time_def d read_clock_def 1 2 sec read_offset_def)
qed

theorem date_parse_to_iso:
  assumes "make_day 0 0 1 * day_ms \<le> t" "t < make_day 10000 0 1 * day_ms"
  shows "date_parse (to_iso t) = Some t"
proof -
  define d where "d = t div day_ms"
  obtain y m dy where c: "civil_of_day d = (y, m, dy)" by (metis prod_cases3)
  note md = make_day_civil [OF c]
  have dr: "day_from_year 0 \<le> d" "d < day_from_year 10000"
    using assms by (auto simp: d_def make_day_def day_ms_def days_before_month_def)
  have yy: "y = year_of_day d" using c by (simp add: civil_of_day_def Let_def)
  have "0 \<le> y"
  proof (rule ccontr)
    assume "\<not> 0 \<le> y"
    then have "day_from_year (y + 1) \<le> day_from_year 0" by (intro day_from_year_mono) simp
    then show False using year_of_day(2) [of d] dr(1) yy by simp
  qed
  have "y \<le> 9999"
  proof (rule ccontr)
    assume "\<not> y \<le> 9999"
    then have "day_from_year 10000 \<le> day_from_year y" by (intro day_from_year_mono) simp
    then show False using year_of_day(1) [of d] dr(2) yy by simp
  qed
  have tm: "0 \<le> t mod day_ms" "t mod day_ms < day_ms" by (simp_all add: day_ms_def)
  have split: "d * day_ms + t mod day_ms = t" by (simp add: d_def)
  have s: "to_iso t = show4 y @ ''-'' @ show2 (m + 1) @ ''-'' @ show2 dy @ ''T'' @
      show_time (t mod day_ms) @ ''Z''"
    using c \<open>0 \<le> y\<close> \<open>y \<le> 9999\<close> by (simp add: to_iso_def show_date_def d_def)
  have 1: "read_digits 2 0 (show2 (m + 1) @ r) = Some (m + 1, r)" for r
    using md by (intro read_show2) auto
  have 2: "read_digits 2 0 (show2 dy @ r) = Some (dy, r)" for r
    using md by (intro read_show2) auto
  have 3: "read_digits 4 0 (show4 y @ r) = Some (y, r)" for r
    using \<open>0 \<le> y\<close> \<open>y \<le> 9999\<close> by (intro read_show4) auto
  show ?thesis
    using md split read_clock_show [OF tm] by (simp add: s date_parse_def 1 2 3)
qed

subsection \<open>Comparing parsed instants\<close>

text \<open>\<open>Date.parse(a) < Date.parse(b)\<close> and the like: false when either side is \<open>NaN\<close>.\<close>

definition num_lt :: "int option \<Rightarrow> int option \<Rightarrow> bool" where
  "num_lt x y = (case x of None \<Rightarrow> False | Some a \<Rightarrow> (case y of None \<Rightarrow> False | Some b \<Rightarrow> a < b))"

definition num_le :: "int option \<Rightarrow> int option \<Rightarrow> bool" where
  "num_le x y = (case x of None \<Rightarrow> False | Some a \<Rightarrow> (case y of None \<Rightarrow> False | Some b \<Rightarrow> a \<le> b))"

definition date_lt :: "string \<Rightarrow> string \<Rightarrow> bool" where
  "date_lt a b = num_lt (date_parse a) (date_parse b)"

definition date_le :: "string \<Rightarrow> string \<Rightarrow> bool" where
  "date_le a b = num_le (date_parse a) (date_parse b)"

definition date_ge :: "string \<Rightarrow> string \<Rightarrow> bool" where
  "date_ge a b = num_le (date_parse b) (date_parse a)"

lemma num_simps [simp, js_simps]:
  "num_lt None y = False" "num_lt x None = False" "num_lt (Some a) (Some b) = (a < b)"
  "num_le None y = False" "num_le x None = False" "num_le (Some a) (Some b) = (a \<le> b)"
  by (auto simp: num_lt_def num_le_def split: option.splits)

lemma date_ge_not_lt:
  assumes "date_parse a = Some x" "date_parse b = Some y"
  shows "date_ge a b \<longleftrightarrow> \<not> date_lt a b"
  using assms by (auto simp: date_ge_def date_lt_def)

end
