(* ===== verification/Ids.thy ===== *)
theory Ids
  imports Decimal
begin

text \<open>
  \<open>src/src/domain/ids.ts\<close>: human references, locales and currencies. A reference is formatted from
  its kind and number, and read back from what a person typed. Formatting throws on a number that
  is not a positive safe integer (\<open>None\<close>).
\<close>

datatype referenceKind = Ref_listing | Ref_property | Ref_inquiry | Ref_case | Ref_appointment
  | Ref_proposal | Ref_document | Ref_seller_instruction | Ref_privacy_request | Ref_complaint
  | Ref_key_set | Ref_import_batch

definition referenceKinds :: "referenceKind list" where
  "referenceKinds = [Ref_listing, Ref_property, Ref_inquiry, Ref_case, Ref_appointment,
     Ref_proposal, Ref_document, Ref_seller_instruction, Ref_privacy_request, Ref_complaint,
     Ref_key_set, Ref_import_batch]"

fun referencePrefixes :: "referenceKind \<Rightarrow> string" where
  "referencePrefixes Ref_listing = ''MS''"
| "referencePrefixes Ref_property = ''PR''"
| "referencePrefixes Ref_inquiry = ''RQ''"
| "referencePrefixes Ref_case = ''CS''"
| "referencePrefixes Ref_appointment = ''AP''"
| "referencePrefixes Ref_proposal = ''PP''"
| "referencePrefixes Ref_document = ''DC''"
| "referencePrefixes Ref_seller_instruction = ''SI''"
| "referencePrefixes Ref_privacy_request = ''PQ''"
| "referencePrefixes Ref_complaint = ''CM''"
| "referencePrefixes Ref_key_set = ''KY''"
| "referencePrefixes Ref_import_batch = ''IM''"

text \<open>\<open>/^MS-\d{5,}$/\<close> and \<open>/^([A-Z]{2})-(\d{4})-(\d{6,})$/\<close>, the latter with its first group.\<close>

definition listingReferencePattern :: "string \<Rightarrow> bool" where
  "listingReferencePattern s =
     (take 3 s = ''MS-'' \<and> all_digits (drop 3 s) \<and> 5 \<le> length (drop 3 s))"

definition yearlyReferencePattern :: "string \<Rightarrow> string option" where
  "yearlyReferencePattern s =
     (case s of
        a # b # c # rest \<Rightarrow>
          if is_upper a \<and> is_upper b \<and> c = CHR ''-'' \<and> 4 \<le> length rest
             \<and> all_digits (take 4 rest) \<and> take 1 (drop 4 rest) = ''-''
             \<and> all_digits (drop 5 rest) \<and> 6 \<le> length (drop 5 rest)
          then Some [a, b] else None
      | _ \<Rightarrow> None)"

definition formatListingReference :: "int \<Rightarrow> string option" where
  "formatListingReference lotNumber =
     (if \<not> is_safe_integer lotNumber \<or> lotNumber < 1 then None
      else Some (''MS-'' @ pad_start 5 CHR ''0'' (show_dec (nat lotNumber))))"

definition formatReference :: "referenceKind \<Rightarrow> int \<Rightarrow> int \<Rightarrow> string option" where
  "formatReference kind year sequence =
     (if \<not> is_safe_integer sequence \<or> sequence < 1 then None
      else Some (referencePrefixes kind @ ''-'' @
        (if year < 0 then ''-'' else []) @ show_dec (nat \<bar>year\<bar>) @ ''-'' @
        pad_start 6 CHR ''0'' (show_dec (nat sequence))))"

definition parseReference :: "string \<Rightarrow> (referenceKind \<times> string) option" where
  "parseReference value =
     (let normalized = to_upper (trim value)
      in if listingReferencePattern normalized then Some (Ref_listing, normalized)
         else case yearlyReferencePattern normalized of
             None \<Rightarrow> None
           | Some prefix \<Rightarrow>
               (case List.find (\<lambda>k. k \<noteq> Ref_listing \<and> referencePrefixes k = prefix) referenceKinds of
                  None \<Rightarrow> None | Some kind \<Rightarrow> Some (kind, normalized)))"

subsection \<open>Locales and currencies\<close>

datatype publicLocale = Loc_bg | Loc_en | Loc_ru | Loc_de | Loc_nl | Loc_el | Loc_he

definition publicLocales :: "publicLocale list" where
  "publicLocales = [Loc_bg, Loc_en, Loc_ru, Loc_de, Loc_nl, Loc_el, Loc_he]"

fun locale_name :: "publicLocale \<Rightarrow> string" where
  "locale_name Loc_bg = ''bg''" | "locale_name Loc_en = ''en''" | "locale_name Loc_ru = ''ru''"
| "locale_name Loc_de = ''de''" | "locale_name Loc_nl = ''nl''" | "locale_name Loc_el = ''el''"
| "locale_name Loc_he = ''he''"

definition sourceLocale :: publicLocale where
  "sourceLocale = Loc_bg"

definition isPublicLocale :: "string \<Rightarrow> bool" where
  "isPublicLocale value = (value \<in> set (map locale_name publicLocales))"

datatype currencyCode = EUR | BGN | USD | GBP

definition currencyCodes :: "currencyCode list" where
  "currencyCodes = [EUR, BGN, USD, GBP]"

fun currency_name :: "currencyCode \<Rightarrow> string" where
  "currency_name EUR = ''EUR''" | "currency_name BGN = ''BGN''"
| "currency_name USD = ''USD''" | "currency_name GBP = ''GBP''"

fun currencyMinorDigits :: "currencyCode \<Rightarrow> nat" where
  "currencyMinorDigits EUR = 2" | "currencyMinorDigits BGN = 2"
| "currencyMinorDigits USD = 2" | "currencyMinorDigits GBP = 2"

definition isCurrencyCode :: "string \<Rightarrow> bool" where
  "isCurrencyCode value = (value \<in> set (map currency_name currencyCodes))"

lemma currency_name_inj [simp]: "currency_name a = currency_name b \<longleftrightarrow> a = b"
  by (cases a; cases b) simp_all

lemma currencyMinorDigits_2 [simp]: "currencyMinorDigits c = 2"
  by (cases c) simp_all

subsection \<open>Reading back a formatted reference\<close>

lemma to_upper_digits: "all_digits s \<Longrightarrow> to_upper s = s"
  by (induction s) (auto simp: to_upper_def)

lemma upper_id [simp]: "is_upper c \<Longrightarrow> to_upper_char c = c" "is_upper c \<Longrightarrow> \<not> is_white c"
  by (auto simp: is_upper_def is_lower_def to_upper_char_def is_white_def)

lemma dash_id [simp]: "to_upper_char CHR ''-'' = CHR ''-''" "\<not> is_white CHR ''-''"
  by (simp_all add: is_lower_def to_upper_char_def is_white_def)

lemma normalized_id:
  assumes "list_all (\<lambda>c. is_upper c \<or> is_digit c \<or> c = CHR ''-'') s"
  shows "to_upper (trim s) = s"
proof -
  have "\<not> is_white c" if "c \<in> set s" for c
    using assms that by (auto simp: list_all_iff)
  then have "trim s = s" by (rule trim_id)
  moreover have "to_upper s = s"
    using assms by (induction s) (auto simp: to_upper_def)
  ultimately show ?thesis by simp
qed

lemma all_digits_list_all: "all_digits s \<Longrightarrow> list_all (\<lambda>c. is_upper c \<or> is_digit c \<or> P c) s"
  by (induction s) auto

lemma upper_prefix: "list_all is_upper (referencePrefixes k) \<and> length (referencePrefixes k) = 2"
  by (cases k) (simp_all add: is_upper_def)

lemma referencePrefixes_inj: "referencePrefixes a = referencePrefixes b \<longleftrightarrow> a = b"
  by (cases a; cases b) simp_all

lemma find_prefix:
  "k \<noteq> Ref_listing \<Longrightarrow>
     List.find (\<lambda>j. j \<noteq> Ref_listing \<and> referencePrefixes j = referencePrefixes k) referenceKinds
       = Some k"
  by (cases k) (simp_all add: referenceKinds_def)

lemma parse_format_listing:
  assumes "formatListingReference n = Some r"
  shows "parseReference r = Some (Ref_listing, r)"
proof -
  have r: "r = ''MS-'' @ pad_start 5 CHR ''0'' (show_dec (nat n))"
    using assms by (auto simp: formatListingReference_def split: if_splits)
  have "list_all (\<lambda>c. is_upper c \<or> is_digit c \<or> c = CHR ''-'') r"
    unfolding r using all_digits_list_all [of "pad_start 5 CHR ''0'' (show_dec (nat n))"]
    by (simp add: is_upper_def [of "CHR ''M''"] is_upper_def [of "CHR ''S''"])
  then have "to_upper (trim r) = r" by (rule normalized_id)
  moreover have "listingReferencePattern r" by (simp add: r listingReferencePattern_def)
  ultimately show ?thesis by (simp add: parseReference_def)
qed

lemma show_dec_4:
  assumes "1000 \<le> y" "y \<le> 9999"
  shows "length (show_dec y) = 4"
proof -
  have "length (show_dec y) \<le> 4" by (rule length_show_dec) (use assms in auto)
  moreover have "4 \<le> length (show_dec y)"
  proof -
    have "\<not> y < 10" "\<not> y div 10 < 10" "\<not> y div 10 div 10 < 10" using assms(1) by simp_all
    moreover have "1 \<le> length (show_dec (y div 10 div 10 div 10))"
      by (simp add: Suc_le_eq)
    ultimately show ?thesis
      by (simp only: show_dec.simps [of y] show_dec.simps [of "y div 10"]
        show_dec.simps [of "y div 10 div 10"]) simp
  qed
  ultimately show ?thesis by simp
qed

lemma parse_format_reference:
  assumes "formatReference k y n = Some r" "k \<noteq> Ref_listing" "1000 \<le> y" "y \<le> 9999"
  shows "parseReference r = Some (k, r)"
proof -
  define p where "p = pad_start 6 CHR ''0'' (show_dec (nat n))"
  define yr where "yr = show_dec (nat y)"
  have r: "r = referencePrefixes k @ ''-'' @ yr @ ''-'' @ p"
    using assms by (auto simp: formatReference_def p_def yr_def split: if_splits)
  obtain a b where ab: "referencePrefixes k = [a, b]" "is_upper a" "is_upper b"
    using upper_prefix [of k] by (auto simp: length_Suc_conv numeral_2_eq_2)
  have yr: "all_digits yr" "length yr = 4" using assms show_dec_4 [of "nat y"] by (simp_all add: yr_def)
  have p: "all_digits p" "6 \<le> length p" by (simp_all add: p_def)
  have "list_all (\<lambda>c. is_upper c \<or> is_digit c \<or> c = CHR ''-'') r"
    using yr p ab by (simp add: r all_digits_list_all)
  then have norm: "to_upper (trim r) = r" by (rule normalized_id)
  have "referencePrefixes k \<noteq> ''MS''"
    using referencePrefixes_inj [of k Ref_listing] assms(2) by simp
  then have nl: "\<not> listingReferencePattern r"
    by (auto simp: r listingReferencePattern_def ab)
  have "yearlyReferencePattern r = Some (referencePrefixes k)"
    using yr p ab by (simp add: r yearlyReferencePattern_def)
  then show ?thesis using find_prefix [OF assms(2)] nl norm by (simp add: parseReference_def)
qed

text \<open>What is parsed is a normalised reference: parsing it again gives the same answer.\<close>

lemma to_upper_char_idem [simp]: "to_upper_char (to_upper_char c) = to_upper_char c"
proof (cases "is_lower c")
  case True
  then have "\<not> is_lower (to_upper_char c)"
    by (auto simp: is_lower_def to_upper_char_def of_char_of)
  then show ?thesis by (simp add: to_upper_char_def [of "to_upper_char c"])
qed (simp add: to_upper_char_def)

end
