(* ===== verification/Capabilities.thy ===== *)
theory Capabilities
  imports StateMachine Dates Ids
begin

text \<open>
  \<open>src/src/domain/capabilities.ts\<close>: the capability catalogue, the role presets, the grants a server
  resolves for an actor and the check every command makes. An instant that does not parse compares
  as \<open>NaN\<close> does: every comparison with it is false.
\<close>

datatype capability =
    Cap_inquiry_submit | Cap_portal_case_read | Cap_portal_access_request |
    Cap_portal_brief_acknowledge | Cap_portal_interest_respond | Cap_portal_message_write |
    Cap_portal_document_upload | Cap_portal_appointment_request | Cap_portal_proposal_respond |
    Cap_portal_listing_acknowledge | Cap_inquiry_read | Cap_inquiry_assign | Cap_inquiry_respond |
    Cap_case_read | Cap_case_read_internal | Cap_case_transition | Cap_task_manage |
    Cap_interest_manage | Cap_listing_read | Cap_listing_edit | Cap_listing_review_facts |
    Cap_media_manage | Cap_translation_draft | Cap_translation_review | Cap_publication_release |
    Cap_content_edit | Cap_claim_approve | Cap_compliance_review | Cap_compliance_suspicion |
    Cap_message_draft | Cap_message_send_external | Cap_appointment_manage |
    Cap_document_read_restricted | Cap_document_review | Cap_proposal_manage | Cap_access_grant |
    Cap_report_read | Cap_settings_manage | Cap_import_run | Cap_privacy_manage |
    Cap_complaint_manage | Cap_key_manage | Cap_audit_read | Cap_ai_draft

definition capabilities :: "capability list" where
  "capabilities = [
     Cap_inquiry_submit, Cap_portal_case_read, Cap_portal_access_request,
     Cap_portal_brief_acknowledge, Cap_portal_interest_respond, Cap_portal_message_write,
     Cap_portal_document_upload, Cap_portal_appointment_request, Cap_portal_proposal_respond,
     Cap_portal_listing_acknowledge, Cap_inquiry_read, Cap_inquiry_assign, Cap_inquiry_respond,
     Cap_case_read, Cap_case_read_internal, Cap_case_transition, Cap_task_manage,
     Cap_interest_manage, Cap_listing_read, Cap_listing_edit, Cap_listing_review_facts,
     Cap_media_manage, Cap_translation_draft, Cap_translation_review, Cap_publication_release,
     Cap_content_edit, Cap_claim_approve, Cap_compliance_review, Cap_compliance_suspicion,
     Cap_message_draft, Cap_message_send_external, Cap_appointment_manage,
     Cap_document_read_restricted, Cap_document_review, Cap_proposal_manage, Cap_access_grant,
     Cap_report_read, Cap_settings_manage, Cap_import_run, Cap_privacy_manage,
     Cap_complaint_manage, Cap_key_manage, Cap_audit_read, Cap_ai_draft]"

primrec capability_name :: "capability \<Rightarrow> string" where
  "capability_name Cap_inquiry_submit = ''inquiry.submit''"
| "capability_name Cap_portal_case_read = ''portal.case.read''"
| "capability_name Cap_portal_access_request = ''portal.access.request''"
| "capability_name Cap_portal_brief_acknowledge = ''portal.brief.acknowledge''"
| "capability_name Cap_portal_interest_respond = ''portal.interest.respond''"
| "capability_name Cap_portal_message_write = ''portal.message.write''"
| "capability_name Cap_portal_document_upload = ''portal.document.upload''"
| "capability_name Cap_portal_appointment_request = ''portal.appointment.request''"
| "capability_name Cap_portal_proposal_respond = ''portal.proposal.respond''"
| "capability_name Cap_portal_listing_acknowledge = ''portal.listing.acknowledge''"
| "capability_name Cap_inquiry_read = ''inquiry.read''"
| "capability_name Cap_inquiry_assign = ''inquiry.assign''"
| "capability_name Cap_inquiry_respond = ''inquiry.respond''"
| "capability_name Cap_case_read = ''case.read''"
| "capability_name Cap_case_read_internal = ''case.read_internal''"
| "capability_name Cap_case_transition = ''case.transition''"
| "capability_name Cap_task_manage = ''task.manage''"
| "capability_name Cap_interest_manage = ''interest.manage''"
| "capability_name Cap_listing_read = ''listing.read''"
| "capability_name Cap_listing_edit = ''listing.edit''"
| "capability_name Cap_listing_review_facts = ''listing.review_facts''"
| "capability_name Cap_media_manage = ''media.manage''"
| "capability_name Cap_translation_draft = ''translation.draft''"
| "capability_name Cap_translation_review = ''translation.review''"
| "capability_name Cap_publication_release = ''publication.release''"
| "capability_name Cap_content_edit = ''content.edit''"
| "capability_name Cap_claim_approve = ''claim.approve''"
| "capability_name Cap_compliance_review = ''compliance.review''"
| "capability_name Cap_compliance_suspicion = ''compliance.suspicion''"
| "capability_name Cap_message_draft = ''message.draft''"
| "capability_name Cap_message_send_external = ''message.send_external''"
| "capability_name Cap_appointment_manage = ''appointment.manage''"
| "capability_name Cap_document_read_restricted = ''document.read_restricted''"
| "capability_name Cap_document_review = ''document.review''"
| "capability_name Cap_proposal_manage = ''proposal.manage''"
| "capability_name Cap_access_grant = ''access.grant''"
| "capability_name Cap_report_read = ''report.read''"
| "capability_name Cap_settings_manage = ''settings.manage''"
| "capability_name Cap_import_run = ''import.run''"
| "capability_name Cap_privacy_manage = ''privacy.manage''"
| "capability_name Cap_complaint_manage = ''complaint.manage''"
| "capability_name Cap_key_manage = ''key.manage''"
| "capability_name Cap_audit_read = ''audit.read''"
| "capability_name Cap_ai_draft = ''ai.draft''"

definition capability_of_name :: "string \<Rightarrow> capability option" where
  "capability_of_name s = List.find (\<lambda>c. capability_name c = s) capabilities"

definition draftOnlyCapabilities :: "capability list" where
  "draftOnlyCapabilities = [Cap_ai_draft, Cap_translation_draft, Cap_message_draft]"

datatype role = Role_visitor | Role_verified_client | Role_invited_collaborator | Role_assigned_broker
  | Role_coordinator | Role_content_editor | Role_translation_reviewer | Role_publishing_approver
  | Role_manager | Role_external_specialist | Role_ai_service

definition roles :: "role list" where
  "roles = [Role_visitor, Role_verified_client, Role_invited_collaborator, Role_assigned_broker,
     Role_coordinator, Role_content_editor, Role_translation_reviewer, Role_publishing_approver,
     Role_manager, Role_external_specialist, Role_ai_service]"

fun rolePresets :: "role \<Rightarrow> capability list" where
  "rolePresets Role_visitor =
     [Cap_inquiry_submit]"
| "rolePresets Role_verified_client =
     [Cap_inquiry_submit, Cap_portal_case_read, Cap_portal_access_request,
      Cap_portal_brief_acknowledge, Cap_portal_interest_respond, Cap_portal_message_write,
      Cap_portal_document_upload, Cap_portal_appointment_request, Cap_portal_proposal_respond,
      Cap_portal_listing_acknowledge]"
| "rolePresets Role_invited_collaborator =
     [Cap_portal_case_read, Cap_portal_interest_respond]"
| "rolePresets Role_assigned_broker =
     [Cap_inquiry_read, Cap_inquiry_assign, Cap_inquiry_respond, Cap_case_read,
      Cap_case_read_internal, Cap_case_transition, Cap_task_manage, Cap_interest_manage,
      Cap_listing_read, Cap_listing_edit, Cap_media_manage, Cap_translation_draft,
      Cap_message_draft, Cap_message_send_external, Cap_appointment_manage,
      Cap_document_read_restricted, Cap_proposal_manage, Cap_ai_draft]"
| "rolePresets Role_coordinator =
     [Cap_inquiry_read, Cap_case_read, Cap_task_manage, Cap_listing_read, Cap_appointment_manage,
      Cap_message_draft]"
| "rolePresets Role_content_editor =
     [Cap_listing_read, Cap_listing_edit, Cap_media_manage, Cap_content_edit,
      Cap_translation_draft, Cap_ai_draft]"
| "rolePresets Role_translation_reviewer =
     [Cap_listing_read, Cap_translation_draft, Cap_translation_review]"
| "rolePresets Role_publishing_approver =
     [Cap_listing_read, Cap_listing_review_facts, Cap_publication_release]"
| "rolePresets Role_manager =
     [Cap_inquiry_read, Cap_inquiry_assign, Cap_case_read, Cap_case_read_internal, Cap_task_manage,
      Cap_listing_read, Cap_report_read, Cap_access_grant, Cap_settings_manage, Cap_import_run,
      Cap_privacy_manage, Cap_complaint_manage, Cap_key_manage, Cap_audit_read]"
| "rolePresets Role_external_specialist =
     [Cap_portal_case_read, Cap_portal_document_upload]"
| "rolePresets Role_ai_service = draftOnlyCapabilities"

definition systemJobCapabilities :: "string \<Rightarrow> capability list option" where
  "systemJobCapabilities = map_of
     [(''publication-delivery'', [Cap_publication_release]),
      (''document-scanner'', [Cap_portal_document_upload, Cap_document_review]),
      (''file-scanner'', [Cap_media_manage, Cap_document_review]),
      (''message-outbox'', [Cap_message_send_external]),
      (''message-provider-callback'', [Cap_message_send_external]),
      (''freshness-timer'', [Cap_listing_review_facts])]"

record capabilityScope =
  scope_recordType :: "string option"
  scope_recordId :: "string option"
  scope_locales :: "publicLocale list option"
  scope_expiresAt :: "string option"

record capabilityGrant =
  grant_capability :: capability
  grant_scope :: "capabilityScope option"

datatype actorKind = Actor_staff | Actor_client | Actor_visitor | Actor_ai_service | Actor_system

record actor =
  actor_kind :: actorKind
  actor_id :: string

record capabilityContext =
  context_recordType :: "string option"
  context_recordId :: "string option"
  context_locale :: "publicLocale option"
  context_now :: "string option"

definition grantsForRoles :: "role list \<Rightarrow> capabilityGrant list" where
  "grantsForRoles held =
     map (\<lambda>c. \<lparr>grant_capability = c, grant_scope = None\<rparr>)
       (js_unique (concat (map rolePresets held)))"

definition isDraftOnly :: "capability \<Rightarrow> bool" where
  "isDraftOnly c = (c \<in> set draftOnlyCapabilities)"

text \<open>The early return of a scope that has expired for this context: no clock, or not before it.\<close>

definition scope_expired :: "capabilityScope \<Rightarrow> capabilityContext \<Rightarrow> bool" where
  "scope_expired sc ctx =
     (truthy (scope_expiresAt sc) \<and>
      (\<not> truthy (context_now ctx) \<or> date_ge (the_or [] (context_now ctx)) (the_or [] (scope_expiresAt sc))))"

definition grant_covers :: "capabilityGrant \<Rightarrow> capability \<Rightarrow> capabilityContext \<Rightarrow> bool" where
  "grant_covers g c ctx =
     (if grant_capability g \<noteq> c then False
      else case grant_scope g of
          None \<Rightarrow> True
        | Some sc \<Rightarrow>
            if scope_expired sc ctx then False
            else if truthy (scope_recordType sc) \<and> scope_recordType sc \<noteq> context_recordType ctx then False
            else if truthy (scope_recordId sc) \<and> scope_recordId sc \<noteq> context_recordId ctx then False
            else (case scope_locales sc of
                None \<Rightarrow> True
              | Some ls \<Rightarrow> (case context_locale ctx of None \<Rightarrow> False | Some l \<Rightarrow> l \<in> set ls)))"

definition hasCapability ::
    "actor \<Rightarrow> capabilityGrant list \<Rightarrow> capability \<Rightarrow> capabilityContext \<Rightarrow> bool" where
  "hasCapability a grants c ctx =
     (if actor_kind a = Actor_ai_service \<and> \<not> isDraftOnly c then False
      else list_ex (\<lambda>g. grant_covers g c ctx) grants)"

subsection \<open>What a check grants\<close>

lemma isDraftOnly_iff: "isDraftOnly c \<longleftrightarrow> c \<in> {Cap_ai_draft, Cap_translation_draft, Cap_message_draft}"
  by (auto simp: isDraftOnly_def draftOnlyCapabilities_def)

lemma hasCapability_ai:
  "actor_kind a = Actor_ai_service \<Longrightarrow> hasCapability a gs c ctx \<Longrightarrow> isDraftOnly c"
  by (auto simp: hasCapability_def split: if_splits)

text \<open>Presenting more grants never takes a capability away.\<close>

lemma hasCapability_mono:
  "set gs \<subseteq> set hs \<Longrightarrow> hasCapability a gs c ctx \<Longrightarrow> hasCapability a hs c ctx"
  by (auto simp: hasCapability_def list_ex_iff split: if_splits)

lemma hasCapability_grant:
  assumes "hasCapability a gs c ctx"
  obtains g where "g \<in> set gs" "grant_capability g = c" "grant_covers g c ctx"
proof -
  from assms obtain g where "g \<in> set gs" "grant_covers g c ctx"
    by (auto simp: hasCapability_def list_ex_iff split: if_splits)
  moreover from this(2) have "grant_capability g = c" by (simp add: grant_covers_def split: if_splits)
  ultimately show thesis using that by blast
qed

lemma grant_covers_scope:
  assumes "grant_covers g c ctx" "grant_scope g = Some sc"
  shows "\<not> scope_expired sc ctx"
    "truthy (scope_recordType sc) \<Longrightarrow> context_recordType ctx = scope_recordType sc"
    "truthy (scope_recordId sc) \<Longrightarrow> context_recordId ctx = scope_recordId sc"
    "scope_locales sc = Some ls \<Longrightarrow> \<exists>l. context_locale ctx = Some l \<and> l \<in> set ls"
  using assms by (auto simp: grant_covers_def split: if_splits option.splits)

lemma set_grantsForRoles:
  "grant_capability ` set (grantsForRoles held) = (\<Union>r \<in> set held. set (rolePresets r))"
  by (auto simp: grantsForRoles_def image_image)

lemma hasCapability_roles:
  assumes "actor_kind a \<noteq> Actor_ai_service"
  shows "hasCapability a (grantsForRoles held) c ctx \<longleftrightarrow> (\<exists>r \<in> set held. c \<in> set (rolePresets r))"
  using assms by (auto simp: hasCapability_def grantsForRoles_def list_ex_iff grant_covers_def)

text \<open>The qualified reviews are granted individually: no preset carries them.\<close>

definition individually_granted :: "capability list" where
  "individually_granted = [Cap_claim_approve, Cap_compliance_review, Cap_compliance_suspicion]"

lemma presets_no_individual:
  "list_all (\<lambda>r. list_all (\<lambda>c. c \<notin> set individually_granted) (rolePresets r)) roles"
  by (simp add: roles_def individually_granted_def draftOnlyCapabilities_def)

lemma capability_of_name [simp]: "capability_of_name (capability_name c) = Some c"
  by (cases c) (simp_all add: capability_of_name_def capabilities_def)

lemma roles_all: "r \<in> set roles"
  by (cases r) (simp_all add: roles_def)

end
