(* ===== verification/Butler.thy ===== *)
theory Butler
  imports Errors Capabilities
begin

text \<open>
  \<open>src/src/domain/butler.ts\<close>: the recognised intents of the assistant and the verdict on each. Under
  the draft-only policy no verdict permits an effect: the best one is that a person should decide.
\<close>

definition butlerRoutineActions :: "string list" where
  "butlerRoutineActions = [''acknowledgement.send'', ''reminder.send'', ''chaser.send'', ''viewing.book'',
     ''document.record_received'', ''task.create'']"

definition butlerHumanActions :: "string list" where
  "butlerHumanActions = [''contact.first'', ''price.change'', ''offer.make'', ''terms.change'',
     ''condition.clear'', ''condition.waive'', ''publication.publish'', ''publication.withdraw'',
     ''translation.index'', ''access.grant'', ''action.cancel'', ''legal.act'', ''money.act'']"

datatype butlerDecision = Awaiting_approval | Blocked

record butlerEligibility =
  bel_decision :: butlerDecision
  bel_reason :: string

record butlerRecipient =
  brc_partyId :: string
  brc_currentCaseParticipant :: bool
  brc_contactEligible :: bool
  brc_firstContactHumanReceiptId :: "string option"

record butlerMessage =
  bmg_templateId :: string
  bmg_templateAction :: string
  bmg_approvedDigest :: "string option"
  bmg_renderedDigest :: string
  bmg_active :: bool
  bmg_recipients :: "butlerRecipient list"

datatype viewingSide = Side_visitor | Side_host

record butlerAcceptance =
  bac_side :: viewingSide
  bac_receiptId :: string
  bac_partyId :: string
  bac_slotDigest :: string
  bac_current :: bool

record butlerViewing =
  bvw_requestedSlotDigest :: string
  bvw_acceptances :: "butlerAcceptance list"
  bvw_resourcesCheckedAndLocked :: bool
  bvw_listingAvailable :: bool

record butlerDocument =
  bdc_receivedVersionId :: string
  bdc_persistedUpload :: bool
  bdc_belongsToCase :: bool
  bdc_receiptOnly :: bool

record butlerTask =
  btk_internalCreationOnly :: bool
  btk_ownerAvailable :: bool
  btk_makesClientPromise :: bool

record butlerEvidence =
  bev_caseId :: string
  bev_caseActive :: bool
  bev_protectedEffects :: "string list"
  bev_message :: "butlerMessage option"
  bev_viewing :: "butlerViewing option"
  bev_document :: "butlerDocument option"
  bev_task :: "butlerTask option"

definition isButlerRoutineAction :: "string \<Rightarrow> bool" where
  "isButlerRoutineAction action = (action \<in> set butlerRoutineActions)"

definition blocked :: "string \<Rightarrow> butlerEligibility" where
  "blocked r = \<lparr>bel_decision = Blocked, bel_reason = r\<rparr>"

definition approval_needed :: "string \<Rightarrow> butlerEligibility" where
  "approval_needed r = \<lparr>bel_decision = Awaiting_approval, bel_reason = r\<rparr>"

text \<open>The evidence checks of each routine action: \<open>None\<close> is the \<open>break\<close> at the end of a case.\<close>

definition message_check :: "string \<Rightarrow> butlerEvidence \<Rightarrow> butlerEligibility option" where
  "message_check action ev = (case bev_message ev of
       None \<Rightarrow> Some (blocked ''template_unavailable'')
     | Some m \<Rightarrow>
         if \<not> bmg_active m \<or> bmg_templateId m = [] \<or> bmg_templateAction m \<noteq> action
         then Some (blocked ''template_unavailable'')
         else if \<not> truthy (bmg_approvedDigest m) \<or> bmg_approvedDigest m \<noteq> Some (bmg_renderedDigest m)
         then Some (approval_needed ''template_not_approved'')
         else if length (bmg_recipients m) = 0 \<or>
             list_ex (\<lambda>p. brc_partyId p = [] \<or> \<not> brc_currentCaseParticipant p \<or> \<not> brc_contactEligible p)
               (bmg_recipients m)
         then Some (blocked ''recipient_not_eligible'')
         else if list_ex (\<lambda>p. \<not> truthy (brc_firstContactHumanReceiptId p)) (bmg_recipients m)
         then Some (approval_needed ''first_contact_requires_human'')
         else None)"

definition acceptances_of :: "viewingSide \<Rightarrow> butlerViewing \<Rightarrow> butlerAcceptance list" where
  "acceptances_of side v = filter (\<lambda>a. bac_side a = side \<and> bac_current a) (bvw_acceptances v)"

definition viewing_check :: "butlerEvidence \<Rightarrow> butlerEligibility option" where
  "viewing_check ev = (case bev_viewing ev of
       None \<Rightarrow> Some (blocked ''slot_not_agreed'')
     | Some v \<Rightarrow>
         if bvw_requestedSlotDigest v = [] then Some (blocked ''slot_not_agreed'')
         else let visitor = acceptances_of Side_visitor v; host = acceptances_of Side_host v
           in if length visitor \<noteq> 1 \<or> length host \<noteq> 1
                 \<or> bac_partyId (hd visitor) = bac_partyId (hd host)
                 \<or> bac_receiptId (hd visitor) = bac_receiptId (hd host)
                 \<or> list_ex (\<lambda>a. bac_receiptId a = [] \<or> bac_partyId a = []
                      \<or> bac_slotDigest a \<noteq> bvw_requestedSlotDigest v) (visitor @ host)
              then Some (blocked ''slot_not_agreed'')
              else if \<not> bvw_resourcesCheckedAndLocked v \<or> \<not> bvw_listingAvailable v
              then Some (blocked ''viewing_resources_unavailable'')
              else None)"

definition document_check :: "butlerEvidence \<Rightarrow> butlerEligibility option" where
  "document_check ev = (case bev_document ev of
       None \<Rightarrow> Some (blocked ''document_receipt_not_proven'')
     | Some d \<Rightarrow>
         if bdc_receivedVersionId d = [] \<or> \<not> bdc_persistedUpload d \<or> \<not> bdc_belongsToCase d \<or> \<not> bdc_receiptOnly d
         then Some (blocked ''document_receipt_not_proven'') else None)"

definition task_check :: "butlerEvidence \<Rightarrow> butlerEligibility option" where
  "task_check ev = (case bev_task ev of
       None \<Rightarrow> Some (blocked ''task_scope_invalid'')
     | Some t \<Rightarrow>
         if \<not> btk_internalCreationOnly t \<or> \<not> btk_ownerAvailable t then Some (blocked ''task_scope_invalid'')
         else if btk_makesClientPromise t then Some (approval_needed ''client_promise_requires_human'')
         else None)"

definition routine_check :: "string \<Rightarrow> butlerEvidence \<Rightarrow> butlerEligibility option" where
  "routine_check action ev =
     (if action \<in> {''acknowledgement.send'', ''reminder.send'', ''chaser.send''} then message_check action ev
      else if action = ''viewing.book'' then viewing_check ev
      else if action = ''document.record_received'' then document_check ev
      else if action = ''task.create'' then task_check ev
      else None)"

definition butlerEligibility_of :: "string \<Rightarrow> string \<Rightarrow> butlerEvidence option \<Rightarrow> butlerEligibility" where
  "butlerEligibility_of action caseId evidence =
     (if action \<in> set butlerHumanActions then approval_needed ''human_required''
      else if \<not> isButlerRoutineAction action then blocked ''action_not_allowlisted''
      else case evidence of
          None \<Rightarrow> blocked ''case_scope_not_current''
        | Some ev \<Rightarrow>
            if bev_caseId ev \<noteq> caseId \<or> \<not> bev_caseActive ev then blocked ''case_scope_not_current''
            else if length (bev_protectedEffects ev) \<noteq> 0 then approval_needed ''protected_effect''
            else the_or (approval_needed ''draft_only'') (routine_check action ev))"

datatype butlerPolicy = Policy_owner_draft_only | Policy_owner_option_2

fun policy_name :: "butlerPolicy \<Rightarrow> string" where
  "policy_name Policy_owner_draft_only = ''owner_draft_only''"
| "policy_name Policy_owner_option_2 = ''owner_option_2_2026_10_02''"

record butlerReceipt =
  brt_policy :: string
  brt_operationId :: string
  brt_action :: string
  brt_verdict :: string
  brt_reason :: string
  brt_outcome :: knownOutcome
  brt_requiresReconciliation :: bool

definition butlerReceipt_of ::
    "string \<Rightarrow> string \<Rightarrow> string \<Rightarrow> string \<Rightarrow> knownOutcome \<Rightarrow> string \<Rightarrow> butlerReceipt" where
  "butlerReceipt_of operationId action verdict reason out pol =
     \<lparr>brt_policy = pol, brt_operationId = operationId, brt_action = action, brt_verdict = verdict,
      brt_reason = reason, brt_outcome = out, brt_requiresReconciliation = (out = Unknown_outcome)\<rparr>"

text \<open>The receipt as it is stored.\<close>

definition receipt_json :: "butlerReceipt \<Rightarrow> json" where
  "receipt_json r = JObject
     [(''policy'', JString (brt_policy r)), (''operationId'', JString (brt_operationId r)),
      (''action'', JString (brt_action r)), (''verdict'', JString (brt_verdict r)),
      (''reason'', JString (brt_reason r)), (''outcome'', JString (knownOutcome_name (brt_outcome r))),
      (''manual'', JObject
        [(''available'', JBool True), (''requiresAuthorization'', JBool True),
         (''requiresReconciliation'', JBool (brt_requiresReconciliation r))])]"

subsection \<open>What draft-only needs\<close>

lemma routine_not_human: "isButlerRoutineAction action \<Longrightarrow> action \<notin> set butlerHumanActions"
  by (auto simp: isButlerRoutineAction_def butlerRoutineActions_def butlerHumanActions_def)

text \<open>The reason \<open>draft_only\<close> is given only when all the evidence of the action is there.\<close>

definition message_proven :: "string \<Rightarrow> butlerEvidence \<Rightarrow> bool" where
  "message_proven action ev \<longleftrightarrow> (\<exists>m. bev_message ev = Some m \<and> bmg_active m \<and> bmg_templateId m \<noteq> [] \<and>
     bmg_templateAction m = action \<and> bmg_renderedDigest m \<noteq> [] \<and>
     bmg_approvedDigest m = Some (bmg_renderedDigest m) \<and> bmg_recipients m \<noteq> [] \<and>
     (\<forall>p \<in> set (bmg_recipients m). brc_partyId p \<noteq> [] \<and> brc_currentCaseParticipant p \<and>
        brc_contactEligible p \<and> truthy (brc_firstContactHumanReceiptId p)))"

definition viewing_proven :: "butlerEvidence \<Rightarrow> bool" where
  "viewing_proven ev \<longleftrightarrow> (\<exists>v a b. bev_viewing ev = Some v \<and> bvw_requestedSlotDigest v \<noteq> [] \<and>
     acceptances_of Side_visitor v = [a] \<and> acceptances_of Side_host v = [b] \<and>
     bac_partyId a \<noteq> bac_partyId b \<and> bac_receiptId a \<noteq> bac_receiptId b \<and>
     (\<forall>x \<in> {a, b}. bac_receiptId x \<noteq> [] \<and> bac_partyId x \<noteq> [] \<and> bac_slotDigest x = bvw_requestedSlotDigest v) \<and>
     bvw_resourcesCheckedAndLocked v \<and> bvw_listingAvailable v)"

lemma message_check_None: "message_check action ev = None \<longleftrightarrow> message_proven action ev"
  by (cases "bev_message ev")
    (auto simp: message_check_def message_proven_def list_ex_iff split: if_splits)

lemma viewing_check_None: "viewing_check ev = None \<longleftrightarrow> viewing_proven ev"
  by (cases "bev_viewing ev")
    (auto simp: viewing_check_def viewing_proven_def Let_def length_Suc_conv split: if_splits)

lemma document_check_None:
  "document_check ev = None \<longleftrightarrow> (\<exists>d. bev_document ev = Some d \<and> bdc_receivedVersionId d \<noteq> [] \<and>
     bdc_persistedUpload d \<and> bdc_belongsToCase d \<and> bdc_receiptOnly d)"
  by (cases "bev_document ev") (auto simp: document_check_def)

lemma task_check_None:
  "task_check ev = None \<longleftrightarrow> (\<exists>t. bev_task ev = Some t \<and> btk_internalCreationOnly t \<and>
     btk_ownerAvailable t \<and> \<not> btk_makesClientPromise t)"
  by (cases "bev_task ev") (auto simp: task_check_def)

lemma checks_not_draft_only:
  "message_check action ev \<noteq> Some (approval_needed ''draft_only'')"
  "viewing_check ev \<noteq> Some (approval_needed ''draft_only'')"
  "document_check ev \<noteq> Some (approval_needed ''draft_only'')"
  "task_check ev \<noteq> Some (approval_needed ''draft_only'')"
  by (auto simp: message_check_def viewing_check_def document_check_def task_check_def Let_def
      approval_needed_def blocked_def split: option.splits)

lemma draft_only_iff:
  assumes "isButlerRoutineAction action"
  shows "butlerEligibility_of action caseId evidence = approval_needed ''draft_only'' \<longleftrightarrow>
    (\<exists>ev. evidence = Some ev \<and> bev_caseId ev = caseId \<and> bev_caseActive ev \<and> bev_protectedEffects ev = [] \<and>
       routine_check action ev = None)"
proof -
  have nd: "routine_check action ev \<noteq> Some (approval_needed ''draft_only'')" for ev
    using checks_not_draft_only by (auto simp: routine_check_def)
  have "the_or (approval_needed ''draft_only'') (routine_check action ev) = approval_needed ''draft_only'' \<longleftrightarrow>
      routine_check action ev = None" for ev
    using nd [of ev] by (cases "routine_check action ev") auto
  then show ?thesis
    using assms routine_not_human [OF assms]
    by (cases evidence) (auto simp: butlerEligibility_of_def approval_needed_def blocked_def)
qed

end
