(* ===== verification/OperationReceipt.thy ===== *)
theory OperationReceipt
  imports Prelude
begin

text \<open>
  \<open>src/src/domain/operation-receipt.ts\<close>: one idempotency key per principal and operation type yields
  one logical outcome across reloads, second tabs and retries.
\<close>

datatype operationStatus = Op_accepted | Op_in_progress | Op_succeeded | Op_failed | Op_outcome_unknown

record operationReceipt =
  or_idempotencyKey :: string
  or_operationType :: string
  or_requestHash :: string
  or_status :: operationStatus
  or_resultReference :: "string option"

datatype 'r replayDecision = Execute | Replay 'r | Reconcile 'r | Reject string

definition decideReplay ::
    "('z) operationReceipt_scheme option \<Rightarrow> string \<Rightarrow> ('z) operationReceipt_scheme replayDecision" where
  "decideReplay existing requestHash =
     (case existing of
        None \<Rightarrow> Execute
      | Some r \<Rightarrow>
          if or_requestHash r \<noteq> requestHash then Reject ''idempotency_key_reused''
          else if or_status r = Op_outcome_unknown then Reconcile r
          else Replay r)"

lemma decideReplay_execute: "decideReplay existing h = Execute \<longleftrightarrow> existing = None"
  by (auto simp: decideReplay_def split: option.splits)

lemma decideReplay_same:
  assumes "decideReplay (Some r) h \<in> {Replay r', Reconcile r'}"
  shows "r' = r" "or_requestHash r = h"
  using assms by (auto simp: decideReplay_def split: if_splits)

end
