(* ===== verification/OnceOnly.thy ===== *)
theory OnceOnly
  imports Prelude
begin

text \<open>
  The interface of everything that runs once per key: a store in which a final row, once there, stays
  as it is, and an effect that happens only where no row was and leaves a final one. From these laws
  alone, a sequence of steps in any order has at most one effect per key.
\<close>

fun run_steps :: "('c \<Rightarrow> 'd \<Rightarrow> 'd) \<Rightarrow> 'd \<Rightarrow> 'c list \<Rightarrow> 'd" where
  "run_steps exec d [] = d"
| "run_steps exec d (c # cs) = run_steps exec (exec c d) cs"

fun effects :: "('c \<Rightarrow> 'd \<Rightarrow> 'd) \<Rightarrow> ('c \<Rightarrow> 'd \<Rightarrow> bool) \<Rightarrow> 'd \<Rightarrow> 'c list \<Rightarrow> 'c list" where
  "effects exec eff d [] = []"
| "effects exec eff d (c # cs) = (if eff c d then [c] else []) @ effects exec eff (exec c d) cs"

lemma run_steps_append: "run_steps exec d (as @ bs) = run_steps exec (run_steps exec d as) bs"
  by (induction as arbitrary: d) auto

lemma effects_append:
  "effects exec eff d (as @ bs) = effects exec eff d as @ effects exec eff (run_steps exec d as) bs"
  by (induction as arbitrary: d) auto

locale once_only =
  fixes exec :: "'c \<Rightarrow> 'd \<Rightarrow> 'd"
    and okd :: "'d \<Rightarrow> bool"
    and key :: "'c \<Rightarrow> 'k"
    and row :: "'d \<Rightarrow> 'k \<Rightarrow> 'r option"
    and final :: "'r \<Rightarrow> bool"
    and eff :: "'c \<Rightarrow> 'd \<Rightarrow> bool"
  assumes exec_ok: "okd d \<Longrightarrow> okd (exec c d)"
    and kept: "okd d \<Longrightarrow> row d k = Some r \<Longrightarrow> final r \<Longrightarrow> row (exec c d) k = Some r"
    and taken: "okd d \<Longrightarrow> eff c d \<Longrightarrow> row d (key c) = None"
    and leaves: "okd d \<Longrightarrow> eff c d \<Longrightarrow> \<exists>r. row (exec c d) (key c) = Some r \<and> final r"
begin

lemma run_ok: "okd d \<Longrightarrow> okd (run_steps exec d cs)"
  by (induction cs arbitrary: d) (auto intro: exec_ok)

lemma final_stays: "okd d \<Longrightarrow> row d k = Some r \<Longrightarrow> final r \<Longrightarrow> row (run_steps exec d cs) k = Some r"
  by (induction cs arbitrary: d) (auto intro: exec_ok kept)

lemma no_effect_after:
  "okd d \<Longrightarrow> row d k = Some r \<Longrightarrow> final r \<Longrightarrow> filter (\<lambda>c. key c = k) (effects exec eff d cs) = []"
proof (induction cs arbitrary: d)
  case Nil
  then show ?case by simp
next
  case (Cons c cs)
  moreover have "key c \<noteq> k" if "eff c d" using taken [OF Cons.prems(1) that] Cons.prems(2) by auto
  moreover have "filter (\<lambda>c. key c = k) (effects exec eff (exec c d) cs) = []"
    using Cons by (intro Cons.IH) (auto intro: exec_ok kept)
  ultimately show ?case by auto
qed

lemma at_most_once:
  "okd d \<Longrightarrow> length (filter (\<lambda>c. key c = k) (effects exec eff d cs)) \<le> 1"
proof (induction cs arbitrary: d)
  case Nil
  then show ?case by simp
next
  case (Cons c cs)
  show ?case
  proof (cases "eff c d \<and> key c = k")
    case True
    then obtain r where "row (exec c d) k = Some r" "final r" using leaves [OF Cons.prems] by auto
    then have "filter (\<lambda>c. key c = k) (effects exec eff (exec c d) cs) = []"
      by (intro no_effect_after exec_ok Cons.prems)
    then show ?thesis using True by simp
  next
    case False
    then show ?thesis using Cons.IH [OF exec_ok [OF Cons.prems]] by simp
  qed
qed

text \<open>And once it has had its effect, the row it left is there for good.\<close>

lemma effect_row_stays:
  assumes "okd d" "eff c d"
  shows "\<exists>r. final r \<and> row (exec c d) (key c) = Some r \<and>
    row (run_steps exec (exec c d) cs) (key c) = Some r"
  using leaves [OF assms] final_stays exec_ok [OF assms(1)] by blast

end

end
