(* ===== verification/Operations.thy ===== *)
theory Operations
  imports Butler OperationReceipt OnceOnly
begin

text \<open>
  \<open>src/src/server/operations.ts\<close> and \<open>src/src/server/butler/authority.ts\<close>: commands that run at most
  once per actor, type and idempotency key.

  The database is explicit: the table of operation receipts, the audit entries these functions write,
  and \<open>db_world\<close>, every table the command itself writes. A command is a function of its context and
  of the world; it returns a JSON value or throws, and its writes are those of its savepoint, kept
  only when it returns. A transaction that ends with an exception leaves the database as it was.
  Concurrency shows in one place: \<open>locked\<close> says whether the advisory lock of the key was obtained,
  and it is held to the end of the transaction, so that two transactions that hold it for the same
  key run one after the other. The row's identifier (a database default) and the clock are arguments.
  Inserting a row whose identifier or key is taken fails, as the primary key and the unique index of
  the table make it.
\<close>

record operationRow = operationReceipt +
  or_id :: string
  or_actorKind :: actorKind
  or_actorId :: string
  or_expectedRevision :: "int option"
  or_resultType :: "string option"
  or_resultId :: "string option"
  or_outcome :: "json option"
  or_completedAt :: "int option"
  or_version :: int

record auditEntry =
  au_action :: string
  au_actor :: actor
  au_operationId :: "string option"
  au_recordType :: "string option"
  au_recordId :: "string option"
  au_payload :: json

record 'w database =
  db_operations :: "operationRow list"
  db_audit :: "auditEntry list"
  db_world :: 'w

text \<open>
  The authority a server-side adapter issues for one bound command. \<open>bb_executes\<close> is the comparison of
  the bound function with the one being run.
\<close>

record 'w butlerBinding =
  bb_type :: string
  bb_requestHash :: string
  bb_idempotencyKey :: string
  bb_expectedVersion :: "int option"
  bb_subject :: "(string \<times> string) option"
  bb_action :: string
  bb_executes :: bool
  bb_readAndLock :: "('w \<Rightarrow> thrown + butlerEvidence) option"

text \<open>
  \<open>oi_butlerAuthorization\<close> is \<open>None\<close> when the property is absent, \<open>Some None\<close> for an object that was
  never issued, and \<open>Some (Some b)\<close> for one bound to \<open>b\<close>.
\<close>

record 'w operationInput =
  oi_actor :: actor
  oi_type :: string
  oi_idempotencyKey :: string
  oi_requestHash :: string
  oi_expectedVersion :: "int option"
  oi_subject :: "(string \<times> string) option"
  oi_butlerAuthorization :: "'w butlerBinding option option"

record operationContext =
  cx_operationId :: string
  cx_actor :: actor
  cx_expectedVersion :: "int option"

record operationSuccess =
  os_operationId :: string
  os_replayed :: bool
  os_outcome :: json
  os_butlerReceipt :: "json option"

type_synonym 'w command = "operationContext \<Rightarrow> 'w \<Rightarrow> (thrown + json) \<times> 'w"

subsection \<open>The assistant's authority\<close>

definition isButlerOperation :: "'w operationInput \<Rightarrow> bool" where
  "isButlerOperation i =
     (actor_kind (oi_actor i) = Actor_ai_service \<or>
      (actor_kind (oi_actor i) = Actor_system \<and> actor_id (oi_actor i) = ''butler'') \<or>
      starts_with ''butler.'' (oi_type i) \<or> oi_butlerAuthorization i \<noteq> None)"

definition bound_input :: "'w butlerBinding \<Rightarrow> 'w operationInput \<Rightarrow> bool" where
  "bound_input b i =
     (actor_kind (oi_actor i) = Actor_system \<and> actor_id (oi_actor i) = ''butler'' \<and> bb_executes b \<and>
      bb_type b = oi_type i \<and> bb_requestHash b = oi_requestHash i \<and>
      bb_idempotencyKey b = oi_idempotencyKey i \<and> bb_expectedVersion b = oi_expectedVersion i \<and>
      (case bb_subject b of None \<Rightarrow> False | Some (t, x) \<Rightarrow>
         (case oi_subject i of None \<Rightarrow> False | Some (u, y) \<Rightarrow> t = ''case'' \<and> u = ''case'' \<and> x = y)))"

definition checkButlerAuthorization ::
    "'w operationInput \<Rightarrow> 'w \<Rightarrow> thrown + string \<times> butlerEligibility" where
  "checkButlerAuthorization i w =
     (case the_or None (oi_butlerAuthorization i) of
        None \<Rightarrow> Inr (''unclassified'', blocked ''server_authority_required'')
      | Some b \<Rightarrow>
          if \<not> bound_input b i then Inr (''unclassified'', blocked ''server_authority_required'')
          else (case bb_readAndLock b of
              None \<Rightarrow>
                if isButlerRoutineAction (bb_action b) then Inr (bb_action b, blocked ''action_not_registered'')
                else Inr (bb_action b, butlerEligibility_of (bb_action b) (snd (the (oi_subject i))) None)
            | Some readAndLock \<Rightarrow>
                (case readAndLock w of
                   Inl e \<Rightarrow> Inl e
                 | Inr ev \<Rightarrow> Inr (bb_action b,
                     butlerEligibility_of (bb_action b) (snd (the (oi_subject i))) (Some ev)))))"

subsection \<open>Stored outcomes\<close>

definition storedButlerSuccess :: "json \<Rightarrow> bool" where
  "storedButlerSuccess v = (case v of
       JObject es \<Rightarrow> map_of es ''kind'' = Some (JString ''butler_outcome_v1'') \<and>
         map_of es ''butlerReceipt'' \<noteq> None
     | _ \<Rightarrow> False)"

definition stored_json :: "operationRow \<Rightarrow> json" where
  "stored_json r = the_or JNull (or_outcome r)"

text \<open>A stored failure thrown again. What is not a stored failure makes the code itself throw.\<close>

definition failureError :: "json \<Rightarrow> thrown" where
  "failureError f = (case json_get f ''code'' of
       JString c \<Rightarrow>
         (case error_of_name c of
            None \<Rightarrow> ThrownOther ''TypeError''
          | Some code \<Rightarrow> ThrownApp (AppError code (no_options
              \<lparr>aeo_fieldErrors := (if json_truthy (json_get f ''fieldErrors'')
                 then Some (json_get f ''fieldErrors'') else None),
               aeo_current := (if json_get f ''current'' \<noteq> JUndefined
                 then Some (json_get f ''current'') else None)\<rparr>)))
     | _ \<Rightarrow> ThrownOther ''TypeError'')"

definition opt_entry :: "string \<Rightarrow> json option \<Rightarrow> (string \<times> json) list" where
  "opt_entry k v = (case v of None \<Rightarrow> [] | Some j \<Rightarrow> [(k, j)])"

definition stored_failure :: "errorCode \<Rightarrow> json option \<Rightarrow> json option \<Rightarrow> json" where
  "stored_failure code fieldErrors current =
     JObject ((''code'', JString (error_name code)) # opt_entry ''fieldErrors'' fieldErrors @
       opt_entry ''current'' current)"

definition receipt_current :: "butlerReceipt \<Rightarrow> json" where
  "receipt_current verdict = JObject [(''butlerReceipt'', receipt_json verdict)]"

subsection \<open>runOperation\<close>

definition has_key :: "'w operationInput \<Rightarrow> operationRow \<Rightarrow> bool" where
  "has_key i r =
     (or_actorKind r = actor_kind (oi_actor i) \<and> or_actorId r = actor_id (oi_actor i) \<and>
      or_operationType r = oi_type i \<and> or_idempotencyKey r = oi_idempotencyKey i)"

definition find_operation :: "'w database \<Rightarrow> 'w operationInput \<Rightarrow> operationRow option" where
  "find_operation db i = List.find (has_key i) (db_operations db)"

definition throw_app :: "errorCode \<Rightarrow> thrown + 'a" where
  "throw_app code = Inl (ThrownApp (AppError code no_options))"

text \<open>The answer from a stored receipt.\<close>

definition replay_row :: "'w operationInput \<Rightarrow> operationRow \<Rightarrow> thrown + operationSuccess" where
  "replay_row i r = (case or_status r of
       Op_succeeded \<Rightarrow>
         (let stored = stored_json r
          in Inr \<lparr>os_operationId = or_id r, os_replayed = True,
              os_outcome = (if storedButlerSuccess stored then json_get stored ''result'' else stored),
              os_butlerReceipt = (if storedButlerSuccess stored
                then Some (json_get stored ''butlerReceipt'') else None)\<rparr>)
     | Op_failed \<Rightarrow> Inl (failureError (stored_json r))
     | Op_outcome_unknown \<Rightarrow> Inl (ThrownApp (AppError Err_outcome_unknown
         (no_options\<lparr>aeo_current := (if isButlerOperation i \<and> json_get (stored_json r) ''current'' \<noteq> JUndefined
            then Some (json_get (stored_json r) ''current'') else None)\<rparr>)))
     | _ \<Rightarrow> throw_app Err_operation_pending)"

definition new_row :: "'w operationInput \<Rightarrow> string \<Rightarrow> operationRow" where
  "new_row i newId =
     \<lparr>or_idempotencyKey = oi_idempotencyKey i, or_operationType = oi_type i,
      or_requestHash = oi_requestHash i, or_status = Op_in_progress, or_resultReference = None,
      or_id = newId, or_actorKind = actor_kind (oi_actor i), or_actorId = actor_id (oi_actor i),
      or_expectedRevision = oi_expectedVersion i, or_resultType = map_option fst (oi_subject i),
      or_resultId = map_option snd (oi_subject i), or_outcome = None, or_completedAt = None,
      or_version = 1\<rparr>"

definition settle_row :: "operationStatus \<Rightarrow> json \<Rightarrow> int \<Rightarrow> operationRow \<Rightarrow> operationRow" where
  "settle_row st out now r =
     r\<lparr>or_status := st, or_outcome := Some out, or_completedAt := Some now, or_version := or_version r + 1\<rparr>"

definition verdict_audit :: "'w operationInput \<Rightarrow> string \<Rightarrow> butlerReceipt \<Rightarrow> auditEntry" where
  "verdict_audit i operationId verdict =
     \<lparr>au_action = ''butler.verdict'', au_actor = oi_actor i, au_operationId = Some operationId,
      au_recordType = map_option fst (oi_subject i), au_recordId = map_option snd (oi_subject i),
      au_payload = JObject [(''receipt'', receipt_json verdict)]\<rparr>"

definition settle ::
    "'w operationInput \<Rightarrow> string \<Rightarrow> int \<Rightarrow> operationStatus \<Rightarrow> json \<Rightarrow> butlerReceipt option
      \<Rightarrow> 'w database \<Rightarrow> 'w database" where
  "settle i operationId now st out verdict db =
     db\<lparr>db_operations := map (\<lambda>r. if or_id r = operationId then settle_row st out now r else r) (db_operations db),
        db_audit := db_audit db @ (case verdict of None \<Rightarrow> [] | Some v \<Rightarrow> [verdict_audit i operationId v])\<rparr>"

text \<open>
  The savepoint: the command's result with its writes, or what it threw with none. An automated call
  never reaches the command; what its authority check established explains the denial.
\<close>

definition type_action :: "string \<Rightarrow> string" where
  "type_action t = (if starts_with ''butler.'' t then drop 7 t else ''unclassified'')"

fun denial_name :: "butlerDecision \<Rightarrow> string" where
  "denial_name Awaiting_approval = ''awaiting_approval''"
| "denial_name Blocked = ''blocked''"

definition run_savepoint ::
    "'w operationInput \<Rightarrow> 'w command \<Rightarrow> string \<Rightarrow> 'w
      \<Rightarrow> (thrown + json) \<times> 'w \<times> string \<times> butlerEligibility option" where
  "run_savepoint i fn operationId w =
     (let ctx = \<lparr>cx_operationId = operationId, cx_actor = oi_actor i, cx_expectedVersion = oi_expectedVersion i\<rparr>
      in if isButlerOperation i
         then (case checkButlerAuthorization i w of
             Inl e \<Rightarrow> (Inl e, w, type_action (oi_type i), None)
           | Inr (action, el) \<Rightarrow>
               (throw_app (if bel_decision el = Awaiting_approval then Err_butler_approval_required
                  else Err_forbidden), w, action, Some el))
         else (case fn ctx w of
             (Inl e, _) \<Rightarrow> (Inl e, w, type_action (oi_type i), None)
           | (Inr v, w') \<Rightarrow> (Inr (json_roundtrip v), w', type_action (oi_type i), None)))"

text \<open>
  What happens to something thrown in the savepoint: it is thrown on, and the transaction with it
  (\<open>None\<close>), or it becomes the stored outcome of the receipt.
\<close>

definition settle_thrown ::
    "'w operationInput \<Rightarrow> string \<Rightarrow> int \<Rightarrow> thrown \<Rightarrow> string \<Rightarrow> butlerEligibility option
      \<Rightarrow> 'w database \<Rightarrow> (thrown \<times> 'w database) option" where
  "settle_thrown i operationId now e action el db =
     (let automated = isButlerOperation i in
      case (case e of ThrownApp a \<Rightarrow> Some a
              | ThrownOther _ \<Rightarrow> if automated then Some (AppError Err_unavailable no_options) else None) of
        None \<Rightarrow> None
      | Some failure \<Rightarrow>
          let known = (if automated \<and> err_outcome failure = Unknown_outcome
                then AppError Err_unavailable no_options else failure)
          in if err_outcome known = Unknown_outcome
             then Some (ThrownApp (AppError Err_outcome_unknown no_options),
               settle i operationId now Op_outcome_unknown (stored_failure (err_code known) None None) None db)
             else if err_retryable known \<and> \<not> automated then None
             else let verdict = (if automated
                    then Some (butlerReceipt_of operationId action
                      (case el of None \<Rightarrow> ''blocked'' | Some x \<Rightarrow> denial_name (bel_decision x))
                      (case el of None \<Rightarrow> error_name (err_code known) | Some x \<Rightarrow> bel_reason x)
                      Not_applied (policy_name Policy_owner_draft_only))
                    else None);
                  stored = stored_failure (err_code known) (err_fieldErrors known)
                    (case verdict of Some v \<Rightarrow> Some (receipt_current v)
                     | None \<Rightarrow> map_option json_roundtrip (err_current known))
               in Some (failureError stored, settle i operationId now Op_failed stored verdict db))"

definition run_fresh ::
    "'w operationInput \<Rightarrow> 'w command \<Rightarrow> string \<Rightarrow> int \<Rightarrow> 'w database
      \<Rightarrow> (thrown + operationSuccess) \<times> 'w database" where
  "run_fresh i fn newId now db =
     (if newId \<in> or_id ` set (db_operations db) then (Inl (ThrownOther ''unique_violation''), db)
      else let db1 = db\<lparr>db_operations := db_operations db @ [new_row i newId]\<rparr> in
        case run_savepoint i fn newId (db_world db) of
          (Inr result, w', _, _) \<Rightarrow>
            (Inr \<lparr>os_operationId = newId, os_replayed = False, os_outcome = result, os_butlerReceipt = None\<rparr>,
             settle i newId now Op_succeeded result None (db1\<lparr>db_world := w'\<rparr>))
        | (Inl e, _, action, el) \<Rightarrow>
            (case settle_thrown i newId now e action el db1 of
               None \<Rightarrow> (Inl e, db)
             | Some (e', db') \<Rightarrow> (Inl e', db')))"

definition runOperation ::
    "'w operationInput \<Rightarrow> 'w command \<Rightarrow> bool \<Rightarrow> string \<Rightarrow> int \<Rightarrow> 'w database
      \<Rightarrow> (thrown + operationSuccess) \<times> 'w database" where
  "runOperation i fn locked newId now db =
     (if \<not> locked then (throw_app Err_operation_pending, db)
      else let existing = find_operation db i
        in case decideReplay (map_option (\<lambda>r. r\<lparr>or_resultReference := or_resultId r\<rparr>) existing) (oi_requestHash i) of
            Reject _ \<Rightarrow> (throw_app Err_idempotency_key_reused, db)
          | Execute \<Rightarrow> run_fresh i fn newId now db
          | _ \<Rightarrow> (replay_row i (the existing), db))"

subsection \<open>Looking up and reconciling\<close>

record operationView =
  ov_operationId :: string
  ov_status :: operationStatus
  ov_outcome :: json
  ov_resultType :: "string option"
  ov_resultId :: "string option"
  ov_butlerReceipt :: "json option"

definition findOperation :: "'w database \<Rightarrow> 'w operationInput \<Rightarrow> operationView option" where
  "findOperation db i = map_option (\<lambda>r.
     let stored = stored_json r;
         verdict = (if storedButlerSuccess stored then json_get stored ''butlerReceipt''
           else json_get (json_get stored ''current'') ''butlerReceipt'')
     in \<lparr>ov_operationId = or_id r, ov_status = or_status r,
         ov_outcome = (if storedButlerSuccess stored then json_get stored ''result'' else stored),
         ov_resultType = or_resultType r, ov_resultId = or_resultId r,
         ov_butlerReceipt = (if json_truthy verdict then Some verdict else None)\<rparr>)
     (find_operation db i)"

datatype settlement = Settle_succeeded json | Settle_failed errorCode

definition json_text :: "string \<Rightarrow> json \<Rightarrow> string" where
  "json_text d v = (case v of JString s \<Rightarrow> s | _ \<Rightarrow> d)"

definition reconciled_verdict :: "string \<Rightarrow> settlement \<Rightarrow> json \<Rightarrow> butlerReceipt option" where
  "reconciled_verdict operationId s previous =
     (if \<not> json_truthy previous then None
      else let action = json_text [] (json_get previous ''action'');
               pol = json_text (policy_name Policy_owner_draft_only) (json_get previous ''policy'')
        in Some (case s of
            Settle_succeeded _ \<Rightarrow> butlerReceipt_of operationId action ''done_automatically''
              ''reconciled_applied'' Outcome_applied pol
          | Settle_failed code \<Rightarrow> butlerReceipt_of operationId action ''blocked'' (error_name code)
              Not_applied pol))"

definition reconciled_outcome :: "settlement \<Rightarrow> butlerReceipt option \<Rightarrow> json" where
  "reconciled_outcome s verdict = (case s of
       Settle_succeeded v \<Rightarrow>
         (case verdict of None \<Rightarrow> json_roundtrip v
          | Some x \<Rightarrow> JObject [(''kind'', JString ''butler_outcome_v1''), (''result'', json_roundtrip v),
              (''butlerReceipt'', receipt_json x)])
     | Settle_failed code \<Rightarrow> stored_failure code None (map_option receipt_current verdict))"

definition settlement_status :: "settlement \<Rightarrow> operationStatus" where
  "settlement_status s = (case s of Settle_succeeded _ \<Rightarrow> Op_succeeded | Settle_failed _ \<Rightarrow> Op_failed)"

definition reconcileOperation :: "string \<Rightarrow> settlement \<Rightarrow> int \<Rightarrow> 'w database \<Rightarrow> bool \<times> 'w database" where
  "reconcileOperation operationId s now db =
     (case List.find (\<lambda>r. or_id r = operationId \<and> or_status r = Op_outcome_unknown) (db_operations db) of
        None \<Rightarrow> (False, db)
      | Some row \<Rightarrow>
          let verdict = reconciled_verdict operationId s
                (json_get (json_get (stored_json row) ''current'') ''butlerReceipt'');
              audit = (case verdict of None \<Rightarrow> [] | Some v \<Rightarrow>
                [\<lparr>au_action = ''butler.reconciled'',
                  au_actor = \<lparr>actor_kind = or_actorKind row, actor_id = or_actorId row\<rparr>,
                  au_operationId = Some operationId, au_recordType = or_resultType row,
                  au_recordId = or_resultId row, au_payload = JObject [(''receipt'', receipt_json v)]\<rparr>])
          in (True, db\<lparr>db_operations := map (\<lambda>r. if or_id r = operationId
                 then settle_row (settlement_status s) (reconciled_outcome s verdict) now r else r) (db_operations db),
               db_audit := db_audit db @ audit\<rparr>))"

subsection \<open>The table of receipts\<close>

type_synonym operationKey = "actorKind \<times> string \<times> string \<times> string"

definition row_key :: "operationRow \<Rightarrow> operationKey" where
  "row_key r = (or_actorKind r, or_actorId r, or_operationType r, or_idempotencyKey r)"

definition input_key :: "'w operationInput \<Rightarrow> operationKey" where
  "input_key i = (actor_kind (oi_actor i), actor_id (oi_actor i), oi_type i, oi_idempotencyKey i)"

lemma has_key_iff: "has_key i r \<longleftrightarrow> row_key r = input_key i"
  by (auto simp: has_key_def row_key_def input_key_def)

text \<open>The primary key and the unique index.\<close>

definition ok_database :: "'w database \<Rightarrow> bool" where
  "ok_database db \<longleftrightarrow> distinct (map or_id (db_operations db)) \<and> distinct (map row_key (db_operations db))"

definition row_of :: "'w database \<Rightarrow> operationKey \<Rightarrow> operationRow option" where
  "row_of db k = List.find (\<lambda>r. row_key r = k) (db_operations db)"

lemma find_operation_row_of: "find_operation db i = row_of db (input_key i)"
proof -
  have "has_key i = (\<lambda>r. row_key r = input_key i)" by (auto simp: fun_eq_iff has_key_iff)
  then show ?thesis by (simp add: find_operation_def row_of_def)
qed

lemma row_of_Some: "ok_database db \<Longrightarrow> row_of db k = Some r \<longleftrightarrow> r \<in> set (db_operations db) \<and> row_key r = k"
  by (simp add: row_of_def ok_database_def find_distinct)

lemma row_of_None: "row_of db k = None \<longleftrightarrow> k \<notin> row_key ` set (db_operations db)"
  by (auto simp: row_of_def find_None_iff)

lemma settle_row_simps [simp]:
  "or_id (settle_row st out now r) = or_id r" "row_key (settle_row st out now r) = row_key r"
  "or_requestHash (settle_row st out now r) = or_requestHash r" "or_status (settle_row st out now r) = st"
  "or_outcome (settle_row st out now r) = Some out"
  by (simp_all add: settle_row_def row_key_def)

lemma new_row_simps [simp]:
  "or_id (new_row i n) = n" "row_key (new_row i n) = input_key i"
  "or_requestHash (new_row i n) = oi_requestHash i"
  by (simp_all add: new_row_def row_key_def input_key_def)

lemma settle_simps [simp]:
  "db_world (settle i opId now st out v db) = db_world db"
  "db_operations (settle i opId now st out v db) =
     map (\<lambda>r. if or_id r = opId then settle_row st out now r else r) (db_operations db)"
  by (simp_all add: settle_def)

text \<open>Settling the row that was just inserted changes no other row.\<close>

lemma settle_last:
  assumes "n \<notin> or_id ` set rows"
  shows "map (\<lambda>r. if or_id r = n then settle_row st out now r else r) rows = rows"
  using assms by (auto intro!: map_idI)

lemma settle_thrown_Some:
  assumes "settle_thrown i n now e action el db = Some (e', db')"
  obtains st out v where "db' = settle i n now st out v db" "st \<in> {Op_failed, Op_outcome_unknown}"
  using assms
  by (auto simp: settle_thrown_def Let_def split: thrown.splits if_splits option.splits)

text \<open>What a fresh run does to the database.\<close>

lemma run_fresh_cases:
  obtains (failed) e where "run_fresh i fn n now db = (Inl e, db)"
  | (applied) v w' ctx where "run_fresh i fn n now db =
      (Inr \<lparr>os_operationId = n, os_replayed = False, os_outcome = json_roundtrip v, os_butlerReceipt = None\<rparr>,
       db\<lparr>db_operations := db_operations db @ [settle_row Op_succeeded (json_roundtrip v) now (new_row i n)],
          db_world := w'\<rparr>)"
      "n \<notin> or_id ` set (db_operations db)" "\<not> isButlerOperation i" "fn ctx (db_world db) = (Inr v, w')"
  | (stored) e st out audit where "run_fresh i fn n now db =
      (Inl e, db\<lparr>db_operations := db_operations db @ [settle_row st out now (new_row i n)], db_audit := audit\<rparr>)"
      "n \<notin> or_id ` set (db_operations db)" "st \<in> {Op_failed, Op_outcome_unknown}"
proof (cases "n \<in> or_id ` set (db_operations db)")
  case True
  then show thesis using failed by (simp add: run_fresh_def)
next
  case False
  let ?db1 = "db\<lparr>db_operations := db_operations db @ [new_row i n]\<rparr>"
  obtain res w' action el where sp: "run_savepoint i fn n (db_world db) = (res, w', action, el)"
    by (metis prod_cases4)
  show thesis
  proof (cases res)
    case (Inr result)
    then have nb: "\<not> isButlerOperation i"
      using sp by (auto simp: run_savepoint_def Let_def throw_app_def split: if_splits sum.splits prod.splits)
    then obtain ctx v where v: "fn ctx (db_world db) = (Inr v, w')" "result = json_roundtrip v"
      using sp Inr by (auto simp: run_savepoint_def Let_def split: if_splits sum.splits prod.splits)
    show thesis
      by (rule applied [OF _ False nb v(1)])
        (use False sp Inr v(2) in \<open>simp add: run_fresh_def Let_def settle_def settle_last\<close>)
  next
    case (Inl e)
    show thesis
    proof (cases "settle_thrown i n now e action el ?db1")
      case None
      then show thesis using failed False sp Inl by (simp add: run_fresh_def Let_def)
    next
      case (Some p)
      then obtain e' db' where p: "settle_thrown i n now e action el ?db1 = Some (e', db')" by (cases p) auto
      then obtain st out v where s: "db' = settle i n now st out v ?db1" "st \<in> {Op_failed, Op_outcome_unknown}"
        by (rule settle_thrown_Some)
      show thesis
        by (rule stored [OF _ False s(2)])
          (use False sp Inl p s in \<open>simp add: run_fresh_def Let_def settle_def settle_last\<close>)
    qed
  qed
qed

lemma ok_append:
  assumes "ok_database db" "or_id r \<notin> or_id ` set (db_operations db)" "row_of db (row_key r) = None"
  shows "ok_database (db\<lparr>db_operations := db_operations db @ [r]\<rparr>)"
  using assms by (auto simp: ok_database_def row_of_None)

lemma runOperation_unlocked: "runOperation i fn False n now db = (throw_app Err_operation_pending, db)"
  by (simp add: runOperation_def)

text \<open>The branches of a call that holds the lock.\<close>

lemma runOperation_locked:
  "runOperation i fn True n now db =
     (case row_of db (input_key i) of
        None \<Rightarrow> run_fresh i fn n now db
      | Some r \<Rightarrow> if or_requestHash r \<noteq> oi_requestHash i then (throw_app Err_idempotency_key_reused, db)
          else (replay_row i r, db))"
  by (auto simp: runOperation_def decideReplay_def Let_def find_operation_row_of split: option.splits)

lemma replay_row_replayed: "replay_row i r = Inr s \<Longrightarrow> os_replayed s"
  by (auto simp: replay_row_def throw_app_def Let_def split: operationStatus.splits)

text \<open>The effect of a command: its first successful run.\<close>

definition effective :: "'w operationInput \<Rightarrow> 'w command \<Rightarrow> bool \<Rightarrow> string \<Rightarrow> int \<Rightarrow> 'w database \<Rightarrow> bool" where
  "effective i fn locked n now db =
     (case fst (runOperation i fn locked n now db) of Inl _ \<Rightarrow> False | Inr s \<Rightarrow> \<not> os_replayed s)"

lemma effective_run:
  assumes "effective i fn locked n now db"
  obtains v w' ctx where "row_of db (input_key i) = None" "\<not> isButlerOperation i"
    "n \<notin> or_id ` set (db_operations db)" "fn ctx (db_world db) = (Inr v, w')"
    "runOperation i fn locked n now db =
      (Inr \<lparr>os_operationId = n, os_replayed = False, os_outcome = json_roundtrip v, os_butlerReceipt = None\<rparr>,
       db\<lparr>db_operations := db_operations db @ [settle_row Op_succeeded (json_roundtrip v) now (new_row i n)],
          db_world := w'\<rparr>)"
proof -
  have l: locked using assms by (cases locked) (auto simp: effective_def runOperation_unlocked throw_app_def)
  have none: "row_of db (input_key i) = None"
    using assms l
    by (auto simp: effective_def runOperation_locked throw_app_def dest!: replay_row_replayed
        split: option.splits if_splits sum.splits)
  then have run: "runOperation i fn locked n now db = run_fresh i fn n now db"
    using l by (simp add: runOperation_locked)
  show thesis
    using assms that none run
    by (cases rule: run_fresh_cases [of i fn n now db]) (auto simp: effective_def)
qed

text \<open>Without an effect the world is untouched.\<close>

lemma not_effective_world:
  assumes "\<not> effective i fn locked n now db"
  shows "db_world (snd (runOperation i fn locked n now db)) = db_world db"
proof (cases "locked \<and> row_of db (input_key i) = None")
  case True
  then have run: "runOperation i fn locked n now db = run_fresh i fn n now db" by (simp add: runOperation_locked)
  show ?thesis
    using assms run by (cases rule: run_fresh_cases [of i fn n now db]) (auto simp: effective_def)
next
  case False
  then show ?thesis by (cases locked) (auto simp: runOperation_locked runOperation_unlocked split: option.splits)
qed

lemma butler_no_effect: "isButlerOperation i \<Longrightarrow> \<not> effective i fn locked n now db"
  by (auto elim!: effective_run)

text \<open>A call keeps every row there is, and adds at most its own.\<close>

lemma runOperation_rows:
  obtains (same) "db_operations (snd (runOperation i fn locked n now db)) = db_operations db"
  | (added) r where "db_operations (snd (runOperation i fn locked n now db)) = db_operations db @ [r]"
      "row_key r = input_key i" "or_id r \<notin> or_id ` set (db_operations db)" "row_of db (input_key i) = None"
      "or_requestHash r = oi_requestHash i"
proof (cases "locked \<and> row_of db (input_key i) = None")
  case True
  then have run: "runOperation i fn locked n now db = run_fresh i fn n now db" by (simp add: runOperation_locked)
  show thesis
    by (cases rule: run_fresh_cases [of i fn n now db]) (use same added run True in auto)
next
  case False
  then show thesis
    using same by (cases locked) (auto simp: runOperation_locked runOperation_unlocked split: option.splits)
qed

lemma runOperation_ok:
  assumes "ok_database db"
  shows "ok_database (snd (runOperation i fn locked n now db))"
proof (cases rule: runOperation_rows [of i fn locked n now db])
  case same
  then show ?thesis using assms by (simp add: ok_database_def)
next
  case (added r)
  then have "ok_database (db\<lparr>db_operations := db_operations db @ [r]\<rparr>)"
    using assms by (intro ok_append) auto
  then show ?thesis using added by (simp add: ok_database_def)
qed

lemma runOperation_keeps:
  assumes "ok_database db" "row_of db k = Some r"
  shows "row_of (snd (runOperation i fn locked n now db)) k = Some r"
  using assms runOperation_ok [OF assms(1), of i fn locked n now]
  by (cases rule: runOperation_rows [of i fn locked n now db]) (auto simp: row_of_Some)

subsection \<open>Reconciliation\<close>

lemma reconcile_rows:
  obtains (none) "reconcileOperation opId s now db = (False, db)"
  | (one) row out audit where "row \<in> set (db_operations db)" "or_id row = opId" "or_status row = Op_outcome_unknown"
      "reconcileOperation opId s now db = (True, db\<lparr>db_operations :=
         map (\<lambda>r. if or_id r = opId then settle_row (settlement_status s) out now r else r) (db_operations db),
         db_audit := audit\<rparr>)"
proof (cases "List.find (\<lambda>r. or_id r = opId \<and> or_status r = Op_outcome_unknown) (db_operations db)")
  case None
  then show thesis using none by (simp add: reconcileOperation_def)
next
  case (Some row)
  then have r: "row \<in> set (db_operations db)" "or_id row = opId" "or_status row = Op_outcome_unknown"
    by (auto simp: find_Some_iff)
  show thesis by (rule one [OF r]) (simp only: reconcileOperation_def Some option.case Let_def)
qed

lemma reconcile_ok: "ok_database db \<Longrightarrow> ok_database (snd (reconcileOperation opId s now db))"
proof (cases rule: reconcile_rows [of opId s now db])
  case (one row out audit)
  assume "ok_database db"
  moreover have "map f (map (\<lambda>r. if or_id r = opId then settle_row (settlement_status s) out now r else r) xs) = map f xs"
    if "\<And>r. f (settle_row (settlement_status s) out now r) = f r" for f :: "operationRow \<Rightarrow> 'b" and xs
    using that by simp
  ultimately show ?thesis using one by (simp add: ok_database_def comp_def if_distrib cong: if_cong)
qed simp

subsection \<open>Calls and reconciliations in any order\<close>

datatype 'w operationStep =
    CallStep "'w operationInput" "'w command" bool string int
  | ReconcileStep string settlement int

fun exec_step :: "'w operationStep \<Rightarrow> 'w database \<Rightarrow> 'w database" where
  "exec_step (CallStep i fn locked n now) db = snd (runOperation i fn locked n now db)"
| "exec_step (ReconcileStep opId s now) db = snd (reconcileOperation opId s now db)"

fun effect_step :: "'w operationStep \<Rightarrow> 'w database \<Rightarrow> bool" where
  "effect_step (CallStep i fn locked n now) db = effective i fn locked n now db"
| "effect_step (ReconcileStep opId s now) db = False"

text \<open>The key of a call; a reconciliation names a receipt and has no effect of its own.\<close>

fun step_key :: "'w operationStep \<Rightarrow> operationKey option" where
  "step_key (CallStep i fn locked n now) = Some (input_key i)"
| "step_key (ReconcileStep opId s now) = None"

definition step_row :: "'w database \<Rightarrow> operationKey option \<Rightarrow> operationRow option" where
  "step_row db k = Option.bind k (row_of db)"

definition final_row :: "operationRow \<Rightarrow> bool" where
  "final_row r = (or_status r \<in> {Op_succeeded, Op_failed})"

lemma reconcile_keeps:
  assumes "ok_database db" "row_of db k = Some r" "or_status r \<noteq> Op_outcome_unknown"
  shows "row_of (snd (reconcileOperation opId s now db)) k = Some r"
proof (cases rule: reconcile_rows [of opId s now db])
  case none
  then show ?thesis using assms by simp
next
  case (one row out audit)
  have r: "r \<in> set (db_operations db)" "row_key r = k" using assms by (simp_all add: row_of_Some)
  have "or_id r \<noteq> opId"
  proof
    assume "or_id r = opId"
    then have "r = row"
      using one(1,2) r(1) assms(1) by (auto simp: ok_database_def distinct_map inj_on_def)
    then show False using one(3) assms(3) by simp
  qed
  then have "r \<in> set (db_operations (snd (reconcileOperation opId s now db)))"
    using one(4) r(1) by force
  then show ?thesis using reconcile_ok [OF assms(1)] r(2) by (simp add: row_of_Some)
qed

interpretation ops: once_only exec_step ok_database step_key step_row final_row effect_step
proof
  fix db :: "'w database" and c :: "'w operationStep" and k r
  assume ok: "ok_database db"
  show "ok_database (exec_step c db)"
    by (cases c) (simp_all add: ok runOperation_ok reconcile_ok)
  show "step_row (exec_step c db) k = Some r" if "step_row db k = Some r" "final_row r"
    using that ok
    by (cases c; cases k) (auto simp: step_row_def final_row_def runOperation_keeps reconcile_keeps)
  assume eff: "effect_step c db"
  then obtain i fn l n now where c: "c = CallStep i fn l n now" by (cases c) auto
  then have "effective i fn l n now db" using eff by simp
  then obtain v w' ctx where none: "row_of db (input_key i) = None" and n: "n \<notin> or_id ` set (db_operations db)"
    and run: "runOperation i fn l n now db =
      (Inr \<lparr>os_operationId = n, os_replayed = False, os_outcome = json_roundtrip v, os_butlerReceipt = None\<rparr>,
       db\<lparr>db_operations := db_operations db @ [settle_row Op_succeeded (json_roundtrip v) now (new_row i n)],
          db_world := w'\<rparr>)"
    by (rule effective_run)
  show "step_row db (step_key c) = None" using c none by (simp add: step_row_def)
  let ?r = "settle_row Op_succeeded (json_roundtrip v) now (new_row i n)"
  have "row_of (exec_step c db) (input_key i) = Some ?r"
    using runOperation_ok [OF ok, of i fn l n now] c run by (simp add: row_of_Some)
  then show "\<exists>r. step_row (exec_step c db) (step_key c) = Some r \<and> final_row r"
    using c by (simp add: step_row_def final_row_def)
qed

text \<open>The row an effect leaves.\<close>

lemma effective_row:
  assumes "ok_database db" "effective i fn locked n now db"
  obtains v where "fst (runOperation i fn locked n now db) =
      Inr \<lparr>os_operationId = n, os_replayed = False, os_outcome = v, os_butlerReceipt = None\<rparr>"
    "row_of (snd (runOperation i fn locked n now db)) (input_key i) = Some (settle_row Op_succeeded v now (new_row i n))"
proof -
  obtain v w' ctx where
    run: "runOperation i fn locked n now db =
      (Inr \<lparr>os_operationId = n, os_replayed = False, os_outcome = json_roundtrip v, os_butlerReceipt = None\<rparr>,
       db\<lparr>db_operations := db_operations db @ [settle_row Op_succeeded (json_roundtrip v) now (new_row i n)],
          db_world := w'\<rparr>)"
    using assms(2) by (rule effective_run)
  show thesis
    by (rule that [of "json_roundtrip v"])
      (use run runOperation_ok [OF assms(1), of i fn locked n now] in \<open>simp_all add: row_of_Some\<close>)
qed

text \<open>What a retry is answered from a row that succeeded.\<close>

lemma replay_succeeded:
  assumes "row_of db (input_key i) = Some (settle_row Op_succeeded v t (new_row j n))"
    "oi_requestHash j = oi_requestHash i" "\<not> storedButlerSuccess v"
  shows "runOperation i fn True m now db =
    (Inr \<lparr>os_operationId = n, os_replayed = True, os_outcome = v, os_butlerReceipt = None\<rparr>, db)"
  using assms by (simp add: runOperation_locked replay_row_def stored_json_def Let_def)

end
