(* ===== verification/Authz.thy ===== *)
theory Authz
  imports Butler
begin

text \<open>
  \<open>src/src/server/authz.ts\<close> (with the roles of \<open>src/src/domain/parties.ts\<close>): the grants an actor holds
  now, and whether one of them reaches a record. The tables the queries read are lists of rows; a
  timestamp column is a time value. A join and a \<open>where\<close> are the rows that satisfy them, in the order
  of the tables. The JSON columns of a relationship's scope are JSON values.
\<close>

datatype participantRole = Part_buyer | Part_co_buyer | Part_tenant | Part_seller | Part_landlord
  | Part_authorized_representative | Part_adviser | Part_collaborator | Part_specialist | Part_guest

datatype authorityState = Auth_not_claimed | Auth_self_declared | Auth_under_review | Auth_reviewed
  | Auth_rejected

datatype audience = Audience_internal | Audience_case_participants | Audience_specialist | Audience_public

record resource =
  res_type :: string
  res_id :: "string option"
  res_locale :: "publicLocale option"
  res_caseId :: "string option"
  res_propertyId :: "string option"
  res_audience :: "audience option"

definition propertyRecordTypes :: "string list" where
  "propertyRecordTypes = [''property'', ''listing'']"

definition sellerSideRoles :: "participantRole list" where
  "sellerSideRoles = [Part_seller, Part_landlord, Part_authorized_representative]"

definition principalOnly :: "capability list" where
  "principalOnly = [Cap_portal_access_request, Cap_portal_brief_acknowledge, Cap_portal_proposal_respond,
     Cap_portal_listing_acknowledge]"

fun invitedRolePresets :: "participantRole \<Rightarrow> capability list option" where
  "invitedRolePresets Part_collaborator = Some (rolePresets Role_invited_collaborator)"
| "invitedRolePresets Part_adviser = Some (rolePresets Role_invited_collaborator)"
| "invitedRolePresets Part_guest = Some [Cap_portal_case_read]"
| "invitedRolePresets Part_specialist = Some (rolePresets Role_external_specialist)"
| "invitedRolePresets _ = None"

definition relationshipCapabilities :: "participantRole \<Rightarrow> bool \<Rightarrow> capability list \<Rightarrow> capability list" where
  "relationshipCapabilities r authorityReviewed invited =
     (case invitedRolePresets r of
        Some floor \<Rightarrow> floor @
          filter (\<lambda>c. starts_with ''portal.'' (capability_name c) \<and> c \<notin> set principalOnly) invited
      | None \<Rightarrow> filter (\<lambda>c.
          (c \<noteq> Cap_portal_listing_acknowledge \<or> (r \<in> set sellerSideRoles \<and> authorityReviewed)) \<and>
          (c \<noteq> Cap_portal_brief_acknowledge \<or>
             r \<in> {Part_buyer, Part_co_buyer, Part_tenant, Part_seller, Part_landlord}))
          (rolePresets Role_verified_client))"

definition scopedTo ::
    "string option \<Rightarrow> string option \<Rightarrow> publicLocale list option \<Rightarrow> int option \<Rightarrow> capabilityScope option" where
  "scopedTo recordType recordId locales expiresAt =
     (let sc = \<lparr>scope_recordType = (if truthy recordType then recordType else None),
                scope_recordId = (if truthy recordId then recordId else None),
                scope_locales = (if truthy_list locales then locales else None),
                scope_expiresAt = map_option to_iso expiresAt\<rparr>
      in if sc = \<lparr>scope_recordType = None, scope_recordId = None, scope_locales = None, scope_expiresAt = None\<rparr>
         then None else Some sc)"

record grantRow =
  gr_principalId :: "string option"
  gr_serviceName :: "string option"
  gr_role :: "role option"
  gr_capability :: "capability option"
  gr_recordType :: "string option"
  gr_recordId :: "string option"
  gr_locales :: "publicLocale list option"
  gr_expiresAt :: "int option"
  gr_revokedAt :: "int option"

datatype accountKind = Account_staff | Account_client
datatype accountStatus = Account_active | Account_suspended | Account_deactivated
datatype membershipState = Member_active | Member_suspended | Member_ended

record principalRow =
  pr_id :: string
  pr_kind :: accountKind
  pr_status :: accountStatus
  pr_partyId :: string

record membershipRow =
  mb_principalId :: string
  mb_state :: membershipState

text \<open>A case participation or a property relationship; \<open>rl_target\<close> is its record.\<close>

record relationshipRow =
  rl_partyId :: string
  rl_target :: "string \<times> string"
  rl_role :: participantRole
  rl_authority :: authorityState
  rl_scope :: json
  rl_validFrom :: int
  rl_expiresAt :: "int option"
  rl_revokedAt :: "int option"

record accessTables =
  at_principals :: "principalRow list"
  at_memberships :: "membershipRow list"
  at_grants :: "grantRow list"
  at_participants :: "relationshipRow list"
  at_relationships :: "relationshipRow list"

definition plain_grant :: "capability \<Rightarrow> capabilityGrant" where
  "plain_grant c = \<lparr>grant_capability = c, grant_scope = None\<rparr>"

definition expandGrant :: "grantRow \<Rightarrow> capabilityGrant list" where
  "expandGrant row =
     (let scope = scopedTo (gr_recordType row) (gr_recordId row) (gr_locales row) (gr_expiresAt row);
          granted = (case gr_role row of Some r \<Rightarrow> rolePresets r
            | None \<Rightarrow> (case gr_capability row of Some c \<Rightarrow> [c] | None \<Rightarrow> []))
      in map (\<lambda>c. \<lparr>grant_capability = c, grant_scope = scope\<rparr>) granted)"

definition live_until :: "int option \<Rightarrow> int \<Rightarrow> bool" where
  "live_until expiresAt now = (case expiresAt of None \<Rightarrow> True | Some t \<Rightarrow> now < t)"

definition liveGrant :: "int \<Rightarrow> grantRow \<Rightarrow> bool" where
  "liveGrant now row = (gr_revokedAt row = None \<and> live_until (gr_expiresAt row) now)"

definition live_relationship :: "int \<Rightarrow> relationshipRow \<Rightarrow> bool" where
  "live_relationship now r =
     (rl_revokedAt r = None \<and> rl_validFrom r \<le> now \<and> live_until (rl_expiresAt r) now)"

definition invited_capabilities :: "json \<Rightarrow> capability list" where
  "invited_capabilities scope = (case json_get scope ''capabilities'' of
       JArray vs \<Rightarrow> List.map_filter (\<lambda>v. case v of JString s \<Rightarrow> capability_of_name s | _ \<Rightarrow> None) vs
     | _ \<Rightarrow> [])"

definition scope_targets :: "relationshipRow \<Rightarrow> (string \<times> string) list" where
  "scope_targets r = (case json_get (rl_scope r) ''resources'' of
       JArray vs \<Rightarrow> List.map_filter (\<lambda>v. case (json_get v ''type'', json_get v ''id'') of
         (JString t, JString i) \<Rightarrow> Some (t, i) | _ \<Rightarrow> None) vs
     | _ \<Rightarrow> [rl_target r])"

definition relationship_grants :: "relationshipRow \<Rightarrow> capabilityGrant list" where
  "relationship_grants r =
     (if rl_role r = Part_specialist \<and> rl_expiresAt r = None then []
      else concat (map (\<lambda>(t, i). map (\<lambda>c. \<lparr>grant_capability = c,
               grant_scope = scopedTo (Some t) (Some i) None (rl_expiresAt r)\<rparr>)
             (relationshipCapabilities (rl_role r) (rl_authority r = Auth_reviewed)
               (invited_capabilities (rl_scope r))))
           (scope_targets r)))"

definition staff_accounts :: "accessTables \<Rightarrow> string \<Rightarrow> (principalRow \<times> membershipRow) list" where
  "staff_accounts db pid =
     concat (map (\<lambda>p. map (\<lambda>m. (p, m)) (filter (\<lambda>m. mb_principalId m = pr_id p) (at_memberships db)))
       (filter (\<lambda>p. pr_id p = pid) (at_principals db)))"

definition principal_grants :: "accessTables \<Rightarrow> string \<Rightarrow> int \<Rightarrow> grantRow list" where
  "principal_grants db pid now =
     filter (\<lambda>g. gr_principalId g = Some pid \<and> liveGrant now g) (at_grants db)"

definition staff_grants :: "accessTables \<Rightarrow> string \<Rightarrow> int \<Rightarrow> capabilityGrant list" where
  "staff_grants db pid now = (case staff_accounts db pid of
       [] \<Rightarrow> []
     | (p, m) # _ \<Rightarrow>
         if pr_status p \<noteq> Account_active \<or> pr_kind p \<noteq> Account_staff then []
         else if mb_state m \<noteq> Member_active then []
         else concat (map expandGrant (principal_grants db pid now)))"

definition client_grants :: "accessTables \<Rightarrow> string \<Rightarrow> int \<Rightarrow> capabilityGrant list" where
  "client_grants db pid now = (case List.find (\<lambda>p. pr_id p = pid) (at_principals db) of
       None \<Rightarrow> []
     | Some p \<Rightarrow>
         if pr_status p \<noteq> Account_active \<or> pr_kind p \<noteq> Account_client then []
         else concat (map expandGrant (filter (\<lambda>g. truthy (gr_recordId g)) (principal_grants db pid now))) @
           concat (map relationship_grants
             (filter (\<lambda>r. rl_partyId r = pr_partyId p \<and> live_relationship now r)
               (at_participants db @ at_relationships db))))"

definition resolveGrants :: "accessTables \<Rightarrow> actor \<Rightarrow> int \<Rightarrow> capabilityGrant list" where
  "resolveGrants db a now = (case actor_kind a of
       Actor_visitor \<Rightarrow> map plain_grant (rolePresets Role_visitor)
     | Actor_system \<Rightarrow> map plain_grant (the_or [] (systemJobCapabilities (actor_id a)))
     | Actor_ai_service \<Rightarrow> concat (map expandGrant
         (filter (\<lambda>g. gr_serviceName g = Some (actor_id a) \<and> liveGrant now g) (at_grants db)))
     | Actor_staff \<Rightarrow> staff_grants db (actor_id a) now
     | Actor_client \<Rightarrow> client_grants db (actor_id a) now)"

subsection \<open>Reaching a record\<close>

definition context_on ::
    "publicLocale option \<Rightarrow> int \<Rightarrow> string option \<Rightarrow> string option \<Rightarrow> capabilityContext" where
  "context_on loc now t i =
     \<lparr>context_recordType = t, context_recordId = i, context_locale = loc, context_now = Some (to_iso now)\<rparr>"

definition contextsFor :: "resource option \<Rightarrow> int \<Rightarrow> capabilityContext list" where
  "contextsFor r now = (case r of
       None \<Rightarrow> [context_on None now None None]
     | Some x \<Rightarrow>
         [context_on (res_locale x) now (Some (res_type x)) (if truthy (res_id x) then res_id x else None)] @
         (if truthy (res_caseId x) then [context_on (res_locale x) now (Some ''case'') (res_caseId x)] else []) @
         (if truthy (res_propertyId x) \<and> res_type x \<in> set propertyRecordTypes
          then [context_on (res_locale x) now (Some ''property'') (res_propertyId x)] else []))"

definition clientSideActors :: "actorKind list" where
  "clientSideActors = [Actor_client, Actor_visitor]"

definition allows ::
    "actor \<Rightarrow> capabilityGrant list \<Rightarrow> capability \<Rightarrow> resource option \<Rightarrow> int \<Rightarrow> bool" where
  "allows a grants c r now =
     (if (case r of None \<Rightarrow> False | Some x \<Rightarrow> res_audience x = Some Audience_internal) \<and>
         actor_kind a \<in> set clientSideActors
      then False
      else list_ex (hasCapability a grants c) (contextsFor r now))"

definition can :: "accessTables \<Rightarrow> actor \<Rightarrow> capability \<Rightarrow> resource option \<Rightarrow> int \<Rightarrow> bool" where
  "can db a c r now = allows a (resolveGrants db a now) c r now"

definition heldCapabilitiesFromGrants ::
    "actor \<Rightarrow> capabilityGrant list \<Rightarrow> capability list \<Rightarrow> int \<Rightarrow> capability list" where
  "heldCapabilitiesFromGrants a grants wanted now = filter (\<lambda>c. allows a grants c None now) wanted"

definition heldCapabilities :: "accessTables \<Rightarrow> actor \<Rightarrow> capability list \<Rightarrow> int \<Rightarrow> capability list" where
  "heldCapabilities db a wanted now = heldCapabilitiesFromGrants a (resolveGrants db a now) wanted now"

definition grantsFor :: "accessTables \<Rightarrow> actor \<Rightarrow> resource \<Rightarrow> int \<Rightarrow> capabilityGrant list" where
  "grantsFor db a r now =
     map (\<lambda>g. case Option.bind (grant_scope g) scope_locales of
         None \<Rightarrow> plain_grant (grant_capability g)
       | Some ls \<Rightarrow> \<lparr>grant_capability = grant_capability g, grant_scope = Some
           \<lparr>scope_recordType = None, scope_recordId = None, scope_locales = Some ls, scope_expiresAt = None\<rparr>\<rparr>)
       (filter (\<lambda>g. allows a [g] (grant_capability g) (Some r) now) (resolveGrants db a now))"

definition assertCan ::
    "accessTables \<Rightarrow> actor \<Rightarrow> capability \<Rightarrow> resource option \<Rightarrow> int \<Rightarrow> thrown option" where
  "assertCan db a c r now =
     (if can db a c r now then None else Some (ThrownApp (AppError Err_forbidden no_options)))"

definition assertCanRead ::
    "accessTables \<Rightarrow> actor \<Rightarrow> capability \<Rightarrow> resource \<Rightarrow> int \<Rightarrow> thrown option" where
  "assertCanRead db a c r now =
     (if can db a c (Some r) now then None else Some (ThrownApp (AppError Err_not_found no_options)))"

subsection \<open>What reaches a record\<close>

lemma hasCapability_list_ex:
  "hasCapability a gs c ctx \<longleftrightarrow> (\<exists>g \<in> set gs. hasCapability a [g] c ctx)"
  by (auto simp: hasCapability_def list_ex_iff)

lemma hasCapability_single: "hasCapability a [g] c ctx \<Longrightarrow> grant_capability g = c"
  by (auto elim: hasCapability_grant)

lemma allows_iff:
  "allows a gs c r now \<longleftrightarrow>
     \<not> ((\<exists>x. r = Some x \<and> res_audience x = Some Audience_internal) \<and> actor_kind a \<in> set clientSideActors) \<and>
     (\<exists>ctx \<in> set (contextsFor r now). hasCapability a gs c ctx)"
  by (auto simp: allows_def list_ex_iff split: option.splits)

lemma allows_single: "allows a gs c r now \<longleftrightarrow> (\<exists>g \<in> set gs. allows a [g] c r now)"
  using hasCapability_list_ex [of a gs c] unfolding allows_iff by blast

lemma allows_capability: "allows a [g] c r now \<Longrightarrow> grant_capability g = c"
  by (auto simp: allows_iff dest: hasCapability_single)

lemma can_iff: "can db a c r now \<longleftrightarrow> (\<exists>g \<in> set (resolveGrants db a now). allows a [g] c r now)"
  unfolding can_def by (rule allows_single)

lemma contextsFor_locale: "ctx \<in> set (contextsFor (Some r) now) \<Longrightarrow> context_locale ctx = res_locale r"
  by (auto simp: contextsFor_def context_on_def split: if_splits)

definition restated :: "capabilityGrant \<Rightarrow> capabilityGrant" where
  "restated g = (case Option.bind (grant_scope g) scope_locales of
       None \<Rightarrow> plain_grant (grant_capability g)
     | Some ls \<Rightarrow> \<lparr>grant_capability = grant_capability g, grant_scope = Some
         \<lparr>scope_recordType = None, scope_recordId = None, scope_locales = Some ls, scope_expiresAt = None\<rparr>\<rparr>)"

lemma grantsFor_restated:
  "grantsFor db a r now = map restated
     (filter (\<lambda>g. allows a [g] (grant_capability g) (Some r) now) (resolveGrants db a now))"
  by (simp add: grantsFor_def restated_def)

lemma restated_capability [simp]: "grant_capability (restated g) = grant_capability g"
  by (simp add: restated_def plain_grant_def split: option.splits)

text \<open>A grant that covers the record under one of its contexts still covers it when restated.\<close>

lemma restated_covers:
  assumes "grant_covers g c ctx" "context_locale ctx' = context_locale ctx"
  shows "grant_covers (restated g) c ctx'"
proof (cases "grant_scope g")
  case None
  then show ?thesis using assms(1) by (simp add: grant_covers_def restated_def plain_grant_def split: if_splits)
next
  case (Some sc)
  have cap: "grant_capability g = c" using assms(1) by (simp add: grant_covers_def split: if_splits)
  show ?thesis
  proof (cases "scope_locales sc")
    case None
    then show ?thesis using cap Some by (simp add: grant_covers_def restated_def plain_grant_def)
  next
    case l: (Some ls)
    obtain l where "context_locale ctx = Some l" "l \<in> set ls"
      using grant_covers_scope(4) [OF assms(1) Some l] by blast
    then show ?thesis using cap Some l assms(2) by (simp add: grant_covers_def restated_def scope_expired_def)
  qed
qed

lemma grantsFor_exact:
  assumes "context_locale ctx = res_locale r"
  shows "hasCapability a (grantsFor db a r now) c ctx \<longleftrightarrow> can db a c (Some r) now"
proof
  assume "hasCapability a (grantsFor db a r now) c ctx"
  then obtain g' where g': "g' \<in> set (grantsFor db a r now)" "grant_capability g' = c"
    by (rule hasCapability_grant)
  then obtain g where "g \<in> set (resolveGrants db a now)" "allows a [g] (grant_capability g) (Some r) now" "g' = restated g"
    unfolding grantsFor_restated by auto
  then show "can db a c (Some r) now" using g'(2) by (auto simp: can_iff)
next
  assume "can db a c (Some r) now"
  then obtain g where g: "g \<in> set (resolveGrants db a now)" "allows a [g] c (Some r) now" by (auto simp: can_iff)
  then obtain ctx' where c': "ctx' \<in> set (contextsFor (Some r) now)" "hasCapability a [g] c ctx'"
    by (auto simp: allows_iff)
  then have cov: "grant_covers g c ctx'" and ai: "\<not> (actor_kind a = Actor_ai_service \<and> \<not> isDraftOnly c)"
    by (auto simp: hasCapability_def split: if_splits)
  have "grant_covers (restated g) c ctx"
    by (rule restated_covers [OF cov]) (use assms contextsFor_locale [OF c'(1)] in simp)
  moreover have "restated g \<in> set (grantsFor db a r now)"
    using g allows_capability [OF g(2)] unfolding grantsFor_restated by auto
  ultimately show "hasCapability a (grantsFor db a r now) c ctx"
    using ai by (auto simp: hasCapability_def list_ex_iff)
qed

lemma can_internal:
  "res_audience r = Some Audience_internal \<Longrightarrow> actor_kind a \<in> {Actor_client, Actor_visitor} \<Longrightarrow>
    \<not> can db a c (Some r) now"
  by (auto simp: can_def allows_iff clientSideActors_def)

lemma can_ai: "actor_kind a = Actor_ai_service \<Longrightarrow> can db a c r now \<Longrightarrow> isDraftOnly c"
  by (auto simp: can_def allows_iff dest: hasCapability_ai)

text \<open>Staff need an active staff account with an active membership.\<close>

lemma staff_active:
  assumes "actor_kind a = Actor_staff" "can db a c r now"
  shows "\<exists>p m. p \<in> set (at_principals db) \<and> m \<in> set (at_memberships db) \<and> pr_id p = actor_id a \<and>
    mb_principalId m = actor_id a \<and> pr_status p = Account_active \<and> pr_kind p = Account_staff \<and> mb_state m = Member_active"
proof -
  have "staff_grants db (actor_id a) now \<noteq> []" using assms by (auto simp: can_iff resolveGrants_def)
  then obtain p m rest where "staff_accounts db (actor_id a) = (p, m) # rest" "pr_status p = Account_active"
    "pr_kind p = Account_staff" "mb_state m = Member_active"
    by (auto simp: staff_grants_def split: list.splits if_splits)
  moreover from this(1) have "(p, m) \<in> set (staff_accounts db (actor_id a))" by simp
  then have "p \<in> set (at_principals db)" "m \<in> set (at_memberships db)" "pr_id p = actor_id a"
    "mb_principalId m = actor_id a"
    by (auto simp: staff_accounts_def)
  ultimately show ?thesis by blast
qed

text \<open>A client reaches a record only through a scope that names it, or a case or property it belongs to.\<close>

lemma scopedTo_id: "truthy i \<Longrightarrow> \<exists>sc. scopedTo t i l e = Some sc \<and> scope_recordId sc = i"
  by (auto simp: scopedTo_def Let_def)

lemma expandGrant_scope: "g \<in> set (expandGrant row) \<Longrightarrow>
    grant_scope g = scopedTo (gr_recordType row) (gr_recordId row) (gr_locales row) (gr_expiresAt row)"
  by (auto simp: expandGrant_def)

lemma relationship_grants_scope:
  "g \<in> set (relationship_grants r) \<Longrightarrow>
    \<exists>t i. (t, i) \<in> set (scope_targets r) \<and> grant_scope g = scopedTo (Some t) (Some i) None (rl_expiresAt r)"
proof -
  assume "g \<in> set (relationship_grants r)"
  then obtain p where p: "p \<in> set (scope_targets r)"
    "grant_scope g = scopedTo (Some (fst p)) (Some (snd p)) None (rl_expiresAt r)"
    by (auto simp: relationship_grants_def split: if_splits)
  then show ?thesis by (metis prod.collapse)
qed

definition named_targets :: "accessTables \<Rightarrow> bool" where
  "named_targets db \<longleftrightarrow> list_all (\<lambda>r. list_all (\<lambda>(t, i). i \<noteq> []) (scope_targets r))
     (at_participants db @ at_relationships db)"

lemma client_grant_scoped:
  assumes "named_targets db" "g \<in> set (client_grants db pid now)"
  shows "\<exists>sc. grant_scope g = Some sc \<and> truthy (scope_recordId sc)"
proof -
  from assms(2) consider
      (grant) row where "truthy (gr_recordId row)" "g \<in> set (expandGrant row)"
    | (rel) r where "r \<in> set (at_participants db @ at_relationships db)" "g \<in> set (relationship_grants r)"
    by (auto simp: client_grants_def split: option.splits if_splits)
  then show ?thesis
  proof cases
    case grant
    then show ?thesis using scopedTo_id [OF grant(1)] expandGrant_scope [OF grant(2)] by metis
  next
    case rel
    obtain t i where "(t, i) \<in> set (scope_targets r)" "grant_scope g = scopedTo (Some t) (Some i) None (rl_expiresAt r)"
      using relationship_grants_scope [OF rel(2)] by blast
    moreover from this(1) rel(1) assms(1) have "truthy (Some i)" by (fastforce simp: named_targets_def list_all_iff)
    ultimately show ?thesis using scopedTo_id [of "Some i"] by metis
  qed
qed

lemma client_reach:
  assumes "named_targets db" "actor_kind a = Actor_client" "can db a c (Some r) now"
  shows "\<exists>g sc i. g \<in> set (client_grants db (actor_id a) now) \<and> grant_capability g = c \<and> grant_scope g = Some sc \<and>
    scope_recordId sc = Some i \<and> i \<noteq> [] \<and>
    (res_id r = Some i \<or> res_caseId r = Some i \<or> res_propertyId r = Some i \<and> res_type r \<in> set propertyRecordTypes)"
proof -
  obtain g where g: "g \<in> set (client_grants db (actor_id a) now)" "allows a [g] c (Some r) now"
    using assms(2,3) by (auto simp: can_iff resolveGrants_def)
  then obtain ctx where ctx: "ctx \<in> set (contextsFor (Some r) now)" "grant_covers g c ctx"
    by (auto simp: allows_iff hasCapability_def split: if_splits)
  obtain sc where sc: "grant_scope g = Some sc" "truthy (scope_recordId sc)"
    using client_grant_scoped [OF assms(1) g(1)] by blast
  then obtain i where i: "scope_recordId sc = Some i" "i \<noteq> []" by auto
  have "context_recordId ctx = Some i" using grant_covers_scope(3) [OF ctx(2) sc] i by simp
  then have "res_id r = Some i \<or> res_caseId r = Some i \<or>
      res_propertyId r = Some i \<and> res_type r \<in> set propertyRecordTypes"
    using ctx(1) by (auto simp: contextsFor_def context_on_def split: if_splits)
  then show ?thesis using g(1) allows_capability [OF g(2)] sc i by blast
qed

end
