(* ===== verification/Transition.thy ===== *)
theory Transition
  imports Capabilities
begin

text \<open>
  \<open>src/src/domain/transition.ts\<close>: the universal transition contract. A specification names its
  record type, its machine, the capability of each move and the evidence guard; \<open>applyTransition\<close>
  checks capability, expected version, table and guard in that order and returns the next record
  with its activity and audit entries. A TypeScript state is a string: the specification carries
  \<open>spec_name\<close>, the text of each state, and \<open>spec_json\<close>, the evidence as the audit stores it.

  The locale states what the operations of a versioned record promise; the lemmas about sequences
  of commands are proved from the promises alone and hold for every record type that keeps them.
\<close>

record ('s, 'e) transitionRequest =
  tr_actor :: actor
  tr_capabilities :: "capabilityGrant list"
  tr_expectedVersion :: int
  tr_to :: 's
  tr_evidence :: 'e
  tr_operationId :: string
  tr_at :: string
  tr_reason :: "string option"

record 's versionedRecord =
  vr_id :: string
  vr_reference :: "string option"
  vr_state :: 's
  vr_version :: int
  vr_locale :: "publicLocale option"

record ('s, 'e) transitionSpec =
  spec_recordType :: string
  spec_machine :: "'s machine"
  spec_capabilityFor :: "'s \<Rightarrow> 's \<Rightarrow> actor \<Rightarrow> capability"
  spec_guard :: "'s \<Rightarrow> 's \<Rightarrow> 'e \<Rightarrow> actor \<Rightarrow> decision"
  spec_name :: "'s \<Rightarrow> string"

record activityDescription =
  act_recordType :: string
  act_recordId :: string
  act_reference :: "string option"
  act_messageKey :: string
  act_summary :: string
  act_actor :: actor
  act_at :: string
  act_operationId :: string

record 'e auditPayload =
  aud_action :: string
  aud_operationId :: string
  aud_actor :: actor
  aud_capability :: capability
  aud_recordType :: string
  aud_recordId :: string
  aud_fromState :: string
  aud_toState :: string
  aud_expectedVersion :: int
  aud_newVersion :: int
  aud_evidence :: 'e
  aud_reason :: "string option"
  aud_at :: string

datatype ('r, 'e) transitionResult =
    Applied 'r activityDescription "'e auditPayload"
  | TransitionDenied string
  | VersionConflict 'r

text \<open>\<open>charAt(0).toUpperCase() + slice(1)\<close> of the words.\<close>

definition stateLabel :: "string \<Rightarrow> string" where
  "stateLabel state =
     (let words = map (\<lambda>c. if c = CHR ''_'' then CHR '' '' else c) state
      in to_upper (take 1 words) @ drop 1 words)"

definition drop_falsy :: "string option \<Rightarrow> string option" where
  "drop_falsy v = (if truthy v then v else None)"

definition transition_context ::
    "('s, 'e) transitionSpec \<Rightarrow> ('s, 'z) versionedRecord_scheme \<Rightarrow> ('s, 'e) transitionRequest
      \<Rightarrow> capabilityContext" where
  "transition_context spec r q =
     \<lparr>context_recordType = Some (spec_recordType spec), context_recordId = Some (vr_id r),
      context_locale = vr_locale r, context_now = Some (tr_at q)\<rparr>"

definition transition_summary ::
    "('s, 'e) transitionSpec \<Rightarrow> ('s, 'z) versionedRecord_scheme \<Rightarrow> ('s, 'e) transitionRequest
      \<Rightarrow> string" where
  "transition_summary spec r q =
     stateLabel (spec_recordType spec) @ '' '' @ the_or (vr_id r) (vr_reference r) @ '' moved from '' @
     stateLabel (spec_name spec (vr_state r)) @ '' to '' @ stateLabel (spec_name spec (tr_to q)) @
     (if truthy (tr_reason q) then '': '' @ the_or [] (tr_reason q) else []) @ ''.''"

definition transition_activity ::
    "('s, 'e) transitionSpec \<Rightarrow> ('s, 'z) versionedRecord_scheme \<Rightarrow> ('s, 'e) transitionRequest
      \<Rightarrow> activityDescription" where
  "transition_activity spec r q =
     \<lparr>act_recordType = spec_recordType spec, act_recordId = vr_id r,
      act_reference = drop_falsy (vr_reference r),
      act_messageKey = ''activity.'' @ spec_recordType spec @ ''.'' @ spec_name spec (tr_to q),
      act_summary = transition_summary spec r q, act_actor = tr_actor q, act_at = tr_at q,
      act_operationId = tr_operationId q\<rparr>"

definition transition_audit ::
    "('s, 'e) transitionSpec \<Rightarrow> ('s, 'z) versionedRecord_scheme \<Rightarrow> ('s, 'e) transitionRequest
      \<Rightarrow> 'e auditPayload" where
  "transition_audit spec r q =
     \<lparr>aud_action = spec_recordType spec @ ''.transition'', aud_operationId = tr_operationId q,
      aud_actor = tr_actor q,
      aud_capability = spec_capabilityFor spec (vr_state r) (tr_to q) (tr_actor q),
      aud_recordType = spec_recordType spec, aud_recordId = vr_id r,
      aud_fromState = spec_name spec (vr_state r), aud_toState = spec_name spec (tr_to q),
      aud_expectedVersion = tr_expectedVersion q, aud_newVersion = vr_version r + 1,
      aud_evidence = tr_evidence q, aud_reason = drop_falsy (tr_reason q), aud_at = tr_at q\<rparr>"

definition applyTransition ::
    "('s, 'e) transitionSpec \<Rightarrow> ('s, 'z) versionedRecord_scheme \<Rightarrow> ('s, 'e) transitionRequest
      \<Rightarrow> (('s, 'z) versionedRecord_scheme, 'e) transitionResult" where
  "applyTransition spec r q =
     (let from = vr_state r; to = tr_to q; cap = spec_capabilityFor spec from to (tr_actor q)
      in if \<not> hasCapability (tr_actor q) (tr_capabilities q) cap (transition_context spec r q)
         then TransitionDenied ''missing_capability''
         else if tr_expectedVersion q \<noteq> vr_version r then VersionConflict r
         else case check (spec_machine spec) from to of
             Denied code \<Rightarrow> TransitionDenied code
           | Allowed \<Rightarrow>
               (case spec_guard spec from to (tr_evidence q) (tr_actor q) of
                  Denied code \<Rightarrow> TransitionDenied code
                | Allowed \<Rightarrow> Applied (r\<lparr>vr_state := to, vr_version := vr_version r + 1\<rparr>)
                    (transition_activity spec r q) (transition_audit spec r q)))"

subsection \<open>What an applied transition is\<close>

definition permitted ::
    "('s, 'e) transitionSpec \<Rightarrow> ('s, 'z) versionedRecord_scheme \<Rightarrow> ('s, 'e) transitionRequest \<Rightarrow> bool" where
  "permitted spec r q =
     hasCapability (tr_actor q) (tr_capabilities q)
       (spec_capabilityFor spec (vr_state r) (tr_to q) (tr_actor q)) (transition_context spec r q)"

lemma applyTransition_Applied:
  "applyTransition spec r q = Applied r' act aud \<longleftrightarrow>
     permitted spec r q \<and> tr_expectedVersion q = vr_version r \<and>
     check (spec_machine spec) (vr_state r) (tr_to q) = Allowed \<and>
     spec_guard spec (vr_state r) (tr_to q) (tr_evidence q) (tr_actor q) = Allowed \<and>
     r' = r\<lparr>vr_state := tr_to q, vr_version := vr_version r + 1\<rparr> \<and>
     act = transition_activity spec r q \<and> aud = transition_audit spec r q"
  by (auto simp: applyTransition_def permitted_def Let_def split: decision.splits)

lemma applyTransition_conflict:
  "applyTransition spec r q = VersionConflict r' \<longleftrightarrow>
     permitted spec r q \<and> tr_expectedVersion q \<noteq> vr_version r \<and> r' = r"
  by (auto simp: applyTransition_def permitted_def Let_def split: decision.splits)

lemma applyTransition_denied:
  "applyTransition spec r q = TransitionDenied code \<longleftrightarrow>
     (if \<not> permitted spec r q then code = ''missing_capability''
      else tr_expectedVersion q = vr_version r \<and>
        (if check (spec_machine spec) (vr_state r) (tr_to q) \<noteq> Allowed
         then check (spec_machine spec) (vr_state r) (tr_to q) = Denied code
         else spec_guard spec (vr_state r) (tr_to q) (tr_evidence q) (tr_actor q) = Denied code))"
  by (auto simp: applyTransition_def permitted_def Let_def split: decision.splits)

definition applied_record :: "('r, 'e) transitionResult \<Rightarrow> 'r option" where
  "applied_record res = (case res of Applied r _ _ \<Rightarrow> Some r | _ \<Rightarrow> None)"

lemma applied_record_Some:
  "applied_record res = Some r \<longleftrightarrow> (\<exists>act aud. res = Applied r act aud)"
  by (cases res) (simp_all add: applied_record_def)

subsection \<open>Sequences of commands\<close>

text \<open>
  A command is a partial function on the record: refused commands leave it as it is. The commands of
  a list reach the record one after the other; \<open>accepted\<close> lists those that applied.
\<close>

definition submit :: "('r \<Rightarrow> 'q \<Rightarrow> 'r option) \<Rightarrow> 'r \<Rightarrow> 'q \<Rightarrow> 'r" where
  "submit run r q = (case run r q of None \<Rightarrow> r | Some r' \<Rightarrow> r')"

fun submit_all :: "('r \<Rightarrow> 'q \<Rightarrow> 'r option) \<Rightarrow> 'r \<Rightarrow> 'q list \<Rightarrow> 'r" where
  "submit_all run r [] = r"
| "submit_all run r (q # qs) = submit_all run (submit run r q) qs"

fun accepted :: "('r \<Rightarrow> 'q \<Rightarrow> 'r option) \<Rightarrow> 'r \<Rightarrow> 'q list \<Rightarrow> 'q list" where
  "accepted run r [] = []"
| "accepted run r (q # qs) =
     (case run r q of None \<Rightarrow> accepted run r qs | Some r' \<Rightarrow> q # accepted run r' qs)"

lemma submit_simps [simp]:
  "run r q = None \<Longrightarrow> submit run r q = r" "run r q = Some r' \<Longrightarrow> submit run r q = r'"
  by (simp_all add: submit_def)

lemma count_list_distinct: "distinct xs \<Longrightarrow> count_list xs v \<le> 1"
  by (induction xs) (auto simp: count_list_0_iff)

locale versioned_commands =
  fixes run :: "'r \<Rightarrow> 'q \<Rightarrow> 'r option"
    and ver :: "'r \<Rightarrow> int"
    and st :: "'r \<Rightarrow> 's"
    and expects :: "'q \<Rightarrow> int"
    and m :: "'s machine"
  assumes run_expects: "run r q = Some r' \<Longrightarrow> expects q = ver r"
    and run_version: "run r q = Some r' \<Longrightarrow> ver r' = ver r + 1"
    and run_table: "run r q = Some r' \<Longrightarrow> check m (st r) (st r') = Allowed"
begin

lemma version_counts:
  "ver (submit_all run r qs) = ver r + int (length (accepted run r qs))"
proof (induction qs arbitrary: r)
  case Nil
  then show ?case by simp
next
  case (Cons q qs)
  then show ?case by (cases "run r q") (auto dest: run_version)
qed

text \<open>The accepted commands expected consecutive versions, starting with the record's own.\<close>

lemma accepted_consecutive:
  "map expects (accepted run r qs) = map (\<lambda>i. ver r + int i) [0..<length (accepted run r qs)]"
proof (induction qs arbitrary: r)
  case Nil
  then show ?case by simp
next
  case (Cons q qs)
  show ?case
  proof (cases "run r q")
    case None
    with Cons show ?thesis by simp
  next
    case (Some r')
    have "map (\<lambda>i. ver r' + int i) [0..<n] = map (\<lambda>i. ver r + int i) [1..<Suc n]" for n
      by (simp add: run_version [OF Some] map_Suc_upt [symmetric] comp_def algebra_simps del: upt_Suc)
    moreover have "map (\<lambda>i. ver r + int i) [0..<Suc n] = ver r # map (\<lambda>i. ver r + int i) [1..<Suc n]" for n
      by (simp add: upt_conv_Cons del: upt_Suc)
    ultimately show ?thesis using Some Cons [of r'] run_expects [OF Some] by (simp del: upt_Suc)
  qed
qed

text \<open>So of all the commands prepared against one version at most one is accepted.\<close>

lemma accepted_distinct: "distinct (map expects (accepted run r qs))"
  unfolding accepted_consecutive by (simp add: distinct_map inj_on_def)

lemma accepted_once: "length (filter (\<lambda>q. expects q = v) (accepted run r qs)) \<le> 1"
proof -
  have "(\<lambda>q. expects q = v) = (=) v \<circ> expects" by auto
  then have "length (filter (\<lambda>q. expects q = v) (accepted run r qs)) =
      count_list (map expects (accepted run r qs)) v"
    by (simp add: count_list_eq_length_filter filter_map)
  also have "\<dots> \<le> 1"
    using accepted_distinct [of r qs] by (rule count_list_distinct)
  finally show ?thesis .
qed

lemma submit_all_reaches: "reaches m (st r) (st (submit_all run r qs))"
proof (induction qs arbitrary: r)
  case Nil
  then show ?case by (simp add: reaches_refl)
next
  case (Cons q qs)
  show ?case
  proof (cases "run r q")
    case None
    with Cons show ?thesis by simp
  next
    case (Some r')
    then have "reaches m (st r) (st r')" by (blast intro: reaches.intros run_table)
    with Cons [of r'] Some show ?thesis by (auto intro: reaches_trans)
  qed
qed

lemma terminal_unchanged:
  assumes "isTerminal m (st r)"
  shows "submit_all run r qs = r" "accepted run r qs = []"
proof -
  have none: "run r q = None" for q
    using run_table [of r q] assms by (cases "run r q") (auto simp: check_Allowed_iff isTerminal_iff)
  show "submit_all run r qs = r" by (induction qs) (simp_all add: none)
  show "accepted run r qs = []" by (induction qs) (simp_all add: none)
qed

end

text \<open>Every record type that goes through \<open>applyTransition\<close> keeps the promises.\<close>

definition run_transition ::
    "('s, 'e) transitionSpec \<Rightarrow> ('s, 'z) versionedRecord_scheme \<Rightarrow> ('s, 'e) transitionRequest
      \<Rightarrow> ('s, 'z) versionedRecord_scheme option" where
  "run_transition spec r q = applied_record (applyTransition spec r q)"

lemma run_transition_Some:
  "run_transition spec r q = Some r' \<longleftrightarrow>
     permitted spec r q \<and> tr_expectedVersion q = vr_version r \<and>
     check (spec_machine spec) (vr_state r) (tr_to q) = Allowed \<and>
     spec_guard spec (vr_state r) (tr_to q) (tr_evidence q) (tr_actor q) = Allowed \<and>
     r' = r\<lparr>vr_state := tr_to q, vr_version := vr_version r + 1\<rparr>"
  by (auto simp: run_transition_def applied_record_Some applyTransition_Applied)

interpretation commands:
  versioned_commands "run_transition spec" vr_version vr_state tr_expectedVersion "spec_machine spec"
  for spec
  by unfold_locales (auto simp: run_transition_Some)

end
