(* ===== verification/Appointment.thy ===== *)
theory Appointment
  imports Transition
begin

text \<open>
  \<open>src/src/domain/appointment.ts\<close>: a requested window or a proposal is not a confirmation, and a
  reschedule keeps the confirmed arrangement until the replacement is accepted.
\<close>

datatype appointmentState = Appt_requested | Appt_proposed | Appt_confirmed
  | Appt_reschedule_requested | Appt_completed | Appt_declined | Appt_cancelled | Appt_no_show

definition appointmentStates :: "appointmentState list" where
  "appointmentStates = [Appt_requested, Appt_proposed, Appt_confirmed, Appt_reschedule_requested,
     Appt_completed, Appt_declined, Appt_cancelled, Appt_no_show]"

fun appointmentState_name :: "appointmentState \<Rightarrow> string" where
  "appointmentState_name Appt_requested = ''requested''"
| "appointmentState_name Appt_proposed = ''proposed''"
| "appointmentState_name Appt_confirmed = ''confirmed''"
| "appointmentState_name Appt_reschedule_requested = ''reschedule_requested''"
| "appointmentState_name Appt_completed = ''completed''"
| "appointmentState_name Appt_declined = ''declined''"
| "appointmentState_name Appt_cancelled = ''cancelled''"
| "appointmentState_name Appt_no_show = ''no_show''"

datatype propertyAccessState = Pa_unknown | Pa_requested | Pa_confirmed | Pa_unavailable

fun appointmentTable :: "appointmentState \<Rightarrow> appointmentState list" where
  "appointmentTable Appt_requested = [Appt_proposed, Appt_confirmed, Appt_declined, Appt_cancelled]"
| "appointmentTable Appt_proposed = [Appt_confirmed, Appt_declined, Appt_cancelled, Appt_requested]"
| "appointmentTable Appt_confirmed =
     [Appt_reschedule_requested, Appt_completed, Appt_cancelled, Appt_no_show]"
| "appointmentTable Appt_reschedule_requested =
     [Appt_confirmed, Appt_cancelled, Appt_completed, Appt_no_show]"
| "appointmentTable Appt_completed = []"
| "appointmentTable Appt_declined = []"
| "appointmentTable Appt_cancelled = []"
| "appointmentTable Appt_no_show = []"

definition appointmentMachine :: "appointmentState machine" where
  "appointmentMachine = defineMachine appointmentStates appointmentTable"

record slot =
  slot_startsAt :: string
  slot_endsAt :: string
  slot_timezone :: string

datatype appointmentPurpose = Purpose_viewing | Purpose_photography

record appointmentEvidence =
  ae_purpose :: "appointmentPurpose option"
  ae_photographyScopeReviewed :: "bool option"
  ae_propertyWorkContextConfirmed :: "bool option"
  ae_slot :: "slot option"
  ae_hostAvailable :: "bool option"
  ae_propertyAccess :: "propertyAccessState option"
  ae_participantCount :: "int option"
  ae_externalBusyChecked :: "bool option"
  ae_resourcesFree :: "bool option"
  ae_availabilityConfirmed :: "bool option"
  ae_attendanceRecorded :: "bool option"
  ae_factualCheckNote :: "string option"
  ae_reason :: "string option"

definition clientAppointmentTargets :: "appointmentState list" where
  "clientAppointmentTargets = [Appt_cancelled, Appt_reschedule_requested]"

text \<open>\<open>evidence.slot?.timezone\<close>\<close>

definition slot_zone :: "appointmentEvidence \<Rightarrow> string option" where
  "slot_zone e = map_option slot_timezone (ae_slot e)"

definition confirm_checks :: "appointmentEvidence \<Rightarrow> actor \<Rightarrow> decision" where
  "confirm_checks e a =
     firstDenial
       [Some (need (actor_kind a = Actor_staff) ''human_required''),
        Some (need (truthy (slot_zone e)) ''timezone_required''),
        Some (need (is_true (ae_hostAvailable e)) ''host_unavailable''),
        Some (need (ae_propertyAccess e = Some Pa_confirmed) ''property_access_unconfirmed''),
        Some (if ae_purpose e = Some Purpose_photography
              then need (is_true (ae_photographyScopeReviewed e)) ''photography_scope_required''
              else need (0 < num_or_zero (ae_participantCount e)) ''participants_required''),
        Some (need (is_true (ae_externalBusyChecked e)) ''external_busy_check_required''),
        Some (need (is_true (ae_resourcesFree e)) ''appointment_conflict''),
        Some (if ae_purpose e = Some Purpose_photography
              then need (is_true (ae_propertyWorkContextConfirmed e)) ''property_work_context_required''
              else need (is_true (ae_availabilityConfirmed e)) ''availability_reconfirmation_required'')]"

definition guardAppointmentTransition ::
    "appointmentState \<Rightarrow> appointmentState \<Rightarrow> appointmentEvidence \<Rightarrow> actor \<Rightarrow> decision" where
  "guardAppointmentTransition from to e a =
     (if actor_kind a = Actor_client \<and> to \<notin> set clientAppointmentTargets then denied ''staff_required''
      else case to of
          Appt_proposed \<Rightarrow> firstDenial
            [Some (need (ae_slot e \<noteq> None) ''slot_required''),
             Some (need (truthy (slot_zone e)) ''timezone_required'')]
        | Appt_confirmed \<Rightarrow>
            if from = Appt_reschedule_requested \<and> ae_slot e = None
            then need (actor_kind a = Actor_staff) ''human_required''
            else confirm_checks e a
        | Appt_completed \<Rightarrow> need (is_true (ae_attendanceRecorded e)) ''attendance_required''
        | Appt_no_show \<Rightarrow> need (truthy (ae_factualCheckNote e)) ''factual_check_required''
        | Appt_declined \<Rightarrow> need (truthy (ae_reason e)) ''reason_required''
        | Appt_cancelled \<Rightarrow> need (truthy (ae_reason e)) ''reason_required''
        | Appt_reschedule_requested \<Rightarrow> need (truthy (ae_reason e)) ''reason_required''
        | Appt_requested \<Rightarrow> Allowed)"

definition appointmentTransitions :: "(appointmentState, appointmentEvidence) transitionSpec" where
  "appointmentTransitions =
     \<lparr>spec_recordType = ''appointment'', spec_machine = appointmentMachine,
      spec_capabilityFor = (\<lambda>from to a. if actor_kind a = Actor_client
         then Cap_portal_appointment_request else Cap_appointment_manage),
      spec_guard = guardAppointmentTransition, spec_name = appointmentState_name\<rparr>"

record appointmentArrangement =
  aa_state :: appointmentState
  aa_confirmedSlot :: "slot option"
  aa_proposedSlot :: "slot option"

definition effectiveSlot :: "appointmentArrangement \<Rightarrow> slot option" where
  "effectiveSlot a =
     (if aa_state a = Appt_confirmed \<or> aa_state a = Appt_reschedule_requested
      then aa_confirmedSlot a else None)"

subsection \<open>What a confirmation rests on\<close>

lemma appointmentMachine_wf: "wf_machine appointmentMachine"
  by (simp add: appointmentMachine_def wf_machine_def appointmentStates_def)

lemma appointmentState_name_inj: "appointmentState_name s = appointmentState_name t \<longleftrightarrow> s = t"
  by (cases s; cases t) simp_all

lemma confirm_checks_Allowed:
  "confirm_checks e a = Allowed \<longleftrightarrow>
     actor_kind a = Actor_staff \<and> truthy (slot_zone e) \<and> is_true (ae_hostAvailable e) \<and>
     ae_propertyAccess e = Some Pa_confirmed \<and> is_true (ae_externalBusyChecked e) \<and>
     is_true (ae_resourcesFree e) \<and>
     (if ae_purpose e = Some Purpose_photography
      then is_true (ae_photographyScopeReviewed e) \<and> is_true (ae_propertyWorkContextConfirmed e)
      else 0 < num_or_zero (ae_participantCount e) \<and> is_true (ae_availabilityConfirmed e))"
  by (auto simp: confirm_checks_def guard_simps)

lemma appointment_confirmed_iff:
  "guardAppointmentTransition from Appt_confirmed e a = Allowed \<longleftrightarrow>
     actor_kind a = Actor_staff \<and>
     (if from = Appt_reschedule_requested \<and> ae_slot e = None then True
      else confirm_checks e a = Allowed)"
  by (auto simp: guardAppointmentTransition_def clientAppointmentTargets_def confirm_checks_Allowed)

text \<open>A client can only cancel or ask for another time.\<close>

lemma appointment_client:
  assumes "guardAppointmentTransition from to e a = Allowed" "actor_kind a = Actor_client"
  shows "to \<in> {Appt_cancelled, Appt_reschedule_requested}" "truthy (ae_reason e)"
  using assms by (auto simp: guardAppointmentTransition_def clientAppointmentTargets_def split: if_splits)

end
