(* ===== verification/Document.thy ===== *)
theory Document
  imports Capabilities
begin

text \<open>
  \<open>src/src/domain/document.ts\<close> and the upload and scan vocabulary it shares with \<open>media.ts\<close>:
  uploading, sealing, scanning and review of a document are separate facts.
\<close>

datatype scanState = Scan_pending | Scan_clean | Scan_infected | Scan_failed

definition scanStates :: "scanState list" where
  "scanStates = [Scan_pending, Scan_clean, Scan_infected, Scan_failed]"

datatype documentReviewType = Docr_accepted_for_purpose | Docr_needs_replacement
  | Docr_reviewed_with_open_questions

definition documentReviewTypes :: "documentReviewType list" where
  "documentReviewTypes = [Docr_accepted_for_purpose, Docr_needs_replacement, Docr_reviewed_with_open_questions]"

datatype documentState = Doc_selected | Doc_uploading | Doc_uploaded | Doc_sealed | Doc_scanning
  | Doc_ready_for_review | Doc_reviewed | Doc_rejected | Doc_needs_replacement | Doc_expired
  | Doc_superseded

definition documentStates :: "documentState list" where
  "documentStates = [Doc_selected, Doc_uploading, Doc_uploaded, Doc_sealed, Doc_scanning, Doc_ready_for_review,
     Doc_reviewed, Doc_rejected, Doc_needs_replacement, Doc_expired, Doc_superseded]"

fun documentState_name :: "documentState \<Rightarrow> string" where
  "documentState_name Doc_selected = ''selected''"
| "documentState_name Doc_uploading = ''uploading''"
| "documentState_name Doc_uploaded = ''uploaded''"
| "documentState_name Doc_sealed = ''sealed''"
| "documentState_name Doc_scanning = ''scanning''"
| "documentState_name Doc_ready_for_review = ''ready_for_review''"
| "documentState_name Doc_reviewed = ''reviewed''"
| "documentState_name Doc_rejected = ''rejected''"
| "documentState_name Doc_needs_replacement = ''needs_replacement''"
| "documentState_name Doc_expired = ''expired''"
| "documentState_name Doc_superseded = ''superseded''"

fun documentTable :: "documentState \<Rightarrow> documentState list" where
  "documentTable Doc_selected = [Doc_uploading]"
| "documentTable Doc_uploading = [Doc_uploaded, Doc_selected]"
| "documentTable Doc_uploaded = [Doc_sealed, Doc_rejected]"
| "documentTable Doc_sealed = [Doc_scanning]"
| "documentTable Doc_scanning = [Doc_ready_for_review, Doc_rejected]"
| "documentTable Doc_ready_for_review = [Doc_reviewed, Doc_rejected, Doc_needs_replacement]"
| "documentTable Doc_reviewed = [Doc_needs_replacement, Doc_expired, Doc_superseded]"
| "documentTable Doc_rejected = [Doc_superseded]"
| "documentTable Doc_needs_replacement = [Doc_superseded]"
| "documentTable Doc_expired = [Doc_superseded]"
| "documentTable Doc_superseded = []"

definition documentMachine :: "documentState machine" where
  "documentMachine = defineMachine documentStates documentTable"

record documentEvidence =
  doe_bytesReceived :: "int option"
  doe_byteSize :: "int option"
  doe_sealedSha256 :: "string option"
  doe_sealedKey :: "string option"
  doe_scan :: "scanState option"
  doe_reviewType :: "documentReviewType option"
  doe_reason :: "string option"
  doe_replacementVersionId :: "string option"

definition guardDocumentTransition ::
    "documentState \<Rightarrow> documentState \<Rightarrow> documentEvidence \<Rightarrow> actor \<Rightarrow> decision" where
  "guardDocumentTransition from to e a = (case to of
       Doc_uploaded \<Rightarrow> firstDenial
         [Some (need (doe_byteSize e \<noteq> None \<and> doe_bytesReceived e = doe_byteSize e) ''upload_incomplete'')]
     | Doc_sealed \<Rightarrow> firstDenial
         [Some (need (truthy (doe_sealedKey e)) ''sealed_key_required''),
          Some (need (truthy (doe_sealedSha256 e)) ''sealed_digest_required'')]
     | Doc_ready_for_review \<Rightarrow> need (doe_scan e = Some Scan_clean) ''scan_not_clean''
     | Doc_reviewed \<Rightarrow> firstDenial
         [Some (need (actor_kind a = Actor_staff) ''human_required''),
          Some (need (doe_reviewType e \<noteq> None) ''review_type_required'')]
     | Doc_rejected \<Rightarrow> need (truthy (doe_reason e)) ''reason_required''
     | Doc_needs_replacement \<Rightarrow> need (truthy (doe_reason e)) ''reason_required''
     | Doc_superseded \<Rightarrow> need (truthy (doe_replacementVersionId e)) ''replacement_required''
     | _ \<Rightarrow> Allowed)"

definition isDocumentExposable :: "documentState \<Rightarrow> scanState \<Rightarrow> bool" where
  "isDocumentExposable st scan = (scan = Scan_clean \<and> (st = Doc_ready_for_review \<or> st = Doc_reviewed))"

lemma documentMachine_wf: "wf_machine documentMachine"
  by (simp add: documentMachine_def wf_machine_def documentStates_def)

text \<open>
  A document moves: the table and the guard both allow it. The steps from its selection, with the
  evidence each carried.
\<close>

inductive document_steps :: "documentState \<Rightarrow> (documentState \<times> documentEvidence \<times> actor) list \<Rightarrow> bool" where
  document_selected: "document_steps Doc_selected []"
| document_step: "\<lbrakk>document_steps s h; check documentMachine s t = Allowed;
    guardDocumentTransition s t e a = Allowed\<rbrakk> \<Longrightarrow> document_steps t ((t, e, a) # h)"

inductive_cases document_steps_ConsE: "document_steps s ((t, e, a) # h)"

lemma document_preds:
  "check documentMachine s Doc_ready_for_review = Allowed \<longleftrightarrow> s = Doc_scanning"
  "check documentMachine s Doc_scanning = Allowed \<longleftrightarrow> s = Doc_sealed"
  "check documentMachine s Doc_sealed = Allowed \<longleftrightarrow> s = Doc_uploaded"
  "check documentMachine s Doc_reviewed = Allowed \<longleftrightarrow> s = Doc_ready_for_review"
  "check documentMachine s Doc_needs_replacement = Allowed \<longleftrightarrow> s = Doc_ready_for_review \<or> s = Doc_reviewed"
  "check documentMachine s Doc_expired = Allowed \<longleftrightarrow> s = Doc_reviewed"
  by (cases s; simp add: check_Allowed_iff documentMachine_def)+

definition history_has :: "(documentEvidence \<Rightarrow> bool) \<Rightarrow> documentState \<Rightarrow>
    (documentState \<times> documentEvidence \<times> actor) list \<Rightarrow> bool" where
  "history_has P t h = list_ex (\<lambda>(s, e, a). s = t \<and> P e) h"

lemma history_has_Cons [simp]:
  "history_has P t ((s, e, a) # h) \<longleftrightarrow> (s = t \<and> P e) \<or> history_has P t h"
  by (simp add: history_has_def)

text \<open>What every document that has got as far as its scan has behind it.\<close>

definition scanned_states :: "documentState list" where
  "scanned_states = [Doc_ready_for_review, Doc_reviewed, Doc_needs_replacement, Doc_expired]"

lemma document_sealed_before:
  assumes "document_steps s h"
  shows "(s = Doc_sealed \<or> s = Doc_scanning \<or> s \<in> set scanned_states \<longrightarrow>
      history_has (\<lambda>e. truthy (doe_sealedSha256 e) \<and> truthy (doe_sealedKey e)) Doc_sealed h) \<and>
    (s \<in> set scanned_states \<longrightarrow> history_has (\<lambda>e. doe_scan e = Some Scan_clean) Doc_ready_for_review h)"
  using assms
proof (induction rule: document_steps.induct)
  case document_selected
  then show ?case by (simp add: scanned_states_def)
next
  case (document_step s h t e a)
  then show ?case
    by (cases t)
      (auto simp: scanned_states_def document_preds guardDocumentTransition_def guard_simps)
qed

end
