(* ===== verification/Facts.thy ===== *)
theory Facts
  imports Ids Complex_Main
begin

text \<open>
  \<open>src/src/domain/facts.ts\<close>: facts with explicit states, money in integer minor units, the fixed
  BGN conversion, areas and locations. A number that may have a fraction (an area) is a rational.
\<close>

subsection \<open>Fact states and provenance\<close>

datatype factState = Fact_known | Fact_unknown | Fact_not_supplied | Fact_not_applicable
  | Fact_withheld | Fact_conflicting

datatype sourceClass = Src_source_supplied | Src_owner_confirmed | Src_agency_observed
  | Src_document_reviewed | Src_professionally_reviewed | Src_system_calculated | Src_legacy_import

record provenance =
  pv_sourceClass :: sourceClass
  pv_sourceReference :: "string option"
  pv_sourceLanguage :: "string option"
  pv_observedAt :: "string option"
  pv_reviewScope :: "string option"
  pv_reviewedBy :: "string option"
  pv_reviewedAt :: "string option"

text \<open>
  A tagged value: known with its value, conflicting with its candidates, or absent in one of the
  four remaining states. \<open>absentState\<close> is \<open>Exclude<FactState, "known" | "conflicting">\<close>.
\<close>

datatype absentState = Abs_unknown | Abs_not_supplied | Abs_not_applicable | Abs_withheld

datatype 'a fact =
    KnownFact 'a "string option" provenance
  | ConflictingFact "'a list" "provenance option" "string option"
  | AbsentFact absentState "provenance option" "string option"

fun absent_factState :: "absentState \<Rightarrow> factState" where
  "absent_factState Abs_unknown = Fact_unknown"
| "absent_factState Abs_not_supplied = Fact_not_supplied"
| "absent_factState Abs_not_applicable = Fact_not_applicable"
| "absent_factState Abs_withheld = Fact_withheld"

fun fact_state :: "'a fact \<Rightarrow> factState" where
  "fact_state (KnownFact v u p) = Fact_known"
| "fact_state (ConflictingFact cs p n) = Fact_conflicting"
| "fact_state (AbsentFact s p n) = absent_factState s"

definition known :: "'a \<Rightarrow> provenance \<Rightarrow> string option \<Rightarrow> 'a fact" where
  "known value pv unit = KnownFact value unit pv"

definition absent :: "absentState \<Rightarrow> provenance option \<Rightarrow> 'a fact" where
  "absent st pv = AbsentFact st pv None"

definition isKnown :: "'a fact \<Rightarrow> bool" where
  "isKnown f = (fact_state f = Fact_known)"

lemma isKnown_iff: "isKnown f \<longleftrightarrow> (\<exists>v u p. f = KnownFact v u p)"
proof (cases f)
  case (AbsentFact s p n)
  then show ?thesis by (cases s) (simp_all add: isKnown_def)
qed (simp_all add: isKnown_def)

subsection \<open>Purpose, price and money\<close>

datatype listingPurpose = Purpose_sale | Purpose_long_term_rent
datatype pricePeriod = Period_total | Period_month
datatype priceBasis = Basis_asking | Basis_negotiable | Basis_fixed | Basis_indicative

fun pricePeriodByPurpose :: "listingPurpose \<Rightarrow> pricePeriod" where
  "pricePeriodByPurpose Purpose_sale = Period_total"
| "pricePeriodByPurpose Purpose_long_term_rent = Period_month"

record money =
  amountMinor :: int
  currency :: currencyCode
  period :: pricePeriod
  basis :: priceBasis
  inclusions :: "string list option"

fun currency_of_name :: "string \<Rightarrow> currencyCode option" where
  "currency_of_name s = List.find (\<lambda>c. currency_name c = s) currencyCodes"

definition make_money :: "int \<Rightarrow> string \<Rightarrow> pricePeriod \<Rightarrow> priceBasis \<Rightarrow> money option" where
  "make_money amount cur per bas =
     (if \<not> is_safe_integer amount \<or> amount < 0 then None
      else case currency_of_name cur of None \<Rightarrow> None
        | Some c \<Rightarrow> Some \<lparr>amountMinor = amount, currency = c, period = per, basis = bas,
            inclusions = None\<rparr>)"

lemma currency_of_name: "currency_of_name s = Some c \<longleftrightarrow> s = currency_name c"
  by (cases c) (auto simp: currencyCodes_def)

lemma isCurrencyCode_iff: "isCurrencyCode s \<longleftrightarrow> currency_of_name s \<noteq> None"
  by (auto simp: isCurrencyCode_def currencyCodes_def)

subsection \<open>The fixed conversion\<close>

definition bgn_numerator :: int where "bgn_numerator = 195583"
definition bgn_denominator :: int where "bgn_denominator = 100000"

record presentedMoney =
  pm_amountMinor :: int
  pm_currency :: currencyCode
  pm_original :: "int \<times> currencyCode"

text \<open>
  \<open>BigInt\<close> division truncates towards zero; both operands are non-negative for a recorded amount
  and the model writes the truncation out.
\<close>

definition bigint_div :: "int \<Rightarrow> int \<Rightarrow> int" where
  "bigint_div a b = sgn a * sgn b * (\<bar>a\<bar> div \<bar>b\<bar>)"

definition presentInEuro :: "int \<Rightarrow> currencyCode \<Rightarrow> presentedMoney" where
  "presentInEuro amount cur =
     (if cur \<noteq> BGN then \<lparr>pm_amountMinor = amount, pm_currency = cur, pm_original = (amount, cur)\<rparr>
      else (let scaled = amount * bgn_denominator * 2;
                eurMinor = bigint_div (bigint_div scaled bgn_numerator + 1) 2
            in \<lparr>pm_amountMinor = eurMinor, pm_currency = EUR, pm_original = (amount, cur)\<rparr>))"

lemma bigint_div_nonneg: "0 \<le> a \<Longrightarrow> 0 < b \<Longrightarrow> bigint_div a b = a div b"
  by (cases "a = 0") (auto simp: bigint_div_def)

text \<open>Rounding half up: of the doubled quotient's floor, the half rounded up.\<close>

lemma half_up:
  fixes a n :: int
  assumes "0 \<le> a" "0 < n"
  defines "q \<equiv> ((2 * a) div n + 1) div 2"
  shows "2 * n * q \<le> 2 * a + n" "2 * a + n < 2 * n * (q + 1)"
proof -
  define u where "u = (2 * a) div n"
  have u: "n * u \<le> 2 * a" "2 * a < n * (u + 1)"
    using div_bounds [OF assms(2), of "2 * a", folded u_def] by (simp_all add: distrib_left)
  have q: "2 * q \<le> u + 1" "u + 1 \<le> 2 * q + 1" by (auto simp: q_def u_def)
  have "n * (2 * q) \<le> n * (u + 1)" using q(1) assms(2) by simp
  with u(1) show "2 * n * q \<le> 2 * a + n" by (simp add: algebra_simps)
  have "n * (u + 2) \<le> n * (2 * (q + 1))"
    using q(2) assms(2) by (intro mult_left_mono) auto
  with u(2) show "2 * a + n < 2 * n * (q + 1)" by (simp add: algebra_simps)
qed

lemma presentInEuro_amount:
  assumes "0 \<le> a"
  shows "pm_amountMinor (presentInEuro a BGN) = ((2 * (a * bgn_denominator)) div bgn_numerator + 1) div 2"
proof -
  have "0 \<le> a * bgn_denominator * 2" using assms by (simp add: bgn_denominator_def)
  moreover have "0 \<le> a * bgn_denominator * 2 div bgn_numerator"
    using calculation by (simp add: bgn_numerator_def pos_imp_zdiv_nonneg_iff)
  ultimately show ?thesis
    by (simp add: presentInEuro_def Let_def bigint_div_nonneg bgn_numerator_def mult.commute mult.left_commute)
qed

subsection \<open>Area and location\<close>

datatype areaBasis = Area_living | Area_usable | Area_built | Area_gross_floor | Area_total | Area_land

record area =
  area_value :: rat
  area_basis :: areaBasis

definition make_area :: "rat \<Rightarrow> areaBasis \<Rightarrow> area option" where
  "make_area value bas = (if value \<le> 0 then None else Some \<lparr>area_value = value, area_basis = bas\<rparr>)"

datatype locationPrecision = Loc_exact | Loc_street | Loc_neighborhood | Loc_settlement | Loc_region

datatype propertyType = Prop_apartment | Prop_house | Prop_plot | Prop_commercial | Prop_hotel
  | Prop_development | Prop_other

end
