(* ===== verification/Listing.thy ===== *)
theory Listing
  imports Transition Facts
begin

text \<open>
  \<open>src/src/domain/listing.ts\<close>: the independent lifecycle dimensions of a listing. Commercial
  availability, editorial review and freshness are separate; publication establishes none of them.
\<close>

subsection \<open>Commercial availability\<close>

datatype commercialState = Com_available | Com_confirmation_required | Com_negotiating
  | Com_reserved_with_recorded_basis | Com_sold | Com_let | Com_withdrawn

definition commercialStates :: "commercialState list" where
  "commercialStates = [Com_available, Com_confirmation_required, Com_negotiating, Com_reserved_with_recorded_basis,
     Com_sold, Com_let, Com_withdrawn]"

fun commercialState_name :: "commercialState \<Rightarrow> string" where
  "commercialState_name Com_available = ''available''"
| "commercialState_name Com_confirmation_required = ''confirmation_required''"
| "commercialState_name Com_negotiating = ''negotiating''"
| "commercialState_name Com_reserved_with_recorded_basis = ''reserved_with_recorded_basis''"
| "commercialState_name Com_sold = ''sold''"
| "commercialState_name Com_let = ''let''"
| "commercialState_name Com_withdrawn = ''withdrawn''"

fun commercialTable :: "commercialState \<Rightarrow> commercialState list" where
  "commercialTable Com_available =
     [Com_confirmation_required, Com_negotiating, Com_reserved_with_recorded_basis, Com_sold,
      Com_let, Com_withdrawn]"
| "commercialTable Com_confirmation_required =
     [Com_available, Com_negotiating, Com_reserved_with_recorded_basis, Com_sold, Com_let,
      Com_withdrawn]"
| "commercialTable Com_negotiating =
     [Com_available, Com_confirmation_required, Com_reserved_with_recorded_basis, Com_sold,
      Com_let, Com_withdrawn]"
| "commercialTable Com_reserved_with_recorded_basis =
     [Com_available, Com_confirmation_required, Com_negotiating, Com_sold, Com_let, Com_withdrawn]"
| "commercialTable Com_sold = []"
| "commercialTable Com_let = [Com_confirmation_required]"
| "commercialTable Com_withdrawn = [Com_confirmation_required]"

definition commercialMachine :: "commercialState machine" where
  "commercialMachine = defineMachine commercialStates commercialTable"

record commercialEvidence =
  ce_purpose :: listingPurpose
  ce_reason :: "string option"
  ce_reservationBasis :: "string option"
  ce_evidenceIds :: "string list option"

definition guardCommercialTransition ::
    "commercialState \<Rightarrow> commercialState \<Rightarrow> commercialEvidence \<Rightarrow> actor \<Rightarrow> decision" where
  "guardCommercialTransition from to e a =
     (let base = need (truthy (ce_reason e)) ''reason_required''
      in case to of
          Com_available \<Rightarrow>
            firstDenial [Some base, Some (need (actor_kind a = Actor_staff) ''human_required'')]
        | Com_reserved_with_recorded_basis \<Rightarrow>
            firstDenial [Some base, Some (need (truthy (ce_reservationBasis e)) ''reservation_basis_required'')]
        | Com_sold \<Rightarrow>
            firstDenial
              [Some base, Some (need (ce_purpose e = Purpose_sale) ''purpose_mismatch''),
               Some (need (truthy_list (ce_evidenceIds e)) ''evidence_required'')]
        | Com_let \<Rightarrow>
            firstDenial
              [Some base, Some (need (ce_purpose e = Purpose_long_term_rent) ''purpose_mismatch''),
               Some (need (truthy_list (ce_evidenceIds e)) ''evidence_required'')]
        | _ \<Rightarrow> base)"

subsection \<open>Editorial review\<close>

datatype editorialState = Edi_draft | Edi_needs_facts | Edi_in_review | Edi_approved_revision
  | Edi_changes_requested

definition editorialStates :: "editorialState list" where
  "editorialStates = [Edi_draft, Edi_needs_facts, Edi_in_review, Edi_approved_revision, Edi_changes_requested]"

fun editorialState_name :: "editorialState \<Rightarrow> string" where
  "editorialState_name Edi_draft = ''draft''"
| "editorialState_name Edi_needs_facts = ''needs_facts''"
| "editorialState_name Edi_in_review = ''in_review''"
| "editorialState_name Edi_approved_revision = ''approved_revision''"
| "editorialState_name Edi_changes_requested = ''changes_requested''"

fun editorialTable :: "editorialState \<Rightarrow> editorialState list" where
  "editorialTable Edi_draft = [Edi_needs_facts, Edi_in_review]"
| "editorialTable Edi_needs_facts = [Edi_draft, Edi_in_review]"
| "editorialTable Edi_in_review = [Edi_approved_revision, Edi_changes_requested, Edi_needs_facts]"
| "editorialTable Edi_approved_revision = [Edi_draft]"
| "editorialTable Edi_changes_requested = [Edi_draft, Edi_in_review]"

definition editorialMachine :: "editorialState machine" where
  "editorialMachine = defineMachine editorialStates editorialTable"

record editorialEvidence =
  ee_revisionId :: "string option"
  ee_missingRequiredFacts :: "int option"
  ee_approvalValid :: "bool option"
  ee_reason :: "string option"

definition guardEditorialTransition ::
    "editorialState \<Rightarrow> editorialState \<Rightarrow> editorialEvidence \<Rightarrow> actor \<Rightarrow> decision" where
  "guardEditorialTransition from to e a = (case to of
       Edi_in_review \<Rightarrow> firstDenial
         [Some (need (truthy (ee_revisionId e)) ''revision_required''),
          Some (need (num_or_zero (ee_missingRequiredFacts e) = 0) ''required_facts_missing'')]
     | Edi_approved_revision \<Rightarrow> firstDenial
         [Some (need (actor_kind a = Actor_staff) ''human_required''),
          Some (need (truthy (ee_revisionId e)) ''revision_required''),
          Some (need (is_true (ee_approvalValid e)) ''approval_required'')]
     | Edi_changes_requested \<Rightarrow> need (truthy (ee_reason e)) ''reason_required''
     | _ \<Rightarrow> Allowed)"

definition editorialTransitions :: "(editorialState, editorialEvidence) transitionSpec" where
  "editorialTransitions =
     \<lparr>spec_recordType = ''listing'', spec_machine = editorialMachine,
      spec_capabilityFor = (\<lambda>from to a.
        if to = Edi_approved_revision \<or> to = Edi_changes_requested
        then Cap_listing_review_facts else Cap_listing_edit),
      spec_guard = guardEditorialTransition, spec_name = editorialState_name\<rparr>"

subsection \<open>Freshness\<close>

datatype freshnessState = Fresh_current_under_policy | Fresh_review_due | Fresh_conflicting
  | Fresh_unknown

definition freshnessStates :: "freshnessState list" where
  "freshnessStates = [Fresh_current_under_policy, Fresh_review_due, Fresh_conflicting, Fresh_unknown]"

fun availabilityReviewIntervalDays :: "listingPurpose \<Rightarrow> int" where
  "availabilityReviewIntervalDays Purpose_sale = 14"
| "availabilityReviewIntervalDays Purpose_long_term_rent = 7"

text \<open>
  \<open>fi_recordedReviewDueAt\<close> is \<open>None\<close> when the input has no such property, \<open>Some None\<close> when it is there
  and null.
\<close>

record freshnessInput =
  fi_purpose :: listingPurpose
  fi_lastConfirmedAt :: "string option"
  fi_conflicting :: "bool option"
  fi_now :: string
  fi_intervalDays :: "int option"
  fi_recordedReviewDueAt :: "string option option"

definition unconfirmed_freshness :: "freshnessInput \<Rightarrow> freshnessState \<times> string option" where
  "unconfirmed_freshness i =
     ((if is_true (fi_conflicting i) then Fresh_conflicting else Fresh_unknown), None)"

definition freshness_due :: "freshnessInput \<Rightarrow> int option" where
  "freshness_due i =
     (case fi_recordedReviewDueAt i of
        Some recorded \<Rightarrow> date_parse (the_or [] recorded)
      | None \<Rightarrow> map_option
          (\<lambda>c. c + the_or (availabilityReviewIntervalDays (fi_purpose i)) (fi_intervalDays i) * day_ms)
          (date_parse (the_or [] (fi_lastConfirmedAt i))))"

definition assessFreshness :: "freshnessInput \<Rightarrow> freshnessState \<times> string option" where
  "assessFreshness i =
     (if \<not> truthy (fi_lastConfirmedAt i) then unconfirmed_freshness i
      else case freshness_due i of
          None \<Rightarrow> unconfirmed_freshness i
        | Some due \<Rightarrow>
            if num_le (Some due) (date_parse (the_or [] (fi_lastConfirmedAt i)))
            then unconfirmed_freshness i
            else let reviewDueAt = Some (to_iso due)
              in if is_true (fi_conflicting i) then (Fresh_conflicting, reviewDueAt)
                 else (if num_le (Some due) (date_parse (fi_now i)) then Fresh_review_due
                       else Fresh_current_under_policy, reviewDueAt))"

definition presentedAvailability :: "commercialState \<Rightarrow> freshnessState \<Rightarrow> commercialState" where
  "presentedAvailability commercial freshness =
     (if commercial = Com_available \<and> freshness \<noteq> Fresh_current_under_policy
      then Com_confirmation_required else commercial)"

subsection \<open>What reads as available\<close>

lemma commercialMachine_wf: "wf_machine commercialMachine"
  by (simp add: commercialMachine_def wf_machine_def commercialStates_def)

lemma editorialMachine_wf: "wf_machine editorialMachine"
  by (simp add: editorialMachine_def wf_machine_def editorialStates_def)

lemma commercial_available_human:
  "guardCommercialTransition from Com_available e a = Allowed \<longleftrightarrow>
     truthy (ce_reason e) \<and> actor_kind a = Actor_staff"
  by (auto simp: guardCommercialTransition_def Let_def guard_simps)

lemma commercial_sold_let:
  "guardCommercialTransition from Com_sold e a = Allowed \<Longrightarrow> ce_purpose e = Purpose_sale"
  "guardCommercialTransition from Com_let e a = Allowed \<Longrightarrow> ce_purpose e = Purpose_long_term_rent"
  by (auto simp: guardCommercialTransition_def Let_def guard_simps)

lemma presented_available_iff:
  "presentedAvailability c f = Com_available \<longleftrightarrow> c = Com_available \<and> f = Fresh_current_under_policy"
  by (auto simp: presentedAvailability_def)

lemma assessFreshness_current_iff:
  "fst (assessFreshness i) = Fresh_current_under_policy \<longleftrightarrow>
     truthy (fi_lastConfirmedAt i) \<and> \<not> is_true (fi_conflicting i) \<and>
     (\<exists>due. freshness_due i = Some due \<and>
        \<not> num_le (Some due) (date_parse (the_or [] (fi_lastConfirmedAt i))) \<and>
        \<not> num_le (Some due) (date_parse (fi_now i)))"
  by (auto simp: assessFreshness_def unconfirmed_freshness_def Let_def split: option.splits)

text \<open>Time alone only takes availability away: what is current later was current before.\<close>

lemma freshness_antimono:
  assumes "fst (assessFreshness (i\<lparr>fi_now := later\<rparr>)) = Fresh_current_under_policy"
    and "date_parse earlier = Some s" "date_parse later = Some t" "s \<le> t"
  shows "fst (assessFreshness (i\<lparr>fi_now := earlier\<rparr>)) = Fresh_current_under_policy"
proof -
  have "freshness_due (i\<lparr>fi_now := x\<rparr>) = freshness_due i" for x
    by (cases "fi_recordedReviewDueAt i") (simp_all add: freshness_due_def)
  then show ?thesis using assms unfolding assessFreshness_current_iff by auto
qed

end
