(* ===== verification/Message.thy ===== *)
theory Message
  imports Capabilities
begin

text \<open>
  \<open>src/src/domain/message.ts\<close>: messages and their delivery. Provider acceptance is not delivery, an
  unknown outcome is reconciled before any retry, and one logical send keeps one exact payload.
\<close>

datatype messageState = Msg_draft | Msg_approved | Msg_queued | Msg_attempting
  | Msg_provider_accepted | Msg_delivered | Msg_bounced | Msg_failed | Msg_outcome_unknown

definition messageStates :: "messageState list" where
  "messageStates = [Msg_draft, Msg_approved, Msg_queued, Msg_attempting, Msg_provider_accepted, Msg_delivered,
     Msg_bounced, Msg_failed, Msg_outcome_unknown]"

fun messageState_name :: "messageState \<Rightarrow> string" where
  "messageState_name Msg_draft = ''draft''"
| "messageState_name Msg_approved = ''approved''"
| "messageState_name Msg_queued = ''queued''"
| "messageState_name Msg_attempting = ''attempting''"
| "messageState_name Msg_provider_accepted = ''provider_accepted''"
| "messageState_name Msg_delivered = ''delivered''"
| "messageState_name Msg_bounced = ''bounced''"
| "messageState_name Msg_failed = ''failed''"
| "messageState_name Msg_outcome_unknown = ''outcome_unknown''"

fun messageTable :: "messageState \<Rightarrow> messageState list" where
  "messageTable Msg_draft = [Msg_approved]"
| "messageTable Msg_approved = [Msg_draft, Msg_queued]"
| "messageTable Msg_queued = [Msg_attempting]"
| "messageTable Msg_attempting = [Msg_provider_accepted, Msg_failed, Msg_outcome_unknown]"
| "messageTable Msg_provider_accepted = [Msg_delivered, Msg_bounced, Msg_failed]"
| "messageTable Msg_delivered = [Msg_bounced]"
| "messageTable Msg_bounced = []"
| "messageTable Msg_failed = [Msg_queued]"
| "messageTable Msg_outcome_unknown = [Msg_provider_accepted, Msg_delivered, Msg_bounced, Msg_failed]"

definition messageMachine :: "messageState machine" where
  "messageMachine = defineMachine messageStates messageTable"

datatype messageKind = Msgk_case_message | Msgk_service_message | Msgk_internal_note

definition messageKinds :: "messageKind list" where
  "messageKinds = [Msgk_case_message, Msgk_service_message, Msgk_internal_note]"

datatype messageChannel = Chan_email | Chan_phone | Chan_whatsapp | Chan_viber | Chan_in_app

definition messageChannels :: "messageChannel list" where
  "messageChannels = [Chan_email, Chan_phone, Chan_whatsapp, Chan_viber, Chan_in_app]"

definition maxDeliveryAttempts :: int where "maxDeliveryAttempts = 3"

definition providerIdempotencyWindowMs :: int where
  "providerIdempotencyWindowMs = 24 * 60 * 60 * 1000"

record messageEvidence =
  me_kind :: messageKind
  me_payloadDigest :: "string option"
  me_approvedDigest :: "string option"
  me_providerReference :: "string option"
  me_attempts :: "int option"
  me_firstAttemptAt :: "string option"
  me_now :: "string option"
  me_duplicateRiskResolved :: "bool option"

definition window_passed :: "messageEvidence \<Rightarrow> bool" where
  "window_passed e =
     (case me_firstAttemptAt e of None \<Rightarrow> False
      | Some f \<Rightarrow> (case me_now e of None \<Rightarrow> False
         | Some n \<Rightarrow> num_le (Some providerIdempotencyWindowMs)
             (Option.bind (date_parse n) (\<lambda>t. map_option (\<lambda>s. t - s) (date_parse f)))))"

definition guardRetry :: "messageEvidence \<Rightarrow> decision" where
  "guardRetry e =
     firstDenial
       [Some (need (num_or_zero (me_attempts e) < maxDeliveryAttempts) ''retry_limit_reached''),
        Some (need (is_true (me_duplicateRiskResolved e)) ''duplicate_risk_unresolved''),
        Some (if window_passed e then denied ''idempotency_window_passed'' else Allowed)]"

definition guardMessageTransition ::
    "messageState \<Rightarrow> messageState \<Rightarrow> messageEvidence \<Rightarrow> actor \<Rightarrow> decision" where
  "guardMessageTransition from to e a =
     (if me_kind e = Msgk_internal_note \<and> to \<noteq> Msg_draft then denied ''internal_note_not_sendable''
      else case to of
          Msg_approved \<Rightarrow> firstDenial
            [Some (if me_kind e = Msgk_service_message then Allowed
                   else need (actor_kind a = Actor_staff) ''human_required''),
             Some (need (truthy (me_payloadDigest e)) ''payload_digest_required'')]
        | Msg_queued \<Rightarrow> firstDenial
            [Some (need (truthy (me_approvedDigest e) \<and> me_approvedDigest e = me_payloadDigest e)
               ''approval_does_not_match_payload''),
             Some (if from = Msg_failed then guardRetry e else Allowed)]
        | Msg_provider_accepted \<Rightarrow> need (truthy (me_providerReference e)) ''provider_reference_required''
        | _ \<Rightarrow> Allowed)"

record logicalSend =
  ls_logicalSendId :: string
  ls_payloadDigest :: string

text \<open>The decision and whether it is a replay of the existing send.\<close>

definition checkLogicalSend :: "logicalSend option \<Rightarrow> logicalSend \<Rightarrow> decision \<times> bool" where
  "checkLogicalSend existing attempt =
     (case existing of None \<Rightarrow> (Allowed, False)
      | Some ex \<Rightarrow>
          if ls_logicalSendId ex \<noteq> ls_logicalSendId attempt then (Allowed, False)
          else if ls_payloadDigest ex = ls_payloadDigest attempt then (Allowed, True)
          else (denied ''payload_changed'', False))"

record composerDraft =
  cd_kind :: messageKind
  cd_body :: string

definition switchComposer :: "composerDraft \<Rightarrow> messageKind \<Rightarrow> composerDraft \<times> composerDraft" where
  "switchComposer current to = (\<lparr>cd_kind = to, cd_body = []\<rparr>, current)"

fun clientDeliveryLabel :: "messageState \<Rightarrow> string" where
  "clientDeliveryLabel Msg_draft = ''Draft''"
| "clientDeliveryLabel Msg_approved = ''Approved, not yet sent''"
| "clientDeliveryLabel Msg_queued = ''Waiting to send''"
| "clientDeliveryLabel Msg_attempting = ''Sending''"
| "clientDeliveryLabel Msg_provider_accepted = ''Handed to the email service; delivery not yet confirmed''"
| "clientDeliveryLabel Msg_delivered = ''Delivered''"
| "clientDeliveryLabel Msg_bounced = ''Not delivered: the address rejected it''"
| "clientDeliveryLabel Msg_failed = ''Not delivered''"
| "clientDeliveryLabel Msg_outcome_unknown = ''Delivery is not yet confirmed''"

subsection \<open>The history of a message\<close>

lemma messageMachine_wf: "wf_machine messageMachine"
  by (simp add: messageMachine_def wf_machine_def messageStates_def)

text \<open>
  One move of a message: the table allows it and so does the guard. A history lists the moves, the
  latest first.
\<close>

definition message_move :: "messageState \<Rightarrow> messageState \<Rightarrow> messageEvidence \<Rightarrow> actor \<Rightarrow> bool" where
  "message_move s t e a \<longleftrightarrow> check messageMachine s t = Allowed \<and> guardMessageTransition s t e a = Allowed"

inductive message_history ::
    "messageState \<Rightarrow> (messageState \<times> messageEvidence \<times> actor) list \<Rightarrow> bool" where
  message_drafted: "message_history Msg_draft []"
| message_moved: "message_history s h \<Longrightarrow> message_move s t e a \<Longrightarrow> message_history t ((t, e, a) # h)"

lemma message_move_into:
  "message_move s Msg_approved e a \<Longrightarrow> s = Msg_draft \<and>
     (me_kind e = Msgk_service_message \<or> actor_kind a = Actor_staff) \<and>
     me_kind e \<noteq> Msgk_internal_note \<and> truthy (me_payloadDigest e)"
  "message_move s Msg_queued e a \<Longrightarrow> (s = Msg_approved \<or> s = Msg_failed) \<and>
     truthy (me_approvedDigest e) \<and> me_approvedDigest e = me_payloadDigest e"
  by (cases s; auto simp: message_move_def check_Allowed_iff messageMachine_def guardMessageTransition_def
      guard_simps split: if_splits)+

text \<open>The states a message reaches only after it was approved and queued.\<close>

definition sending_states :: "messageState list" where
  "sending_states = [Msg_queued, Msg_attempting, Msg_provider_accepted, Msg_delivered, Msg_bounced,
     Msg_failed, Msg_outcome_unknown]"

definition approved_by_human :: "(messageState \<times> messageEvidence \<times> actor) list \<Rightarrow> bool" where
  "approved_by_human h = list_ex (\<lambda>(t, e, a). t = Msg_approved \<and>
     (me_kind e = Msgk_service_message \<or> actor_kind a = Actor_staff) \<and> truthy (me_payloadDigest e)) h"

definition queued_as_approved :: "(messageState \<times> messageEvidence \<times> actor) list \<Rightarrow> bool" where
  "queued_as_approved h = list_ex (\<lambda>(t, e, a). t = Msg_queued \<and>
     truthy (me_approvedDigest e) \<and> me_approvedDigest e = me_payloadDigest e) h"

lemma approved_by_human_Cons [simp]:
  "approved_by_human ((t, e, a) # h) \<longleftrightarrow> (t = Msg_approved \<and>
     (me_kind e = Msgk_service_message \<or> actor_kind a = Actor_staff) \<and> truthy (me_payloadDigest e)) \<or>
     approved_by_human h"
  by (simp add: approved_by_human_def)

lemma queued_as_approved_Cons [simp]:
  "queued_as_approved ((t, e, a) # h) \<longleftrightarrow> (t = Msg_queued \<and>
     truthy (me_approvedDigest e) \<and> me_approvedDigest e = me_payloadDigest e) \<or> queued_as_approved h"
  by (simp add: queued_as_approved_def)

lemma sending_pred:
  assumes "check messageMachine s t = Allowed" "t \<in> set sending_states" "t \<noteq> Msg_queued"
  shows "s \<in> set sending_states"
  using assms by (cases s) (auto simp: check_Allowed_iff messageMachine_def sending_states_def)

lemma message_history_sending:
  assumes "message_history s h"
  shows "(s \<in> set sending_states \<longrightarrow> approved_by_human h \<and> queued_as_approved h) \<and>
    (s = Msg_approved \<longrightarrow> approved_by_human h)"
  using assms
proof (induction rule: message_history.induct)
  case message_drafted
  then show ?case by (simp add: sending_states_def)
next
  case (message_moved s h t e a)
  have failed: "Msg_failed \<in> set sending_states" by (simp add: sending_states_def)
  show ?case
  proof (cases "t = Msg_approved \<or> t = Msg_queued")
    case True
    then show ?thesis
      using message_moved message_move_into [of s e a] failed by (auto simp: sending_states_def)
  next
    case False
    then show ?thesis
      using message_moved sending_pred [of s t] by (auto simp: message_move_def)
  qed
qed

lemma guardRetry_iff:
  "guardRetry e = Allowed \<longleftrightarrow>
     num_or_zero (me_attempts e) < maxDeliveryAttempts \<and> is_true (me_duplicateRiskResolved e) \<and>
     \<not> window_passed e"
  by (auto simp: guardRetry_def guard_simps)

end
