(* ===== verification/MediaRendition.thy ===== *)
theory MediaRendition
  imports Json
begin

text \<open>
  \<open>src/src/domain/media-rendition.ts\<close>: the descriptors of derived images. Metadata that is malformed
  never grants exposure (\<open>None\<close>); a missing value is the older format without renditions. Of an
  accepted item the model keeps the fields the code reads (the content type is a constant).
\<close>

record mediaRendition =
  rn_key :: string
  rn_sha256 :: string
  rn_width :: int
  rn_height :: int
  rn_byteSize :: int

text \<open>\<open>Number.isSafeInteger\<close>, with the integer. The text of a safe integer is its decimal numeral.\<close>

definition numeral_value :: "string \<Rightarrow> int option" where
  "numeral_value s =
     (let neg = (s \<noteq> [] \<and> hd s = CHR ''-''); ds = (if neg then tl s else s)
      in if ds \<noteq> [] \<and> all_digits ds then Some ((if neg then -1 else 1) * dec_val ds) else None)"

definition safe_integer_of :: "json \<Rightarrow> int option" where
  "safe_integer_of v = (case v of
       JNumber s \<Rightarrow> (case numeral_value s of None \<Rightarrow> None
         | Some n \<Rightarrow> if is_safe_integer n then Some n else None)
     | _ \<Rightarrow> None)"

definition int_between :: "int \<Rightarrow> int \<Rightarrow> int option \<Rightarrow> bool" where
  "int_between lo hi v = (case v of None \<Rightarrow> False | Some n \<Rightarrow> lo \<le> n \<and> n \<le> hi)"

text \<open>\<open>/^[a-f0-9]{64}$/\<close>\<close>

definition is_sha256 :: "string \<Rightarrow> bool" where
  "is_sha256 s =
     (length s = 64 \<and> list_all (\<lambda>c. is_digit c \<or> (97 \<le> (of_char c :: nat) \<and> (of_char c :: nat) \<le> 102)) s)"

definition rendition_key :: "string \<Rightarrow> string \<Rightarrow> string" where
  "rendition_key assetId sha = ''derivatives/'' @ assetId @ ''/'' @ sha @ ''.webp''"

text \<open>One item of the list, with the widths and digests seen before it.\<close>

definition rendition_item :: "string \<Rightarrow> int list \<Rightarrow> string list \<Rightarrow> json \<Rightarrow> mediaRendition option" where
  "rendition_item assetId widths digests item =
     (case json_get item ''sha256'' of
        JString sha \<Rightarrow>
          (let w = safe_integer_of (json_get item ''width'');
               h = safe_integer_of (json_get item ''height'');
               b = safe_integer_of (json_get item ''byteSize'')
           in if \<not> is_sha256 sha \<or> json_get item ''key'' \<noteq> JString (rendition_key assetId sha)
                 \<or> json_get item ''contentType'' \<noteq> JString ''image/webp''
                 \<or> \<not> int_between 1 2400 w \<or> \<not> int_between 1 2400 h
                 \<or> \<not> int_between 1 max_safe_integer b
                 \<or> the w \<in> set widths \<or> sha \<in> set digests
              then None
              else Some \<lparr>rn_key = rendition_key assetId sha, rn_sha256 = sha, rn_width = the w,
                rn_height = the h, rn_byteSize = the b\<rparr>)
      | _ \<Rightarrow> None)"

fun rendition_items :: "string \<Rightarrow> int list \<Rightarrow> string list \<Rightarrow> json list \<Rightarrow> mediaRendition list option" where
  "rendition_items assetId widths digests [] = Some []"
| "rendition_items assetId widths digests (item # items) =
     (case rendition_item assetId widths digests item of
        None \<Rightarrow> None
      | Some r \<Rightarrow> map_option ((#) r)
          (rendition_items assetId (rn_width r # widths) (rn_sha256 r # digests) items))"

definition parseMediaRenditions :: "json \<Rightarrow> string \<Rightarrow> mediaRendition list option" where
  "parseMediaRenditions value assetId = (case value of
       JUndefined \<Rightarrow> Some []
     | JArray items \<Rightarrow> if 4 < length items then None else rendition_items assetId [] [] items
     | _ \<Rightarrow> None)"

definition publishedMediaRenditions :: "json \<Rightarrow> json \<Rightarrow> string \<Rightarrow> mediaRendition list option" where
  "publishedMediaRenditions current snapshot assetId =
     (case parseMediaRenditions current assetId of None \<Rightarrow> None
      | Some asset \<Rightarrow> (case parseMediaRenditions snapshot assetId of None \<Rightarrow> None
          | Some manifest \<Rightarrow> Some (sort_key rn_width (filter (\<lambda>item. item \<in> set asset) manifest))))"

subsection \<open>What an accepted list is\<close>

definition valid_rendition :: "string \<Rightarrow> mediaRendition \<Rightarrow> bool" where
  "valid_rendition assetId r \<longleftrightarrow> is_sha256 (rn_sha256 r) \<and> rn_key r = rendition_key assetId (rn_sha256 r) \<and>
     1 \<le> rn_width r \<and> rn_width r \<le> 2400 \<and> 1 \<le> rn_height r \<and> rn_height r \<le> 2400 \<and> 1 \<le> rn_byteSize r"

lemma int_between_Some: "int_between lo hi v \<longleftrightarrow> (\<exists>n. v = Some n \<and> lo \<le> n \<and> n \<le> hi)"
  by (cases v) (simp_all add: int_between_def)

lemma rendition_item_Some:
  assumes "rendition_item assetId ws ds item = Some r"
  shows "valid_rendition assetId r" "rn_width r \<notin> set ws" "rn_sha256 r \<notin> set ds"
  using assms
  by (auto simp: rendition_item_def valid_rendition_def Let_def int_between_Some
      split: json.splits if_splits)

lemma rendition_items_Some:
  "rendition_items assetId ws ds items = Some rs \<Longrightarrow>
     length rs = length items \<and> list_all (valid_rendition assetId) rs \<and>
     distinct (map rn_width rs) \<and> set (map rn_width rs) \<inter> set ws = {} \<and>
     distinct (map rn_sha256 rs) \<and> set (map rn_sha256 rs) \<inter> set ds = {}"
proof (induction items arbitrary: ws ds rs)
  case Nil
  then show ?case by simp
next
  case (Cons item items)
  then obtain r rs' where r: "rendition_item assetId ws ds item = Some r" "rs = r # rs'"
    "rendition_items assetId (rn_width r # ws) (rn_sha256 r # ds) items = Some rs'"
    by (auto split: option.splits)
  from Cons.IH [OF r(3)] rendition_item_Some [OF r(1)] r(2) show ?case by auto
qed

lemma parseMediaRenditions_Some:
  assumes "parseMediaRenditions v assetId = Some rs"
  shows "length rs \<le> 4" "list_all (valid_rendition assetId) rs" "distinct (map rn_width rs)"
    "distinct (map rn_sha256 rs)"
  using assms
  by (auto simp: parseMediaRenditions_def split: json.splits if_splits dest!: rendition_items_Some)

text \<open>The published renditions are in both lists, each once, by increasing width.\<close>

lemma publishedMediaRenditions_Some:
  assumes "publishedMediaRenditions current snapshot assetId = Some rs"
  obtains asset manifest where
    "parseMediaRenditions current assetId = Some asset" "parseMediaRenditions snapshot assetId = Some manifest"
    "set rs = set asset \<inter> set manifest" "sorted_wrt (<) (map rn_width rs)" "list_all (valid_rendition assetId) rs"
proof -
  from assms obtain asset manifest where
    a: "parseMediaRenditions current assetId = Some asset" and m: "parseMediaRenditions snapshot assetId = Some manifest"
    and rs: "rs = sort_key rn_width (filter (\<lambda>item. item \<in> set asset) manifest)"
    by (auto simp: publishedMediaRenditions_def split: option.splits)
  note ma = parseMediaRenditions_Some [OF m]
  have "distinct (map rn_width (filter (\<lambda>item. item \<in> set asset) manifest))"
    using ma(3) by (rule distinct_map_filter)
  then have "distinct (map rn_width rs)" unfolding rs by (simp add: distinct_map)
  moreover have "sorted (map rn_width rs)" unfolding rs by simp
  ultimately have "sorted_wrt (<) (map rn_width rs)" by (simp add: strict_sorted_iff)
  moreover have "list_all (valid_rendition assetId) rs" using ma(2) by (auto simp: rs list_all_iff)
  ultimately show thesis using that [OF a m] rs by auto
qed

end
