(* ===== verification/Media.thy ===== *)
theory Media
  imports Document "HOL-Library.Multiset"
begin

text \<open>
  \<open>src/src/domain/media.ts\<close>: media assets, the facts that make one publishable, and the order of a
  listing's relations. \<open>moveRelation\<close> throws on an unknown or identical relation (\<open>None\<close>).
\<close>

datatype mediaKind = Medk_photo | Medk_floor_plan | Medk_video | Medk_render | Medk_virtual_tour

definition mediaKinds :: "mediaKind list" where
  "mediaKinds = [Medk_photo, Medk_floor_plan, Medk_video, Medk_render, Medk_virtual_tour]"

datatype mediaRightsState = Rights_unknown | Rights_pending | Rights_cleared | Rights_restricted
  | Rights_rejected

definition mediaRightsStates :: "mediaRightsState list" where
  "mediaRightsStates = [Rights_unknown, Rights_pending, Rights_cleared, Rights_restricted, Rights_rejected]"

datatype mediaModification = Mod_none | Mod_retouched | Mod_virtually_staged
  | Mod_renovation_render | Mod_redrawn_plan

definition mediaModifications :: "mediaModification list" where
  "mediaModifications = [Mod_none, Mod_retouched, Mod_virtually_staged, Mod_renovation_render, Mod_redrawn_plan]"

datatype mediaReviewState = Rev_pending | Rev_approved | Rev_rejected

definition mediaReviewStates :: "mediaReviewState list" where
  "mediaReviewStates = [Rev_pending, Rev_approved, Rev_rejected]"

datatype processingState = Proc_pending | Proc_processing | Proc_ready | Proc_failed

definition processingStates :: "processingState list" where
  "processingStates = [Proc_pending, Proc_processing, Proc_ready, Proc_failed]"

datatype mediaAudience = Aud_private | Aud_public_candidate

definition mediaAudiences :: "mediaAudience list" where
  "mediaAudiences = [Aud_private, Aud_public_candidate]"

definition allowedMediaContentTypes :: "string list" where
  "allowedMediaContentTypes =
     [''image/jpeg'', ''image/png'', ''image/webp'', ''image/avif'', ''video/mp4'', ''application/pdf'']"

definition isAllowedMediaContentType :: "string \<Rightarrow> bool" where
  "isAllowedMediaContentType value = (value \<in> set allowedMediaContentTypes)"

record mediaEligibilityInput =
  mi_audience :: mediaAudience
  mi_sealedSha256 :: "string option"
  mi_scan :: scanState
  mi_processing :: processingState
  mi_rights :: mediaRightsState
  mi_review :: mediaReviewState
  mi_modification :: mediaModification
  mi_modificationDisclosure :: "string option"

definition isMediaPublishable :: "mediaEligibilityInput \<Rightarrow> bool" where
  "isMediaPublishable m =
     (if mi_audience m \<noteq> Aud_public_candidate \<or> \<not> truthy (mi_sealedSha256 m) then False
      else if mi_scan m \<noteq> Scan_clean \<or> mi_processing m \<noteq> Proc_ready then False
      else if mi_rights m \<noteq> Rights_cleared \<or> mi_review m \<noteq> Rev_approved then False
      else mi_modification m = Mod_none \<or> truthy (map_option trim (mi_modificationDisclosure m)))"

record placement =
  relationId :: string
  position :: int

datatype moveTarget = Before string | After string

definition moveRelation :: "placement list \<Rightarrow> string \<Rightarrow> moveTarget \<Rightarrow> placement list option" where
  "moveRelation placements rid target =
     (let ordered = sort_key position placements;
          anchorId = (case target of Before x \<Rightarrow> x | After x \<Rightarrow> x)
      in case List.find (\<lambda>p. relationId p = rid) ordered of
          None \<Rightarrow> None
        | Some moving \<Rightarrow>
            if \<not> list_ex (\<lambda>p. relationId p = anchorId) ordered \<or> anchorId = rid then None
            else let rest = filter (\<lambda>p. relationId p \<noteq> rid) ordered in
              (case find_index (\<lambda>p. relationId p = anchorId) rest of
                 None \<Rightarrow> None
               | Some anchor \<Rightarrow>
                   let at = (case target of Before _ \<Rightarrow> anchor | After _ \<Rightarrow> Suc anchor);
                       spliced = take at rest @ moving # drop at rest
                   in Some (map (\<lambda>(p, i). \<lparr>relationId = relationId p, position = int i\<rparr>)
                        (zip spliced [0..<length spliced]))))"

subsection \<open>Publication eligibility\<close>

lemma isMediaPublishable_iff:
  "isMediaPublishable m \<longleftrightarrow>
     mi_audience m = Aud_public_candidate \<and> truthy (mi_sealedSha256 m) \<and> mi_scan m = Scan_clean \<and>
     mi_processing m = Proc_ready \<and> mi_rights m = Rights_cleared \<and> mi_review m = Rev_approved \<and>
     (mi_modification m = Mod_none \<or>
      (\<exists>d. mi_modificationDisclosure m = Some d \<and> trim d \<noteq> []))"
  by (auto simp: isMediaPublishable_def)

subsection \<open>Moving a relation\<close>

abbreviation ids :: "placement list \<Rightarrow> string list" where
  "ids ps \<equiv> map relationId ps"

text \<open>The relations in their stored order.\<close>

definition in_order :: "placement list \<Rightarrow> string list" where
  "in_order ps = ids (sort_key position ps)"

lemma relationId_numbered: "ids (map (\<lambda>(p, i). \<lparr>relationId = relationId p, position = int i\<rparr>) (zip xs [0..<length xs])) = ids xs"
  by (rule nth_equalityI) auto

lemma position_numbered: "map position (map (\<lambda>(p, i). \<lparr>relationId = relationId p, position = int i\<rparr>) (zip xs [0..<length xs])) =
    map int [0..<length xs]"
  by (rule nth_equalityI) auto

lemma find_ids: "List.find (\<lambda>p. relationId p = r) ps = Some q \<Longrightarrow> relationId q = r \<and> q \<in> set ps"
  by (induction ps) (auto split: if_splits)

text \<open>The other relations in order, the anchor's name and the place of the moved one.\<close>

definition others :: "placement list \<Rightarrow> string \<Rightarrow> placement list" where
  "others ps r = filter (\<lambda>p. relationId p \<noteq> r) (sort_key position ps)"

fun anchor_of :: "moveTarget \<Rightarrow> string" where
  "anchor_of (Before x) = x" | "anchor_of (After x) = x"

fun place_of :: "moveTarget \<Rightarrow> nat \<Rightarrow> nat" where
  "place_of (Before x) k = k" | "place_of (After x) k = Suc k"

lemma anchor_place: "(case t of Before x \<Rightarrow> x | After x \<Rightarrow> x) = anchor_of t"
  "(case t of Before _ \<Rightarrow> k | After _ \<Rightarrow> Suc k) = place_of t k"
  by (cases t; simp)+

lemma moveRelation_Some:
  assumes "moveRelation ps r tgt = Some qs"
  obtains moving k where "relationId moving = r"
    "find_index (\<lambda>p. relationId p = anchor_of tgt) (others ps r) = Some k"
    "ids qs = ids (take (place_of tgt k) (others ps r) @ moving # drop (place_of tgt k) (others ps r))"
    "map position qs = map int [0..<length qs]"
proof -
  let ?rest = "others ps r"
  from assms obtain moving k where
    f: "List.find (\<lambda>p. relationId p = r) (sort_key position ps) = Some moving"
    and k: "find_index (\<lambda>p. relationId p = anchor_of tgt) ?rest = Some k"
    and q: "qs = map (\<lambda>(p, i). \<lparr>relationId = relationId p, position = int i\<rparr>)
      (zip (take (place_of tgt k) ?rest @ moving # drop (place_of tgt k) ?rest)
        [0..<length (take (place_of tgt k) ?rest @ moving # drop (place_of tgt k) ?rest)])"
    unfolding moveRelation_def Let_def others_def [symmetric] anchor_place
    by (simp only: option.simps split: option.splits if_splits)
  show thesis
  proof (rule that [OF conjunct1 [OF find_ids [OF f]] k])
    show "ids qs = ids (take (place_of tgt k) ?rest @ moving # drop (place_of tgt k) ?rest)"
      unfolding q by (rule relationId_numbered)
    show "map position qs = map int [0..<length qs]"
      unfolding q position_numbered by simp
  qed
qed

text \<open>What a moved list looks like: the others in their order, the moved one next to its anchor.\<close>

lemma moveRelation_ids:
  assumes "moveRelation ps r tgt = Some qs"
  shows "\<exists>us vs. in_order qs = ids qs \<and> filter (\<lambda>x. x \<noteq> r) (in_order ps) = us @ vs \<and> ids qs = us @ r # vs \<and>
    (case tgt of Before a \<Rightarrow> vs \<noteq> [] \<and> hd vs = a | After a \<Rightarrow> us \<noteq> [] \<and> last us = a)"
proof -
  obtain moving k where m: "relationId moving = r"
    and k: "find_index (\<lambda>p. relationId p = anchor_of tgt) (others ps r) = Some k"
    and q: "ids qs = ids (take (place_of tgt k) (others ps r) @ moving # drop (place_of tgt k) (others ps r))"
    and p: "map position qs = map int [0..<length qs]"
    by (rule moveRelation_Some [OF assms])
  let ?us = "ids (take (place_of tgt k) (others ps r))" and ?vs = "ids (drop (place_of tgt k) (others ps r))"
  have rest: "filter (\<lambda>x. x \<noteq> r) (in_order ps) = ?us @ ?vs"
    by (simp add: others_def in_order_def filter_map comp_def flip: map_append)
  have "sorted (map position qs)" unfolding p by (simp add: sorted_map sorted_wrt_iff_nth_less)
  then have o: "in_order qs = ids qs" by (simp add: in_order_def sort_key_id_if_sorted)
  have fi: "k < length (others ps r)" "relationId (others ps r ! k) = anchor_of tgt"
    using find_index_SomeD [OF k] by simp_all
  have near: "case tgt of Before a \<Rightarrow> ?vs \<noteq> [] \<and> hd ?vs = a | After a \<Rightarrow> ?us \<noteq> [] \<and> last ?us = a"
  proof (cases tgt)
    case (Before x)
    then show ?thesis using fi by (simp add: hd_map hd_drop_conv_nth)
  next
    case (After x)
    then show ?thesis using fi by (simp add: take_Suc_conv_app_nth)
  qed
  have "ids qs = ?us @ r # ?vs" using q m by simp
  with o rest near show ?thesis by blast
qed

text \<open>The move loses nothing and duplicates nothing.\<close>

lemma moveRelation_mset:
  assumes "moveRelation ps r tgt = Some qs" "distinct (ids ps)"
  shows "mset (ids qs) = mset (ids ps)"
proof -
  obtain us vs where uv: "filter (\<lambda>x. x \<noteq> r) (in_order ps) = us @ vs" "ids qs = us @ r # vs"
    using moveRelation_ids [OF assms(1)] by blast
  obtain moving where "List.find (\<lambda>p. relationId p = r) (sort_key position ps) = Some moving"
    using assms(1) by (auto simp: moveRelation_def Let_def split: option.splits)
  then have r: "r \<in> set (in_order ps)" using find_ids by (fastforce simp: in_order_def)
  have d: "distinct (in_order ps)" and m: "mset (in_order ps) = mset (ids ps)"
    using assms(2) by (simp_all add: in_order_def distinct_map)
  have "distinct (us @ vs)" "r \<notin> set (us @ vs)" using d unfolding uv(1) [symmetric] by auto
  moreover have "set (us @ vs) = set (in_order ps) - {r}" unfolding uv(1) [symmetric] by auto
  ultimately have "distinct (ids qs)" "set (ids qs) = set (in_order ps)" using uv(2) r by auto
  then show ?thesis using d m by (metis set_eq_iff_mset_eq_distinct)
qed

lemma moveRelation_defined:
  "moveRelation ps r tgt \<noteq> None \<longleftrightarrow>
     r \<in> set (ids ps) \<and> (case tgt of Before x \<Rightarrow> x | After x \<Rightarrow> x) \<in> set (ids ps) - {r}"
proof -
  define a where "a = (case tgt of Before x \<Rightarrow> x | After x \<Rightarrow> x)"
  have find: "List.find (\<lambda>p. relationId p = r) (sort_key position ps) = None \<longleftrightarrow> r \<notin> set (ids ps)"
    by (auto simp: find_None_iff)
  have "find_index (\<lambda>p. relationId p = a) (filter (\<lambda>p. relationId p \<noteq> r) (sort_key position ps)) \<noteq> None"
    if "a \<in> set (ids ps)" "a \<noteq> r"
    using that by (auto simp: find_index_None)
  then show ?thesis
    unfolding moveRelation_def Let_def a_def [symmetric] using find
    by (auto simp: list_ex_iff split: option.splits if_splits)
qed

end
