(* ===== verification/FactRevision.thy ===== *)
theory FactRevision
  imports Json Facts
begin

text \<open>
  \<open>src/src/domain/fact-revision.ts\<close>: whether a new revision of a property's facts can make an
  existing public claim inaccurate. A \<open>FactSet\<close> is an object: its entries in insertion order, each
  key once. A missing or \<open>undefined\<close> value is \<open>JUndefined\<close>.
\<close>

datatype materialChangeClass = Mat_initial | Mat_none | Mat_non_material | Mat_material

record factSnapshot =
  fs_state :: factState
  fs_value :: json
  fs_unit :: "string option"
  fs_basis :: "string option"

type_synonym factSet = "(string \<times> factSnapshot) list"

record factChangeClassification =
  fcc_classification :: materialChangeClass
  fcc_changedKeys :: "string list"
  fcc_materialKeys :: "string list"

fun factState_name :: "factState \<Rightarrow> string" where
  "factState_name Fact_known = ''known''"
| "factState_name Fact_unknown = ''unknown''"
| "factState_name Fact_not_supplied = ''not_supplied''"
| "factState_name Fact_not_applicable = ''not_applicable''"
| "factState_name Fact_withheld = ''withheld''"
| "factState_name Fact_conflicting = ''conflicting''"

text \<open>\<open>fact.value ?? null\<close>\<close>

definition or_null :: "json \<Rightarrow> json" where
  "or_null v = (if v = JUndefined then JNull else v)"

definition fact_json :: "factSnapshot \<Rightarrow> json" where
  "fact_json f = JObject
     [(''state'', JString (factState_name (fs_state f))),
      (''value'', or_null (fs_value f)),
      (''unit'', json_opt JString (fs_unit f)),
      (''basis'', json_opt JString (fs_basis f))]"

definition comparable :: "factSnapshot option \<Rightarrow> string option" where
  "comparable x = map_option (\<lambda>f. canonicalJson (fact_json f)) x"

definition fact_is :: "factState \<Rightarrow> factSnapshot option \<Rightarrow> bool" where
  "fact_is st x = (map_option fs_state x = Some st)"

definition classifyFactChanges :: "factSet option \<Rightarrow> factSet \<Rightarrow> factChangeClassification" where
  "classifyFactChanges previous next =
     (case previous of
        None \<Rightarrow> \<lparr>fcc_classification = Mat_initial, fcc_changedKeys = sort (map fst next),
                 fcc_materialKeys = []\<rparr>
      | Some prev \<Rightarrow>
          let keys = sort (js_unique (map fst prev @ map fst next));
              changedKeys = filter (\<lambda>k. comparable (map_of prev k) \<noteq> comparable (map_of next k)) keys;
              materialKeys = filter (\<lambda>k. fact_is Fact_known (map_of prev k)
                \<or> fact_is Fact_conflicting (map_of next k)) changedKeys
          in \<lparr>fcc_classification = (if length changedKeys = 0 then Mat_none
                 else if 0 < length materialKeys then Mat_material else Mat_non_material),
              fcc_changedKeys = changedKeys, fcc_materialKeys = materialKeys\<rparr>)"

subsection \<open>What counts as a change\<close>

text \<open>The content of a fact the comparison is about: its provenance is not part of it.\<close>

definition fact_content :: "factSnapshot \<Rightarrow> factState \<times> content \<times> string option \<times> string option" where
  "fact_content f = (fs_state f, content_of (fs_value f), fs_unit f, fs_basis f)"

lemma factState_name_inj: "factState_name s = factState_name t \<longleftrightarrow> s = t"
  by (cases s; cases t) simp_all

lemma content_or_null: "content_of (or_null v) = content_of v"
  by (simp add: or_null_def)

lemma content_fact_json:
  "content_of (fact_json f) = content_of (fact_json g) \<longleftrightarrow> fact_content f = fact_content g"
proof -
  have d: "(k, v) \<in> set [(''state'', JString (factState_name (fs_state h))), (''value'', or_null (fs_value h)),
      (''unit'', json_opt JString (fs_unit h)), (''basis'', json_opt JString (fs_basis h))] \<Longrightarrow> v \<noteq> JUndefined"
    for k v h
    by (auto simp: or_null_def json_opt_def split: option.splits if_splits)
  have o: "content_of (json_opt JString u) = content_of (json_opt JString v) \<longleftrightarrow> u = v" for u v
    by (rule content_json_opt) simp_all
  let ?es = "\<lambda>h. [(''state'', JString (factState_name (fs_state h))), (''value'', or_null (fs_value h)),
      (''unit'', json_opt JString (fs_unit h)), (''basis'', json_opt JString (fs_basis h))]"
  let ?m = "\<lambda>h k. map_option content_of (map_of (?es h) k)"
  have c: "content_of (fact_json h) = CObject (?m h)" for h
    unfolding fact_json_def by (rule content_of_object) (simp, erule d)
  have "?m f = ?m g \<longleftrightarrow> fact_content f = fact_content g"
  proof
    assume eq: "?m f = ?m g"
    show "fact_content f = fact_content g"
      using fun_cong [OF eq, of "''state''"] fun_cong [OF eq, of "''value''"]
        fun_cong [OF eq, of "''unit''"] fun_cong [OF eq, of "''basis''"]
      by (simp add: fact_content_def content_or_null o factState_name_inj)
  next
    assume "fact_content f = fact_content g"
    then show "?m f = ?m g" by (simp add: fun_eq_iff fact_content_def content_or_null)
  qed
  then show ?thesis by (simp add: c)
qed

lemma fact_json_wf: "wf_json (fs_value f) \<Longrightarrow> wf_json (fact_json f)"
  by (simp add: fact_json_def or_null_def json_opt_wf)

lemma comparable_iff:
  assumes "\<And>f. a = Some f \<Longrightarrow> wf_json (fs_value f)" "\<And>f. b = Some f \<Longrightarrow> wf_json (fs_value f)"
  shows "comparable a = comparable b \<longleftrightarrow> map_option fact_content a = map_option fact_content b"
proof (cases a)
  case None
  then show ?thesis by (simp add: comparable_def)
next
  case (Some f)
  then show ?thesis
    using assms fact_json_wf by (cases b) (auto simp: comparable_def canonicalJson_iff content_fact_json)
qed

definition wf_factSet :: "factSet \<Rightarrow> bool" where
  "wf_factSet fs \<longleftrightarrow> distinct (map fst fs) \<and> list_all (\<lambda>(k, f). wf_json (fs_value f)) fs"

lemma wf_factSet_lookup: "wf_factSet fs \<Longrightarrow> map_of fs k = Some f \<Longrightarrow> wf_json (fs_value f)"
  by (auto simp: wf_factSet_def list_all_iff dest: map_of_SomeD)

definition fact_changed :: "factSet \<Rightarrow> factSet \<Rightarrow> string \<Rightarrow> bool" where
  "fact_changed prev next k \<longleftrightarrow> map_option fact_content (map_of prev k) \<noteq> map_option fact_content (map_of next k)"

lemma set_changedKeys:
  assumes "wf_factSet prev" "wf_factSet next"
  shows "set (fcc_changedKeys (classifyFactChanges (Some prev) next)) = {k. fact_changed prev next k}"
proof -
  have "comparable (map_of prev k) = comparable (map_of next k) \<longleftrightarrow> \<not> fact_changed prev next k" for k
    unfolding fact_changed_def
    using comparable_iff [of "map_of prev k" "map_of next k"] wf_factSet_lookup assms by blast
  moreover have "fact_changed prev next k \<Longrightarrow> k \<in> fst ` set prev \<union> fst ` set next" for k
    by (auto simp: fact_changed_def map_of_eq_None_iff split: option.splits)
      (metis image_eqI map_of_eq_None_iff option.map_disc_iff)
  ultimately show ?thesis by (auto simp: classifyFactChanges_def Let_def)
qed

lemma set_materialKeys:
  assumes "wf_factSet prev" "wf_factSet next"
  shows "set (fcc_materialKeys (classifyFactChanges (Some prev) next)) =
    {k. fact_changed prev next k \<and> (fact_is Fact_known (map_of prev k) \<or> fact_is Fact_conflicting (map_of next k))}"
proof -
  have "fcc_materialKeys (classifyFactChanges (Some prev) next) =
      filter (\<lambda>k. fact_is Fact_known (map_of prev k) \<or> fact_is Fact_conflicting (map_of next k))
        (fcc_changedKeys (classifyFactChanges (Some prev) next))"
    by (simp add: classifyFactChanges_def Let_def)
  then show ?thesis using set_changedKeys [OF assms] by auto
qed

lemma classification_keys:
  "fcc_classification (classifyFactChanges (Some prev) next) =
     (if fcc_changedKeys (classifyFactChanges (Some prev) next) = [] then Mat_none
      else if fcc_materialKeys (classifyFactChanges (Some prev) next) = [] then Mat_non_material
      else Mat_material)"
  by (auto simp: classifyFactChanges_def Let_def)

end
