(* ===== verification/Privacy.thy ===== *)
theory Privacy
  imports Capabilities
begin

text \<open>
  \<open>src/src/domain/privacy.ts\<close>: privacy requests as owned work with verification, a legal-hold
  disposition and a recorded completion.
\<close>

datatype privacyRequestKind = Prk_access | Prk_export | Prk_correction | Prk_deletion
  | Prk_restriction | Prk_objection

definition privacyRequestKinds :: "privacyRequestKind list" where
  "privacyRequestKinds = [Prk_access, Prk_export, Prk_correction, Prk_deletion, Prk_restriction, Prk_objection]"

datatype privacyRequestState = Prv_received | Prv_verifying | Prv_in_progress
  | Prv_on_legal_hold | Prv_completed | Prv_rejected

definition privacyRequestStates :: "privacyRequestState list" where
  "privacyRequestStates = [Prv_received, Prv_verifying, Prv_in_progress, Prv_on_legal_hold, Prv_completed, Prv_rejected]"

fun privacyRequestState_name :: "privacyRequestState \<Rightarrow> string" where
  "privacyRequestState_name Prv_received = ''received''"
| "privacyRequestState_name Prv_verifying = ''verifying''"
| "privacyRequestState_name Prv_in_progress = ''in_progress''"
| "privacyRequestState_name Prv_on_legal_hold = ''on_legal_hold''"
| "privacyRequestState_name Prv_completed = ''completed''"
| "privacyRequestState_name Prv_rejected = ''rejected''"

fun privacyRequestTable :: "privacyRequestState \<Rightarrow> privacyRequestState list" where
  "privacyRequestTable Prv_received = [Prv_verifying, Prv_rejected]"
| "privacyRequestTable Prv_verifying = [Prv_in_progress, Prv_rejected]"
| "privacyRequestTable Prv_in_progress = [Prv_on_legal_hold, Prv_completed, Prv_rejected]"
| "privacyRequestTable Prv_on_legal_hold = [Prv_in_progress, Prv_completed]"
| "privacyRequestTable Prv_completed = []"
| "privacyRequestTable Prv_rejected = []"

definition privacyRequestMachine :: "privacyRequestState machine" where
  "privacyRequestMachine = defineMachine privacyRequestStates privacyRequestTable"

record privacyRequestEvidence =
  pre_verifiedAt :: "string option"
  pre_responsiblePrincipalId :: "string option"
  pre_legalHoldReason :: "string option"
  pre_completionEvidence :: "string option"
  pre_legalHoldDisposition :: "string option"
  pre_reason :: "string option"

definition guardPrivacyRequestTransition ::
    "privacyRequestState \<Rightarrow> privacyRequestState \<Rightarrow> privacyRequestEvidence \<Rightarrow> actor \<Rightarrow> decision" where
  "guardPrivacyRequestTransition from to e a = (case to of
       Prv_in_progress \<Rightarrow> firstDenial
         [Some (need (truthy (pre_verifiedAt e)) ''verification_required''),
          Some (need (truthy (pre_responsiblePrincipalId e)) ''responsible_person_required'')]
     | Prv_on_legal_hold \<Rightarrow> need (truthy (pre_legalHoldReason e)) ''legal_hold_reason_required''
     | Prv_completed \<Rightarrow> firstDenial
         [Some (need (actor_kind a = Actor_staff) ''human_required''),
          Some (need (truthy (pre_completionEvidence e)) ''completion_evidence_required''),
          Some (need (truthy (pre_legalHoldDisposition e)) ''legal_hold_disposition_required'')]
     | Prv_rejected \<Rightarrow> need (truthy (pre_reason e)) ''reason_required''
     | _ \<Rightarrow> Allowed)"

lemma privacyRequestMachine_wf: "wf_machine privacyRequestMachine"
  by (simp add: privacyRequestMachine_def wf_machine_def privacyRequestStates_def)

lemma privacy_completed_iff:
  "guardPrivacyRequestTransition from Prv_completed e a = Allowed \<longleftrightarrow>
     actor_kind a = Actor_staff \<and> truthy (pre_completionEvidence e) \<and> truthy (pre_legalHoldDisposition e)"
  by (auto simp: guardPrivacyRequestTransition_def guard_simps)

text \<open>Steps of a request from its receipt, the latest first, and the verification each one needs.\<close>

inductive privacy_steps ::
    "privacyRequestState \<Rightarrow> (privacyRequestState \<times> privacyRequestEvidence \<times> actor) list \<Rightarrow> bool" where
  privacy_received: "privacy_steps Prv_received []"
| privacy_step: "\<lbrakk>privacy_steps s h; check privacyRequestMachine s t = Allowed;
    guardPrivacyRequestTransition s t e a = Allowed\<rbrakk> \<Longrightarrow> privacy_steps t ((t, e, a) # h)"

definition verified_before :: "(privacyRequestState \<times> privacyRequestEvidence \<times> actor) list \<Rightarrow> bool" where
  "verified_before h = list_ex (\<lambda>(t, e, a). t = Prv_in_progress \<and> truthy (pre_verifiedAt e) \<and>
     truthy (pre_responsiblePrincipalId e)) h"

lemma verified_before_Cons [simp]:
  "verified_before ((t, e, a) # h) \<longleftrightarrow> (t = Prv_in_progress \<and> truthy (pre_verifiedAt e) \<and>
     truthy (pre_responsiblePrincipalId e)) \<or> verified_before h"
  by (simp add: verified_before_def)

lemma privacy_preds:
  "check privacyRequestMachine s Prv_completed = Allowed \<longleftrightarrow> s = Prv_in_progress \<or> s = Prv_on_legal_hold"
  "check privacyRequestMachine s Prv_on_legal_hold = Allowed \<longleftrightarrow> s = Prv_in_progress"
  by (cases s; simp add: check_Allowed_iff privacyRequestMachine_def)+

lemma privacy_verified:
  assumes "privacy_steps s h"
  shows "s \<in> {Prv_in_progress, Prv_on_legal_hold, Prv_completed} \<longrightarrow> verified_before h"
  using assms
proof (induction rule: privacy_steps.induct)
  case privacy_received
  then show ?case by simp
next
  case (privacy_step s h t e a)
  then show ?case
    by (cases t) (auto simp: privacy_preds guardPrivacyRequestTransition_def guard_simps)
qed

end
