(* ===== verification/CheckCode.thy ===== *)
theory CheckCode
  imports Decimal "HOL-Library.Word"
begin

text \<open>
  \<open>src/src/domain/inquiry-check-code.ts\<close>: the first five characters of an issued submission key (30
  random bits) re-encoded as six phone-friendly characters, and the way back. The accumulated
  \<open>bits\<close> is a JavaScript number below \<open>2 ^ 30\<close>; \<open>bits >>> shift\<close> reads it as an unsigned 32-bit
  word and shifts logically.
\<close>

unbundle bit_operations_syntax

definition base64url :: string where
  "base64url = ''ABCDEFGHIJKLMNOPQRSTUVWXYZabcdefghijklmnopqrstuvwxyz0123456789-_''"

definition crockford :: string where
  "crockford = ''0123456789ABCDEFGHJKMNPQRSTVWXYZ''"

text \<open>\<open>text.indexOf(char)\<close>, which is \<open>-1\<close> for a character that does not occur.\<close>

definition index_of :: "string \<Rightarrow> char \<Rightarrow> int" where
  "index_of s c = (case find_index (\<lambda>d. d = c) s of None \<Rightarrow> -1 | Some i \<Rightarrow> int i)"

text \<open>\<open>text.charAt(i)\<close>, which is the empty text out of range.\<close>

definition char_at :: "string \<Rightarrow> nat \<Rightarrow> string" where
  "char_at s i = (if i < length s then [s ! i] else [])"

definition ushr_and :: "int \<Rightarrow> nat \<Rightarrow> 32 word \<Rightarrow> nat" where
  "ushr_and bits shift m = unat (drop_bit shift (word_of_int bits :: 32 word) AND m)"

definition is_hex_lower :: "char \<Rightarrow> bool" where
  "is_hex_lower c = (is_digit c \<or> (97 \<le> (of_char c :: nat) \<and> (of_char c :: nat) \<le> 102))"

text \<open>\<open>/^[A-Za-z0-9_-]{43}\.[0-9a-f]{32}$/\<close>\<close>

definition issuedKeyShape :: "string \<Rightarrow> bool" where
  "issuedKeyShape s =
     (length s = 76 \<and>
      list_all (\<lambda>c. is_upper c \<or> is_lower c \<or> is_digit c \<or> c = CHR ''_'' \<or> c = CHR ''-'') (take 43 s) \<and>
      s ! 43 = CHR ''.'' \<and> list_all is_hex_lower (drop 44 s))"

definition inquiryCheckCode :: "string \<Rightarrow> string option" where
  "inquiryCheckCode submissionKey =
     (if \<not> issuedKeyShape submissionKey then None
      else (let bits = foldl (\<lambda>bits c. bits * 64 + index_of base64url c) 0 (take 5 submissionKey)
            in Some (concat (map (\<lambda>shift. char_at crockford (ushr_and bits shift 31))
                 [25, 20, 15, 10, 5, 0]))))"

text \<open>The loop over the typed characters: it stops at the first one outside the alphabet.\<close>

fun crockford_bits :: "int \<Rightarrow> string \<Rightarrow> int option" where
  "crockford_bits bits [] = Some bits"
| "crockford_bits bits (c # cs) =
     (let value = index_of crockford c
      in if value < 0 then None else crockford_bits (bits * 32 + value) cs)"

definition normalize_code :: "string \<Rightarrow> string" where
  "normalize_code input =
     map (\<lambda>c. if c = CHR ''I'' \<or> c = CHR ''L'' then CHR ''1'' else c)
       (map (\<lambda>c. if c = CHR ''O'' then CHR ''0'' else c)
          (to_upper (filter (\<lambda>c. \<not> (is_white c \<or> c = CHR ''-'')) input)))"

definition checkCodeNoncePrefix :: "string \<Rightarrow> string option" where
  "checkCodeNoncePrefix input =
     (let code = normalize_code input
      in if length code \<noteq> 6 then None
         else case crockford_bits 0 code of None \<Rightarrow> None
           | Some bits \<Rightarrow> Some (concat (map (\<lambda>shift. char_at base64url (ushr_and bits shift 63))
               [24, 18, 12, 6, 0])))"

subsection \<open>The two alphabets\<close>

lemma alphabet_facts: "distinct base64url" "length base64url = 64"
  "distinct crockford" "length crockford = 32"
  by (simp_all add: base64url_def crockford_def)

lemma find_index_nth: "distinct xs \<Longrightarrow> i < length xs \<Longrightarrow> find_index (\<lambda>d. d = xs ! i) xs = Some i"
proof (induction xs arbitrary: i)
  case Nil
  then show ?case by simp
next
  case (Cons x xs)
  then show ?case by (cases i) auto
qed

lemma index_of_nth: "distinct s \<Longrightarrow> i < length s \<Longrightarrow> index_of s (s ! i) = int i"
  by (simp add: index_of_def find_index_nth)

lemma index_of_bounds: "c \<in> set s \<Longrightarrow> 0 \<le> index_of s c \<and> index_of s c < int (length s) \<and>
    s ! nat (index_of s c) = c"
proof -
  assume "c \<in> set s"
  then obtain i where i: "find_index (\<lambda>d. d = c) s = Some i"
    using find_index_None [of "\<lambda>d. d = c" s] by (cases "find_index (\<lambda>d. d = c) s") auto
  then show ?thesis using find_index_SomeD [OF i] by (simp add: index_of_def)
qed

lemma code_class:
  "n \<in> set ([65..<91] @ [97..<123] @ [48..<58] @ [45, 95]) \<longleftrightarrow>
     65 \<le> n \<and> n \<le> 90 \<or> 97 \<le> n \<and> n \<le> 122 \<or> 48 \<le> n \<and> n \<le> 57 \<or> n = 95 \<or> n = (45 :: nat)"
  by (simp only: set_append set_upt Un_iff atLeastLessThan_iff list.set insert_iff empty_iff) auto

lemma base64url_class:
  "is_upper c \<or> is_lower c \<or> is_digit c \<or> c = CHR ''_'' \<or> c = CHR ''-'' \<longleftrightarrow> c \<in> set base64url"
proof -
  have codes: "map of_char base64url = [65..<91] @ [97..<123] @ [48..<58] @ [45, 95 :: nat]"
    by code_simp
  have "c \<in> set base64url \<longleftrightarrow> (of_char c :: nat) \<in> of_char ` set base64url"
    by (auto simp: image_iff of_char_eq_iff)
  also have "\<dots> \<longleftrightarrow> (of_char c :: nat) \<in> set ([65..<91] @ [97..<123] @ [48..<58] @ [45, 95])"
    by (simp only: set_map [symmetric] codes)
  also have "\<dots> \<longleftrightarrow> is_upper c \<or> is_lower c \<or> is_digit c \<or> (of_char c :: nat) = 95 \<or> (of_char c :: nat) = 45"
    unfolding is_upper_def is_lower_def is_digit_def by (rule code_class)
  also have "(of_char c :: nat) = 95 \<longleftrightarrow> c = CHR ''_''"
    using of_char_eq_iff [of c "CHR ''_''", where 'a = nat] by simp
  also have "(of_char c :: nat) = 45 \<longleftrightarrow> c = CHR ''-''"
    using of_char_eq_iff [of c "CHR ''-''", where 'a = nat] by simp
  finally show ?thesis by simp
qed

subsection \<open>Shifting and masking as division\<close>

lemma ushr_and_div:
  assumes "0 \<le> bits" "bits < 2 ^ 30"
  shows "ushr_and bits shift (mask k) = nat (bits div 2 ^ shift mod 2 ^ k)"
proof -
  have "unat (word_of_int bits :: 32 word) = nat bits"
    using assms by (simp add: unat_eq_nat_uint uint_word_of_int)
  then have "ushr_and bits shift (mask k) = take_bit k (drop_bit shift (nat bits))"
    by (simp add: ushr_and_def take_bit_eq_mask [symmetric] unsigned_take_bit_eq unat_drop_bit_eq)
  then show ?thesis
    using assms(1) by (simp only: take_bit_eq_mod drop_bit_eq_div)
      (simp add: nat_mod_distrib nat_div_distrib pos_imp_zdiv_nonneg_iff nat_power_eq)
qed

subsection \<open>The code gives the prefix back\<close>

text \<open>Six base-32 digits of a number below \<open>2 ^ 30\<close>, read back by Horner's rule.\<close>

lemma horner_step: "b div (k * m) * m + b div k mod m = b div k" if "0 < m" for b k m :: int
  using that by (simp add: zdiv_zmult2_eq)

lemma horner32:
  fixes b :: int
  assumes "0 \<le> b" "b < 2 ^ 30"
  shows "((((b div 2 ^ 25 mod 32 * 32 + b div 2 ^ 20 mod 32) * 32 + b div 2 ^ 15 mod 32) * 32 +
    b div 2 ^ 10 mod 32) * 32 + b div 2 ^ 5 mod 32) * 32 + b mod 32 = b"
proof -
  have top: "b div 2 ^ 25 mod 32 = b div 2 ^ 25"
    using assms div_bounds [of "2 ^ 25" b] by (intro mod_pos_pos_trivial) (auto simp: pos_imp_zdiv_nonneg_iff)
  have 1: "b div 2 ^ 25 * 32 + b div 2 ^ 20 mod 32 = b div 2 ^ 20" using horner_step [of 32 b "2 ^ 20"] by simp
  have 2: "b div 2 ^ 20 * 32 + b div 2 ^ 15 mod 32 = b div 2 ^ 15" using horner_step [of 32 b "2 ^ 15"] by simp
  have 3: "b div 2 ^ 15 * 32 + b div 2 ^ 10 mod 32 = b div 2 ^ 10" using horner_step [of 32 b "2 ^ 10"] by simp
  have 4: "b div 2 ^ 10 * 32 + b div 2 ^ 5 mod 32 = b div 2 ^ 5" using horner_step [of 32 b "2 ^ 5"] by simp
  have 5: "b div 2 ^ 5 * 32 + b mod 32 = b" by simp
  show ?thesis by (simp only: top 1 2 3 4 5)
qed

text \<open>Five base-64 digits, accumulated by the first loop, and read off by the second.\<close>

lemma digits64:
  fixes a b c d e :: int
  assumes "0 \<le> a" "a < 64" "0 \<le> b" "b < 64" "0 \<le> c" "c < 64" "0 \<le> d" "d < 64" "0 \<le> e" "e < 64"
  defines "n \<equiv> (((a * 64 + b) * 64 + c) * 64 + d) * 64 + e"
  shows "0 \<le> n" "n < 2 ^ 30" "n div 2 ^ 24 mod 64 = a" "n div 2 ^ 18 mod 64 = b"
    "n div 2 ^ 12 mod 64 = c" "n div 2 ^ 6 mod 64 = d" "n mod 64 = e"
proof -
  show "0 \<le> n" "n < 2 ^ 30" using assms by simp_all
  have "n div 2 ^ 24 = a"
    using assms by (intro int_div_pos_eq [where r = "((b * 64 + c) * 64 + d) * 64 + e"]) auto
  then show "n div 2 ^ 24 mod 64 = a" using assms(1,2) by simp
  have "n div 2 ^ 18 = a * 64 + b"
    using assms by (intro int_div_pos_eq [where r = "(c * 64 + d) * 64 + e"]) auto
  then show "n div 2 ^ 18 mod 64 = b" using assms(3,4) by (simp only: mod_mult_self3 mod_pos_pos_trivial)
  have "n div 2 ^ 12 = (a * 64 + b) * 64 + c"
    using assms by (intro int_div_pos_eq [where r = "d * 64 + e"]) auto
  then show "n div 2 ^ 12 mod 64 = c" using assms(5,6) by (simp only: mod_mult_self3 mod_pos_pos_trivial)
  have "n div 2 ^ 6 = ((a * 64 + b) * 64 + c) * 64 + d"
    using assms by (intro int_div_pos_eq [where r = e]) auto
  then show "n div 2 ^ 6 mod 64 = d" using assms(7,8) by (simp only: mod_mult_self3 mod_pos_pos_trivial)
  show "n mod 64 = e" unfolding n_def using assms(9,10) by (simp only: mod_mult_self3 mod_pos_pos_trivial)
qed

lemma crockford_char:
  assumes "0 \<le> v" "v < 32"
  shows "index_of crockford (crockford ! nat v) = v" "crockford ! nat v \<in> set crockford"
  using assms index_of_nth [OF alphabet_facts(3), of "nat v"] by (auto simp: alphabet_facts)

text \<open>No character of the code alphabet is rewritten by the normalisation.\<close>

lemma crockford_normal: "list_all (\<lambda>c. normalize_code [c] = [c]) crockford"
  by (simp add: crockford_def normalize_code_def is_white_def to_upper_def to_upper_char_def is_lower_def)

lemma normalize_code_append: "normalize_code (s @ t) = normalize_code s @ normalize_code t"
  by (simp add: normalize_code_def to_upper_def)

lemma normalize_code_id:
  assumes "set s \<subseteq> set crockford"
  shows "normalize_code s = s"
  using assms
proof (induction s)
  case Nil
  then show ?case by (simp add: normalize_code_def to_upper_def)
next
  case (Cons c s)
  then show ?case
    using crockford_normal normalize_code_append [of "[c]" s] by (auto simp: list_all_iff)
qed

lemma char_at_crockford:
  assumes "0 \<le> bits" "bits < 2 ^ 30"
  shows "char_at crockford (ushr_and bits shift 31) = [crockford ! nat (bits div 2 ^ shift mod 32)]"
  using ushr_and_div [OF assms, of shift 5] by (simp add: char_at_def alphabet_facts mask_numeral nat_less_iff)

lemma char_at_base64url:
  assumes "0 \<le> bits" "bits < 2 ^ 30"
  shows "char_at base64url (ushr_and bits shift 63) = [base64url ! nat (bits div 2 ^ shift mod 64)]"
  using ushr_and_div [OF assms, of shift 6] by (simp add: char_at_def alphabet_facts mask_numeral nat_less_iff)

lemma crockford_bits_list:
  assumes "\<And>v. v \<in> set vs \<Longrightarrow> 0 \<le> v \<and> v < 32"
  shows "crockford_bits bits (map (\<lambda>v. crockford ! nat v) vs) = Some (foldl (\<lambda>b v. b * 32 + v) bits vs)"
  using assms
proof (induction vs arbitrary: bits)
  case Nil
  then show ?case by simp
next
  case (Cons v vs)
  have v: "0 \<le> v" "v < 32" using Cons.prems by auto
  have "\<And>b. crockford_bits b (map (\<lambda>v. crockford ! nat v) vs) = Some (foldl (\<lambda>b v. b * 32 + v) b vs)"
    using Cons.prems by (intro Cons.IH) simp
  then show ?case using crockford_char [OF v] v by simp
qed

text \<open>The number five characters of a submission key stand for.\<close>

lemma key_digits:
  assumes "issuedKeyShape key"
  obtains a b c d e where "take 5 key = map (\<lambda>v. base64url ! nat v) [a, b, c, d, e]"
    "map (index_of base64url) (take 5 key) = [a, b, c, d, e]"
    "\<And>v. v \<in> {a, b, c, d, e} \<Longrightarrow> 0 \<le> v \<and> v < 64"
proof -
  have "take 5 (take 43 key) = take 5 key" by simp
  then have "set (take 5 key) \<subseteq> set (take 43 key)" by (metis set_take_subset)
  then have cls: "c \<in> set base64url" if "c \<in> set (take 5 key)" for c
    using assms that base64url_class by (auto simp: issuedKeyShape_def list_all_iff)
  have "length (take 5 key) = 5" using assms by (simp add: issuedKeyShape_def)
  then obtain k0 k1 k2 k3 k4 where k: "take 5 key = [k0, k1, k2, k3, k4]"
    by (auto simp: eval_nat_numeral length_Suc_conv simp del: length_take)
  note bd = index_of_bounds [OF cls, unfolded alphabet_facts k]
  show thesis
    by (rule that [of "index_of base64url k0" "index_of base64url k1" "index_of base64url k2"
          "index_of base64url k3" "index_of base64url k4"]) (use bd k in auto)
qed

lemma checkCode_roundtrip:
  assumes "issuedKeyShape key"
  shows "\<exists>code. inquiryCheckCode key = Some code \<and> length code = 6 \<and> set code \<subseteq> set crockford \<and>
    checkCodeNoncePrefix code = Some (take 5 key)"
proof -
  obtain a b c d e where k: "take 5 key = map (\<lambda>v. base64url ! nat v) [a, b, c, d, e]"
      "map (index_of base64url) (take 5 key) = [a, b, c, d, e]"
    and bd: "\<And>v. v \<in> {a, b, c, d, e} \<Longrightarrow> 0 \<le> v \<and> v < 64"
    using key_digits [OF assms] by blast
  define n where "n = (((a * 64 + b) * 64 + c) * 64 + d) * 64 + e"
  have n: "0 \<le> n" "n < 2 ^ 30" "n div 2 ^ 24 mod 64 = a" "n div 2 ^ 18 mod 64 = b"
    "n div 2 ^ 12 mod 64 = c" "n div 2 ^ 6 mod 64 = d" "n mod 64 = e"
    unfolding n_def by (rule digits64; use bd in simp)+
  have "foldl (\<lambda>bits c. bits * 64 + index_of base64url c) 0 (take 5 key) =
      foldl (\<lambda>bits v. bits * 64 + v) 0 (map (index_of base64url) (take 5 key))"
    by (simp add: foldl_map)
  also have "\<dots> = n" by (simp only: k(2) n_def foldl.simps mult_zero_left add_0_left)
  finally have fold: "foldl (\<lambda>bits c. bits * 64 + index_of base64url c) 0 (take 5 key) = n" .
  define vs where "vs = map (\<lambda>s. n div 2 ^ s mod 32) [25, 20, 15, 10, 5, 0]"
  define code where "code = map (\<lambda>v. crockford ! nat v) vs"
  have code: "inquiryCheckCode key = Some code"
    using assms char_at_crockford [OF n(1,2)]
    by (simp only: inquiryCheckCode_def fold Let_def code_def vs_def) (simp add: comp_def)
  have vs: "0 \<le> v \<and> v < 32" if "v \<in> set vs" for v using that by (auto simp: vs_def)
  have sub: "set code \<subseteq> set crockford" using vs crockford_char(2) by (auto simp: code_def)
  have len: "length code = 6" by (simp add: code_def vs_def)
  have "foldl (\<lambda>b v. b * 32 + v) 0 vs = n"
    using horner32 [OF n(1,2)] by (simp only: vs_def list.map foldl.simps mult_zero_left add_0_left power_0 div_by_1)
  then have "crockford_bits 0 code = Some n" using crockford_bits_list [OF vs, of vs 0] by (simp add: code_def)
  then have "checkCodeNoncePrefix code = Some (concat (map (\<lambda>shift. char_at base64url (ushr_and n shift 63))
      [24, 18, 12, 6, 0]))"
    by (simp only: checkCodeNoncePrefix_def normalize_code_id [OF sub] len Let_def option.case) simp
  also have "\<dots> = Some (take 5 key)"
    by (simp only: char_at_base64url [OF n(1,2)] k(1) list.map concat.simps append.simps n power_0 div_by_1)
  finally show ?thesis using code sub len by blast
qed

end
