(* ===== verification/Records.thy ===== *)
theory Records
  imports Authz Transition Operations
begin

text \<open>
  \<open>src/src/server/transitions.ts\<close>, with \<open>recordActivity\<close> of \<open>activity.ts\<close> and \<open>recordAudit\<close> of
  \<open>audit.ts\<close>: a command loads its record, checks the caller's access and the transition contract,
  and writes the record, its timeline entry and its audit entry in one transaction. An exception
  leaves everything as it was. The record stays locked from its load to the end of the transaction,
  so commands run one after the other; the clock and the tables access is resolved from are
  arguments.

  A record store is an interface of the code: the locale says what loading and saving promise, and
  \<open>tableStore\<close> is the instance every table uses.
\<close>

subsection \<open>Timeline and audit rows\<close>

datatype activityAudience = Activity_internal | Activity_participants | Activity_public

fun audienceColumn :: "activityAudience \<Rightarrow> audience" where
  "audienceColumn Activity_internal = Audience_internal"
| "audienceColumn Activity_participants = Audience_case_participants"
| "audienceColumn Activity_public = Audience_public"

record activityEntry =
  ace_recordType :: string
  ace_recordId :: string
  ace_reference :: "string option"
  ace_messageKey :: string
  ace_params :: json
  ace_summary :: string
  ace_audience :: "activityAudience option"
  ace_actor :: actor
  ace_operationId :: "string option"
  ace_at :: int

record activityRow =
  acr_recordType :: string
  acr_recordId :: string
  acr_reference :: "string option"
  acr_messageKey :: string
  acr_params :: json
  acr_summary :: string
  acr_audience :: audience
  acr_actorKind :: actorKind
  acr_actorId :: string
  acr_operationId :: "string option"
  acr_occurredAt :: int

definition recordActivity :: "activityEntry \<Rightarrow> activityRow list \<Rightarrow> activityRow list" where
  "recordActivity entry rows = rows @
     [\<lparr>acr_recordType = ace_recordType entry, acr_recordId = ace_recordId entry, acr_reference = ace_reference entry,
       acr_messageKey = ace_messageKey entry, acr_params = ace_params entry, acr_summary = ace_summary entry,
       acr_audience = audienceColumn (the_or Activity_internal (ace_audience entry)),
       acr_actorKind = actor_kind (ace_actor entry), acr_actorId = actor_id (ace_actor entry),
       acr_operationId = ace_operationId entry, acr_occurredAt = ace_at entry\<rparr>]"

record 'e transitionPayload =
  tp_fromState :: string
  tp_toState :: string
  tp_expectedVersion :: int
  tp_newVersion :: int
  tp_evidence :: 'e
  tp_reason :: "string option"

record 'p auditRecord =
  adr_action :: string
  adr_actor :: actor
  adr_capability :: "capability option"
  adr_recordType :: "string option"
  adr_recordId :: "string option"
  adr_operationId :: "string option"
  adr_correlationId :: "string option"
  adr_payload :: 'p
  adr_at :: int

definition recordAudit :: "'p auditRecord \<Rightarrow> 'p auditRecord list \<Rightarrow> 'p auditRecord list" where
  "recordAudit entry rows = rows @ [entry]"

subsection \<open>executeTransition\<close>

record parents =
  par_caseId :: "string option"
  par_propertyId :: "string option"
  par_audience :: "audience option"

record ('d, 'r) recordStore =
  rs_load :: "'d \<Rightarrow> string \<Rightarrow> 'r option"
  rs_save :: "'d \<Rightarrow> 'r \<Rightarrow> int \<Rightarrow> thrown + 'd"
  rs_parents :: "'r \<Rightarrow> parents"

record ('s, 'e) transitionCommand =
  tc_actor :: actor
  tc_recordId :: string
  tc_expectedVersion :: int
  tc_to :: 's
  tc_evidence :: 'e
  tc_operationId :: string
  tc_reason :: "string option"
  tc_audience :: "activityAudience option"
  tc_correlationId :: "string option"

datatype 'r transitionOutcome = Outcome_applied 'r | Outcome_denied string | Outcome_version_conflict 'r

record ('d, 'e) workspace =
  ws_rows :: 'd
  ws_activity :: "activityRow list"
  ws_audit :: "'e transitionPayload auditRecord list"

definition resource_of ::
    "('s, 'e) transitionSpec \<Rightarrow> parents \<Rightarrow> ('s, 'z) versionedRecord_scheme \<Rightarrow> resource" where
  "resource_of spec par r =
     \<lparr>res_type = spec_recordType spec, res_id = Some (vr_id r), res_locale = vr_locale r,
      res_caseId = par_caseId par, res_propertyId = par_propertyId par, res_audience = par_audience par\<rparr>"

definition request_of ::
    "capabilityGrant list \<Rightarrow> ('s, 'e) transitionCommand \<Rightarrow> int \<Rightarrow> ('s, 'e) transitionRequest" where
  "request_of grants c now =
     \<lparr>tr_actor = tc_actor c, tr_capabilities = grants, tr_expectedVersion = tc_expectedVersion c, tr_to = tc_to c,
      tr_evidence = tc_evidence c, tr_operationId = tc_operationId c, tr_at = to_iso now,
      tr_reason = drop_falsy (tc_reason c)\<rparr>"

definition activity_entry ::
    "('s, 'e) transitionCommand \<Rightarrow> int \<Rightarrow> activityDescription \<Rightarrow> 'e auditPayload \<Rightarrow> activityEntry" where
  "activity_entry c now act aud =
     \<lparr>ace_recordType = act_recordType act, ace_recordId = act_recordId act,
      ace_reference = drop_falsy (act_reference act), ace_messageKey = act_messageKey act,
      ace_params = JObject [(''from'', JString (aud_fromState aud)), (''to'', JString (aud_toState aud))], ace_summary = act_summary act,
      ace_audience = Some (the_or Activity_internal (tc_audience c)), ace_actor = act_actor act,
      ace_operationId = Some (act_operationId act), ace_at = now\<rparr>"

definition audit_entry ::
    "('s, 'e) transitionCommand \<Rightarrow> int \<Rightarrow> 'e auditPayload \<Rightarrow> 'e transitionPayload auditRecord" where
  "audit_entry c now aud =
     \<lparr>adr_action = aud_action aud, adr_actor = aud_actor aud, adr_capability = Some (aud_capability aud),
      adr_recordType = Some (aud_recordType aud), adr_recordId = Some (aud_recordId aud),
      adr_operationId = Some (aud_operationId aud), adr_correlationId = drop_falsy (tc_correlationId c),
      adr_payload = \<lparr>tp_fromState = aud_fromState aud, tp_toState = aud_toState aud,
        tp_expectedVersion = aud_expectedVersion aud, tp_newVersion = aud_newVersion aud,
        tp_evidence = aud_evidence aud, tp_reason = drop_falsy (aud_reason aud)\<rparr>,
      adr_at = now\<rparr>"

definition executeTransition ::
    "accessTables \<Rightarrow> ('s, 'e) transitionSpec \<Rightarrow> ('d, ('s, 'z) versionedRecord_scheme) recordStore
      \<Rightarrow> ('s, 'e) transitionCommand \<Rightarrow> int \<Rightarrow> ('d, 'e) workspace
      \<Rightarrow> (thrown + ('s, 'z) versionedRecord_scheme transitionOutcome) \<times> ('d, 'e) workspace" where
  "executeTransition db spec store c now ws =
     (case rs_load store (ws_rows ws) (tc_recordId c) of
        None \<Rightarrow> (Inl (ThrownApp (AppError Err_not_found no_options)), ws)
      | Some r \<Rightarrow>
          let grants = grantsFor db (tc_actor c) (resource_of spec (rs_parents store r) r) now
          in case applyTransition spec r (request_of grants c now) of
              TransitionDenied code \<Rightarrow> (Inr (Outcome_denied code), ws)
            | VersionConflict current \<Rightarrow> (Inr (Outcome_version_conflict current), ws)
            | Applied r' act aud \<Rightarrow>
                (case rs_save store (ws_rows ws) r' (tc_expectedVersion c) of
                   Inl e \<Rightarrow> (Inl e, ws)
                 | Inr rows \<Rightarrow> (Inr (Outcome_applied r'),
                     \<lparr>ws_rows = rows,
                      ws_activity = recordActivity (activity_entry c now act aud) (ws_activity ws),
                      ws_audit = recordAudit (audit_entry c now aud) (ws_audit ws)\<rparr>)))"

subsection \<open>tableStore\<close>

text \<open>
  A table with an identifier, a version and a state column, and the optional columns the store
  reads; the columns it does not have are \<open>None\<close> in every row.
\<close>

record 's tableRecord = "'s versionedRecord" +
  tb_caseId :: "string option"
  tb_propertyId :: "string option"
  tb_audience :: "audience option"

definition table_load :: "'s tableRecord list \<Rightarrow> string \<Rightarrow> 's tableRecord option" where
  "table_load rows i = List.find (\<lambda>r. vr_id r = i) rows"

definition table_save ::
    "'s tableRecord list \<Rightarrow> 's tableRecord \<Rightarrow> int \<Rightarrow> thrown + 's tableRecord list" where
  "table_save rows new expectedVersion =
     (let hit = (\<lambda>r. vr_id r = vr_id new \<and> vr_version r = expectedVersion)
      in if length (filter hit rows) \<noteq> 1 then throw_app Err_version_conflict
         else Inr (map (\<lambda>r. if hit r then r\<lparr>vr_state := vr_state new, vr_version := vr_version new\<rparr> else r) rows))"

definition table_parents :: "'s tableRecord \<Rightarrow> parents" where
  "table_parents r =
     \<lparr>par_caseId = drop_falsy (tb_caseId r), par_propertyId = drop_falsy (tb_propertyId r),
      par_audience = tb_audience r\<rparr>"

definition tableStore :: "('s tableRecord list, 's tableRecord) recordStore" where
  "tableStore = \<lparr>rs_load = table_load, rs_save = table_save, rs_parents = table_parents\<rparr>"

subsection \<open>What a store promises\<close>

text \<open>Commands in the order they reach the database, each with the access tables and the clock it sees.\<close>

fun run_commands ::
    "('s, 'e) transitionSpec \<Rightarrow> ('d, ('s, 'z) versionedRecord_scheme) recordStore
      \<Rightarrow> (accessTables \<times> ('s, 'e) transitionCommand \<times> int) list \<Rightarrow> ('d, 'e) workspace \<Rightarrow> ('d, 'e) workspace" where
  "run_commands spec store [] ws = ws"
| "run_commands spec store ((db, c, now) # cs) ws =
     run_commands spec store cs (snd (executeTransition db spec store c now ws))"

text \<open>The audit entries of one record, and what following them from a state and a version gives.\<close>

definition trail :: "string \<Rightarrow> 'p auditRecord list \<Rightarrow> 'p list" where
  "trail i rows = map adr_payload (filter (\<lambda>a. adr_recordId a = Some i) rows)"

fun audit_replay :: "string \<times> int \<Rightarrow> 'e transitionPayload list \<Rightarrow> (string \<times> int) option" where
  "audit_replay p [] = Some p"
| "audit_replay (s, v) (a # as) =
     (if tp_fromState a = s \<and> tp_expectedVersion a = v \<and> tp_newVersion a = v + 1
      then audit_replay (tp_toState a, tp_newVersion a) as else None)"

lemma audit_replay_append:
  "audit_replay p (as @ bs) = Option.bind (audit_replay p as) (\<lambda>q. audit_replay q bs)"
  by (induction p as rule: audit_replay.induct) auto

lemma trail_append: "trail i (as @ bs) = trail i as @ trail i bs"
  by (simp add: trail_def)

definition stored :: "('s, 'e) transitionSpec \<Rightarrow> ('s, 'z) versionedRecord_scheme \<Rightarrow> string \<times> int" where
  "stored spec r = (spec_name spec (vr_state r), vr_version r)"

locale record_store =
  fixes store :: "('d, ('s, 'z) versionedRecord_scheme) recordStore"
    and okd :: "'d \<Rightarrow> bool"
  assumes load_id: "okd d \<Longrightarrow> rs_load store d i = Some r \<Longrightarrow> vr_id r = i"
    and save_ok: "okd d \<Longrightarrow> rs_load store d (vr_id r) = Some r \<Longrightarrow>
      \<exists>d'. rs_save store d (r\<lparr>vr_state := s, vr_version := v\<rparr>) (vr_version r) = Inr d' \<and> okd d' \<and>
        rs_load store d' (vr_id r) = Some (r\<lparr>vr_state := s, vr_version := v\<rparr>) \<and>
        (\<forall>j. j \<noteq> vr_id r \<longrightarrow> rs_load store d' j = rs_load store d j)"
begin

lemma execute_cases:
  assumes "okd (ws_rows ws)"
  obtains (kept) res where "executeTransition db spec store c now ws = (res, ws)" "\<nexists>r. res = Inr (Outcome_applied r)"
  | (applied) r r' act aud rows where "rs_load store (ws_rows ws) (tc_recordId c) = Some r" "vr_id r = tc_recordId c"
      "applyTransition spec r (request_of (grantsFor db (tc_actor c) (resource_of spec (rs_parents store r) r) now) c now)
         = Applied r' act aud"
      "executeTransition db spec store c now ws = (Inr (Outcome_applied r'),
         \<lparr>ws_rows = rows, ws_activity = recordActivity (activity_entry c now act aud) (ws_activity ws),
          ws_audit = recordAudit (audit_entry c now aud) (ws_audit ws)\<rparr>)"
      "okd rows" "rs_load store rows (tc_recordId c) = Some r'"
      "\<And>j. j \<noteq> tc_recordId c \<Longrightarrow> rs_load store rows j = rs_load store (ws_rows ws) j"
proof (cases "rs_load store (ws_rows ws) (tc_recordId c)")
  case None
  then show thesis using kept by (simp add: executeTransition_def)
next
  case (Some r)
  have i: "vr_id r = tc_recordId c" by (rule load_id [OF assms Some])
  let ?q = "request_of (grantsFor db (tc_actor c) (resource_of spec (rs_parents store r) r) now) c now"
  show thesis
  proof (cases "applyTransition spec r ?q")
    case (Applied r' act aud)
    then have r': "r' = r\<lparr>vr_state := tc_to c, vr_version := vr_version r + 1\<rparr>" and v: "tc_expectedVersion c = vr_version r"
      by (simp_all add: applyTransition_Applied request_of_def)
    obtain d' where d': "rs_save store (ws_rows ws) r' (tc_expectedVersion c) = Inr d'" "okd d'"
      "rs_load store d' (vr_id r) = Some r'" "\<And>j. j \<noteq> vr_id r \<Longrightarrow> rs_load store d' j = rs_load store (ws_rows ws) j"
      using save_ok [OF assms Some [folded i], where s = "tc_to c" and v = "vr_version r + 1"] unfolding r' v by blast
    show thesis
      by (rule applied [OF Some i Applied _ d'(2)])
        (use Some Applied d' i in \<open>simp_all add: executeTransition_def Let_def\<close>)
  qed (use Some kept in \<open>simp_all add: executeTransition_def Let_def\<close>)
qed

lemma execute_ok: "okd (ws_rows ws) \<Longrightarrow> okd (ws_rows (snd (executeTransition db spec store c now ws)))"
  by (cases rule: execute_cases [of ws db spec c now]) auto

text \<open>One command keeps every record's trail in step with the record.\<close>

lemma execute_trail:
  assumes "okd (ws_rows ws)" "rs_load store (ws_rows ws) i = Some r"
    and "audit_replay p (trail i (ws_audit ws)) = Some (stored spec r)"
  shows "\<exists>r'. rs_load store (ws_rows (snd (executeTransition db spec store c now ws))) i = Some r' \<and>
    audit_replay p (trail i (ws_audit (snd (executeTransition db spec store c now ws)))) = Some (stored spec r')"
proof (cases rule: execute_cases [OF assms(1), of db spec c now, case_names kept applied])
  case (kept res)
  then show ?thesis using assms by simp
next
  case (applied r0 r' act aud rows)
  show ?thesis
  proof (cases "i = tc_recordId c")
    case True
    then have r0: "r0 = r" using applied(1) assms(2) by simp
    have aud: "aud = transition_audit spec r (request_of (grantsFor db (tc_actor c)
        (resource_of spec (rs_parents store r) r) now) c now)"
      "r' = r\<lparr>vr_state := tc_to c, vr_version := vr_version r + 1\<rparr>" "tc_expectedVersion c = vr_version r"
      using applied(3) unfolding r0 by (simp_all add: applyTransition_Applied request_of_def)
    have "trail i (ws_audit (snd (executeTransition db spec store c now ws))) =
        trail i (ws_audit ws) @ [adr_payload (audit_entry c now aud)]"
      using applied(2,4) True by (simp add: recordAudit_def trail_append)
        (simp add: trail_def audit_entry_def aud transition_audit_def r0 [symmetric])
    then have "audit_replay p (trail i (ws_audit (snd (executeTransition db spec store c now ws)))) =
        audit_replay (stored spec r) [adr_payload (audit_entry c now aud)]"
      using assms(3) by (simp add: audit_replay_append)
    also have "\<dots> = Some (stored spec r')"
      by (simp add: stored_def audit_entry_def aud transition_audit_def request_of_def)
    finally show ?thesis using applied(4,6) True by simp
  next
    case False
    have "aud_recordId aud = tc_recordId c"
      using applied(2,3) by (auto simp: applyTransition_Applied transition_audit_def)
    then have "trail i (ws_audit (snd (executeTransition db spec store c now ws))) = trail i (ws_audit ws)"
      using applied(4) False by (simp add: recordAudit_def trail_append) (simp add: trail_def audit_entry_def)
    then show ?thesis using assms applied(4,7) False by simp
  qed
qed

lemma commands_trail:
  assumes "okd (ws_rows ws)" "rs_load store (ws_rows ws) i = Some r"
    and "audit_replay p (trail i (ws_audit ws)) = Some (stored spec r)"
  shows "\<exists>r'. rs_load store (ws_rows (run_commands spec store cs ws)) i = Some r' \<and>
    audit_replay p (trail i (ws_audit (run_commands spec store cs ws))) = Some (stored spec r')"
  using assms
proof (induction cs arbitrary: ws r)
  case Nil
  then show ?case by simp
next
  case (Cons x cs)
  obtain db c now where x: "x = (db, c, now)" by (cases x) auto
  obtain r' where "rs_load store (ws_rows (snd (executeTransition db spec store c now ws))) i = Some r'"
    "audit_replay p (trail i (ws_audit (snd (executeTransition db spec store c now ws)))) = Some (stored spec r')"
    using execute_trail [OF Cons.prems] by blast
  from Cons.IH [OF execute_ok [OF Cons.prems(1)] this] show ?case by (simp add: x)
qed

text \<open>What applies was permitted: the actor can do it on the record, by the access tables of the command.\<close>

lemma applied_can:
  assumes "okd (ws_rows ws)" "fst (executeTransition db spec store c now ws) = Inr (Outcome_applied r')"
  shows "\<exists>r. rs_load store (ws_rows ws) (tc_recordId c) = Some r \<and> vr_version r = tc_expectedVersion c \<and>
    r' = r\<lparr>vr_state := tc_to c, vr_version := tc_expectedVersion c + 1\<rparr> \<and>
    can db (tc_actor c) (spec_capabilityFor spec (vr_state r) (tc_to c) (tc_actor c))
      (Some (resource_of spec (rs_parents store r) r)) now"
proof (cases rule: execute_cases [OF assms(1), of db spec c now, case_names kept applied])
  case (kept res)
  then show ?thesis using assms(2) by auto
next
  case (applied r r'' act aud rows)
  let ?res = "resource_of spec (rs_parents store r) r"
  have "context_locale (transition_context spec r (request_of (grantsFor db (tc_actor c) ?res now) c now)) =
      res_locale ?res"
    by (simp add: transition_context_def resource_of_def)
  from grantsFor_exact [OF this]
  show ?thesis using applied(1,3,4) assms(2)
    by (auto simp: applyTransition_Applied permitted_def request_of_def)
qed

end

subsection \<open>The table keeps the promises\<close>

definition ok_table :: "'s tableRecord list \<Rightarrow> bool" where
  "ok_table rows \<longleftrightarrow> distinct (map vr_id rows)"

lemma table_load_Some: "ok_table rows \<Longrightarrow> table_load rows i = Some r \<longleftrightarrow> r \<in> set rows \<and> vr_id r = i"
  by (simp add: table_load_def ok_table_def find_distinct)

lemma table_save_ok:
  fixes rows :: "'s tableRecord list" and r :: "'s tableRecord" and s :: 's and v :: int
  assumes "ok_table rows" "table_load rows (vr_id r) = Some r"
  defines "n \<equiv> r\<lparr>vr_state := s, vr_version := v\<rparr>"
  defines "rows' \<equiv> map (\<lambda>x. if vr_id x = vr_id r then n else x) rows"
  shows "table_save rows n (vr_version r) = Inr rows'" "ok_table rows'"
    "table_load rows' (vr_id r) = Some n" "j \<noteq> vr_id r \<Longrightarrow> table_load rows' j = table_load rows j"
proof -
  have r: "r \<in> set rows" "\<And>x. x \<in> set rows \<Longrightarrow> vr_id x = vr_id r \<Longrightarrow> x = r"
    using assms(1,2) by (auto simp: table_load_Some ok_table_def distinct_map inj_on_def)
  have hit: "(vr_id x = vr_id r \<and> vr_version x = vr_version r) = (x = r)" if "x \<in> set rows" for x
    using that r by auto
  have "filter (\<lambda>x. vr_id x = vr_id r \<and> vr_version x = vr_version r) rows = filter (\<lambda>x. x = r) rows"
    using hit by (intro filter_cong) auto
  moreover have "length (filter (\<lambda>x. x = r) rows) = 1"
  proof -
    have "distinct rows" using assms(1) by (simp add: ok_table_def distinct_map)
    then show ?thesis using r(1) by (induction rows) (auto simp: filter_empty_conv)
  qed
  moreover have "map (\<lambda>x. if vr_id x = vr_id r \<and> vr_version x = vr_version r
      then x\<lparr>vr_state := s, vr_version := v\<rparr> else x) rows = rows'"
    unfolding rows'_def n_def using r by (intro map_cong) auto
  ultimately show "table_save rows n (vr_version r) = Inr rows'"
    by (simp add: table_save_def n_def cong: if_cong)
  have ids: "map vr_id rows' = map vr_id rows" by (simp add: rows'_def n_def)
  then show ok: "ok_table rows'" using assms(1) by (simp add: ok_table_def del: map_map)
  have "n \<in> set rows'" using r(1) by (auto simp: rows'_def image_iff)
  then show "table_load rows' (vr_id r) = Some n" using ok by (simp add: table_load_Some n_def)
  have same: "find_row rows' = find_row rows" if "find_row = List.find (\<lambda>x. vr_id x = j)" "j \<noteq> vr_id r" for find_row
    unfolding that(1) rows'_def using that(2) by (induction rows) (auto simp: n_def)
  show "j \<noteq> vr_id r \<Longrightarrow> table_load rows' j = table_load rows j"
    using same by (simp add: table_load_def)
qed

interpretation table: record_store tableStore ok_table
proof
  fix d :: "'a tableRecord list" and i :: string and r :: "'a tableRecord" and s :: 'a and v :: int
  assume ok: "ok_table d"
  show "vr_id r = i" if "rs_load tableStore d i = Some r"
    using that ok by (simp add: tableStore_def table_load_Some)
  assume "rs_load tableStore d (vr_id r) = Some r"
  then have "table_load d (vr_id r) = Some r" by (simp add: tableStore_def)
  note saved = table_save_ok [OF ok this, where s = s and v = v]
  show "\<exists>d'. rs_save tableStore d (r\<lparr>vr_state := s, vr_version := v\<rparr>) (vr_version r) = Inr d' \<and> ok_table d' \<and>
      rs_load tableStore d' (vr_id r) = Some (r\<lparr>vr_state := s, vr_version := v\<rparr>) \<and>
      (\<forall>j. j \<noteq> vr_id r \<longrightarrow> rs_load tableStore d' j = rs_load tableStore d j)"
    unfolding tableStore_def recordStore.simps using saved by (intro exI conjI allI impI)
qed

end
