(* ===== verification/ExternalAction.thy ===== *)
theory ExternalAction
  imports StateMachine
begin

text \<open>
  \<open>src/src/domain/external-action.ts\<close>: durable external effects, their state machine and the check
  made again when an effect is about to run.
\<close>

datatype outboxEventState = Obe_pending | Obe_dispatched | Obe_completed | Obe_cancelled

datatype externalActionKind = Ext_email_send | Ext_destination_publish | Ext_destination_withdraw
  | Ext_media_purge

datatype externalActionState = Ext_queued | Ext_attempting | Ext_acknowledged | Ext_verified
  | Ext_failed | Ext_outcome_unknown | Ext_cancelled

definition externalActionStates :: "externalActionState list" where
  "externalActionStates = [Ext_queued, Ext_attempting, Ext_acknowledged, Ext_verified, Ext_failed,
     Ext_outcome_unknown, Ext_cancelled]"

fun externalActionTable :: "externalActionState \<Rightarrow> externalActionState list" where
  "externalActionTable Ext_queued = [Ext_attempting, Ext_cancelled]"
| "externalActionTable Ext_attempting = [Ext_acknowledged, Ext_failed, Ext_outcome_unknown, Ext_queued]"
| "externalActionTable Ext_acknowledged = [Ext_verified, Ext_failed]"
| "externalActionTable Ext_verified = []"
| "externalActionTable Ext_failed = [Ext_queued]"
| "externalActionTable Ext_outcome_unknown = [Ext_acknowledged, Ext_verified, Ext_failed]"
| "externalActionTable Ext_cancelled = []"

definition externalActionMachine :: "externalActionState machine" where
  "externalActionMachine = defineMachine externalActionStates externalActionTable"

record executionCheck =
  ec_sourceGeneration :: "int option"
  ec_currentGeneration :: "int option"
  ec_actorStillAuthorized :: bool

definition checkExecution :: "executionCheck \<Rightarrow> decision" where
  "checkExecution c =
     (if ec_sourceGeneration c \<noteq> None \<and> ec_sourceGeneration c \<noteq> ec_currentGeneration c
      then denied ''generation_superseded''
      else need (ec_actorStillAuthorized c) ''actor_revoked'')"

datatype inboxEventState = Inb_received | Inb_processed | Inb_rejected | Inb_ignored

lemma externalActionMachine_wf: "wf_machine externalActionMachine"
  by (simp add: externalActionMachine_def wf_machine_def externalActionStates_def)

lemma checkExecution_Allowed_iff:
  "checkExecution c = Allowed \<longleftrightarrow>
     ec_actorStillAuthorized c \<and>
     (\<forall>g. ec_sourceGeneration c = Some g \<longrightarrow> ec_currentGeneration c = Some g)"
  by (auto simp: checkExecution_def)

text \<open>An effect that has begun is queued again only after it failed or was not taken.\<close>

lemma externalAction_to_queued:
  "check externalActionMachine s Ext_queued = Allowed \<longleftrightarrow> s = Ext_attempting \<or> s = Ext_failed"
  by (cases s) (simp_all add: check_Allowed_iff externalActionMachine_def)

end
