(* ===== verification/Outbox.thy ===== *)
theory Outbox
  imports Json Message ExternalAction Errors
begin

text \<open>
  \<open>src/src/server/jobs/outbox.ts\<close>: delivery of emails through the ledger of external actions. The
  tables are lists of rows. Sending one email takes two transactions with the provider's call between
  them: the claim marks the row \<open>attempting\<close>, the handoff records the answer. Between the two anything
  else can happen to the row, so the model keeps the claims that have not come back, each with the
  row as it was claimed; a worker that crashes never comes back.

  SHA-256 is a parameter \<open>sha\<close>. The gates that look at other tables (whether a sign-in link is still
  current, whether a coverage notice is configured and valid) and the answer of the provider are
  arguments. Rows whose subject is a case message or a search digest go to their own dispatchers
  (\<open>cases/email-dispatch.ts\<close>, \<open>subscriptions/alerts.ts\<close>), which are not part of this theory.
\<close>

record externalActionRow =
  xa_id :: string
  xa_kind :: externalActionKind
  xa_effectKey :: string
  xa_subjectType :: "string option"
  xa_subjectId :: "string option"
  xa_outboxEventId :: "string option"
  xa_payload :: json
  xa_payloadDigest :: string
  xa_secretPayload :: "json option"
  xa_state :: externalActionState
  xa_attempts :: int
  xa_provider :: "string option"
  xa_providerReference :: "string option"
  xa_lastErrorCode :: "string option"
  xa_firstAttemptAt :: "int option"
  xa_lastAttemptAt :: "int option"
  xa_acknowledgedAt :: "int option"
  xa_verifiedAt :: "int option"
  xa_failedAt :: "int option"
  xa_reconciledAt :: "int option"
  xa_version :: int
  xa_createdAt :: int

record messageRow =
  mg_id :: string
  mg_state :: messageState
  mg_version :: int

record messageAttemptRow =
  ma_externalActionId :: string
  ma_attemptNumber :: int
  ma_state :: messageState
  ma_providerReference :: "string option"
  ma_errorCode :: "string option"
  ma_version :: int

record outbox =
  ob_actions :: "externalActionRow list"
  ob_inflight :: "(string \<times> externalActionRow) list"
  ob_calls :: "string list"
  ob_messages :: "messageRow list"
  ob_attempts :: "messageAttemptRow list"

text \<open>The rows an update by identifier reaches.\<close>

definition update_action ::
    "string \<Rightarrow> (externalActionRow \<Rightarrow> externalActionRow) \<Rightarrow> outbox \<Rightarrow> outbox" where
  "update_action i f ob = ob\<lparr>ob_actions := map (\<lambda>r. if xa_id r = i then f r else r) (ob_actions ob)\<rparr>"

definition action_of :: "string \<Rightarrow> outbox \<Rightarrow> externalActionRow option" where
  "action_of i ob = List.find (\<lambda>r. xa_id r = i) (ob_actions ob)"

subsection \<open>Enqueueing\<close>

fun channel_name :: "messageChannel \<Rightarrow> string" where
  "channel_name Chan_email = ''email''" | "channel_name Chan_phone = ''phone''"
| "channel_name Chan_whatsapp = ''whatsapp''" | "channel_name Chan_viber = ''viber''"
| "channel_name Chan_in_app = ''in_app''"

record newOutboxMessage =
  nm_idempotencyKey :: string
  nm_channel :: messageChannel
  nm_recipient :: string
  nm_template :: string
  nm_params :: json
  nm_secretParams :: "json option"
  nm_messageId :: "string option"
  nm_outboxEventId :: "string option"
  nm_subject :: "(string \<times> string) option"

definition subject_type :: "newOutboxMessage \<Rightarrow> string option" where
  "subject_type m = (if truthy (nm_messageId m) then Some ''message'' else map_option fst (nm_subject m))"

definition subject_id :: "newOutboxMessage \<Rightarrow> string option" where
  "subject_id m = (case nm_messageId m of Some i \<Rightarrow> Some i | None \<Rightarrow> map_option snd (nm_subject m))"

definition email_payload :: "(string \<Rightarrow> string) \<Rightarrow> newOutboxMessage \<Rightarrow> json" where
  "email_payload sha m = JObject
     ([(''channel'', JString (channel_name (nm_channel m))), (''recipient'', JString (nm_recipient m)),
       (''template'', JString (nm_template m)), (''params'', nm_params m)] @
      (case nm_secretParams m of None \<Rightarrow> []
       | Some secret \<Rightarrow> [(''secretDigest'', JString (sha (canonicalJson secret)))]))"

definition new_action :: "(string \<Rightarrow> string) \<Rightarrow> newOutboxMessage \<Rightarrow> string \<Rightarrow> int \<Rightarrow> externalActionRow" where
  "new_action sha m newId now =
     \<lparr>xa_id = newId, xa_kind = Ext_email_send, xa_effectKey = nm_idempotencyKey m,
      xa_subjectType = subject_type m, xa_subjectId = subject_id m, xa_outboxEventId = nm_outboxEventId m,
      xa_payload = email_payload sha m, xa_payloadDigest = sha (canonicalJson (email_payload sha m)),
      xa_secretPayload = nm_secretParams m, xa_state = Ext_queued, xa_attempts = 0, xa_provider = None,
      xa_providerReference = None, xa_lastErrorCode = None, xa_firstAttemptAt = None, xa_lastAttemptAt = None,
      xa_acknowledgedAt = None, xa_verifiedAt = None, xa_failedAt = None, xa_reconciledAt = None,
      xa_version = 1, xa_createdAt = now\<rparr>"

text \<open>The identifier and whether the row was created; the job of the queue carries nothing else.\<close>

definition enqueueMessage ::
    "(string \<Rightarrow> string) \<Rightarrow> newOutboxMessage \<Rightarrow> string \<Rightarrow> int \<Rightarrow> outbox \<Rightarrow> (thrown + string \<times> bool) \<times> outbox" where
  "enqueueMessage sha m newId now ob =
     (if truthy (nm_messageId m) \<and> nm_subject m \<noteq> None
      then (Inl (ThrownApp (AppError Err_idempotency_key_reused no_options)), ob)
      else case List.find (\<lambda>r. xa_effectKey r = nm_idempotencyKey m) (ob_actions ob) of
          None \<Rightarrow>
            if newId \<in> xa_id ` set (ob_actions ob) then (Inl (ThrownOther ''unique_violation''), ob)
            else (Inr (newId, True), ob\<lparr>ob_actions := ob_actions ob @ [new_action sha m newId now]\<rparr>)
        | Some r \<Rightarrow>
            if xa_kind r \<noteq> Ext_email_send \<or> xa_subjectType r \<noteq> subject_type m \<or> xa_subjectId r \<noteq> subject_id m
               \<or> xa_outboxEventId r \<noteq> nm_outboxEventId m
               \<or> xa_payloadDigest r \<noteq> sha (canonicalJson (email_payload sha m))
               \<or> canonicalJson (xa_payload r) \<noteq> canonicalJson (email_payload sha m)
            then (Inl (ThrownApp (AppError Err_idempotency_key_reused no_options)), ob)
            else (Inr (xa_id r, False), ob))"

subsection \<open>Claiming\<close>

definition emailLinkTemplate :: string where "emailLinkTemplate = ''auth.email_link''"
definition emailLinkSubject :: string where "emailLinkSubject = ''email_sign_in_token''"
definition caseEmailTemplate :: string where "caseEmailTemplate = ''case.reviewed-email.v1''"
definition alertTemplate :: string where "alertTemplate = ''search_alerts.digest.v1''"
definition alertSubjectType :: string where "alertSubjectType = ''search_alert_digest''"
definition inquiryCoverageNoticeTemplate :: string where
  "inquiryCoverageNoticeTemplate = ''inquiry.coverage-notice.v1''"
definition inquiryCoverageNoticeSubject :: string where
  "inquiryCoverageNoticeSubject = ''inquiry_coverage_notice''"

record gates =
  gt_credentialCurrent :: bool
  gt_noticeConfigured :: bool
  gt_noticeValid :: bool

definition template_is :: "externalActionRow \<Rightarrow> string \<Rightarrow> bool" where
  "template_is r t = (json_get (xa_payload r) ''template'' = JString t)"

definition credential_mail :: "externalActionRow \<Rightarrow> bool" where
  "credential_mail r = (template_is r emailLinkTemplate \<or> xa_subjectType r = Some emailLinkSubject)"

definition inquiry_notice :: "externalActionRow \<Rightarrow> bool" where
  "inquiry_notice r =
     (template_is r inquiryCoverageNoticeTemplate \<or> xa_subjectType r = Some inquiryCoverageNoticeSubject)"

definition secret_changed :: "(string \<Rightarrow> string) \<Rightarrow> externalActionRow \<Rightarrow> bool" where
  "secret_changed sha r =
     (json_get (xa_payload r) ''secretDigest'' \<noteq> JUndefined \<and>
      (case xa_secretPayload r of None \<Rightarrow> True
       | Some s \<Rightarrow> \<not> json_truthy s \<or>
           json_get (xa_payload r) ''secretDigest'' \<noteq> JString (sha (canonicalJson s))))"

definition cancel_row :: "string \<Rightarrow> externalActionRow \<Rightarrow> externalActionRow" where
  "cancel_row code r = r\<lparr>xa_state := Ext_cancelled, xa_lastErrorCode := Some code, xa_secretPayload := None,
     xa_version := xa_version r + 1\<rparr>"

text \<open>The code of a refused claim, when there is one.\<close>

definition refusal :: "(string \<Rightarrow> string) \<Rightarrow> gates \<Rightarrow> externalActionRow \<Rightarrow> string option" where
  "refusal sha g r =
     (let invalidCredential = (credential_mail r \<and> \<not> gt_credentialCurrent g);
          invalidNotice = (inquiry_notice r \<and> \<not> gt_noticeValid g);
          guarded = (template_is r alertTemplate \<or> template_is r caseEmailTemplate);
          secretChanged = secret_changed sha r
      in if guarded \<or> invalidNotice \<or> invalidCredential \<or> secretChanged
            \<or> xa_payloadDigest r \<noteq> sha (canonicalJson (xa_payload r))
         then Some (if invalidCredential then ''auth_email_link_ineligible''
           else if invalidNotice then ''inquiry_notice_guard_failed''
           else if guarded then ''guarded_template_subject_mismatch''
           else if secretChanged then ''secret_digest_mismatch'' else ''payload_digest_mismatch'')
         else None)"

definition attempt_row :: "string \<Rightarrow> int \<Rightarrow> externalActionRow \<Rightarrow> externalActionRow" where
  "attempt_row provider now r =
     r\<lparr>xa_state := Ext_attempting, xa_attempts := xa_attempts r + 1, xa_provider := Some provider,
       xa_firstAttemptAt := Some (the_or now (xa_firstAttemptAt r)), xa_lastAttemptAt := Some now,
       xa_secretPayload := None, xa_version := xa_version r + 1\<rparr>"

definition window_expired :: "int \<Rightarrow> externalActionRow \<Rightarrow> bool" where
  "window_expired now r = (case xa_firstAttemptAt r of None \<Rightarrow> False
     | Some t \<Rightarrow> providerIdempotencyWindowMs \<le> now - t)"

text \<open>The row after the first transaction, and whether it was claimed.\<close>

definition claim_row ::
    "(string \<Rightarrow> string) \<Rightarrow> gates \<Rightarrow> string \<Rightarrow> int \<Rightarrow> externalActionRow \<Rightarrow> externalActionRow \<times> bool" where
  "claim_row sha g provider now r =
     (if xa_state r \<noteq> Ext_queued then (r, False)
      else if window_expired now r then (cancel_row ''retry_window_expired'' r, False)
      else if inquiry_notice r \<and> \<not> gt_noticeConfigured g then (r, False)
      else case refusal sha g r of
          Some code \<Rightarrow> (cancel_row code r, False)
        | None \<Rightarrow> (attempt_row provider now r, True))"

text \<open>Rows with a dispatcher of their own.\<close>

definition delegated :: "externalActionRow \<Rightarrow> bool" where
  "delegated r = (xa_subjectType r = Some alertSubjectType \<or> xa_subjectType r = Some ''message'')"

definition claimMessage ::
    "(string \<Rightarrow> string) \<Rightarrow> gates \<Rightarrow> string \<Rightarrow> int \<Rightarrow> string \<Rightarrow> outbox \<Rightarrow> outbox" where
  "claimMessage sha g provider now i ob = (case action_of i ob of
       None \<Rightarrow> ob
     | Some r \<Rightarrow> if delegated r then ob
         else let (r', claimed) = claim_row sha g provider now r
           in (update_action i (\<lambda>_. r') ob)\<lparr>ob_inflight := (if claimed then [(i, r)] else []) @ ob_inflight ob\<rparr>)"

subsection \<open>The answer of the provider\<close>

datatype providerAnswer = Answer_accepted string | Answer_rejected string bool | Answer_thrown

text \<open>\<open>finish\<close>: the update applies while the row is still \<open>attempting\<close>.\<close>

definition finish :: "(externalActionRow \<Rightarrow> externalActionRow) \<Rightarrow> externalActionState \<Rightarrow> externalActionRow \<Rightarrow> externalActionRow" where
  "finish vals st r =
     (if xa_state r = Ext_attempting then (vals r)\<lparr>xa_state := st, xa_version := xa_version r + 1\<rparr> else r)"

definition answer_row :: "externalActionRow \<Rightarrow> providerAnswer \<Rightarrow> int \<Rightarrow> externalActionRow \<Rightarrow> externalActionRow" where
  "answer_row claimed answer now r = (case answer of
       Answer_thrown \<Rightarrow>
         finish (\<lambda>r. r\<lparr>xa_lastErrorCode := Some ''provider_unreachable''\<rparr>) Ext_outcome_unknown r
     | Answer_accepted reference \<Rightarrow>
         finish (\<lambda>r. r\<lparr>xa_providerReference := Some reference, xa_acknowledgedAt := Some now,
           xa_lastErrorCode := None\<rparr>) Ext_acknowledged r
     | Answer_rejected code retryable \<Rightarrow>
         if retryable \<and> xa_attempts claimed + 1 < maxDeliveryAttempts
         then finish (\<lambda>r. r\<lparr>xa_lastErrorCode := Some code, xa_secretPayload := xa_secretPayload claimed\<rparr>) Ext_queued r
         else finish (\<lambda>r. r\<lparr>xa_lastErrorCode := Some code, xa_failedAt := Some now\<rparr>) Ext_failed r)"

text \<open>
  The second transaction of a claim that comes back. For a sign-in email the row is read and its link
  checked again before the provider is called.
\<close>

definition handoff_row ::
    "gates \<Rightarrow> externalActionRow \<Rightarrow> providerAnswer \<Rightarrow> int \<Rightarrow> externalActionRow \<Rightarrow> externalActionRow \<times> bool" where
  "handoff_row g claimed answer now r =
     (if \<not> credential_mail claimed then (answer_row claimed answer now r, True)
      else if xa_state r \<noteq> Ext_attempting \<or> xa_version r \<noteq> xa_version claimed + 1 then (r, False)
      else if xa_payloadDigest r \<noteq> xa_payloadDigest claimed \<or> xa_effectKey r \<noteq> xa_effectKey claimed
              \<or> \<not> gt_credentialCurrent g
      then (finish (\<lambda>r. r\<lparr>xa_lastErrorCode := Some ''auth_email_link_ineligible'', xa_secretPayload := None\<rparr>)
              Ext_cancelled r, False)
      else (answer_row claimed answer now r, True))"

definition handoffMessage :: "gates \<Rightarrow> string \<Rightarrow> providerAnswer \<Rightarrow> int \<Rightarrow> outbox \<Rightarrow> outbox" where
  "handoffMessage g i answer now ob = (case map_of (ob_inflight ob) i of
       None \<Rightarrow> ob
     | Some claimed \<Rightarrow> (case action_of i ob of
         None \<Rightarrow> ob
       | Some r \<Rightarrow> let (r', called) = handoff_row g claimed answer now r
           in (update_action i (\<lambda>_. r') ob)\<lparr>ob_inflight := filter (\<lambda>(j, _). j \<noteq> i) (ob_inflight ob),
                ob_calls := ob_calls ob @ (if called then [i] else [])\<rparr>))"

text \<open>A dispatch with nothing in between: the claim and, when it was obtained, the handoff.\<close>

definition dispatchMessage ::
    "(string \<Rightarrow> string) \<Rightarrow> bool \<Rightarrow> gates \<Rightarrow> string \<Rightarrow> providerAnswer \<Rightarrow> int \<Rightarrow> string \<Rightarrow> outbox \<Rightarrow> outbox" where
  "dispatchMessage sha recoveryOpen g provider answer now i ob =
     (if \<not> recoveryOpen then ob
      else let claimed = claimMessage sha g provider now i ob
        in if length (ob_inflight claimed) = length (ob_inflight ob) then claimed
           else handoffMessage g i answer now claimed)"

subsection \<open>Reports and reconciliation\<close>

definition synced_state :: "externalActionState \<Rightarrow> string option \<Rightarrow> messageState" where
  "synced_state st code =
     (if st = Ext_verified then Msg_delivered
      else if st = Ext_acknowledged then Msg_provider_accepted
      else if code = Some ''email.bounced'' then Msg_bounced else Msg_failed)"

definition syncMessageOutcome :: "externalActionRow \<Rightarrow> string option \<Rightarrow> outbox \<Rightarrow> outbox" where
  "syncMessageOutcome row code ob =
     (if xa_subjectType row \<noteq> Some ''message'' \<or> \<not> truthy (xa_subjectId row) then ob
      else let st = synced_state (xa_state row) code
        in ob\<lparr>ob_messages := map (\<lambda>m. if Some (mg_id m) = xa_subjectId row
               then m\<lparr>mg_state := st, mg_version := mg_version m + 1\<rparr> else m) (ob_messages ob),
             ob_attempts := map (\<lambda>a. if ma_externalActionId a = xa_id row \<and> ma_attemptNumber a = xa_attempts row
               then a\<lparr>ma_state := st, ma_providerReference := xa_providerReference row, ma_errorCode := code,
                 ma_version := ma_version a + 1\<rparr> else a) (ob_attempts ob)\<rparr>)"

record deliveryReport =
  dr_provider :: string
  dr_providerMessageId :: string
  dr_delivered :: bool
  dr_code :: "string option"
  dr_at :: int

definition reported :: "deliveryReport \<Rightarrow> externalActionRow \<Rightarrow> bool" where
  "reported rep r =
     (xa_provider r = Some (dr_provider rep) \<and> xa_providerReference r = Some (dr_providerMessageId rep) \<and>
      xa_state r \<in> (if dr_delivered rep then {Ext_acknowledged, Ext_outcome_unknown}
        else {Ext_acknowledged, Ext_outcome_unknown, Ext_verified}))"

definition report_row :: "deliveryReport \<Rightarrow> externalActionRow \<Rightarrow> externalActionRow" where
  "report_row rep r =
     (if dr_delivered rep
      then r\<lparr>xa_state := Ext_verified, xa_verifiedAt := Some (dr_at rep), xa_version := xa_version r + 1\<rparr>
      else r\<lparr>xa_state := Ext_failed, xa_failedAt := Some (dr_at rep),
        xa_lastErrorCode := Some (the_or ''delivery_failed'' (dr_code rep)), xa_version := xa_version r + 1\<rparr>)"

definition recordDeliveryReport :: "deliveryReport \<Rightarrow> outbox \<Rightarrow> bool \<times> outbox" where
  "recordDeliveryReport rep ob =
     (let rows = map (report_row rep) (filter (reported rep) (ob_actions ob));
          ob' = ob\<lparr>ob_actions := map (\<lambda>r. if reported rep r then report_row rep r else r) (ob_actions ob)\<rparr>
      in (0 < length rows, fold (\<lambda>row. syncMessageOutcome row (dr_code rep)) rows ob'))"

datatype finding = Found_acknowledged "string option" | Found_verified "string option" | Found_failed string

text \<open>An optional provider identifier that is absent leaves its column as it is.\<close>

definition finding_row :: "finding \<Rightarrow> int \<Rightarrow> externalActionRow \<Rightarrow> externalActionRow" where
  "finding_row f now r = (case f of
       Found_failed code \<Rightarrow> r\<lparr>xa_state := Ext_failed, xa_failedAt := Some now, xa_lastErrorCode := Some code,
         xa_reconciledAt := Some now, xa_version := xa_version r + 1\<rparr>
     | Found_verified ref \<Rightarrow> r\<lparr>xa_state := Ext_verified, xa_verifiedAt := Some now,
         xa_providerReference := (if ref = None then xa_providerReference r else ref),
         xa_reconciledAt := Some now, xa_version := xa_version r + 1\<rparr>
     | Found_acknowledged ref \<Rightarrow> r\<lparr>xa_state := Ext_acknowledged, xa_acknowledgedAt := Some now,
         xa_providerReference := (if ref = None then xa_providerReference r else ref),
         xa_reconciledAt := Some now, xa_version := xa_version r + 1\<rparr>)"

definition unresolved :: "string \<Rightarrow> externalActionRow \<Rightarrow> bool" where
  "unresolved i r = (xa_id r = i \<and> xa_state r \<in> {Ext_attempting, Ext_outcome_unknown})"

definition reconcileMessage :: "string \<Rightarrow> finding \<Rightarrow> int \<Rightarrow> outbox \<Rightarrow> bool \<times> outbox" where
  "reconcileMessage i f now ob =
     (let rows = map (finding_row f now) (filter (unresolved i) (ob_actions ob));
          ob' = ob\<lparr>ob_actions := map (\<lambda>r. if unresolved i r then finding_row f now r else r) (ob_actions ob)\<rparr>
      in (length rows = 1, fold (\<lambda>row. syncMessageOutcome row
            (case f of Found_failed code \<Rightarrow> Some code | _ \<Rightarrow> None)) rows ob'))"

subsection \<open>Sweeping\<close>

text \<open>The queued emails the worker's sweep takes, oldest first. A database sort keeps equal times in any order;
  here it is the order of the table.\<close>

definition sweep_ids :: "bool \<Rightarrow> bool \<Rightarrow> nat \<Rightarrow> outbox \<Rightarrow> string list" where
  "sweep_ids caseEmail notices limit ob =
     map xa_id (take limit (sort_key xa_createdAt (filter (\<lambda>r.
       xa_kind r = Ext_email_send \<and> xa_state r = Ext_queued \<and>
       (caseEmail \<or> xa_subjectType r \<noteq> Some ''message'') \<and> (notices \<or> \<not> inquiry_notice r)) (ob_actions ob))))"

definition dispatchQueued ::
    "(string \<Rightarrow> string) \<Rightarrow> bool \<Rightarrow> bool \<Rightarrow> nat \<Rightarrow> (string \<Rightarrow> gates) \<Rightarrow> string \<Rightarrow> (string \<Rightarrow> providerAnswer) \<Rightarrow> int
      \<Rightarrow> outbox \<Rightarrow> nat \<times> outbox" where
  "dispatchQueued sha recoveryOpen caseEmail limit g provider answer now ob =
     (let ids = sweep_ids caseEmail (gt_noticeConfigured (g [])) limit ob
      in (length ids, fold (\<lambda>i. dispatchMessage sha recoveryOpen (g i) provider (answer i) now i) ids ob))"

subsection \<open>Everything in any order\<close>

inductive outbox_step :: "(string \<Rightarrow> string) \<Rightarrow> outbox \<Rightarrow> outbox \<Rightarrow> bool" for sha where
  step_enqueue: "outbox_step sha ob (snd (enqueueMessage sha m newId now ob))"
| step_claim: "outbox_step sha ob (claimMessage sha g provider now i ob)"
| step_handoff: "outbox_step sha ob (handoffMessage g i answer now ob)"
| step_report: "outbox_step sha ob (snd (recordDeliveryReport rep ob))"
| step_reconcile: "outbox_step sha ob (snd (reconcileMessage i f now ob))"

abbreviation outbox_steps :: "(string \<Rightarrow> string) \<Rightarrow> outbox \<Rightarrow> outbox \<Rightarrow> bool" where
  "outbox_steps sha \<equiv> rtranclp (outbox_step sha)"

text \<open>What holds of one row, given the claims out and the calls made.\<close>

definition row_ok :: "(string \<times> externalActionRow) list \<Rightarrow> string list \<Rightarrow> externalActionRow \<Rightarrow> bool" where
  "row_ok infl calls r \<longleftrightarrow>
     0 \<le> xa_attempts r \<and> xa_attempts r \<le> maxDeliveryAttempts \<and>
     (xa_state r = Ext_queued \<longrightarrow> xa_attempts r < maxDeliveryAttempts \<and> xa_id r \<notin> fst ` set infl) \<and>
     (\<forall>c. (xa_id r, c) \<in> set infl \<longrightarrow> xa_state r = Ext_attempting \<longrightarrow> xa_attempts r = xa_attempts c + 1) \<and>
     int (count_list calls (xa_id r)) + (if xa_id r \<in> fst ` set infl then 1 else 0) \<le> xa_attempts r"

definition outbox_ok :: "outbox \<Rightarrow> bool" where
  "outbox_ok ob \<longleftrightarrow> distinct (map xa_id (ob_actions ob)) \<and> distinct (map fst (ob_inflight ob)) \<and>
     fst ` set (ob_inflight ob) \<union> set (ob_calls ob) \<subseteq> xa_id ` set (ob_actions ob) \<and>
     list_all (row_ok (ob_inflight ob) (ob_calls ob)) (ob_actions ob)"

lemma action_of_Some: "outbox_ok ob \<Longrightarrow> action_of i ob = Some r \<longleftrightarrow> r \<in> set (ob_actions ob) \<and> xa_id r = i"
proof -
  have "distinct (map xa_id rows) \<Longrightarrow> List.find (\<lambda>x. xa_id x = i) rows = Some r \<longleftrightarrow> r \<in> set rows \<and> xa_id r = i" for rows
    by (induction rows) (auto simp: rev_image_eqI)
  then show "outbox_ok ob \<Longrightarrow> ?thesis" by (simp add: action_of_def outbox_ok_def)
qed

lemma outbox_ok_row: "outbox_ok ob \<Longrightarrow> action_of i ob = Some r \<Longrightarrow> row_ok (ob_inflight ob) (ob_calls ob) r \<and> xa_id r = i"
  by (frule action_of_Some [of _ i r]) (auto simp: outbox_ok_def list_all_iff)

text \<open>An update of the rows that leaves the claims and the calls alone.\<close>

lemma outbox_ok_rows:
  assumes "outbox_ok ob" "ob_actions ob' = map f (ob_actions ob)" "ob_inflight ob' = ob_inflight ob"
    "ob_calls ob' = ob_calls ob" "\<And>r. xa_id (f r) = xa_id r"
    and rows: "\<And>r. r \<in> set (ob_actions ob) \<Longrightarrow> row_ok (ob_inflight ob) (ob_calls ob) r \<Longrightarrow>
      row_ok (ob_inflight ob) (ob_calls ob) (f r)"
  shows "outbox_ok ob'"
proof -
  have "map xa_id (map f (ob_actions ob)) = map xa_id (ob_actions ob)" using assms(5) by simp
  moreover have "xa_id ` set (map f (ob_actions ob)) = xa_id ` set (ob_actions ob)"
    using assms(5) by (simp add: image_image)
  ultimately show ?thesis
    using assms(1-4) rows unfolding outbox_ok_def assms(2-4) by (simp add: list_all_iff del: map_map)
qed

lemma sync_unchanged [simp]:
  "ob_actions (syncMessageOutcome row code ob) = ob_actions ob"
  "ob_inflight (syncMessageOutcome row code ob) = ob_inflight ob"
  "ob_calls (syncMessageOutcome row code ob) = ob_calls ob"
  by (simp_all add: syncMessageOutcome_def Let_def)

lemma fold_sync_unchanged [simp]:
  "ob_actions (fold (\<lambda>row. syncMessageOutcome row code) rows ob) = ob_actions ob"
  "ob_inflight (fold (\<lambda>row. syncMessageOutcome row code) rows ob) = ob_inflight ob"
  "ob_calls (fold (\<lambda>row. syncMessageOutcome row code) rows ob) = ob_calls ob"
  by (induction rows arbitrary: ob) simp_all

text \<open>A settled row has no more attempts; moving a row among the settled states keeps what holds of it.\<close>

definition settled :: "externalActionRow \<Rightarrow> bool" where
  "settled r \<longleftrightarrow> xa_state r \<notin> {Ext_queued, Ext_attempting}"

lemma row_ok_settled:
  assumes "row_ok infl calls r" "xa_id r' = xa_id r" "xa_attempts r' = xa_attempts r" "settled r'"
  shows "row_ok infl calls r'"
  using assms by (simp add: row_ok_def settled_def)

lemma report_row_simps [simp]:
  "xa_id (report_row rep r) = xa_id r" "xa_attempts (report_row rep r) = xa_attempts r"
  "settled (report_row rep r)" "xa_effectKey (report_row rep r) = xa_effectKey r"
  by (simp_all add: report_row_def settled_def)

lemma finding_row_simps [simp]:
  "xa_id (finding_row f now r) = xa_id r" "xa_attempts (finding_row f now r) = xa_attempts r"
  "settled (finding_row f now r)" "xa_effectKey (finding_row f now r) = xa_effectKey r"
  by (simp_all add: finding_row_def settled_def split: finding.splits)

lemma report_ok: "outbox_ok ob \<Longrightarrow> outbox_ok (snd (recordDeliveryReport rep ob))"
  by (rule outbox_ok_rows [where f = "\<lambda>r. if reported rep r then report_row rep r else r"])
    (auto simp: recordDeliveryReport_def Let_def intro: row_ok_settled)

lemma reconcile_message_ok: "outbox_ok ob \<Longrightarrow> outbox_ok (snd (reconcileMessage i f now ob))"
  by (rule outbox_ok_rows [where f = "\<lambda>r. if unresolved i r then finding_row f now r else r"])
    (auto simp: reconcileMessage_def Let_def intro: row_ok_settled)

lemma enqueue_ok: "outbox_ok ob \<Longrightarrow> outbox_ok (snd (enqueueMessage sha m newId now ob))"
proof -
  assume ok: "outbox_ok ob"
  have "row_ok (ob_inflight ob) (ob_calls ob) (new_action sha m newId now)"
    if "newId \<notin> xa_id ` set (ob_actions ob)"
  proof -
    have "newId \<notin> fst ` set (ob_inflight ob)" "newId \<notin> set (ob_calls ob)"
      using ok that by (auto simp: outbox_ok_def)
    then show ?thesis by (simp add: row_ok_def new_action_def maxDeliveryAttempts_def count_list_0_iff image_iff)
  qed
  then have "outbox_ok (ob\<lparr>ob_actions := ob_actions ob @ [new_action sha m newId now]\<rparr>)"
    if "newId \<notin> xa_id ` set (ob_actions ob)"
    using ok that by (auto simp: outbox_ok_def) (simp_all add: new_action_def)
  then show ?thesis using ok by (simp add: enqueueMessage_def split: option.splits)
qed

lemma cancel_row_simps [simp]:
  "xa_id (cancel_row code r) = xa_id r" "xa_attempts (cancel_row code r) = xa_attempts r" "settled (cancel_row code r)"
  "xa_state (cancel_row code r) = Ext_cancelled"
  by (simp_all add: cancel_row_def settled_def)

lemma attempt_row_simps [simp]:
  "xa_id (attempt_row p now r) = xa_id r" "xa_attempts (attempt_row p now r) = xa_attempts r + 1"
  "xa_state (attempt_row p now r) = Ext_attempting"
  by (simp_all add: attempt_row_def)

lemma claim_row_cases:
  obtains (same) "claim_row sha g p now r = (r, False)"
  | (cancelled) code where "xa_state r = Ext_queued" "claim_row sha g p now r = (cancel_row code r, False)"
  | (claimed) "xa_state r = Ext_queued" "claim_row sha g p now r = (attempt_row p now r, True)"
proof (cases "xa_state r = Ext_queued")
  case True
  then have "claim_row sha g p now r \<in> {(r, False), (attempt_row p now r, True)} \<or>
      (\<exists>code. claim_row sha g p now r = (cancel_row code r, False))"
    by (auto simp: claim_row_def split: option.splits)
  then show thesis using same cancelled claimed True by blast
qed (use same in \<open>simp add: claim_row_def\<close>)

lemma row_ok_claims:
  assumes "row_ok infl calls r" "xa_id r \<noteq> i"
  shows "row_ok ((i, c) # infl) calls r" "row_ok (filter (\<lambda>(j, _). j \<noteq> i) infl) calls r"
    "row_ok (filter (\<lambda>(j, _). j \<noteq> i) infl) (calls @ [i]) r"
proof -
  have "xa_id r \<in> fst ` set (filter (\<lambda>(j, _). j \<noteq> i) infl) \<longleftrightarrow> xa_id r \<in> fst ` set infl"
    using assms(2) by force
  then show "row_ok (filter (\<lambda>(j, _). j \<noteq> i) infl) calls r" "row_ok (filter (\<lambda>(j, _). j \<noteq> i) infl) (calls @ [i]) r"
    using assms by (auto simp: row_ok_def)
  show "row_ok ((i, c) # infl) calls r" using assms by (auto simp: row_ok_def)
qed

text \<open>Replacing one row, with the claims and calls that go with it.\<close>

lemma outbox_ok_replace:
  assumes ok: "outbox_ok ob" and r: "action_of i ob = Some r" and id: "xa_id r' = i"
    and acts: "ob_actions ob' = map (\<lambda>x. if xa_id x = i then r' else x) (ob_actions ob)"
    and infl: "distinct (map fst (ob_inflight ob'))"
      "fst ` set (ob_inflight ob') \<subseteq> insert i (fst ` set (ob_inflight ob))"
    and calls: "set (ob_calls ob') \<subseteq> insert i (set (ob_calls ob))"
    and row: "row_ok (ob_inflight ob') (ob_calls ob') r'"
    and rows: "\<And>x. xa_id x \<noteq> i \<Longrightarrow> row_ok (ob_inflight ob) (ob_calls ob) x \<Longrightarrow> row_ok (ob_inflight ob') (ob_calls ob') x"
  shows "outbox_ok ob'"
proof -
  have ids: "map xa_id (ob_actions ob') = map xa_id (ob_actions ob)" unfolding acts using id by simp
  then have set_ids: "xa_id ` set (ob_actions ob') = xa_id ` set (ob_actions ob)" by (metis set_map)
  have i: "i \<in> xa_id ` set (ob_actions ob)" using r action_of_Some [OF ok] by auto
  have "list_all (row_ok (ob_inflight ob') (ob_calls ob')) (ob_actions ob')"
    using ok row rows unfolding acts by (auto simp: outbox_ok_def list_all_iff)
  then show ?thesis
    using ok infl calls i unfolding outbox_ok_def ids set_ids by blast
qed

lemma claim_ok:
  assumes "outbox_ok ob"
  shows "outbox_ok (claimMessage sha g p now i ob)"
proof (cases "action_of i ob")
  case None
  then show ?thesis using assms by (simp add: claimMessage_def)
next
  case (Some r)
  have r: "row_ok (ob_inflight ob) (ob_calls ob) r" "xa_id r = i"
    using outbox_ok_row [OF assms Some] by auto
  have dist: "distinct (map fst (ob_inflight ob))" using assms by (simp add: outbox_ok_def)
  show ?thesis
  proof (cases "delegated r")
    case True
    then show ?thesis using assms Some by (simp add: claimMessage_def)
  next
    case False
    note eval = claimMessage_def update_action_def Some False
    show ?thesis
    proof (cases rule: claim_row_cases [of sha g p now r])
      case same
      show ?thesis
        by (rule outbox_ok_replace [OF assms Some, where r' = r])
          (use same r dist in \<open>simp_all add: eval subset_insertI\<close>)
    next
      case (cancelled code)
      show ?thesis
        by (rule outbox_ok_replace [OF assms Some, where r' = "cancel_row code r"])
          (use cancelled r dist in \<open>simp_all add: eval subset_insertI row_ok_settled [OF r(1)]\<close>)
    next
      case claimed
      have fresh: "i \<notin> fst ` set (ob_inflight ob)" using r claimed(1) by (simp add: row_ok_def)
      have "row_ok ((i, r) # ob_inflight ob) (ob_calls ob) (attempt_row p now r)"
        using r claimed(1) fresh by (auto simp: row_ok_def image_iff)
      then show ?thesis
        by (intro outbox_ok_replace [OF assms Some, where r' = "attempt_row p now r"])
          (use claimed r dist fresh in \<open>simp_all add: eval subset_insertI row_ok_claims\<close>)
    qed
  qed
qed

text \<open>What a handoff does to a row: nothing, or one of the answers to an attempt.\<close>

lemma handoff_row_cases:
  assumes "handoff_row g c answer now r = (r', called)"
  obtains (same) "r' = r"
  | (answered) "xa_state r = Ext_attempting" "xa_id r' = xa_id r" "xa_attempts r' = xa_attempts r"
      "xa_state r' \<in> {Ext_outcome_unknown, Ext_acknowledged, Ext_failed}"
  | (ineligible) "xa_state r = Ext_attempting" "xa_id r' = xa_id r" "xa_attempts r' = xa_attempts r"
      "xa_state r' = Ext_cancelled" "credential_mail c"
  | (requeued) "xa_state r = Ext_attempting" "xa_id r' = xa_id r" "xa_attempts r' = xa_attempts r"
      "xa_state r' = Ext_queued" "xa_attempts c + 1 < maxDeliveryAttempts"
proof (cases "xa_state r = Ext_attempting")
  case True
  have "r' = r \<or> r' = answer_row c answer now r \<or> (credential_mail c \<and> xa_id r' = xa_id r \<and>
      xa_attempts r' = xa_attempts r \<and> xa_state r' = Ext_cancelled)"
    using assms True by (auto simp: handoff_row_def finish_def split: if_splits)
  then consider "r' = r" | "r' = answer_row c answer now r" | "credential_mail c" "xa_id r' = xa_id r"
      "xa_attempts r' = xa_attempts r" "xa_state r' = Ext_cancelled" by blast
  then show thesis
  proof cases
    case 2
    then show thesis
      using True answered requeued
      by (cases answer) (auto simp: answer_row_def finish_def split: if_splits)
  qed (use same ineligible True in auto)
next
  case False
  then have "answer_row c answer now r = r"
    by (simp add: answer_row_def finish_def split: providerAnswer.splits)
  then show thesis using assms False same by (auto simp: handoff_row_def split: if_splits)
qed

lemma row_ok_handoff:
  assumes "row_ok infl calls r" "xa_id r = i" "i \<in> fst ` set infl" "xa_id r' = i" "xa_attempts r' = xa_attempts r"
    and q: "xa_state r' = Ext_queued \<Longrightarrow> xa_attempts r < maxDeliveryAttempts"
  shows "row_ok (filter (\<lambda>(j, _). j \<noteq> i) infl) (calls @ (if called then [i] else [])) r'"
proof -
  have gone: "i \<notin> fst ` set (filter (\<lambda>(j, _). j \<noteq> i) infl)" "\<And>c. (i, c) \<notin> set (filter (\<lambda>(j, _). j \<noteq> i) infl)"
    by auto
  have "int (count_list calls i) + 1 \<le> xa_attempts r" "0 \<le> xa_attempts r" "xa_attempts r \<le> maxDeliveryAttempts"
    using assms(1-3) by (simp_all add: row_ok_def split: if_splits)
  then show ?thesis
    unfolding row_ok_def assms(4,5) using gone q by (cases called) simp_all
qed

lemma handoff_ok:
  assumes ok: "outbox_ok ob"
  shows "outbox_ok (handoffMessage g i answer now ob)"
proof (cases "map_of (ob_inflight ob) i")
  case None
  then show ?thesis using ok by (simp add: handoffMessage_def)
next
  case (Some c)
  then have c: "(i, c) \<in> set (ob_inflight ob)" by (rule map_of_SomeD)
  then have "i \<in> fst ` set (ob_inflight ob)" by force
  then have "i \<in> xa_id ` set (ob_actions ob)" using ok unfolding outbox_ok_def by blast
  then obtain r where r: "action_of i ob = Some r" using action_of_Some [OF ok] by blast
  have ro: "row_ok (ob_inflight ob) (ob_calls ob) r" "xa_id r = i" using outbox_ok_row [OF ok r] by auto
  have out: "i \<in> fst ` set (ob_inflight ob)" using c by force
  obtain r' called where h: "handoff_row g c answer now r = (r', called)" by fastforce
  let ?infl = "filter (\<lambda>(j, _). j \<noteq> i) (ob_inflight ob)" and ?calls = "ob_calls ob @ (if called then [i] else [])"
  have "xa_state r \<noteq> Ext_queued" using ro out by (auto simp: row_ok_def)
  have requeue: "xa_attempts c + 1 = xa_attempts r" if "xa_state r = Ext_attempting"
    using ro c that by (auto simp: row_ok_def)
  have r': "xa_id r' = i" "xa_attempts r' = xa_attempts r" "xa_state r' = Ext_queued \<Longrightarrow> xa_attempts r < maxDeliveryAttempts"
    using ro(2) \<open>xa_state r \<noteq> Ext_queued\<close> requeue by (cases rule: handoff_row_cases [OF h]; simp)+
  then have "row_ok ?infl ?calls r'" by (intro row_ok_handoff [OF ro out]) auto
  moreover have "distinct (map fst ?infl)" using ok by (simp add: outbox_ok_def distinct_map_filter)
  ultimately show ?thesis
    by (intro outbox_ok_replace [OF ok r, where r' = r'])
      (use Some r h r' in \<open>simp_all add: handoffMessage_def update_action_def row_ok_claims\<close>, auto)
qed

lemma outbox_step_ok:
  assumes "outbox_step sha ob ob'" "outbox_ok ob"
  shows "outbox_ok ob'"
  using assms
  by (induction rule: outbox_step.induct)
    (simp_all add: enqueue_ok claim_ok handoff_ok report_ok reconcile_message_ok)

lemma outbox_steps_ok:
  assumes "outbox_steps sha ob ob'" "outbox_ok ob"
  shows "outbox_ok ob'"
  using assms by (induction rule: rtranclp_induct) (auto intro: outbox_step_ok)

text \<open>The number of calls to the provider for one logical send.\<close>

lemma outbox_calls:
  assumes "outbox_ok ob"
  shows "count_list (ob_calls ob) i \<le> 3"
proof (cases "i \<in> set (ob_calls ob)")
  case True
  then obtain r where "r \<in> set (ob_actions ob)" "xa_id r = i" using assms by (auto simp: outbox_ok_def)
  then have "row_ok (ob_inflight ob) (ob_calls ob) r" "xa_id r = i"
    using assms by (auto simp: outbox_ok_def list_all_iff)
  then show ?thesis by (auto simp: row_ok_def maxDeliveryAttempts_def split: if_splits)
next
  case False
  then show ?thesis by (simp add: count_list_0_iff)
qed

subsection \<open>Settled actions stay settled\<close>

text \<open>An action that left the queue for good and has no claim out is never sent again.\<close>

definition done_with :: "string \<Rightarrow> outbox \<Rightarrow> bool" where
  "done_with i ob \<longleftrightarrow> i \<notin> fst ` set (ob_inflight ob) \<and> (\<exists>r. action_of i ob = Some r \<and> settled r)"

lemma find_map_id:
  assumes "\<And>r. xa_id (f r) = xa_id r"
  shows "List.find (\<lambda>r. xa_id r = i) (map f rows) = map_option f (List.find (\<lambda>r. xa_id r = i) rows)"
  by (induction rows) (simp_all add: assms)

lemma done_with_rows:
  assumes "done_with i ob" "ob_actions ob' = map f (ob_actions ob)" "ob_inflight ob' = ob_inflight ob"
    "\<And>r. xa_id (f r) = xa_id r" "\<And>r. settled r \<Longrightarrow> settled (f r)"
  shows "done_with i ob'"
  using assms by (auto simp: done_with_def action_of_def find_map_id)

lemma find_replace:
  assumes "xa_id r' = j"
  shows "List.find (\<lambda>r. xa_id r = i) (map (\<lambda>x. if xa_id x = j then r' else x) rows) =
    (if i = j then map_option (\<lambda>_. r') (List.find (\<lambda>r. xa_id r = i) rows) else List.find (\<lambda>r. xa_id r = i) rows)"
  using assms by (induction rows) auto

lemma action_of_update:
  assumes "xa_id r' = j"
  shows "action_of i (update_action j (\<lambda>_. r') ob) =
    (if i = j then map_option (\<lambda>_. r') (action_of i ob) else action_of i ob)"
  using find_replace [OF assms] by (simp add: action_of_def update_action_def)

lemma action_of_more [simp]:
  "action_of i (ob\<lparr>ob_inflight := x, ob_calls := y\<rparr>) = action_of i ob" "action_of i (ob\<lparr>ob_inflight := x\<rparr>) = action_of i ob"
  by (simp_all add: action_of_def)

lemma update_action_simps [simp]:
  "ob_inflight (update_action i f ob) = ob_inflight ob" "ob_calls (update_action i f ob) = ob_calls ob"
  by (simp_all add: update_action_def)

lemma claim_done:
  assumes ok: "outbox_ok ob" and d: "done_with i ob"
  shows "done_with i (claimMessage sha g p now j ob) \<and> ob_calls (claimMessage sha g p now j ob) = ob_calls ob"
proof (cases "\<exists>r. action_of j ob = Some r \<and> \<not> delegated r")
  case False
  then show ?thesis using d by (auto simp: claimMessage_def split: option.splits)
next
  case True
  then obtain r where r: "action_of j ob = Some r" "\<not> delegated r" by blast
  have id: "xa_id r = j" using outbox_ok_row [OF ok r(1)] by simp
  show ?thesis
  proof (cases "i = j")
    case True
    then have "xa_state r \<noteq> Ext_queued" using d r(1) by (auto simp: done_with_def settled_def)
    then have "claim_row sha g p now r = (r, False)" by (simp add: claim_row_def)
    then show ?thesis
      using d r id True by (simp add: claimMessage_def done_with_def action_of_update)
  next
    case False
    then show ?thesis
      using d r id
      by (cases rule: claim_row_cases [of sha g p now r])
        (simp_all add: claimMessage_def done_with_def action_of_update)
  qed
qed

lemma handoff_done:
  assumes ok: "outbox_ok ob" and d: "done_with i ob"
  shows "done_with i (handoffMessage g j answer now ob) \<and>
    count_list (ob_calls (handoffMessage g j answer now ob)) i = count_list (ob_calls ob) i"
proof (cases "\<exists>c r. map_of (ob_inflight ob) j = Some c \<and> action_of j ob = Some r")
  case False
  then show ?thesis using d by (auto simp: handoffMessage_def split: option.splits)
next
  case True
  then obtain c r where c: "map_of (ob_inflight ob) j = Some c" and r: "action_of j ob = Some r" by blast
  have "(j, c) \<in> set (ob_inflight ob)" using c by (rule map_of_SomeD)
  then have ij: "i \<noteq> j" using d by (force simp: done_with_def)
  obtain r' called where h: "handoff_row g c answer now r = (r', called)" by fastforce
  have "xa_id r' = j" using outbox_ok_row [OF ok r] by (cases rule: handoff_row_cases [OF h]) auto
  then show ?thesis
    using d c r h ij by (auto simp: handoffMessage_def done_with_def action_of_update)
qed

lemma step_done:
  assumes "outbox_step sha ob ob'" "outbox_ok ob" "done_with i ob"
  shows "done_with i ob' \<and> count_list (ob_calls ob') i = count_list (ob_calls ob) i"
  using assms(1)
proof (cases rule: outbox_step.cases)
  case (step_enqueue m newId now)
  then show ?thesis
    using assms(3) by (auto simp: enqueueMessage_def done_with_def action_of_def find_append split: option.splits)
next
  case (step_report rep)
  then show ?thesis
    using done_with_rows [OF assms(3), of ob' "\<lambda>r. if reported rep r then report_row rep r else r"]
    by (simp add: recordDeliveryReport_def Let_def)
next
  case (step_reconcile j f now)
  then show ?thesis
    using done_with_rows [OF assms(3), of ob' "\<lambda>r. if unresolved j r then finding_row f now r else r"]
    by (simp add: reconcileMessage_def Let_def)
qed (use assms claim_done handoff_done in auto)

lemma steps_done:
  assumes "outbox_steps sha ob ob'" "outbox_ok ob" "done_with i ob"
  shows "done_with i ob' \<and> count_list (ob_calls ob') i = count_list (ob_calls ob) i"
  using assms
proof (induction rule: rtranclp_induct)
  case (step x y)
  then show ?case using step_done [OF step.hyps(2)] outbox_steps_ok [OF step.hyps(1)] by auto
qed simp

subsection \<open>The moves of the ledger\<close>

text \<open>
  Every change of an action's state is a move of its machine, except three the code makes beside the
  table: a sign-in email that lost its link after the claim is cancelled, a person may find an attempt
  delivered at once, and a failure reported after delivery is recorded.
\<close>

definition beside_the_table :: "(externalActionState \<times> externalActionState) list" where
  "beside_the_table = [(Ext_attempting, Ext_cancelled), (Ext_attempting, Ext_verified), (Ext_verified, Ext_failed)]"

definition ledger_move :: "externalActionState \<Rightarrow> externalActionState \<Rightarrow> bool" where
  "ledger_move s t \<longleftrightarrow> s = t \<or> check externalActionMachine s t = Allowed \<or> (s, t) \<in> set beside_the_table"

lemmas ledger_simps = ledger_move_def beside_the_table_def check_Allowed_iff externalActionMachine_def

lemma report_move: "reported rep r \<Longrightarrow> ledger_move (xa_state r) (xa_state (report_row rep r))"
  by (auto simp: reported_def report_row_def ledger_simps split: if_splits)

lemma finding_move: "unresolved i r \<Longrightarrow> ledger_move (xa_state r) (xa_state (finding_row f now r))"
  by (auto simp: unresolved_def finding_row_def ledger_simps split: finding.splits)

lemma claim_move: "claim_row sha g p now r = (r', claimed) \<Longrightarrow> ledger_move (xa_state r) (xa_state r') \<and> xa_id r' = xa_id r"
  by (cases rule: claim_row_cases [of sha g p now r]) (auto simp: ledger_simps)

lemma handoff_move:
  assumes "handoff_row g c answer now r = (r', called)"
  shows "ledger_move (xa_state r) (xa_state r') \<and> xa_id r' = xa_id r"
  by (cases rule: handoff_row_cases [OF assms]) (auto simp: ledger_simps)

lemma step_moves:
  assumes "outbox_step sha ob ob'" "outbox_ok ob" "action_of i ob = Some r"
  shows "\<exists>r'. action_of i ob' = Some r' \<and> ledger_move (xa_state r) (xa_state r')"
  using assms(1)
proof (cases rule: outbox_step.cases)
  case (step_enqueue m newId now)
  then show ?thesis using assms(3)
    by (auto simp: enqueueMessage_def action_of_def find_append ledger_move_def split: option.splits)
next
  case (step_report rep)
  then show ?thesis
    using assms(3) find_map_id [of "\<lambda>r. if reported rep r then report_row rep r else r" i "ob_actions ob"] report_move
    by (auto simp: recordDeliveryReport_def Let_def action_of_def ledger_move_def)
next
  case (step_reconcile j f now)
  then show ?thesis
    using assms(3) find_map_id [of "\<lambda>r. if unresolved j r then finding_row f now r else r" i "ob_actions ob"] finding_move
    by (auto simp: reconcileMessage_def Let_def action_of_def ledger_move_def)
next
  case (step_claim g provider now j)
  show ?thesis
  proof (cases "\<exists>q. action_of j ob = Some q \<and> \<not> delegated q")
    case True
    then obtain q where q: "action_of j ob = Some q" "\<not> delegated q" by blast
    obtain q' c where h: "claim_row sha g provider now q = (q', c)" by fastforce
    have "xa_id q' = j" using claim_move [OF h] outbox_ok_row [OF assms(2) q(1)] by simp
    then show ?thesis
      using step_claim(1) q h assms(3) claim_move [OF h]
      by (auto simp: claimMessage_def action_of_update ledger_move_def)
  next
    case False
    then have "ob' = ob" using step_claim(1) by (auto simp: claimMessage_def split: option.splits)
    then show ?thesis using assms(3) by (simp add: ledger_move_def)
  qed
next
  case (step_handoff g j answer now)
  show ?thesis
  proof (cases "\<exists>c q. map_of (ob_inflight ob) j = Some c \<and> action_of j ob = Some q")
    case True
    then obtain c q where q: "map_of (ob_inflight ob) j = Some c" "action_of j ob = Some q" by blast
    obtain q' called where h: "handoff_row g c answer now q = (q', called)" by fastforce
    have "xa_id q' = j" using handoff_move [OF h] outbox_ok_row [OF assms(2) q(2)] by simp
    then show ?thesis
      using step_handoff(1) q h assms(3) handoff_move [OF h]
      by (auto simp: handoffMessage_def action_of_update ledger_move_def)
  next
    case False
    then have "ob' = ob" using step_handoff(1) by (auto simp: handoffMessage_def split: option.splits)
    then show ?thesis using assms(3) by (simp add: ledger_move_def)
  qed
qed

lemma beside_denied: "(s, t) \<in> set beside_the_table \<Longrightarrow> check externalActionMachine s t \<noteq> Allowed"
  by (auto simp: ledger_simps)

subsection \<open>One action per logical send\<close>

lemma enqueue_created:
  assumes "fst (enqueueMessage sha m n now ob) = Inr (i, True)"
  shows "i = n \<and> snd (enqueueMessage sha m n now ob) = ob\<lparr>ob_actions := ob_actions ob @ [new_action sha m n now]\<rparr> \<and>
    List.find (\<lambda>r. xa_effectKey r = nm_idempotencyKey m) (ob_actions ob) = None"
  using assms by (auto simp: enqueueMessage_def split: if_splits option.splits)

text \<open>The second enqueue of the same send, at once, finds the first one's action.\<close>

lemma enqueue_twice:
  assumes "fst (enqueueMessage sha m n now ob) = Inr (i, c)"
  defines "ob' \<equiv> snd (enqueueMessage sha m n now ob)"
  shows "enqueueMessage sha m n' later ob' = (Inr (i, False), ob')"
proof (cases "List.find (\<lambda>r. xa_effectKey r = nm_idempotencyKey m) (ob_actions ob)")
  case None
  then have "i = n" "ob' = ob\<lparr>ob_actions := ob_actions ob @ [new_action sha m n now]\<rparr>"
    "\<not> (truthy (nm_messageId m) \<and> nm_subject m \<noteq> None)"
    using assms by (auto simp: enqueueMessage_def split: if_splits)
  then show ?thesis using None by (simp add: enqueueMessage_def find_append new_action_def)
next
  case (Some r)
  then show ?thesis using assms by (auto simp: enqueueMessage_def split: if_splits)
qed

text \<open>An answer that an action exists already is given only for the same recipient, template and parameters.\<close>

lemma wf_email_payload:
  assumes "wf_json (nm_params m)"
  shows "wf_json (email_payload sha m)"
  using assms by (simp add: email_payload_def split: option.splits)

lemma enqueue_existing_content:
  assumes "fst (enqueueMessage sha m n now ob) = Inr (i, False)" "wf_json (nm_params m)"
    and "\<forall>r \<in> set (ob_actions ob). wf_json (xa_payload r)"
  shows "\<exists>r \<in> set (ob_actions ob). xa_id r = i \<and> xa_effectKey r = nm_idempotencyKey m \<and>
    content_of (xa_payload r) = content_of (email_payload sha m)"
proof -
  obtain r where f: "List.find (\<lambda>r. xa_effectKey r = nm_idempotencyKey m) (ob_actions ob) = Some r"
    and r: "xa_id r = i" "canonicalJson (xa_payload r) = canonicalJson (email_payload sha m)"
    using assms(1) by (auto simp: enqueueMessage_def split: if_splits option.splits)
  have "r \<in> set (ob_actions ob)" "xa_effectKey r = nm_idempotencyKey m" using f by (auto simp: find_Some_iff)
  moreover have "content_of (xa_payload r) = content_of (email_payload sha m)"
    using r(2) assms(3) \<open>r \<in> set (ob_actions ob)\<close> wf_email_payload [OF assms(2)] by (simp add: canonicalJson_iff)
  ultimately show ?thesis using r(1) by blast
qed

text \<open>
  A failure reported after delivery without the code of a bounce takes the case message from
  \<open>delivered\<close> to \<open>failed\<close>, a move its own machine does not have.
\<close>

lemma late_failure_state: "synced_state Ext_failed code = (if code = Some ''email.bounced'' then Msg_bounced else Msg_failed)"
  by (simp add: synced_state_def)

lemma delivered_never_fails: "check messageMachine Msg_delivered Msg_failed \<noteq> Allowed"
  by (simp add: check_Allowed_iff messageMachine_def)

end
