(* ===== verification/Samples.thy ===== *)
theory Samples
  imports Operations Authz Appointment Document Listing Message MediaRendition Media FactRevision Privacy CheckCode Records Outbox
begin

text \<open>
  Concrete inputs at which the properties of the root theory are applied: a member of staff, a client
  and the drafting service, a receipt database with one command, an appointment with a request that
  is accepted, access tables, and one piece of evidence per machine; with the facts about them that
  several witnesses share.
\<close>

definition sample_staff :: actor where
  "sample_staff = \<lparr>actor_kind = Actor_staff, actor_id = ''s1''\<rparr>"

definition sample_client :: actor where
  "sample_client = \<lparr>actor_kind = Actor_client, actor_id = ''c1''\<rparr>"

definition sample_assistant :: actor where
  "sample_assistant = \<lparr>actor_kind = Actor_ai_service, actor_id = ''drafts''\<rparr>"

definition sample_input :: "int operationInput" where
  "sample_input = \<lparr>oi_actor = sample_staff, oi_type = ''case.open'', oi_idempotencyKey = ''k1'',
     oi_requestHash = ''h1'', oi_expectedVersion = None, oi_subject = None, oi_butlerAuthorization = None\<rparr>"

definition sample_command :: "int command" where
  "sample_command ctx w = (Inr (json_int w), w + 1)"

definition sample_db :: "int database" where
  "sample_db = \<lparr>db_operations = [], db_audit = [], db_world = 7\<rparr>"

definition sample_appointment :: "appointmentState versionedRecord" where
  "sample_appointment = \<lparr>vr_id = ''a1'', vr_reference = None, vr_state = Appt_requested, vr_version = 4,
     vr_locale = None\<rparr>"

definition sample_evidence :: appointmentEvidence where
  "sample_evidence = \<lparr>ae_purpose = None, ae_photographyScopeReviewed = None, ae_propertyWorkContextConfirmed = None,
     ae_slot = None, ae_hostAvailable = None, ae_propertyAccess = None, ae_participantCount = None,
     ae_externalBusyChecked = None, ae_resourcesFree = None, ae_availabilityConfirmed = None,
     ae_attendanceRecorded = None, ae_factualCheckNote = None, ae_reason = Some ''full''\<rparr>"

definition sample_request :: "(appointmentState, appointmentEvidence) transitionRequest" where
  "sample_request = \<lparr>tr_actor = sample_staff,
     tr_capabilities = grantsForRoles [Role_coordinator], tr_expectedVersion = 4, tr_to = Appt_declined,
     tr_evidence = sample_evidence, tr_operationId = ''o1'', tr_at = ''2026-01-02T00:00:00.000Z'', tr_reason = None\<rparr>"

definition sample_tables :: accessTables where
  "sample_tables = \<lparr>
     at_principals = [\<lparr>pr_id = ''s1'', pr_kind = Account_staff, pr_status = Account_active, pr_partyId = ''p1''\<rparr>,
       \<lparr>pr_id = ''c1'', pr_kind = Account_client, pr_status = Account_active, pr_partyId = ''p2''\<rparr>],
     at_memberships = [\<lparr>mb_principalId = ''s1'', mb_state = Member_active\<rparr>],
     at_grants = [
       \<lparr>gr_principalId = Some ''s1'', gr_serviceName = None, gr_role = Some Role_coordinator, gr_capability = None,
        gr_recordType = None, gr_recordId = None, gr_locales = None, gr_expiresAt = None, gr_revokedAt = None\<rparr>,
       \<lparr>gr_principalId = None, gr_serviceName = Some ''drafts'', gr_role = Some Role_ai_service, gr_capability = None,
        gr_recordType = None, gr_recordId = None, gr_locales = None, gr_expiresAt = None, gr_revokedAt = None\<rparr>],
     at_participants = [\<lparr>rl_partyId = ''p2'', rl_target = (''case'', ''k1''), rl_role = Part_buyer,
       rl_authority = Auth_reviewed, rl_scope = JNull, rl_validFrom = 0, rl_expiresAt = None, rl_revokedAt = None\<rparr>],
     at_relationships = []\<rparr>"

definition sample_case :: resource where
  "sample_case = \<lparr>res_type = ''case'', res_id = Some ''k1'', res_locale = None, res_caseId = None,
     res_propertyId = None, res_audience = None\<rparr>"

definition sample_fact :: "string \<Rightarrow> factSnapshot" where
  "sample_fact v = \<lparr>fs_state = Fact_known, fs_value = JString v, fs_unit = None, fs_basis = None\<rparr>"

definition sample_placements :: "placement list" where
  "sample_placements = [\<lparr>relationId = ''a'', position = 0\<rparr>, \<lparr>relationId = ''b'', position = 1\<rparr>, \<lparr>relationId = ''c'', position = 2\<rparr>]"

definition sample_key :: string where
  "sample_key = replicate 43 CHR ''A'' @ ''.'' @ replicate 32 CHR ''0''"

definition sample_message :: messageEvidence where
  "sample_message = \<lparr>me_kind = Msgk_case_message, me_payloadDigest = Some ''d1'', me_approvedDigest = Some ''d1'',
     me_providerReference = None, me_attempts = None, me_firstAttemptAt = None, me_now = None,
     me_duplicateRiskResolved = None\<rparr>"

definition sample_document :: documentEvidence where
  "sample_document = \<lparr>doe_bytesReceived = Some 10, doe_byteSize = Some 10, doe_sealedSha256 = Some ''d'',
     doe_sealedKey = Some ''k'', doe_scan = Some Scan_clean, doe_reviewType = None, doe_reason = None,
     doe_replacementVersionId = None\<rparr>"

definition sample_privacy :: privacyRequestEvidence where
  "sample_privacy = \<lparr>pre_verifiedAt = Some ''2026-01-01'', pre_responsiblePrincipalId = Some ''s1'',
     pre_legalHoldReason = None, pre_completionEvidence = None, pre_legalHoldDisposition = None, pre_reason = None\<rparr>"

definition sample_freshness :: freshnessInput where
  "sample_freshness = \<lparr>fi_purpose = Purpose_sale, fi_lastConfirmedAt = Some ''2026-01-01T00:00:00.000Z'',
     fi_conflicting = None, fi_now = ''2026-01-02T00:00:00.000Z'', fi_intervalDays = None, fi_recordedReviewDueAt = None\<rparr>"

definition sample_rendition :: json where
  "sample_rendition = JObject [(''sha256'', JString (replicate 64 CHR ''a'')),
     (''key'', JString (''derivatives/m1/'' @ replicate 64 CHR ''a'' @ ''.webp'')),
     (''contentType'', JString ''image/webp''), (''width'', json_int 800), (''height'', json_int 600),
     (''byteSize'', json_int 1000)]"

definition sample_row :: "appointmentState tableRecord" where
  "sample_row = \<lparr>vr_id = ''a1'', vr_reference = None, vr_state = Appt_requested, vr_version = 4, vr_locale = None,
     tb_caseId = Some ''k1'', tb_propertyId = None, tb_audience = None\<rparr>"

definition sample_workspace :: "(appointmentState tableRecord list, appointmentEvidence) workspace" where
  "sample_workspace = \<lparr>ws_rows = [sample_row], ws_activity = [], ws_audit = []\<rparr>"

definition sample_decline :: "(appointmentState, appointmentEvidence) transitionCommand" where
  "sample_decline = \<lparr>tc_actor = sample_staff, tc_recordId = ''a1'', tc_expectedVersion = 4, tc_to = Appt_declined,
     tc_evidence = sample_evidence, tc_operationId = ''o1'', tc_reason = None, tc_audience = None,
     tc_correlationId = None\<rparr>"

definition sample_mail :: newOutboxMessage where
  "sample_mail = \<lparr>nm_idempotencyKey = ''k1'', nm_channel = Chan_email, nm_recipient = ''a@b.c'', nm_template = ''notice'',
     nm_params = JObject [], nm_secretParams = None, nm_messageId = None, nm_outboxEventId = None, nm_subject = None\<rparr>"

definition empty_outbox :: outbox where
  "empty_outbox = \<lparr>ob_actions = [], ob_inflight = [], ob_calls = [], ob_messages = [], ob_attempts = []\<rparr>"

definition sample_outbox :: outbox where
  "sample_outbox = snd (enqueueMessage id sample_mail ''x1'' 0 empty_outbox)"

definition open_gates :: gates where
  "open_gates = \<lparr>gt_credentialCurrent = True, gt_noticeConfigured = True, gt_noticeValid = True\<rparr>"

definition sent_outbox :: outbox where
  "sent_outbox = handoffMessage open_gates ''x1'' (Answer_accepted ''ref'') 1 (claimMessage id open_gates ''resend'' 1 ''x1'' sample_outbox)"

subsection \<open>What holds of them\<close>

lemmas sample_simps = sample_staff_def sample_input_def sample_command_def sample_db_def

lemmas operation_eval = runOperation_def find_operation_def has_key_def decideReplay_def run_fresh_def
  run_savepoint_def isButlerOperation_def settle_def settle_row_def new_row_def replay_row_def
  stored_json_def storedButlerSuccess_def json_int_def

lemma sample_db_ok: "ok_database sample_db"
  by (simp add: ok_database_def sample_db_def)

lemma sample_effect: "effective sample_input sample_command True ''o1'' 10 sample_db"
  by (simp add: effective_def operation_eval sample_simps)

lemma sample_hasCapability:
  "hasCapability sample_staff (grantsForRoles [Role_coordinator]) Cap_appointment_manage ctx"
  by (subst hasCapability_roles) (simp_all add: sample_staff_def)

lemma sample_applied:
  "applyTransition appointmentTransitions sample_appointment sample_request =
     Applied (sample_appointment\<lparr>vr_state := Appt_declined, vr_version := 5\<rparr>)
       (transition_activity appointmentTransitions sample_appointment sample_request)
       (transition_audit appointmentTransitions sample_appointment sample_request)"
  unfolding applyTransition_Applied permitted_def
  by (simp add: sample_request_def sample_appointment_def appointmentTransitions_def sample_hasCapability)
    (simp add: sample_staff_def sample_evidence_def guardAppointmentTransition_def check_def appointmentMachine_def)

lemmas sample_access_simps = sample_staff_def sample_client_def sample_assistant_def sample_tables_def sample_case_def

lemmas access_eval = can_def allows_def resolveGrants_def staff_grants_def staff_accounts_def client_grants_def
  principal_grants_def liveGrant_def live_until_def live_relationship_def expandGrant_def scopedTo_def contextsFor_def
  context_on_def hasCapability_def grant_covers_def scope_expired_def relationship_grants_def
  relationshipCapabilities_def scope_targets_def invited_capabilities_def Let_def

lemma sample_can_staff: "can sample_tables sample_staff Cap_case_read (Some sample_case) 5"
  by (simp add: access_eval sample_access_simps)

lemma sample_can_client: "can sample_tables sample_client Cap_portal_case_read (Some sample_case) 5"
  by (simp add: access_eval sample_access_simps clientSideActors_def)

lemma sample_can_assistant: "can sample_tables sample_assistant Cap_ai_draft (Some sample_case) 5"
  by (simp add: access_eval sample_access_simps draftOnlyCapabilities_def isDraftOnly_def)

lemma safe_integer_of_int: "is_safe_integer n \<Longrightarrow> safe_integer_of (json_int n) = Some n"
proof -
  have nd: "hd (show_dec k) \<noteq> CHR ''-''" for k
    using show_dec_all_digits [of k] by (cases "show_dec k") (auto simp: is_digit_def)
  then show "is_safe_integer n \<Longrightarrow> safe_integer_of (json_int n) = Some n"
    by (simp add: safe_integer_of_def json_int_def int_text_def numeral_value_def Let_def)
qed

lemma sample_rendition_item:
  "rendition_item ''m1'' [] [] sample_rendition = Some \<lparr>rn_key = ''derivatives/m1/'' @ replicate 64 CHR ''a'' @ ''.webp'',
      rn_sha256 = replicate 64 CHR ''a'', rn_width = 800, rn_height = 600, rn_byteSize = 1000\<rparr>"
  by (simp add: rendition_item_def sample_rendition_def is_sha256_def list_all_iff safe_integer_of_int
      is_safe_integer_def max_safe_integer_def int_between_def rendition_key_def Let_def)

lemma sample_row_loaded: "ok_table (ws_rows sample_workspace)" "table_load (ws_rows sample_workspace) ''a1'' = Some sample_row"
  by (simp_all add: sample_workspace_def sample_row_def ok_table_def table_load_def)

lemma sample_can_decline:
  "can sample_tables sample_staff Cap_appointment_manage
     (Some (resource_of appointmentTransitions (table_parents sample_row) sample_row)) 0"
  by (simp add: access_eval sample_access_simps resource_of_def clientSideActors_def)

lemma sample_decline_applied:
  "fst (executeTransition sample_tables appointmentTransitions tableStore sample_decline 0 sample_workspace) =
     Inr (Outcome_applied (sample_row\<lparr>vr_state := Appt_declined, vr_version := 5\<rparr>))"
proof -
  define res where "res = resource_of appointmentTransitions (table_parents sample_row) sample_row"
  define q where "q = request_of (grantsFor sample_tables sample_staff res 0) sample_decline 0"
  have "context_locale (transition_context appointmentTransitions sample_row q) = res_locale res"
    by (simp add: transition_context_def res_def resource_of_def)
  then have "hasCapability sample_staff (grantsFor sample_tables sample_staff res 0) Cap_appointment_manage
      (transition_context appointmentTransitions sample_row q)"
    using sample_can_decline by (simp add: grantsFor_exact res_def)
  then have "permitted appointmentTransitions sample_row q"
    by (simp add: permitted_def q_def request_of_def sample_decline_def appointmentTransitions_def)
      (simp add: sample_staff_def)
  then have app: "applyTransition appointmentTransitions sample_row q =
      Applied (sample_row\<lparr>vr_state := Appt_declined, vr_version := 5\<rparr>)
        (transition_activity appointmentTransitions sample_row q) (transition_audit appointmentTransitions sample_row q)"
    by (simp add: applyTransition_Applied q_def request_of_def sample_decline_def sample_row_def appointmentTransitions_def
        check_def appointmentMachine_def guardAppointmentTransition_def sample_evidence_def sample_staff_def guard_simps)
  have "\<exists>rows. table_save [sample_row] (sample_row\<lparr>vr_state := Appt_declined, vr_version := 5\<rparr>) 4 = Inr rows"
    by (simp add: table_save_def sample_row_def)
  then show ?thesis
    using app sample_row_loaded(2)
    by (auto simp: executeTransition_def tableStore_def Let_def res_def q_def sample_workspace_def sample_decline_def)
qed

lemma sample_outbox_eq: "sample_outbox = empty_outbox\<lparr>ob_actions := [new_action id sample_mail ''x1'' 0]\<rparr>"
  by (simp add: sample_outbox_def enqueueMessage_def sample_mail_def empty_outbox_def)

lemma empty_outbox_ok: "outbox_ok empty_outbox"
  by (simp add: empty_outbox_def outbox_ok_def)

lemma sample_outbox_ok: "outbox_ok sample_outbox"
  unfolding sample_outbox_def by (rule enqueue_ok [OF empty_outbox_ok])

lemma sample_sent_steps: "outbox_steps id sample_outbox sent_outbox"
  unfolding sent_outbox_def by (meson outbox_step.intros rtranclp.intros)

lemma sample_sent: "ob_calls sent_outbox = [''x1''] \<and> ob_inflight sent_outbox = [] \<and>
    (\<exists>r. action_of ''x1'' sent_outbox = Some r \<and> xa_state r = Ext_acknowledged)"
  by (simp add: sent_outbox_def sample_outbox_eq empty_outbox_def claimMessage_def action_of_def new_action_def
      delegated_def subject_type_def sample_mail_def claim_row_def window_expired_def inquiry_notice_def template_is_def
      email_payload_def refusal_def credential_mail_def secret_changed_def Let_def update_action_def attempt_row_def
      handoffMessage_def handoff_row_def answer_row_def finish_def alertSubjectType_def
      inquiryCoverageNoticeTemplate_def inquiryCoverageNoticeSubject_def emailLinkTemplate_def emailLinkSubject_def
      caseEmailTemplate_def alertTemplate_def)

end
