(* ===== verification/Cases.thy ===== *)
theory Cases
  imports Transition
begin

text \<open>
  \<open>src/src/domain/case.ts\<close>: one agency outcome. The stage follows the pipeline of the case's kind and
  the disposition is a separate dimension. A TypeScript \<open>CaseStage\<close> is the union of the three stage
  types and the machines are cast to it; here each kind's specification keeps its own stage type.
\<close>

datatype caseKind = Case_buyer | Case_tenant | Case_seller | Case_landlord | Case_service_intake

definition caseKinds :: "caseKind list" where
  "caseKinds = [Case_buyer, Case_tenant, Case_seller, Case_landlord, Case_service_intake]"

datatype demandStage = Dem_needs_agreed | Dem_evaluating | Dem_viewing
  | Dem_proposal_preparation | Dem_proposal_active | Dem_coordination | Dem_completed

definition demandStages :: "demandStage list" where
  "demandStages = [Dem_needs_agreed, Dem_evaluating, Dem_viewing, Dem_proposal_preparation, Dem_proposal_active,
     Dem_coordination, Dem_completed]"

fun demandStage_name :: "demandStage \<Rightarrow> string" where
  "demandStage_name Dem_needs_agreed = ''needs_agreed''"
| "demandStage_name Dem_evaluating = ''evaluating''"
| "demandStage_name Dem_viewing = ''viewing''"
| "demandStage_name Dem_proposal_preparation = ''proposal_preparation''"
| "demandStage_name Dem_proposal_active = ''proposal_active''"
| "demandStage_name Dem_coordination = ''coordination''"
| "demandStage_name Dem_completed = ''completed''"

fun demandTable :: "demandStage \<Rightarrow> demandStage list" where
  "demandTable Dem_needs_agreed = [Dem_evaluating]"
| "demandTable Dem_evaluating = [Dem_viewing, Dem_needs_agreed]"
| "demandTable Dem_viewing = [Dem_evaluating, Dem_proposal_preparation]"
| "demandTable Dem_proposal_preparation = [Dem_proposal_active, Dem_viewing, Dem_evaluating]"
| "demandTable Dem_proposal_active = [Dem_coordination, Dem_proposal_preparation, Dem_evaluating]"
| "demandTable Dem_coordination = [Dem_completed, Dem_evaluating]"
| "demandTable Dem_completed = []"

definition demandMachine :: "demandStage machine" where
  "demandMachine = defineMachine demandStages demandTable"

datatype supplyStage = Sup_request_received | Sup_scope_authority_review | Sup_assessment
  | Sup_instructions_agreed | Sup_preparing | Sup_marketing | Sup_proposal_coordination
  | Sup_completion_handover

definition supplyStages :: "supplyStage list" where
  "supplyStages = [Sup_request_received, Sup_scope_authority_review, Sup_assessment, Sup_instructions_agreed,
     Sup_preparing, Sup_marketing, Sup_proposal_coordination, Sup_completion_handover]"

fun supplyStage_name :: "supplyStage \<Rightarrow> string" where
  "supplyStage_name Sup_request_received = ''request_received''"
| "supplyStage_name Sup_scope_authority_review = ''scope_authority_review''"
| "supplyStage_name Sup_assessment = ''assessment''"
| "supplyStage_name Sup_instructions_agreed = ''instructions_agreed''"
| "supplyStage_name Sup_preparing = ''preparing''"
| "supplyStage_name Sup_marketing = ''marketing''"
| "supplyStage_name Sup_proposal_coordination = ''proposal_coordination''"
| "supplyStage_name Sup_completion_handover = ''completion_handover''"

fun supplyTable :: "supplyStage \<Rightarrow> supplyStage list" where
  "supplyTable Sup_request_received = [Sup_scope_authority_review]"
| "supplyTable Sup_scope_authority_review = [Sup_assessment]"
| "supplyTable Sup_assessment = [Sup_instructions_agreed, Sup_scope_authority_review]"
| "supplyTable Sup_instructions_agreed = [Sup_preparing]"
| "supplyTable Sup_preparing = [Sup_marketing, Sup_instructions_agreed]"
| "supplyTable Sup_marketing = [Sup_proposal_coordination, Sup_preparing]"
| "supplyTable Sup_proposal_coordination = [Sup_completion_handover, Sup_marketing]"
| "supplyTable Sup_completion_handover = []"

definition supplyMachine :: "supplyStage machine" where
  "supplyMachine = defineMachine supplyStages supplyTable"

datatype serviceIntakeStage = Srv_request_received | Srv_consultation | Srv_concluded

definition serviceIntakeStages :: "serviceIntakeStage list" where
  "serviceIntakeStages = [Srv_request_received, Srv_consultation, Srv_concluded]"

fun serviceIntakeStage_name :: "serviceIntakeStage \<Rightarrow> string" where
  "serviceIntakeStage_name Srv_request_received = ''request_received''"
| "serviceIntakeStage_name Srv_consultation = ''consultation''"
| "serviceIntakeStage_name Srv_concluded = ''concluded''"

fun serviceIntakeTable :: "serviceIntakeStage \<Rightarrow> serviceIntakeStage list" where
  "serviceIntakeTable Srv_request_received = [Srv_consultation, Srv_concluded]"
| "serviceIntakeTable Srv_consultation = [Srv_concluded]"
| "serviceIntakeTable Srv_concluded = []"

definition serviceIntakeMachine :: "serviceIntakeStage machine" where
  "serviceIntakeMachine = defineMachine serviceIntakeStages serviceIntakeTable"

datatype caseStage = Demand demandStage | Supply supplyStage | ServiceIntake serviceIntakeStage

fun stagesByKind :: "caseKind \<Rightarrow> caseStage list" where
  "stagesByKind Case_buyer = map Demand demandStages"
| "stagesByKind Case_tenant = map Demand demandStages"
| "stagesByKind Case_seller = map Supply supplyStages"
| "stagesByKind Case_landlord = map Supply supplyStages"
| "stagesByKind Case_service_intake = map ServiceIntake serviceIntakeStages"

fun initialStage :: "caseKind \<Rightarrow> caseStage" where
  "initialStage Case_buyer = Demand Dem_needs_agreed"
| "initialStage Case_tenant = Demand Dem_needs_agreed"
| "initialStage Case_seller = Supply Sup_request_received"
| "initialStage Case_landlord = Supply Sup_request_received"
| "initialStage Case_service_intake = ServiceIntake Srv_request_received"

record stageEvidence =
  se_responsibleBrokerId :: "string option"
  se_acknowledgedBriefRevisionId :: "string option"
  se_reviewedInterestCount :: "int option"
  se_sourcingTaskId :: "string option"
  se_appointmentId :: "string option"
  se_clientRequestedProposal :: "bool option"
  se_submittedProposalRevisionId :: "string option"
  se_agreedProposalRevisionId :: "string option"
  se_authorityReviewed :: "bool option"
  se_assessmentAppointmentId :: "string option"
  se_sellerInstructionId :: "string option"
  se_preparationTaskIds :: "string list option"
  se_previewAcknowledgmentId :: "string option"
  se_completionEvidenceIds :: "string list option"
  se_remainingObligations :: "string list option"
  se_outcomeNote :: "string option"
  se_reason :: "string option"

definition completion :: "stageEvidence \<Rightarrow> actor \<Rightarrow> decision" where
  "completion e a =
     firstDenial
       [Some (need (actor_kind a = Actor_staff) ''human_required''),
        Some (need (truthy_list (se_completionEvidenceIds e)) ''completion_evidence_required''),
        Some (need (se_remainingObligations e \<noteq> None) ''obligations_not_reviewed'')]"

definition guardDemandStage ::
    "demandStage \<Rightarrow> demandStage \<Rightarrow> stageEvidence \<Rightarrow> actor \<Rightarrow> decision" where
  "guardDemandStage from to e a = (case to of
       Dem_needs_agreed \<Rightarrow> need (truthy (se_acknowledgedBriefRevisionId e)) ''acknowledged_brief_required''
     | Dem_evaluating \<Rightarrow>
         if from = Dem_needs_agreed
         then firstDenial
           [Some (need (truthy (se_acknowledgedBriefRevisionId e)) ''acknowledged_brief_required''),
            Some (need (truthy (se_responsibleBrokerId e)) ''responsible_broker_required''),
            Some (need (0 < num_or_zero (se_reviewedInterestCount e) \<or> truthy (se_sourcingTaskId e))
              ''interest_or_sourcing_task_required'')]
         else need (truthy (se_reason e)) ''reason_required''
     | Dem_viewing \<Rightarrow> need (truthy (se_appointmentId e)) ''appointment_required''
     | Dem_proposal_preparation \<Rightarrow> need (is_true (se_clientRequestedProposal e)) ''client_request_required''
     | Dem_proposal_active \<Rightarrow> need (truthy (se_submittedProposalRevisionId e)) ''submitted_proposal_required''
     | Dem_coordination \<Rightarrow> need (truthy (se_agreedProposalRevisionId e)) ''agreed_proposal_required''
     | Dem_completed \<Rightarrow> completion e a)"

definition guardSupplyStage ::
    "supplyStage \<Rightarrow> supplyStage \<Rightarrow> stageEvidence \<Rightarrow> actor \<Rightarrow> decision" where
  "guardSupplyStage from to e a = (case to of
       Sup_request_received \<Rightarrow> Allowed
     | Sup_scope_authority_review \<Rightarrow> need (truthy (se_responsibleBrokerId e)) ''responsible_broker_required''
     | Sup_assessment \<Rightarrow> need (is_true (se_authorityReviewed e)) ''reviewed_authority_required''
     | Sup_instructions_agreed \<Rightarrow> need (truthy (se_sellerInstructionId e)) ''seller_instruction_required''
     | Sup_preparing \<Rightarrow> need (truthy_list (se_preparationTaskIds e)) ''preparation_tasks_required''
     | Sup_marketing \<Rightarrow> need (truthy (se_previewAcknowledgmentId e)) ''preview_acknowledgment_required''
     | Sup_proposal_coordination \<Rightarrow> need (truthy (se_submittedProposalRevisionId e)) ''proposal_required''
     | Sup_completion_handover \<Rightarrow> completion e a)"

definition guardServiceIntakeStage ::
    "serviceIntakeStage \<Rightarrow> serviceIntakeStage \<Rightarrow> stageEvidence \<Rightarrow> actor \<Rightarrow> decision" where
  "guardServiceIntakeStage from to e a = (case to of
       Srv_request_received \<Rightarrow> Allowed
     | Srv_consultation \<Rightarrow> need (truthy (se_responsibleBrokerId e)) ''responsible_broker_required''
     | Srv_concluded \<Rightarrow> firstDenial
         [Some (need (actor_kind a = Actor_staff) ''human_required''),
          Some (need (truthy (se_outcomeNote e)) ''outcome_required'')])"

definition stageCapability :: "'s \<Rightarrow> 's \<Rightarrow> actor \<Rightarrow> capability" where
  "stageCapability from to a = Cap_case_transition"

definition stageSpec ::
    "'s machine \<Rightarrow> ('s \<Rightarrow> 's \<Rightarrow> 'e \<Rightarrow> actor \<Rightarrow> decision) \<Rightarrow> ('s \<Rightarrow> string) \<Rightarrow> ('s, 'e) transitionSpec" where
  "stageSpec m g nm =
     \<lparr>spec_recordType = ''case'', spec_machine = m, spec_capabilityFor = stageCapability,
      spec_guard = g, spec_name = nm\<rparr>"

datatype stageRules =
    DemandRules "(demandStage, stageEvidence) transitionSpec"
  | SupplyRules "(supplyStage, stageEvidence) transitionSpec"
  | ServiceIntakeRules "(serviceIntakeStage, stageEvidence) transitionSpec"

definition caseStageTransitions :: "caseKind \<Rightarrow> stageRules" where
  "caseStageTransitions kind =
     (if kind = Case_buyer \<or> kind = Case_tenant
      then DemandRules (stageSpec demandMachine guardDemandStage demandStage_name)
      else if kind = Case_seller \<or> kind = Case_landlord
      then SupplyRules (stageSpec supplyMachine guardSupplyStage supplyStage_name)
      else ServiceIntakeRules
        (stageSpec serviceIntakeMachine guardServiceIntakeStage serviceIntakeStage_name))"

subsection \<open>Disposition\<close>

datatype caseDisposition = Disp_active | Disp_paused | Disp_closed

definition caseDispositions :: "caseDisposition list" where
  "caseDispositions = [Disp_active, Disp_paused, Disp_closed]"

fun caseDisposition_name :: "caseDisposition \<Rightarrow> string" where
  "caseDisposition_name Disp_active = ''active''"
| "caseDisposition_name Disp_paused = ''paused''"
| "caseDisposition_name Disp_closed = ''closed''"

fun dispositionTable :: "caseDisposition \<Rightarrow> caseDisposition list" where
  "dispositionTable Disp_active = [Disp_paused, Disp_closed]"
| "dispositionTable Disp_paused = [Disp_active, Disp_closed]"
| "dispositionTable Disp_closed = [Disp_active]"

definition dispositionMachine :: "caseDisposition machine" where
  "dispositionMachine = defineMachine caseDispositions dispositionTable"

record dispositionEvidence =
  de_reason :: "string option"
  de_waitingOn :: "string option"
  de_reviewAt :: "string option"
  de_outcome :: "string option"
  de_openCommitmentIds :: "string list option"
  de_commitmentDispositions :: "(string \<times> string) list option"

text \<open>\<open>!evidence.commitmentDispositions?.[id]?.trim()\<close>\<close>

definition undecided_commitment :: "dispositionEvidence \<Rightarrow> string \<Rightarrow> bool" where
  "undecided_commitment e cid =
     (case de_commitmentDispositions e of
        None \<Rightarrow> True
      | Some ds \<Rightarrow> (case map_of ds cid of None \<Rightarrow> True | Some d \<Rightarrow> trim d = []))"

definition guardDisposition ::
    "caseDisposition \<Rightarrow> caseDisposition \<Rightarrow> dispositionEvidence \<Rightarrow> actor \<Rightarrow> decision" where
  "guardDisposition from to e a = (case to of
       Disp_paused \<Rightarrow> firstDenial
         [Some (need (truthy (de_reason e)) ''reason_required''),
          Some (need (truthy (de_waitingOn e)) ''dependency_required''),
          Some (need (truthy (de_reviewAt e)) ''review_date_required'')]
     | Disp_closed \<Rightarrow>
         (case de_openCommitmentIds e of
            None \<Rightarrow> denied ''obligations_not_reviewed''
          | Some ids \<Rightarrow>
              let undecided = filter (undecided_commitment e) ids
              in firstDenial
                [Some (need (actor_kind a = Actor_staff) ''human_required''),
                 Some (need (truthy (de_outcome e)) ''outcome_required''),
                 Some (if 0 < length undecided then denied ''commitment_disposition_required'' else Allowed)])
     | Disp_active \<Rightarrow>
         if from = Disp_closed then need (truthy (de_reason e)) ''reason_required'' else Allowed)"

definition dispositionTransitions :: "(caseDisposition, dispositionEvidence) transitionSpec" where
  "dispositionTransitions = stageSpec dispositionMachine guardDisposition caseDisposition_name"

record caseOwnership =
  co_disposition :: caseDisposition
  co_ownerId :: "string option"
  co_nextAction :: "string option"
  co_waitingOn :: "string option"
  co_reviewAt :: "string option"

definition isAccountablyOwned :: "caseOwnership \<Rightarrow> bool" where
  "isAccountablyOwned c =
     (if co_disposition c \<noteq> Disp_active then True
      else truthy (co_ownerId c) \<and>
        (truthy (co_nextAction c) \<or> (truthy (co_waitingOn c) \<and> truthy (co_reviewAt c))))"

subsection \<open>What a case can reach\<close>

lemma demandMachine_wf: "wf_machine demandMachine"
  by (simp add: demandMachine_def wf_machine_def demandStages_def)

lemma supplyMachine_wf: "wf_machine supplyMachine"
  by (simp add: supplyMachine_def wf_machine_def supplyStages_def)

lemma serviceIntakeMachine_wf: "wf_machine serviceIntakeMachine"
  by (simp add: serviceIntakeMachine_def wf_machine_def serviceIntakeStages_def)

lemma dispositionMachine_wf: "wf_machine dispositionMachine"
  by (simp add: dispositionMachine_def wf_machine_def caseDispositions_def)

lemma completion_Allowed:
  "completion e a = Allowed \<longleftrightarrow>
     actor_kind a = Actor_staff \<and> truthy_list (se_completionEvidenceIds e) \<and>
     se_remainingObligations e \<noteq> None"
  by (auto simp: completion_def guard_simps)

lemma decided_commitment:
  "\<not> undecided_commitment e c \<longleftrightarrow>
     (\<exists>ds d. de_commitmentDispositions e = Some ds \<and> map_of ds c = Some d \<and> trim d \<noteq> [])"
  by (auto simp: undecided_commitment_def split: option.splits)

lemma close_disposition_iff:
  "guardDisposition from Disp_closed e a = Allowed \<longleftrightarrow>
     actor_kind a = Actor_staff \<and> truthy (de_outcome e) \<and>
     (\<exists>ids. de_openCommitmentIds e = Some ids \<and>
        (\<forall>c \<in> set ids. \<exists>ds d. de_commitmentDispositions e = Some ds \<and> map_of ds c = Some d \<and> trim d \<noteq> []))"
  by (cases "de_openCommitmentIds e")
    (auto simp: guardDisposition_def Let_def guard_simps filter_empty_conv decided_commitment)

end
