(* ===== verification/Inquiry.thy ===== *)
theory Inquiry
  imports Transition
begin

text \<open>
  \<open>src/src/domain/inquiry.ts\<close>: receipt, assignment and recovery of inquiries. Spam, duplicates and
  unreachable contacts are review states from which a person decides.
\<close>

datatype inquiryState = Inq_received | Inq_assigned | Inq_awaiting_client | Inq_linked_to_case
  | Inq_resolved_without_case | Inq_suspected_spam | Inq_duplicate_candidate | Inq_contact_unreachable

definition inquiryStates :: "inquiryState list" where
  "inquiryStates = [Inq_received, Inq_assigned, Inq_awaiting_client, Inq_linked_to_case,
     Inq_resolved_without_case, Inq_suspected_spam, Inq_duplicate_candidate,
     Inq_contact_unreachable]"

fun inquiryState_name :: "inquiryState \<Rightarrow> string" where
  "inquiryState_name Inq_received = ''received''"
| "inquiryState_name Inq_assigned = ''assigned''"
| "inquiryState_name Inq_awaiting_client = ''awaiting_client''"
| "inquiryState_name Inq_linked_to_case = ''linked_to_case''"
| "inquiryState_name Inq_resolved_without_case = ''resolved_without_case''"
| "inquiryState_name Inq_suspected_spam = ''suspected_spam''"
| "inquiryState_name Inq_duplicate_candidate = ''duplicate_candidate''"
| "inquiryState_name Inq_contact_unreachable = ''contact_unreachable''"

fun inquiryTable :: "inquiryState \<Rightarrow> inquiryState list" where
  "inquiryTable Inq_received = [Inq_assigned, Inq_suspected_spam, Inq_duplicate_candidate]"
| "inquiryTable Inq_assigned =
     [Inq_awaiting_client, Inq_linked_to_case, Inq_resolved_without_case, Inq_suspected_spam,
      Inq_duplicate_candidate, Inq_contact_unreachable]"
| "inquiryTable Inq_awaiting_client =
     [Inq_assigned, Inq_linked_to_case, Inq_resolved_without_case, Inq_contact_unreachable]"
| "inquiryTable Inq_linked_to_case = []"
| "inquiryTable Inq_resolved_without_case = []"
| "inquiryTable Inq_suspected_spam = [Inq_assigned, Inq_resolved_without_case]"
| "inquiryTable Inq_duplicate_candidate = [Inq_assigned, Inq_linked_to_case, Inq_resolved_without_case]"
| "inquiryTable Inq_contact_unreachable = [Inq_assigned, Inq_resolved_without_case]"

definition inquiryMachine :: "inquiryState machine" where
  "inquiryMachine = defineMachine inquiryStates inquiryTable"

datatype inquiryPurpose = Inqp_question | Inqp_callback | Inqp_viewing_request
  | Inqp_seller_consultation | Inqp_landlord_consultation | Inqp_service_consultation

definition inquiryPurposes :: "inquiryPurpose list" where
  "inquiryPurposes = [Inqp_question, Inqp_callback, Inqp_viewing_request, Inqp_seller_consultation,
     Inqp_landlord_consultation, Inqp_service_consultation]"

record inquiryEvidence =
  ie_ownerId :: "string option"
  ie_coverageQueue :: "string option"
  ie_questionMessageId :: "string option"
  ie_followUpAt :: "string option"
  ie_caseId :: "string option"
  ie_duplicateOfInquiryId :: "string option"
  ie_reason :: "string option"
  ie_openCommitments :: "int option"

definition guardInquiryTransition ::
    "inquiryState \<Rightarrow> inquiryState \<Rightarrow> inquiryEvidence \<Rightarrow> actor \<Rightarrow> decision" where
  "guardInquiryTransition from to e a = (case to of
       Inq_assigned \<Rightarrow> need (truthy (ie_ownerId e) \<or> truthy (ie_coverageQueue e)) ''owner_required''
     | Inq_awaiting_client \<Rightarrow> firstDenial
         [Some (need (truthy (ie_questionMessageId e)) ''question_message_required''),
          Some (need (truthy (ie_followUpAt e)) ''follow_up_required'')]
     | Inq_linked_to_case \<Rightarrow> firstDenial
         [Some (need (truthy (ie_caseId e)) ''case_required''),
          Some (if from = Inq_duplicate_candidate
                then need (actor_kind a = Actor_staff) ''human_required'' else Allowed)]
     | Inq_resolved_without_case \<Rightarrow> firstDenial
         [Some (need (truthy (ie_reason e)) ''reason_required''),
          Some (if 0 < num_or_zero (ie_openCommitments e) then denied ''open_commitments'' else Allowed),
          Some (if from = Inq_duplicate_candidate
                then firstDenial
                  [Some (need (actor_kind a = Actor_staff) ''human_required''),
                   Some (need (truthy (ie_duplicateOfInquiryId e)) ''duplicate_of_required'')]
                else Allowed),
          Some (if from = Inq_suspected_spam
                then need (actor_kind a = Actor_staff) ''human_required'' else Allowed)]
     | Inq_duplicate_candidate \<Rightarrow> need (truthy (ie_duplicateOfInquiryId e)) ''duplicate_of_required''
     | Inq_suspected_spam \<Rightarrow> need (truthy (ie_reason e)) ''reason_required''
     | Inq_contact_unreachable \<Rightarrow> need (truthy (ie_reason e)) ''reason_required''
     | Inq_received \<Rightarrow> Allowed)"

definition capabilityByTarget :: "inquiryState \<Rightarrow> capability option" where
  "capabilityByTarget to =
     (if to \<in> {Inq_assigned, Inq_suspected_spam, Inq_duplicate_candidate}
      then Some Cap_inquiry_assign else None)"

definition inquiryTransitions :: "(inquiryState, inquiryEvidence) transitionSpec" where
  "inquiryTransitions =
     \<lparr>spec_recordType = ''inquiry'', spec_machine = inquiryMachine,
      spec_capabilityFor = (\<lambda>from to a. the_or Cap_inquiry_respond (capabilityByTarget to)),
      spec_guard = guardInquiryTransition, spec_name = inquiryState_name\<rparr>"

lemma inquiryMachine_wf: "wf_machine inquiryMachine"
  by (simp add: inquiryMachine_def wf_machine_def inquiryStates_def)

lemma inquiry_review_states:
  "isTerminal inquiryMachine s \<longleftrightarrow> s \<in> {Inq_linked_to_case, Inq_resolved_without_case}"
  by (cases s) (simp_all add: isTerminal_iff inquiryMachine_def)

lemma inquiry_resolved_iff:
  "guardInquiryTransition from Inq_resolved_without_case e a = Allowed \<longleftrightarrow>
     truthy (ie_reason e) \<and> num_or_zero (ie_openCommitments e) \<le> 0 \<and>
     (from \<in> {Inq_duplicate_candidate, Inq_suspected_spam} \<longrightarrow> actor_kind a = Actor_staff) \<and>
     (from = Inq_duplicate_candidate \<longrightarrow> truthy (ie_duplicateOfInquiryId e))"
  by (auto simp: guardInquiryTransition_def guard_simps)

end
