(* ===== verification/Interest.thy ===== *)
theory Interest
  imports Capabilities
begin

text \<open>
  \<open>src/src/domain/interest.ts\<close>: the one current relationship between a case and a listing.
\<close>

datatype interestState = Int_suggested | Int_shortlisted | Int_viewing_requested | Int_viewed
  | Int_proposal | Int_declined | Int_unavailable

definition interestStates :: "interestState list" where
  "interestStates = [Int_suggested, Int_shortlisted, Int_viewing_requested, Int_viewed, Int_proposal,
     Int_declined, Int_unavailable]"

fun interestState_name :: "interestState \<Rightarrow> string" where
  "interestState_name Int_suggested = ''suggested''"
| "interestState_name Int_shortlisted = ''shortlisted''"
| "interestState_name Int_viewing_requested = ''viewing_requested''"
| "interestState_name Int_viewed = ''viewed''"
| "interestState_name Int_proposal = ''proposal''"
| "interestState_name Int_declined = ''declined''"
| "interestState_name Int_unavailable = ''unavailable''"

fun interestTable :: "interestState \<Rightarrow> interestState list" where
  "interestTable Int_suggested = [Int_shortlisted, Int_declined, Int_unavailable]"
| "interestTable Int_shortlisted = [Int_viewing_requested, Int_proposal, Int_declined, Int_unavailable]"
| "interestTable Int_viewing_requested = [Int_viewed, Int_shortlisted, Int_declined, Int_unavailable]"
| "interestTable Int_viewed = [Int_viewing_requested, Int_proposal, Int_declined, Int_unavailable]"
| "interestTable Int_proposal = [Int_viewed, Int_declined, Int_unavailable]"
| "interestTable Int_declined = [Int_shortlisted]"
| "interestTable Int_unavailable = [Int_suggested, Int_shortlisted]"

definition interestMachine :: "interestState machine" where
  "interestMachine = defineMachine interestStates interestTable"

record interestEvidence =
  ine_appointmentId :: "string option"
  ine_viewingCompleted :: "bool option"
  ine_proposalRevisionId :: "string option"
  ine_reason :: "string option"
  ine_listingChange :: "string option"

definition clientInterestTargets :: "interestState list" where
  "clientInterestTargets = [Int_shortlisted, Int_declined]"

definition guardInterestTransition ::
    "interestState \<Rightarrow> interestState \<Rightarrow> interestEvidence \<Rightarrow> actor \<Rightarrow> decision" where
  "guardInterestTransition from to e a =
     (if actor_kind a = Actor_client \<and> to \<notin> set clientInterestTargets then denied ''staff_required''
      else case to of
          Int_viewing_requested \<Rightarrow> need (truthy (ine_appointmentId e)) ''appointment_required''
        | Int_viewed \<Rightarrow> firstDenial
            [Some (need (truthy (ine_appointmentId e)) ''appointment_required''),
             Some (need (is_true (ine_viewingCompleted e)) ''viewing_not_completed'')]
        | Int_proposal \<Rightarrow> need (truthy (ine_proposalRevisionId e)) ''proposal_required''
        | Int_declined \<Rightarrow> need (truthy (ine_reason e)) ''reason_required''
        | Int_unavailable \<Rightarrow> need (truthy (ine_listingChange e)) ''listing_change_required''
        | _ \<Rightarrow> Allowed)"

record interestView =
  iv_listingId :: string
  iv_state :: interestState
  iv_listingRevisionId :: "string option"

definition isJudgedAgainstStaleRevision :: "interestView \<Rightarrow> string \<Rightarrow> bool" where
  "isJudgedAgainstStaleRevision i currentRevisionId =
     (iv_listingRevisionId i \<noteq> None \<and> iv_listingRevisionId i \<noteq> Some currentRevisionId)"

lemma interestMachine_wf: "wf_machine interestMachine"
  by (simp add: interestMachine_def wf_machine_def interestStates_def)

text \<open>An interest is never lost: from every state each other state can be reached again.\<close>

lemma interest_no_terminal: "\<not> isTerminal interestMachine s"
  by (cases s) (simp_all add: isTerminal_iff interestMachine_def)

lemma interest_back:
  "reaches interestMachine s Int_shortlisted" "reaches interestMachine Int_shortlisted s \<or> s = Int_suggested"
proof -
  note st = reaches_step [OF _ check_Allowed_iff [THEN iffD2]]
  have one: "reaches interestMachine s t" if "s \<noteq> t" "t \<in> set (interestTable s)" for s t
    by (rule st [OF reaches_refl]) (use that in \<open>simp add: interestMachine_def\<close>)
  show "reaches interestMachine s Int_shortlisted"
  proof (cases s)
    case Int_viewed
    then show ?thesis using reaches_trans [OF one [of Int_viewed Int_viewing_requested] one [of _ Int_shortlisted]] by simp
  next
    case Int_proposal
    then show ?thesis using reaches_trans [OF one [of Int_proposal Int_declined] one [of _ Int_shortlisted]] by simp
  qed (auto intro: one reaches_refl)
  show "reaches interestMachine Int_shortlisted s \<or> s = Int_suggested"
  proof (cases s)
    case Int_viewed
    then show ?thesis using reaches_trans [OF one [of Int_shortlisted Int_viewing_requested] one [of _ Int_viewed]] by simp
  qed (auto intro: one reaches_refl)
qed

lemma interest_client:
  assumes "guardInterestTransition from to e a = Allowed" "actor_kind a = Actor_client"
  shows "to \<in> {Int_shortlisted, Int_declined}"
  using assms by (auto simp: guardInterestTransition_def clientInterestTargets_def split: if_splits)

end
