(* ===== verification/ListingReadiness.thy ===== *)
theory ListingReadiness
  imports Facts
begin

text \<open>
  \<open>src/src/domain/listing-readiness.ts\<close>: which facts a listing needs before it can enter review, and
  which unknowns a visitor should be told to confirm.
\<close>

record factRecord =
  fr_fieldKey :: string
  fr_state :: factState
  fr_sourceClass :: sourceClass
  fr_reviewedAt :: "string option"

datatype readinessProblem = Problem_absent | Problem_undecided | Problem_unreviewed

record missingFact =
  mf_key :: string
  mf_problem :: readinessProblem
  mf_state :: "factState option"

definition decidedFactStates :: "factState list" where
  "decidedFactStates = [Fact_known, Fact_not_applicable, Fact_withheld]"

definition residential :: "propertyType list" where
  "residential = [Prop_apartment, Prop_house]"

definition requiredFactKeys :: "propertyType \<Rightarrow> string list" where
  "requiredFactKeys pt =
     [''price'', ''location'', ''area''] @ (if pt \<in> set residential then [''bedrooms''] else [])"

definition factsForKey :: "string \<Rightarrow> factRecord list \<Rightarrow> factRecord list" where
  "factsForKey key facts =
     (if key = ''area''
      then filter (\<lambda>f. fr_fieldKey f = ''area'' \<or> starts_with ''area.'' (fr_fieldKey f)) facts
      else filter (\<lambda>f. fr_fieldKey f = key) facts)"

definition needsHumanReview :: "factRecord \<Rightarrow> bool" where
  "needsHumanReview f =
     (fr_sourceClass f = Src_legacy_import \<and> \<not> truthy (fr_reviewedAt f) \<and>
      fr_state f \<in> set decidedFactStates)"

definition mustBeDecided :: "string \<Rightarrow> factState list option" where
  "mustBeDecided key =
     (if key = ''price'' then Some [Fact_known, Fact_withheld]
      else if key = ''location'' then Some [Fact_known] else None)"

definition fact_problem :: "string \<Rightarrow> factRecord \<Rightarrow> missingFact list" where
  "fact_problem key f =
     (if (case mustBeDecided key of None \<Rightarrow> False | Some ok \<Rightarrow> fr_state f \<notin> set ok)
      then [\<lparr>mf_key = fr_fieldKey f, mf_problem = Problem_undecided, mf_state = Some (fr_state f)\<rparr>]
      else if needsHumanReview f
      then [\<lparr>mf_key = fr_fieldKey f, mf_problem = Problem_unreviewed, mf_state = Some (fr_state f)\<rparr>]
      else [])"

definition missing_for_key :: "factRecord list \<Rightarrow> string \<Rightarrow> missingFact list" where
  "missing_for_key facts key =
     (let recorded = factsForKey key facts
      in if recorded = [] then [\<lparr>mf_key = key, mf_problem = Problem_absent, mf_state = None\<rparr>]
         else concat (map (fact_problem key) recorded))"

definition missingRequiredFacts :: "propertyType \<Rightarrow> factRecord list \<Rightarrow> missingFact list" where
  "missingRequiredFacts pt facts = concat (map (missing_for_key facts) (requiredFactKeys pt))"

fun decisionFeatures :: "propertyType \<Rightarrow> string list" where
  "decisionFeatures Prop_apartment =
     [''condition'', ''floor_number'', ''total_floors'', ''parking_kind'', ''construction_status'']"
| "decisionFeatures Prop_house =
     [''condition'', ''storeys_count'', ''parking_kind'', ''utilities_status'', ''road_access_status'']"
| "decisionFeatures Prop_plot =
     [''zoning_status'', ''permitted_use'', ''land_category'', ''utilities_status'', ''road_access_status'']"
| "decisionFeatures Prop_commercial = [''condition'', ''premises_count'', ''permitted_use'', ''parking_kind'']"
| "decisionFeatures Prop_hotel = [''condition'', ''hotel_room_count'', ''permitted_use'', ''parking_kind'']"
| "decisionFeatures Prop_development = [''construction_status'', ''permitted_use'', ''parking_kind'']"
| "decisionFeatures Prop_other = [''condition'']"

definition decisionFactKeys :: "propertyType \<Rightarrow> string list" where
  "decisionFactKeys pt =
     [''price'', ''area''] @ (if pt \<in> set residential then [''bedrooms'', ''rooms''] else []) @
     map (\<lambda>f. ''feature.'' @ f) (decisionFeatures pt)"

subsection \<open>When nothing is missing\<close>

text \<open>What the rule asks of one required key.\<close>

definition key_ready :: "factRecord list \<Rightarrow> string \<Rightarrow> bool" where
  "key_ready facts key \<longleftrightarrow>
     factsForKey key facts \<noteq> [] \<and>
     (\<forall>f \<in> set (factsForKey key facts).
        (case mustBeDecided key of None \<Rightarrow> True | Some ok \<Rightarrow> fr_state f \<in> set ok) \<and> \<not> needsHumanReview f)"

lemma fact_problem_Nil:
  "fact_problem key f = [] \<longleftrightarrow>
     (case mustBeDecided key of None \<Rightarrow> True | Some ok \<Rightarrow> fr_state f \<in> set ok) \<and> \<not> needsHumanReview f"
  by (auto simp: fact_problem_def split: option.splits)

lemma missing_for_key_Nil: "missing_for_key facts key = [] \<longleftrightarrow> key_ready facts key"
  by (auto simp: missing_for_key_def key_ready_def Let_def fact_problem_Nil)

lemma missingRequiredFacts_Nil:
  "missingRequiredFacts pt facts = [] \<longleftrightarrow> (\<forall>key \<in> set (requiredFactKeys pt). key_ready facts key)"
  by (simp add: missingRequiredFacts_def missing_for_key_Nil)

lemma factsForKey_simple:
  "key \<noteq> ''area'' \<Longrightarrow> set (factsForKey key facts) = {f \<in> set facts. fr_fieldKey f = key}"
  by (auto simp: factsForKey_def)

text \<open>A listing with nothing missing states a price or withholds it, and knows where it is.\<close>

lemma ready_price_location:
  assumes "missingRequiredFacts pt facts = []"
  shows "\<exists>f \<in> set facts. fr_fieldKey f = ''price'' \<and> fr_state f \<in> {Fact_known, Fact_withheld} \<and>
      \<not> needsHumanReview f"
    and "\<exists>f \<in> set facts. fr_fieldKey f = ''location'' \<and> fr_state f = Fact_known \<and> \<not> needsHumanReview f"
proof -
  have "key_ready facts ''price''" "key_ready facts ''location''"
    using assms unfolding missingRequiredFacts_Nil by (auto simp: requiredFactKeys_def)
  then obtain f g where
    "f \<in> set (factsForKey ''price'' facts)" "fr_state f \<in> {Fact_known, Fact_withheld}" "\<not> needsHumanReview f"
    "g \<in> set (factsForKey ''location'' facts)" "fr_state g = Fact_known" "\<not> needsHumanReview g"
    by (fastforce simp: key_ready_def mustBeDecided_def neq_Nil_conv)
  then show "\<exists>f \<in> set facts. fr_fieldKey f = ''price'' \<and> fr_state f \<in> {Fact_known, Fact_withheld} \<and>
      \<not> needsHumanReview f"
    "\<exists>f \<in> set facts. fr_fieldKey f = ''location'' \<and> fr_state f = Fact_known \<and> \<not> needsHumanReview f"
    by (auto simp: factsForKey_simple)
qed

end
