(* ===== verification/LocalizedRevision.thy ===== *)
theory LocalizedRevision
  imports Transition
begin

text \<open>
  \<open>src/src/domain/localized-revision.ts\<close>: one locale's copy bound to exactly one source revision.
\<close>

datatype localeState = Lcs_missing | Lcs_draft | Lcs_reviewing | Lcs_approved_for_source
  | Lcs_stale | Lcs_rejected

definition localeStates :: "localeState list" where
  "localeStates = [Lcs_missing, Lcs_draft, Lcs_reviewing, Lcs_approved_for_source, Lcs_stale, Lcs_rejected]"

fun localeState_name :: "localeState \<Rightarrow> string" where
  "localeState_name Lcs_missing = ''missing''"
| "localeState_name Lcs_draft = ''draft''"
| "localeState_name Lcs_reviewing = ''reviewing''"
| "localeState_name Lcs_approved_for_source = ''approved_for_source''"
| "localeState_name Lcs_stale = ''stale''"
| "localeState_name Lcs_rejected = ''rejected''"

fun localeTable :: "localeState \<Rightarrow> localeState list" where
  "localeTable Lcs_missing = [Lcs_draft]"
| "localeTable Lcs_draft = [Lcs_reviewing, Lcs_stale]"
| "localeTable Lcs_reviewing = [Lcs_approved_for_source, Lcs_rejected, Lcs_draft, Lcs_stale]"
| "localeTable Lcs_approved_for_source = [Lcs_stale]"
| "localeTable Lcs_stale = []"
| "localeTable Lcs_rejected = [Lcs_draft, Lcs_stale]"

definition localeMachine :: "localeState machine" where
  "localeMachine = defineMachine localeStates localeTable"

record localizedRevisionRecord =
  lr_locale :: publicLocale
  lr_state :: localeState
  lr_sourceRevisionId :: string

record localeEvidence =
  le_sourceRevisionId :: string
  le_currentSourceRevisionId :: string
  le_protectedFactsChecked :: "bool option"
  le_reason :: "string option"

definition guardLocaleTransition ::
    "localeState \<Rightarrow> localeState \<Rightarrow> localeEvidence \<Rightarrow> actor \<Rightarrow> decision" where
  "guardLocaleTransition from to e a =
     (let current = (le_sourceRevisionId e = le_currentSourceRevisionId e)
      in case to of
          Lcs_reviewing \<Rightarrow> need current ''source_revision_changed''
        | Lcs_approved_for_source \<Rightarrow> firstDenial
            [Some (need (actor_kind a = Actor_staff) ''human_required''),
             Some (need current ''source_revision_changed''),
             Some (need (is_true (le_protectedFactsChecked e)) ''protected_facts_unchecked'')]
        | Lcs_rejected \<Rightarrow> firstDenial
            [Some (need (actor_kind a = Actor_staff) ''human_required''),
             Some (need (truthy (le_reason e)) ''reason_required'')]
        | Lcs_stale \<Rightarrow> need (\<not> current) ''source_unchanged''
        | _ \<Rightarrow> Allowed)"

definition reviewTargets :: "localeState list" where
  "reviewTargets = [Lcs_approved_for_source, Lcs_rejected]"

definition localeTransitions :: "(localeState, localeEvidence) transitionSpec" where
  "localeTransitions =
     \<lparr>spec_recordType = ''localized_revision'', spec_machine = localeMachine,
      spec_capabilityFor = (\<lambda>from to a.
        if to \<in> set reviewTargets then Cap_translation_review else Cap_translation_draft),
      spec_guard = guardLocaleTransition, spec_name = localeState_name\<rparr>"

definition staleAfterSourceChange ::
    "localizedRevisionRecord list \<Rightarrow> string \<Rightarrow> localizedRevisionRecord list" where
  "staleAfterSourceChange revisions newSource =
     map (\<lambda>r. r\<lparr>lr_state := Lcs_stale\<rparr>)
       (filter (\<lambda>r. lr_sourceRevisionId r \<noteq> newSource \<and> check localeMachine (lr_state r) Lcs_stale = Allowed)
          revisions)"

definition isApprovedForSource :: "localizedRevisionRecord \<Rightarrow> string \<Rightarrow> bool" where
  "isApprovedForSource r currentSource =
     (lr_state r = Lcs_approved_for_source \<and> lr_sourceRevisionId r = currentSource)"

lemma localeMachine_wf: "wf_machine localeMachine"
  by (simp add: localeMachine_def wf_machine_def localeStates_def)

lemma localized_stale_iff:
  "check localeMachine s Lcs_stale = Allowed \<longleftrightarrow> s \<in> {Lcs_draft, Lcs_reviewing, Lcs_rejected, Lcs_approved_for_source}"
  by (cases s) (simp_all add: check_Allowed_iff localeMachine_def)

text \<open>What replaces the revisions when the source changes: the stale ones of a set, the others as they are.\<close>

definition after_source_change :: "localizedRevisionRecord list \<Rightarrow> string \<Rightarrow> localizedRevisionRecord list" where
  "after_source_change revisions newSource =
     map (\<lambda>r. if lr_sourceRevisionId r \<noteq> newSource \<and> check localeMachine (lr_state r) Lcs_stale = Allowed
       then r\<lparr>lr_state := Lcs_stale\<rparr> else r) revisions"

lemma staleAfterSourceChange_set:
  "set (staleAfterSourceChange rs new) =
     {r\<lparr>lr_state := Lcs_stale\<rparr> | r. r \<in> set rs \<and> lr_sourceRevisionId r \<noteq> new \<and>
        lr_state r \<notin> {Lcs_missing, Lcs_stale}}"
proof -
  have "check localeMachine s Lcs_stale = Allowed \<longleftrightarrow> s \<notin> {Lcs_missing, Lcs_stale}" for s
    by (cases s) (simp_all add: localized_stale_iff)
  then show ?thesis unfolding staleAfterSourceChange_def set_map set_filter by blast
qed

text \<open>No copy of another source stays servable.\<close>

lemma after_source_change_not_servable:
  assumes "r \<in> set (after_source_change rs new)" "lr_sourceRevisionId r \<noteq> new"
  shows "lr_state r \<in> {Lcs_missing, Lcs_stale}" "\<not> isApprovedForSource r src"
proof -
  have "check localeMachine s Lcs_stale = Allowed \<longleftrightarrow> s \<notin> {Lcs_missing, Lcs_stale}" for s
    by (cases s) (simp_all add: localized_stale_iff)
  note stale = this
  obtain x where "x \<in> set rs" and r: "r = (if lr_sourceRevisionId x \<noteq> new \<and>
      check localeMachine (lr_state x) Lcs_stale = Allowed then x\<lparr>lr_state := Lcs_stale\<rparr> else x)"
    using assms(1) unfolding after_source_change_def by auto
  show "lr_state r \<in> {Lcs_missing, Lcs_stale}"
    using r assms(2) stale by (cases "lr_state x \<in> {Lcs_missing, Lcs_stale}") (auto split: if_splits)
  then show "\<not> isApprovedForSource r src" by (auto simp: isApprovedForSource_def)
qed

lemma locale_approved_iff:
  "guardLocaleTransition from Lcs_approved_for_source e a = Allowed \<longleftrightarrow>
     actor_kind a = Actor_staff \<and> le_sourceRevisionId e = le_currentSourceRevisionId e \<and>
     is_true (le_protectedFactsChecked e)"
  by (auto simp: guardLocaleTransition_def Let_def guard_simps)

end
