(* ===== verification/Proposal.thy ===== *)
theory Proposal
  imports Transition Facts Json
begin

text \<open>
  \<open>src/src/domain/proposal.ts\<close>: proposal revisions. A change of the material terms invalidates the
  approval bound to them; a counterproposal is a new revision.
\<close>

datatype proposalState = Prop_draft | Prop_reviewed | Prop_submitted | Prop_awaiting_response
  | Prop_countered | Prop_declined | Prop_withdrawn | Prop_expired | Prop_agreed_for_next_step

definition proposalStates :: "proposalState list" where
  "proposalStates = [Prop_draft, Prop_reviewed, Prop_submitted, Prop_awaiting_response, Prop_countered,
     Prop_declined, Prop_withdrawn, Prop_expired, Prop_agreed_for_next_step]"

fun proposalState_name :: "proposalState \<Rightarrow> string" where
  "proposalState_name Prop_draft = ''draft''"
| "proposalState_name Prop_reviewed = ''reviewed''"
| "proposalState_name Prop_submitted = ''submitted''"
| "proposalState_name Prop_awaiting_response = ''awaiting_response''"
| "proposalState_name Prop_countered = ''countered''"
| "proposalState_name Prop_declined = ''declined''"
| "proposalState_name Prop_withdrawn = ''withdrawn''"
| "proposalState_name Prop_expired = ''expired''"
| "proposalState_name Prop_agreed_for_next_step = ''agreed_for_next_step''"

fun proposalTable :: "proposalState \<Rightarrow> proposalState list" where
  "proposalTable Prop_draft = [Prop_reviewed, Prop_withdrawn]"
| "proposalTable Prop_reviewed = [Prop_draft, Prop_submitted, Prop_withdrawn]"
| "proposalTable Prop_submitted = [Prop_awaiting_response, Prop_withdrawn]"
| "proposalTable Prop_awaiting_response =
     [Prop_countered, Prop_declined, Prop_withdrawn, Prop_expired, Prop_agreed_for_next_step]"
| "proposalTable Prop_countered = []"
| "proposalTable Prop_declined = []"
| "proposalTable Prop_withdrawn = []"
| "proposalTable Prop_expired = []"
| "proposalTable Prop_agreed_for_next_step = []"

definition proposalMachine :: "proposalState machine" where
  "proposalMachine = defineMachine proposalStates proposalTable"

record proposalTerms =
  pt_amountMinor :: int
  pt_currency :: currencyCode
  pt_period :: pricePeriod
  pt_paymentBasis :: string
  pt_conditions :: "string list"
  pt_inclusions :: "string list"
  pt_partyIds :: "string list"
  pt_deadlineAt :: string
  pt_deadlineTimezone :: string

fun period_name :: "pricePeriod \<Rightarrow> string" where
  "period_name Period_total = ''total''"
| "period_name Period_month = ''month''"

datatype proposalField = Pf_amountMinor | Pf_currency | Pf_period | Pf_conditions | Pf_partyIds
  | Pf_deadlineAt | Pf_deadlineTimezone

fun field_name :: "proposalField \<Rightarrow> string" where
  "field_name Pf_amountMinor = ''amountMinor''"
| "field_name Pf_currency = ''currency''"
| "field_name Pf_period = ''period''"
| "field_name Pf_conditions = ''conditions''"
| "field_name Pf_partyIds = ''partyIds''"
| "field_name Pf_deadlineAt = ''deadlineAt''"
| "field_name Pf_deadlineTimezone = ''deadlineTimezone''"

definition materialProposalFields :: "proposalField list" where
  "materialProposalFields = [Pf_amountMinor, Pf_currency, Pf_period, Pf_conditions, Pf_partyIds,
     Pf_deadlineAt, Pf_deadlineTimezone]"

text \<open>\<open>terms[field]\<close>\<close>

fun terms_field :: "proposalTerms \<Rightarrow> proposalField \<Rightarrow> json" where
  "terms_field t Pf_amountMinor = json_int (pt_amountMinor t)"
| "terms_field t Pf_currency = JString (currency_name (pt_currency t))"
| "terms_field t Pf_period = JString (period_name (pt_period t))"
| "terms_field t Pf_conditions = JArray (map JString (pt_conditions t))"
| "terms_field t Pf_partyIds = JArray (map JString (pt_partyIds t))"
| "terms_field t Pf_deadlineAt = JString (pt_deadlineAt t)"
| "terms_field t Pf_deadlineTimezone = JString (pt_deadlineTimezone t)"

definition materialChanges :: "proposalTerms \<Rightarrow> proposalTerms \<Rightarrow> proposalField list" where
  "materialChanges previous next =
     filter (\<lambda>f. canonicalJson (terms_field previous f) \<noteq> canonicalJson (terms_field next f))
       materialProposalFields"

definition proposalApprovalContent :: "proposalTerms \<Rightarrow> string" where
  "proposalApprovalContent terms =
     canonicalJson (JObject (map (\<lambda>f. (field_name f, terms_field terms f)) materialProposalFields))"

record proposalEvidence =
  pe_currentContent :: "string option"
  pe_approvedContent :: "string option"
  pe_superseded :: "bool option"
  pe_deadlineAt :: "string option"
  pe_now :: "string option"
  pe_responseRecordId :: "string option"
  pe_reason :: "string option"

definition clientProposalTargets :: "proposalState list" where
  "clientProposalTargets = [Prop_submitted, Prop_countered, Prop_declined, Prop_agreed_for_next_step]"

definition stale_checks :: "proposalState \<Rightarrow> proposalEvidence \<Rightarrow> decision" where
  "stale_checks to e =
     firstDenial
       [Some (need (\<not> is_true (pe_superseded e)) ''proposal_superseded''),
        (if to \<noteq> Prop_expired \<and> to \<noteq> Prop_withdrawn \<and> truthy (pe_deadlineAt e) \<and> truthy (pe_now e)
         then Some (need (date_lt (the_or [] (pe_now e)) (the_or [] (pe_deadlineAt e))) ''proposal_expired'')
         else None)]"

definition guardProposalTransition ::
    "proposalState \<Rightarrow> proposalState \<Rightarrow> proposalEvidence \<Rightarrow> actor \<Rightarrow> decision" where
  "guardProposalTransition from to e a =
     (if actor_kind a = Actor_client \<and> to \<notin> set clientProposalTargets then denied ''staff_required''
      else case stale_checks to e of Denied c \<Rightarrow> Denied c
        | Allowed \<Rightarrow>
          (case to of
             Prop_reviewed \<Rightarrow> firstDenial
               [Some (need (actor_kind a = Actor_staff) ''human_required''),
                Some (need (truthy (pe_currentContent e)) ''content_required'')]
           | Prop_submitted \<Rightarrow> firstDenial
               [Some (need (actor_kind a = Actor_staff \<or> actor_kind a = Actor_client) ''human_required''),
                Some (need (truthy (pe_approvedContent e) \<and> pe_approvedContent e = pe_currentContent e)
                  ''approval_invalidated_by_change'')]
           | Prop_countered \<Rightarrow> need (truthy (pe_responseRecordId e)) ''response_record_required''
           | Prop_declined \<Rightarrow> need (truthy (pe_responseRecordId e)) ''response_record_required''
           | Prop_agreed_for_next_step \<Rightarrow> need (truthy (pe_responseRecordId e)) ''response_record_required''
           | Prop_expired \<Rightarrow> need (truthy (pe_deadlineAt e) \<and> truthy (pe_now e) \<and>
               date_ge (the_or [] (pe_now e)) (the_or [] (pe_deadlineAt e))) ''deadline_not_passed''
           | Prop_withdrawn \<Rightarrow> need (truthy (pe_reason e)) ''reason_required''
           | _ \<Rightarrow> (if from = Prop_reviewed then need (truthy (pe_reason e)) ''reason_required'' else Allowed)))"

definition proposalTransitions :: "(proposalState, proposalEvidence) transitionSpec" where
  "proposalTransitions =
     \<lparr>spec_recordType = ''proposal'', spec_machine = proposalMachine,
      spec_capabilityFor = (\<lambda>from to a. if actor_kind a = Actor_client
        then Cap_portal_proposal_respond else Cap_proposal_manage),
      spec_guard = guardProposalTransition, spec_name = proposalState_name\<rparr>"

subsection \<open>What the approval covers\<close>

lemma proposalMachine_wf: "wf_machine proposalMachine"
  by (simp add: proposalMachine_def wf_machine_def proposalStates_def)

text \<open>The terms an approval is bound to: everything but the payment basis and the inclusions.\<close>

definition material_terms where
  "material_terms t = (pt_amountMinor t, pt_currency t, pt_period t, pt_conditions t, pt_partyIds t,
     pt_deadlineAt t, pt_deadlineTimezone t)"

lemma period_name_inj [simp]: "period_name a = period_name b \<longleftrightarrow> a = b"
  by (cases a; cases b) simp_all

lemma terms_field_wf: "wf_json (terms_field t f)" "terms_field t f \<noteq> JUndefined"
  by (cases f; simp add: list_all_iff)+

lemma terms_field_content:
  "(\<forall>f. content_of (terms_field p f) = content_of (terms_field n f)) \<longleftrightarrow> material_terms p = material_terms n"
proof -
  have "(\<forall>f. P f) \<longleftrightarrow> P Pf_amountMinor \<and> P Pf_currency \<and> P Pf_period \<and> P Pf_conditions \<and> P Pf_partyIds \<and>
      P Pf_deadlineAt \<and> P Pf_deadlineTimezone" for P
    by (metis (full_types) proposalField.exhaust)
  then show ?thesis
    by (simp only: terms_field.simps content_simps content_strings material_terms_def currency_name_inj
        period_name_inj prod.inject)
qed

lemma materialProposalFields_all: "f \<in> set materialProposalFields"
  by (cases f) (simp_all add: materialProposalFields_def)

lemma materialChanges_Nil: "materialChanges p n = [] \<longleftrightarrow> material_terms p = material_terms n"
  using terms_field_content [of p n] materialProposalFields_all
  by (auto simp: materialChanges_def filter_empty_conv canonicalJson_iff terms_field_wf)

lemma proposalApprovalContent_iff:
  "proposalApprovalContent p = proposalApprovalContent n \<longleftrightarrow> material_terms p = material_terms n"
proof -
  let ?es = "\<lambda>t. map (\<lambda>f. (field_name f, terms_field t f)) materialProposalFields"
  have d: "distinct (map fst (?es t))" for t by (simp add: materialProposalFields_def)
  have wf: "wf_json (JObject (?es t))" for t using d terms_field_wf by (auto simp: list_all_iff)
  have lookup: "map_of (?es t) (field_name f) = Some (terms_field t f)" for t f
    by (rule map_of_is_SomeI [OF d]) (use materialProposalFields_all in auto)
  have content: "content_of (JObject (?es t)) = CObject (\<lambda>k. map_option content_of (map_of (?es t) k))" for t
    by (rule content_of_object [OF d]) (use terms_field_wf in auto)
  have "(\<lambda>k. map_option content_of (map_of (?es p) k)) = (\<lambda>k. map_option content_of (map_of (?es n) k)) \<longleftrightarrow>
      (\<forall>f. content_of (terms_field p f) = content_of (terms_field n f))" (is "?l \<longleftrightarrow> ?r")
  proof
    assume ?l
    then have "map_option content_of (Some (terms_field p f)) = map_option content_of (Some (terms_field n f))" for f
      using fun_cong [of _ _ "field_name f"] lookup by metis
    then show ?r by simp
  next
    assume ?r
    then show ?l by (simp add: materialProposalFields_def fun_eq_iff del: terms_field.simps content_of.simps)
  qed
  then show ?thesis
    unfolding proposalApprovalContent_def canonicalJson_iff [OF wf wf] content
    using terms_field_content by simp
qed

lemma proposal_submitted_iff:
  "guardProposalTransition from Prop_submitted e a = Allowed \<longleftrightarrow>
     (actor_kind a = Actor_staff \<or> actor_kind a = Actor_client) \<and> \<not> is_true (pe_superseded e) \<and>
     truthy (pe_approvedContent e) \<and> pe_approvedContent e = pe_currentContent e \<and>
     (truthy (pe_deadlineAt e) \<and> truthy (pe_now e) \<longrightarrow>
        date_lt (the_or [] (pe_now e)) (the_or [] (pe_deadlineAt e)))"
  by (auto simp: guardProposalTransition_def clientProposalTargets_def stale_checks_def guard_simps
      split: if_splits)

end
