(* ===== verification/Approval.thy ===== *)
theory Approval
  imports Capabilities Json
begin

text \<open>
  \<open>src/src/domain/approval.ts\<close>: approvals bound to an exact subject revision by its digest. The
  digest itself (SHA-256 of \<open>canonicalJson\<close>, theory \<open>Json\<close>) is a string here.
\<close>

datatype approvalState = Apv_pending | Apv_approved | Apv_rejected | Apv_invalidated | Apv_expired
  | Apv_withdrawn

definition approvalStates :: "approvalState list" where
  "approvalStates = [Apv_pending, Apv_approved, Apv_rejected, Apv_invalidated, Apv_expired, Apv_withdrawn]"

fun approvalTable :: "approvalState \<Rightarrow> approvalState list" where
  "approvalTable Apv_pending = [Apv_approved, Apv_rejected, Apv_withdrawn]"
| "approvalTable Apv_approved = [Apv_invalidated, Apv_expired]"
| "approvalTable Apv_rejected = []"
| "approvalTable Apv_invalidated = []"
| "approvalTable Apv_expired = []"
| "approvalTable Apv_withdrawn = []"

definition approvalMachine :: "approvalState machine" where
  "approvalMachine = defineMachine approvalStates approvalTable"

datatype approvalKind = Apk_factual | Apk_editorial | Apk_language | Apk_legal_process_claim
  | Apk_owner_acknowledgment | Apk_publication | Apk_message_send | Apk_proposal_terms
  | Apk_locale_indexability | Apk_import_apply | Apk_legacy_source_as_is | Apk_legacy_content_approval

definition approvalKinds :: "approvalKind list" where
  "approvalKinds = [Apk_factual, Apk_editorial, Apk_language, Apk_legal_process_claim,
     Apk_owner_acknowledgment, Apk_publication, Apk_message_send, Apk_proposal_terms,
     Apk_locale_indexability, Apk_import_apply, Apk_legacy_source_as_is, Apk_legacy_content_approval]"

fun approvalCapability :: "approvalKind \<Rightarrow> capability" where
  "approvalCapability Apk_factual = Cap_listing_review_facts"
| "approvalCapability Apk_editorial = Cap_listing_review_facts"
| "approvalCapability Apk_language = Cap_translation_review"
| "approvalCapability Apk_legal_process_claim = Cap_claim_approve"
| "approvalCapability Apk_owner_acknowledgment = Cap_portal_listing_acknowledge"
| "approvalCapability Apk_publication = Cap_publication_release"
| "approvalCapability Apk_message_send = Cap_message_send_external"
| "approvalCapability Apk_proposal_terms = Cap_proposal_manage"
| "approvalCapability Apk_locale_indexability = Cap_settings_manage"
| "approvalCapability Apk_import_apply = Cap_import_run"
| "approvalCapability Apk_legacy_source_as_is = Cap_import_run"
| "approvalCapability Apk_legacy_content_approval = Cap_import_run"

record approvalSubject =
  subj_type :: string
  subj_id :: string
  subj_version :: int
  subj_hash :: string

record approval =
  apv_kind :: approvalKind
  apv_subject :: approvalSubject
  apv_state :: approvalState
  apv_decidedBy :: "string option"

text \<open>\<open>Approval & { expiresAt?: string }\<close>\<close>

record expiringApproval = approval +
  apv_expiresAt :: "string option"

record decisionContext =
  dc_actor :: actor
  dc_currentHash :: string
  dc_authorId :: "string option"
  dc_independentReviewRequired :: "bool option"

datatype approvalVerdict = Verdict_approved | Verdict_rejected

fun verdict_state :: "approvalVerdict \<Rightarrow> approvalState" where
  "verdict_state Verdict_approved = Apv_approved"
| "verdict_state Verdict_rejected = Apv_rejected"

definition guardApprovalDecision ::
    "('z) approval_scheme \<Rightarrow> approvalVerdict \<Rightarrow> decisionContext \<Rightarrow> decision" where
  "guardApprovalDecision ap to ctx =
     firstDenial
       [Some (check approvalMachine (apv_state ap) (verdict_state to)),
        Some (need (actor_kind (dc_actor ctx) = Actor_staff \<or> actor_kind (dc_actor ctx) = Actor_client)
          ''human_required''),
        Some (need (subj_hash (apv_subject ap) = dc_currentHash ctx) ''subject_changed''),
        (if is_true (dc_independentReviewRequired ctx)
         then Some (firstDenial
           [Some (need (truthy (dc_authorId ctx)) ''author_unknown''),
            (if dc_authorId ctx = Some (actor_id (dc_actor ctx))
             then Some (denied ''independent_review_required'') else None)])
         else None)]"

definition isApprovalValid ::
    "('z) expiringApproval_scheme \<Rightarrow> string \<Rightarrow> string option \<Rightarrow> bool" where
  "isApprovalValid ap currentHash now =
     (if apv_state ap \<noteq> Apv_approved \<or> subj_hash (apv_subject ap) \<noteq> currentHash then False
      else \<not> truthy (apv_expiresAt ap) \<or>
        (case now of None \<Rightarrow> False | Some n \<Rightarrow> date_lt n (the_or [] (apv_expiresAt ap))))"

definition invalidateIfChanged :: "('z) approval_scheme \<Rightarrow> string \<Rightarrow> ('z) approval_scheme" where
  "invalidateIfChanged ap currentHash =
     (if apv_state ap = Apv_approved \<and> subj_hash (apv_subject ap) \<noteq> currentHash
      then ap\<lparr>apv_state := Apv_invalidated\<rparr> else ap)"

subsection \<open>What an approval binds\<close>

lemma approvalMachine_wf: "wf_machine approvalMachine"
  by (simp add: approvalMachine_def wf_machine_def approvalStates_def)

lemma guardApprovalDecision_iff:
  "guardApprovalDecision ap to ctx = Allowed \<longleftrightarrow>
     apv_state ap = Apv_pending \<and> actor_kind (dc_actor ctx) \<in> {Actor_staff, Actor_client} \<and>
     subj_hash (apv_subject ap) = dc_currentHash ctx \<and>
     (is_true (dc_independentReviewRequired ctx) \<longrightarrow>
        (\<exists>author. dc_authorId ctx = Some author \<and> author \<noteq> [] \<and> author \<noteq> actor_id (dc_actor ctx)))"
proof -
  have "check approvalMachine (apv_state ap) (verdict_state to) = Allowed \<longleftrightarrow> apv_state ap = Apv_pending"
    by (cases "apv_state ap"; cases to) (simp_all add: check_Allowed_iff approvalMachine_def)
  then show ?thesis
    by (cases "dc_authorId ctx") (auto simp: guardApprovalDecision_def guard_simps)
qed

lemma isApprovalValid_hash: "isApprovalValid ap h now \<Longrightarrow> subj_hash (apv_subject ap) = h"
  by (simp add: isApprovalValid_def split: if_splits)

text \<open>Once the subject has changed, an approval is never valid for it, whatever its expiry.\<close>

lemma invalidateIfChanged_invalid:
  assumes "subj_hash (apv_subject ap) \<noteq> h"
  shows "apv_state (invalidateIfChanged ap h) \<noteq> Apv_approved"
  using assms by (simp add: invalidateIfChanged_def)

lemma invalidateIfChanged_move:
  "invalidateIfChanged ap h = ap \<or>
     check approvalMachine (apv_state ap) (apv_state (invalidateIfChanged ap h)) = Allowed"
  by (simp add: invalidateIfChanged_def check_Allowed_iff approvalMachine_def)

lemma invalidateIfChanged_idem: "invalidateIfChanged (invalidateIfChanged ap h) h = invalidateIfChanged ap h"
  by (simp add: invalidateIfChanged_def)

end
