(* ===== verification/Money.thy ===== *)
theory Money
  imports Ids
begin

text \<open>
  \<open>src/src/domain/money.ts\<close>: canonical decimal notation to integer minor units and back. \<open>NaN\<close> and a
  thrown \<open>RangeError\<close> are \<open>None\<close>.
\<close>

text \<open>\<open>/^\d+(?:\.\d+)?$/\<close> together with \<open>value.split(".")\<close>: the whole part and the fraction.\<close>

definition decimal_split :: "string \<Rightarrow> (string \<times> string) option" where
  "decimal_split s =
     (let whole = takeWhile is_digit s; rest = dropWhile is_digit s
      in if whole = [] then None
         else case rest of [] \<Rightarrow> Some (whole, [])
           | c # fraction \<Rightarrow>
               if c = CHR ''.'' \<and> fraction \<noteq> [] \<and> all_digits fraction then Some (whole, fraction)
               else None)"

definition decimalToMinor :: "string \<Rightarrow> currencyCode \<Rightarrow> int option" where
  "decimalToMinor value cur =
     (if 32 < length value then None
      else case decimal_split value of None \<Rightarrow> None
        | Some (whole, fraction) \<Rightarrow>
            (let digits = currencyMinorDigits cur
             in if digits < length fraction then None
                else (let minor = dec_val (whole @ pad_end digits CHR ''0'' fraction)
                      in if minor \<le> max_safe_integer then Some minor else None)))"

definition minorToDecimal :: "int \<Rightarrow> currencyCode \<Rightarrow> string option" where
  "minorToDecimal amount cur =
     (if \<not> is_safe_integer amount \<or> amount < 0 then None
      else (let digits = currencyMinorDigits cur;
                value = pad_start (digits + 1) CHR ''0'' (show_dec (nat amount))
            in Some (if digits \<noteq> 0
                 then take (length value - digits) value @ ''.'' @ drop (length value - digits) value
                 else value)))"

lemma takeWhile_digits: "all_digits s \<Longrightarrow> \<not> is_digit c \<Longrightarrow> takeWhile is_digit (s @ c # t) = s"
  by (induction s) auto

lemma dropWhile_digits: "all_digits s \<Longrightarrow> \<not> is_digit c \<Longrightarrow> dropWhile is_digit (s @ c # t) = c # t"
  by (induction s) auto

lemma decimal_split_point:
  assumes "all_digits w" "w \<noteq> []" "all_digits f" "f \<noteq> []"
  shows "decimal_split (w @ ''.'' @ f) = Some (w, f)"
proof -
  have "\<not> is_digit CHR ''.''" by (simp add: is_digit_def)
  then show ?thesis
    using assms by (simp add: decimal_split_def takeWhile_digits dropWhile_digits)
qed

lemma all_digits_take: "all_digits s \<Longrightarrow> all_digits (take n s)"
  by (auto simp: all_digits_def list_all_iff dest: in_set_takeD)

lemma all_digits_drop: "all_digits s \<Longrightarrow> all_digits (drop n s)"
  by (auto simp: all_digits_def list_all_iff dest: in_set_dropD)

lemma decimalToMinor_range:
  assumes "decimalToMinor v c = Some n"
  shows "0 \<le> n" "n \<le> max_safe_integer"
proof -
  obtain w f where s: "decimal_split v = Some (w, f)"
    and n: "n = dec_val (w @ pad_end 2 CHR ''0'' f)" "n \<le> max_safe_integer"
    using assms by (auto simp: decimalToMinor_def Let_def split: if_splits option.splits)
  have "all_digits w" using s
    by (auto simp: decimal_split_def Let_def all_digits_def list_all_iff
        dest: set_takeWhileD split: if_splits list.splits)
  moreover have "all_digits f" using s
    by (auto simp: decimal_split_def Let_def split: if_splits list.splits)
  ultimately show "0 \<le> n" unfolding n(1) by (intro dec_val_nonneg) (simp add: pad_end_def)
  show "n \<le> max_safe_integer" by (rule n(2))
qed

lemma decimal_roundtrip:
  assumes "minorToDecimal n c = Some s"
  shows "decimalToMinor s c = Some n"
proof -
  have n: "0 \<le> n" "n \<le> max_safe_integer"
    using assms by (auto simp: minorToDecimal_def is_safe_integer_def split: if_splits)
  define v where "v = pad_start 3 CHR ''0'' (show_dec (nat n))"
  define k where "k = length v - 2"
  have s: "s = take k v @ ''.'' @ drop k v"
    using assms by (auto simp: minorToDecimal_def Let_def v_def k_def eval_nat_numeral split: if_splits)
  have len: "3 \<le> length v" "k = length v - 2" "length (drop k v) = 2"
    by (simp_all add: v_def k_def)
  have dig: "all_digits v" by (simp add: v_def)
  have "nat n < 10 ^ 16" using n by (simp add: max_safe_integer_def)
  then have "length (show_dec (nat n)) \<le> 16" by (rule length_show_dec) simp
  then have short: "length s \<le> 32" by (simp add: s v_def)
  have "decimal_split s = Some (take k v, drop k v)"
    unfolding s using len dig by (intro decimal_split_point)
      (auto simp: all_digits_take all_digits_drop)
  moreover have "pad_end 2 CHR ''0'' (drop k v) = drop k v" using len by (simp add: pad_end_def)
  moreover have "dec_val v = n" using n by (simp add: v_def)
  ultimately show ?thesis using short len n by (simp add: decimalToMinor_def)
qed

end
