(* ===== verification/Publication.thy ===== *)
theory Publication
  imports Listing
begin

text \<open>
  \<open>src/src/domain/publication.ts\<close>: immutable manifests, one current pointer per listing, locale and
  destination, the publication generation of the listing, and the delivery to each destination.
\<close>

datatype publicationState = Pub_never_published | Pub_eligible | Pub_active | Pub_restricted | Pub_withdrawn

definition publicationStates :: "publicationState list" where
  "publicationStates = [Pub_never_published, Pub_eligible, Pub_active, Pub_restricted, Pub_withdrawn]"

fun publicationTable :: "publicationState \<Rightarrow> publicationState list" where
  "publicationTable Pub_never_published = [Pub_eligible]"
| "publicationTable Pub_eligible = [Pub_active, Pub_never_published]"
| "publicationTable Pub_active = [Pub_restricted, Pub_withdrawn]"
| "publicationTable Pub_restricted = [Pub_active, Pub_withdrawn]"
| "publicationTable Pub_withdrawn = [Pub_eligible]"

definition publicationMachine :: "publicationState machine" where
  "publicationMachine = defineMachine publicationStates publicationTable"

datatype pointerState = Ptr_active | Ptr_restricted | Ptr_withdrawn

definition pointerStates :: "pointerState list" where
  "pointerStates = [Ptr_active, Ptr_restricted, Ptr_withdrawn]"

datatype publicationDestination = Dest_website | Dest_manual_portal

definition publicationDestinations :: "publicationDestination list" where
  "publicationDestinations = [Dest_website, Dest_manual_portal]"

datatype deliveryKind = Deliver_publish | Deliver_withdraw

definition deliveryKinds :: "deliveryKind list" where
  "deliveryKinds = [Deliver_publish, Deliver_withdraw]"

datatype deliveryState = Dlv_queued | Dlv_attempting | Dlv_acknowledged | Dlv_verified | Dlv_failed
  | Dlv_outcome_unknown | Dlv_withdrawing | Dlv_withdrawn

definition deliveryStates :: "deliveryState list" where
  "deliveryStates = [Dlv_queued, Dlv_attempting, Dlv_acknowledged, Dlv_verified, Dlv_failed,
     Dlv_outcome_unknown, Dlv_withdrawing, Dlv_withdrawn]"

fun deliveryTable :: "deliveryState \<Rightarrow> deliveryState list" where
  "deliveryTable Dlv_queued = [Dlv_attempting, Dlv_withdrawing]"
| "deliveryTable Dlv_attempting = [Dlv_acknowledged, Dlv_failed, Dlv_outcome_unknown]"
| "deliveryTable Dlv_acknowledged = [Dlv_verified, Dlv_failed, Dlv_withdrawing]"
| "deliveryTable Dlv_verified = [Dlv_withdrawing]"
| "deliveryTable Dlv_failed = [Dlv_queued, Dlv_withdrawing]"
| "deliveryTable Dlv_outcome_unknown = [Dlv_acknowledged, Dlv_verified, Dlv_failed, Dlv_withdrawing]"
| "deliveryTable Dlv_withdrawing = [Dlv_withdrawn, Dlv_failed, Dlv_outcome_unknown]"
| "deliveryTable Dlv_withdrawn = [Dlv_queued]"

definition deliveryMachine :: "deliveryState machine" where
  "deliveryMachine = defineMachine deliveryStates deliveryTable"

record deliveryOutcome =
  dvo_destination :: publicationDestination
  dvo_locale :: publicLocale
  dvo_state :: deliveryState

text \<open>What is retried, and what is reconciled first.\<close>

definition planDeliveryRepair :: "deliveryOutcome list \<Rightarrow> deliveryOutcome list \<times> deliveryOutcome list" where
  "planDeliveryRepair outcomes =
     (filter (\<lambda>o1. dvo_state o1 = Dlv_failed) outcomes,
      filter (\<lambda>o1. dvo_state o1 = Dlv_outcome_unknown) outcomes)"

subsection \<open>Activation\<close>

text \<open>\<open>ai_regulatedClaimsReviewed\<close> is \<open>None\<close> for \<open>"not_applicable"\<close>.\<close>

record activationInput =
  ai_locale :: publicLocale
  ai_manifestGeneration :: int
  ai_currentGeneration :: int
  ai_commercial :: commercialState
  ai_factReviewValid :: bool
  ai_revisionApprovalValid :: bool
  ai_sellerInstructionValid :: bool
  ai_localeApprovedForSource :: bool
  ai_mediaEligible :: bool
  ai_regulatedClaimsReviewed :: "bool option"

definition checkActivation :: "activationInput \<Rightarrow> actor \<Rightarrow> decision" where
  "checkActivation i a =
     firstDenial
       [Some (need (actor_kind a = Actor_staff) ''human_required''),
        Some (need (ai_manifestGeneration i = ai_currentGeneration i) ''generation_superseded''),
        Some (need (ai_commercial i \<noteq> Com_withdrawn) ''listing_withdrawn''),
        Some (need (ai_factReviewValid i) ''fact_review_required''),
        Some (need (ai_revisionApprovalValid i) ''approval_stale''),
        Some (need (ai_sellerInstructionValid i) ''seller_instruction_required''),
        Some (need (ai_locale i = sourceLocale \<or> ai_localeApprovedForSource i) ''locale_not_approved_for_source''),
        Some (need (ai_mediaEligible i) ''media_not_eligible''),
        Some (need (ai_regulatedClaimsReviewed i \<noteq> Some False) ''professional_review_required'')]"

lemma checkActivation_iff:
  "checkActivation i a = Allowed \<longleftrightarrow>
     actor_kind a = Actor_staff \<and> ai_manifestGeneration i = ai_currentGeneration i \<and>
     ai_commercial i \<noteq> Com_withdrawn \<and> ai_factReviewValid i \<and> ai_revisionApprovalValid i \<and>
     ai_sellerInstructionValid i \<and> (ai_locale i = sourceLocale \<or> ai_localeApprovedForSource i) \<and>
     ai_mediaEligible i \<and> ai_regulatedClaimsReviewed i \<noteq> Some False"
  by (auto simp: checkActivation_def guard_simps)

subsection \<open>Generation fencing\<close>

record deliveryJob =
  dj_kind :: deliveryKind
  dj_manifestId :: string
  dj_generation :: int

record pointerView =
  pv_state :: pointerState
  pv_manifestId :: string

definition fenceDelivery :: "deliveryJob \<Rightarrow> int \<Rightarrow> pointerView option \<Rightarrow> decision" where
  "fenceDelivery job currentGeneration pointer =
     (if dj_generation job \<noteq> currentGeneration then denied ''generation_superseded''
      else if dj_kind job = Deliver_withdraw
      then need (map_option pv_state pointer \<noteq> Some Ptr_active) ''pointer_active''
      else firstDenial
        [Some (need (map_option pv_state pointer = Some Ptr_active) ''pointer_not_active''),
         Some (need (map_option pv_manifestId pointer = Some (dj_manifestId job)) ''manifest_superseded'')])"

lemma fenceDelivery_publish_iff:
  "dj_kind job = Deliver_publish \<Longrightarrow> fenceDelivery job g pointer = Allowed \<longleftrightarrow>
     dj_generation job = g \<and>
     (\<exists>p. pointer = Some p \<and> pv_state p = Ptr_active \<and> pv_manifestId p = dj_manifestId job)"
  by (cases pointer) (auto simp: fenceDelivery_def guard_simps)

lemma fenceDelivery_withdraw_iff:
  "dj_kind job = Deliver_withdraw \<Longrightarrow> fenceDelivery job g pointer = Allowed \<longleftrightarrow>
     dj_generation job = g \<and> (\<forall>p. pointer = Some p \<longrightarrow> pv_state p \<noteq> Ptr_active)"
  by (cases pointer) (auto simp: fenceDelivery_def)

subsection \<open>Restriction and withdrawal\<close>

record pointerDependency =
  pd_locale :: publicLocale
  pd_destination :: publicationDestination
  pd_state :: pointerState
  pd_provenUnaffected :: bool

record restrictionPlan =
  rp_nextGeneration :: int
  rp_restrict :: "pointerDependency list"
  rp_keep :: "pointerDependency list"

definition planMaterialRestriction :: "pointerDependency list \<Rightarrow> int \<Rightarrow> restrictionPlan" where
  "planMaterialRestriction pointers generation =
     (let active = filter (\<lambda>p. pd_state p = Ptr_active) pointers
      in \<lparr>rp_nextGeneration = generation + 1, rp_restrict = filter (\<lambda>p. \<not> pd_provenUnaffected p) active,
          rp_keep = filter pd_provenUnaffected active\<rparr>)"

text \<open>The next generation and the pointers to withdraw.\<close>

definition planWithdrawal :: "pointerDependency list \<Rightarrow> int \<Rightarrow> int \<times> pointerDependency list" where
  "planWithdrawal pointers generation = (generation + 1, filter (\<lambda>p. pd_state p \<noteq> Ptr_withdrawn) pointers)"

lemma planMaterialRestriction_parts:
  "set (rp_restrict (planMaterialRestriction ps g)) \<union> set (rp_keep (planMaterialRestriction ps g)) =
     {p \<in> set ps. pd_state p = Ptr_active}"
  "set (rp_restrict (planMaterialRestriction ps g)) \<inter> set (rp_keep (planMaterialRestriction ps g)) = {}"
  by (auto simp: planMaterialRestriction_def Let_def)

subsection \<open>Public presentation\<close>

datatype primaryAction = Act_request_viewing | Act_ask_question | Act_view_similar

datatype surface = Surface_listing | Surface_unavailable | Surface_not_found

record publicPresentation =
  pp_visible :: bool
  pp_indexable :: bool
  pp_surface :: surface
  pp_availability :: commercialState
  pp_primaryAction :: primaryAction

fun primaryActionFor :: "commercialState \<Rightarrow> primaryAction" where
  "primaryActionFor Com_available = Act_request_viewing"
| "primaryActionFor Com_confirmation_required = Act_ask_question"
| "primaryActionFor Com_negotiating = Act_ask_question"
| "primaryActionFor Com_reserved_with_recorded_basis = Act_ask_question"
| "primaryActionFor Com_sold = Act_view_similar"
| "primaryActionFor Com_let = Act_view_similar"
| "primaryActionFor Com_withdrawn = Act_view_similar"

definition derivePublicPresentation ::
    "pointerState option \<Rightarrow> commercialState \<Rightarrow> freshnessState \<Rightarrow> bool \<Rightarrow> publicPresentation" where
  "derivePublicPresentation pointer commercial freshness localeIndexable =
     (let visible = (pointer = Some Ptr_active); availability = presentedAvailability commercial freshness
      in \<lparr>pp_visible = visible, pp_indexable = (visible \<and> localeIndexable),
          pp_surface = (if visible then Surface_listing else if pointer = None then Surface_not_found
            else Surface_unavailable),
          pp_availability = availability, pp_primaryAction = primaryActionFor availability\<rparr>)"

lemma viewing_offered_iff:
  "pp_primaryAction (derivePublicPresentation p c f li) = Act_request_viewing \<longleftrightarrow>
     c = Com_available \<and> f = Fresh_current_under_policy"
  by (cases c; cases f; simp add: derivePublicPresentation_def presentedAvailability_def Let_def)

lemma publicationMachine_wf: "wf_machine publicationMachine"
  by (simp add: publicationMachine_def wf_machine_def publicationStates_def)

lemma deliveryMachine_wf: "wf_machine deliveryMachine"
  by (simp add: deliveryMachine_def wf_machine_def deliveryStates_def)

end
