(* ===== verification/SellerInstruction.thy ===== *)
theory SellerInstruction
  imports Facts Capabilities Dates
begin

text \<open>
  \<open>src/src/domain/seller-instruction.ts\<close>: the seller's recorded instruction, the evidence each of its
  moves needs, and when it permits publication.
\<close>

datatype sellerInstructionState = Si_draft | Si_agreed | Si_superseded | Si_withdrawn | Si_expired

definition sellerInstructionStates :: "sellerInstructionState list" where
  "sellerInstructionStates = [Si_draft, Si_agreed, Si_superseded, Si_withdrawn, Si_expired]"

fun sellerInstructionTable :: "sellerInstructionState \<Rightarrow> sellerInstructionState list" where
  "sellerInstructionTable Si_draft = [Si_agreed, Si_withdrawn]"
| "sellerInstructionTable Si_agreed = [Si_superseded, Si_withdrawn, Si_expired]"
| "sellerInstructionTable Si_superseded = []"
| "sellerInstructionTable Si_withdrawn = []"
| "sellerInstructionTable Si_expired = []"

definition sellerInstructionMachine :: "sellerInstructionState machine" where
  "sellerInstructionMachine = defineMachine sellerInstructionStates sellerInstructionTable"

datatype representationScope = Scope_sale | Scope_letting | Scope_sale_and_letting

datatype exclusivity = Exc_exclusive | Exc_non_exclusive | Exc_not_recorded

record sellerInstructionContent =
  sc_price :: "money option"
  sc_notes :: "string option"
  sc_publicPrecision :: locationPrecision
  sc_mediaGranted :: bool
  sc_mediaScope :: "string option"
  sc_representationScope :: representationScope
  sc_exclusivity :: exclusivity
  sc_commissionTerms :: "string option"
  sc_publicationPermission :: bool
  sc_expiresAt :: "string option"

record sellerInstructionEvidence =
  sie_evidenceDocumentIds :: "string list option"
  sie_content :: "sellerInstructionContent option"
  sie_replacementId :: "string option"
  sie_reason :: "string option"

definition guardSellerInstructionTransition ::
    "sellerInstructionState \<Rightarrow> sellerInstructionState \<Rightarrow> sellerInstructionEvidence \<Rightarrow> actor \<Rightarrow> decision" where
  "guardSellerInstructionTransition from to e a = (case to of
       Si_agreed \<Rightarrow> firstDenial
         [Some (need (actor_kind a = Actor_staff) ''human_required''),
          Some (need (truthy_list (sie_evidenceDocumentIds e)) ''agreement_evidence_required''),
          Some (need (sie_content e \<noteq> None) ''instruction_content_required''),
          Some (need (truthy (map_option trim (Option.bind (sie_content e) sc_commissionTerms)))
            ''commission_terms_required'')]
     | Si_superseded \<Rightarrow> need (truthy (sie_replacementId e)) ''replacement_required''
     | Si_withdrawn \<Rightarrow> need (truthy (sie_reason e)) ''reason_required''
     | _ \<Rightarrow> Allowed)"

definition permitsPublication :: "sellerInstructionState \<Rightarrow> sellerInstructionContent \<Rightarrow> string \<Rightarrow> bool" where
  "permitsPublication state content now =
     (state = Si_agreed \<and> sc_publicationPermission content \<and>
      (\<not> truthy (sc_expiresAt content) \<or> date_lt now (the_or [] (sc_expiresAt content))))"

lemma sellerInstructionMachine_wf: "wf_machine sellerInstructionMachine"
  by (simp add: sellerInstructionMachine_def wf_machine_def sellerInstructionStates_def)

lemma agreed_evidence:
  "guardSellerInstructionTransition from Si_agreed e a = Allowed \<longleftrightarrow>
     actor_kind a = Actor_staff \<and> truthy_list (sie_evidenceDocumentIds e) \<and>
     (\<exists>c terms. sie_content e = Some c \<and> sc_commissionTerms c = Some terms \<and> trim terms \<noteq> [])"
  by (auto simp: guardSellerInstructionTransition_def guard_simps bind_eq_Some_conv elim!: truthyE)

end
