(* ===== verification/PublicMap.thy ===== *)
theory PublicMap
  imports Facts Json Dates
begin

text \<open>
  \<open>src/src/domain/public-map.ts\<close>: the point of a public map, an area centre. A number of a JSON text is
  kept as its text; \<open>number_value\<close> is what it denotes. The comparisons of the code are of doubles, each
  written as the shortest text that denotes it, and the order of the doubles is that of their texts.
\<close>

definition read_exponent :: "string \<Rightarrow> int option" where
  "read_exponent s = (case s of [] \<Rightarrow> Some 0
     | c # r \<Rightarrow>
        if c \<noteq> CHR ''e'' then None
        else (case r of [] \<Rightarrow> None
          | d # ds \<Rightarrow>
              let body = (if d = CHR ''+'' \<or> d = CHR ''-'' then ds else r)
              in if body = [] \<or> \<not> all_digits body then None
                 else Some ((if d = CHR ''-'' then -1 else 1) * dec_val body)))"

definition scaled :: "int \<Rightarrow> int \<Rightarrow> rat" where
  "scaled m e = (if 0 \<le> e then of_int (m * 10 ^ nat e) else of_int m / of_int (10 ^ nat (- e)))"

definition number_value :: "string \<Rightarrow> rat option" where
  "number_value s =
     (let neg = (s \<noteq> [] \<and> hd s = CHR ''-''); body = (if neg then tl s else s);
          (whole, rest) = take_digit_run body;
          (frac, rest2) = (case rest of c # r \<Rightarrow> if c = CHR ''.'' then take_digit_run r else ([], rest) | [] \<Rightarrow> ([], []))
      in if whole = [] then None
         else map_option (\<lambda>e. (if neg then -1 else 1) * scaled (dec_val (whole @ frac)) (e - int (length frac)))
           (read_exponent rest2))"

datatype mapLevel = Level_district | Level_settlement

fun mapLevel_name :: "mapLevel \<Rightarrow> string" where
  "mapLevel_name Level_district = ''district''" | "mapLevel_name Level_settlement = ''settlement''"

definition mapLevel_of :: "json \<Rightarrow> mapLevel option" where
  "mapLevel_of v = List.find (\<lambda>l. v = JString (mapLevel_name l)) [Level_district, Level_settlement]"

record publicMapPoint =
  pmp_latitude :: string
  pmp_longitude :: string
  pmp_level :: mapLevel
  pmp_placeId :: string

definition finite_within :: "rat \<Rightarrow> json \<Rightarrow> bool" where
  "finite_within bound v = (case v of
       JNumber s \<Rightarrow> (case number_value s of None \<Rightarrow> False | Some x \<Rightarrow> \<bar>x\<bar> \<le> bound)
     | _ \<Rightarrow> False)"

fun json_number :: "json \<Rightarrow> string" where
  "json_number (JNumber s) = s" | "json_number _ = []"

definition parsePublicMapPoint :: "json \<Rightarrow> locationPrecision \<Rightarrow> publicMapPoint option" where
  "parsePublicMapPoint value precision =
     (case mapLevel_of (json_get value ''level'') of
        None \<Rightarrow> None
      | Some level \<Rightarrow> (case json_get value ''placeId'' of
          JString placeId \<Rightarrow>
            if (precision = Loc_region \<and> level \<noteq> Level_district) \<or> placeId = []
               \<or> \<not> finite_within (8505112878 / 100000000) (json_get value ''latitude'')
               \<or> \<not> finite_within 180 (json_get value ''longitude'')
            then None
            else Some \<lparr>pmp_latitude = json_number (json_get value ''latitude''),
              pmp_longitude = json_number (json_get value ''longitude''), pmp_level = level, pmp_placeId = placeId\<rparr>
        | _ \<Rightarrow> None))"

definition map_point_json :: "publicMapPoint \<Rightarrow> json" where
  "map_point_json p = JObject
     [(''latitude'', JNumber (pmp_latitude p)), (''longitude'', JNumber (pmp_longitude p)),
      (''level'', JString (mapLevel_name (pmp_level p))), (''placeId'', JString (pmp_placeId p))]"

text \<open>An accepted point parses again to itself, and never names more than the precision allows.\<close>

lemma mapLevel_of_name [simp]: "mapLevel_of (JString (mapLevel_name l)) = Some l"
  by (cases l) (simp_all add: mapLevel_of_def)

lemma parsePublicMapPoint_again:
  assumes "parsePublicMapPoint v precision = Some p"
  shows "parsePublicMapPoint (map_point_json p) precision = Some p"
  using assms
  by (auto simp: parsePublicMapPoint_def map_point_json_def finite_within_def split: option.splits json.splits if_splits)

lemma parsePublicMapPoint_region:
  "parsePublicMapPoint v Loc_region = Some p \<Longrightarrow> pmp_level p = Level_district"
  by (auto simp: parsePublicMapPoint_def split: option.splits json.splits if_splits)

end
