(* ===== verification/PublicationTables.thy ===== *)
theory PublicationTables
  imports Publication Records Approval Media MediaRendition SellerInstruction PublicMap ListingReadiness LocalizedRevision
begin

text \<open>
  The rows the publication code reads and writes (\<open>src/src/db/schema\<close>), with the columns it uses, and
  the database as lists of rows. A null column is \<open>None\<close>; a JSON column that is not nullable holds an
  object or an array; instants are milliseconds. The two numeric coordinates have six decimals and are
  kept as millionths. Access to records (\<open>Authz\<close>) is resolved from its own tables.
\<close>

record listingRow =
  ls_id :: string
  ls_reference :: string
  ls_propertyId :: string
  ls_purpose :: listingPurpose
  ls_commercialState :: commercialState
  ls_availabilityBasis :: "string option"
  ls_availabilityConfirmedAt :: "int option"
  ls_freshnessState :: freshnessState
  ls_reviewDueAt :: "int option"
  ls_availabilityPolicySnapshot :: "json option"
  ls_editorialState :: editorialState
  ls_latestRevisionNumber :: int
  ls_approvedRevisionId :: "string option"
  ls_publicationGeneration :: int
  ls_version :: int

record propertyRow =
  pt_id :: string
  pt_reference :: string
  pt_propertyType :: propertyType
  pt_placeId :: "string option"
  pt_country :: string
  pt_neighborhood :: "string option"
  pt_publicPrecision :: locationPrecision
  pt_approvedFactRevisionId :: "string option"
  pt_version :: int

record factRevisionRow =
  fv_id :: string
  fv_propertyId :: string
  fv_revisionNumber :: int
  fv_contentDigest :: string

record propertyFactRow =
  pf_factRevisionId :: string
  pf_fieldKey :: string
  pf_state :: factState
  pf_value :: "json option"
  pf_unit :: "string option"
  pf_basis :: "string option"
  pf_sourceClass :: sourceClass
  pf_observedAt :: "int option"
  pf_reviewedAt :: "int option"

record listingRevisionRow =
  lr_id :: string
  lr_listingId :: string
  lr_revisionNumber :: int
  lr_factRevisionId :: string
  lr_terms :: json
  lr_sourceCopy :: json
  lr_disclosure :: json
  lr_contentDigest :: string

record localizedRow =
  lz_id :: string
  lz_sourceRevisionId :: string
  lz_locale :: publicLocale
  lz_state :: localeState
  lz_title :: "string option"
  lz_body :: "json option"

record mediaPlacementRow =
  mp_listingRevisionId :: string
  mp_mediaRelationId :: string
  mp_mediaAssetId :: string
  mp_position :: int

record mediaAssetRow =
  mas_id :: string
  mas_kind :: mediaKind
  mas_sealedKey :: "string option"
  mas_sha256 :: "string option"
  mas_byteSize :: "int option"
  mas_width :: "int option"
  mas_height :: "int option"
  mas_scan :: scanState
  mas_scannedAt :: "int option"
  mas_scannerVersion :: "string option"
  mas_scannedSha256 :: "string option"
  mas_derivativeKey :: "string option"
  mas_derivativeSha256 :: "string option"
  mas_derivativeContentType :: "string option"
  mas_derivativeRenditions :: json
  mas_processing :: processingState
  mas_rights :: mediaRightsState
  mas_rightsReference :: "string option"
  mas_audience :: mediaAudience
  mas_review :: mediaReviewState
  mas_modification :: mediaModification
  mas_modificationDisclosure :: "string option"
  mas_caption :: "string option"
  mas_altText :: "string option"
  mas_detailsDraft :: "json option"

record instructionRow =
  si_id :: string
  si_propertyId :: string
  si_listingId :: "string option"
  si_revisionNumber :: int
  si_state :: sellerInstructionState
  si_commercialTerms :: json
  si_disclosure :: json
  si_mediaUsageRights :: json
  si_representationScope :: representationScope
  si_publicationPermission :: bool
  si_agreedAt :: "int option"
  si_expiresAt :: "int option"
  si_invalidatedAt :: "int option"

text \<open>Property relationships, parties, documents and their versions: the evidence of a consent.\<close>

record authorityRow =
  ar_id :: string
  ar_partyId :: string
  ar_propertyId :: string
  ar_role :: participantRole
  ar_authority :: authorityState
  ar_scope :: json
  ar_validFrom :: int
  ar_expiresAt :: "int option"
  ar_revokedAt :: "int option"

record partyRow =
  py_id :: string
  py_mergedIntoPartyId :: "string option"

record documentRow =
  dr_id :: string
  dr_propertyId :: "string option"
  dr_purpose :: string
  dr_currentVersionNumber :: int
  dr_expiresAt :: "int option"

record documentVersionRow =
  dv_id :: string
  dv_documentId :: string
  dv_versionNumber :: int
  dv_state :: documentState
  dv_sealedKey :: "string option"
  dv_sha256 :: "string option"
  dv_scan :: scanState
  dv_scannedAt :: "int option"
  dv_scannerVersion :: "string option"
  dv_scannedSha256 :: "string option"
  dv_reviewType :: "documentReviewType option"
  dv_supersededByVersionId :: "string option"

datatype placeLevel = Place_country | Place_district | Place_municipality | Place_settlement | Place_neighborhood

record placeRow =
  gp_id :: string
  gp_level :: placeLevel
  gp_parentId :: "string option"
  gp_countryCode :: string
  gp_slug :: string
  gp_nameNative :: string
  gp_nameLatin :: string
  gp_latitude :: "int option"
  gp_longitude :: "int option"

record approvalRow =
  apr_id :: string
  apr_kind :: approvalKind
  apr_state :: approvalState
  apr_subjectType :: string
  apr_subjectId :: string
  apr_subjectVersion :: int
  apr_subjectHash :: string
  apr_scope :: json
  apr_requestedBy :: actor
  apr_decidedBy :: actor
  apr_decidedWithCapability :: "capability option"
  apr_decidedAt :: "int option"
  apr_decisionNote :: "string option"
  apr_expiresAt :: "int option"

record manifestRow =
  mf_id :: string
  mf_listingId :: string
  mf_locale :: publicLocale
  mf_destination :: publicationDestination
  mf_generation :: int
  mf_listingRevisionId :: string
  mf_factRevisionId :: string
  mf_localizedRevisionId :: "string option"
  mf_media :: json
  mf_disclosure :: json
  mf_availabilityBasis :: json
  mf_policyRevision :: string
  mf_decisions :: json
  mf_contentDigest :: string
  mf_createdById :: string
  mf_createdAt :: int

record pointerRow =
  cp_id :: string
  cp_listingId :: string
  cp_locale :: publicLocale
  cp_destination :: publicationDestination
  cp_manifestId :: string
  cp_state :: pointerState
  cp_generation :: int
  cp_activatedAt :: int
  cp_activatedById :: string
  cp_restrictedAt :: "int option"
  cp_withdrawnAt :: "int option"
  cp_reason :: "string option"
  cp_version :: int

record deliveryRow =
  dd_manifestId :: string
  dd_listingId :: string
  dd_locale :: publicLocale
  dd_destination :: publicationDestination
  dd_kind :: deliveryKind
  dd_generation :: int
  dd_state :: deliveryState
  dd_acknowledgedAt :: "int option"
  dd_verifiedAt :: "int option"
  dd_evidence :: "json option"

record outboxEventRow =
  oe_eventType :: string
  oe_subjectType :: string
  oe_subjectId :: string
  oe_payload :: json
  oe_sourceGeneration :: "int option"
  oe_operationId :: "string option"

text \<open>The projection the search runs on: one row per listing and locale.\<close>

record searchDocument =
  sd_listingId :: string
  sd_locale :: publicLocale
  sd_manifestId :: string
  sd_reference :: string
  sd_purpose :: listingPurpose
  sd_propertyType :: propertyType
  sd_placeIds :: "string list"
  sd_priceState :: string
  sd_priceAmountMinor :: json
  sd_priceCurrency :: json
  sd_pricePeriod :: json
  sd_priceBasis :: json
  sd_bedrooms :: "string \<times> json"
  sd_rooms :: "string \<times> json"
  sd_livingArea :: "string \<times> string option"
  sd_builtArea :: "string \<times> string option"
  sd_totalArea :: "string \<times> string option"
  sd_landArea :: "string \<times> string option"
  sd_features :: "(string \<times> string) list"
  sd_searchText :: string
  sd_updatedAt :: int

text \<open>The tables the publication commands only read.\<close>

record reviewTables =
  rt_factRevisions :: "factRevisionRow list"
  rt_facts :: "propertyFactRow list"
  rt_revisions :: "listingRevisionRow list"
  rt_localized :: "localizedRow list"
  rt_placements :: "mediaPlacementRow list"
  rt_assets :: "mediaAssetRow list"
  rt_instructions :: "instructionRow list"
  rt_authorities :: "authorityRow list"
  rt_parties :: "partyRow list"
  rt_documents :: "documentRow list"
  rt_versions :: "documentVersionRow list"
  rt_places :: "placeRow list"
  rt_aliases :: "(string \<times> string) list"

text \<open>The tables they write.\<close>

record publicationTables =
  pb_listings :: "listingRow list"
  pb_properties :: "propertyRow list"
  pb_approvals :: "approvalRow list"
  pb_manifests :: "manifestRow list"
  pb_pointers :: "pointerRow list"
  pb_deliveries :: "deliveryRow list"
  pb_searchDocuments :: "searchDocument list"
  pb_outbox :: "outboxEventRow list"
  pb_activity :: "activityRow list"
  pb_audit :: "json auditRecord list"
  pb_transitionAudit :: "editorialEvidence transitionPayload auditRecord list"

subsection \<open>Reading\<close>

definition sql_eq :: "'a option \<Rightarrow> 'a option \<Rightarrow> bool" where
  "sql_eq a b = (a \<noteq> None \<and> a = b)"

text \<open>
  \<open>->>\<close> on a member of a JSON object. An object or an array has a text too; it is never equal to an
  identifier or a digest, which is all the queries compare with.
\<close>

fun column_text :: "json \<Rightarrow> string option" where
  "column_text (JString s) = Some s"
| "column_text (JNumber s) = Some s"
| "column_text (JBool b) = Some (if b then ''true'' else ''false'')"
| "column_text _ = None"

definition listing_of :: "publicationTables \<Rightarrow> string \<Rightarrow> listingRow option" where
  "listing_of t i = List.find (\<lambda>l. ls_id l = i) (pb_listings t)"

definition listing_by_reference :: "publicationTables \<Rightarrow> string \<Rightarrow> listingRow option" where
  "listing_by_reference t reference =
     List.find (\<lambda>l. ls_reference l = to_upper (trim reference)) (pb_listings t)"

definition property_of :: "publicationTables \<Rightarrow> string \<Rightarrow> propertyRow option" where
  "property_of t i = List.find (\<lambda>p. pt_id p = i) (pb_properties t)"

definition manifest_of :: "publicationTables \<Rightarrow> string \<Rightarrow> manifestRow option" where
  "manifest_of t i = List.find (\<lambda>m. mf_id m = i) (pb_manifests t)"

definition fact_revision_of :: "reviewTables \<Rightarrow> string \<Rightarrow> factRevisionRow option" where
  "fact_revision_of rt i = List.find (\<lambda>f. fv_id f = i) (rt_factRevisions rt)"

definition revision_of :: "reviewTables \<Rightarrow> string \<Rightarrow> listingRevisionRow option" where
  "revision_of rt i = List.find (\<lambda>r. lr_id r = i) (rt_revisions rt)"

lemma listing_of_Some: "listing_of t i = Some l \<Longrightarrow> l \<in> set (pb_listings t) \<and> ls_id l = i"
  by (auto simp: listing_of_def find_Some_iff)

lemma listing_by_reference_Some:
  "listing_by_reference t r = Some l \<Longrightarrow> l \<in> set (pb_listings t) \<and> ls_reference l = to_upper (trim r)"
  by (auto simp: listing_by_reference_def find_Some_iff)

lemma manifest_of_Some: "manifest_of t i = Some m \<Longrightarrow> m \<in> set (pb_manifests t) \<and> mf_id m = i"
  by (auto simp: manifest_of_def find_Some_iff)

lemma property_of_Some: "property_of t i = Some p \<Longrightarrow> p \<in> set (pb_properties t) \<and> pt_id p = i"
  by (auto simp: property_of_def find_Some_iff)

end
