(* ===== verification/SellerEvidence.thy ===== *)
theory SellerEvidence
  imports PublicationTables
begin

text \<open>
  \<open>src/src/server/publication/seller-evidence.ts\<close>: the consent predicate that gates activation and
  every public read. A comparison with a null is never true. \<open>forListing\<close> is the listing the consent is
  asked for; the caller passes an identifier.
\<close>

definition scope_matches :: "listingPurpose \<Rightarrow> representationScope \<Rightarrow> bool" where
  "scope_matches p s =
     (s = Scope_sale_and_letting \<or> (p = Purpose_sale \<and> s = Scope_sale) \<or>
      (p = Purpose_long_term_rent \<and> s = Scope_letting))"

definition newer_agreement :: "listingRow \<Rightarrow> instructionRow \<Rightarrow> instructionRow \<Rightarrow> bool" where
  "newer_agreement l si newer =
     (si_propertyId newer = ls_propertyId l \<and> si_revisionNumber si < si_revisionNumber newer \<and>
      si_agreedAt newer \<noteq> None \<and> si_state newer \<noteq> Si_draft \<and>
      (si_listingId newer = Some (ls_id l) \<or>
       (si_listingId newer = None \<and> scope_matches (ls_purpose l) (si_representationScope newer))))"

definition consent_listing :: "reviewTables \<Rightarrow> instructionRow \<Rightarrow> listingRow \<Rightarrow> bool" where
  "consent_listing rt si l =
     (ls_propertyId l = si_propertyId si \<and>
      (si_listingId si = None \<or> si_listingId si = Some (ls_id l)) \<and>
      scope_matches (ls_purpose l) (si_representationScope si) \<and>
      \<not> list_ex (newer_agreement l si) (rt_instructions rt))"

text \<open>A document version that is current, reviewed, clean and sealed, of a document in force.\<close>

definition accepted_file ::
    "string \<Rightarrow> string \<Rightarrow> int \<Rightarrow> json \<Rightarrow> documentVersionRow \<Rightarrow> documentRow \<Rightarrow> bool" where
  "accepted_file propertyId purpose clock digest f d =
     (dr_propertyId d = Some propertyId \<and> dr_purpose d = purpose \<and>
      dr_currentVersionNumber d = dv_versionNumber f \<and>
      (case dr_expiresAt d of None \<Rightarrow> True | Some e \<Rightarrow> clock < e) \<and>
      dv_state f = Doc_reviewed \<and> dv_reviewType f = Some Docr_accepted_for_purpose \<and>
      dv_scan f = Scan_clean \<and> dv_sealedKey f \<noteq> None \<and> dv_scannedAt f \<noteq> None \<and>
      dv_scannerVersion f \<noteq> None \<and> sql_eq (dv_scannedSha256 f) (dv_sha256 f) \<and>
      sql_eq (dv_sha256 f) (column_text digest) \<and> dv_supersededByVersionId f = None)"

definition accepted_version ::
    "reviewTables \<Rightarrow> string \<Rightarrow> string \<Rightarrow> int \<Rightarrow> json \<Rightarrow> json \<Rightarrow> bool" where
  "accepted_version rt propertyId purpose clock versionId digest =
     list_ex (\<lambda>f. column_text versionId = Some (dv_id f) \<and>
       list_ex (\<lambda>d. dr_id d = dv_documentId f \<and> accepted_file propertyId purpose clock digest f d) (rt_documents rt))
       (rt_versions rt)"

definition reviewed_authority :: "reviewTables \<Rightarrow> instructionRow \<Rightarrow> int \<Rightarrow> authorityRow \<Rightarrow> bool" where
  "reviewed_authority rt si clock a =
     (column_text (json_get (si_commercialTerms si) ''authorityRelationshipId'') = Some (ar_id a) \<and>
      ar_propertyId a = si_propertyId si \<and>
      column_text (json_get (si_commercialTerms si) ''sellerPartyId'') = Some (ar_partyId a) \<and>
      list_ex (\<lambda>p. py_id p = ar_partyId a \<and> py_mergedIntoPartyId p = None) (rt_parties rt) \<and>
      ar_role a \<in> {Part_seller, Part_landlord, Part_authorized_representative} \<and>
      ar_authority a = Auth_reviewed \<and> ar_revokedAt a = None \<and> ar_validFrom a \<le> clock \<and>
      (case ar_expiresAt a of None \<Rightarrow> True | Some e \<Rightarrow> clock < e) \<and>
      accepted_version rt (si_propertyId si) ''seller_authority'' clock
        (json_get (ar_scope a) ''documentVersionId'') (json_get (ar_scope a) ''digest''))"

definition agreement :: "instructionRow \<Rightarrow> json" where
  "agreement si = json_get (si_commercialTerms si) ''agreement''"

definition currentSellerEvidence :: "reviewTables \<Rightarrow> listingRow list \<Rightarrow> int \<Rightarrow> string \<Rightarrow> instructionRow \<Rightarrow> bool" where
  "currentSellerEvidence rt listings clock forListing si =
     (si_state si = Si_agreed \<and> si_publicationPermission si \<and>
      json_get (si_mediaUsageRights si) ''granted'' = JBool True \<and> si_invalidatedAt si = None \<and>
      (case si_agreedAt si of None \<Rightarrow> False | Some a \<Rightarrow> a \<le> clock) \<and>
      (case si_expiresAt si of None \<Rightarrow> True | Some e \<Rightarrow> clock < e) \<and>
      list_ex (\<lambda>l. ls_id l = forListing \<and> consent_listing rt si l) listings \<and>
      list_ex (reviewed_authority rt si clock) (rt_authorities rt) \<and>
      accepted_version rt (si_propertyId si) ''seller_instruction'' clock
        (json_get (agreement si) ''documentVersionId'') (json_get (agreement si) ''digest''))"

subsection \<open>What a live consent is\<close>

text \<open>Withdrawing, expiring, superseding or invalidating the instruction ends the consent at once.\<close>

lemma currentSellerEvidenceD:
  assumes "currentSellerEvidence rt ls clock i si"
  shows "si_state si = Si_agreed" "si_publicationPermission si" "si_invalidatedAt si = None"
    "\<exists>a. si_agreedAt si = Some a \<and> a \<le> clock" "\<And>e. si_expiresAt si = Some e \<Longrightarrow> clock < e"
    "\<exists>l \<in> set ls. ls_id l = i \<and> consent_listing rt si l"
  using assms by (auto simp: currentSellerEvidence_def list_ex_iff split: option.splits)

text \<open>
  Two live consents for one listing are the same revision of the same property: a later agreement that
  covers the listing replaces the earlier one, whatever has become of it since.
\<close>

lemma consent_latest:
  assumes "currentSellerEvidence rt ls clock i si" "currentSellerEvidence rt ls clock' i sj"
    and "si \<in> set (rt_instructions rt)" "sj \<in> set (rt_instructions rt)" "distinct (map ls_id ls)"
  shows "si_propertyId si = si_propertyId sj \<and> si_revisionNumber si = si_revisionNumber sj"
proof -
  obtain l m where l: "l \<in> set ls" "ls_id l = i" "consent_listing rt si l"
    and m: "m \<in> set ls" "ls_id m = i" "consent_listing rt sj m"
    using currentSellerEvidenceD(6) [OF assms(1)] currentSellerEvidenceD(6) [OF assms(2)] by blast
  have [simp]: "m = l" using l m assms(5) by (auto simp: distinct_map dest: inj_onD)
  have "newer_agreement l si sj" if "si_revisionNumber si < si_revisionNumber sj"
    using that l m currentSellerEvidenceD(1,4) [OF assms(2)]
    by (auto simp: newer_agreement_def consent_listing_def)
  moreover have "newer_agreement l sj si" if "si_revisionNumber sj < si_revisionNumber si"
    using that l m currentSellerEvidenceD(1,4) [OF assms(1)]
    by (auto simp: newer_agreement_def consent_listing_def)
  moreover have "\<not> newer_agreement l si sj" "\<not> newer_agreement l sj si"
    using l m assms(3,4) by (auto simp: consent_listing_def list_ex_iff)
  ultimately have "si_revisionNumber si = si_revisionNumber sj"
    by (meson linorder_less_linear)
  then show ?thesis using l m by (simp add: consent_listing_def)
qed

end
