(* ===== verification/Places.thy ===== *)
theory Places
  imports PublicationTables
begin

text \<open>
  Places and what is disclosed of them: \<open>loadPlaceChains\<close>, \<open>placeName\<close>, \<open>publicPlace\<close> and
  \<open>parseDisclosure\<close> of \<open>src/src/server/publication/presentation.ts\<close>, \<open>prepareMapPoint\<close> of
  \<open>map-point.ts\<close>. Loading goes up from the places asked for, one query per level, and terminates
  because every query but the last finds a place that was not known; a chain is cut at eight places,
  so that a cycle of parents is harmless too.
\<close>

type_synonym placeNodes = "string \<Rightarrow> placeRow option"

definition find_place :: "placeRow list \<Rightarrow> placeNodes" where
  "find_place places i = List.find (\<lambda>p. gp_id p = i) places"

definition add_nodes :: "placeNodes \<Rightarrow> placeRow list \<Rightarrow> placeNodes" where
  "add_nodes nodes rows = foldl (\<lambda>n r. n(gp_id r \<mapsto> r)) nodes rows"

definition unseen_parents :: "placeNodes \<Rightarrow> placeRow list \<Rightarrow> string list" where
  "unseen_parents nodes rows = js_unique (concat (map (\<lambda>r. case gp_parentId r of None \<Rightarrow> []
     | Some q \<Rightarrow> if q \<noteq> [] \<and> nodes q = None then [q] else []) rows))"

definition rows_of :: "placeRow list \<Rightarrow> string list \<Rightarrow> placeRow list" where
  "rows_of places pending = filter (\<lambda>p. gp_id p \<in> set pending) places"

lemma add_nodes_eq: "add_nodes nodes rows i = (case List.find (\<lambda>r. gp_id r = i) (rev rows) of None \<Rightarrow> nodes i | Some r \<Rightarrow> Some r)"
  by (induction rows rule: rev_induct) (auto simp: add_nodes_def)

lemma add_nodes_dom: "dom (add_nodes nodes rows) = dom nodes \<union> gp_id ` set rows"
proof (induction rows rule: rev_induct)
  case (snoc r rows)
  have "add_nodes nodes (rows @ [r]) = (add_nodes nodes rows)(gp_id r \<mapsto> r)" by (simp add: add_nodes_def)
  then have "dom (add_nodes nodes (rows @ [r])) = insert (gp_id r) (dom (add_nodes nodes rows))"
    by (simp only: dom_fun_upd option.distinct if_False)
  then show ?case by (simp add: snoc)
qed (simp add: add_nodes_def)

lemma unseen_parents_set:
  "set (unseen_parents nodes rows) = {q. q \<noteq> [] \<and> nodes q = None \<and> (\<exists>r \<in> set rows. gp_parentId r = Some q)}"
  by (auto simp: unseen_parents_def split: option.splits if_splits)

definition missing_places :: "placeRow list \<Rightarrow> placeNodes \<Rightarrow> nat" where
  "missing_places places nodes = card (gp_id ` set places - dom nodes)"

definition known_pending :: "placeNodes \<Rightarrow> string list \<Rightarrow> nat" where
  "known_pending nodes pending = (if set pending \<inter> dom nodes = {} then 0 else 1)"

function load_nodes :: "placeRow list \<Rightarrow> placeNodes \<Rightarrow> string list \<Rightarrow> placeNodes" where
  "load_nodes places nodes pending =
     (if pending = [] then nodes
      else let rows = rows_of places pending; nodes2 = add_nodes nodes rows
        in load_nodes places nodes2 (unseen_parents nodes2 rows))"
  by pat_completeness auto

termination
proof (relation "measures [\<lambda>(places, nodes, pending). missing_places places nodes,
    \<lambda>(places, nodes, pending). known_pending nodes pending, \<lambda>(places, nodes, pending). length pending]")
  fix places nodes rows nodes2 and pending :: "string list"
  assume p: "pending \<noteq> []" and rows: "rows = rows_of places pending" and n: "nodes2 = add_nodes nodes rows"
  let ?next = "unseen_parents nodes2 rows"
  have k: "known_pending nodes2 ?next = 0" by (auto simp: known_pending_def unseen_parents_set)
  have sub: "gp_id ` set places - dom nodes2 \<subseteq> gp_id ` set places - dom nodes" by (auto simp: n add_nodes_dom)
  consider (new) "missing_places places nodes2 < missing_places places nodes"
    | (same) "missing_places places nodes2 = missing_places places nodes"
    using card_mono [OF _ sub] by (auto simp: missing_places_def order_le_less)
  then show "((places, nodes2, ?next), places, nodes, pending) \<in> measures
      [\<lambda>(places, nodes, pending). missing_places places nodes,
       \<lambda>(places, nodes, pending). known_pending nodes pending, \<lambda>(places, nodes, pending). length pending]"
  proof cases
    case new
    then show ?thesis by simp
  next
    case same
    then have "gp_id ` set places - dom nodes2 = gp_id ` set places - dom nodes"
      using sub by (intro card_subset_eq) (auto simp: missing_places_def)
    then have old: "gp_id ` set rows \<subseteq> dom nodes" by (auto simp: n add_nodes_dom rows rows_of_def)
    show ?thesis
    proof (cases "set pending \<inter> dom nodes = {}")
      case True
      then have "rows = []" using old by (force simp: rows rows_of_def filter_empty_conv)
      then have "?next = []" by (simp add: unseen_parents_def js_unique_def)
      then show ?thesis using p same k True by (simp add: known_pending_def)
    next
      case False
      then show ?thesis using same k by (simp add: known_pending_def)
    qed
  qed
qed simp

declare load_nodes.simps [simp del]

text \<open>A place with its ancestors, nearest first, at most \<open>n\<close> of them.\<close>

fun place_chain :: "nat \<Rightarrow> placeNodes \<Rightarrow> string \<Rightarrow> placeRow list" where
  "place_chain 0 nodes i = []"
| "place_chain (Suc n) nodes i = (case nodes i of None \<Rightarrow> []
     | Some p \<Rightarrow> p # (case gp_parentId p of None \<Rightarrow> []
         | Some q \<Rightarrow> if q = [] then [] else place_chain n nodes q))"

definition loadPlaceChains :: "placeRow list \<Rightarrow> string list \<Rightarrow> (string \<times> placeRow list) list" where
  "loadPlaceChains places placeIds =
     (let nodes = load_nodes places (\<lambda>_. None) (js_unique placeIds)
      in map (\<lambda>i. (i, place_chain 8 nodes i)) (js_unique placeIds))"

subsection \<open>What loading finds\<close>

definition closed_over :: "placeRow list \<Rightarrow> placeNodes \<Rightarrow> string list \<Rightarrow> bool" where
  "closed_over places nodes pending \<longleftrightarrow>
     (\<forall>i p. nodes i = Some p \<longrightarrow> find_place places i = Some p) \<and>
     (\<forall>i p q. nodes i = Some p \<longrightarrow> gp_parentId p = Some q \<longrightarrow> q \<noteq> [] \<longrightarrow>
        q \<in> dom nodes \<union> set pending \<or> find_place places q = None)"

lemma find_place_Some: "distinct (map gp_id places) \<Longrightarrow> find_place places i = Some p \<longleftrightarrow> p \<in> set places \<and> gp_id p = i"
  by (simp add: find_place_def find_distinct)

lemma closed_over_step:
  assumes d: "distinct (map gp_id places)" and c: "closed_over places nodes pending"
  defines "nodes2 \<equiv> add_nodes nodes (rows_of places pending)"
  shows "closed_over places nodes2 (unseen_parents nodes2 (rows_of places pending))"
proof -
  have n: "(nodes2 i = Some p) = (if i \<in> set pending \<and> find_place places i \<noteq> None then find_place places i = Some p
      else nodes i = Some p)" for i p
  proof -
    have "List.find (\<lambda>r. gp_id r = i) (rev (rows_of places pending)) =
        (if i \<in> set pending then find_place places i else None)"
    proof -
      have f: "distinct (map gp_id (rev (rows_of places pending)))"
        using d by (simp add: rows_of_def distinct_map_filter rev_map [symmetric])
      have "List.find (\<lambda>r. gp_id r = i) (rev (rows_of places pending)) = Some r \<longleftrightarrow>
          (if i \<in> set pending then find_place places i else None) = Some r" for r
        using find_distinct [OF f, of i r] d by (auto simp: find_place_Some rows_of_def)
      then show ?thesis by (metis not_Some_eq)
    qed
    then show ?thesis by (auto simp: nodes2_def add_nodes_eq split: option.splits)
  qed
  have dom2: "q \<in> dom nodes2 \<longleftrightarrow> (q \<in> set pending \<and> find_place places q \<noteq> None) \<or> q \<in> dom nodes" for q
    using n [of q] by (cases "q \<in> set pending"; cases "find_place places q"; simp add: dom_def)
  have new: "p \<in> set (rows_of places pending)" if "i \<in> set pending" "find_place places i = Some p" for i p
    using that d by (simp add: find_place_Some rows_of_def)
  show ?thesis
    unfolding closed_over_def
  proof (intro conjI allI impI)
    fix i p assume "nodes2 i = Some p"
    then show "find_place places i = Some p"
      using n [of i p] c unfolding closed_over_def by (metis (no_types))
  next
    fix i p q assume p: "nodes2 i = Some p" "gp_parentId p = Some q" "q \<noteq> []"
    show "q \<in> dom nodes2 \<union> set (unseen_parents nodes2 (rows_of places pending)) \<or> find_place places q = None"
    proof (cases "i \<in> set pending \<and> find_place places i \<noteq> None")
      case True
      then have "find_place places i = Some p" using p(1) n [of i p] by simp
      then have "p \<in> set (rows_of places pending)" using True new by blast
      then show ?thesis using p by (auto simp: unseen_parents_set)
    next
      case False
      then have "nodes i = Some p" using p(1) n [of i p] by simp
      then have "q \<in> dom nodes \<union> set pending \<or> find_place places q = None"
        using c p(2,3) unfolding closed_over_def by metis
      then show ?thesis using dom2 [of q] by (metis Un_iff)
    qed
  qed
qed

lemma load_nodes_complete:
  assumes "distinct (map gp_id places)" "closed_over places nodes pending"
  shows "closed_over places (load_nodes places nodes pending) [] \<and>
    (\<forall>i. nodes i \<noteq> None \<or> i \<in> set pending \<longrightarrow> load_nodes places nodes pending i = find_place places i)"
  using assms
proof (induction places nodes pending rule: load_nodes.induct)
  case (1 places nodes pending)
  show ?case
  proof (cases "pending = []")
    case True
    then show ?thesis
      using 1(3) load_nodes.simps [of places nodes "[]"] by (auto simp: closed_over_def)
  next
    case False
    define rows where "rows = rows_of places pending"
    define nodes2 where "nodes2 = add_nodes nodes rows"
    define R where "R = load_nodes places nodes2 (unseen_parents nodes2 rows)"
    have R: "load_nodes places nodes pending = R"
      using False by (simp add: load_nodes.simps [of places nodes pending] R_def nodes2_def rows_def Let_def)
    have "closed_over places nodes2 (unseen_parents nodes2 rows)"
      unfolding nodes2_def rows_def by (rule closed_over_step [OF 1(2,3)])
    from 1(1) [OF False rows_def nodes2_def 1(2) this]
    have IH: "closed_over places R []" "\<And>i. nodes2 i \<noteq> None \<Longrightarrow> R i = find_place places i"
      by (auto simp: R_def)
    have "R i = find_place places i" if i: "nodes i \<noteq> None \<or> i \<in> set pending" for i
    proof (cases "nodes2 i")
      case None
      then have "i \<notin> dom nodes" "i \<notin> gp_id ` set rows" using add_nodes_dom [of nodes rows] by (auto simp: nodes2_def)
      then have "find_place places i = None"
        using i 1(2) by (cases "find_place places i") (auto simp: rows_def rows_of_def find_place_Some)
      then show ?thesis using IH(1) by (cases "R i") (auto simp: closed_over_def)
    qed (simp add: IH(2))
    then show ?thesis using IH(1) R by simp
  qed
qed

lemma place_chain_cong:
  assumes "closed_over places R []" "R i = find_place places i"
  shows "place_chain n R i = place_chain n (find_place places) i"
  using assms(2)
proof (induction n arbitrary: i)
  case (Suc n)
  have "R q = find_place places q" if "R i = Some p" "gp_parentId p = Some q" "q \<noteq> []" for p q
    using that assms(1) unfolding closed_over_def
    by (cases "R q") (fastforce simp: dom_def)+
  then show ?case using Suc by (auto split: option.splits)
qed simp

text \<open>Loading level by level gives the chains one reads off the whole table.\<close>

lemma loadPlaceChains_table:
  assumes "distinct (map gp_id places)"
  shows "loadPlaceChains places placeIds = map (\<lambda>i. (i, place_chain 8 (find_place places) i)) (js_unique placeIds)"
proof -
  have "closed_over places (\<lambda>_. None) (js_unique placeIds)" by (simp add: closed_over_def)
  from load_nodes_complete [OF assms this]
  show ?thesis by (auto simp: loadPlaceChains_def Let_def intro!: place_chain_cong)
qed

lemma length_place_chain: "length (place_chain n nodes i) \<le> n"
  by (induction n nodes i rule: place_chain.induct) (auto split: option.splits)

subsection \<open>Names\<close>

fun nativeScriptLocales :: "string \<Rightarrow> publicLocale list option" where
  "nativeScriptLocales c = (if c = ''BG'' then Some [Loc_bg, Loc_ru] else if c = ''GR'' then Some [Loc_el] else None)"

record placeName =
  pln_id :: string
  pln_level :: placeLevel
  pln_slug :: string
  pln_name :: string
  pln_nameNative :: string
  pln_nameLatin :: string

definition placeName_of :: "placeRow \<Rightarrow> publicLocale \<Rightarrow> placeName" where
  "placeName_of node loc =
     (let native = (case nativeScriptLocales (gp_countryCode node) of None \<Rightarrow> False | Some ls \<Rightarrow> loc \<in> set ls)
      in \<lparr>pln_id = gp_id node, pln_level = gp_level node, pln_slug = gp_slug node,
          pln_name = (if native then gp_nameNative node else gp_nameLatin node),
          pln_nameNative = gp_nameNative node, pln_nameLatin = gp_nameLatin node\<rparr>)"

subsection \<open>Disclosure\<close>

fun precision_name :: "locationPrecision \<Rightarrow> string" where
  "precision_name Loc_exact = ''exact''"
| "precision_name Loc_street = ''street''"
| "precision_name Loc_neighborhood = ''neighborhood''"
| "precision_name Loc_settlement = ''settlement''"
| "precision_name Loc_region = ''region''"

definition locationPrecisions :: "locationPrecision list" where
  "locationPrecisions = [Loc_exact, Loc_street, Loc_neighborhood, Loc_settlement, Loc_region]"

definition precision_of :: "json \<Rightarrow> locationPrecision option" where
  "precision_of v = List.find (\<lambda>p. v = JString (precision_name p)) locationPrecisions"

lemma precision_of_name [simp]: "precision_of (JString (precision_name p)) = Some p"
  by (cases p) (simp_all add: precision_of_def locationPrecisions_def)

record manifestDisclosure =
  md_country :: string
  md_placeId :: "string option"
  md_precision :: locationPrecision
  md_neighborhood :: "string option"
  md_mapPoint :: "publicMapPoint option"

fun as_string :: "json \<Rightarrow> string option" where
  "as_string (JString s) = Some s" | "as_string _ = None"

definition parseDisclosure :: "json \<Rightarrow> manifestDisclosure" where
  "parseDisclosure value =
     (let precision = the_or Loc_region (precision_of (json_get value ''precision''))
      in \<lparr>md_country = the_or [] (as_string (json_get value ''country'')),
          md_placeId = as_string (json_get value ''placeId''), md_precision = precision,
          md_neighborhood = as_string (json_get value ''neighborhood''),
          md_mapPoint = parsePublicMapPoint (json_get value ''mapPoint'') precision\<rparr>)"

definition disclosure_json :: "manifestDisclosure \<Rightarrow> json" where
  "disclosure_json d = JObject
     [(''mapPoint'', json_opt map_point_json (md_mapPoint d)), (''country'', JString (md_country d)),
      (''placeId'', json_opt JString (md_placeId d)), (''precision'', JString (precision_name (md_precision d))),
      (''neighborhood'', json_opt JString (md_neighborhood d))]"

definition settlementPrecisions :: "locationPrecision list" where
  "settlementPrecisions = [Loc_exact, Loc_street, Loc_neighborhood, Loc_settlement]"

definition neighborhoodPrecisions :: "locationPrecision list" where
  "neighborhoodPrecisions = [Loc_exact, Loc_street, Loc_neighborhood]"

record publicPlace =
  plc_country :: string
  plc_district :: "placeName option"
  plc_municipality :: "placeName option"
  plc_settlement :: "placeName option"
  plc_neighborhood :: "string option"
  plc_precision :: locationPrecision
  plc_mapPoint :: "publicMapPoint option"

definition at_level :: "placeRow list \<Rightarrow> publicLocale \<Rightarrow> placeLevel \<Rightarrow> placeName option" where
  "at_level chain loc level = map_option (\<lambda>n. placeName_of n loc) (List.find (\<lambda>n. gp_level n = level) chain)"

text \<open>
  Every disclosure the program passes has a parsed point; parsing it again against the precision, as
  the code does, is \<open>recheck_point\<close>.
\<close>

definition recheck_point :: "manifestDisclosure \<Rightarrow> publicMapPoint option" where
  "recheck_point d = (case md_mapPoint d of None \<Rightarrow> None
     | Some p \<Rightarrow> parsePublicMapPoint (map_point_json p) (md_precision d))"

definition publicPlace_of :: "placeRow list \<Rightarrow> manifestDisclosure \<Rightarrow> publicLocale \<Rightarrow> publicPlace" where
  "publicPlace_of chain d loc =
     \<lparr>plc_country = md_country d, plc_district = at_level chain loc Place_district,
      plc_municipality = at_level chain loc Place_municipality,
      plc_settlement = (if md_precision d \<in> set settlementPrecisions then at_level chain loc Place_settlement else None),
      plc_neighborhood = (if md_precision d \<in> set neighborhoodPrecisions then md_neighborhood d else None),
      plc_precision = md_precision d, plc_mapPoint = recheck_point d\<rparr>"

text \<open>\<open>Number\<close> of a stored coordinate, as the text JSON gives it: no trailing zeros.\<close>

definition micro_text :: "int \<Rightarrow> string" where
  "micro_text n =
     (let whole = nat (\<bar>n\<bar> div 1000000); frac = \<bar>n\<bar> mod 1000000;
          digits = rev (dropWhile (\<lambda>c. c = CHR ''0'') (rev (pad_start 6 (CHR ''0'') (show_dec (nat frac)))))
      in (if n < 0 then ''-'' else []) @ show_dec whole @ (if frac = 0 then [] else CHR ''.'' # digits))"

fun candidate_levels :: "locationPrecision \<Rightarrow> mapLevel list" where
  "candidate_levels p = (if p = Loc_region then [Level_district] else [Level_settlement, Level_district])"

fun level_place :: "mapLevel \<Rightarrow> placeLevel" where
  "level_place Level_district = Place_district" | "level_place Level_settlement = Place_settlement"

definition level_point ::
    "placeRow list \<Rightarrow> placeRow list \<Rightarrow> string \<Rightarrow> locationPrecision \<Rightarrow> mapLevel \<Rightarrow> publicMapPoint option" where
  "level_point places chain country precision level =
     (case List.find (\<lambda>p. gp_level p = level_place level \<and> gp_countryCode p = country) chain of
        None \<Rightarrow> None
      | Some node \<Rightarrow> (case find_place places (gp_id node) of
          None \<Rightarrow> None
        | Some row \<Rightarrow> (case (gp_latitude row, gp_longitude row) of
            (Some lat, Some lon) \<Rightarrow> parsePublicMapPoint (JObject
              [(''latitude'', JNumber (micro_text lat)), (''longitude'', JNumber (micro_text lon)),
               (''level'', JString (mapLevel_name level)), (''placeId'', JString (gp_id node))]) precision
          | _ \<Rightarrow> None)))"

fun first_some :: "('a \<Rightarrow> 'b option) \<Rightarrow> 'a list \<Rightarrow> 'b option" where
  "first_some f [] = None"
| "first_some f (x # xs) = (case f x of None \<Rightarrow> first_some f xs | Some y \<Rightarrow> Some y)"

definition prepareMapPoint ::
    "placeRow list \<Rightarrow> string option \<Rightarrow> string \<Rightarrow> locationPrecision \<Rightarrow> publicMapPoint option" where
  "prepareMapPoint places placeId country precision =
     (if \<not> truthy placeId then None
      else let i = the_or [] placeId;
             chain = the_or [] (map_of (loadPlaceChains places [i]) i)
        in first_some (level_point places chain country precision) (candidate_levels precision))"

subsection \<open>What is disclosed\<close>

lemma first_some_Some: "first_some f xs = Some y \<Longrightarrow> \<exists>x \<in> set xs. f x = Some y"
  by (induction xs) (auto split: option.splits)

lemma level_point_Some:
  assumes "level_point places chain country precision level = Some p"
  shows "pmp_level p = level"
    "\<exists>n \<in> set chain. pmp_placeId p = gp_id n \<and> gp_level n = level_place level \<and> gp_countryCode n = country"
    "parsePublicMapPoint (map_point_json p) precision = Some p"
proof -
  obtain n row lat lon where n: "List.find (\<lambda>p. gp_level p = level_place level \<and> gp_countryCode p = country) chain = Some n"
    and p: "parsePublicMapPoint (JObject
        [(''latitude'', JNumber (micro_text lat)), (''longitude'', JNumber (micro_text lon)),
         (''level'', JString (mapLevel_name level)), (''placeId'', JString (gp_id n))]) precision = Some p"
    using assms unfolding level_point_def by (auto split: option.splits prod.splits)
  show "parsePublicMapPoint (map_point_json p) precision = Some p"
    using p by (rule parsePublicMapPoint_again)
  show "pmp_level p = level"
    using p by (auto simp: parsePublicMapPoint_def split: if_splits)
  show "\<exists>n \<in> set chain. pmp_placeId p = gp_id n \<and> gp_level n = level_place level \<and> gp_countryCode n = country"
    using n p by (auto simp: parsePublicMapPoint_def find_Some_iff split: if_splits)
qed

lemma no_point: "parsePublicMapPoint JNull precision = None"
  by (simp add: parsePublicMapPoint_def mapLevel_of_def)

lemma parse_disclosure_json:
  assumes "\<And>p. md_mapPoint d = Some p \<Longrightarrow> parsePublicMapPoint (map_point_json p) (md_precision d) = Some p"
  shows "parseDisclosure (disclosure_json d) = d"
  using assms
  by (cases d) (auto simp: parseDisclosure_def disclosure_json_def json_opt_def Let_def no_point split: option.splits)

subsection \<open>The number of rounds\<close>

text \<open>
  The same loop with a bound on its rounds: a round asks for the places that were not known, so one more
  than the number of places is enough.
\<close>

fun load_nodes_fuel :: "nat \<Rightarrow> placeRow list \<Rightarrow> placeNodes \<Rightarrow> string list \<Rightarrow> placeNodes option" where
  "load_nodes_fuel fuel places nodes [] = Some nodes"
| "load_nodes_fuel 0 places nodes (i # is) = None"
| "load_nodes_fuel (Suc fuel) places nodes (i # is) =
     (let rows = rows_of places (i # is); nodes2 = add_nodes nodes rows
      in load_nodes_fuel fuel places nodes2 (unseen_parents nodes2 rows))"

lemma load_nodes_fuel_step:
  "pending \<noteq> [] \<Longrightarrow> load_nodes_fuel (Suc fuel) places nodes pending =
     load_nodes_fuel fuel places (add_nodes nodes (rows_of places pending))
       (unseen_parents (add_nodes nodes (rows_of places pending)) (rows_of places pending))"
  by (cases pending) (simp_all add: Let_def)

lemma load_nodes_fuel_eq: "load_nodes_fuel fuel places nodes pending = Some n \<Longrightarrow> n = load_nodes places nodes pending"
proof (induction fuel places nodes pending rule: load_nodes_fuel.induct)
  case (3 fuel places nodes i "is")
  then show ?case using load_nodes.simps [of places nodes "i # is"] by (simp add: Let_def)
qed (simp_all add: load_nodes.simps)

text \<open>Every round but the first and the last finds a place that was not known.\<close>

lemma load_nodes_enough:
  assumes "set pending \<inter> dom nodes = {}" "missing_places places nodes < fuel"
  shows "load_nodes_fuel fuel places nodes pending \<noteq> None"
  using assms
proof (induction fuel arbitrary: nodes pending)
  case (Suc fuel)
  show ?case
  proof (cases "pending = []")
    case False
    let ?rows = "rows_of places pending" and ?n = "add_nodes nodes (rows_of places pending)"
    have disjoint: "set (unseen_parents ?n ?rows) \<inter> dom ?n = {}" by (auto simp: unseen_parents_set)
    show ?thesis
    proof (cases "?rows = []")
      case True
      then have "unseen_parents ?n ?rows = []" by (simp add: unseen_parents_def js_unique_def)
      then show ?thesis using False by (simp add: load_nodes_fuel_step)
    next
      case new: False
      then obtain q where q: "q \<in> set places" "gp_id q \<in> set pending"
        by (auto simp: rows_of_def filter_empty_conv)
      have "gp_id q \<in> gp_id ` set places - dom nodes" "gp_id q \<notin> gp_id ` set places - dom ?n"
        using q Suc.prems(1) unfolding add_nodes_dom by (auto simp: rows_of_def)
      then have "gp_id ` set places - dom ?n \<subset> gp_id ` set places - dom nodes"
        unfolding add_nodes_dom by blast
      then have "missing_places places ?n < missing_places places nodes"
        unfolding missing_places_def by (intro psubset_card_mono) auto
      then have "missing_places places ?n < fuel" using Suc.prems(2) by simp
      from Suc.IH [OF disjoint this] show ?thesis using False by (simp add: load_nodes_fuel_step)
    qed
  qed simp
qed simp

end
