(* ===== verification/Presentation.thy ===== *)
theory Presentation
  imports SellerEvidence Places FactRevision
begin

text \<open>
  \<open>src/src/server/publication/presentation.ts\<close> and \<open>media/eligibility.ts\<close>: what is public, read from the
  tables every time. A query returns its rows in the order of the table it starts from. What a JSON
  column does not say is \<open>JUndefined\<close>, as reading a missing property is.
\<close>

subsection \<open>Media eligibility\<close>

definition same_rendition :: "mediaAssetRow \<Rightarrow> mediaRendition \<Rightarrow> bool" where
  "same_rendition a item =
     (Some (rn_key item) = mas_derivativeKey a \<and> Some (rn_sha256 item) = mas_derivativeSha256 a \<and>
      mas_derivativeContentType a = Some ''image/webp'' \<and> Some (rn_width item) = mas_width a \<and>
      Some (rn_height item) = mas_height a)"

definition eligibility_input :: "mediaAssetRow \<Rightarrow> mediaEligibilityInput" where
  "eligibility_input a =
     \<lparr>mi_audience = mas_audience a, mi_sealedSha256 = mas_sha256 a, mi_scan = mas_scan a,
      mi_processing = mas_processing a, mi_rights = mas_rights a, mi_review = mas_review a,
      mi_modification = mas_modification a, mi_modificationDisclosure = mas_modificationDisclosure a\<rparr>"

definition mediaAssetEligible :: "mediaAssetRow \<Rightarrow> bool" where
  "mediaAssetEligible a =
     (case parseMediaRenditions (mas_derivativeRenditions a) (mas_id a) of
        None \<Rightarrow> False
      | Some renditions \<Rightarrow>
          if renditions \<noteq> [] \<and> \<not> list_ex (same_rendition a) renditions then False
          else isMediaPublishable (eligibility_input a) \<and>
            truthy (mas_sealedKey a) \<and> mas_scannedAt a \<noteq> None \<and> truthy (mas_scannerVersion a) \<and>
            mas_scannedSha256 a = mas_sha256 a \<and> truthy (mas_derivativeKey a) \<and>
            truthy (mas_derivativeSha256 a) \<and> mas_derivativeContentType a = Some ''image/webp'')"

subsection \<open>What is public\<close>

text \<open>
  The manifest's consent, \<open>clock\<close> being the instant of the query, and the locale copy it names: a left
  join, so a manifest without a localized revision passes.
\<close>

definition public_consent :: "reviewTables \<Rightarrow> publicationTables \<Rightarrow> int \<Rightarrow> listingRow \<Rightarrow> manifestRow \<Rightarrow> bool" where
  "public_consent rt t clock l m =
     list_ex (\<lambda>si. Some (si_id si) = column_text (json_get (mf_decisions m) ''sellerInstruction'') \<and>
       currentSellerEvidence rt (pb_listings t) clock (ls_id l) si) (rt_instructions rt)"

definition locale_current :: "reviewTables \<Rightarrow> manifestRow \<Rightarrow> bool" where
  "locale_current rt m = (case mf_localizedRevisionId m of None \<Rightarrow> True
     | Some i \<Rightarrow> list_ex (\<lambda>z. lz_id z = i \<and> lz_state z = Lcs_approved_for_source) (rt_localized rt))"

definition eligible_pointer ::
    "reviewTables \<Rightarrow> publicationTables \<Rightarrow> int \<Rightarrow> publicLocale \<Rightarrow> pointerRow \<Rightarrow> bool" where
  "eligible_pointer rt t clock loc p =
     (cp_locale p = loc \<and> cp_destination p = Dest_website \<and> cp_state p = Ptr_active \<and>
      (case listing_of t (cp_listingId p) of None \<Rightarrow> False
       | Some l \<Rightarrow> ls_publicationGeneration l = cp_generation p \<and>
           (case manifest_of t (cp_manifestId p) of None \<Rightarrow> False
            | Some m \<Rightarrow> public_consent rt t clock l m \<and> locale_current rt m)))"

definition eligiblePublications ::
    "reviewTables \<Rightarrow> publicationTables \<Rightarrow> int \<Rightarrow> publicLocale \<Rightarrow> (string \<times> string \<times> int) list" where
  "eligiblePublications rt t clock loc =
     map (\<lambda>p. (cp_listingId p, cp_manifestId p, cp_activatedAt p))
       (filter (eligible_pointer rt t clock loc) (pb_pointers t))"

subsection \<open>Facts\<close>

record storedFact =
  sf_state :: string
  sf_value :: json
  sf_unit :: json
  sf_basis :: json
  sf_sourceClass :: json
  sf_observedAt :: "int option"
  sf_reviewedAt :: "int option"

fun entries_of :: "json \<Rightarrow> (string \<times> json) list" where
  "entries_of (JObject es) = es" | "entries_of _ = []"

definition or_else :: "json \<Rightarrow> json \<Rightarrow> json" where
  "or_else v d = (if v = JUndefined \<or> v = JNull then d else v)"

definition terms_fact :: "json \<Rightarrow> storedFact option" where
  "terms_fact f = (case json_get f ''state'' of
       JString s \<Rightarrow> Some \<lparr>sf_state = s, sf_value = or_else (json_get f ''value'') JNull,
         sf_unit = or_else (json_get f ''unit'') JNull, sf_basis = or_else (json_get f ''basis'') JNull,
         sf_sourceClass = or_else (json_get f ''sourceClass'') (JString ''source_supplied''),
         sf_observedAt = None, sf_reviewedAt = None\<rparr>
     | _ \<Rightarrow> None)"

definition termsFacts :: "json \<Rightarrow> (string \<times> storedFact) list" where
  "termsFacts terms =
     concat (map (\<lambda>(k, f). case terms_fact f of None \<Rightarrow> [] | Some s \<Rightarrow> [(k, s)])
       (entries_of (json_get terms ''facts'')))"

definition internalFactKeys :: "string list" where
  "internalFactKeys = [''location'', ''price.amount_without_period'']"

datatype factGroup = Group_price | Group_space | Group_building | Group_condition | Group_access
  | Group_facilities | Group_planning

definition featureGroups :: "(string \<times> factGroup) list" where
  "featureGroups =
     [(''floor_number'', Group_building), (''total_floors'', Group_building), (''storeys_count'', Group_building),
      (''construction_status'', Group_building), (''condition'', Group_condition), (''parking_kind'', Group_access),
      (''road_access_status'', Group_access), (''utilities_status'', Group_facilities),
      (''zoning_status'', Group_planning), (''land_category'', Group_planning), (''permitted_use'', Group_planning),
      (''permanent_use'', Group_planning), (''premises_count'', Group_space), (''hotel_room_count'', Group_space)]"

definition factGroup_of :: "string \<Rightarrow> factGroup" where
  "factGroup_of key =
     (if key = ''price'' \<or> starts_with ''price.'' key then Group_price
      else if starts_with ''feature.'' key then the_or Group_facilities (map_of featureGroups (drop 8 key))
      else Group_space)"

datatype factVerification = Ver_imported | Ver_owner_supplied | Ver_calculated | Ver_broker_verified

definition verificationOf :: "json \<Rightarrow> factVerification" where
  "verificationOf c =
     (if c = JString ''legacy_import'' then Ver_imported
      else if c = JString ''source_supplied'' \<or> c = JString ''owner_confirmed'' then Ver_owner_supplied
      else if c = JString ''system_calculated'' then Ver_calculated else Ver_broker_verified)"

text \<open>A public fact: a known value with its unit, an unsettled one without its candidates, or a state.\<close>

datatype shownFact = Shown_known json "json option" | Shown_conflicting | Shown_state string

record publicFact =
  pbf_key :: string
  pbf_group :: factGroup
  pbf_fact :: shownFact
  pbf_sourceClass :: json
  pbf_observedAt :: "string option"
  pbf_reviewedAt :: "string option"
  pbf_verification :: factVerification
  pbf_reviewed :: bool

fun is_object :: "json \<Rightarrow> bool" where
  "is_object JNull = True" | "is_object (JArray _) = True" | "is_object (JObject _) = True" | "is_object _ = False"

definition toPublicFact :: "string \<Rightarrow> storedFact \<Rightarrow> publicFact" where
  "toPublicFact key s =
     \<lparr>pbf_key = key, pbf_group = factGroup_of key,
      pbf_fact = (if sf_state s = ''known''
        then Shown_known (sf_value s)
          (if json_truthy (sf_unit s) \<and> \<not> is_object (sf_value s) then Some (sf_unit s) else None)
        else if sf_state s = ''conflicting'' then Shown_conflicting else Shown_state (sf_state s)),
      pbf_sourceClass = sf_sourceClass s, pbf_observedAt = map_option to_iso (sf_observedAt s),
      pbf_reviewedAt = map_option to_iso (sf_reviewedAt s), pbf_verification = verificationOf (sf_sourceClass s),
      pbf_reviewed = (sf_reviewedAt s \<noteq> None)\<rparr>"

fun sourceClass_name :: "sourceClass \<Rightarrow> string" where
  "sourceClass_name Src_source_supplied = ''source_supplied''"
| "sourceClass_name Src_owner_confirmed = ''owner_confirmed''"
| "sourceClass_name Src_agency_observed = ''agency_observed''"
| "sourceClass_name Src_document_reviewed = ''document_reviewed''"
| "sourceClass_name Src_professionally_reviewed = ''professionally_reviewed''"
| "sourceClass_name Src_system_calculated = ''system_calculated''"
| "sourceClass_name Src_legacy_import = ''legacy_import''"

definition row_fact :: "propertyFactRow \<Rightarrow> storedFact" where
  "row_fact f =
     \<lparr>sf_state = factState_name (pf_state f), sf_value = the_or JNull (pf_value f),
      sf_unit = json_opt JString (pf_unit f), sf_basis = json_opt JString (pf_basis f),
      sf_sourceClass = JString (sourceClass_name (pf_sourceClass f)), sf_observedAt = pf_observedAt f,
      sf_reviewedAt = pf_reviewedAt f\<rparr>"

text \<open>
  The map of public facts, in the order of insertion: the rows of the fact revision, then the terms,
  which replace a row of the same key.
\<close>

fun map_set :: "(string \<times> 'v) list \<Rightarrow> string \<Rightarrow> 'v \<Rightarrow> (string \<times> 'v) list" where
  "map_set [] k v = [(k, v)]"
| "map_set ((l, w) # es) k v = (if l = k then (k, v) # es else (l, w) # map_set es k v)"

definition publicFacts :: "propertyFactRow list \<Rightarrow> string \<Rightarrow> json \<Rightarrow> (string \<times> publicFact) list" where
  "publicFacts rows factRevisionId terms =
     foldl (\<lambda>m (k, f). map_set m k (toPublicFact k f)) []
       (filter (\<lambda>(k, _). k \<notin> set internalFactKeys)
         (map (\<lambda>f. (pf_fieldKey f, row_fact f)) (filter (\<lambda>f. pf_factRevisionId f = factRevisionId) rows) @
          termsFacts terms))"

definition fact_at :: "(string \<times> publicFact) list \<Rightarrow> string \<Rightarrow> publicFact option" where
  "fact_at facts key = map_of facts key"

definition copy_string :: "json \<Rightarrow> string option" where
  "copy_string v = (case v of JString s \<Rightarrow> if trim s = [] then None else Some s | _ \<Rightarrow> None)"

definition copyText :: "json \<Rightarrow> string option \<times> string option" where
  "copyText v = (copy_string (json_get v ''title''), copy_string (json_get v ''description''))"

subsection \<open>Media of a manifest\<close>

record publicMedia =
  pme_relationId :: json
  pme_assetId :: string
  pme_digest :: json
  pme_kind :: json
  pme_contentType :: json
  pme_renditions :: "(string \<times> int \<times> int) list"
  pme_width :: json
  pme_height :: json
  pme_alt :: json
  pme_caption :: json
  pme_modificationDisclosure :: json
  pme_position :: json

definition has_property :: "json \<Rightarrow> string \<Rightarrow> bool" where
  "has_property v k = (k \<in> fst ` set (entries_of v))"

definition bound_bytes :: "mediaAssetRow \<Rightarrow> json \<Rightarrow> bool" where
  "bound_bytes a item =
     (json_opt JString (mas_sha256 a) = json_get item ''sha256'' \<and>
      json_opt JString (mas_derivativeKey a) = json_get item ''derivativeKey'' \<and>
      json_opt JString (mas_derivativeSha256 a) = json_get item ''derivativeSha256'' \<and>
      json_opt JString (mas_derivativeContentType a) = json_get item ''derivativeContentType'')"

definition shown_media :: "mediaAssetRow list \<Rightarrow> json \<Rightarrow> publicMedia list" where
  "shown_media assets item =
     (case List.find (\<lambda>a. JString (mas_id a) = json_get item ''assetId'') assets of
        None \<Rightarrow> []
      | Some a \<Rightarrow>
          (case publishedMediaRenditions (mas_derivativeRenditions a) (json_get item ''renditions'') (mas_id a) of
             None \<Rightarrow> []
           | Some renditions \<Rightarrow>
               if \<not> bound_bytes a item \<or> \<not> has_property item ''altText'' \<or> \<not> has_property item ''caption''
                  \<or> \<not> json_truthy (json_get item ''kind'') \<or> \<not> json_truthy (json_get item ''modification'')
                  \<or> \<not> mediaAssetEligible a
               then []
               else [\<lparr>pme_relationId = json_get item ''relationId'', pme_assetId = mas_id a,
                      pme_digest = json_get item ''derivativeSha256'', pme_kind = json_get item ''kind'',
                      pme_contentType = json_get item ''derivativeContentType'',
                      pme_renditions = map (\<lambda>r. (rn_sha256 r, rn_width r, rn_height r)) renditions,
                      pme_width = json_get item ''width'', pme_height = json_get item ''height'',
                      pme_alt = json_get item ''altText'', pme_caption = json_get item ''caption'',
                      pme_modificationDisclosure = (if json_get item ''modification'' = JString ''none'' then JNull
                        else json_get item ''modificationDisclosure''),
                      pme_position = json_get item ''position''\<rparr>]))"

fun items_of :: "json \<Rightarrow> json list" where
  "items_of (JArray xs) = xs" | "items_of _ = []"

text \<open>Positions are the numbers the program wrote.\<close>

definition position_of :: "json \<Rightarrow> rat" where
  "position_of item = the_or 0 (number_value (json_number (json_get item ''position'')))"

definition publicMedia_of :: "mediaAssetRow list \<Rightarrow> json \<Rightarrow> publicMedia list" where
  "publicMedia_of assets media = concat (map (shown_media assets) (sort_key position_of (items_of media)))"

subsection \<open>loadPublishedListings\<close>

record publishedListing =
  pl_listingId :: string
  pl_reference :: string
  pl_locale :: publicLocale
  pl_purpose :: listingPurpose
  pl_propertyType :: propertyType
  pl_manifestId :: string
  pl_activatedAt :: int
  pl_listingRevisionId :: string
  pl_commercialState :: commercialState
  pl_availabilityConfirmedAt :: "int option"
  pl_recordedReviewDueAt :: "int option"
  pl_hasRecordedPolicy :: bool
  pl_freshnessConflicting :: bool
  pl_disclosure :: manifestDisclosure
  pl_placeChain :: "placeRow list"
  pl_placeAliases :: "string list"
  pl_facts :: "(string \<times> publicFact) list"
  pl_title :: "string option"
  pl_description :: "string option"
  pl_media :: "publicMedia list"

definition loadPlaceAliases :: "(string \<times> string) list \<Rightarrow> string \<Rightarrow> string list" where
  "loadPlaceAliases aliases placeId = map snd (filter (\<lambda>(i, _). i = placeId) aliases)"

definition copy_of :: "reviewTables \<Rightarrow> manifestRow \<Rightarrow> listingRevisionRow \<Rightarrow> string option \<times> string option" where
  "copy_of rt m r =
     (case (if truthy (mf_localizedRevisionId m)
            then List.find (\<lambda>z. Some (lz_id z) = mf_localizedRevisionId m) (rt_localized rt) else None) of
        Some z \<Rightarrow> (copy_string (json_opt JString (lz_title z)), snd (copyText (the_or JNull (lz_body z))))
      | None \<Rightarrow> copyText (json_get (lr_sourceCopy r) ''text''))"

definition published_of ::
    "reviewTables \<Rightarrow> publicLocale \<Rightarrow> int \<Rightarrow> listingRow \<Rightarrow> propertyRow \<Rightarrow> manifestRow \<Rightarrow> listingRevisionRow
      \<Rightarrow> publishedListing" where
  "published_of rt loc activatedAt l p m r =
     (let d = parseDisclosure (mf_disclosure m);
          chain = (if truthy (md_placeId d)
            then the_or [] (map_of (loadPlaceChains (rt_places rt) [the_or [] (md_placeId d)]) (the_or [] (md_placeId d)))
            else [])
      in \<lparr>pl_listingId = ls_id l, pl_reference = ls_reference l, pl_locale = loc, pl_purpose = ls_purpose l,
          pl_propertyType = pt_propertyType p, pl_manifestId = mf_id m, pl_activatedAt = activatedAt,
          pl_listingRevisionId = mf_listingRevisionId m, pl_commercialState = ls_commercialState l,
          pl_availabilityConfirmedAt = ls_availabilityConfirmedAt l, pl_recordedReviewDueAt = ls_reviewDueAt l,
          pl_hasRecordedPolicy = (ls_availabilityPolicySnapshot l \<noteq> None),
          pl_freshnessConflicting = (ls_freshnessState l = Fresh_conflicting), pl_disclosure = d,
          pl_placeChain = chain,
          pl_placeAliases = concat (map (\<lambda>q. loadPlaceAliases (rt_aliases rt) (gp_id q)) chain),
          pl_facts = publicFacts (rt_facts rt) (mf_factRevisionId m) (lr_terms r),
          pl_title = fst (copy_of rt m r), pl_description = snd (copy_of rt m r),
          pl_media = publicMedia_of (rt_assets rt) (mf_media m)\<rparr>)"

text \<open>One eligible publication with the rows it is joined with.\<close>

definition published_row ::
    "reviewTables \<Rightarrow> publicationTables \<Rightarrow> publicLocale \<Rightarrow> string \<times> string \<times> int \<Rightarrow> publishedListing list" where
  "published_row rt t loc e = (case e of (listingId, manifestId, activatedAt) \<Rightarrow>
     (case (listing_of t listingId, manifest_of t manifestId) of
        (Some l, Some m) \<Rightarrow> (case (property_of t (ls_propertyId l), revision_of rt (mf_listingRevisionId m)) of
            (Some p, Some r) \<Rightarrow> [published_of rt loc activatedAt l p m r]
          | _ \<Rightarrow> [])
      | _ \<Rightarrow> []))"

text \<open>The place in the order asked for; a key given twice has its last place.\<close>

fun last_index :: "string \<Rightarrow> string list \<Rightarrow> int \<Rightarrow> int option" where
  "last_index k [] i = None"
| "last_index k (x # xs) i = (case last_index k xs (i + 1) of Some j \<Rightarrow> Some j
     | None \<Rightarrow> if x = k then Some i else None)"

definition order_position :: "string list \<Rightarrow> publishedListing \<Rightarrow> int" where
  "order_position keys p = (case last_index (pl_listingId p) keys 0 of Some i \<Rightarrow> i
     | None \<Rightarrow> the_or max_safe_integer (last_index (pl_reference p) keys 0))"

definition loadPublishedListings ::
    "reviewTables \<Rightarrow> publicationTables \<Rightarrow> int \<Rightarrow> string list \<Rightarrow> string list \<Rightarrow> publicLocale \<Rightarrow> publishedListing list" where
  "loadPublishedListings rt t clock idKeys references loc =
     sort_key (order_position (idKeys @ references))
       (filter (\<lambda>p. pl_listingId p \<in> set idKeys \<or> pl_reference p \<in> set references)
         (concat (map (published_row rt t loc) (eligiblePublications rt t clock loc))))"

subsection \<open>Presentation\<close>

definition freshnessOf :: "publishedListing \<Rightarrow> int \<Rightarrow> freshnessState" where
  "freshnessOf p now = fst (assessFreshness
     \<lparr>fi_purpose = pl_purpose p, fi_lastConfirmedAt = map_option to_iso (pl_availabilityConfirmedAt p),
      fi_conflicting = Some (pl_freshnessConflicting p), fi_now = to_iso now, fi_intervalDays = None,
      fi_recordedReviewDueAt = (if pl_hasRecordedPolicy p then Some (map_option to_iso (pl_recordedReviewDueAt p))
        else None)\<rparr>)"

definition presentationOf :: "(publicLocale \<Rightarrow> bool) \<Rightarrow> publishedListing \<Rightarrow> int \<Rightarrow> publicPresentation" where
  "presentationOf indexable p now =
     derivePublicPresentation (Some Ptr_active) (pl_commercialState p) (freshnessOf p now) (indexable (pl_locale p))"

definition fact_or_unknown :: "publicFact option \<Rightarrow> shownFact" where
  "fact_or_unknown f = (case f of None \<Rightarrow> Shown_state ''unknown'' | Some x \<Rightarrow> pbf_fact x)"

definition priceFact :: "publishedListing \<Rightarrow> shownFact" where
  "priceFact p = fact_or_unknown (fact_at (pl_facts p) ''price'')"

definition bedroomsFact :: "publishedListing \<Rightarrow> shownFact" where
  "bedroomsFact p = fact_or_unknown (fact_at (pl_facts p) ''bedrooms'')"

definition areaPreference :: "string list" where
  "areaPreference = [''living'', ''built'', ''total'', ''land'']"

fun is_known :: "shownFact \<Rightarrow> bool" where
  "is_known (Shown_known v u) = True" | "is_known _ = False"

definition known_fact :: "publicFact option \<Rightarrow> shownFact option" where
  "known_fact f = (case f of None \<Rightarrow> None | Some x \<Rightarrow> if is_known (pbf_fact x) then Some (pbf_fact x) else None)"

definition headlineArea :: "publishedListing \<Rightarrow> shownFact" where
  "headlineArea p =
     (case first_some (\<lambda>b. known_fact (fact_at (pl_facts p) (''area.'' @ b))) areaPreference of
        Some f \<Rightarrow> f
      | None \<Rightarrow> (case fact_at (pl_facts p) ''area'' of
          Some x \<Rightarrow> pbf_fact x
        | None \<Rightarrow> fact_or_unknown (first_some (\<lambda>b. fact_at (pl_facts p) (''area.'' @ b)) areaPreference)))"

record listingCard =
  lc_reference :: string
  lc_slug :: string
  lc_manifestId :: string
  lc_locale :: publicLocale
  lc_purpose :: listingPurpose
  lc_propertyType :: propertyType
  lc_title :: "string option"
  lc_price :: shownFact
  lc_place :: publicPlace
  lc_bedrooms :: shownFact
  lc_area :: shownFact
  lc_presented :: commercialState
  lc_freshness :: freshnessState
  lc_confirmedAt :: "string option"
  lc_primaryAction :: primaryAction
  lc_cover :: "publicMedia option"

definition listingSlug :: "string \<Rightarrow> string" where
  "listingSlug reference = to_lower reference"

definition toCard :: "(publicLocale \<Rightarrow> bool) \<Rightarrow> publishedListing \<Rightarrow> int \<Rightarrow> listingCard" where
  "toCard indexable p now =
     (let shown = presentationOf indexable p now
      in \<lparr>lc_reference = pl_reference p, lc_slug = listingSlug (pl_reference p), lc_manifestId = pl_manifestId p,
          lc_locale = pl_locale p, lc_purpose = pl_purpose p, lc_propertyType = pl_propertyType p,
          lc_title = pl_title p, lc_price = priceFact p,
          lc_place = publicPlace_of (pl_placeChain p) (pl_disclosure p) (pl_locale p),
          lc_bedrooms = bedroomsFact p, lc_area = headlineArea p, lc_presented = pp_availability shown,
          lc_freshness = freshnessOf p now, lc_confirmedAt = map_option to_iso (pl_availabilityConfirmedAt p),
          lc_primaryAction = pp_primaryAction shown,
          lc_cover = (case pl_media p of [] \<Rightarrow> None | x # xs \<Rightarrow> Some x)\<rparr>)"

definition loadCards ::
    "reviewTables \<Rightarrow> publicationTables \<Rightarrow> (publicLocale \<Rightarrow> bool) \<Rightarrow> int \<Rightarrow> string list \<Rightarrow> publicLocale \<Rightarrow> int
      \<Rightarrow> listingCard list" where
  "loadCards rt t indexable clock idKeys loc now =
     map (\<lambda>p. toCard indexable p now) (loadPublishedListings rt t clock idKeys [] loc)"

subsection \<open>What a public reading shows\<close>

lemma listing_of_id: "listing_of t i = Some l \<Longrightarrow> ls_id l = i"
  by (auto dest: listing_of_Some)

lemma manifest_of_id: "manifest_of t i = Some m \<Longrightarrow> mf_id m = i"
  by (auto dest: manifest_of_Some)

lemma eligible_pointerE:
  assumes "eligible_pointer rt t clock loc p"
  obtains l m where "cp_locale p = loc" "cp_destination p = Dest_website" "cp_state p = Ptr_active"
    "listing_of t (cp_listingId p) = Some l" "ls_publicationGeneration l = cp_generation p"
    "manifest_of t (cp_manifestId p) = Some m" "public_consent rt t clock l m" "locale_current rt m"
  using assms by (auto simp: eligible_pointer_def split: option.splits)

lemma published_of_keys [simp]:
  "pl_listingId (published_of rt loc a l q m r) = ls_id l"
  "pl_reference (published_of rt loc a l q m r) = ls_reference l"
  "pl_manifestId (published_of rt loc a l q m r) = mf_id m"
  "pl_activatedAt (published_of rt loc a l q m r) = a"
  "pl_media (published_of rt loc a l q m r) = publicMedia_of (rt_assets rt) (mf_media m)"
  "pl_facts (published_of rt loc a l q m r) = publicFacts (rt_facts rt) (mf_factRevisionId m) (lr_terms r)"
  by (simp_all add: published_of_def Let_def)

lemma published_rowE:
  assumes "x \<in> set (published_row rt t loc (i, j, a))"
  obtains l m q r where "listing_of t i = Some l" "manifest_of t j = Some m"
    "property_of t (ls_propertyId l) = Some q" "revision_of rt (mf_listingRevisionId m) = Some r"
    "x = published_of rt loc a l q m r"
proof -
  obtain l where l: "listing_of t i = Some l"
    using assms by (cases "listing_of t i") (simp_all add: published_row_def)
  obtain m where m: "manifest_of t j = Some m"
    using assms l by (cases "manifest_of t j") (simp_all add: published_row_def)
  obtain q where q: "property_of t (ls_propertyId l) = Some q"
    using assms l m by (cases "property_of t (ls_propertyId l)") (simp_all add: published_row_def)
  obtain r where r: "revision_of rt (mf_listingRevisionId m) = Some r"
    using assms l m q by (cases "revision_of rt (mf_listingRevisionId m)") (simp_all add: published_row_def)
  have "x = published_of rt loc a l q m r"
    using assms l m q r by (simp add: published_row_def)
  then show thesis by (rule that [OF l m q r])
qed

text \<open>Everything loaded is eligible, and was asked for.\<close>

lemma loaded_eligible:
  assumes "x \<in> set (loadPublishedListings rt t clock idKeys references loc)"
  obtains p l m q r where "p \<in> set (pb_pointers t)" "eligible_pointer rt t clock loc p"
    "listing_of t (cp_listingId p) = Some l" "manifest_of t (cp_manifestId p) = Some m"
    "property_of t (ls_propertyId l) = Some q" "revision_of rt (mf_listingRevisionId m) = Some r"
    "x = published_of rt loc (cp_activatedAt p) l q m r" "ls_id l \<in> set idKeys \<or> ls_reference l \<in> set references"
proof -
  obtain e where e: "e \<in> set (eligiblePublications rt t clock loc)" and x: "x \<in> set (published_row rt t loc e)"
    and asked: "pl_listingId x \<in> set idKeys \<or> pl_reference x \<in> set references"
    using assms by (auto simp: loadPublishedListings_def)
  obtain p where p: "p \<in> set (pb_pointers t)" "eligible_pointer rt t clock loc p"
    and e2: "e = (cp_listingId p, cp_manifestId p, cp_activatedAt p)"
    using e by (auto simp: eligiblePublications_def)
  from x [unfolded e2] obtain l m q r where row: "listing_of t (cp_listingId p) = Some l"
    "manifest_of t (cp_manifestId p) = Some m" "property_of t (ls_propertyId l) = Some q"
    "revision_of rt (mf_listingRevisionId m) = Some r" "x = published_of rt loc (cp_activatedAt p) l q m r"
    by (rule published_rowE)
  show thesis by (rule that [OF p row]) (use asked row(5) in simp)
qed

lemma map_set_of [simp]: "map_of (map_set es k v) = (map_of es)(k \<mapsto> v)"
  by (induction es k v rule: map_set.induct) (auto simp: fun_eq_iff)

lemma map_set_distinct: "distinct (map fst es) \<Longrightarrow> distinct (map fst (map_set es k v))"
proof (induction es k v rule: map_set.induct)
  case (2 l w es k v)
  have "fst ` set (map_set es k v) = insert k (fst ` set es)" by (metis dom_map_of_conv_image_fst map_set_of dom_fun_upd option.simps(3))
  then show ?case using 2 by auto
qed simp

lemma foldl_map_set_dom:
  "dom (map_of (foldl (\<lambda>m (k, f). map_set m k (g k f)) es fs)) = dom (map_of es) \<union> fst ` set fs"
proof (induction fs arbitrary: es)
  case (Cons p fs)
  obtain k f where p: "p = (k, f)" by (cases p)
  have d: "dom (map_of (map_set es k (g k f))) = insert k (dom (map_of es))"
    by (simp only: map_set_of dom_fun_upd option.distinct if_False)
  show ?case unfolding p foldl_Cons prod.case Cons.IH d by auto
qed simp

text \<open>What stays internal is not among the public facts.\<close>

lemma publicFacts_internal:
  assumes "k \<in> set internalFactKeys"
  shows "fact_at (publicFacts rows i terms) k = None"
proof -
  have "k \<notin> dom (map_of (publicFacts rows i terms))"
    unfolding publicFacts_def foldl_map_set_dom using assms by auto
  then show ?thesis by (simp add: fact_at_def domIff)
qed

text \<open>A conflicting fact is shown without its candidates, whatever is stored.\<close>

lemma toPublicFact_conflicting:
  "sf_state s = ''conflicting'' \<Longrightarrow> pbf_fact (toPublicFact k s) = Shown_conflicting"
  by (simp add: toPublicFact_def)

lemma shown_media_Some:
  assumes "x \<in> set (publicMedia_of assets media)"
  obtains a item where "a \<in> set assets" "item \<in> set (items_of media)" "pme_assetId x = mas_id a"
    "mediaAssetEligible a" "bound_bytes a item" "pme_digest x = json_get item ''derivativeSha256''"
proof -
  obtain item where item: "item \<in> set (items_of media)" and x: "x \<in> set (shown_media assets item)"
    using assms by (auto simp: publicMedia_of_def)
  obtain a where a: "List.find (\<lambda>a. JString (mas_id a) = json_get item ''assetId'') assets = Some a"
    "mediaAssetEligible a" "bound_bytes a item" "pme_assetId x = mas_id a"
    "pme_digest x = json_get item ''derivativeSha256''"
    using x by (cases "List.find (\<lambda>a. JString (mas_id a) = json_get item ''assetId'') assets")
      (auto simp: shown_media_def split: option.split_asm if_split_asm)
  then have "a \<in> set assets" by (auto simp: find_Some_iff)
  then show thesis using that item a by blast
qed

text \<open>A public reading depends on four tables only.\<close>

lemma load_cong:
  assumes "pb_listings t2 = pb_listings t" "pb_manifests t2 = pb_manifests t" "pb_pointers t2 = pb_pointers t"
    "pb_properties t2 = pb_properties t"
  shows "loadPublishedListings rt t2 = loadPublishedListings rt t"
proof -
  have rows: "listing_of t2 = listing_of t" "manifest_of t2 = manifest_of t" "property_of t2 = property_of t"
    using assms by (simp_all add: fun_eq_iff listing_of_def manifest_of_def property_of_def)
  have e: "eligible_pointer rt t2 = eligible_pointer rt t"
    by (intro ext) (simp only: eligible_pointer_def public_consent_def rows assms(1))
  have r: "published_row rt t2 = published_row rt t"
    by (intro ext) (simp only: published_row_def rows)
  show ?thesis
    by (intro ext) (simp only: loadPublishedListings_def eligiblePublications_def e r assms(3))
qed

text \<open>A viewing is offered only for what is available and freshly confirmed.\<close>

lemma card_viewing:
  "lc_primaryAction (toCard indexable p now) = Act_request_viewing \<longleftrightarrow>
     pl_commercialState p = Com_available \<and> freshnessOf p now = Fresh_current_under_policy"
  by (simp add: toCard_def Let_def presentationOf_def viewing_offered_iff)

end
