(* ===== verification/Eligibility.thy ===== *)
theory Eligibility
  imports Presentation Errors
begin

text \<open>
  \<open>currentEligibility\<close> of \<open>src/src/server/publication/commands.ts\<close> and the approvals it rests on: what
  is required of a listing before it can be published in a locale, read from the tables, and the content
  a manifest binds. SHA-256 is \<open>sha\<close>.
\<close>

subsection \<open>Approvals\<close>

text \<open>
  The approvals of a subject, newest first; PostgreSQL puts nulls before every instant of a descending
  order. Approvals of the same instant come in the order of the table.
\<close>

definition newest_first :: "approvalRow list \<Rightarrow> approvalRow list" where
  "newest_first rows =
     filter (\<lambda>r. apr_decidedAt r = None) rows @
     sort_key (\<lambda>r. - the_or 0 (apr_decidedAt r)) (filter (\<lambda>r. apr_decidedAt r \<noteq> None) rows)"

definition approval_of :: "approvalRow \<Rightarrow> expiringApproval" where
  "approval_of r =
     \<lparr>apv_kind = apr_kind r,
      apv_subject = \<lparr>subj_type = apr_subjectType r, subj_id = apr_subjectId r, subj_version = apr_subjectVersion r,
        subj_hash = apr_subjectHash r\<rparr>,
      apv_state = apr_state r, apv_decidedBy = None, apv_expiresAt = map_option to_iso (apr_expiresAt r)\<rparr>"

definition approved_for :: "approvalKind \<Rightarrow> string \<Rightarrow> string \<Rightarrow> approvalRow \<Rightarrow> bool" where
  "approved_for kind subjectType subjectId r =
     (apr_kind r = kind \<and> apr_subjectType r = subjectType \<and> apr_subjectId r = subjectId \<and>
      apr_state r = Apv_approved)"

definition validApprovalId ::
    "approvalRow list \<Rightarrow> approvalKind \<Rightarrow> string \<Rightarrow> string \<Rightarrow> string \<Rightarrow> int \<Rightarrow> string option" where
  "validApprovalId rows kind subjectType subjectId currentHash now =
     map_option apr_id (List.find (\<lambda>r. isApprovalValid (approval_of r) currentHash (Some (to_iso now)))
       (newest_first (filter (approved_for kind subjectType subjectId) rows)))"

definition localizedRevisionDigest :: "(string \<Rightarrow> string) \<Rightarrow> localizedRow \<Rightarrow> string" where
  "localizedRevisionDigest sha z = sha (canonicalJson (JObject
     [(''sourceRevisionId'', JString (lz_sourceRevisionId z)), (''locale'', JString (locale_name (lz_locale z))),
      (''title'', json_opt JString (lz_title z)), (''body'', the_or JNull (lz_body z))]))"

subsection \<open>The content of a manifest\<close>

record manifestContent =
  mc_listingId :: string
  mc_locale :: publicLocale
  mc_destination :: publicationDestination
  mc_generation :: int
  mc_listingRevisionId :: string
  mc_listingRevisionDigest :: string
  mc_factRevisionId :: string
  mc_factRevisionDigest :: string
  mc_localizedRevisionId :: "string option"
  mc_localizedRevisionDigest :: "string option"
  mc_media :: "json list"
  mc_disclosure :: json
  mc_availabilityBasis :: json
  mc_policyRevision :: string
  mc_decisions :: json

definition publicationPolicyRevision :: string where
  "publicationPolicyRevision = ''architecture-1.0/publication-2026-09-27''"

fun destination_name :: "publicationDestination \<Rightarrow> string" where
  "destination_name Dest_website = ''website''" | "destination_name Dest_manual_portal = ''manual_portal''"

definition content_json :: "manifestContent \<Rightarrow> json" where
  "content_json c = JObject
     [(''listingId'', JString (mc_listingId c)), (''locale'', JString (locale_name (mc_locale c))),
      (''destination'', JString (destination_name (mc_destination c))), (''generation'', json_int (mc_generation c)),
      (''listingRevisionId'', JString (mc_listingRevisionId c)),
      (''listingRevisionDigest'', JString (mc_listingRevisionDigest c)),
      (''factRevisionId'', JString (mc_factRevisionId c)), (''factRevisionDigest'', JString (mc_factRevisionDigest c)),
      (''localizedRevisionId'', json_opt JString (mc_localizedRevisionId c)),
      (''localizedRevisionDigest'', json_opt JString (mc_localizedRevisionDigest c)),
      (''media'', JArray (mc_media c)), (''disclosure'', mc_disclosure c),
      (''availabilityBasis'', mc_availabilityBasis c), (''policyRevision'', JString (mc_policyRevision c)),
      (''decisions'', mc_decisions c)]"

definition manifestDigest :: "(string \<Rightarrow> string) \<Rightarrow> manifestContent \<Rightarrow> string" where
  "manifestDigest sha c = sha (canonicalJson (content_json c))"

subsection \<open>The instruction of the seller\<close>

fun scopeCovers :: "listingPurpose \<Rightarrow> representationScope list" where
  "scopeCovers Purpose_sale = [Scope_sale, Scope_sale_and_letting]"
| "scopeCovers Purpose_long_term_rent = [Scope_letting, Scope_sale_and_letting]"

text \<open>The agreed instruction of the highest revision that covers the listing.\<close>

definition covers_listing :: "listingRow \<Rightarrow> instructionRow \<Rightarrow> bool" where
  "covers_listing l si =
     (si_propertyId si = ls_propertyId l \<and>
      (si_listingId si = Some (ls_id l) \<or>
       (si_listingId si = None \<and> si_representationScope si \<in> set (scopeCovers (ls_purpose l)))) \<and>
      si_state si = Si_agreed \<and> si_invalidatedAt si = None)"

definition current_instruction :: "reviewTables \<Rightarrow> listingRow \<Rightarrow> instructionRow option" where
  "current_instruction rt l =
     (case sort_key (\<lambda>si. - si_revisionNumber si) (filter (covers_listing l) (rt_instructions rt)) of
        [] \<Rightarrow> None | si # _ \<Rightarrow> Some si)"

text \<open>\<open>===\<close> on the values of two JSON properties: two objects are never the same one.\<close>

definition same_value :: "json \<Rightarrow> json \<Rightarrow> bool" where
  "same_value a b = (a = b \<and> (case a of JArray _ \<Rightarrow> False | JObject _ \<Rightarrow> False | _ \<Rightarrow> True))"

definition terms_price :: "listingRevisionRow \<Rightarrow> json" where
  "terms_price r = (case map_of (rev (termsFacts (lr_terms r))) ''price'' of None \<Rightarrow> JNull | Some f \<Rightarrow> sf_value f)"

definition instruction_valid ::
    "reviewTables \<Rightarrow> listingRow list \<Rightarrow> listingRow \<Rightarrow> listingRevisionRow \<Rightarrow> int \<Rightarrow> instructionRow \<Rightarrow> bool" where
  "instruction_valid rt listings l r now si =
     (length (filter (\<lambda>x. si_id x = si_id si \<and> currentSellerEvidence rt listings now (ls_id l) x) (rt_instructions rt)) = 1 \<and>
      si_publicationPermission si \<and>
      (case si_expiresAt si of None \<Rightarrow> True | Some e \<Rightarrow> now < e) \<and>
      si_representationScope si \<in> set (scopeCovers (ls_purpose l)) \<and>
      canonicalJson (or_else (json_get (si_commercialTerms si) ''price'') JNull) = canonicalJson (terms_price r) \<and>
      same_value (json_get (si_disclosure si) ''publicPrecision'') (json_get (lr_disclosure r) ''publicPrecision'') \<and>
      json_get (si_mediaUsageRights si) ''granted'' = JBool True)"

subsection \<open>Media\<close>

fun mediaKind_name :: "mediaKind \<Rightarrow> string" where
  "mediaKind_name Medk_photo = ''photo''"
| "mediaKind_name Medk_floor_plan = ''floor_plan''"
| "mediaKind_name Medk_video = ''video''"
| "mediaKind_name Medk_render = ''render''"
| "mediaKind_name Medk_virtual_tour = ''virtual_tour''"

fun modification_name :: "mediaModification \<Rightarrow> string" where
  "modification_name Mod_none = ''none''"
| "modification_name Mod_retouched = ''retouched''"
| "modification_name Mod_virtually_staged = ''virtually_staged''"
| "modification_name Mod_renovation_render = ''renovation_render''"
| "modification_name Mod_redrawn_plan = ''redrawn_plan''"

definition placed_media :: "reviewTables \<Rightarrow> string \<Rightarrow> (mediaPlacementRow \<times> mediaAssetRow) list" where
  "placed_media rt revisionId =
     concat (map (\<lambda>p. map (\<lambda>a. (p, a)) (filter (\<lambda>a. mas_id a = mp_mediaAssetId p) (rt_assets rt)))
       (sort_key mp_position (filter (\<lambda>p. mp_listingRevisionId p = revisionId) (rt_placements rt))))"

definition media_ready :: "mediaAssetRow \<Rightarrow> bool" where
  "media_ready a = (mediaAssetEligible a \<and> \<not> json_truthy (the_or JNull (mas_detailsDraft a)))"

definition media_json :: "mediaPlacementRow \<times> mediaAssetRow \<Rightarrow> json" where
  "media_json pa = (case pa of (p, a) \<Rightarrow> JObject
     ([(''relationId'', JString (mp_mediaRelationId p)), (''assetId'', JString (mas_id a)),
       (''position'', json_int (mp_position p)), (''sha256'', JString (the_or [] (mas_sha256 a))),
       (''derivativeKey'', JString (the_or [] (mas_derivativeKey a))),
       (''derivativeSha256'', JString (the_or [] (mas_derivativeSha256 a))),
       (''derivativeContentType'', JString (the_or [] (mas_derivativeContentType a)))] @
      (if items_of (mas_derivativeRenditions a) = [] then []
       else [(''renditions'', mas_derivativeRenditions a)]) @
      [(''rightsReference'', json_opt JString (mas_rightsReference a)), (''kind'', JString (mediaKind_name (mas_kind a))),
       (''width'', json_opt json_int (mas_width a)), (''height'', json_opt json_int (mas_height a)),
       (''altText'', json_opt JString (mas_altText a)), (''caption'', json_opt JString (mas_caption a)),
       (''modification'', JString (modification_name (mas_modification a))),
       (''modificationDisclosure'', json_opt JString (mas_modificationDisclosure a))]))"

subsection \<open>Claims and disclosure\<close>

definition makes_claims :: "listingRevisionRow \<Rightarrow> bool" where
  "makes_claims r = (case json_get (lr_sourceCopy r) ''regulatedClaims'' of JArray xs \<Rightarrow> xs \<noteq> [] | _ \<Rightarrow> False)"

definition current_disclosure :: "reviewTables \<Rightarrow> propertyRow \<Rightarrow> listingRevisionRow \<Rightarrow> manifestDisclosure" where
  "current_disclosure rt p r =
     (let precision = the_or (pt_publicPrecision p) (precision_of (json_get (lr_disclosure r) ''publicPrecision''))
      in \<lparr>md_country = pt_country p, md_placeId = pt_placeId p, md_precision = precision,
          md_neighborhood = (if precision \<in> set [Loc_exact, Loc_street, Loc_neighborhood] then pt_neighborhood p else None),
          md_mapPoint = prepareMapPoint (rt_places rt) (pt_placeId p) (pt_country p) precision\<rparr>)"

definition availability_json :: "listingRow \<Rightarrow> json" where
  "availability_json l = JObject
     [(''state'', JString (commercialState_name (ls_commercialState l))), (''basis'', json_opt JString (ls_availabilityBasis l)),
      (''confirmedAt'', json_opt (\<lambda>d. JString (to_iso d)) (ls_availabilityConfirmedAt l))]"

subsection \<open>currentEligibility\<close>

definition eligibility_base :: "listingRow \<Rightarrow> publicLocale \<Rightarrow> int \<Rightarrow> activationInput" where
  "eligibility_base l loc generation =
     \<lparr>ai_locale = loc, ai_manifestGeneration = generation, ai_currentGeneration = ls_publicationGeneration l,
      ai_commercial = ls_commercialState l, ai_factReviewValid = False, ai_revisionApprovalValid = False,
      ai_sellerInstructionValid = False, ai_localeApprovedForSource = False, ai_mediaEligible = False,
      ai_regulatedClaimsReviewed = Some False\<rparr>"

text \<open>The reviews of one listing revision, with the property and the fact revision it is about.\<close>

record reviewFindings =
  rf_editorial :: "string option"
  rf_factual :: "string option"
  rf_instruction :: "string option"
  rf_localized :: "(string \<times> string) option"
  rf_language :: "string option"
  rf_claimReview :: "string option"

definition localized_for :: "(string \<Rightarrow> string) \<Rightarrow> reviewTables \<Rightarrow> string \<Rightarrow> publicLocale \<Rightarrow> (string \<times> string) option" where
  "localized_for sha rt revisionId loc =
     (if loc = sourceLocale then None
      else case List.find (\<lambda>z. lz_sourceRevisionId z = revisionId \<and> lz_locale z = loc) (rt_localized rt) of
          None \<Rightarrow> None
        | Some z \<Rightarrow> if lz_state z = Lcs_approved_for_source then Some (lz_id z, localizedRevisionDigest sha z) else None)"

definition review_findings ::
    "(string \<Rightarrow> string) \<Rightarrow> reviewTables \<Rightarrow> publicationTables \<Rightarrow> listingRow \<Rightarrow> listingRevisionRow \<Rightarrow> propertyRow
      \<Rightarrow> factRevisionRow \<Rightarrow> publicLocale \<Rightarrow> int \<Rightarrow> reviewFindings" where
  "review_findings sha rt t l r p f loc now =
     (let ap = pb_approvals t; localized = localized_for sha rt (lr_id r) loc;
          instruction = current_instruction rt l;
          valid = (case instruction of None \<Rightarrow> False | Some si \<Rightarrow> instruction_valid rt (pb_listings t) l r now si)
      in \<lparr>rf_editorial = validApprovalId ap Apk_editorial ''listing_revision'' (lr_id r) (lr_contentDigest r) now,
          rf_factual = (if pt_approvedFactRevisionId p = Some (fv_id f)
            then validApprovalId ap Apk_factual ''property_fact_revision'' (fv_id f) (fv_contentDigest f) now else None),
          rf_instruction = (if valid then map_option si_id instruction else None),
          rf_localized = localized,
          rf_language = (case localized of None \<Rightarrow> None
            | Some (i, d) \<Rightarrow> validApprovalId ap Apk_language ''localized_revision'' i d now),
          rf_claimReview = (if makes_claims r
            then validApprovalId ap Apk_legal_process_claim ''listing_revision'' (lr_id r) (lr_contentDigest r) now
            else None)\<rparr>)"

definition eligibility_input_of ::
    "listingRow \<Rightarrow> publicLocale \<Rightarrow> int \<Rightarrow> reviewFindings \<Rightarrow> mediaAssetRow list \<Rightarrow> bool \<Rightarrow> activationInput" where
  "eligibility_input_of l loc generation rf assets claims =
     (eligibility_base l loc generation)
       \<lparr>ai_factReviewValid := rf_factual rf \<noteq> None, ai_revisionApprovalValid := rf_editorial rf \<noteq> None,
        ai_sellerInstructionValid := rf_instruction rf \<noteq> None,
        ai_localeApprovedForSource := loc = sourceLocale \<or> (rf_localized rf \<noteq> None \<and> rf_language rf \<noteq> None),
        ai_mediaEligible := assets \<noteq> [] \<and> list_all media_ready assets,
        ai_regulatedClaimsReviewed := if claims then Some (rf_claimReview rf \<noteq> None) else None\<rparr>"

definition decisions_json :: "reviewFindings \<Rightarrow> json" where
  "decisions_json rf = JObject
     [(''factual'', json_opt JString (rf_factual rf)), (''editorial'', json_opt JString (rf_editorial rf)),
      (''language'', json_opt JString (rf_language rf)), (''legalProcessClaim'', json_opt JString (rf_claimReview rf)),
      (''sellerInstruction'', json_opt JString (rf_instruction rf))]"

definition content_of_reviews ::
    "reviewTables \<Rightarrow> listingRow \<Rightarrow> listingRevisionRow \<Rightarrow> propertyRow \<Rightarrow> factRevisionRow \<Rightarrow> publicLocale \<Rightarrow> int
      \<Rightarrow> reviewFindings \<Rightarrow> manifestContent" where
  "content_of_reviews rt l r p f loc generation rf =
     \<lparr>mc_listingId = ls_id l, mc_locale = loc, mc_destination = Dest_website, mc_generation = generation,
      mc_listingRevisionId = lr_id r, mc_listingRevisionDigest = lr_contentDigest r, mc_factRevisionId = fv_id f,
      mc_factRevisionDigest = fv_contentDigest f, mc_localizedRevisionId = map_option fst (rf_localized rf),
      mc_localizedRevisionDigest = map_option snd (rf_localized rf),
      mc_media = map media_json (placed_media rt (lr_id r)),
      mc_disclosure = disclosure_json (current_disclosure rt p r), mc_availabilityBasis = availability_json l,
      mc_policyRevision = publicationPolicyRevision, mc_decisions = decisions_json rf\<rparr>"

text \<open>The approved revision of the listing with its property and its fact revision, when all exist.\<close>

definition reviewed_rows ::
    "reviewTables \<Rightarrow> publicationTables \<Rightarrow> listingRow \<Rightarrow> (listingRevisionRow \<times> propertyRow \<times> factRevisionRow) option" where
  "reviewed_rows rt t l =
     (if \<not> truthy (ls_approvedRevisionId l) then None
      else case (revision_of rt (the_or [] (ls_approvedRevisionId l)), property_of t (ls_propertyId l)) of
          (Some r, Some p) \<Rightarrow> map_option (\<lambda>f. (r, p, f)) (fact_revision_of rt (lr_factRevisionId r))
        | _ \<Rightarrow> None)"

definition currentEligibility ::
    "(string \<Rightarrow> string) \<Rightarrow> reviewTables \<Rightarrow> publicationTables \<Rightarrow> listingRow \<Rightarrow> publicLocale \<Rightarrow> int \<Rightarrow> int
      \<Rightarrow> activationInput \<times> manifestContent option" where
  "currentEligibility sha rt t l loc generation now =
     (case reviewed_rows rt t l of
        None \<Rightarrow> (eligibility_base l loc generation, None)
      | Some (r, p, f) \<Rightarrow>
          (let rf = review_findings sha rt t l r p f loc now
           in (eligibility_input_of l loc generation rf (map snd (placed_media rt (lr_id r))) (makes_claims r),
               Some (content_of_reviews rt l r p f loc generation rf))))"

subsection \<open>What publication needs\<close>

text \<open>An approval of this kind for this subject, still of its current digest and not expired.\<close>

definition valid_approval :: "approvalRow list \<Rightarrow> approvalKind \<Rightarrow> string \<Rightarrow> string \<Rightarrow> string \<Rightarrow> int \<Rightarrow> bool" where
  "valid_approval rows kind subjectType subjectId currentHash now \<longleftrightarrow>
     (\<exists>a \<in> set rows. approved_for kind subjectType subjectId a \<and>
        isApprovalValid (approval_of a) currentHash (Some (to_iso now)))"

lemma set_newest_first [simp]: "set (newest_first rows) = set rows"
  by (auto simp: newest_first_def)

lemma validApprovalId_iff:
  "validApprovalId rows kind st i h now \<noteq> None \<longleftrightarrow> valid_approval rows kind st i h now"
proof -
  let ?ok = "\<lambda>r. isApprovalValid (approval_of r) h (Some (to_iso now))"
  have "List.find ?ok (newest_first (filter (approved_for kind st i) rows)) \<noteq> None \<longleftrightarrow>
      (\<exists>r \<in> set (newest_first (filter (approved_for kind st i) rows)). ?ok r)"
    unfolding find_None_iff not_not by blast
  then show ?thesis by (auto simp: validApprovalId_def valid_approval_def)
qed

lemma reviewed_rows_Some:
  "reviewed_rows rt t l = Some (r, p, f) \<Longrightarrow> ls_approvedRevisionId l = Some (lr_id r) \<and>
     property_of t (ls_propertyId l) = Some p \<and> fact_revision_of rt (lr_factRevisionId r) = Some f"
  by (auto simp: reviewed_rows_def revision_of_def find_Some_iff split: if_splits option.splits elim!: truthyE)

text \<open>The review of a translation: a revision approved for this source, and the approval of its text.\<close>

definition language_reviewed ::
    "(string \<Rightarrow> string) \<Rightarrow> reviewTables \<Rightarrow> approvalRow list \<Rightarrow> string \<Rightarrow> publicLocale \<Rightarrow> int \<Rightarrow> bool" where
  "language_reviewed sha rt rows revisionId loc now \<longleftrightarrow>
     (\<exists>z. List.find (\<lambda>z. lz_sourceRevisionId z = revisionId \<and> lz_locale z = loc) (rt_localized rt) = Some z \<and>
        lz_state z = Lcs_approved_for_source \<and>
        valid_approval rows Apk_language ''localized_revision'' (lz_id z) (localizedRevisionDigest sha z) now)"

definition seller_permits :: "reviewTables \<Rightarrow> publicationTables \<Rightarrow> listingRow \<Rightarrow> listingRevisionRow \<Rightarrow> int \<Rightarrow> bool" where
  "seller_permits rt t l r now \<longleftrightarrow>
     (\<exists>si. current_instruction rt l = Some si \<and> instruction_valid rt (pb_listings t) l r now si)"

definition reviews_complete ::
    "(string \<Rightarrow> string) \<Rightarrow> reviewTables \<Rightarrow> publicationTables \<Rightarrow> listingRow \<Rightarrow> publicLocale \<Rightarrow> int
      \<Rightarrow> listingRevisionRow \<Rightarrow> propertyRow \<Rightarrow> factRevisionRow \<Rightarrow> bool" where
  "reviews_complete sha rt t l loc now r p f \<longleftrightarrow>
     pt_approvedFactRevisionId p = Some (fv_id f) \<and>
     valid_approval (pb_approvals t) Apk_factual ''property_fact_revision'' (fv_id f) (fv_contentDigest f) now \<and>
     valid_approval (pb_approvals t) Apk_editorial ''listing_revision'' (lr_id r) (lr_contentDigest r) now \<and>
     seller_permits rt t l r now \<and>
     (loc = sourceLocale \<or> language_reviewed sha rt (pb_approvals t) (lr_id r) loc now) \<and>
     placed_media rt (lr_id r) \<noteq> [] \<and> list_all media_ready (map snd (placed_media rt (lr_id r))) \<and>
     (\<not> makes_claims r \<or>
        valid_approval (pb_approvals t) Apk_legal_process_claim ''listing_revision'' (lr_id r) (lr_contentDigest r) now)"

lemma language_iff:
  assumes "loc \<noteq> sourceLocale"
  shows "rf_localized (review_findings sha rt t l r p f loc now) \<noteq> None \<and>
      rf_language (review_findings sha rt t l r p f loc now) \<noteq> None \<longleftrightarrow>
    language_reviewed sha rt (pb_approvals t) (lr_id r) loc now"
  using assms validApprovalId_iff
  by (auto simp: review_findings_def Let_def localized_for_def language_reviewed_def split: option.splits if_splits)

lemma seller_iff: "rf_instruction (review_findings sha rt t l r p f loc now) \<noteq> None \<longleftrightarrow> seller_permits rt t l r now"
  by (auto simp: review_findings_def Let_def seller_permits_def split: option.splits)

lemma eligible_iff:
  "checkActivation (fst (currentEligibility sha rt t l loc g now)) a = Allowed \<longleftrightarrow>
     actor_kind a = Actor_staff \<and> g = ls_publicationGeneration l \<and> ls_commercialState l \<noteq> Com_withdrawn \<and>
     (\<exists>r p f. reviewed_rows rt t l = Some (r, p, f) \<and> reviews_complete sha rt t l loc now r p f)"
proof (cases "reviewed_rows rt t l")
  case None
  then show ?thesis by (simp add: currentEligibility_def checkActivation_iff eligibility_base_def)
next
  case (Some x)
  obtain r p f where x: "x = (r, p, f)" by (cases x)
  let ?rf = "review_findings sha rt t l r p f loc now"
  have e: "fst (currentEligibility sha rt t l loc g now) =
      eligibility_input_of l loc g ?rf (map snd (placed_media rt (lr_id r))) (makes_claims r)"
    by (simp add: currentEligibility_def Some x Let_def)
  have f1: "rf_factual ?rf \<noteq> None \<longleftrightarrow> pt_approvedFactRevisionId p = Some (fv_id f) \<and>
      valid_approval (pb_approvals t) Apk_factual ''property_fact_revision'' (fv_id f) (fv_contentDigest f) now"
    using validApprovalId_iff by (simp add: review_findings_def Let_def)
  have f2: "rf_editorial ?rf \<noteq> None \<longleftrightarrow>
      valid_approval (pb_approvals t) Apk_editorial ''listing_revision'' (lr_id r) (lr_contentDigest r) now"
    using validApprovalId_iff by (simp add: review_findings_def Let_def)
  have f3: "makes_claims r \<Longrightarrow> rf_claimReview ?rf \<noteq> None \<longleftrightarrow>
      valid_approval (pb_approvals t) Apk_legal_process_claim ''listing_revision'' (lr_id r) (lr_contentDigest r) now"
    using validApprovalId_iff by (simp add: review_findings_def Let_def)
  have f4: "loc = sourceLocale \<or> (rf_localized ?rf \<noteq> None \<and> rf_language ?rf \<noteq> None) \<longleftrightarrow>
      loc = sourceLocale \<or> language_reviewed sha rt (pb_approvals t) (lr_id r) loc now"
    using language_iff by blast
  have f5: "ai_regulatedClaimsReviewed (eligibility_input_of l loc g ?rf (map snd (placed_media rt (lr_id r))) (makes_claims r))
      \<noteq> Some False \<longleftrightarrow> (\<not> makes_claims r \<or>
        valid_approval (pb_approvals t) Apk_legal_process_claim ''listing_revision'' (lr_id r) (lr_contentDigest r) now)"
    using f3 by (cases "makes_claims r") (simp_all add: eligibility_input_of_def)
  show ?thesis
    unfolding e checkActivation_iff f5 using f1 f2 f4 seller_iff [of sha rt t l r p f loc now]
    by (simp add: Some x reviews_complete_def eligibility_input_of_def eligibility_base_def)
qed

text \<open>A valid instruction is a live consent: the one the public reading tests again.\<close>

lemma seller_permits_consent:
  assumes "seller_permits rt t l r now" "distinct (map si_id (rt_instructions rt))"
  shows "\<exists>si \<in> set (rt_instructions rt). current_instruction rt l = Some si \<and>
    currentSellerEvidence rt (pb_listings t) now (ls_id l) si"
proof -
  obtain si where si: "current_instruction rt l = Some si" "instruction_valid rt (pb_listings t) l r now si"
    using assms(1) by (auto simp: seller_permits_def)
  obtain ys where "sort_key (\<lambda>si. - si_revisionNumber si) (filter (covers_listing l) (rt_instructions rt)) = si # ys"
    using si(1) by (auto simp: current_instruction_def split: list.splits)
  from arg_cong [OF this, of set] have m: "si \<in> set (rt_instructions rt)" by auto
  have "filter (\<lambda>x. si_id x = si_id si \<and> currentSellerEvidence rt (pb_listings t) now (ls_id l) x) (rt_instructions rt) \<noteq> []"
    using si(2) by (auto simp: instruction_valid_def)
  then obtain x where x: "x \<in> set (rt_instructions rt)" "si_id x = si_id si"
    "currentSellerEvidence rt (pb_listings t) now (ls_id l) x" by (auto simp: filter_empty_conv)
  have "x = si" using x(1,2) m assms(2) unfolding distinct_map by (metis inj_on_eq_iff)
  then show ?thesis using si(1) m x(3) by blast
qed

end
