(* ===== verification/SearchProjection.thy ===== *)
theory SearchProjection
  imports Presentation
begin

text \<open>
  \<open>src/src/server/search/projection.ts\<close>: the search document of a published listing, one row per
  listing and locale. A known area carries an object with its number.
\<close>

fun shown_state :: "shownFact \<Rightarrow> string" where
  "shown_state (Shown_known v u) = ''known''"
| "shown_state Shown_conflicting = ''conflicting''"
| "shown_state (Shown_state s) = s"

fun known_value :: "shownFact \<Rightarrow> json" where
  "known_value (Shown_known v u) = v" | "known_value _ = JNull"

definition factAt :: "publishedListing \<Rightarrow> string \<Rightarrow> shownFact" where
  "factAt p key = fact_or_unknown (fact_at (pl_facts p) key)"

definition numberState :: "shownFact \<Rightarrow> string \<times> json" where
  "numberState f = (shown_state f, known_value f)"

fun js_string :: "json \<Rightarrow> string" where
  "js_string (JString s) = s"
| "js_string (JNumber s) = s"
| "js_string (JBool b) = (if b then ''true'' else ''false'')"
| "js_string JNull = ''null''"
| "js_string JUndefined = ''undefined''"
| "js_string (JArray xs) = []"
| "js_string (JObject es) = ''[object Object]''"

definition areaState :: "publishedListing \<Rightarrow> string \<Rightarrow> string \<times> string option" where
  "areaState p kind =
     (let f = factAt p (''area.'' @ kind)
      in (shown_state f, if is_known f then Some (js_string (json_get (known_value f) ''value'')) else None))"

definition feature_state :: "shownFact \<Rightarrow> string" where
  "feature_state f = (case f of
       Shown_known (JBool b) u \<Rightarrow> if b then ''true'' else ''false''
     | _ \<Rightarrow> shown_state f)"

definition featureStates :: "publishedListing \<Rightarrow> (string \<times> string) list" where
  "featureStates p = map (\<lambda>(k, e). (drop 8 k, feature_state (pbf_fact e)))
     (filter (\<lambda>(k, _). starts_with ''feature.'' k) (pl_facts p))"

definition search_text :: "publishedListing \<Rightarrow> string" where
  "search_text p = join '' '' (filter (\<lambda>s. s \<noteq> [])
     (pl_reference p # concat (map (\<lambda>q. [gp_nameNative q, gp_nameLatin q]) (pl_placeChain p)) @
      pl_placeAliases p @ [the_or [] (pl_title p)]))"

definition buildSearchDocument :: "int \<Rightarrow> publishedListing \<Rightarrow> searchDocument" where
  "buildSearchDocument clock p =
     (let price = factAt p ''price''; known = known_value price
      in \<lparr>sd_listingId = pl_listingId p, sd_locale = pl_locale p, sd_manifestId = pl_manifestId p,
          sd_reference = pl_reference p, sd_purpose = pl_purpose p, sd_propertyType = pl_propertyType p,
          sd_placeIds = map gp_id (pl_placeChain p), sd_priceState = shown_state price,
          sd_priceAmountMinor = or_else (json_get known ''amountMinor'') JNull,
          sd_priceCurrency = or_else (json_get known ''currency'') JNull,
          sd_pricePeriod = or_else (json_get known ''period'') JNull,
          sd_priceBasis = or_else (json_get known ''basis'') JNull,
          sd_bedrooms = numberState (factAt p ''bedrooms''), sd_rooms = numberState (factAt p ''rooms''),
          sd_livingArea = areaState p ''living'', sd_builtArea = areaState p ''built'',
          sd_totalArea = areaState p ''total'', sd_landArea = areaState p ''land'',
          sd_features = featureStates p, sd_searchText = search_text p, sd_updatedAt = clock\<rparr>)"

text \<open>The upsert: the row of the listing and locale is replaced, or added.\<close>

definition same_document :: "searchDocument \<Rightarrow> searchDocument \<Rightarrow> bool" where
  "same_document d e = (sd_listingId e = sd_listingId d \<and> sd_locale e = sd_locale d)"

definition writeSearchDocument :: "int \<Rightarrow> publishedListing \<Rightarrow> searchDocument list \<Rightarrow> searchDocument list" where
  "writeSearchDocument clock p docs =
     (let d = buildSearchDocument clock p
      in if list_ex (same_document d) docs then map (\<lambda>e. if same_document d e then d else e) docs else docs @ [d])"

lemma buildSearchDocument_keys [simp]:
  "sd_listingId (buildSearchDocument clock p) = pl_listingId p"
  "sd_locale (buildSearchDocument clock p) = pl_locale p"
  "sd_manifestId (buildSearchDocument clock p) = pl_manifestId p"
  by (simp_all add: buildSearchDocument_def Let_def)

text \<open>Afterwards the one document of the listing and locale is of this manifest; the others stay.\<close>

lemma writeSearchDocument_set:
  "set (writeSearchDocument clock p docs) = insert (buildSearchDocument clock p)
     {e \<in> set docs. \<not> same_document (buildSearchDocument clock p) e}"
  by (auto simp: writeSearchDocument_def Let_def list_ex_iff)

end
