(* ===== verification/PublicationCommands.thy ===== *)
theory PublicationCommands
  imports Eligibility SearchProjection
begin

text \<open>
  \<open>src/src/server/publication/commands.ts\<close>: approving a fact revision, submitting and approving a
  listing revision, preparing and activating a manifest, restricting and withdrawing. A command is a
  function of the tables that throws or returns its JSON result and the tables it leaves; inside
  \<open>runOperation\<close> an exception undoes its writes. Rows locked for update stay as they were read to the
  end of the transaction, so commands on a listing run one after the other. The environment holds what
  comes from outside: SHA-256, the tables access is resolved from, the tables that are only read, the
  file storage with the image library, the clock, and the identifiers the database generates; inserting
  an identifier that is taken fails as the primary key makes it.
\<close>

subsection \<open>Envelope and environment\<close>

record commandEnvelope =
  cmd_actor :: actor
  cmd_operationId :: string
  cmd_expectedRevision :: int
  cmd_correlationId :: "string option"
  cmd_now :: "int option"

record fileStorage =
  sto_read :: "string \<Rightarrow> string option"
  sto_metadata :: "string \<Rightarrow> (string \<times> int \<times> int) option"

record generatedIds =
  gi_manifestId :: string
  gi_approvalId :: string
  gi_pointerId :: string

record environment =
  env_sha :: "string \<Rightarrow> string"
  env_access :: accessTables
  env_review :: reviewTables
  env_storage :: fileStorage
  env_clock :: int
  env_ids :: generatedIds

definition command_now :: "environment \<Rightarrow> commandEnvelope \<Rightarrow> int" where
  "command_now env c = the_or (env_clock env) (cmd_now c)"

subsection \<open>Errors\<close>

definition field_error :: "errorCode \<Rightarrow> string \<Rightarrow> string \<Rightarrow> thrown" where
  "field_error code field problem = ThrownApp (AppError code
     (no_options\<lparr>aeo_fieldErrors := Some (JObject [(field, JArray [JString problem])])\<rparr>))"

definition ineligible :: "string \<Rightarrow> thrown" where
  "ineligible code = field_error Err_publication_ineligible ''publication'' code"

definition stale :: "string \<Rightarrow> thrown" where
  "stale code = field_error Err_approval_stale ''publication'' code"

definition conflict :: "(string \<times> json) list \<Rightarrow> thrown" where
  "conflict current = ThrownApp (AppError Err_version_conflict (no_options\<lparr>aeo_current := Some (JObject current)\<rparr>))"

subsection \<open>Reading and writing\<close>

definition listingResource :: "listingRow \<Rightarrow> resource" where
  "listingResource l = \<lparr>res_type = ''listing'', res_id = Some (ls_id l), res_locale = None, res_caseId = None,
     res_propertyId = Some (ls_propertyId l), res_audience = None\<rparr>"

definition propertyResource :: "string \<Rightarrow> resource" where
  "propertyResource i = \<lparr>res_type = ''property'', res_id = Some i, res_locale = None, res_caseId = None,
     res_propertyId = Some i, res_audience = None\<rparr>"

definition may :: "environment \<Rightarrow> commandEnvelope \<Rightarrow> capability \<Rightarrow> resource \<Rightarrow> thrown + unit" where
  "may env c cap r =
     (case assertCan (env_access env) (cmd_actor c) cap (Some r) (env_clock env) of None \<Rightarrow> Inr () | Some e \<Rightarrow> Inl e)"

definition assertPublishAuthority :: "environment \<Rightarrow> commandEnvelope \<Rightarrow> listingRow \<Rightarrow> thrown + unit" where
  "assertPublishAuthority env c l = may env c Cap_publication_release (listingResource l)"

definition checkGeneration :: "listingRow \<Rightarrow> int \<Rightarrow> thrown + unit" where
  "checkGeneration l expected = require (ls_publicationGeneration l = expected)
     (conflict [(''generation'', json_int (ls_publicationGeneration l)), (''version'', json_int (ls_version l))])"

definition duplicate_key :: thrown where
  "duplicate_key = ThrownOther ''unique_violation''"

record recordEntry =
  re_action :: string
  re_capability :: capability
  re_recordType :: string
  re_recordId :: string
  re_reference :: "string option"
  re_summary :: string
  re_params :: json
  re_payload :: json

definition record_entry ::
    "commandEnvelope \<Rightarrow> string \<Rightarrow> int \<Rightarrow> recordEntry \<Rightarrow> publicationTables \<Rightarrow> publicationTables" where
  "record_entry c operationId now e t =
     t\<lparr>pb_activity := recordActivity \<lparr>ace_recordType = re_recordType e, ace_recordId = re_recordId e,
          ace_reference = drop_falsy (re_reference e), ace_messageKey = ''activity.'' @ re_action e,
          ace_params = re_params e, ace_summary = re_summary e, ace_audience = None, ace_actor = cmd_actor c,
          ace_operationId = Some operationId, ace_at = now\<rparr> (pb_activity t),
       pb_audit := recordAudit \<lparr>adr_action = re_action e, adr_actor = cmd_actor c, adr_capability = Some (re_capability e),
          adr_recordType = Some (re_recordType e), adr_recordId = Some (re_recordId e), adr_operationId = Some operationId,
          adr_correlationId = drop_falsy (cmd_correlationId c), adr_payload = re_payload e, adr_at = now\<rparr> (pb_audit t)\<rparr>"

definition recordOutboxEvent :: "outboxEventRow \<Rightarrow> publicationTables \<Rightarrow> publicationTables" where
  "recordOutboxEvent e t = t\<lparr>pb_outbox := pb_outbox t @ [e]\<rparr>"

record approvalValues =
  av_kind :: approvalKind
  av_subjectType :: string
  av_subjectId :: string
  av_subjectVersion :: int
  av_subjectHash :: string
  av_capability :: capability
  av_scope :: "json option"
  av_note :: "string option"
  av_now :: int

definition approval_row :: "actor \<Rightarrow> approvalValues \<Rightarrow> string \<Rightarrow> approvalRow" where
  "approval_row a v newId =
     \<lparr>apr_id = newId, apr_kind = av_kind v, apr_state = Apv_approved, apr_subjectType = av_subjectType v,
      apr_subjectId = av_subjectId v, apr_subjectVersion = av_subjectVersion v, apr_subjectHash = av_subjectHash v,
      apr_scope = the_or (JObject []) (av_scope v), apr_requestedBy = a, apr_decidedBy = a,
      apr_decidedWithCapability = Some (av_capability v), apr_decidedAt = Some (av_now v),
      apr_decisionNote = drop_falsy (av_note v), apr_expiresAt = None\<rparr>"

definition insertApproval ::
    "environment \<Rightarrow> actor \<Rightarrow> approvalValues \<Rightarrow> publicationTables \<Rightarrow> thrown + string \<times> publicationTables" where
  "insertApproval env a v t =
     (let newId = gi_approvalId (env_ids env)
      in if newId \<in> apr_id ` set (pb_approvals t) then Inl duplicate_key
         else Inr (newId, t\<lparr>pb_approvals := pb_approvals t @ [approval_row a v newId]\<rparr>))"

subsection \<open>Fact review\<close>

definition active_exposure :: "publicationTables \<Rightarrow> string \<Rightarrow> bool" where
  "active_exposure t propertyId =
     list_ex (\<lambda>p. cp_state p = Ptr_active \<and>
       list_ex (\<lambda>l. ls_id l = cp_listingId p \<and> ls_propertyId l = propertyId) (pb_listings t)) (pb_pointers t)"

definition approved_property :: "propertyRow \<Rightarrow> factRevisionRow \<Rightarrow> propertyRow \<Rightarrow> propertyRow" where
  "approved_property p f x =
     (if pt_id x = pt_id p \<and> pt_version x = pt_version p
      then x\<lparr>pt_approvedFactRevisionId := Some (fv_id f), pt_version := pt_version p + 1\<rparr> else x)"

definition approveFactRevision ::
    "environment \<Rightarrow> commandEnvelope \<Rightarrow> string \<Rightarrow> string \<Rightarrow> string \<Rightarrow> publicationTables
      \<Rightarrow> thrown + json \<times> publicationTables" where
  "approveFactRevision env c factRevisionId scope0 operationId t =
     (let scope = trim scope0; now = command_now env c in
      proceed (require (scope \<noteq> []) (field_error Err_validation_failed ''scope'' ''required'')) (\<lambda>_.
      proceed (found (fact_revision_of (env_review env) factRevisionId)) (\<lambda>f.
      proceed (found (property_of t (fv_propertyId f))) (\<lambda>p.
      proceed (may env c Cap_listing_review_facts (propertyResource (pt_id p))) (\<lambda>_.
      proceed (require (pt_version p = cmd_expectedRevision c)
        (conflict [(''version'', json_int (pt_version p)),
          (''approvedFactRevisionId'', json_opt JString (pt_approvedFactRevisionId p))])) (\<lambda>_.
      proceed (require (pt_approvedFactRevisionId p = Some (fv_id f) \<or> \<not> active_exposure t (pt_id p))
        (ineligible ''restrict_affected_publications_first'')) (\<lambda>_.
      proceed (insertApproval env (cmd_actor c)
        \<lparr>av_kind = Apk_factual, av_subjectType = ''property_fact_revision'', av_subjectId = fv_id f,
         av_subjectVersion = fv_revisionNumber f, av_subjectHash = fv_contentDigest f,
         av_capability = Cap_listing_review_facts, av_scope = Some (JObject [(''reviewScope'', JString scope)]),
         av_note = None, av_now = now\<rparr> t) (\<lambda>(approvalId, t1).
      Inr (JObject [(''propertyId'', JString (pt_id p)), (''factRevisionId'', JString (fv_id f)),
             (''approvalId'', JString approvalId), (''propertyVersion'', json_int (pt_version p + 1))],
        record_entry c operationId now
          \<lparr>re_action = ''property.fact_revision.approve'', re_capability = Cap_listing_review_facts,
           re_recordType = ''property'', re_recordId = pt_id p, re_reference = Some (pt_reference p),
           re_summary = ''Fact revision '' @ int_text (fv_revisionNumber f) @ '' of '' @ pt_reference p @
             '' reviewed ('' @ scope @ '').'',
           re_params = JObject [(''revisionNumber'', json_int (fv_revisionNumber f))],
           re_payload = JObject [(''factRevisionId'', JString (fv_id f)), (''approvalId'', JString approvalId),
             (''scope'', JString scope), (''newVersion'', json_int (pt_version p + 1))]\<rparr>
          (t1\<lparr>pb_properties := map (approved_property p f) (pb_properties t1)\<rparr>))))))))))"

subsection \<open>Editorial review\<close>

definition editorial_view :: "listingRow \<Rightarrow> editorialState tableRecord" where
  "editorial_view l =
     \<lparr>vr_id = ls_id l, vr_reference = Some (ls_reference l), vr_state = ls_editorialState l, vr_version = ls_version l,
      vr_locale = None, tb_caseId = None, tb_propertyId = Some (ls_propertyId l), tb_audience = None\<rparr>"

definition editorial_load :: "listingRow list \<Rightarrow> string \<Rightarrow> editorialState tableRecord option" where
  "editorial_load rows i = map_option editorial_view (List.find (\<lambda>l. ls_id l = i) rows)"

definition editorial_save ::
    "listingRow list \<Rightarrow> editorialState tableRecord \<Rightarrow> int \<Rightarrow> thrown + listingRow list" where
  "editorial_save rows new expectedVersion =
     (let hit = (\<lambda>l. ls_id l = vr_id new \<and> ls_version l = expectedVersion)
      in if length (filter hit rows) \<noteq> 1 then Inl (plain_error Err_version_conflict)
         else Inr (map (\<lambda>l. if hit l then l\<lparr>ls_editorialState := vr_state new, ls_version := vr_version new\<rparr> else l) rows))"

definition editorialStore :: "(listingRow list, editorialState tableRecord) recordStore" where
  "editorialStore = \<lparr>rs_load = editorial_load, rs_save = editorial_save, rs_parents = table_parents\<rparr>"

definition latestRevision ::
    "environment \<Rightarrow> listingRow \<Rightarrow> string \<Rightarrow> thrown + listingRevisionRow" where
  "latestRevision env l revisionId =
     proceed (found (List.find (\<lambda>r. lr_id r = revisionId \<and> lr_listingId r = ls_id l) (rt_revisions (env_review env)))) (\<lambda>r.
     proceed (require (lr_revisionNumber r = ls_latestRevisionNumber l)
       (conflict [(''version'', json_int (ls_version l)),
         (''latestRevisionNumber'', json_int (ls_latestRevisionNumber l))])) (\<lambda>_. Inr r))"

definition transition_command ::
    "commandEnvelope \<Rightarrow> string \<Rightarrow> listingRow \<Rightarrow> editorialState \<Rightarrow> editorialEvidence
      \<Rightarrow> (editorialState, editorialEvidence) transitionCommand" where
  "transition_command c operationId l to evidence =
     \<lparr>tc_actor = cmd_actor c, tc_recordId = ls_id l, tc_expectedVersion = cmd_expectedRevision c, tc_to = to,
      tc_evidence = evidence, tc_operationId = operationId, tc_reason = None, tc_audience = None,
      tc_correlationId = drop_falsy (cmd_correlationId c)\<rparr>"

definition workspace_of :: "publicationTables \<Rightarrow> (listingRow list, editorialEvidence) workspace" where
  "workspace_of t = \<lparr>ws_rows = pb_listings t, ws_activity = pb_activity t, ws_audit = pb_transitionAudit t\<rparr>"

definition with_workspace ::
    "(listingRow list, editorialEvidence) workspace \<Rightarrow> publicationTables \<Rightarrow> publicationTables" where
  "with_workspace ws t = t\<lparr>pb_listings := ws_rows ws, pb_activity := ws_activity ws, pb_transitionAudit := ws_audit ws\<rparr>"

definition editorialStep ::
    "environment \<Rightarrow> commandEnvelope \<Rightarrow> string \<Rightarrow> listingRow \<Rightarrow> editorialState \<Rightarrow> editorialEvidence
      \<Rightarrow> publicationTables \<Rightarrow> thrown + int \<times> publicationTables" where
  "editorialStep env c operationId l to evidence t =
     (case executeTransition (env_access env) editorialTransitions editorialStore
         (transition_command c operationId l to evidence) (command_now env c) (workspace_of t) of
        (Inl e, _) \<Rightarrow> Inl e
      | (Inr (Outcome_version_conflict current), _) \<Rightarrow>
          Inl (conflict [(''version'', json_int (vr_version current)),
            (''editorialState'', JString (editorialState_name (vr_state current)))])
      | (Inr (Outcome_denied code), _) \<Rightarrow>
          Inl (if code = ''missing_capability'' then plain_error Err_forbidden
            else field_error Err_transition_denied ''editorialState'' code)
      | (Inr (Outcome_applied r), ws) \<Rightarrow> Inr (vr_version r, with_workspace ws t))"

text \<open>
  A fact of the terms whose state or source class is none of the program's is treated as every test of
  the readiness rules treats it: as undecided, and as not imported.
\<close>

definition factState_of :: "string \<Rightarrow> factState" where
  "factState_of s = the_or Fact_unknown (List.find (\<lambda>x. factState_name x = s)
     [Fact_known, Fact_unknown, Fact_not_supplied, Fact_not_applicable, Fact_withheld, Fact_conflicting])"

definition sourceClass_of :: "json \<Rightarrow> sourceClass" where
  "sourceClass_of v = the_or Src_source_supplied (List.find (\<lambda>x. JString (sourceClass_name x) = v)
     [Src_source_supplied, Src_owner_confirmed, Src_agency_observed, Src_document_reviewed,
      Src_professionally_reviewed, Src_system_calculated, Src_legacy_import])"

definition revision_facts :: "reviewTables \<Rightarrow> listingRevisionRow \<Rightarrow> factRecord list" where
  "revision_facts rt r =
     map (\<lambda>f. \<lparr>fr_fieldKey = pf_fieldKey f, fr_state = pf_state f, fr_sourceClass = pf_sourceClass f,
            fr_reviewedAt = map_option to_iso (pf_reviewedAt f)\<rparr>)
       (filter (\<lambda>f. pf_factRevisionId f = lr_factRevisionId r) (rt_facts rt)) @
     map (\<lambda>(k, f). \<lparr>fr_fieldKey = k, fr_state = factState_of (sf_state f), fr_sourceClass = sourceClass_of (sf_sourceClass f),
            fr_reviewedAt = None\<rparr>) (termsFacts (lr_terms r))"

fun problem_name :: "readinessProblem \<Rightarrow> string" where
  "problem_name Problem_absent = ''absent''"
| "problem_name Problem_undecided = ''undecided''"
| "problem_name Problem_unreviewed = ''unreviewed''"

definition missing_errors :: "missingFact list \<Rightarrow> thrown" where
  "missing_errors ms = ThrownApp (AppError Err_transition_denied (no_options\<lparr>aeo_fieldErrors := Some (JObject
     (foldl (\<lambda>es m. map_set es (''fact.'' @ mf_key m) (JArray [JString (problem_name (mf_problem m))])) [] ms))\<rparr>))"

definition submitListingRevision ::
    "environment \<Rightarrow> commandEnvelope \<Rightarrow> string \<Rightarrow> string \<Rightarrow> string \<Rightarrow> publicationTables
      \<Rightarrow> thrown + json \<times> publicationTables" where
  "submitListingRevision env c reference revisionId operationId t =
     proceed (found (listing_by_reference t reference)) (\<lambda>l.
     proceed (latestRevision env l revisionId) (\<lambda>r.
     proceed (found (property_of t (ls_propertyId l))) (\<lambda>p.
     let missing = missingRequiredFacts (pt_propertyType p) (revision_facts (env_review env) r) in
     proceed (require (missing = []) (missing_errors missing)) (\<lambda>_.
     proceed (editorialStep env c operationId l Edi_in_review
       \<lparr>ee_revisionId = Some (lr_id r), ee_missingRequiredFacts = Some 0, ee_approvalValid = None, ee_reason = None\<rparr> t)
       (\<lambda>(version, t1).
     Inr (JObject [(''reference'', JString (ls_reference l)), (''revisionId'', JString (lr_id r)),
            (''listingVersion'', json_int version)], t1))))))"

definition approveListingRevision ::
    "environment \<Rightarrow> commandEnvelope \<Rightarrow> string \<Rightarrow> string \<Rightarrow> string option \<Rightarrow> string \<Rightarrow> publicationTables
      \<Rightarrow> thrown + json \<times> publicationTables" where
  "approveListingRevision env c reference revisionId note operationId t =
     proceed (found (listing_by_reference t reference)) (\<lambda>l.
     proceed (latestRevision env l revisionId) (\<lambda>r.
     proceed (editorialStep env c operationId l Edi_approved_revision
       \<lparr>ee_revisionId = Some (lr_id r), ee_missingRequiredFacts = None, ee_approvalValid = Some True, ee_reason = None\<rparr> t)
       (\<lambda>(version, t1).
     proceed (insertApproval env (cmd_actor c)
       \<lparr>av_kind = Apk_editorial, av_subjectType = ''listing_revision'', av_subjectId = lr_id r,
        av_subjectVersion = lr_revisionNumber r, av_subjectHash = lr_contentDigest r,
        av_capability = Cap_listing_review_facts, av_scope = None, av_note = drop_falsy note,
        av_now = command_now env c\<rparr> t1) (\<lambda>(approvalId, t2).
     Inr (JObject [(''reference'', JString (ls_reference l)), (''revisionId'', JString (lr_id r)),
            (''listingVersion'', json_int version), (''approvalId'', JString approvalId)],
       t2\<lparr>pb_listings := map (\<lambda>x. if ls_id x = ls_id l then x\<lparr>ls_approvedRevisionId := Some (lr_id r)\<rparr> else x)
         (pb_listings t2)\<rparr>)))))"

subsection \<open>Preparing\<close>

text \<open>
  \<open>verifyPublicationMedia\<close> of \<open>media/verify.ts\<close>: the stored bytes are those reviewed. A read that fails is
  \<open>None\<close>, and so is an image the library does not understand.
\<close>

definition verify_rendition :: "environment \<Rightarrow> mediaAssetRow \<Rightarrow> string \<Rightarrow> mediaRendition \<Rightarrow> bool" where
  "verify_rendition env a derivative r =
     (case (if Some (rn_key r) = mas_derivativeKey a then Some derivative else sto_read (env_storage env) (rn_key r)) of
        None \<Rightarrow> False
      | Some bytes \<Rightarrow> int (length bytes) = rn_byteSize r \<and> env_sha env bytes = rn_sha256 r \<and>
          sto_metadata (env_storage env) bytes = Some (''webp'', rn_width r, rn_height r))"

definition verify_asset :: "environment \<Rightarrow> mediaAssetRow \<Rightarrow> bool" where
  "verify_asset env a =
     (mediaAssetEligible a \<and> truthy (mas_sealedKey a) \<and> truthy (mas_derivativeKey a) \<and>
      (case (sto_read (env_storage env) (the_or [] (mas_sealedKey a)),
             sto_read (env_storage env) (the_or [] (mas_derivativeKey a))) of
         (Some original, Some derivative) \<Rightarrow>
           Some (int (length original)) = mas_byteSize a \<and> Some (env_sha env original) = mas_sha256 a \<and>
           Some (env_sha env derivative) = mas_derivativeSha256 a \<and>
           (case parseMediaRenditions (mas_derivativeRenditions a) (mas_id a) of
              None \<Rightarrow> False
            | Some renditions \<Rightarrow> list_all (verify_rendition env a derivative) renditions)
       | _ \<Rightarrow> False))"

definition verifyPublicationMedia :: "environment \<Rightarrow> mediaAssetRow list \<Rightarrow> thrown + unit" where
  "verifyPublicationMedia env assets = require (list_all (verify_asset env) assets) (plain_error Err_publication_ineligible)"

definition content_assets :: "environment \<Rightarrow> manifestContent \<Rightarrow> mediaAssetRow list" where
  "content_assets env k =
     filter (\<lambda>a. JString (mas_id a) \<in> set (map (\<lambda>item. json_get item ''assetId'') (mc_media k))) (rt_assets (env_review env))"

definition manifest_row :: "(string \<Rightarrow> string) \<Rightarrow> listingRow \<Rightarrow> manifestContent \<Rightarrow> string \<Rightarrow> string \<Rightarrow> int \<Rightarrow> manifestRow" where
  "manifest_row sha l k newId createdBy now =
     \<lparr>mf_id = newId, mf_listingId = ls_id l, mf_locale = mc_locale k, mf_destination = mc_destination k,
      mf_generation = mc_generation k, mf_listingRevisionId = mc_listingRevisionId k,
      mf_factRevisionId = mc_factRevisionId k, mf_localizedRevisionId = mc_localizedRevisionId k,
      mf_media = JArray (mc_media k), mf_disclosure = mc_disclosure k, mf_availabilityBasis = mc_availabilityBasis k,
      mf_policyRevision = mc_policyRevision k, mf_decisions = mc_decisions k,
      mf_contentDigest = manifestDigest sha k, mf_createdById = createdBy, mf_createdAt = now\<rparr>"

text \<open>The content that may be published of a listing now.\<close>

definition eligible_content ::
    "environment \<Rightarrow> commandEnvelope \<Rightarrow> listingRow \<Rightarrow> publicLocale \<Rightarrow> publicationTables \<Rightarrow> thrown + manifestContent" where
  "eligible_content env c l loc t =
     (let (input, content) = currentEligibility (env_sha env) (env_review env) t l loc (ls_publicationGeneration l)
            (command_now env c) in
      case checkActivation input (cmd_actor c) of
        Denied code \<Rightarrow> Inl (ineligible code)
      | Allowed \<Rightarrow> (case content of None \<Rightarrow> Inl (ineligible ''approval_stale'') | Some k \<Rightarrow> Inr k))"

definition prepareManifest ::
    "environment \<Rightarrow> commandEnvelope \<Rightarrow> string \<Rightarrow> publicLocale \<Rightarrow> string \<Rightarrow> publicationTables
      \<Rightarrow> thrown + json \<times> publicationTables" where
  "prepareManifest env c reference loc operationId t =
     (let now = command_now env c; newId = gi_manifestId (env_ids env) in
      proceed (found (listing_by_reference t reference)) (\<lambda>l.
      proceed (assertPublishAuthority env c l) (\<lambda>_.
      proceed (checkGeneration l (cmd_expectedRevision c)) (\<lambda>_.
      proceed (eligible_content env c l loc t) (\<lambda>k.
      proceed (verifyPublicationMedia env (content_assets env k)) (\<lambda>_.
      proceed (require (newId \<notin> mf_id ` set (pb_manifests t)) duplicate_key) (\<lambda>_.
      Inr (JObject [(''manifestId'', JString newId), (''reference'', JString (ls_reference l)),
             (''locale'', JString (locale_name (mc_locale k))), (''generation'', json_int (mc_generation k)),
             (''contentDigest'', JString (manifestDigest (env_sha env) k))],
        record_entry c operationId now
          \<lparr>re_action = ''publication.manifest.prepare'', re_capability = Cap_publication_release,
           re_recordType = ''listing'', re_recordId = ls_id l, re_reference = Some (ls_reference l),
           re_summary = ''Publication manifest for '' @ ls_reference l @ '' ('' @ locale_name (mc_locale k) @ '') prepared.'',
           re_params = JObject [(''locale'', JString (locale_name (mc_locale k)))],
           re_payload = JObject [(''manifestId'', JString newId),
             (''contentDigest'', JString (manifestDigest (env_sha env) k)), (''generation'', json_int (mc_generation k))]\<rparr>
          (t\<lparr>pb_manifests := pb_manifests t @
            [manifest_row (env_sha env) l k newId (actor_id (cmd_actor c)) now]\<rparr>)))))))))"

subsection \<open>Activating\<close>

definition same_pointer :: "manifestRow \<Rightarrow> pointerRow \<Rightarrow> bool" where
  "same_pointer m p =
     (cp_listingId p = mf_listingId m \<and> cp_locale p = mf_locale m \<and> cp_destination p = mf_destination m)"

definition switched :: "commandEnvelope \<Rightarrow> listingRow \<Rightarrow> manifestRow \<Rightarrow> int \<Rightarrow> pointerRow \<Rightarrow> pointerRow" where
  "switched c l m now p =
     p\<lparr>cp_manifestId := mf_id m, cp_state := Ptr_active, cp_generation := ls_publicationGeneration l,
       cp_activatedAt := now, cp_activatedById := actor_id (cmd_actor c), cp_restrictedAt := None,
       cp_withdrawnAt := None, cp_reason := None, cp_version := cp_version p + 1\<rparr>"

definition new_pointer :: "commandEnvelope \<Rightarrow> listingRow \<Rightarrow> manifestRow \<Rightarrow> string \<Rightarrow> int \<Rightarrow> pointerRow" where
  "new_pointer c l m newId now =
     \<lparr>cp_id = newId, cp_listingId = ls_id l, cp_locale = mf_locale m, cp_destination = mf_destination m,
      cp_manifestId = mf_id m, cp_state = Ptr_active, cp_generation = ls_publicationGeneration l, cp_activatedAt = now,
      cp_activatedById = actor_id (cmd_actor c), cp_restrictedAt = None, cp_withdrawnAt = None, cp_reason = None,
      cp_version = 1\<rparr>"

text \<open>The one pointer of the listing, locale and destination now names the manifest.\<close>

definition switch_pointer ::
    "environment \<Rightarrow> commandEnvelope \<Rightarrow> listingRow \<Rightarrow> manifestRow \<Rightarrow> int \<Rightarrow> publicationTables
      \<Rightarrow> thrown + publicationTables" where
  "switch_pointer env c l m now t =
     (case List.find (same_pointer m) (pb_pointers t) of
        Some existing \<Rightarrow> Inr (t\<lparr>pb_pointers := map (\<lambda>p. if cp_id p = cp_id existing then switched c l m now p else p)
          (pb_pointers t)\<rparr>)
      | None \<Rightarrow> proceed (require (gi_pointerId (env_ids env) \<notin> cp_id ` set (pb_pointers t)) duplicate_key) (\<lambda>_.
          Inr (t\<lparr>pb_pointers := pb_pointers t @ [new_pointer c l m (gi_pointerId (env_ids env)) now]\<rparr>)))"

definition delivered_row :: "listingRow \<Rightarrow> manifestRow \<Rightarrow> int \<Rightarrow> deliveryRow" where
  "delivered_row l m now =
     \<lparr>dd_manifestId = mf_id m, dd_listingId = ls_id l, dd_locale = mf_locale m, dd_destination = mf_destination m,
      dd_kind = Deliver_publish, dd_generation = ls_publicationGeneration l, dd_state = Dlv_verified,
      dd_acknowledgedAt = Some now, dd_verifiedAt = Some now,
      dd_evidence = Some (JObject [(''method'', JString ''read_back''), (''manifestDigest'', JString (mf_contentDigest m))])\<rparr>"

definition publication_approval :: "manifestRow \<Rightarrow> int \<Rightarrow> approvalValues" where
  "publication_approval m now =
     \<lparr>av_kind = Apk_publication, av_subjectType = ''publication_manifest'', av_subjectId = mf_id m,
      av_subjectVersion = mf_generation m, av_subjectHash = mf_contentDigest m,
      av_capability = Cap_publication_release,
      av_scope = Some (JObject [(''locale'', JString (locale_name (mf_locale m))),
        (''destination'', JString (destination_name (mf_destination m)))]),
      av_note = None, av_now = now\<rparr>"

text \<open>The manifest is still what the tables say now, for this locale and generation.\<close>

definition revalidated ::
    "environment \<Rightarrow> commandEnvelope \<Rightarrow> listingRow \<Rightarrow> manifestRow \<Rightarrow> publicationTables \<Rightarrow> thrown + manifestContent" where
  "revalidated env c l m t =
     (let (input, content) = currentEligibility (env_sha env) (env_review env) t l (mf_locale m) (mf_generation m)
            (command_now env c) in
      case checkActivation input (cmd_actor c) of
        Denied code \<Rightarrow> Inl (if code = ''generation_superseded'' \<or> code = ''approval_stale'' then stale code
          else ineligible code)
      | Allowed \<Rightarrow> (case content of None \<Rightarrow> Inl (stale ''manifest_superseded'') | Some k \<Rightarrow>
          if manifestDigest (env_sha env) k \<noteq> mf_contentDigest m then Inl (stale ''manifest_superseded'') else Inr k))"

text \<open>Reading back through the public presentation: what the website shows of the listing in a locale.\<close>

definition shown :: "environment \<Rightarrow> publicationTables \<Rightarrow> string \<Rightarrow> publicLocale \<Rightarrow> publishedListing list" where
  "shown env t listingId loc = loadPublishedListings (env_review env) t (env_clock env) [listingId] [] loc"

definition read_back ::
    "environment \<Rightarrow> publicationTables \<Rightarrow> listingRow \<Rightarrow> manifestRow \<Rightarrow> thrown + publishedListing" where
  "read_back env t l m =
     (case shown env t (ls_id l) (mf_locale m) of
        [] \<Rightarrow> Inl (ThrownOther ''read_back'')
      | x # _ \<Rightarrow> proceed (require (pl_manifestId x = mf_id m) (ThrownOther ''read_back'')) (\<lambda>_. Inr x))"

definition activateManifest ::
    "environment \<Rightarrow> commandEnvelope \<Rightarrow> string \<Rightarrow> string \<Rightarrow> publicationTables \<Rightarrow> thrown + json \<times> publicationTables" where
  "activateManifest env c manifestId operationId t =
     (let now = command_now env c in
      proceed (found (manifest_of t manifestId)) (\<lambda>m.
      proceed (found (listing_of t (mf_listingId m))) (\<lambda>l.
      proceed (assertPublishAuthority env c l) (\<lambda>_.
      proceed (checkGeneration l (cmd_expectedRevision c)) (\<lambda>_.
      proceed (require (mf_destination m = Dest_website) (ineligible ''destination_not_supported'')) (\<lambda>_.
      proceed (revalidated env c l m t) (\<lambda>k.
      proceed (verifyPublicationMedia env (content_assets env k)) (\<lambda>_.
      proceed (insertApproval env (cmd_actor c) (publication_approval m now) t) (\<lambda>(approvalId, t1).
      let existing = List.find (same_pointer m) (pb_pointers t1) in
      proceed (switch_pointer env c l m now t1) (\<lambda>t2.
      proceed (read_back env t2 l m) (\<lambda>x.
      Inr (JObject [(''reference'', JString (ls_reference l)), (''locale'', JString (locale_name (mf_locale m))),
             (''manifestId'', JString (mf_id m)), (''generation'', json_int (ls_publicationGeneration l)),
             (''approvalId'', JString approvalId), (''pointerState'', JString ''active'')],
        record_entry c operationId now
          \<lparr>re_action = ''publication.activate'', re_capability = Cap_publication_release, re_recordType = ''listing'',
           re_recordId = ls_id l, re_reference = Some (ls_reference l),
           re_summary = ls_reference l @ '' published on the website ('' @ locale_name (mf_locale m) @ '').'',
           re_params = JObject [(''locale'', JString (locale_name (mf_locale m)))],
           re_payload = JObject [(''manifestId'', JString (mf_id m)), (''contentDigest'', JString (mf_contentDigest m)),
             (''generation'', json_int (ls_publicationGeneration l)), (''approvalId'', JString approvalId),
             (''replacedManifestId'', json_opt (\<lambda>p. JString (cp_manifestId p)) existing)]\<rparr>
          (recordOutboxEvent
            \<lparr>oe_eventType = ''publication.activated'', oe_subjectType = ''listing'', oe_subjectId = ls_id l,
             oe_payload = JObject [(''locale'', JString (locale_name (mf_locale m))), (''manifestId'', JString (mf_id m))],
             oe_sourceGeneration = Some (ls_publicationGeneration l), oe_operationId = Some operationId\<rparr>
            (t2\<lparr>pb_searchDocuments := writeSearchDocument (env_clock env) x (pb_searchDocuments t2),
                pb_deliveries := pb_deliveries t2 @ [delivered_row l m now]\<rparr>))))))))))))))"

subsection \<open>Restricting and withdrawing\<close>

datatype removalKind = Removal_restrict | Removal_withdraw

fun removed_state :: "removalKind \<Rightarrow> pointerState" where
  "removed_state Removal_restrict = Ptr_restricted" | "removed_state Removal_withdraw = Ptr_withdrawn"

fun removal_action :: "removalKind \<Rightarrow> string" where
  "removal_action Removal_restrict = ''publication.restrict''"
| "removal_action Removal_withdraw = ''publication.withdraw''"

fun removal_word :: "removalKind \<Rightarrow> string" where
  "removal_word Removal_restrict = ''restricted''" | "removal_word Removal_withdraw = ''withdrawn''"

definition dependency_of :: "pointerRow \<Rightarrow> pointerDependency" where
  "dependency_of p = \<lparr>pd_locale = cp_locale p, pd_destination = cp_destination p, pd_state = cp_state p,
     pd_provenUnaffected = False\<rparr>"

definition removal_plan :: "removalKind \<Rightarrow> pointerDependency list \<Rightarrow> int \<Rightarrow> int \<times> pointerDependency list" where
  "removal_plan kind ps generation = (case kind of
       Removal_restrict \<Rightarrow> (let p = planMaterialRestriction ps generation in (rp_nextGeneration p, rp_restrict p))
     | Removal_withdraw \<Rightarrow> planWithdrawal ps generation)"

definition affected_by :: "pointerDependency list \<Rightarrow> pointerRow \<Rightarrow> bool" where
  "affected_by plan p = list_ex (\<lambda>a. pd_locale a = cp_locale p \<and> pd_destination a = cp_destination p) plan"

definition remove_pointer :: "removalKind \<Rightarrow> string \<Rightarrow> int \<Rightarrow> pointerRow \<Rightarrow> pointerRow" where
  "remove_pointer kind reason now p = (case kind of
       Removal_restrict \<Rightarrow> p\<lparr>cp_state := Ptr_restricted, cp_reason := Some reason, cp_restrictedAt := Some now\<rparr>
     | Removal_withdraw \<Rightarrow> p\<lparr>cp_state := Ptr_withdrawn, cp_reason := Some reason, cp_withdrawnAt := Some now\<rparr>)"

definition withdrawal_row :: "listingRow \<Rightarrow> int \<Rightarrow> int \<Rightarrow> pointerRow \<Rightarrow> deliveryRow" where
  "withdrawal_row l generation now p =
     (let local = (cp_destination p = Dest_website)
      in \<lparr>dd_manifestId = cp_manifestId p, dd_listingId = ls_id l, dd_locale = cp_locale p,
          dd_destination = cp_destination p, dd_kind = Deliver_withdraw, dd_generation = generation,
          dd_state = (if local then Dlv_withdrawn else Dlv_queued), dd_acknowledgedAt = None,
          dd_verifiedAt = (if local then Some now else None),
          dd_evidence = (if local then Some (JObject [(''method'', JString ''read_back'')]) else None)\<rparr>)"

definition locales_json :: "pointerRow list \<Rightarrow> json" where
  "locales_json ps = JArray (map (\<lambda>p. JString (locale_name (cp_locale p))) ps)"

definition removed_listing :: "listingRow \<Rightarrow> int \<Rightarrow> listingRow \<Rightarrow> listingRow" where
  "removed_listing l nextGeneration x =
     (if ls_id x = ls_id l \<and> ls_version x = ls_version l
      then x\<lparr>ls_publicationGeneration := nextGeneration, ls_version := ls_version l + 1\<rparr> else x)"

definition removed_tables ::
    "removalKind \<Rightarrow> string \<Rightarrow> int \<Rightarrow> listingRow \<Rightarrow> int \<Rightarrow> pointerRow list \<Rightarrow> publicationTables \<Rightarrow> publicationTables" where
  "removed_tables kind reason now l nextGeneration affected t =
     t\<lparr>pb_listings := map (removed_listing l nextGeneration) (pb_listings t),
       pb_pointers := map (\<lambda>p. if cp_id p \<in> set (map cp_id affected) then remove_pointer kind reason now p else p)
         (pb_pointers t),
       pb_searchDocuments := filter (\<lambda>d. sd_listingId d \<noteq> ls_id l) (pb_searchDocuments t)\<rparr>"

definition still_shown :: "environment \<Rightarrow> publicationTables \<Rightarrow> listingRow \<Rightarrow> pointerRow \<Rightarrow> bool" where
  "still_shown env t l p = (cp_destination p = Dest_website \<and> shown env t (ls_id l) (cp_locale p) \<noteq> [])"

definition removeExposure ::
    "environment \<Rightarrow> removalKind \<Rightarrow> commandEnvelope \<Rightarrow> string \<Rightarrow> string \<Rightarrow> string \<Rightarrow> publicationTables
      \<Rightarrow> thrown + json \<times> publicationTables" where
  "removeExposure env kind c reference reason0 operationId t =
     (let reason = trim reason0; now = command_now env c in
      proceed (require (reason \<noteq> []) (field_error Err_validation_failed ''reason'' ''required'')) (\<lambda>_.
      proceed (found (listing_by_reference t reference)) (\<lambda>l.
      proceed (assertPublishAuthority env c l) (\<lambda>_.
      proceed (checkGeneration l (cmd_expectedRevision c)) (\<lambda>_.
      let pointers = filter (\<lambda>p. cp_listingId p = ls_id l) (pb_pointers t);
          plan = removal_plan kind (map dependency_of pointers) (ls_publicationGeneration l);
          nextGeneration = fst plan; affected = filter (affected_by (snd plan)) pointers;
          t1 = removed_tables kind reason now l nextGeneration affected t in
      proceed (require (\<not> list_ex (still_shown env t1 l) affected) (ThrownOther ''read_back'')) (\<lambda>_.
      Inr (JObject [(''reference'', JString (ls_reference l)), (''generation'', json_int nextGeneration),
             (''affected'', JArray (map (\<lambda>p. JObject [(''locale'', JString (locale_name (cp_locale p))),
               (''destination'', JString (destination_name (cp_destination p))), (''state'', JString (removal_word kind))])
               affected))],
        record_entry c operationId now
          \<lparr>re_action = removal_action kind, re_capability = Cap_publication_release, re_recordType = ''listing'',
           re_recordId = ls_id l, re_reference = Some (ls_reference l),
           re_summary = ls_reference l @ '' '' @ removal_word kind @ '' on every destination: '' @ reason,
           re_params = JObject [(''locales'', locales_json affected)],
           re_payload = JObject [(''reason'', JString reason),
             (''previousGeneration'', json_int (ls_publicationGeneration l)), (''generation'', json_int nextGeneration),
             (''pointers'', JArray (map (\<lambda>p. JString (cp_id p)) affected))]\<rparr>
          (recordOutboxEvent
            \<lparr>oe_eventType = ''publication.'' @ removal_word kind, oe_subjectType = ''listing'', oe_subjectId = ls_id l,
             oe_payload = JObject [(''locales'', locales_json affected)], oe_sourceGeneration = Some nextGeneration,
             oe_operationId = Some operationId\<rparr>
            (t1\<lparr>pb_deliveries := pb_deliveries t1 @ map (withdrawal_row l nextGeneration now) affected\<rparr>)))))))))"

subsection \<open>The commands as operations\<close>

datatype publicationCommand =
    Approve_fact_revision string string
  | Submit_listing_revision string string
  | Approve_listing_revision string string "string option"
  | Prepare_manifest string publicLocale
  | Activate_manifest string
  | Restrict_publication string string
  | Withdraw_publication string string

fun command_type :: "publicationCommand \<Rightarrow> string" where
  "command_type (Approve_fact_revision i s) = ''property.fact_revision.approve''"
| "command_type (Submit_listing_revision r i) = ''listing.revision.submit''"
| "command_type (Approve_listing_revision r i n) = ''listing.revision.approve''"
| "command_type (Prepare_manifest r l) = ''publication.manifest.prepare''"
| "command_type (Activate_manifest i) = ''publication.activate''"
| "command_type (Restrict_publication r s) = ''publication.restrict''"
| "command_type (Withdraw_publication r s) = ''publication.withdraw''"

fun command_payload :: "publicationCommand \<Rightarrow> (string \<times> json) list" where
  "command_payload (Approve_fact_revision i s) = [(''factRevisionId'', JString i), (''scope'', JString (trim s))]"
| "command_payload (Submit_listing_revision r i) = [(''reference'', JString r), (''revisionId'', JString i)]"
| "command_payload (Approve_listing_revision r i n) =
     [(''reference'', JString r), (''revisionId'', JString i), (''note'', json_opt JString n)]"
| "command_payload (Prepare_manifest r l) = [(''reference'', JString r), (''locale'', JString (locale_name l))]"
| "command_payload (Activate_manifest i) = [(''manifestId'', JString i)]"
| "command_payload (Restrict_publication r s) = [(''reference'', JString r), (''reason'', JString (trim s))]"
| "command_payload (Withdraw_publication r s) = [(''reference'', JString r), (''reason'', JString (trim s))]"

fun command_body ::
    "environment \<Rightarrow> commandEnvelope \<Rightarrow> publicationCommand \<Rightarrow> string \<Rightarrow> publicationTables
      \<Rightarrow> thrown + json \<times> publicationTables" where
  "command_body env c (Approve_fact_revision i s) = approveFactRevision env c i s"
| "command_body env c (Submit_listing_revision r i) = submitListingRevision env c r i"
| "command_body env c (Approve_listing_revision r i n) = approveListingRevision env c r i n"
| "command_body env c (Prepare_manifest r l) = prepareManifest env c r l"
| "command_body env c (Activate_manifest i) = activateManifest env c i"
| "command_body env c (Restrict_publication r s) = removeExposure env Removal_restrict c r s"
| "command_body env c (Withdraw_publication r s) = removeExposure env Removal_withdraw c r s"

text \<open>The authorization before the operation, against the tables as they are then.\<close>

definition listing_capability :: "publicationCommand \<Rightarrow> capability" where
  "listing_capability x = (case x of
       Submit_listing_revision _ _ \<Rightarrow> Cap_listing_edit
     | Approve_listing_revision _ _ _ \<Rightarrow> Cap_listing_review_facts
     | _ \<Rightarrow> Cap_publication_release)"

definition target_listing :: "publicationCommand \<Rightarrow> publicationTables \<Rightarrow> listingRow option" where
  "target_listing x t = (case x of
       Approve_fact_revision _ _ \<Rightarrow> None
     | Activate_manifest i \<Rightarrow> Option.bind (manifest_of t i) (\<lambda>m. listing_of t (mf_listingId m))
     | Submit_listing_revision r _ \<Rightarrow> listing_by_reference t r
     | Approve_listing_revision r _ _ \<Rightarrow> listing_by_reference t r
     | Prepare_manifest r _ \<Rightarrow> listing_by_reference t r
     | Restrict_publication r _ \<Rightarrow> listing_by_reference t r
     | Withdraw_publication r _ \<Rightarrow> listing_by_reference t r)"

definition requireStaff :: "commandEnvelope \<Rightarrow> thrown + unit" where
  "requireStaff c = require (actor_kind (cmd_actor c) = Actor_staff) (plain_error Err_forbidden)"

definition authorize ::
    "environment \<Rightarrow> commandEnvelope \<Rightarrow> publicationCommand \<Rightarrow> publicationTables \<Rightarrow> thrown + unit" where
  "authorize env c x t =
     proceed (requireStaff c) (\<lambda>_. case x of
         Approve_fact_revision i _ \<Rightarrow>
           proceed (found (fact_revision_of (env_review env) i)) (\<lambda>f.
             may env c Cap_listing_review_facts (propertyResource (fv_propertyId f)))
       | _ \<Rightarrow> proceed (found (target_listing x t)) (\<lambda>l. may env c (listing_capability x) (listingResource l)))"

definition operation_input ::
    "environment \<Rightarrow> commandEnvelope \<Rightarrow> publicationCommand \<Rightarrow> publicationTables operationInput" where
  "operation_input env c x =
     \<lparr>oi_actor = cmd_actor c, oi_type = command_type x, oi_idempotencyKey = cmd_operationId c,
      oi_requestHash = env_sha env (canonicalJson (JObject (command_payload x @
        [(''expectedRevision'', json_int (cmd_expectedRevision c))]))),
      oi_expectedVersion = Some (cmd_expectedRevision c), oi_subject = None, oi_butlerAuthorization = None\<rparr>"

definition command_function ::
    "environment \<Rightarrow> commandEnvelope \<Rightarrow> publicationCommand \<Rightarrow> publicationTables command" where
  "command_function env c x = (\<lambda>ctx t. case command_body env c x (cx_operationId ctx) t of
       Inl e \<Rightarrow> (Inl e, t) | Inr (v, t2) \<Rightarrow> (Inr v, t2))"

definition run ::
    "environment \<Rightarrow> commandEnvelope \<Rightarrow> publicationCommand \<Rightarrow> bool \<Rightarrow> string \<Rightarrow> publicationTables database
      \<Rightarrow> (thrown + operationSuccess) \<times> publicationTables database" where
  "run env c x locked newId db =
     (case authorize env c x (db_world db) of
        Inl e \<Rightarrow> (Inl e, db)
      | Inr _ \<Rightarrow> runOperation (operation_input env c x) (command_function env c x) locked newId (env_clock env) db)"

text \<open>\<open>publicationReadiness\<close>\<close>

definition publicationReadiness ::
    "environment \<Rightarrow> commandEnvelope \<Rightarrow> string \<Rightarrow> publicLocale \<Rightarrow> publicationTables
      \<Rightarrow> thrown + activationInput \<times> decision" where
  "publicationReadiness env c reference loc t =
     proceed (requireStaff c) (\<lambda>_.
     proceed (found (listing_by_reference t reference)) (\<lambda>l.
     proceed (may env c Cap_listing_read (listingResource l)) (\<lambda>_.
     let input = fst (currentEligibility (env_sha env) (env_review env) t l loc (ls_publicationGeneration l) (env_clock env))
     in Inr (input, checkActivation input (cmd_actor c)))))"

end
