(* ===== verification/PublicationSafety.thy ===== *)
theory PublicationSafety
  imports PublicationCommands
begin

text \<open>
  What the publication commands keep. The generation of a listing only grows, every pointer names a
  manifest of its own listing, locale and generation that was released by a person, and an active
  pointer is of the listing's current generation; so what was restricted or withdrawn does not come back.
\<close>

definition generation_of :: "publicationTables \<Rightarrow> string \<Rightarrow> int option" where
  "generation_of t i = map_option ls_publicationGeneration (listing_of t i)"

definition released :: "approvalRow \<Rightarrow> manifestRow \<Rightarrow> bool" where
  "released a m \<longleftrightarrow> apr_kind a = Apk_publication \<and> apr_state a = Apv_approved \<and>
     apr_subjectType a = ''publication_manifest'' \<and> apr_subjectId a = mf_id m \<and>
     apr_subjectHash a = mf_contentDigest m \<and> actor_kind (apr_decidedBy a) = Actor_staff \<and>
     apr_decidedWithCapability a = Some Cap_publication_release"

definition ok_manifest :: "publicationTables \<Rightarrow> manifestRow \<Rightarrow> bool" where
  "ok_manifest t m \<longleftrightarrow> mf_destination m = Dest_website \<and>
     (\<exists>g. generation_of t (mf_listingId m) = Some g \<and> mf_generation m \<le> g)"

definition ok_pointer :: "publicationTables \<Rightarrow> pointerRow \<Rightarrow> bool" where
  "ok_pointer t p \<longleftrightarrow>
     (\<exists>m. manifest_of t (cp_manifestId p) = Some m \<and> same_pointer m p \<and> cp_generation p = mf_generation m \<and>
        (\<exists>a \<in> set (pb_approvals t). released a m)) \<and>
     (cp_state p = Ptr_active \<longrightarrow> generation_of t (cp_listingId p) = Some (cp_generation p))"

definition pointer_key :: "pointerRow \<Rightarrow> string \<times> publicLocale \<times> publicationDestination" where
  "pointer_key p = (cp_listingId p, cp_locale p, cp_destination p)"

definition ok_keys :: "publicationTables \<Rightarrow> bool" where
  "ok_keys t \<longleftrightarrow> distinct (map ls_id (pb_listings t)) \<and> distinct (map mf_id (pb_manifests t)) \<and>
     distinct (map cp_id (pb_pointers t)) \<and> distinct (map pointer_key (pb_pointers t)) \<and>
     distinct (map apr_id (pb_approvals t))"

definition ok_publication :: "publicationTables \<Rightarrow> bool" where
  "ok_publication t \<longleftrightarrow> ok_keys t \<and> (\<forall>m \<in> set (pb_manifests t). ok_manifest t m) \<and>
     (\<forall>p \<in> set (pb_pointers t). ok_pointer t p)"

subsection \<open>Steps that leave the exposure alone\<close>

text \<open>Nothing but the approvals of this state and the other columns of its listings may have changed.\<close>

definition same_exposure :: "publicationTables \<Rightarrow> publicationTables \<Rightarrow> bool" where
  "same_exposure t t2 \<longleftrightarrow>
     map (\<lambda>l. (ls_id l, ls_publicationGeneration l)) (pb_listings t2) =
       map (\<lambda>l. (ls_id l, ls_publicationGeneration l)) (pb_listings t) \<and>
     pb_manifests t2 = pb_manifests t \<and> pb_pointers t2 = pb_pointers t \<and>
     set (pb_approvals t) \<subseteq> set (pb_approvals t2) \<and> distinct (map apr_id (pb_approvals t2))"

lemma generation_of_keys:
  "generation_of t i = map_of (map (\<lambda>l. (ls_id l, ls_publicationGeneration l)) (pb_listings t)) i"
proof -
  have "map_option ls_publicationGeneration (List.find (\<lambda>l. ls_id l = i) ls) =
      map_of (map (\<lambda>l. (ls_id l, ls_publicationGeneration l)) ls) i" for ls
  proof (induction ls)
    case (Cons l ls)
    then show ?case by (cases "ls_id l = i") simp_all
  qed simp
  then show ?thesis unfolding generation_of_def listing_of_def .
qed

lemma same_exposure_ok:
  assumes "same_exposure t t2" "ok_publication t"
  shows "ok_publication t2"
proof -
  note same = assms(1) [unfolded same_exposure_def]
  have g: "generation_of t2 = generation_of t"
    using same by (simp only: fun_eq_iff generation_of_keys simp_thms)
  have m: "manifest_of t2 = manifest_of t"
    using same by (simp only: fun_eq_iff manifest_of_def simp_thms)
  have ids: "map ls_id ls = map fst (map (\<lambda>l. (ls_id l, ls_publicationGeneration l)) ls)" for ls
    by simp
  have "map ls_id (pb_listings t2) = map ls_id (pb_listings t)"
    unfolding ids using same by (simp only:)
  then have "ok_keys t2"
    using assms(2) same by (simp only: ok_publication_def ok_keys_def simp_thms)
  moreover have "ok_manifest t2 x = ok_manifest t x" for x by (simp add: ok_manifest_def g)
  moreover have "ok_pointer t2 p" if "ok_pointer t p" for p
    using that same unfolding ok_pointer_def g m by blast
  ultimately show ?thesis
    using assms(2) same by (simp only: ok_publication_def) simp
qed

lemma insertApproval_Inr:
  assumes "insertApproval env a v t = Inr (i, t2)"
  shows "t2 = t\<lparr>pb_approvals := pb_approvals t @ [approval_row a v i]\<rparr>" "i \<notin> apr_id ` set (pb_approvals t)"
  using assms by (auto simp: insertApproval_def Let_def split: if_splits)

lemma record_entry_simps [simp]:
  "pb_listings (record_entry c o1 now e t) = pb_listings t" "pb_properties (record_entry c o1 now e t) = pb_properties t"
  "pb_approvals (record_entry c o1 now e t) = pb_approvals t" "pb_manifests (record_entry c o1 now e t) = pb_manifests t"
  "pb_pointers (record_entry c o1 now e t) = pb_pointers t"
  "pb_searchDocuments (record_entry c o1 now e t) = pb_searchDocuments t"
  "pb_deliveries (record_entry c o1 now e t) = pb_deliveries t"
  by (simp_all add: record_entry_def)

lemma recordOutboxEvent_simps [simp]:
  "pb_listings (recordOutboxEvent e t) = pb_listings t" "pb_properties (recordOutboxEvent e t) = pb_properties t"
  "pb_approvals (recordOutboxEvent e t) = pb_approvals t" "pb_manifests (recordOutboxEvent e t) = pb_manifests t"
  "pb_pointers (recordOutboxEvent e t) = pb_pointers t"
  "pb_searchDocuments (recordOutboxEvent e t) = pb_searchDocuments t"
  "pb_deliveries (recordOutboxEvent e t) = pb_deliveries t"
  by (simp_all add: recordOutboxEvent_def)

lemma approval_row_id [simp]: "apr_id (approval_row a v i) = i"
  by (simp add: approval_row_def)

lemma editorialStep_Inr:
  assumes "editorialStep env c o1 l to e t = Inr (n, t2)"
  obtains new where "editorial_save (pb_listings t) new (cmd_expectedRevision c) = Inr (pb_listings t2)"
    "pb_approvals t2 = pb_approvals t" "pb_manifests t2 = pb_manifests t" "pb_pointers t2 = pb_pointers t"
    "pb_properties t2 = pb_properties t" "pb_searchDocuments t2 = pb_searchDocuments t"
proof -
  obtain r ws where ex: "executeTransition (env_access env) editorialTransitions editorialStore
      (transition_command c o1 l to e) (command_now env c) (workspace_of t) = (Inr (Outcome_applied r), ws)"
    and t2: "t2 = with_workspace ws t"
    using assms unfolding editorialStep_def
    by (auto split: prod.splits sum.splits transitionOutcome.splits)
  from ex have "rs_save editorialStore (pb_listings t) r (cmd_expectedRevision c) = Inr (ws_rows ws)"
    unfolding executeTransition_def
    by (auto simp: Let_def transition_command_def workspace_of_def split: option.splits transitionResult.splits sum.splits)
  then show thesis
    by (intro that [of r]) (simp_all add: t2 with_workspace_def editorialStore_def)
qed

lemma editorial_save_keys:
  assumes "editorial_save rows new v = Inr rows2" "\<And>l s w. f (l\<lparr>ls_editorialState := s, ls_version := w\<rparr>) = f l"
  shows "map f rows2 = map f rows"
  using assms by (auto simp: editorial_save_def Let_def split: if_splits)

lemma append_distinct_ids: "distinct (map f xs) \<Longrightarrow> f x \<notin> f ` set xs \<Longrightarrow> distinct (map f (xs @ [x]))"
  by auto

lemma same_exposureI:
  assumes "map (\<lambda>l. (ls_id l, ls_publicationGeneration l)) (pb_listings t2) =
      map (\<lambda>l. (ls_id l, ls_publicationGeneration l)) (pb_listings t)"
    "pb_manifests t2 = pb_manifests t" "pb_pointers t2 = pb_pointers t"
    "set (pb_approvals t) \<subseteq> set (pb_approvals t2)" "distinct (map apr_id (pb_approvals t2))"
  shows "same_exposure t t2"
  using assms unfolding same_exposure_def by blast

lemma approveFactRevision_exposure:
  assumes "approveFactRevision env c i s o1 t = Inr (v, t2)" "ok_keys t"
  shows "same_exposure t t2"
proof -
  obtain a f k e t1 where ins: "insertApproval env (cmd_actor c) a t = Inr (k, t1)"
    and t2: "pb_listings t2 = pb_listings t1" "pb_manifests t2 = pb_manifests t1"
      "pb_pointers t2 = pb_pointers t1" "pb_approvals t2 = pb_approvals t1"
    using assms(1) unfolding approveFactRevision_def Let_def by (auto split: prod.splits)
  note ins = insertApproval_Inr [OF ins]
  show ?thesis
    by (rule same_exposureI) (use t2 ins assms(2) in \<open>auto simp: ok_keys_def\<close>)
qed

lemma editorialStep_exposure:
  assumes "editorialStep env c o1 l to e t = Inr (n, t2)" "ok_keys t"
  shows "same_exposure t t2"
proof -
  obtain new where new: "editorial_save (pb_listings t) new (cmd_expectedRevision c) = Inr (pb_listings t2)"
    "pb_approvals t2 = pb_approvals t" "pb_manifests t2 = pb_manifests t" "pb_pointers t2 = pb_pointers t"
    using assms(1) by (rule editorialStep_Inr)
  have "map (\<lambda>l. (ls_id l, ls_publicationGeneration l)) (pb_listings t2) =
      map (\<lambda>l. (ls_id l, ls_publicationGeneration l)) (pb_listings t)"
    by (rule editorial_save_keys [OF new(1)]) simp
  then show ?thesis using new assms(2) by (intro same_exposureI) (simp_all add: ok_keys_def)
qed

lemma submitListingRevision_exposure:
  assumes "submitListingRevision env c r i o1 t = Inr (v, t2)" "ok_keys t"
  shows "same_exposure t t2"
proof -
  obtain l e n where "editorialStep env c o1 l Edi_in_review e t = Inr (n, t2)"
    using assms(1) unfolding submitListingRevision_def Let_def by (auto split: prod.splits)
  then show ?thesis using assms(2) by (rule editorialStep_exposure)
qed

lemma approveListingRevision_exposure:
  assumes "approveListingRevision env c r i note1 o1 t = Inr (v, t2)" "ok_keys t"
  shows "same_exposure t t2"
proof -
  obtain l e n t1 a k t3 where step: "editorialStep env c o1 l Edi_approved_revision e t = Inr (n, t1)"
    and ins: "insertApproval env (cmd_actor c) a t1 = Inr (k, t3)"
    and t2: "map (\<lambda>l. (ls_id l, ls_publicationGeneration l)) (pb_listings t2) =
        map (\<lambda>l. (ls_id l, ls_publicationGeneration l)) (pb_listings t3)"
      "pb_manifests t2 = pb_manifests t3" "pb_pointers t2 = pb_pointers t3" "pb_approvals t2 = pb_approvals t3"
    using assms(1) unfolding approveListingRevision_def Let_def by (auto split: prod.splits)
  have one: "same_exposure t t1" using step assms(2) by (rule editorialStep_exposure)
  have ap: "pb_approvals t1 = pb_approvals t" using step by (rule editorialStep_Inr)
  note ins = insertApproval_Inr [OF ins]
  have "map (\<lambda>l. (ls_id l, ls_publicationGeneration l)) (pb_listings t2) =
      map (\<lambda>l. (ls_id l, ls_publicationGeneration l)) (pb_listings t1)"
    by (simp add: t2 ins)
  also have "\<dots> = map (\<lambda>l. (ls_id l, ls_publicationGeneration l)) (pb_listings t)"
    using one unfolding same_exposure_def by (elim conjE)
  finally show ?thesis
    by (rule same_exposureI) (use t2 ins ap one assms(2) in \<open>auto simp: ok_keys_def same_exposure_def\<close>)
qed

subsection \<open>Preparing\<close>

lemma eligibility_generation:
  assumes "currentEligibility sha rt t l loc generation now = (input, content)"
  shows "ai_manifestGeneration input = generation" "ai_currentGeneration input = ls_publicationGeneration l"
    "ai_locale input = loc" "ai_commercial input = ls_commercialState l"
  using assms by (auto simp: currentEligibility_def eligibility_base_def eligibility_input_of_def Let_def
      split: option.splits)

lemma eligibility_content:
  assumes "currentEligibility sha rt t l loc generation now = (input, Some k)"
  shows "mc_listingId k = ls_id l" "mc_locale k = loc" "mc_destination k = Dest_website" "mc_generation k = generation"
  using assms by (auto simp: currentEligibility_def content_of_reviews_def Let_def split: option.splits)

lemma assertPublishAuthority_Inr:
  "assertPublishAuthority env c l = Inr u \<Longrightarrow>
     can (env_access env) (cmd_actor c) Cap_publication_release (Some (listingResource l)) (env_clock env)"
  by (simp add: assertPublishAuthority_def may_def assertCan_def split: if_splits)

lemma checkGeneration_Inr: "checkGeneration l g = Inr u \<Longrightarrow> ls_publicationGeneration l = g"
  by (simp add: checkGeneration_def)

lemma eligible_content_Inr:
  assumes "eligible_content env c l loc t = Inr k"
  shows "\<exists>input. currentEligibility (env_sha env) (env_review env) t l loc (ls_publicationGeneration l)
      (command_now env c) = (input, Some k) \<and> checkActivation input (cmd_actor c) = Allowed"
  using assms unfolding eligible_content_def
  by (auto split: prod.splits decision.splits option.splits)

lemma prepareManifest_Inr:
  assumes "prepareManifest env c reference loc o1 t = Inr (v, t2)"
  obtains l k where "listing_by_reference t reference = Some l" "assertPublishAuthority env c l = Inr ()"
    "checkGeneration l (cmd_expectedRevision c) = Inr ()" "eligible_content env c l loc t = Inr k"
    "list_all (verify_asset env) (content_assets env k)" "gi_manifestId (env_ids env) \<notin> mf_id ` set (pb_manifests t)"
    "pb_manifests t2 = pb_manifests t @ [manifest_row (env_sha env) l k (gi_manifestId (env_ids env))
       (actor_id (cmd_actor c)) (command_now env c)]"
    "pb_listings t2 = pb_listings t" "pb_pointers t2 = pb_pointers t" "pb_approvals t2 = pb_approvals t"
    "pb_searchDocuments t2 = pb_searchDocuments t"
  using assms unfolding prepareManifest_def Let_def verifyPublicationMedia_def by auto

lemma released_fields:
  "released a m \<longleftrightarrow> released a m2" if "mf_id m = mf_id m2" "mf_contentDigest m = mf_contentDigest m2" for m m2
  using that by (simp add: released_def)

text \<open>A new manifest with a fresh identifier leaves the pointers as they were.\<close>

lemma manifest_of_append:
  assumes "mf_id m \<notin> mf_id ` set (pb_manifests t)" "pb_manifests t2 = pb_manifests t @ [m]"
  shows "manifest_of t2 i = (if i = mf_id m then Some m else manifest_of t i)"
proof -
  have f: "List.find P (xs @ [x]) = (case List.find P xs of None \<Rightarrow> if P x then Some x else None | Some y \<Rightarrow> Some y)"
    for P and xs :: "manifestRow list" and x by (induction xs) auto
  have "manifest_of t (mf_id m) = None" 
    unfolding manifest_of_def find_None_iff using assms(1) by (metis imageI)
  moreover have "manifest_of t2 i = (case manifest_of t i of None \<Rightarrow> if mf_id m = i then Some m else None | Some y \<Rightarrow> Some y)"
    unfolding manifest_of_def assms(2) f by simp
  ultimately show ?thesis by (cases "manifest_of t i") auto
qed

lemma prepareManifest_ok:
  assumes "prepareManifest env c reference loc o1 t = Inr (v, t2)" "ok_publication t"
  shows "ok_publication t2"
  using assms(1)
proof (cases rule: prepareManifest_Inr [case_names prepared])
  case (prepared l k)
  let ?m = "manifest_row (env_sha env) l k (gi_manifestId (env_ids env)) (actor_id (cmd_actor c)) (command_now env c)"
  obtain input where eligible: "currentEligibility (env_sha env) (env_review env) t l loc
      (ls_publicationGeneration l) (command_now env c) = (input, Some k)"
    using eligible_content_Inr [OF prepared(4)] by blast
  have id: "mf_id ?m = gi_manifestId (env_ids env)" by (simp add: manifest_row_def)
  have l: "l \<in> set (pb_listings t)" using prepared(1) by (auto dest: listing_by_reference_Some)
  have g: "generation_of t2 = generation_of t" by (simp add: fun_eq_iff generation_of_keys prepared(8))
  have gl: "generation_of t (ls_id l) = Some (ls_publicationGeneration l)"
    using l assms(2) by (auto simp: ok_publication_def ok_keys_def generation_of_def listing_of_def find_distinct)
  have keys: "ok_keys t2"
    using assms(2) prepared(6) by (simp add: ok_publication_def ok_keys_def prepared(7-10) id)
  have new: "ok_manifest t2 ?m"
    using eligibility_content [OF eligible] gl by (simp add: ok_manifest_def g manifest_row_def)
  have mo: "manifest_of t2 i = (if i = mf_id ?m then Some ?m else manifest_of t i)" for i
    by (rule manifest_of_append) (use prepared id in simp_all)
  have "ok_pointer t2 p" if p: "p \<in> set (pb_pointers t)" for p
  proof -
    have "ok_pointer t p" using assms(2) p by (simp add: ok_publication_def)
    then obtain m where m: "manifest_of t (cp_manifestId p) = Some m" "same_pointer m p"
      "cp_generation p = mf_generation m" "\<exists>a \<in> set (pb_approvals t). released a m"
      and act: "cp_state p = Ptr_active \<longrightarrow> generation_of t (cp_listingId p) = Some (cp_generation p)"
      unfolding ok_pointer_def by blast
    have "m \<in> set (pb_manifests t)" "mf_id m = cp_manifestId p" using m(1) by (auto dest: manifest_of_Some)
    then have "cp_manifestId p \<noteq> mf_id ?m" using prepared(6) id by (metis imageI)
    then have "manifest_of t2 (cp_manifestId p) = Some m" using mo m(1) by simp
    then show ?thesis using m act unfolding ok_pointer_def g prepared(10) by blast
  qed
  moreover have "ok_manifest t2 m = ok_manifest t m" for m by (simp add: ok_manifest_def g)
  ultimately show ?thesis
    using assms(2) keys new by (simp add: ok_publication_def prepared(7,9))
qed

subsection \<open>Activating\<close>

lemma revalidated_Inr:
  assumes "revalidated env c l m t = Inr k"
  shows "\<exists>input. currentEligibility (env_sha env) (env_review env) t l (mf_locale m) (mf_generation m)
      (command_now env c) = (input, Some k) \<and> checkActivation input (cmd_actor c) = Allowed"
    "manifestDigest (env_sha env) k = mf_contentDigest m"
    "mf_generation m = ls_publicationGeneration l" "actor_kind (cmd_actor c) = Actor_staff"
    "ls_commercialState l \<noteq> Com_withdrawn"
proof -
  obtain input where i: "currentEligibility (env_sha env) (env_review env) t l (mf_locale m) (mf_generation m)
      (command_now env c) = (input, Some k)" "checkActivation input (cmd_actor c) = Allowed"
    and d: "manifestDigest (env_sha env) k = mf_contentDigest m"
    using assms unfolding revalidated_def
    by (auto split: prod.splits decision.splits option.splits if_splits)
  then show "\<exists>input. currentEligibility (env_sha env) (env_review env) t l (mf_locale m) (mf_generation m)
      (command_now env c) = (input, Some k) \<and> checkActivation input (cmd_actor c) = Allowed"
    "manifestDigest (env_sha env) k = mf_contentDigest m" by blast+
  show "mf_generation m = ls_publicationGeneration l" "actor_kind (cmd_actor c) = Actor_staff"
    "ls_commercialState l \<noteq> Com_withdrawn"
    using i(2) eligibility_generation [OF i(1)] by (simp_all add: checkActivation_iff)
qed

lemma activateManifest_Inr:
  assumes "activateManifest env c i o1 t = Inr (v, t2)"
  obtains m l k a t1 t3 x where "manifest_of t i = Some m" "listing_of t (mf_listingId m) = Some l"
    "assertPublishAuthority env c l = Inr ()" "checkGeneration l (cmd_expectedRevision c) = Inr ()"
    "mf_destination m = Dest_website" "revalidated env c l m t = Inr k"
    "list_all (verify_asset env) (content_assets env k)"
    "insertApproval env (cmd_actor c) (publication_approval m (command_now env c)) t = Inr (a, t1)"
    "switch_pointer env c l m (command_now env c) t1 = Inr t3" "read_back env t3 l m = Inr x"
    "pb_listings t2 = pb_listings t3" "pb_manifests t2 = pb_manifests t3" "pb_pointers t2 = pb_pointers t3"
    "pb_approvals t2 = pb_approvals t3"
    "pb_searchDocuments t2 = writeSearchDocument (env_clock env) x (pb_searchDocuments t3)"
    "pb_properties t2 = pb_properties t3"
  using assms unfolding activateManifest_def Let_def verifyPublicationMedia_def by (auto split: prod.splits)

lemma switch_pointer_Inr:
  assumes "switch_pointer env c l m now t = Inr t3" "ok_keys t" "mf_listingId m = ls_id l"
  shows "pb_listings t3 = pb_listings t" "pb_manifests t3 = pb_manifests t" "pb_approvals t3 = pb_approvals t"
    "pb_searchDocuments t3 = pb_searchDocuments t" "ok_keys t3"
    "p \<in> set (pb_pointers t3) \<Longrightarrow> (p \<in> set (pb_pointers t) \<and> \<not> same_pointer m p) \<or>
       (same_pointer m p \<and> cp_manifestId p = mf_id m \<and> cp_state p = Ptr_active \<and>
        cp_generation p = ls_publicationGeneration l)"
    "p \<in> set (pb_pointers t) \<Longrightarrow> \<not> same_pointer m p \<Longrightarrow> p \<in> set (pb_pointers t3)"
proof -
  have key: "same_pointer m p \<longleftrightarrow> pointer_key p = (mf_listingId m, mf_locale m, mf_destination m)" for p
    by (auto simp: same_pointer_def pointer_key_def)
  have d: "distinct (map cp_id (pb_pointers t))" "distinct (map pointer_key (pb_pointers t))"
    using assms(2) by (simp_all add: ok_keys_def)
  show "pb_listings t3 = pb_listings t" "pb_manifests t3 = pb_manifests t" "pb_approvals t3 = pb_approvals t"
    "pb_searchDocuments t3 = pb_searchDocuments t"
    using assms(1) by (auto simp: switch_pointer_def split: option.splits)
  have "ok_keys t3 \<and> (\<forall>p. (p \<in> set (pb_pointers t3) \<longrightarrow> (p \<in> set (pb_pointers t) \<and> \<not> same_pointer m p) \<or>
      (same_pointer m p \<and> cp_manifestId p = mf_id m \<and> cp_state p = Ptr_active \<and> cp_generation p = ls_publicationGeneration l)) \<and>
      (p \<in> set (pb_pointers t) \<longrightarrow> \<not> same_pointer m p \<longrightarrow> p \<in> set (pb_pointers t3)))"
  proof (cases "List.find (same_pointer m) (pb_pointers t)")
    case None
    let ?n = "new_pointer c l m (gi_pointerId (env_ids env)) now"
    have t3: "t3 = t\<lparr>pb_pointers := pb_pointers t @ [?n]\<rparr>" "gi_pointerId (env_ids env) \<notin> cp_id ` set (pb_pointers t)"
      using assms(1) None by (auto simp: switch_pointer_def)
    have free: "\<not> same_pointer m p" if "p \<in> set (pb_pointers t)" for p
      using None that by (auto simp: find_None_iff)
    have n: "same_pointer m ?n" "cp_id ?n = gi_pointerId (env_ids env)" "cp_manifestId ?n = mf_id m"
      "cp_state ?n = Ptr_active" "cp_generation ?n = ls_publicationGeneration l"
      using assms(3) by (simp_all add: new_pointer_def same_pointer_def)
    have "pointer_key ?n \<notin> pointer_key ` set (pb_pointers t)"
      using free n(1) unfolding key by (metis imageE)
    then have "ok_keys t3"
      using assms(2) t3(2) n(2) by (simp add: ok_keys_def t3(1))
    then show ?thesis using free n by (auto simp: t3(1))
  next
    case (Some e)
    let ?f = "\<lambda>p. if cp_id p = cp_id e then switched c l m now p else p"
    have t3: "t3 = t\<lparr>pb_pointers := map ?f (pb_pointers t)\<rparr>"
      using assms(1) Some by (simp add: switch_pointer_def)
    have e: "e \<in> set (pb_pointers t)" "same_pointer m e" using Some by (auto simp: find_Some_iff)
    have one: "cp_id p = cp_id e \<longleftrightarrow> p = e" "same_pointer m p \<longleftrightarrow> p = e" if "p \<in> set (pb_pointers t)" for p
      using that e d unfolding key distinct_map by (metis inj_on_eq_iff)+
    have f: "cp_id (?f p) = cp_id p" "pointer_key (?f p) = pointer_key p" for p
      by (simp_all add: switched_def pointer_key_def)
    have "ok_keys t3"
      using assms(2) f by (simp add: ok_keys_def t3 comp_def del: if_split)
    moreover have "same_pointer m (?f e)" "cp_manifestId (?f e) = mf_id m" "cp_state (?f e) = Ptr_active"
      "cp_generation (?f e) = ls_publicationGeneration l"
      using e(2) by (simp_all add: switched_def same_pointer_def)
    ultimately show ?thesis using one e by (auto simp: t3)
  qed
  then show "ok_keys t3" "p \<in> set (pb_pointers t3) \<Longrightarrow> (p \<in> set (pb_pointers t) \<and> \<not> same_pointer m p) \<or>
       (same_pointer m p \<and> cp_manifestId p = mf_id m \<and> cp_state p = Ptr_active \<and>
        cp_generation p = ls_publicationGeneration l)"
    "p \<in> set (pb_pointers t) \<Longrightarrow> \<not> same_pointer m p \<Longrightarrow> p \<in> set (pb_pointers t3)" by blast+
qed

lemma ok_pointer_kept:
  assumes "ok_pointer t p" "generation_of t2 = generation_of t" "pb_manifests t2 = pb_manifests t"
    "set (pb_approvals t) \<subseteq> set (pb_approvals t2)"
  shows "ok_pointer t2 p"
  using assms unfolding ok_pointer_def manifest_of_def by auto

lemma publication_released:
  assumes "actor_kind a = Actor_staff"
  shows "released (approval_row a (publication_approval m now) i) m"
  using assms by (simp add: released_def approval_row_def publication_approval_def)

lemma activateManifest_ok:
  assumes "activateManifest env c i o1 t = Inr (v, t2)" "ok_publication t"
  shows "ok_publication t2"
  using assms(1)
proof (cases rule: activateManifest_Inr [case_names activated])
  case (activated m l k a t1 t3 x)
  note ins = insertApproval_Inr [OF activated(8)]
  have id: "mf_listingId m = ls_id l" using listing_of_id [OF activated(2)] by simp
  have keys: "ok_keys t1"
    using assms(2) ins by (simp add: ok_publication_def ok_keys_def)
  note sw = switch_pointer_Inr [OF activated(9) keys id]
  have g: "generation_of t2 = generation_of t"
    by (simp add: fun_eq_iff generation_of_keys activated(11) sw(1) ins(1))
  have ms: "pb_manifests t2 = pb_manifests t" by (simp add: activated(12) sw(2) ins(1))
  have ap: "pb_approvals t2 = pb_approvals t @ [approval_row (cmd_actor c) (publication_approval m (command_now env c)) a]"
    by (simp add: activated(14) sw(3) ins(1))
  note rv = revalidated_Inr [OF activated(6)]
  have "ok_pointer t2 p" if p: "p \<in> set (pb_pointers t2)" for p
  proof -
    have "p \<in> set (pb_pointers t3)" using p activated(13) by simp
    from sw(6) [OF this] show ?thesis
    proof (elim disjE conjE)
      assume "p \<in> set (pb_pointers t1)"
      then have "ok_pointer t p" using assms(2) ins(1) by (simp add: ok_publication_def)
      then show ?thesis by (rule ok_pointer_kept [OF _ g ms]) (auto simp: ap)
    next
      assume s: "same_pointer m p" "cp_manifestId p = mf_id m" "cp_generation p = ls_publicationGeneration l"
      have "manifest_of t2 (mf_id m) = Some m"
        using activated(1) ms manifest_of_id [OF activated(1)] by (simp add: manifest_of_def)
      moreover have "generation_of t2 (cp_listingId p) = Some (ls_publicationGeneration l)"
        using s(1) activated(2) unfolding g by (simp add: same_pointer_def generation_of_def)
      moreover have "released (approval_row (cmd_actor c) (publication_approval m (command_now env c)) a) m"
        by (rule publication_released [OF rv(4)])
      ultimately show ?thesis
        using s rv(3) ap unfolding ok_pointer_def by auto
    qed
  qed
  moreover have "ok_manifest t2 y" if "y \<in> set (pb_manifests t2)" for y
    using that assms(2) by (simp add: ok_manifest_def g ms ok_publication_def)
  moreover have "ok_keys t2"
    using sw(5) by (simp add: ok_keys_def activated(11-14))
  ultimately show ?thesis by (simp add: ok_publication_def)
qed

subsection \<open>Restricting and withdrawing\<close>

definition removal_pointers :: "publicationTables \<Rightarrow> listingRow \<Rightarrow> pointerRow list" where
  "removal_pointers t l = filter (\<lambda>p. cp_listingId p = ls_id l) (pb_pointers t)"

definition removal_affected :: "removalKind \<Rightarrow> publicationTables \<Rightarrow> listingRow \<Rightarrow> pointerRow list" where
  "removal_affected kind t l =
     filter (affected_by (snd (removal_plan kind (map dependency_of (removal_pointers t l)) (ls_publicationGeneration l))))
       (removal_pointers t l)"

lemma removal_plan_generation: "fst (removal_plan kind ps g) = g + 1"
  by (cases kind) (simp_all add: removal_plan_def Let_def planMaterialRestriction_def planWithdrawal_def)

lemma removeExposure_Inr:
  assumes "removeExposure env kind c reference reason0 o1 t = Inr (v, t2)"
  obtains l t1 where "trim reason0 \<noteq> []" "listing_by_reference t reference = Some l"
    "assertPublishAuthority env c l = Inr ()" "checkGeneration l (cmd_expectedRevision c) = Inr ()"
    "t1 = removed_tables kind (trim reason0) (command_now env c) l (ls_publicationGeneration l + 1)
       (removal_affected kind t l) t"
    "\<not> list_ex (still_shown env t1 l) (removal_affected kind t l)"
    "pb_listings t2 = pb_listings t1" "pb_manifests t2 = pb_manifests t1" "pb_pointers t2 = pb_pointers t1"
    "pb_approvals t2 = pb_approvals t1" "pb_searchDocuments t2 = pb_searchDocuments t1"
  using assms unfolding removeExposure_def Let_def removal_affected_def removal_pointers_def removal_plan_generation
  by auto

text \<open>Every active pointer of the listing is affected, by a restriction and by a withdrawal.\<close>

lemma active_affected:
  assumes "p \<in> set (pb_pointers t)" "cp_listingId p = ls_id l" "cp_state p = Ptr_active"
  shows "p \<in> set (removal_affected kind t l)"
proof -
  have "dependency_of p \<in> set (map dependency_of (removal_pointers t l))"
    using assms by (simp add: removal_pointers_def)
  then have "dependency_of p \<in> set (snd (removal_plan kind (map dependency_of (removal_pointers t l)) g))" for g
    using assms(3) by (cases kind) (auto simp: removal_plan_def Let_def planMaterialRestriction_def planWithdrawal_def
        dependency_of_def)
  then show ?thesis
    using assms by (auto simp: removal_affected_def removal_pointers_def affected_by_def list_ex_iff dependency_of_def
        intro!: bexI [of _ "dependency_of p"])
qed

lemma remove_pointer_simps [simp]:
  "cp_id (remove_pointer kind r n p) = cp_id p" "pointer_key (remove_pointer kind r n p) = pointer_key p"
  "cp_listingId (remove_pointer kind r n p) = cp_listingId p" "cp_manifestId (remove_pointer kind r n p) = cp_manifestId p"
  "cp_generation (remove_pointer kind r n p) = cp_generation p" "cp_state (remove_pointer kind r n p) \<noteq> Ptr_active"
  "same_pointer m (remove_pointer kind r n p) = same_pointer m p"
  by (cases kind; simp add: remove_pointer_def pointer_key_def same_pointer_def)+

lemma removed_listing_simps [simp]:
  "ls_id (removed_listing l g x) = ls_id x" "ls_publicationGeneration (removed_listing l g l) = g"
  "ls_id x \<noteq> ls_id l \<Longrightarrow> removed_listing l g x = x"
  by (simp_all add: removed_listing_def)

lemma removed_generation:
  assumes "distinct (map ls_id (pb_listings t))" "l \<in> set (pb_listings t)"
  shows "generation_of (removed_tables kind r now l g affected t) i =
    (if i = ls_id l then Some g else generation_of t i)"
proof -
  let ?t2 = "removed_tables kind r now l g affected t"
  have d: "distinct (map ls_id (pb_listings ?t2))"
    using assms(1) by (simp add: removed_tables_def comp_def)
  have iff: "listing_of u i = Some x \<longleftrightarrow> x \<in> set (pb_listings u) \<and> ls_id x = i"
    if "distinct (map ls_id (pb_listings u))" for u x
    using that by (simp add: listing_of_def find_distinct)
  show ?thesis
  proof (cases "i = ls_id l")
    case True
    have "listing_of ?t2 i = Some (removed_listing l g l)"
      unfolding iff [OF d] using assms(2) True by (simp add: removed_tables_def)
    then show ?thesis using True by (simp add: generation_of_def)
  next
    case False
    have "listing_of ?t2 i = Some x \<longleftrightarrow> listing_of t i = Some x" for x
      unfolding iff [OF d] iff [OF assms(1)] using False
      by (auto simp: removed_tables_def image_iff intro!: bexI [of _ x])
    then have "listing_of ?t2 i = listing_of t i" by (metis not_Some_eq)
    then show ?thesis using False by (simp add: generation_of_def)
  qed
qed

lemma removeExposure_ok:
  assumes "removeExposure env kind c reference reason0 o1 t = Inr (v, t2)" "ok_publication t"
  shows "ok_publication t2"
    "\<And>l. listing_by_reference t reference = Some l \<Longrightarrow>
       generation_of t2 (ls_id l) = Some (ls_publicationGeneration l + 1) \<and>
       (\<forall>i. i \<noteq> ls_id l \<longrightarrow> generation_of t2 i = generation_of t i) \<and>
       (\<forall>p \<in> set (pb_pointers t2). cp_listingId p = ls_id l \<longrightarrow> cp_state p \<noteq> Ptr_active) \<and>
       pb_manifests t2 = pb_manifests t \<and> (\<forall>d \<in> set (pb_searchDocuments t2). sd_listingId d \<noteq> ls_id l)"
proof -
  obtain l t1 where l: "listing_by_reference t reference = Some l"
    and t1: "t1 = removed_tables kind (trim reason0) (command_now env c) l (ls_publicationGeneration l + 1)
       (removal_affected kind t l) t"
    and t2: "pb_listings t2 = pb_listings t1" "pb_manifests t2 = pb_manifests t1" "pb_pointers t2 = pb_pointers t1"
    "pb_approvals t2 = pb_approvals t1" "pb_searchDocuments t2 = pb_searchDocuments t1"
    using assms(1) by (rule removeExposure_Inr)
  have keys: "ok_keys t" using assms(2) by (simp add: ok_publication_def)
  have lt: "l \<in> set (pb_listings t)" using l by (auto dest: listing_by_reference_Some)
  have g: "generation_of t2 i = (if i = ls_id l then Some (ls_publicationGeneration l + 1) else generation_of t i)" for i
    using removed_generation [OF _ lt] keys unfolding t1 generation_of_keys t2(1) ok_keys_def by simp
  have gl: "generation_of t (ls_id l) = Some (ls_publicationGeneration l)"
    using lt keys by (auto simp: ok_keys_def generation_of_def listing_of_def find_distinct)
  have ms: "pb_manifests t2 = pb_manifests t" "pb_approvals t2 = pb_approvals t"
    "map cp_id (pb_pointers t2) = map cp_id (pb_pointers t)" "map pointer_key (pb_pointers t2) = map pointer_key (pb_pointers t)"
    "map ls_id (pb_listings t2) = map ls_id (pb_listings t)"
    by (simp_all add: t2 t1 removed_tables_def removed_listing_def)
  have pointer: "(p \<in> set (pb_pointers t) \<and> p \<notin> set (removal_affected kind t l)) \<or>
      (\<exists>q \<in> set (pb_pointers t). p = remove_pointer kind (trim reason0) (command_now env c) q)"
    if "p \<in> set (pb_pointers t2)" for p
    using that by (auto simp: t2 t1 removed_tables_def)
  have inactive: "cp_state p \<noteq> Ptr_active" if "p \<in> set (pb_pointers t2)" "cp_listingId p = ls_id l" for p
    using pointer [OF that(1)] active_affected [of p t l kind] that(2) by auto
  have "ok_pointer t2 p" if p: "p \<in> set (pb_pointers t2)" for p
  proof -
    obtain q where q: "q \<in> set (pb_pointers t)" "cp_manifestId p = cp_manifestId q" "cp_generation p = cp_generation q"
      "cp_listingId p = cp_listingId q" "\<And>m. same_pointer m p = same_pointer m q"
      "cp_state p = Ptr_active \<Longrightarrow> cp_state q = Ptr_active"
      using pointer [OF p] by auto
    have okq: "ok_pointer t q" using q(1) assms(2) by (simp add: ok_publication_def)
    have m: "manifest_of t2 = manifest_of t" by (simp add: fun_eq_iff manifest_of_def ms(1))
    have "cp_listingId p \<noteq> ls_id l" if "cp_state p = Ptr_active" using inactive [OF p] that by blast
    then show ?thesis
      using okq q g unfolding ok_pointer_def m ms(2) by auto
  qed
  moreover have "ok_manifest t2 m" if m: "m \<in> set (pb_manifests t2)" for m
  proof -
    have "ok_manifest t m" using m assms(2) ms(1) by (simp add: ok_publication_def)
    then show ?thesis using g gl by (auto simp: ok_manifest_def)
  qed
  ultimately show "ok_publication t2"
    using keys ms by (simp add: ok_publication_def ok_keys_def)
  fix l2 assume "listing_by_reference t reference = Some l2"
  then have "l2 = l" using l by simp
  then show "generation_of t2 (ls_id l2) = Some (ls_publicationGeneration l2 + 1) \<and>
       (\<forall>i. i \<noteq> ls_id l2 \<longrightarrow> generation_of t2 i = generation_of t i) \<and>
       (\<forall>p \<in> set (pb_pointers t2). cp_listingId p = ls_id l2 \<longrightarrow> cp_state p \<noteq> Ptr_active) \<and>
       pb_manifests t2 = pb_manifests t \<and> (\<forall>d \<in> set (pb_searchDocuments t2). sd_listingId d \<noteq> ls_id l2)"
    using g ms inactive by (auto simp: t2 t1 removed_tables_def)
qed

subsection \<open>Commands in any order\<close>

text \<open>
  A step is a call of a command, with the environment it sees, or anything else the program does that
  leaves manifests, pointers and the generations of the listings alone.
\<close>

datatype publicationStep =
    Command_step environment commandEnvelope publicationCommand bool string
  | Other_step publicationTables

fun exec_publication :: "publicationStep \<Rightarrow> publicationTables database \<Rightarrow> publicationTables database" where
  "exec_publication (Command_step env c x locked newId) db = snd (run env c x locked newId db)"
| "exec_publication (Other_step t) db = (if same_exposure (db_world db) t then db\<lparr>db_world := t\<rparr> else db)"

text \<open>What a command that returned did, when it was not answered from its receipt.\<close>

lemma run_world:
  obtains (kept) "db_world (snd (run env c x locked newId db)) = db_world db"
  | (ran) o1 v where "command_body env c x o1 (db_world db) = Inr (v, db_world (snd (run env c x locked newId db)))"
proof (cases "authorize env c x (db_world db)")
  case (Inl e)
  then show thesis using kept by (simp add: run_def)
next
  case (Inr u)
  let ?i = "operation_input env c x" and ?fn = "command_function env c x"
  have run: "run env c x locked newId db = runOperation ?i ?fn locked newId (env_clock env) db"
    using Inr by (simp add: run_def)
  show thesis
  proof (cases "effective ?i ?fn locked newId (env_clock env) db")
    case True
    then obtain v w ctx where fn: "?fn ctx (db_world db) = (Inr v, w)"
      and r: "runOperation ?i ?fn locked newId (env_clock env) db =
       (Inr \<lparr>os_operationId = newId, os_replayed = False, os_outcome = json_roundtrip v, os_butlerReceipt = None\<rparr>,
       db\<lparr>db_operations := db_operations db @
          [settle_row Op_succeeded (json_roundtrip v) (env_clock env) (new_row ?i newId)], db_world := w\<rparr>)"
      by (rule effective_run)
    have "command_body env c x (cx_operationId ctx) (db_world db) = Inr (v, w)"
      using fn by (auto simp: command_function_def split: sum.splits prod.splits)
    then show thesis by (intro ran) (simp add: run r)
  next
    case False
    then show thesis using kept not_effective_world [OF False] by (simp add: run)
  qed
qed

text \<open>Generations never go back, and manifests are never changed or lost.\<close>

definition grows :: "publicationTables \<Rightarrow> publicationTables \<Rightarrow> bool" where
  "grows t t2 \<longleftrightarrow>
     (\<forall>i g. generation_of t i = Some g \<longrightarrow> (\<exists>g2 \<ge> g. generation_of t2 i = Some g2)) \<and>
     (\<forall>i m. manifest_of t i = Some m \<longrightarrow> manifest_of t2 i = Some m)"

lemma grows_refl: "grows t t"
  by (simp add: grows_def)

lemma grows_trans:
  assumes "grows t u" "grows u w"
  shows "grows t w"
proof -
  have "\<exists>g3 \<ge> g. generation_of w i = Some g3" if g: "generation_of t i = Some g" for i g
  proof -
    obtain g2 where g2: "g \<le> g2" "generation_of u i = Some g2" using assms(1) g unfolding grows_def by metis
    obtain g3 where "g2 \<le> g3" "generation_of w i = Some g3" using assms(2) g2(2) unfolding grows_def by metis
    then show ?thesis using g2(1) by (meson order_trans)
  qed
  then show ?thesis using assms unfolding grows_def by blast
qed

lemma growsI:
  assumes "\<And>i g. generation_of t i = Some g \<Longrightarrow> \<exists>g2 \<ge> g. generation_of t2 i = Some g2"
    "\<And>i. manifest_of t i \<noteq> None \<Longrightarrow> manifest_of t2 i = manifest_of t i"
  shows "grows t t2"
  using assms unfolding grows_def by auto

lemma same_exposure_grows: "same_exposure t t2 \<Longrightarrow> grows t t2"
  unfolding same_exposure_def by (intro growsI) (simp_all only: generation_of_keys manifest_of_def, auto)

lemma prepare_grows:
  assumes "prepareManifest env c r loc o1 t = Inr (v, t2)"
  shows "grows t t2"
  using assms
proof (cases rule: prepareManifest_Inr [case_names prepared])
  case (prepared l k)
  have g: "generation_of t2 = generation_of t" by (simp add: fun_eq_iff generation_of_keys prepared(8))
  have "manifest_of t2 i = manifest_of t i" if i: "manifest_of t i \<noteq> None" for i
  proof -
    have fresh: "mf_id (manifest_row (env_sha env) l k (gi_manifestId (env_ids env)) (actor_id (cmd_actor c))
        (command_now env c)) \<notin> mf_id ` set (pb_manifests t)"
      using prepared(6) by (simp add: manifest_row_def)
    obtain m where m: "manifest_of t i = Some m" using i by blast
    then have "i \<in> mf_id ` set (pb_manifests t)" using manifest_of_Some [OF m] by auto
    with fresh have "i \<noteq> mf_id (manifest_row (env_sha env) l k (gi_manifestId (env_ids env)) (actor_id (cmd_actor c))
        (command_now env c))" by metis
    then show ?thesis by (simp add: manifest_of_append [OF fresh prepared(7)])
  qed
  then show ?thesis by (intro growsI) (auto simp: g)
qed

lemma activate_grows:
  assumes "activateManifest env c i o1 t = Inr (v, t2)" "ok_publication t"
  shows "grows t t2"
  using assms(1)
proof (cases rule: activateManifest_Inr [case_names activated])
  case (activated m l k a t1 t3 x)
  note ins = insertApproval_Inr [OF activated(8)]
  have id: "mf_listingId m = ls_id l" using listing_of_id [OF activated(2)] by simp
  have keys: "ok_keys t1" using assms(2) ins by (simp add: ok_publication_def ok_keys_def)
  note sw = switch_pointer_Inr [OF activated(9) keys id]
  have "generation_of t2 = generation_of t" "manifest_of t2 = manifest_of t"
    by (simp_all add: fun_eq_iff generation_of_keys manifest_of_def activated(11,12) sw(1,2) ins(1))
  then show ?thesis by (intro growsI) auto
qed

lemma remove_grows:
  assumes "removeExposure env kind c r s o1 t = Inr (v, t2)" "ok_publication t"
  shows "grows t t2"
proof -
  obtain l where l: "listing_by_reference t r = Some l" using assms(1) by (rule removeExposure_Inr)
  note rm = removeExposure_ok(2) [OF assms l]
  have gl: "generation_of t (ls_id l) = Some (ls_publicationGeneration l)"
    using listing_by_reference_Some [OF l] assms(2)
    by (auto simp: ok_publication_def ok_keys_def generation_of_def listing_of_def find_distinct)
  show ?thesis
  proof (rule growsI)
    fix i g assume "generation_of t i = Some g"
    then show "\<exists>g2 \<ge> g. generation_of t2 i = Some g2" using rm gl by (cases "i = ls_id l") auto
  qed (use rm in \<open>simp add: manifest_of_def\<close>)
qed

lemma command_body_ok:
  assumes "command_body env c x o1 t = Inr (v, t2)" "ok_publication t"
  shows "ok_publication t2 \<and> grows t t2"
proof -
  have keys: "ok_keys t" using assms(2) by (simp add: ok_publication_def)
  have frame: "ok_publication t2 \<and> grows t t2" if "same_exposure t t2"
    using same_exposure_ok [OF that assms(2)] same_exposure_grows [OF that] ..
  show ?thesis
    using assms keys
    by (cases x) (simp_all add: frame [OF approveFactRevision_exposure] frame [OF submitListingRevision_exposure]
        frame [OF approveListingRevision_exposure] prepareManifest_ok prepare_grows activateManifest_ok activate_grows
        removeExposure_ok(1) remove_grows)
qed

lemma exec_publication_ok:
  assumes "ok_publication (db_world db)"
  shows "ok_publication (db_world (exec_publication s db)) \<and> grows (db_world db) (db_world (exec_publication s db))"
proof (cases s)
  case (Command_step env c x locked newId)
  show ?thesis
    by (cases rule: run_world [of env c x locked newId db])
      (use Command_step assms command_body_ok grows_refl in auto)
next
  case (Other_step t)
  then show ?thesis using assms same_exposure_ok same_exposure_grows grows_refl by auto
qed

lemma run_publication_ok:
  assumes "ok_publication (db_world db)"
  shows "ok_publication (db_world (run_steps exec_publication db ss)) \<and>
    grows (db_world db) (db_world (run_steps exec_publication db ss))"
  using assms
proof (induction ss arbitrary: db)
  case (Cons s ss)
  note step = exec_publication_ok [OF Cons.prems, of s]
  with Cons.IH [of "exec_publication s db"] show ?case by (auto intro: grows_trans)
qed (simp add: grows_refl)

subsection \<open>What is shown\<close>

text \<open>Whatever a public reading shows is the released manifest of the listing's current generation.\<close>

lemma shown_released:
  assumes "ok_publication t" "y \<in> set (loadPublishedListings rt t clock idKeys references loc)"
  obtains m a where "manifest_of t (pl_manifestId y) = Some m" "mf_listingId m = pl_listingId y" "mf_locale m = loc"
    "generation_of t (pl_listingId y) = Some (mf_generation m)" "a \<in> set (pb_approvals t)" "released a m"
proof -
  obtain p l m q r where p: "p \<in> set (pb_pointers t)" "eligible_pointer rt t clock loc p"
    and l: "listing_of t (cp_listingId p) = Some l" and m: "manifest_of t (cp_manifestId p) = Some m"
    and y: "y = published_of rt loc (cp_activatedAt p) l q m r"
    using assms(2) by (rule loaded_eligible)
  have ok: "ok_pointer t p" using assms(1) p(1) by (simp add: ok_publication_def)
  have act: "cp_state p = Ptr_active" "cp_locale p = loc" using p(2) by (auto elim: eligible_pointerE)
  have keys: "pl_listingId y = cp_listingId p" "pl_manifestId y = cp_manifestId p"
    using listing_of_id [OF l] manifest_of_id [OF m] by (simp_all add: y)
  from ok act m obtain a where "same_pointer m p" "cp_generation p = mf_generation m" "a \<in> set (pb_approvals t)"
    "released a m" "generation_of t (cp_listingId p) = Some (cp_generation p)"
    unfolding ok_pointer_def by auto
  then show thesis
    by (intro that [of m a]) (use m keys act in \<open>simp_all add: same_pointer_def\<close>)
qed

text \<open>Once removed, a listing is shown nowhere, and no manifest of then is ever shown of it again.\<close>

lemma removed_not_shown:
  assumes ok: "ok_publication t" and body: "removeExposure env kind c r s o1 t = Inr (v, t2)"
    and l: "listing_by_reference t r = Some l"
  shows "loadPublishedListings rt t2 clock [ls_id l] [] loc = []"
proof (rule ccontr)
  assume "loadPublishedListings rt t2 clock [ls_id l] [] loc \<noteq> []"
  then obtain y where "y \<in> set (loadPublishedListings rt t2 clock [ls_id l] [] loc)" by (meson list.set_sel(1))
  then obtain p x where p: "p \<in> set (pb_pointers t2)" "eligible_pointer rt t2 clock loc p"
    and x: "listing_of t2 (cp_listingId p) = Some x" "ls_id x = ls_id l"
    by (rule loaded_eligible) simp
  have "cp_listingId p = ls_id l" using listing_of_id [OF x(1)] x(2) by simp
  then have "cp_state p \<noteq> Ptr_active" using removeExposure_ok(2) [OF body ok l] p(1) by blast
  then show False using p(2) by (auto elim: eligible_pointerE)
qed

lemma removed_never_returns:
  assumes ok: "ok_publication t" and body: "removeExposure env kind c r s o1 t = Inr (v, t2)"
    and l: "listing_by_reference t r = Some l" and later: "ok_publication t3" "grows t2 t3"
    and y: "y \<in> set (loadPublishedListings rt t3 clock idKeys references loc)" "pl_listingId y = ls_id l"
  shows "manifest_of t (pl_manifestId y) = None"
proof (rule ccontr)
  assume "manifest_of t (pl_manifestId y) \<noteq> None"
  then obtain m where m: "manifest_of t (pl_manifestId y) = Some m" by blast
  obtain m3 where m3: "manifest_of t3 (pl_manifestId y) = Some m3" "mf_listingId m3 = ls_id l"
    "generation_of t3 (ls_id l) = Some (mf_generation m3)"
    using shown_released [OF later(1) y(1)] y(2) by metis
  note rm = removeExposure_ok(2) [OF body ok l]
  have "manifest_of t2 (pl_manifestId y) = Some m" using m rm by (simp add: manifest_of_def)
  then have same: "m3 = m" using later(2) m3(1) unfolding grows_def by fastforce
  have gl: "generation_of t (ls_id l) = Some (ls_publicationGeneration l)"
    using listing_by_reference_Some [OF l] ok
    by (auto simp: ok_publication_def ok_keys_def generation_of_def listing_of_def find_distinct)
  have "m \<in> set (pb_manifests t)" using m by (auto dest: manifest_of_Some)
  then have "mf_generation m \<le> ls_publicationGeneration l"
    using ok gl m3(2) same unfolding ok_publication_def ok_manifest_def by auto
  moreover have "\<exists>g \<ge> ls_publicationGeneration l + 1. generation_of t3 (ls_id l) = Some g"
    using rm later(2) unfolding grows_def by blast
  ultimately show False using m3(3) same by auto
qed

text \<open>The effect of a call that returned and was not answered from its receipt.\<close>

lemma run_effect:
  assumes "fst (run env c x locked newId db) = Inr su" "\<not> os_replayed su"
  shows "\<exists>o1 v. command_body env c x o1 (db_world db) = Inr (v, db_world (snd (run env c x locked newId db)))"
proof -
  let ?i = "operation_input env c x" and ?fn = "command_function env c x"
  have run: "run env c x locked newId db = runOperation ?i ?fn locked newId (env_clock env) db"
    using assms(1) by (simp add: run_def split: sum.splits)
  then have "effective ?i ?fn locked newId (env_clock env) db" using assms by (simp add: effective_def)
  then obtain v w ctx where fn: "?fn ctx (db_world db) = (Inr v, w)"
    and r: "runOperation ?i ?fn locked newId (env_clock env) db =
     (Inr \<lparr>os_operationId = newId, os_replayed = False, os_outcome = json_roundtrip v, os_butlerReceipt = None\<rparr>,
     db\<lparr>db_operations := db_operations db @
        [settle_row Op_succeeded (json_roundtrip v) (env_clock env) (new_row ?i newId)], db_world := w\<rparr>)"
    by (rule effective_run)
  have "command_body env c x (cx_operationId ctx) (db_world db) = Inr (v, w)"
    using fn by (auto simp: command_function_def split: sum.splits prod.splits)
  then show ?thesis by (auto simp: run r)
qed

subsection \<open>What activation establishes\<close>

lemma activated_shown:
  assumes "activateManifest env c i o1 t = Inr (v, t2)"
  obtains m l where "manifest_of t i = Some m" "listing_of t (mf_listingId m) = Some l"
    "can (env_access env) (cmd_actor c) Cap_publication_release (Some (listingResource l)) (env_clock env)"
    "ls_publicationGeneration l = cmd_expectedRevision c" "mf_generation m = ls_publicationGeneration l"
    "checkActivation (fst (currentEligibility (env_sha env) (env_review env) t l (mf_locale m) (mf_generation m)
       (command_now env c))) (cmd_actor c) = Allowed"
    "\<exists>k. snd (currentEligibility (env_sha env) (env_review env) t l (mf_locale m) (mf_generation m)
       (command_now env c)) = Some k \<and> manifestDigest (env_sha env) k = mf_contentDigest m \<and>
       list_all (verify_asset env) (content_assets env k)"
    "\<exists>y ys. shown env t2 (ls_id l) (mf_locale m) = y # ys \<and> pl_manifestId y = i"
proof (cases rule: activateManifest_Inr [OF assms, case_names activated])
  case (activated m l k a t1 t3 x)
  note rv = revalidated_Inr [OF activated(6)]
  have read: "shown env t2 (ls_id l) (mf_locale m) = shown env t3 (ls_id l) (mf_locale m)"
    unfolding shown_def load_cong [OF activated(11-13,16)] ..
  have "\<exists>y ys. shown env t3 (ls_id l) (mf_locale m) = y # ys \<and> pl_manifestId y = mf_id m"
    using activated(10) by (auto simp: read_back_def split: list.splits)
  then show thesis
    by (intro that [OF activated(1,2) assertPublishAuthority_Inr [OF activated(3)] checkGeneration_Inr [OF activated(4)]])
      (use rv activated(7) manifest_of_id [OF activated(1)] read in auto)
qed

subsection \<open>The facts of a public property\<close>

lemma shown_active:
  assumes "y \<in> set (loadPublishedListings rt t clock idKeys refs loc)"
  obtains l p where "listing_of t (pl_listingId y) = Some l" "p \<in> set (pb_pointers t)"
    "cp_listingId p = pl_listingId y" "cp_state p = Ptr_active"
proof -
  obtain p l m q r where p: "p \<in> set (pb_pointers t)" "eligible_pointer rt t clock loc p"
    and l: "listing_of t (cp_listingId p) = Some l" and y: "y = published_of rt loc (cp_activatedAt p) l q m r"
    using assms by (rule loaded_eligible)
  have "pl_listingId y = cp_listingId p" using listing_of_id [OF l] by (simp add: y)
  then show thesis using p l by (intro that [of l p]) (auto elim: eligible_pointerE)
qed

lemma approveFactRevision_Inr:
  assumes "approveFactRevision env c i s o1 t = Inr (v, t2)"
  obtains f p where "fact_revision_of (env_review env) i = Some f" "property_of t (fv_propertyId f) = Some p"
    "pt_version p = cmd_expectedRevision c"
    "pt_approvedFactRevisionId p = Some (fv_id f) \<or> \<not> active_exposure t (pt_id p)"
    "pb_properties t2 = map (approved_property p f) (pb_properties t)"
proof -
  obtain f p a k t1 where f: "fact_revision_of (env_review env) i = Some f" "property_of t (fv_propertyId f) = Some p"
    "pt_version p = cmd_expectedRevision c"
    "pt_approvedFactRevisionId p = Some (fv_id f) \<or> \<not> active_exposure t (pt_id p)"
    and ins: "insertApproval env (cmd_actor c) a t = Inr (k, t1)"
    and t2: "pb_properties t2 = map (approved_property p f) (pb_properties t1)"
    using assms unfolding approveFactRevision_def Let_def by (auto split: prod.splits)
  show thesis by (rule that [OF f]) (simp add: t2 insertApproval_Inr(1) [OF ins])
qed

lemma removeExposure_properties:
  "removeExposure env kind c r s o1 t = Inr (v, t2) \<Longrightarrow> pb_properties t2 = pb_properties t"
  unfolding removeExposure_def Let_def by (auto simp: removed_tables_def)

lemma body_properties:
  assumes "command_body env c x o1 t = Inr (v, t2)" "\<And>i s. x \<noteq> Approve_fact_revision i s"
  shows "pb_properties t2 = pb_properties t"
proof (cases x)
  case (Submit_listing_revision r i)
  then have "submitListingRevision env c r i o1 t = Inr (v, t2)" using assms(1) by simp
  then obtain l e n where "editorialStep env c o1 l Edi_in_review e t = Inr (n, t2)"
    unfolding submitListingRevision_def Let_def by (auto split: prod.splits)
  then show ?thesis by (rule editorialStep_Inr)
next
  case (Approve_listing_revision r i note1)
  then have "approveListingRevision env c r i note1 o1 t = Inr (v, t2)" using assms(1) by simp
  then obtain l e n t1 a k t3 where step: "editorialStep env c o1 l Edi_approved_revision e t = Inr (n, t1)"
    and ins: "insertApproval env (cmd_actor c) a t1 = Inr (k, t3)" and t2: "pb_properties t2 = pb_properties t3"
    unfolding approveListingRevision_def Let_def by (auto split: prod.splits)
  have "pb_properties t1 = pb_properties t" using step by (rule editorialStep_Inr)
  then show ?thesis by (simp add: t2 insertApproval_Inr(1) [OF ins])
next
  case (Prepare_manifest r l)
  then have "prepareManifest env c r l o1 t = Inr (v, t2)" using assms(1) by simp
  then show ?thesis unfolding prepareManifest_def Let_def verifyPublicationMedia_def by auto
next
  case (Activate_manifest i)
  then have "activateManifest env c i o1 t = Inr (v, t2)" using assms(1) by simp
  then obtain m l k a t1 t3 y where
    ins: "insertApproval env (cmd_actor c) (publication_approval m (command_now env c)) t = Inr (a, t1)"
    and sw: "switch_pointer env c l m (command_now env c) t1 = Inr t3" and t2: "pb_properties t2 = pb_properties t3"
    by (rule activateManifest_Inr)
  have "pb_properties t3 = pb_properties t1" using sw by (auto simp: switch_pointer_def split: option.splits)
  then show ?thesis by (simp add: t2 insertApproval_Inr(1) [OF ins])
next
  case (Restrict_publication r s)
  then have "removeExposure env Removal_restrict c r s o1 t = Inr (v, t2)" using assms(1) by simp
  then show ?thesis by (rule removeExposure_properties)
next
  case (Withdraw_publication r s)
  then have "removeExposure env Removal_withdraw c r s o1 t = Inr (v, t2)" using assms(1) by simp
  then show ?thesis by (rule removeExposure_properties)
qed (use assms(2) in blast)

end
