(* ===== verification/PublicationBinding.thy ===== *)
theory PublicationBinding
  imports PublicationSafety
begin

text \<open>
  A manifest is bound to its content by a digest of the content's canonical text. Every manifest the
  commands leave was prepared with a well-formed content, and an activation compares the digest of the
  content that is current then: with a digest that tells texts apart, what goes public is what was
  prepared, column by column.
\<close>

subsection \<open>The content is well-formed JSON\<close>

text \<open>The renditions of every asset are JSON as the database gives it.\<close>

definition readable_assets :: "reviewTables \<Rightarrow> bool" where
  "readable_assets rt = list_all (\<lambda>a. wf_json (mas_derivativeRenditions a)) (rt_assets rt)"

lemma wf_micro_text: "wf_json (JNumber (micro_text n))"
proof -
  have d: "\<forall>c \<in> set (show_dec k). is_digit c" "show_dec k \<noteq> []" for k
    using show_dec_all_digits [of k] by (auto simp: all_digits_def list_all_iff)
  obtain c r where w: "show_dec (nat (\<bar>n\<bar> div 1000000)) = c # r"
    using d(2) by (cases "show_dec (nat (\<bar>n\<bar> div 1000000))") auto
  define f where "f = rev (dropWhile (\<lambda>c. c = CHR ''0'') (rev (pad_start 6 (CHR ''0'') (show_dec (nat (\<bar>n\<bar> mod 1000000))))))"
  have "set (pad_start 6 (CHR ''0'') ds) \<subseteq> insert (CHR ''0'') (set ds)" for ds
    by (auto simp: pad_start_def)
  then have p: "\<forall>c \<in> set (pad_start 6 (CHR ''0'') (show_dec k)). is_digit c" for k
    using d(1) is_digit_0 by blast
  have "set f \<subseteq> set (pad_start 6 (CHR ''0'') (show_dec (nat (\<bar>n\<bar> mod 1000000))))"
    unfolding f_def by (auto dest: set_dropWhileD)
  then have "\<forall>c \<in> set f. is_digit c" using p by blast
  then show ?thesis
    using d(1) [of "nat (\<bar>n\<bar> div 1000000)"] w digit_num_char
    by (auto simp: micro_text_def Let_def f_def [symmetric] list_all_iff is_num_char_def is_num_start_def)
qed

lemma parsed_point_wf:
  assumes "parsePublicMapPoint (JObject es) precision = Some p" "wf_json (JObject es)"
  shows "wf_json (map_point_json p)"
proof -
  have "\<exists>s. json_get (JObject es) k = JNumber s \<and> wf_json (JNumber s)"
    if "json_get (JObject es) k = JNumber s" for k s
    using that assms(2) by (auto split: option.splits dest!: map_of_SomeD simp: list_all_iff)
  then show ?thesis
    using assms(1)
    by (auto simp: parsePublicMapPoint_def map_point_json_def finite_within_def simp del: json_get.simps wf_json.simps
        split: option.splits json.splits if_splits) auto
qed

lemma prepareMapPoint_wf:
  assumes "prepareMapPoint places placeId country precision = Some p"
  shows "wf_json (map_point_json p)"
proof -
  obtain chain level where "level_point places chain country precision level = Some p"
    using assms unfolding prepareMapPoint_def Let_def by (meson first_some_Some option.distinct(1))
  then show ?thesis
    using wf_micro_text by (auto simp: level_point_def intro!: parsed_point_wf split: option.splits)
qed

lemma wf_opt_string [simp]: "wf_json (json_opt JString v)" "wf_json (json_opt json_int n)"
  by (simp_all add: json_opt_wf)

lemma wf_media_json:
  assumes "wf_json (mas_derivativeRenditions a)"
  shows "wf_json (media_json (p, a))"
  using assms by (simp add: media_json_def)

lemma placed_assets: "(p, a) \<in> set (placed_media rt i) \<Longrightarrow> a \<in> set (rt_assets rt)"
  by (auto simp: placed_media_def)

lemma eligible_content_wf:
  assumes "currentEligibility sha rt t l loc g now = (input, Some k)" "readable_assets rt"
  shows "wf_json (content_json k)"
proof -
  obtain r p f rf where k: "k = content_of_reviews rt l r p f loc g rf"
    using assms(1) by (auto simp: currentEligibility_def Let_def split: option.splits)
  have "wf_json m" if "m \<in> set (mc_media k)" for m
    using that assms(2) unfolding k
    by (auto simp: content_of_reviews_def readable_assets_def list_all_iff dest!: placed_assets intro!: wf_media_json)
  moreover have "wf_json (mc_disclosure k)"
    using prepareMapPoint_wf unfolding k
    by (auto simp: content_of_reviews_def disclosure_json_def current_disclosure_def Let_def json_opt_def split: option.splits)
  moreover have "wf_json (mc_availabilityBasis k)" "wf_json (mc_decisions k)"
    unfolding k by (simp_all add: content_of_reviews_def availability_json_def decisions_json_def json_opt_wf)
  ultimately show ?thesis by (simp add: content_json_def list_all_iff)
qed

lemma locale_name_inj: "locale_name a = locale_name b \<longleftrightarrow> a = b"
  by (cases a; cases b) simp_all

subsection \<open>Manifests say what they were prepared with\<close>

definition defined_content :: "manifestContent \<Rightarrow> bool" where
  "defined_content k \<longleftrightarrow> mc_disclosure k \<noteq> JUndefined \<and> mc_availabilityBasis k \<noteq> JUndefined \<and> mc_decisions k \<noteq> JUndefined"

definition prepared_with :: "(string \<Rightarrow> string) \<Rightarrow> manifestRow \<Rightarrow> manifestContent \<Rightarrow> bool" where
  "prepared_with sha m k \<longleftrightarrow>
     (\<exists>l newId by now. m = manifest_row sha l k newId by now \<and> mc_listingId k = ls_id l) \<and>
     wf_json (content_json k) \<and> defined_content k"

lemma content_defined:
  assumes "currentEligibility sha rt t l loc g now = (input, Some k)"
  shows "defined_content k"
  using assms by (auto simp: currentEligibility_def Let_def content_of_reviews_def defined_content_def
      disclosure_json_def availability_json_def decisions_json_def split: option.splits)

definition all_prepared :: "(string \<Rightarrow> string) \<Rightarrow> publicationTables \<Rightarrow> bool" where
  "all_prepared sha t \<longleftrightarrow> (\<forall>m \<in> set (pb_manifests t). \<exists>k. prepared_with sha m k)"

definition step_sha :: "(string \<Rightarrow> string) \<Rightarrow> publicationStep \<Rightarrow> bool" where
  "step_sha sha s = (case s of
       Command_step env _ _ _ _ \<Rightarrow> env_sha env = sha \<and> readable_assets (env_review env) | Other_step _ \<Rightarrow> True)"

lemma command_body_manifests:
  assumes "command_body env c x o1 t = Inr (v, t2)" "ok_publication t" "readable_assets (env_review env)"
  shows "pb_manifests t2 = pb_manifests t \<or>
    (\<exists>m k. pb_manifests t2 = pb_manifests t @ [m] \<and> prepared_with (env_sha env) m k)"
proof -
  have keys: "ok_keys t" using assms(2) by (simp add: ok_publication_def)
  have frame: "same_exposure t t2 \<Longrightarrow> pb_manifests t2 = pb_manifests t" by (simp add: same_exposure_def)
  show ?thesis
  proof (cases x)
    case (Prepare_manifest r loc)
    then have p: "prepareManifest env c r loc o1 t = Inr (v, t2)" using assms(1) by simp
    then obtain l k where e: "eligible_content env c l loc t = Inr k"
      and ms: "pb_manifests t2 = pb_manifests t @ [manifest_row (env_sha env) l k (gi_manifestId (env_ids env))
        (actor_id (cmd_actor c)) (command_now env c)]" by (rule prepareManifest_Inr)
    obtain input where i: "currentEligibility (env_sha env) (env_review env) t l loc (ls_publicationGeneration l)
        (command_now env c) = (input, Some k)" using eligible_content_Inr [OF e] by blast
    from eligibility_content(1) [OF i] eligible_content_wf [OF i assms(3)] content_defined [OF i] ms
    show ?thesis unfolding prepared_with_def by blast
  next
    case (Activate_manifest i)
    then have "activateManifest env c i o1 t = Inr (v, t2)" using assms(1) by simp
    then obtain m l k a t1 t3 y where "manifest_of t i = Some m" and l: "listing_of t (mf_listingId m) = Some l"
      and ins: "insertApproval env (cmd_actor c) (publication_approval m (command_now env c)) t = Inr (a, t1)"
      and sw: "switch_pointer env c l m (command_now env c) t1 = Inr t3" and t2: "pb_manifests t2 = pb_manifests t3"
      by (rule activateManifest_Inr)
    note ins = insertApproval_Inr [OF ins]
    have "ok_keys t1" using keys ins by (simp add: ok_keys_def)
    from switch_pointer_Inr(2) [OF sw this] show ?thesis using listing_of_id [OF l] t2 ins(1) by simp
  next
    case (Restrict_publication r s)
    then have b: "removeExposure env Removal_restrict c r s o1 t = Inr (v, t2)" using assms(1) by simp
    then obtain l where "listing_by_reference t r = Some l" by (rule removeExposure_Inr)
    then show ?thesis using removeExposure_ok(2) [OF b assms(2)] by blast
  next
    case (Withdraw_publication r s)
    then have b: "removeExposure env Removal_withdraw c r s o1 t = Inr (v, t2)" using assms(1) by simp
    then obtain l where "listing_by_reference t r = Some l" by (rule removeExposure_Inr)
    then show ?thesis using removeExposure_ok(2) [OF b assms(2)] by blast
  qed (use assms(1) keys frame in \<open>simp_all add: approveFactRevision_exposure submitListingRevision_exposure
      approveListingRevision_exposure\<close>)
qed

lemma run_all_prepared:
  assumes "ok_publication (db_world db)" "all_prepared sha (db_world db)" "list_all (step_sha sha) ss"
  shows "all_prepared sha (db_world (run_steps exec_publication db ss))"
  using assms
proof (induction ss arbitrary: db)
  case (Cons s ss)
  have "all_prepared sha (db_world (exec_publication s db))"
  proof (cases s)
    case (Command_step env c x locked newId)
    then have sha: "env_sha env = sha" "readable_assets (env_review env)" using Cons.prems(3) by (simp_all add: step_sha_def)
    show ?thesis
    proof (cases rule: run_world [of env c x locked newId db, case_names kept ran])
      case kept
      then show ?thesis using Command_step Cons.prems(2) by simp
    next
      case (ran o1 v)
      from command_body_manifests [OF ran Cons.prems(1) sha(2)] show ?thesis
        using Command_step Cons.prems(2) sha by (auto simp: all_prepared_def)
    qed
  next
    case (Other_step t)
    then show ?thesis using Cons.prems(2) by (auto simp: all_prepared_def same_exposure_def)
  qed
  then show ?case using Cons.IH [of "exec_publication s db"] Cons.prems exec_publication_ok by simp
qed simp



subsection \<open>Equal digests, equal columns\<close>

text \<open>The columns of a manifest that carry its content, read as JSON contents.\<close>

definition carries :: "manifestRow \<Rightarrow> manifestContent \<Rightarrow> bool" where
  "carries m k \<longleftrightarrow>
     mf_listingId m = mc_listingId k \<and> mf_locale m = mc_locale k \<and> mf_destination m = mc_destination k \<and>
     mf_generation m = mc_generation k \<and> mf_listingRevisionId m = mc_listingRevisionId k \<and>
     mf_factRevisionId m = mc_factRevisionId k \<and> mf_localizedRevisionId m = mc_localizedRevisionId k \<and>
     mf_policyRevision m = mc_policyRevision k \<and> content_of (mf_media m) = content_of (JArray (mc_media k)) \<and>
     content_of (mf_disclosure m) = content_of (mc_disclosure k) \<and>
     content_of (mf_availabilityBasis m) = content_of (mc_availabilityBasis k) \<and>
     content_of (mf_decisions m) = content_of (mc_decisions k)"

lemma content_lookup:
  assumes "defined_content k"
  shows "content_of (content_json k) = CObject (\<lambda>f. map_option content_of (map_of (entries_of (content_json k)) f))"
  using assms unfolding content_json_def entries_of.simps
  by (intro content_of_object) (auto simp: defined_content_def json_int_def json_opt_def split: option.splits)

lemma same_content:
  assumes "content_of (content_json k) = content_of (content_json k2)" "defined_content k" "defined_content k2"
    and "prepared_with sha m k"
  shows "carries m k2"
proof -
  have eq: "map_option content_of (map_of (entries_of (content_json k)) f) =
      map_option content_of (map_of (entries_of (content_json k2)) f)" for f
    using assms(1) unfolding content_lookup [OF assms(2)] content_lookup [OF assms(3)] by (simp add: fun_eq_iff)
  note eqs = eq [of "''listingId''"] eq [of "''locale''"] eq [of "''destination''"] eq [of "''generation''"]
    eq [of "''listingRevisionId''"] eq [of "''factRevisionId''"] eq [of "''localizedRevisionId''"]
    eq [of "''policyRevision''"] eq [of "''media''"] eq [of "''disclosure''"] eq [of "''availabilityBasis''"]
    eq [of "''decisions''"]
  have o: "content_of (json_opt JString u) = content_of (json_opt JString v) \<longleftrightarrow> u = v" for u v
    by (rule content_json_opt) simp_all
  have d: "destination_name a = destination_name b \<longleftrightarrow> a = b" for a b by (cases a; cases b) simp_all
  show ?thesis
    using assms(4) eqs unfolding content_json_def
    by (auto simp: carries_def prepared_with_def manifest_row_def o d locale_name_inj)
qed


text \<open>What is current at an activation is what the manifest was prepared with.\<close>

lemma activated_carries:
  assumes "activateManifest env c i o1 t = Inr (v, t2)" "all_prepared (env_sha env) t" "readable_assets (env_review env)"
    and "inj (env_sha env)"
  obtains m l k where "manifest_of t i = Some m" "listing_of t (mf_listingId m) = Some l"
    "snd (currentEligibility (env_sha env) (env_review env) t l (mf_locale m) (mf_generation m) (command_now env c)) = Some k"
    "carries m k"
proof (cases rule: activated_shown [OF assms(1), case_names activated])
  case (activated m l)
  then obtain k where k: "snd (currentEligibility (env_sha env) (env_review env) t l (mf_locale m) (mf_generation m)
       (command_now env c)) = Some k" "manifestDigest (env_sha env) k = mf_contentDigest m" by blast
  have "m \<in> set (pb_manifests t)" using activated(1) by (auto dest: manifest_of_Some)
  then obtain k0 where k0: "prepared_with (env_sha env) m k0" using assms(2) by (auto simp: all_prepared_def)
  obtain input where cur: "currentEligibility (env_sha env) (env_review env) t l (mf_locale m) (mf_generation m)
       (command_now env c) = (input, Some k)" using k(1) by (metis prod.collapse)
  have "env_sha env (canonicalJson (content_json k0)) = env_sha env (canonicalJson (content_json k))"
    using k(2) k0 by (auto simp: prepared_with_def manifest_row_def manifestDigest_def)
  then have "canonicalJson (content_json k0) = canonicalJson (content_json k)" using assms(4) by (simp add: inj_eq)
  then have "content_of (content_json k0) = content_of (content_json k)"
    using k0 eligible_content_wf [OF cur assms(3)] by (simp only: canonicalJson_iff prepared_with_def)
  moreover have "defined_content k0" using k0 by (simp only: prepared_with_def)
  ultimately have "carries m k" using content_defined [OF cur] k0 by (intro same_content)
  then show thesis using activated(1,2) k(1) by (intro that)
qed

end
