(* ===== verification/PublicationSamples.thy ===== *)
theory PublicationSamples
  imports Samples PublicationBinding
begin

text \<open>
  A listing that has everything publication asks for: an approved revision and fact revision, a current
  consent with its reviewed documents and one eligible photo whose bytes are in the storage. The digest
  of the samples is the identity, so that a digest is the text it is of.
\<close>

definition sample_access :: accessTables where
  "sample_access = \<lparr>
     at_principals = [\<lparr>pr_id = ''s1'', pr_kind = Account_staff, pr_status = Account_active, pr_partyId = ''p1''\<rparr>],
     at_memberships = [\<lparr>mb_principalId = ''s1'', mb_state = Member_active\<rparr>],
     at_grants = [
       \<lparr>gr_principalId = Some ''s1'', gr_serviceName = None, gr_role = Some Role_publishing_approver,
        gr_capability = None, gr_recordType = None, gr_recordId = None, gr_locales = None, gr_expiresAt = None,
        gr_revokedAt = None\<rparr>],
     at_participants = [], at_relationships = []\<rparr>"

definition sample_asset :: mediaAssetRow where
  "sample_asset = \<lparr>mas_id = ''m1'', mas_kind = Medk_photo, mas_sealedKey = Some ''sealed/m1'',
     mas_sha256 = Some ''original'', mas_byteSize = Some 8, mas_width = Some 800, mas_height = Some 600,
     mas_scan = Scan_clean, mas_scannedAt = Some 1, mas_scannerVersion = Some ''v1'', mas_scannedSha256 = Some ''original'',
     mas_derivativeKey = Some ''derivatives/m1'', mas_derivativeSha256 = Some ''derived'',
     mas_derivativeContentType = Some ''image/webp'', mas_derivativeRenditions = JArray [],
     mas_processing = Proc_ready, mas_rights = Rights_cleared, mas_rightsReference = None,
     mas_audience = Aud_public_candidate, mas_review = Rev_approved, mas_modification = Mod_none,
     mas_modificationDisclosure = None, mas_caption = None, mas_altText = Some ''A house'', mas_detailsDraft = None\<rparr>"

definition sample_version :: "string \<Rightarrow> string \<Rightarrow> documentVersionRow" where
  "sample_version i digest = \<lparr>dv_id = i, dv_documentId = i, dv_versionNumber = 1, dv_state = Doc_reviewed,
     dv_sealedKey = Some i, dv_sha256 = Some digest, dv_scan = Scan_clean, dv_scannedAt = Some 1,
     dv_scannerVersion = Some ''v1'', dv_scannedSha256 = Some digest,
     dv_reviewType = Some Docr_accepted_for_purpose, dv_supersededByVersionId = None\<rparr>"

definition sample_paper :: "string \<Rightarrow> string \<Rightarrow> documentRow" where
  "sample_paper i purpose = \<lparr>dr_id = i, dr_propertyId = Some ''q1'', dr_purpose = purpose,
     dr_currentVersionNumber = 1, dr_expiresAt = None\<rparr>"

definition sample_instruction :: instructionRow where
  "sample_instruction = \<lparr>si_id = ''i1'', si_propertyId = ''q1'', si_listingId = None, si_revisionNumber = 1,
     si_state = Si_agreed,
     si_commercialTerms = JObject [(''authorityRelationshipId'', JString ''r1''), (''sellerPartyId'', JString ''p9''),
       (''agreement'', JObject [(''documentVersionId'', JString ''d2''), (''digest'', JString ''instruction'')])],
     si_disclosure = JObject [(''publicPrecision'', JString ''region'')],
     si_mediaUsageRights = JObject [(''granted'', JBool True)], si_representationScope = Scope_sale,
     si_publicationPermission = True, si_agreedAt = Some 1, si_expiresAt = None, si_invalidatedAt = None\<rparr>"

definition sample_review :: reviewTables where
  "sample_review = \<lparr>
     rt_factRevisions = [\<lparr>fv_id = ''f1'', fv_propertyId = ''q1'', fv_revisionNumber = 1, fv_contentDigest = ''facts''\<rparr>,
       \<lparr>fv_id = ''f2'', fv_propertyId = ''q1'', fv_revisionNumber = 2, fv_contentDigest = ''facts2''\<rparr>],
     rt_facts = [],
     rt_revisions = [\<lparr>lr_id = ''v1'', lr_listingId = ''l1'', lr_revisionNumber = 1, lr_factRevisionId = ''f1'',
       lr_terms = JObject [], lr_sourceCopy = JObject [(''text'', JObject [(''title'', JString ''House'')])],
       lr_disclosure = JObject [(''publicPrecision'', JString ''region'')], lr_contentDigest = ''revision''\<rparr>],
     rt_localized = [],
     rt_placements = [\<lparr>mp_listingRevisionId = ''v1'', mp_mediaRelationId = ''g1'', mp_mediaAssetId = ''m1'', mp_position = 0\<rparr>],
     rt_assets = [sample_asset], rt_instructions = [sample_instruction],
     rt_authorities = [\<lparr>ar_id = ''r1'', ar_partyId = ''p9'', ar_propertyId = ''q1'', ar_role = Part_seller,
       ar_authority = Auth_reviewed,
       ar_scope = JObject [(''documentVersionId'', JString ''d1''), (''digest'', JString ''authority'')],
       ar_validFrom = 1, ar_expiresAt = None, ar_revokedAt = None\<rparr>],
     rt_parties = [\<lparr>py_id = ''p9'', py_mergedIntoPartyId = None\<rparr>],
     rt_documents = [sample_paper ''d1'' ''seller_authority'', sample_paper ''d2'' ''seller_instruction''],
     rt_versions = [sample_version ''d1'' ''authority'', sample_version ''d2'' ''instruction''],
     rt_places = [], rt_aliases = []\<rparr>"

definition sample_approval :: "string \<Rightarrow> approvalKind \<Rightarrow> string \<Rightarrow> string \<Rightarrow> string \<Rightarrow> approvalRow" where
  "sample_approval i kind st subject digest = \<lparr>apr_id = i, apr_kind = kind, apr_state = Apv_approved,
     apr_subjectType = st, apr_subjectId = subject, apr_subjectVersion = 1, apr_subjectHash = digest,
     apr_scope = JObject [], apr_requestedBy = sample_staff, apr_decidedBy = sample_staff,
     apr_decidedWithCapability = Some Cap_listing_review_facts, apr_decidedAt = Some 2, apr_decisionNote = None,
     apr_expiresAt = None\<rparr>"

definition sample_listing :: listingRow where
  "sample_listing = \<lparr>ls_id = ''l1'', ls_reference = ''L-1'', ls_propertyId = ''q1'', ls_purpose = Purpose_sale,
     ls_commercialState = Com_available, ls_availabilityBasis = None, ls_availabilityConfirmedAt = None,
     ls_freshnessState = Fresh_unknown, ls_reviewDueAt = None, ls_availabilityPolicySnapshot = None,
     ls_editorialState = Edi_approved_revision, ls_latestRevisionNumber = 1, ls_approvedRevisionId = Some ''v1'',
     ls_publicationGeneration = 0, ls_version = 3\<rparr>"

definition sample_unpublished :: publicationTables where
  "sample_unpublished = \<lparr>
     pb_listings = [sample_listing],
     pb_properties = [\<lparr>pt_id = ''q1'', pt_reference = ''P-1'', pt_propertyType = Prop_house, pt_placeId = None,
       pt_country = ''BG'', pt_neighborhood = None, pt_publicPrecision = Loc_region,
       pt_approvedFactRevisionId = Some ''f1'', pt_version = 1\<rparr>],
     pb_approvals = [sample_approval ''a1'' Apk_factual ''property_fact_revision'' ''f1'' ''facts'',
       sample_approval ''a2'' Apk_editorial ''listing_revision'' ''v1'' ''revision''],
     pb_manifests = [], pb_pointers = [], pb_deliveries = [], pb_searchDocuments = [], pb_outbox = [],
     pb_activity = [], pb_audit = [], pb_transitionAudit = []\<rparr>"

definition sample_storage :: fileStorage where
  "sample_storage = \<lparr>sto_read = map_of [(''sealed/m1'', ''original''), (''derivatives/m1'', ''derived'')],
     sto_metadata = (\<lambda>_. None)\<rparr>"

definition sample_env :: environment where
  "sample_env = \<lparr>env_sha = id, env_access = sample_access, env_review = sample_review, env_storage = sample_storage,
     env_clock = 5, env_ids = \<lparr>gi_manifestId = ''n1'', gi_approvalId = ''a3'', gi_pointerId = ''c1''\<rparr>\<rparr>"

definition sample_envelope :: "string \<Rightarrow> int \<Rightarrow> commandEnvelope" where
  "sample_envelope key expected = \<lparr>cmd_actor = sample_staff, cmd_operationId = key, cmd_expectedRevision = expected,
     cmd_correlationId = None, cmd_now = None\<rparr>"

definition sample_publication :: "publicationTables database" where
  "sample_publication = \<lparr>db_operations = [], db_audit = [], db_world = sample_unpublished\<rparr>"

definition publish_steps :: "publicationStep list" where
  "publish_steps =
     [Command_step sample_env (sample_envelope ''k1'' 0) (Prepare_manifest ''L-1'' Loc_bg) True ''o1'',
      Command_step sample_env (sample_envelope ''k2'' 0) (Activate_manifest ''n1'') True ''o2'']"



definition sample_revision :: listingRevisionRow where
  "sample_revision = hd (rt_revisions sample_review)"

definition sample_findings :: reviewFindings where
  "sample_findings = \<lparr>rf_editorial = Some ''a2'', rf_factual = Some ''a1'', rf_instruction = Some ''i1'',
     rf_localized = None, rf_language = None, rf_claimReview = None\<rparr>"

lemma sample_consent: "currentSellerEvidence sample_review [sample_listing] 5 ''l1'' sample_instruction"
  by code_simp

lemma sample_permission: "instruction_valid sample_review [sample_listing] sample_listing sample_revision 5 sample_instruction"
  by code_simp

lemma sample_current: "current_instruction sample_review sample_listing = Some sample_instruction"
  by code_simp

lemma sample_approvals:
  "validApprovalId (pb_approvals sample_unpublished) Apk_factual ''property_fact_revision'' ''f1'' ''facts'' 5 = Some ''a1''"
  "validApprovalId (pb_approvals sample_unpublished) Apk_editorial ''listing_revision'' ''v1'' ''revision'' 5 = Some ''a2''"
  by code_simp+

lemma sample_rows: "reviewed_rows sample_review sample_unpublished sample_listing =
    Some (sample_revision, hd (pb_properties sample_unpublished), hd (rt_factRevisions sample_review))"
  by (simp add: reviewed_rows_def sample_listing_def revision_of_def property_of_def fact_revision_of_def
      sample_revision_def sample_review_def sample_unpublished_def)

lemma sample_found: "review_findings id sample_review sample_unpublished sample_listing sample_revision
    (hd (pb_properties sample_unpublished)) (hd (rt_factRevisions sample_review)) Loc_bg 5 = sample_findings"
proof -
  have [simp]: "lr_id sample_revision = ''v1''" "lr_contentDigest sample_revision = ''revision''"
    "fv_id (hd (rt_factRevisions sample_review)) = ''f1''"
    "fv_contentDigest (hd (rt_factRevisions sample_review)) = ''facts''" "pb_listings sample_unpublished = [sample_listing]"
    "pt_approvedFactRevisionId (hd (pb_properties sample_unpublished)) = Some ''f1''"
    "\<not> makes_claims sample_revision" "si_id sample_instruction = ''i1''"
    by (simp_all add: sample_revision_def sample_review_def sample_unpublished_def makes_claims_def sample_instruction_def)
  show ?thesis
    by (simp add: review_findings_def sample_findings_def Let_def sample_current sample_permission sample_approvals
        localized_for_def sourceLocale_def)
qed

lemma sample_placed: "placed_media sample_review ''v1'' =
    [(\<lparr>mp_listingRevisionId = ''v1'', mp_mediaRelationId = ''g1'', mp_mediaAssetId = ''m1'', mp_position = 0\<rparr>, sample_asset)]"
  by (simp add: placed_media_def sample_review_def sample_asset_def)

lemma sample_asset_ready: "mediaAssetEligible sample_asset" "media_ready sample_asset" "verify_asset sample_env sample_asset"
  by code_simp+


definition sample_content :: manifestContent where
  "sample_content = content_of_reviews sample_review sample_listing sample_revision
     (hd (pb_properties sample_unpublished)) (hd (rt_factRevisions sample_review)) Loc_bg 0 sample_findings"

lemma sample_eligibility:
  "currentEligibility id sample_review sample_unpublished sample_listing Loc_bg 0 5 =
     (eligibility_input_of sample_listing Loc_bg 0 sample_findings [sample_asset] False, Some sample_content)"
proof -
  have r: "lr_id sample_revision = ''v1''" "makes_claims sample_revision = False"
    by (simp_all add: sample_revision_def sample_review_def makes_claims_def)
  show ?thesis
    by (simp add: currentEligibility_def sample_rows sample_found sample_placed Let_def r sample_content_def)
qed

lemma sample_activation:
  "checkActivation (eligibility_input_of sample_listing Loc_bg 0 sample_findings [sample_asset] False) sample_staff = Allowed"
  by (simp add: checkActivation_iff eligibility_input_of_def eligibility_base_def sample_findings_def sample_staff_def
      sample_listing_def sample_asset_ready(2) sourceLocale_def)

text \<open>What is eligible depends on the listings, properties and approvals alone.\<close>

lemma eligibility_cong:
  assumes "pb_listings t2 = pb_listings t" "pb_properties t2 = pb_properties t" "pb_approvals t2 = pb_approvals t"
  shows "currentEligibility sha rt t2 l loc g now = currentEligibility sha rt t l loc g now"
proof -
  have same: "property_of t2 = property_of t" "review_findings sha rt t2 = review_findings sha rt t"
    by (simp_all only: fun_eq_iff property_of_def review_findings_def assms simp_thms)
  show ?thesis unfolding currentEligibility_def reviewed_rows_def same ..
qed

definition sample_manifest :: manifestRow where
  "sample_manifest = manifest_row id sample_listing sample_content ''n1'' ''s1'' 5"

lemma sample_manifest_simps [simp]: "mf_id sample_manifest = ''n1''" "mf_listingId sample_manifest = ''l1''"
  "mf_locale sample_manifest = Loc_bg" "mf_generation sample_manifest = 0" "mf_destination sample_manifest = Dest_website"
  "mf_listingRevisionId sample_manifest = ''v1''" "mf_localizedRevisionId sample_manifest = None"
  "json_get (mf_decisions sample_manifest) ''sellerInstruction'' = JString ''i1''"
  "mf_contentDigest sample_manifest = manifestDigest id sample_content"
  by (simp_all add: sample_manifest_def manifest_row_def sample_content_def content_of_reviews_def sample_listing_def
      sample_revision_def sample_review_def decisions_json_def sample_findings_def json_opt_def)

lemma sample_listing_simps [simp]: "ls_id sample_listing = ''l1''" "ls_publicationGeneration sample_listing = 0"
  "ls_reference sample_listing = ''L-1''" "ls_propertyId sample_listing = ''q1''"
  by (simp_all add: sample_listing_def)

lemma sample_env_simps [simp]: "env_sha sample_env = id" "env_access sample_env = sample_access"
  "env_review sample_env = sample_review" "env_clock sample_env = 5"
  "env_ids sample_env = \<lparr>gi_manifestId = ''n1'', gi_approvalId = ''a3'', gi_pointerId = ''c1''\<rparr>"
  "cmd_actor (sample_envelope k e) = sample_staff" "cmd_expectedRevision (sample_envelope k e) = e"
  "cmd_operationId (sample_envelope k e) = k" "command_now sample_env (sample_envelope k e) = 5"
  by (simp_all add: sample_env_def sample_envelope_def command_now_def)

lemma sample_may: "can sample_access sample_staff Cap_publication_release (Some (listingResource sample_listing)) 5"
  by (simp add: access_eval sample_access_def sample_staff_def listingResource_def sample_listing_def clientSideActors_def)

lemma sample_authority: "assertPublishAuthority sample_env (sample_envelope k e) sample_listing = Inr ()"
  by (simp add: assertPublishAuthority_def may_def assertCan_def sample_may)

lemma sample_reference: "to_upper (trim ''L-1'') = ''L-1''"
  by (simp add: to_upper_def to_upper_char_def is_lower_def trim_def trim_left_def is_white_def)

lemma sample_assets: "content_assets sample_env sample_content = [sample_asset]"
proof -
  have v: "lr_id sample_revision = ''v1''" "rt_assets sample_review = [sample_asset]" "mas_id sample_asset = ''m1''"
    by (simp_all add: sample_revision_def sample_review_def sample_asset_def)
  show ?thesis
    by (simp add: content_assets_def sample_content_def content_of_reviews_def v sample_placed media_json_def)
qed

definition sample_prepared :: publicationTables where
  "sample_prepared = snd (projr (prepareManifest sample_env (sample_envelope ''k1'' 0) ''L-1'' Loc_bg ''o1'' sample_unpublished))"

lemma sample_prepare:
  "\<exists>v. prepareManifest sample_env (sample_envelope ''k1'' 0) ''L-1'' Loc_bg ''o1'' sample_unpublished = Inr (v, sample_prepared)"
  "pb_manifests sample_prepared = [sample_manifest]" "pb_listings sample_prepared = [sample_listing]"
  "pb_properties sample_prepared = pb_properties sample_unpublished"
  "pb_approvals sample_prepared = pb_approvals sample_unpublished" "pb_pointers sample_prepared = []"
  "pb_searchDocuments sample_prepared = []"
proof -
  have l: "listing_by_reference sample_unpublished ''L-1'' = Some sample_listing"
    by (simp add: listing_by_reference_def sample_reference sample_unpublished_def)
  have k: "eligible_content sample_env (sample_envelope ''k1'' 0) sample_listing Loc_bg sample_unpublished = Inr sample_content"
    by (simp add: eligible_content_def sample_eligibility sample_activation)
  have id: "actor_id sample_staff = ''s1''" by (simp add: sample_staff_def)
  obtain v t2 where p: "prepareManifest sample_env (sample_envelope ''k1'' 0) ''L-1'' Loc_bg ''o1'' sample_unpublished = Inr (v, t2)"
    "pb_manifests t2 = [sample_manifest]" "pb_listings t2 = [sample_listing]"
    "pb_properties t2 = pb_properties sample_unpublished"
    "pb_approvals t2 = pb_approvals sample_unpublished" "pb_pointers t2 = []" "pb_searchDocuments t2 = []"
    unfolding prepareManifest_def Let_def
    by (simp add: proceed_def found_def l sample_authority checkGeneration_def require_def k verifyPublicationMedia_def sample_assets
        sample_asset_ready sample_manifest_def id)
       (simp add: sample_unpublished_def)
  then show "\<exists>v. prepareManifest sample_env (sample_envelope ''k1'' 0) ''L-1'' Loc_bg ''o1'' sample_unpublished = Inr (v, sample_prepared)"
    "pb_manifests sample_prepared = [sample_manifest]" "pb_listings sample_prepared = [sample_listing]"
    "pb_properties sample_prepared = pb_properties sample_unpublished"
    "pb_approvals sample_prepared = pb_approvals sample_unpublished" "pb_pointers sample_prepared = []"
    "pb_searchDocuments sample_prepared = []"
    by (simp_all add: sample_prepared_def)
qed


text \<open>The manifest on the website: its pointer is active, and reading the listing shows it.\<close>

definition sample_pointer :: pointerRow where
  "sample_pointer = new_pointer (sample_envelope ''k2'' 0) sample_listing sample_manifest ''c1'' 5"

lemma sample_shown:
  assumes "pb_listings t = [sample_listing]" "pb_properties t = pb_properties sample_unpublished"
    "pb_manifests t = [sample_manifest]" "pb_pointers t = [sample_pointer]"
  shows "shown sample_env t ''l1'' Loc_bg =
    [published_of sample_review Loc_bg 5 sample_listing (hd (pb_properties sample_unpublished)) sample_manifest sample_revision]"
proof -
  have t: "listing_of t ''l1'' = Some sample_listing" "manifest_of t ''n1'' = Some sample_manifest"
    "property_of t ''q1'' = Some (hd (pb_properties sample_unpublished))" "revision_of sample_review ''v1'' = Some sample_revision"
    by (simp_all add: listing_of_def manifest_of_def property_of_def revision_of_def assms)
       (simp_all add: sample_unpublished_def sample_review_def sample_revision_def)
  have i: "rt_instructions sample_review = [sample_instruction]" "si_id sample_instruction = ''i1''"
    by (simp_all add: sample_review_def sample_instruction_def)
  have c: "public_consent sample_review t 5 sample_listing sample_manifest"
    by (simp add: public_consent_def assms i sample_consent)
  have e: "eligiblePublications sample_review t 5 Loc_bg = [(''l1'', ''n1'', 5)]"
    by (simp add: eligiblePublications_def assms eligible_pointer_def sample_pointer_def new_pointer_def t c locale_current_def)
  show ?thesis
    by (simp add: shown_def loadPublishedListings_def e published_row_def t)
qed

definition sample_public :: publicationTables where
  "sample_public = snd (projr (activateManifest sample_env (sample_envelope ''k2'' 0) ''n1'' ''o2'' sample_prepared))"

lemma sample_activate:
  "\<exists>v. activateManifest sample_env (sample_envelope ''k2'' 0) ''n1'' ''o2'' sample_prepared = Inr (v, sample_public)"
  "pb_manifests sample_public = [sample_manifest]" "pb_listings sample_public = [sample_listing]"
  "pb_properties sample_public = pb_properties sample_unpublished" "pb_pointers sample_public = [sample_pointer]"
proof -
  note prep = sample_prepare(2-7)
  have t: "listing_of sample_prepared ''l1'' = Some sample_listing" "manifest_of sample_prepared ''n1'' = Some sample_manifest"
    by (simp_all add: listing_of_def manifest_of_def prep)
  have e: "currentEligibility id sample_review sample_prepared sample_listing Loc_bg 0 5 =
     (eligibility_input_of sample_listing Loc_bg 0 sample_findings [sample_asset] False, Some sample_content)"
    using sample_eligibility eligibility_cong [of sample_prepared sample_unpublished]
    by (simp add: prep) (simp add: sample_unpublished_def)
  have r: "revalidated sample_env (sample_envelope ''k2'' 0) sample_listing sample_manifest sample_prepared = Inr sample_content"
    by (simp add: revalidated_def e sample_activation)
  define t1 where "t1 = sample_prepared\<lparr>pb_approvals := pb_approvals sample_prepared @
     [approval_row sample_staff (publication_approval sample_manifest 5) ''a3'']\<rparr>"
  have a: "insertApproval sample_env sample_staff (publication_approval sample_manifest 5) sample_prepared = Inr (''a3'', t1)"
    by (simp only: insertApproval_def prep t1_def Let_def sample_env_simps generatedIds.simps)
      (simp add: sample_unpublished_def sample_approval_def)
  define t2 where "t2 = t1\<lparr>pb_pointers := [sample_pointer]\<rparr>"
  have w: "switch_pointer sample_env (sample_envelope ''k2'' 0) sample_listing sample_manifest 5 t1 = Inr t2"
    by (simp add: switch_pointer_def t1_def t2_def prep require_def proceed_def sample_pointer_def)
  have s: "shown sample_env t2 ''l1'' Loc_bg = [published_of sample_review Loc_bg 5 sample_listing
      (hd (pb_properties sample_unpublished)) sample_manifest sample_revision]"
    by (rule sample_shown) (simp_all add: t1_def t2_def prep)
  have b: "\<exists>x. read_back sample_env t2 sample_listing sample_manifest = Inr x"
    by (simp add: read_back_def s require_def proceed_def)
  obtain v t3 where p: "activateManifest sample_env (sample_envelope ''k2'' 0) ''n1'' ''o2'' sample_prepared = Inr (v, t3)"
    "pb_manifests t3 = [sample_manifest]" "pb_listings t3 = [sample_listing]"
    "pb_properties t3 = pb_properties sample_unpublished" "pb_pointers t3 = [sample_pointer]"
    using b unfolding activateManifest_def Let_def
    by (simp add: t sample_authority checkGeneration_def r verifyPublicationMedia_def sample_assets sample_asset_ready a w)
       (auto simp: t2_def t1_def prep)
  then show "\<exists>v. activateManifest sample_env (sample_envelope ''k2'' 0) ''n1'' ''o2'' sample_prepared = Inr (v, sample_public)"
    "pb_manifests sample_public = [sample_manifest]" "pb_listings sample_public = [sample_listing]"
    "pb_properties sample_public = pb_properties sample_unpublished" "pb_pointers sample_public = [sample_pointer]"
    by (simp_all add: sample_public_def)
qed


text \<open>The two commands run as operations, and the restriction that follows.\<close>

lemma run_applies:
  assumes "authorize env c x (db_world db) = Inr u" "find_operation db (operation_input env c x) = None"
    "newId \<notin> or_id ` set (db_operations db)" "command_body env c x newId (db_world db) = Inr (v, t)"
  shows "run env c x True newId db =
    (Inr \<lparr>os_operationId = newId, os_replayed = False, os_outcome = json_roundtrip v, os_butlerReceipt = None\<rparr>,
     settle (operation_input env c x) newId (env_clock env) Op_succeeded (json_roundtrip v) None
       (db\<lparr>db_operations := db_operations db @ [new_row (operation_input env c x) newId], db_world := t\<rparr>))"
proof -
  have "actor_kind (cmd_actor c) = Actor_staff" using assms(1) by (cases u) (simp add: authorize_def requireStaff_def)
  then have b: "\<not> isButlerOperation (operation_input env c x)" 
    by (cases x) (simp_all add: isButlerOperation_def operation_input_def)
  show ?thesis
    using assms b by (simp add: run_def runOperation_def decideReplay_def run_fresh_def run_savepoint_def
        command_function_def Let_def)
qed

lemma settle_keys: "find_operation (settle i n now st outcome e db) j = None \<longleftrightarrow> find_operation db j = None"
  "or_id ` set (db_operations (settle i n now st outcome e db)) = or_id ` set (db_operations db)"
proof -
  define f where "f = (\<lambda>r. if or_id r = n then settle_row st outcome now r else r)"
  have rows: "db_operations (settle i n now st outcome e db) = map f (db_operations db)" by (simp add: settle_def f_def)
  have "has_key j (f r) = has_key j r" "or_id (f r) = or_id r" for r
    by (simp_all add: f_def has_key_def settle_row_def)
  then show "find_operation (settle i n now st outcome e db) j = None \<longleftrightarrow> find_operation db j = None"
    "or_id ` set (db_operations (settle i n now st outcome e db)) = or_id ` set (db_operations db)"
    unfolding find_operation_def find_None_iff rows by (auto simp: image_image)
qed

definition prepared_db :: "publicationTables database" where
  "prepared_db = snd (run sample_env (sample_envelope ''k1'' 0) (Prepare_manifest ''L-1'' Loc_bg) True ''o1'' sample_publication)"

definition published_db :: "publicationTables database" where
  "published_db = snd (run sample_env (sample_envelope ''k2'' 0) (Activate_manifest ''n1'') True ''o2'' prepared_db)"

lemma published_steps: "run_steps exec_publication sample_publication publish_steps = published_db"
  by (simp add: publish_steps_def prepared_db_def published_db_def)

lemma sample_allowed: "may sample_env (sample_envelope k e) Cap_publication_release (listingResource sample_listing) = Inr ()"
  "requireStaff (sample_envelope k e) = Inr ()"
  using sample_authority by (simp_all add: assertPublishAuthority_def requireStaff_def) (simp add: sample_staff_def)

lemma sample_listed: "listing_by_reference sample_unpublished ''L-1'' = Some sample_listing"
  "listing_by_reference sample_public ''L-1'' = Some sample_listing"
  by (simp_all add: listing_by_reference_def sample_reference sample_activate) (simp add: sample_unpublished_def)

lemma sample_prepared_run:
  "db_world prepared_db = sample_prepared" "or_id ` set (db_operations prepared_db) = {''o1''}"
  "command_type x \<noteq> ''publication.manifest.prepare'' \<Longrightarrow>
     find_operation prepared_db (operation_input sample_env c x) = None"
proof -
  let ?p = "Prepare_manifest ''L-1'' Loc_bg"
  obtain v where v: "prepareManifest sample_env (sample_envelope ''k1'' 0) ''L-1'' Loc_bg ''o1'' sample_unpublished = Inr (v, sample_prepared)"
    using sample_prepare(1) by blast
  have w0: "db_world sample_publication = sample_unpublished" "db_operations sample_publication = []"
    by (simp_all add: sample_publication_def)
  have ap: "authorize sample_env (sample_envelope ''k1'' 0) ?p sample_unpublished = Inr ()"
    by (simp add: authorize_def sample_allowed target_listing_def sample_listed listing_capability_def)
  have r: "prepared_db = settle (operation_input sample_env (sample_envelope ''k1'' 0) ?p) ''o1'' 5 Op_succeeded (json_roundtrip v) None
       (sample_publication\<lparr>db_operations := [new_row (operation_input sample_env (sample_envelope ''k1'' 0) ?p) ''o1''],
          db_world := sample_prepared\<rparr>)"
    unfolding prepared_db_def
    by (subst run_applies [where u = "()" and v = v and t = sample_prepared])
      (use v ap w0 in \<open>simp_all add: find_operation_def\<close>)
  show "db_world prepared_db = sample_prepared" by (simp add: r)
  show "or_id ` set (db_operations prepared_db) = {''o1''}" unfolding r settle_keys by (simp add: new_row_def)
  assume "command_type x \<noteq> ''publication.manifest.prepare''"
  then show "find_operation prepared_db (operation_input sample_env c x) = None"
    unfolding r settle_keys by (simp add: find_operation_def has_key_def new_row_def operation_input_def)
qed

lemma sample_published_run:
  "\<exists>v. run sample_env (sample_envelope ''k2'' 0) (Activate_manifest ''n1'') True ''o2'' prepared_db =
     (Inr \<lparr>os_operationId = ''o2'', os_replayed = False, os_outcome = v, os_butlerReceipt = None\<rparr>, published_db)"
  "db_world published_db = sample_public" "or_id ` set (db_operations published_db) = {''o1'', ''o2''}"
  "command_type x \<notin> {''publication.manifest.prepare'', ''publication.activate''} \<Longrightarrow>
     find_operation published_db (operation_input sample_env c x) = None"
proof -
  let ?a = "Activate_manifest ''n1''"
  obtain w where w: "activateManifest sample_env (sample_envelope ''k2'' 0) ''n1'' ''o2'' sample_prepared = Inr (w, sample_public)"
    using sample_activate(1) by blast
  have t: "listing_of sample_prepared ''l1'' = Some sample_listing" "manifest_of sample_prepared ''n1'' = Some sample_manifest"
    by (simp_all add: listing_of_def manifest_of_def sample_prepare)
  have aa: "authorize sample_env (sample_envelope ''k2'' 0) ?a sample_prepared = Inr ()"
    by (simp add: authorize_def sample_allowed target_listing_def t listing_capability_def)
  have r: "run sample_env (sample_envelope ''k2'' 0) ?a True ''o2'' prepared_db =
     (Inr \<lparr>os_operationId = ''o2'', os_replayed = False, os_outcome = json_roundtrip w, os_butlerReceipt = None\<rparr>,
      settle (operation_input sample_env (sample_envelope ''k2'' 0) ?a) ''o2'' 5 Op_succeeded (json_roundtrip w) None
       (prepared_db\<lparr>db_operations := db_operations prepared_db @
          [new_row (operation_input sample_env (sample_envelope ''k2'' 0) ?a) ''o2''], db_world := sample_public\<rparr>))"
    by (subst run_applies [where u = "()" and v = w and t = sample_public])
      (use w aa sample_prepared_run in simp_all)
  then have p: "published_db = settle (operation_input sample_env (sample_envelope ''k2'' 0) ?a) ''o2'' 5 Op_succeeded
     (json_roundtrip w) None (prepared_db\<lparr>db_operations := db_operations prepared_db @
       [new_row (operation_input sample_env (sample_envelope ''k2'' 0) ?a) ''o2''], db_world := sample_public\<rparr>)"
    by (simp add: published_db_def)
  show "\<exists>v. run sample_env (sample_envelope ''k2'' 0) ?a True ''o2'' prepared_db =
     (Inr \<lparr>os_operationId = ''o2'', os_replayed = False, os_outcome = v, os_butlerReceipt = None\<rparr>, published_db)"
    using r p by auto
  show "db_world published_db = sample_public" by (simp add: p)
  show "or_id ` set (db_operations published_db) = {''o1'', ''o2''}"
    unfolding p settle_keys using sample_prepared_run(2) by (auto simp: new_row_def image_Un)
  assume x: "command_type x \<notin> {''publication.manifest.prepare'', ''publication.activate''}"
  then have "find_operation prepared_db (operation_input sample_env c x) = None"
    by (intro sample_prepared_run(3)) auto
  then show "find_operation published_db (operation_input sample_env c x) = None"
    unfolding p settle_keys using x
    by (auto simp: find_operation_def find_None_iff has_key_def new_row_def operation_input_def)
qed

definition sample_restricted :: publicationTables where
  "sample_restricted = snd (projr (removeExposure sample_env Removal_restrict (sample_envelope ''k3'' 0) ''L-1'' ''wrong'' ''o3'' sample_public))"

lemma sample_restrict:
  "\<exists>v. removeExposure sample_env Removal_restrict (sample_envelope ''k3'' 0) ''L-1'' ''wrong'' ''o3'' sample_public = Inr (v, sample_restricted)"
proof -
  have r: "trim ''wrong'' = ''wrong''" by code_simp
  have p: "\<not> still_shown sample_env (removed_tables Removal_restrict ''wrong'' 5 sample_listing g [sample_pointer] sample_public)
      sample_listing sample_pointer" for g
    by (simp add: still_shown_def shown_def loadPublishedListings_def eligiblePublications_def removed_tables_def
        sample_activate eligible_pointer_def)
  have a: "filter (affected_by (snd (removal_plan Removal_restrict [dependency_of sample_pointer] 0))) [sample_pointer] = [sample_pointer]"
    by (simp add: removal_plan_def planMaterialRestriction_def dependency_of_def affected_by_def sample_pointer_def
        new_pointer_def Let_def)
  have c: "cp_listingId sample_pointer = ''l1''" by (simp add: sample_pointer_def new_pointer_def)
  have "\<exists>v t. removeExposure sample_env Removal_restrict (sample_envelope ''k3'' 0) ''L-1'' ''wrong'' ''o3'' sample_public = Inr (v, t)"
    unfolding removeExposure_def Let_def
    using a p by (simp add: r sample_listed sample_authority checkGeneration_def sample_activate c)
  then show ?thesis by (auto simp: sample_restricted_def)
qed

lemma sample_restricted_run:
  "\<exists>v. fst (run sample_env (sample_envelope ''k3'' 0) (Restrict_publication ''L-1'' ''wrong'') True ''o3'' published_db) =
     Inr \<lparr>os_operationId = ''o3'', os_replayed = False, os_outcome = v, os_butlerReceipt = None\<rparr>"
proof -
  let ?r = "Restrict_publication ''L-1'' ''wrong''"
  obtain v where v: "removeExposure sample_env Removal_restrict (sample_envelope ''k3'' 0) ''L-1'' ''wrong'' ''o3'' sample_public =
      Inr (v, sample_restricted)" using sample_restrict by blast
  have aa: "authorize sample_env (sample_envelope ''k3'' 0) ?r sample_public = Inr ()"
    by (simp add: authorize_def sample_allowed target_listing_def sample_listed listing_capability_def)
  show ?thesis
    by (subst run_applies [where u = "()" and v = v and t = sample_restricted])
      (use v aa sample_published_run in simp_all)
qed

lemma empty_publication_ok: "ok_publication sample_unpublished"
  by (simp add: ok_publication_def ok_keys_def sample_unpublished_def sample_approval_def)

lemma sample_publication_ok: "ok_publication (db_world sample_publication)"
  by (simp add: sample_publication_def empty_publication_ok)

lemma sample_public_shown: "\<exists>y. shown sample_env sample_public ''l1'' Loc_bg = [y] \<and> pl_manifestId y = ''n1'' \<and> pl_listingId y = ''l1''"
  by (subst sample_shown) (simp_all add: sample_activate)

lemma sample_readable: "readable_assets sample_review"
  by (simp add: readable_assets_def sample_review_def sample_asset_def)

lemma sample_gallery:
  "pl_media (published_of sample_review Loc_bg 5 sample_listing (hd (pb_properties sample_unpublished)) sample_manifest sample_revision) \<noteq> []"
proof -
  have "mf_media sample_manifest = JArray [media_json (\<lparr>mp_listingRevisionId = ''v1'', mp_mediaRelationId = ''g1'',
      mp_mediaAssetId = ''m1'', mp_position = 0\<rparr>, sample_asset)]"
    by (simp add: sample_manifest_def manifest_row_def sample_content_def content_of_reviews_def sample_revision_def
        sample_review_def placed_media_def) (simp add: sample_asset_def)
  moreover have "shown_media [sample_asset] (media_json (\<lparr>mp_listingRevisionId = ''v1'', mp_mediaRelationId = ''g1'',
      mp_mediaAssetId = ''m1'', mp_position = 0\<rparr>, sample_asset)) \<noteq> []"
  proof -
    have "mas_id sample_asset = ''m1''" "mas_derivativeRenditions sample_asset = JArray []"
      "mas_sha256 sample_asset = Some ''original''" "mas_derivativeKey sample_asset = Some ''derivatives/m1''"
      "mas_derivativeSha256 sample_asset = Some ''derived''" "mas_derivativeContentType sample_asset = Some ''image/webp''"
      "mas_kind sample_asset = Medk_photo" "mas_modification sample_asset = Mod_none"
      by (simp_all add: sample_asset_def)
    then show ?thesis
      by (simp add: shown_media_def media_json_def sample_asset_ready publishedMediaRenditions_def parseMediaRenditions_def
          bound_bytes_def json_opt_def has_property_def)
  qed
  moreover have "rt_assets sample_review = [sample_asset]" by (simp add: sample_review_def)
  ultimately show ?thesis by (simp add: publicMedia_of_def)
qed

subsection \<open>A listing in review, and places that name each other\<close>

definition sample_in_review :: listingRow where
  "sample_in_review = sample_listing\<lparr>ls_editorialState := Edi_in_review, ls_approvedRevisionId := None\<rparr>"

definition review_db :: "publicationTables database" where
  "review_db = \<lparr>db_operations = [], db_audit = [], db_world = sample_unpublished\<lparr>pb_listings := [sample_in_review]\<rparr>\<rparr>"

lemma sample_can_review:
  "can sample_access sample_staff Cap_listing_review_facts
     (Some (resource_of editorialTransitions (table_parents (editorial_view sample_in_review)) (editorial_view sample_in_review))) 5"
  "can sample_access sample_staff Cap_listing_review_facts (Some (listingResource sample_in_review)) 5"
  by (simp_all add: access_eval sample_access_def sample_staff_def resource_of_def clientSideActors_def listingResource_def)

lemma sample_approval_step:
  "\<exists>ws. executeTransition sample_access editorialTransitions editorialStore
     (transition_command (sample_envelope k 3) o1 sample_in_review Edi_approved_revision
       \<lparr>ee_revisionId = Some ''v1'', ee_missingRequiredFacts = None, ee_approvalValid = Some True, ee_reason = None\<rparr>) 5
     \<lparr>ws_rows = [sample_in_review], ws_activity = act, ws_audit = aud\<rparr> =
   (Inr (Outcome_applied ((editorial_view sample_in_review)\<lparr>vr_state := Edi_approved_revision, vr_version := 4\<rparr>)), ws) \<and>
   ws_rows ws = [sample_in_review\<lparr>ls_editorialState := Edi_approved_revision, ls_version := 4\<rparr>]"
proof -
  let ?e = "\<lparr>ee_revisionId = Some ''v1'', ee_missingRequiredFacts = None, ee_approvalValid = Some True, ee_reason = None\<rparr>"
  define c where "c = transition_command (sample_envelope k 3) o1 sample_in_review Edi_approved_revision ?e"
  have c: "tc_actor c = sample_staff" "tc_recordId c = ''l1''" "tc_expectedVersion c = 3" "tc_to c = Edi_approved_revision"
    "tc_evidence c = ?e"
    by (simp_all add: c_def transition_command_def sample_envelope_def sample_in_review_def sample_listing_def)
  define v where "v = editorial_view sample_in_review"
  have v: "vr_id v = ''l1''" "vr_state v = Edi_in_review" "vr_version v = 3"
    by (simp_all add: v_def editorial_view_def sample_in_review_def sample_listing_def)
  define res where "res = resource_of editorialTransitions (table_parents v) v"
  define q where "q = request_of (grantsFor sample_access sample_staff res 5) c 5"
  have q: "tr_actor q = sample_staff" "tr_to q = Edi_approved_revision" "tr_expectedVersion q = 3" "tr_evidence q = ?e"
    "tr_capabilities q = grantsFor sample_access sample_staff res 5"
    by (simp_all add: q_def request_of_def c)
  have "context_locale (transition_context editorialTransitions v q) = res_locale res"
    by (simp add: transition_context_def res_def resource_of_def)
  then have "hasCapability sample_staff (grantsFor sample_access sample_staff res 5) Cap_listing_review_facts
      (transition_context editorialTransitions v q)"
    using sample_can_review(1) by (simp add: grantsFor_exact res_def v_def)
  then have "permitted editorialTransitions v q"
    by (simp add: permitted_def q v editorialTransitions_def sample_staff_def)
  then have app: "applyTransition editorialTransitions v q =
      Applied (v\<lparr>vr_state := Edi_approved_revision, vr_version := 4\<rparr>)
        (transition_activity editorialTransitions v q) (transition_audit editorialTransitions v q)"
    by (simp add: applyTransition_Applied q v editorialTransitions_def
        check_def editorialMachine_def guardEditorialTransition_def sample_staff_def guard_simps)
  have l: "ls_id sample_in_review = ''l1''" "ls_version sample_in_review = 3"
    by (simp_all add: sample_in_review_def sample_listing_def)
  have save: "editorial_save [sample_in_review] (v\<lparr>vr_state := Edi_approved_revision, vr_version := 4\<rparr>) 3 =
      Inr [sample_in_review\<lparr>ls_editorialState := Edi_approved_revision, ls_version := 4\<rparr>]"
    by (simp add: editorial_save_def v l)
  have load: "editorial_load [sample_in_review] ''l1'' = Some v" by (simp add: editorial_load_def v_def l)
  show ?thesis
    unfolding c_def [symmetric]
    by (simp add: executeTransition_def editorialStore_def c load Let_def q_def [symmetric] res_def [symmetric] app save v_def [symmetric])
qed

lemma sample_approves:
  "\<exists>v t. approveListingRevision sample_env (sample_envelope k 3) ''L-1'' ''v1'' None o1 (db_world review_db) = Inr (v, t)"
proof -
  let ?t = "db_world review_db"
  have l: "listing_by_reference ?t ''L-1'' = Some sample_in_review"
    by (simp add: listing_by_reference_def sample_reference review_db_def sample_in_review_def sample_listing_def)
  have r: "latestRevision sample_env sample_in_review ''v1'' = Inr sample_revision"
    by (simp add: latestRevision_def sample_env_def sample_review_def sample_in_review_def sample_listing_def sample_revision_def)
  have i: "lr_id sample_revision = ''v1''" by (simp add: sample_revision_def sample_review_def)
  have w: "workspace_of ?t = \<lparr>ws_rows = [sample_in_review], ws_activity = [], ws_audit = []\<rparr>"
    by (simp add: workspace_of_def review_db_def sample_unpublished_def)
  have e: "env_access sample_env = sample_access" "command_now sample_env (sample_envelope k 3) = 5"
    "gi_approvalId (env_ids sample_env) = ''a3''"
    by (simp_all add: sample_env_def command_now_def sample_envelope_def)
  obtain ws where ex: "executeTransition sample_access editorialTransitions editorialStore
     (transition_command (sample_envelope k 3) o1 sample_in_review Edi_approved_revision
       \<lparr>ee_revisionId = Some ''v1'', ee_missingRequiredFacts = None, ee_approvalValid = Some True, ee_reason = None\<rparr>) 5
     \<lparr>ws_rows = [sample_in_review], ws_activity = [], ws_audit = []\<rparr> =
   (Inr (Outcome_applied ((editorial_view sample_in_review)\<lparr>vr_state := Edi_approved_revision, vr_version := 4\<rparr>)), ws)"
    using sample_approval_step by blast
  have "gi_approvalId (env_ids sample_env) \<notin> apr_id ` set (pb_approvals (with_workspace ws ?t))"
    by (simp add: e with_workspace_def review_db_def sample_unpublished_def sample_approval_def)
  then show ?thesis
    by (simp add: approveListingRevision_def l r i editorialStep_def e w ex insertApproval_def Let_def)
qed

lemma sample_approved_run:
  "\<exists>v. fst (run sample_env (sample_envelope ''k4'' 3) (Approve_listing_revision ''L-1'' ''v1'' None) True ''o4'' review_db) =
     Inr \<lparr>os_operationId = ''o4'', os_replayed = False, os_outcome = v, os_butlerReceipt = None\<rparr>"
proof -
  let ?x = "Approve_listing_revision ''L-1'' ''v1'' None"
  obtain v t where v: "approveListingRevision sample_env (sample_envelope ''k4'' 3) ''L-1'' ''v1'' None ''o4'' (db_world review_db) = Inr (v, t)"
    using sample_approves by blast
  have l: "listing_by_reference (db_world review_db) ''L-1'' = Some sample_in_review"
    by (simp add: listing_by_reference_def sample_reference review_db_def sample_in_review_def sample_listing_def)
  have m: "may sample_env (sample_envelope ''k4'' 3) Cap_listing_review_facts (listingResource sample_in_review) = Inr ()"
    using sample_can_review(2) by (simp add: may_def assertCan_def sample_env_def sample_envelope_def)
  have aa: "authorize sample_env (sample_envelope ''k4'' 3) ?x (db_world review_db) = Inr ()"
    by (simp add: authorize_def sample_allowed target_listing_def l listing_capability_def m)
  have n: "find_operation review_db i = None" "db_operations review_db = []" for i
    by (simp_all add: find_operation_def review_db_def)
  show ?thesis
    by (subst run_applies [where u = "()" and v = v and t = t]) (use v aa n in simp_all)
qed

definition sample_place :: "string \<Rightarrow> string option \<Rightarrow> placeRow" where
  "sample_place i p = \<lparr>gp_id = i, gp_level = Place_settlement, gp_parentId = p, gp_countryCode = ''BG'', gp_slug = i,
     gp_nameNative = i, gp_nameLatin = i, gp_latitude = None, gp_longitude = None\<rparr>"

end
