(* ===== verification/EditorialReview.thy ===== *)
theory EditorialReview
  imports PublicationSafety
begin

text \<open>
  The editorial review of a listing through the record store the transitions write to: the listings table
  is such a store, so the laws of \<open>record_store\<close> hold of it, and an approval names the newest revision of
  the listing, by its digest.
\<close>

definition ok_listings :: "listingRow list \<Rightarrow> bool" where
  "ok_listings rows = distinct (map ls_id rows)"

lemma find_listing: "ok_listings rows \<Longrightarrow> List.find (\<lambda>l. ls_id l = i) rows = Some l \<longleftrightarrow> l \<in> set rows \<and> ls_id l = i"
  unfolding ok_listings_def by (rule find_distinct)

lemma editorial_saved:
  assumes ok: "ok_listings rows" and l: "l \<in> set rows" and new: "vr_id new = ls_id l"
  defines "saved \<equiv> map (\<lambda>x. if x = l then x\<lparr>ls_editorialState := vr_state new, ls_version := vr_version new\<rparr> else x) rows"
  shows "editorial_save rows new (ls_version l) = Inr saved" "ok_listings saved"
    "List.find (\<lambda>x. ls_id x = ls_id l) saved = Some (l\<lparr>ls_editorialState := vr_state new, ls_version := vr_version new\<rparr>)"
    "i \<noteq> ls_id l \<Longrightarrow> List.find (\<lambda>x. ls_id x = i) saved = List.find (\<lambda>x. ls_id x = i) rows"
proof -
  let ?hit = "\<lambda>x. ls_id x = vr_id new \<and> ls_version x = ls_version l"
  have hit: "?hit x \<longleftrightarrow> x = l" if "x \<in> set rows" for x
    using that ok l new unfolding ok_listings_def distinct_map by (metis inj_on_eq_iff)
  have "distinct rows" using ok by (simp add: ok_listings_def distinct_map)
  then have "length (filter (\<lambda>x. x = l) rows) = 1"
    using l by (simp add: distinct_length_filter Collect_conv_if Int_absorb2 conj_commute)
  moreover have "filter ?hit rows = filter (\<lambda>x. x = l) rows" using hit by (intro filter_cong) auto
  moreover have "map (\<lambda>x. if ?hit x then x\<lparr>ls_editorialState := vr_state new, ls_version := vr_version new\<rparr> else x) rows = saved"
    unfolding saved_def using hit by (intro map_cong) auto
  ultimately show "editorial_save rows new (ls_version l) = Inr saved"
    unfolding editorial_save_def Let_def by (simp only:) simp
  have ids: "map ls_id saved = map ls_id rows" by (simp add: saved_def comp_def)
  then show ok2: "ok_listings saved" using ok by (simp only: ok_listings_def)
  show "List.find (\<lambda>x. ls_id x = ls_id l) saved = Some (l\<lparr>ls_editorialState := vr_state new, ls_version := vr_version new\<rparr>)"
    unfolding find_listing [OF ok2] using l by (force simp: saved_def)
  assume i: "i \<noteq> ls_id l"
  have "List.find (\<lambda>x. ls_id x = i) saved = Some y \<longleftrightarrow> List.find (\<lambda>x. ls_id x = i) rows = Some y" for y
    unfolding find_listing [OF ok2] find_listing [OF ok] using i by (auto simp: saved_def)
  then show "List.find (\<lambda>x. ls_id x = i) saved = List.find (\<lambda>x. ls_id x = i) rows" by (metis not_Some_eq)
qed

interpretation editorial: record_store editorialStore ok_listings
proof
  fix d :: "listingRow list" and i :: string and r :: "editorialState tableRecord" and s :: editorialState and v :: int
  assume ok: "ok_listings d"
  show "vr_id r = i" if "rs_load editorialStore d i = Some r"
    using that ok by (auto simp: editorialStore_def editorial_load_def editorial_view_def find_listing)
  assume "rs_load editorialStore d (vr_id r) = Some r"
  then obtain l where l: "l \<in> set d" "ls_id l = vr_id r" "r = editorial_view l"
    using ok by (auto simp: editorialStore_def editorial_load_def find_listing)
  have v: "vr_version r = ls_version l" "vr_id (r\<lparr>vr_state := s, vr_version := v\<rparr>) = ls_id l"
    using l(2) by (simp_all add: l(3) editorial_view_def)
  note saved = editorial_saved [OF ok l(1) v(2)]
  define d' where "d' = map (\<lambda>x. if x = l then x\<lparr>ls_editorialState := s, ls_version := v\<rparr> else x) d"
  have new: "editorial_view (l\<lparr>ls_editorialState := s, ls_version := v\<rparr>) = r\<lparr>vr_state := s, vr_version := v\<rparr>"
    unfolding l(3) editorial_view_def by simp
  have f: "vr_state (r\<lparr>vr_state := s, vr_version := v\<rparr>) = s" "vr_version (r\<lparr>vr_state := s, vr_version := v\<rparr>) = v"
    by simp_all
  note saved = saved [unfolded f, folded d'_def v(1)]
  show "\<exists>d'. rs_save editorialStore d (r\<lparr>vr_state := s, vr_version := v\<rparr>) (vr_version r) = Inr d' \<and> ok_listings d' \<and>
      rs_load editorialStore d' (vr_id r) = Some (r\<lparr>vr_state := s, vr_version := v\<rparr>) \<and>
      (\<forall>j. j \<noteq> vr_id r \<longrightarrow> rs_load editorialStore d' j = rs_load editorialStore d j)"
    unfolding editorialStore_def recordStore.simps editorial_load_def l(2) [symmetric] new [symmetric]
    by (intro exI [of _ d'] conjI allI impI) (simp_all add: saved new)
qed

text \<open>A step of the review, seen on the listing it is about.\<close>

lemma editorialStep_listing:
  assumes "editorialStep env c o1 l to e t = Inr (n, t2)" "ok_listings (pb_listings t)" "l \<in> set (pb_listings t)"
  shows "cmd_expectedRevision c = ls_version l" "n = ls_version l + 1"
    "check editorialMachine (ls_editorialState l) to = Allowed"
    "guardEditorialTransition (ls_editorialState l) to e (cmd_actor c) = Allowed"
    "listing_of t2 (ls_id l) = Some (l\<lparr>ls_editorialState := to, ls_version := ls_version l + 1\<rparr>)"
    "can (env_access env) (cmd_actor c) (spec_capabilityFor editorialTransitions (ls_editorialState l) to (cmd_actor c))
       (Some (resource_of editorialTransitions (table_parents (editorial_view l)) (editorial_view l))) (command_now env c)"
proof -
  let ?c = "transition_command c o1 l to e" and ?ws = "workspace_of t"
  have load: "rs_load editorialStore (pb_listings t) (ls_id l) = Some (editorial_view l)"
    using find_listing [OF assms(2), of "ls_id l" l] assms(3) by (simp add: editorialStore_def editorial_load_def)
  obtain r ws where ex: "executeTransition (env_access env) editorialTransitions editorialStore ?c (command_now env c) ?ws
      = (Inr (Outcome_applied r), ws)" and n: "n = vr_version r" and t2: "t2 = with_workspace ws t"
    using assms(1) unfolding editorialStep_def by (auto split: prod.splits sum.splits transitionOutcome.splits)
  have ok: "ok_listings (ws_rows ?ws)" using assms(2) by (simp add: workspace_of_def)
  have fields: "tc_recordId ?c = ls_id l" "tc_actor ?c = cmd_actor c" "tc_to ?c = to" "ws_rows ?ws = pb_listings t"
    "tc_expectedVersion ?c = cmd_expectedRevision c" "tc_evidence ?c = e" "rs_parents editorialStore = table_parents"
    by (simp_all add: transition_command_def workspace_of_def editorialStore_def)
  have view: "vr_state (editorial_view l) = ls_editorialState l" "vr_version (editorial_view l) = ls_version l"
    by (simp_all add: editorial_view_def)
  have "fst (executeTransition (env_access env) editorialTransitions editorialStore ?c (command_now env c) ?ws) =
      Inr (Outcome_applied r)" using ex by simp
  from editorial.applied_can [OF ok this] have a: "vr_version (editorial_view l) = cmd_expectedRevision c"
    "r = (editorial_view l)\<lparr>vr_state := to, vr_version := cmd_expectedRevision c + 1\<rparr>"
    "can (env_access env) (cmd_actor c) (spec_capabilityFor editorialTransitions (ls_editorialState l) to (cmd_actor c))
       (Some (resource_of editorialTransitions (table_parents (editorial_view l)) (editorial_view l))) (command_now env c)"
    unfolding fields load by (auto simp: view)
  show "cmd_expectedRevision c = ls_version l" "n = ls_version l + 1" using a n by (simp_all add: view)
  show "can (env_access env) (cmd_actor c) (spec_capabilityFor editorialTransitions (ls_editorialState l) to (cmd_actor c))
       (Some (resource_of editorialTransitions (table_parents (editorial_view l)) (editorial_view l))) (command_now env c)"
    by (rule a(3))
  obtain g act aud where ap: "applyTransition editorialTransitions (editorial_view l) (request_of g ?c (command_now env c)) = Applied r act aud"
    and saved: "editorial_save (pb_listings t) r (cmd_expectedRevision c) = Inr (ws_rows ws)"
    using ex unfolding executeTransition_def fields load
    by (auto simp: Let_def editorialStore_def split: transitionResult.splits sum.splits)
  from ap show "check editorialMachine (ls_editorialState l) to = Allowed"
    "guardEditorialTransition (ls_editorialState l) to e (cmd_actor c) = Allowed"
    by (simp_all add: applyTransition_Applied request_of_def fields view editorialTransitions_def)
  have "List.find (\<lambda>x. ls_id x = ls_id l) (ws_rows ws) = Some (l\<lparr>ls_editorialState := to, ls_version := ls_version l + 1\<rparr>)"
    using editorial_saved(1,3) [OF assms(2,3), of r] saved a by (simp add: view editorial_view_def)
  then show "listing_of t2 (ls_id l) = Some (l\<lparr>ls_editorialState := to, ls_version := ls_version l + 1\<rparr>)"
    by (simp add: listing_of_def t2 with_workspace_def)
qed

lemma approved_listing_found:
  "List.find (\<lambda>x. ls_id x = i) (map (\<lambda>x. if ls_id x = i then x\<lparr>ls_approvedRevisionId := v\<rparr> else x) ls) =
   map_option (\<lambda>x. x\<lparr>ls_approvedRevisionId := v\<rparr>) (List.find (\<lambda>x. ls_id x = i) ls)"
  by (induction ls) auto

text \<open>An approval takes the listing from review to its approved revision and records whose decision it was.\<close>

lemma approveListingRevision_effect:
  assumes "approveListingRevision env c reference i note1 o1 t = Inr (v, t2)" "ok_listings (pb_listings t)"
  obtains l r a where "listing_by_reference t reference = Some l" "r \<in> set (rt_revisions (env_review env))"
    "lr_id r = i" "lr_listingId r = ls_id l" "lr_revisionNumber r = ls_latestRevisionNumber l"
    "ls_editorialState l = Edi_in_review" "cmd_expectedRevision c = ls_version l" "actor_kind (cmd_actor c) = Actor_staff"
    "can (env_access env) (cmd_actor c) Cap_listing_review_facts
       (Some (resource_of editorialTransitions (table_parents (editorial_view l)) (editorial_view l))) (command_now env c)"
    "listing_of t2 (ls_id l) = Some (l\<lparr>ls_editorialState := Edi_approved_revision, ls_version := ls_version l + 1,
       ls_approvedRevisionId := Some i\<rparr>)"
    "pb_approvals t2 = pb_approvals t @ [a]" "approved_for Apk_editorial ''listing_revision'' i a"
    "apr_subjectHash a = lr_contentDigest r" "apr_decidedBy a = cmd_actor c"
proof -
  obtain l r n t1 k t3 where l: "listing_by_reference t reference = Some l" and r: "latestRevision env l i = Inr r"
    and step: "editorialStep env c o1 l Edi_approved_revision
       \<lparr>ee_revisionId = Some (lr_id r), ee_missingRequiredFacts = None, ee_approvalValid = Some True, ee_reason = None\<rparr> t
       = Inr (n, t1)"
    and ins: "insertApproval env (cmd_actor c)
       \<lparr>av_kind = Apk_editorial, av_subjectType = ''listing_revision'', av_subjectId = lr_id r,
        av_subjectVersion = lr_revisionNumber r, av_subjectHash = lr_contentDigest r,
        av_capability = Cap_listing_review_facts, av_scope = None, av_note = drop_falsy note1,
        av_now = command_now env c\<rparr> t1 = Inr (k, t3)"
    and t2: "t2 = t3\<lparr>pb_listings := map (\<lambda>x. if ls_id x = ls_id l then x\<lparr>ls_approvedRevisionId := Some (lr_id r)\<rparr> else x)
         (pb_listings t3)\<rparr>"
    using assms(1) unfolding approveListingRevision_def Let_def by (auto split: prod.splits)
  have lt: "l \<in> set (pb_listings t)" using listing_by_reference_Some [OF l] by blast
  have r2: "r \<in> set (rt_revisions (env_review env))" "lr_id r = i" "lr_listingId r = ls_id l"
    "lr_revisionNumber r = ls_latestRevisionNumber l"
    using r by (auto simp: latestRevision_def find_Some_iff)
  note step2 = editorialStep_listing [OF step assms(2) lt]
  have state: "ls_editorialState l = Edi_in_review"
    using step2(3) by (cases "ls_editorialState l") (simp_all add: check_Allowed_iff editorialMachine_def)
  have staff: "actor_kind (cmd_actor c) = Actor_staff"
    using step2(4) by (simp add: guardEditorialTransition_def guard_simps firstDenial_Allowed_iff)
  have ap1: "pb_approvals t1 = pb_approvals t" using step by (rule editorialStep_Inr)
  note ins = insertApproval_Inr(1) [OF ins]
  have found: "listing_of t2 (ls_id l) = Some (l\<lparr>ls_editorialState := Edi_approved_revision, ls_version := ls_version l + 1,
       ls_approvedRevisionId := Some i\<rparr>)"
    using step2(5) by (simp add: t2 ins listing_of_def approved_listing_found r2)
  obtain a where a: "pb_approvals t2 = pb_approvals t @ [a]" "approved_for Apk_editorial ''listing_revision'' i a"
    "apr_subjectHash a = lr_contentDigest r" "apr_decidedBy a = cmd_actor c"
    by (simp add: t2 ins ap1 approval_row_def approved_for_def r2)
  have "can (env_access env) (cmd_actor c) Cap_listing_review_facts
       (Some (resource_of editorialTransitions (table_parents (editorial_view l)) (editorial_view l))) (command_now env c)"
    using step2(6) by (simp add: editorialTransitions_def)
  from that [OF l r2 state step2(1) staff this found a] show thesis .
qed

end
