(* ===== verification/OutboxLiveness.thy ===== *)
theory OutboxLiveness
  imports Outbox
begin

text \<open>
  Dispatching settles: whatever the provider answers, three dispatches of a queued email leave it
  accepted, failed, cancelled or with an unknown outcome, and the dispatches of other emails in between
  do not matter.
\<close>

record dispatchCall =
  dc_gates :: gates
  dc_provider :: string
  dc_answer :: providerAnswer
  dc_now :: int
  dc_action :: string

definition dispatch_call :: "(string \<Rightarrow> string) \<Rightarrow> dispatchCall \<Rightarrow> outbox \<Rightarrow> outbox" where
  "dispatch_call sha d ob = dispatchMessage sha True (dc_gates d) (dc_provider d) (dc_answer d) (dc_now d) (dc_action d) ob"

lemma action_of_id: "action_of i ob = Some r \<Longrightarrow> xa_id r = i"
  by (auto simp: action_of_def find_Some_iff)

lemma claim_row_id: "xa_id (fst (claim_row sha g p now r)) = xa_id r"
  by (cases rule: claim_row_cases [of sha g p now r]) simp_all

lemma answer_row_id: "xa_id (answer_row c a now r) = xa_id r"
  by (auto simp: answer_row_def finish_def split: providerAnswer.splits)

lemma handoff_row_id: "xa_id (fst (handoff_row g c a now r)) = xa_id r"
  by (simp add: handoff_row_def answer_row_id finish_def)

lemma claim_action:
  "action_of i (claimMessage sha g p now j ob) =
     (if i = j then map_option (\<lambda>r. if delegated r then r else fst (claim_row sha g p now r)) (action_of i ob)
      else action_of i ob)"
proof (cases "action_of j ob")
  case (Some r)
  obtain r1 claimed where c: "claim_row sha g p now r = (r1, claimed)" by fastforce
  have "xa_id r1 = j" using action_of_id [OF Some] claim_row_id [of sha g p now r] by (simp add: c)
  from action_of_update [OF this] show ?thesis
    using Some by (simp add: claimMessage_def c)
qed (simp add: claimMessage_def)

lemma handoff_action:
  "action_of i (handoffMessage g j a now ob) =
     (if i = j then map_option (\<lambda>r. case map_of (ob_inflight ob) j of None \<Rightarrow> r
        | Some c \<Rightarrow> fst (handoff_row g c a now r)) (action_of i ob) else action_of i ob)"
proof (cases "map_of (ob_inflight ob) j")
  case None
  then show ?thesis by (cases "action_of i ob") (auto simp: handoffMessage_def)
next
  case c: (Some c)
  show ?thesis
  proof (cases "action_of j ob")
    case (Some r)
    obtain r1 called where h: "handoff_row g c a now r = (r1, called)" by fastforce
    have "xa_id r1 = j" using action_of_id [OF Some] handoff_row_id [of g c a now r] by (simp add: h)
    from action_of_update [OF this] show ?thesis
      using Some c by (simp add: handoffMessage_def h)
  qed (use c in \<open>simp add: handoffMessage_def\<close>)
qed

lemma dispatch_other:
  assumes "j \<noteq> i"
  shows "action_of i (dispatchMessage sha b g p a now j ob) = action_of i ob"
  using assms by (simp add: dispatchMessage_def Let_def handoff_action claim_action)

text \<open>One dispatch of an email: what became of its row.\<close>

definition dispatched_row ::
    "(string \<Rightarrow> string) \<Rightarrow> gates \<Rightarrow> string \<Rightarrow> providerAnswer \<Rightarrow> int \<Rightarrow> externalActionRow \<Rightarrow> externalActionRow" where
  "dispatched_row sha g p a now r =
     (let (r1, claimed) = claim_row sha g p now r in if claimed then fst (handoff_row g r a now r1) else r1)"

lemma dispatch_own:
  assumes "action_of i ob = Some r" "\<not> delegated r"
  shows "action_of i (dispatchMessage sha True g p a now i ob) = Some (dispatched_row sha g p a now r)"
proof -
  obtain r1 claimed where c: "claim_row sha g p now r = (r1, claimed)" by fastforce
  have inflight: "ob_inflight (claimMessage sha g p now i ob) = (if claimed then [(i, r)] else []) @ ob_inflight ob"
    using assms c by (simp add: claimMessage_def)
  have act: "action_of i (claimMessage sha g p now i ob) = Some r1" using assms c by (simp add: claim_action)
  show ?thesis
    by (cases claimed) (simp_all add: dispatchMessage_def Let_def inflight act handoff_action dispatched_row_def c)
qed

lemma answered_row:
  assumes "xa_state r = Ext_attempting"
  shows "delegated (answer_row c a now r) = delegated r" "inquiry_notice (answer_row c a now r) = inquiry_notice r"
    "settled (answer_row c a now r) \<or> (xa_state (answer_row c a now r) = Ext_queued \<and>
       xa_attempts (answer_row c a now r) = xa_attempts r \<and> xa_attempts c + 1 < maxDeliveryAttempts)"
  using assms by (auto simp: answer_row_def finish_def settled_def delegated_def inquiry_notice_def template_is_def
      split: providerAnswer.splits if_splits)

text \<open>
  A row that is settled stays as it is; a queued one settles, or is back in the queue with one attempt more
  and fewer than three. The waiting for a notice that is not configured is excluded.
\<close>

lemma dispatched_settled: "settled r \<Longrightarrow> dispatched_row sha g p a now r = r"
  by (simp add: dispatched_row_def claim_row_def settled_def)

lemma dispatched_queued:
  assumes "xa_state r = Ext_queued" "inquiry_notice r \<longrightarrow> gt_noticeConfigured g"
    and r'_def: "r' = dispatched_row sha g p a now r"
  shows "delegated r' = delegated r" "inquiry_notice r' = inquiry_notice r"
    "settled r' \<or> (xa_state r' = Ext_queued \<and> xa_attempts r' = xa_attempts r + 1 \<and> xa_attempts r' < maxDeliveryAttempts)"
proof -
  let ?t = "attempt_row p now r"
  have t: "xa_state ?t = Ext_attempting" "xa_attempts ?t = xa_attempts r + 1" "delegated ?t = delegated r"
    "inquiry_notice ?t = inquiry_notice r" "xa_version ?t = xa_version r + 1" "xa_payloadDigest ?t = xa_payloadDigest r"
    "xa_effectKey ?t = xa_effectKey r"
    by (simp_all add: attempt_row_def delegated_def inquiry_notice_def template_is_def)
  have cancelled: "delegated (cancel_row code r) = delegated r" "inquiry_notice (cancel_row code r) = inquiry_notice r"
    "settled (cancel_row code r)" for code
    by (simp_all add: cancel_row_def delegated_def inquiry_notice_def template_is_def settled_def)
  have "delegated r' = delegated r \<and> inquiry_notice r' = inquiry_notice r \<and>
    (settled r' \<or> (xa_state r' = Ext_queued \<and> xa_attempts r' = xa_attempts r + 1 \<and> xa_attempts r' < maxDeliveryAttempts))"
  proof (cases "snd (claim_row sha g p now r)")
    case False
    then show ?thesis
      using assms(1,2) cancelled by (auto simp: r'_def dispatched_row_def claim_row_def split: option.splits if_splits)
  next
    case True
    then have c: "claim_row sha g p now r = (?t, True)"
      by (auto simp: claim_row_def split: option.splits if_splits)
    show ?thesis
    proof (cases "credential_mail r \<and> \<not> gt_credentialCurrent g")
      case True
      then show ?thesis
        by (simp add: r'_def dispatched_row_def c handoff_row_def t finish_def settled_def)
          (simp add: attempt_row_def delegated_def inquiry_notice_def template_is_def)
    next
      case False
      then have "r' = answer_row r a now ?t"
        by (auto simp: r'_def dispatched_row_def c handoff_row_def t)
      then show ?thesis using answered_row [OF t(1), of r a now] t by auto
    qed
  qed
  then show "delegated r' = delegated r" "inquiry_notice r' = inquiry_notice r"
    "settled r' \<or> (xa_state r' = Ext_queued \<and> xa_attempts r' = xa_attempts r + 1 \<and> xa_attempts r' < maxDeliveryAttempts)"
    by blast+
qed

lemma dispatches_settle:
  assumes "action_of i ob = Some r" "\<not> delegated r" "settled r \<or> (xa_state r = Ext_queued \<and> 0 \<le> xa_attempts r)"
    and "inquiry_notice r \<longrightarrow> list_all (\<lambda>d. dc_action d = i \<longrightarrow> gt_noticeConfigured (dc_gates d)) ds"
    and "maxDeliveryAttempts - xa_attempts r \<le> int (length (filter (\<lambda>d. dc_action d = i) ds)) \<or> settled r"
    and "0 < length (filter (\<lambda>d. dc_action d = i) ds) \<or> settled r"
  shows "\<exists>r'. action_of i (fold (dispatch_call sha) ds ob) = Some r' \<and> settled r'"
  using assms
proof (induction ds arbitrary: ob r)
  case (Cons d ds)
  show ?case
  proof (cases "dc_action d = i")
    case False
    then have "action_of i (dispatch_call sha d ob) = Some r"
      using Cons.prems(1) by (simp add: dispatch_call_def dispatch_other)
    from Cons.IH [OF this Cons.prems(2,3)] show ?thesis using Cons.prems(4-6) False by simp
  next
    case True
    let ?r = "dispatched_row sha (dc_gates d) (dc_provider d) (dc_answer d) (dc_now d) r"
    have a: "action_of i (dispatch_call sha d ob) = Some ?r"
      using dispatch_own [OF Cons.prems(1,2)] True by (simp add: dispatch_call_def)
    show ?thesis
    proof (cases "settled r")
      case s: True
      then have "?r = r" by (rule dispatched_settled)
      then show ?thesis using Cons.IH [of _ r] a Cons.prems(2-4) s by simp
    next
      case False
      then have q: "xa_state r = Ext_queued" "0 \<le> xa_attempts r"
        "inquiry_notice r \<longrightarrow> gt_noticeConfigured (dc_gates d)"
        using Cons.prems(3,4) True by auto
      note dq = dispatched_queued [OF q(1,3) refl, of sha "dc_provider d" "dc_answer d" "dc_now d"]
      have left: "maxDeliveryAttempts - xa_attempts r \<le> 1 + int (length (filter (\<lambda>d. dc_action d = i) ds))"
        using Cons.prems(5) False True by simp
      show ?thesis
        by (simp, rule Cons.IH [OF a]) (use dq q left Cons.prems(2,4) in auto)
    qed
  qed
qed auto

end
