(* ===== verification/LocalTime.thy ===== *)
theory LocalTime
  imports Dates
begin

text \<open>
  \<open>src/src/domain/time.ts\<close>: wall-clock times in a zone. The zone data are the runtime's: what
  \<open>Intl.DateTimeFormat\<close> prints of an instant in a zone is the parameter \<open>parts\<close>, year, month, day, hour,
  minute and second. A local time is resolved by trying the offsets of the day before and the day after;
  where the zone changes its offset at most once between the two, these are all there is to try, so the
  answer is the set of instants at which a clock on the wall shows that time.
\<close>

type_synonym zoneParts = "string \<Rightarrow> int \<Rightarrow> int \<times> int \<times> int \<times> int \<times> int \<times> int"

datatype occurrence = Earlier | Later

datatype localTimeResolution = Time_resolved string | Time_nonexistent | Time_ambiguous string string

definition wallClockAsUtc :: "zoneParts \<Rightarrow> int \<Rightarrow> string \<Rightarrow> int" where
  "wallClockAsUtc parts instantMs timeZone =
     (case parts timeZone instantMs of (y, mo, d, h, mi, s) \<Rightarrow> date_utc y (mo - 1) d h mi s)"

text \<open>
  \<open>localPattern\<close>, with its groups as numbers; the seconds are \<open>None\<close> when their group did not take part.
\<close>

definition localPattern :: "string \<Rightarrow> (int \<times> int \<times> int \<times> int \<times> int \<times> int option) option" where
  "localPattern text =
     Option.bind (read_digits 4 0 text) (\<lambda>(y, r1).
     Option.bind (read_char CHR ''-'' r1) (\<lambda>r2.
     Option.bind (read_digits 2 0 r2) (\<lambda>(mo, r3).
     Option.bind (read_char CHR ''-'' r3) (\<lambda>r4.
     Option.bind (read_digits 2 0 r4) (\<lambda>(d, r5).
     Option.bind (read_char CHR ''T'' r5) (\<lambda>r6.
     Option.bind (read_digits 2 0 r6) (\<lambda>(h, r7).
     Option.bind (read_char CHR '':'' r7) (\<lambda>r8.
     Option.bind (read_digits 2 0 r8) (\<lambda>(mi, r9).
       if r9 = [] then Some (y, mo, d, h, mi, None)
       else Option.bind (read_char CHR '':'' r9) (\<lambda>r10.
         Option.bind (read_digits 2 0 r10) (\<lambda>(s, r11).
           if r11 = [] then Some (y, mo, d, h, mi, Some s) else None)))))))))))"

text \<open>\<open>Date.UTC\<close> of the groups.\<close>

definition local_wall :: "string \<Rightarrow> int option" where
  "local_wall text = map_option (\<lambda>(y, mo, d, h, mi, s). date_utc y (mo - 1) d h mi (num_or_zero s)) (localPattern text)"

definition candidate_instants :: "zoneParts \<Rightarrow> string \<Rightarrow> int \<Rightarrow> int list" where
  "candidate_instants parts timeZone wall =
     (let offsets = js_unique (map (\<lambda>t. wallClockAsUtc parts t timeZone - t) [wall - 86400000, wall + 86400000])
      in sort (filter (\<lambda>t. wallClockAsUtc parts t timeZone = wall) (map (\<lambda>offset. wall - offset) offsets)))"

text \<open>\<open>None\<close>: the error thrown for a text that is not a local date-time.\<close>

definition resolveLocalTime ::
    "zoneParts \<Rightarrow> string \<Rightarrow> string \<Rightarrow> occurrence option \<Rightarrow> localTimeResolution option" where
  "resolveLocalTime parts text timeZone chosen =
     map_option (\<lambda>wall. case map to_iso (candidate_instants parts timeZone wall) of
         [] \<Rightarrow> Time_nonexistent
       | [earlier] \<Rightarrow> Time_resolved earlier
       | earlier # later # _ \<Rightarrow>
           (case chosen of
              Some c \<Rightarrow> Time_resolved (if c = Earlier then earlier else later)
            | None \<Rightarrow> Time_ambiguous earlier later))
       (local_wall text)"

datatype dateInput = Given_date "int option" | Given_text string | Given_nothing

datatype precision = Precise_minute | Precise_second

definition localInputValue :: "zoneParts \<Rightarrow> dateInput \<Rightarrow> string \<Rightarrow> precision \<Rightarrow> string" where
  "localInputValue parts instant timeZone precision =
     (let ms = (case instant of Given_date t \<Rightarrow> t | Given_text s \<Rightarrow> date_parse s | Given_nothing \<Rightarrow> None)
      in case ms of None \<Rightarrow> []
       | Some t \<Rightarrow> take (if precision = Precise_second then 19 else 16) (to_iso (wallClockAsUtc parts t timeZone)))"

datatype localInputReason = Invalid_local_time | Nonexistent_local_time | Ambiguous_local_time

text \<open>
  \<open>li_offset\<close> is \<open>None\<close> for an offset that is not a whole number of minutes, which no zone has had for
  decades: its text is that of a fraction.
\<close>

record localInput =
  li_instant :: string
  li_offset :: "string option"
  li_repeated :: bool

datatype repeatedChoice = Repeat_reject | Repeat_first | Repeat_earlier | Repeat_later

definition offset_text :: "int \<Rightarrow> int \<Rightarrow> string option" where
  "offset_text wall instant =
     (let ms = \<bar>wall - instant\<bar>; minutes = ms div 60000
      in if ms mod 60000 \<noteq> 0 then None
         else Some ((if wall < instant then ''-'' else ''+'') @
           pad_start 2 CHR ''0'' (show_dec (nat (minutes div 60))) @ '':'' @
           pad_start 2 CHR ''0'' (show_dec (nat (minutes mod 60)))))"

definition readLocalInput ::
    "zoneParts \<Rightarrow> string \<Rightarrow> string \<Rightarrow> repeatedChoice \<Rightarrow> localInputReason + localInput" where
  "readLocalInput parts text timeZone repeated =
     (case date_parse (text @ (if length text = 16 then '':00'' else []) @ ''Z'') of
        None \<Rightarrow> Inl Invalid_local_time
      | Some wall \<Rightarrow>
          if localPattern text = None \<or> take (length text) (to_iso wall) \<noteq> text then Inl Invalid_local_time
          else (case resolveLocalTime parts text timeZone None of
              None \<Rightarrow> Inl Invalid_local_time
            | Some Time_nonexistent \<Rightarrow> Inl Nonexistent_local_time
            | Some (Time_resolved i) \<Rightarrow>
                Inr \<lparr>li_instant = i, li_offset = Option.bind (date_parse i) (offset_text wall), li_repeated = False\<rparr>
            | Some (Time_ambiguous first second) \<Rightarrow>
                if repeated = Repeat_reject then Inl Ambiguous_local_time
                else let i = (if repeated = Repeat_later then second else first)
                  in Inr \<lparr>li_instant = i, li_offset = Option.bind (date_parse i) (offset_text wall),
                          li_repeated = True\<rparr>))"

text \<open>\<open>explicitInstant\<close>, with the wall part before its offset.\<close>

definition explicit_offset :: "string \<Rightarrow> bool" where
  "explicit_offset s =
     (s = ''Z'' \<or> (length s = 6 \<and> (s ! 0 = CHR ''+'' \<or> s ! 0 = CHR ''-'') \<and> is_digit (s ! 1) \<and> is_digit (s ! 2) \<and>
        s ! 3 = CHR '':'' \<and> is_digit (s ! 4) \<and> is_digit (s ! 5)))"

definition explicit_wall :: "string \<Rightarrow> bool" where
  "explicit_wall w =
     (let main = takeWhile (\<lambda>c. c \<noteq> CHR ''.'') w; rest = drop (length main) w
      in localPattern main \<noteq> None \<and>
         (rest = [] \<or> (length main = 19 \<and> 2 \<le> length rest \<and> length rest \<le> 4 \<and> all_digits (tl rest))))"

definition split_instant :: "string \<Rightarrow> (string \<times> string) option" where
  "split_instant s =
     (let n = length s in
      if n \<ge> 1 \<and> explicit_offset (drop (n - 1) s) then Some (take (n - 1) s, drop (n - 1) s)
      else if n \<ge> 6 \<and> explicit_offset (drop (n - 6) s) then Some (take (n - 6) s, drop (n - 6) s)
      else None)"

definition isInstantInput :: "string \<Rightarrow> bool" where
  "isInstantInput s =
     (case split_instant s of
        None \<Rightarrow> False
      | Some (wall, _) \<Rightarrow>
          explicit_wall wall \<and> date_parse s \<noteq> None \<and>
          (let main = takeWhile (\<lambda>c. c \<noteq> CHR ''.'') wall;
               fraction = drop (length main + 1) wall;
               canonical = (if length wall = 16 then wall @ '':00'' else main) @ ''.'' @ pad_end 3 CHR ''0'' fraction @ ''Z''
           in case date_parse (wall @ ''Z'') of None \<Rightarrow> False | Some utcWall \<Rightarrow> to_iso utcWall = canonical))"

definition whole_seconds :: "string \<Rightarrow> int option" where
  "whole_seconds i = map_option (\<lambda>t. t div 1000) (date_parse i)"

text \<open>\<open>new Date(text).toISOString()\<close> of a text that parses.\<close>

definition normal_instant :: "string \<Rightarrow> string" where
  "normal_instant s = (case date_parse s of None \<Rightarrow> [] | Some t \<Rightarrow> to_iso t)"

definition readDateTimeEntry ::
    "zoneParts \<Rightarrow> string \<Rightarrow> string \<Rightarrow> string \<Rightarrow> string \<Rightarrow> localInputReason + localInput" where
  "readDateTimeEntry parts text timeZone chosen original =
     (if isInstantInput text then
        let wall = localInputValue parts (Given_text text) timeZone Precise_second in
        (case readLocalInput parts wall timeZone Repeat_earlier of
           Inl e \<Rightarrow> Inl e
         | Inr first \<Rightarrow>
             let resolved = (case readLocalInput parts wall timeZone Repeat_later of
                 Inr later \<Rightarrow> if whole_seconds (li_instant later) = whole_seconds text then later else first
               | Inl _ \<Rightarrow> first)
             in Inr (resolved\<lparr>li_instant := normal_instant text\<rparr>))
      else if chosen \<noteq> [] \<and> chosen \<noteq> ''earlier'' \<and> chosen \<noteq> ''later'' then Inl Invalid_local_time
      else (case readLocalInput parts text timeZone
              (if chosen = ''earlier'' then Repeat_earlier else if chosen = ''later'' then Repeat_later else Repeat_reject) of
          Inl e \<Rightarrow> Inl e
        | Inr read \<Rightarrow>
            let precision = (if length text = 19 then Precise_second else Precise_minute);
                unit = (if length text = 19 then 1000 else 60000)
            in if isInstantInput original \<and>
                  localInputValue parts (Given_text original) timeZone precision = text \<and>
                  map_option (\<lambda>t. t div unit) (date_parse original) = map_option (\<lambda>t. t div unit) (date_parse (li_instant read))
               then Inr (read\<lparr>li_instant := normal_instant original\<rparr>) else Inr read))"

definition offsetInputValue :: "zoneParts \<Rightarrow> string \<Rightarrow> string \<Rightarrow> string" where
  "offsetInputValue parts text timeZone =
     (case readDateTimeEntry parts text timeZone [] [] of
        Inr read \<Rightarrow>
          if map_option (\<lambda>t. t mod 60000) (date_parse (li_instant read)) = Some 0
          then localInputValue parts (Given_text (li_instant read)) timeZone Precise_minute @ the_or [] (li_offset read)
          else []
      | Inl _ \<Rightarrow> [])"

subsection \<open>What a resolved time is\<close>

text \<open>
  The instants, on whole seconds, at which a clock on the wall shows a time: a zone is never a day away from
  UTC, so they are within a day of the time read as UTC. And what the candidates rely on: between the day
  before and the day after, the zone changes its offset at most once.
\<close>

definition wall_shows :: "zoneParts \<Rightarrow> string \<Rightarrow> int \<Rightarrow> int set" where
  "wall_shows parts timeZone wall =
     {t. 1000 dvd t \<and> \<bar>t - wall\<bar> \<le> 86400000 \<and> wallClockAsUtc parts t timeZone = wall}"

definition zone_offset :: "zoneParts \<Rightarrow> string \<Rightarrow> int \<Rightarrow> int" where
  "zone_offset parts timeZone t = wallClockAsUtc parts t timeZone - t"

definition one_change :: "zoneParts \<Rightarrow> string \<Rightarrow> int \<Rightarrow> bool" where
  "one_change parts timeZone wall \<longleftrightarrow>
     (\<forall>t. 1000 dvd t \<and> \<bar>t - wall\<bar> \<le> 86400000 \<longrightarrow>
       \<bar>zone_offset parts timeZone t\<bar> \<le> 86400000 \<and>
       zone_offset parts timeZone t \<in>
         {zone_offset parts timeZone (wall - 86400000), zone_offset parts timeZone (wall + 86400000)})"

lemma date_utc_seconds: "1000 dvd date_utc y mo d h mi s"
  by (simp add: date_utc_def day_ms_def dvd_add dvd_mult)

lemma wallClockAsUtc_seconds: "1000 dvd wallClockAsUtc parts t timeZone"
  by (simp add: wallClockAsUtc_def date_utc_seconds split: prod.split)

lemma local_wall_seconds: "local_wall text = Some wall \<Longrightarrow> 1000 dvd wall"
  by (auto simp: local_wall_def date_utc_seconds)

lemma candidate_instants_set:
  assumes "1000 dvd wall" "one_change parts timeZone wall"
  shows "set (candidate_instants parts timeZone wall) = wall_shows parts timeZone wall"
proof -
  let ?w = "\<lambda>t. wallClockAsUtc parts t timeZone" and ?lo = "wall - 86400000" and ?hi = "wall + 86400000"
  define a b where "a = wall - (?w ?lo - ?lo)" and "b = wall - (?w ?hi - ?hi)"
  have mem: "set (candidate_instants parts timeZone wall) = {t. (t = a \<or> t = b) \<and> ?w t = wall}"
    by (auto simp: candidate_instants_def Let_def a_def b_def)
  have lh: "1000 dvd ?lo" "1000 dvd ?hi" using assms(1) by (simp_all add: dvd_diff dvd_add)
  have "1000 dvd wall - (?w t - t)" if "1000 dvd t" for t
    using that assms(1) wallClockAsUtc_seconds by (intro dvd_diff)
  then have dvd: "1000 dvd a" "1000 dvd b" using lh unfolding a_def b_def by blast+
  have "\<bar>?w ?lo - ?lo\<bar> \<le> 86400000" "\<bar>?w ?hi - ?hi\<bar> \<le> 86400000"
    using assms(2) lh unfolding one_change_def zone_offset_def by simp_all
  then have near: "\<bar>a - wall\<bar> \<le> 86400000" "\<bar>b - wall\<bar> \<le> 86400000" unfolding a_def b_def by linarith+
  have all: "t = a \<or> t = b" if t: "1000 dvd t" "\<bar>t - wall\<bar> \<le> 86400000" "?w t = wall" for t
  proof -
    have "?w t - t = ?w ?lo - ?lo \<or> ?w t - t = ?w ?hi - ?hi"
      using t(1,2) assms(2) unfolding one_change_def zone_offset_def by blast
    then show ?thesis using t(3) unfolding a_def b_def by linarith
  qed
  show ?thesis unfolding mem wall_shows_def using dvd near all by blast
qed

lemma candidate_instants_sorted:
  "sorted (candidate_instants parts timeZone wall)" "distinct (candidate_instants parts timeZone wall)"
  "length (candidate_instants parts timeZone wall) \<le> 2"
proof -
  have "distinct (map (\<lambda>offset. wall - offset) (js_unique xs))" for xs :: "int list"
    by (simp add: distinct_map inj_on_def)
  then show "distinct (candidate_instants parts timeZone wall)"
    by (simp add: candidate_instants_def Let_def)
  have "length (js_unique [a, b]) \<le> 2" for a b :: int by (simp add: js_unique_def)
  then show "length (candidate_instants parts timeZone wall) \<le> 2"
    unfolding candidate_instants_def Let_def length_sort list.map
    by (intro order_trans [OF length_filter_le]) simp
qed (simp add: candidate_instants_def Let_def)

lemma candidate_instants_exact:
  assumes "1000 dvd wall" "one_change parts timeZone wall"
  shows "candidate_instants parts timeZone wall = sorted_list_of_set (wall_shows parts timeZone wall)"
  using candidate_instants_set [OF assms, symmetric] candidate_instants_sorted [of parts timeZone wall]
  by (simp add: sorted_list_of_set.idem_if_sorted_distinct)

lemma resolveLocalTime_exact:
  assumes "local_wall text = Some wall" "one_change parts timeZone wall"
  shows "resolveLocalTime parts text timeZone chosen =
    Some (case map to_iso (sorted_list_of_set (wall_shows parts timeZone wall)) of
         [] \<Rightarrow> Time_nonexistent
       | [earlier] \<Rightarrow> Time_resolved earlier
       | earlier # later # _ \<Rightarrow>
           (case chosen of
              Some c \<Rightarrow> Time_resolved (if c = Earlier then earlier else later)
            | None \<Rightarrow> Time_ambiguous earlier later))"
    "finite (wall_shows parts timeZone wall)" "card (wall_shows parts timeZone wall) \<le> 2"
proof -
  note c = local_wall_seconds [OF assms(1)] assms(2)
  show "resolveLocalTime parts text timeZone chosen =
    Some (case map to_iso (sorted_list_of_set (wall_shows parts timeZone wall)) of
         [] \<Rightarrow> Time_nonexistent
       | [earlier] \<Rightarrow> Time_resolved earlier
       | earlier # later # _ \<Rightarrow>
           (case chosen of
              Some c \<Rightarrow> Time_resolved (if c = Earlier then earlier else later)
            | None \<Rightarrow> Time_ambiguous earlier later))"
    by (simp add: resolveLocalTime_def assms(1) candidate_instants_exact [OF c])
  show "finite (wall_shows parts timeZone wall)"
    using candidate_instants_set [OF c] by (metis finite_set)
  show "card (wall_shows parts timeZone wall) \<le> 2"
    using candidate_instants_set [OF c] candidate_instants_sorted [of parts timeZone wall]
    by (metis distinct_card)
qed

subsection \<open>A time that was read shows again\<close>

lemma read_digits_append: "read_digits n a s = Some (v, r) \<Longrightarrow> read_digits n a (s @ z) = Some (v, r @ z)"
  by (induction n a s rule: read_digits.induct) (auto split: if_splits)

lemma read_char_append: "read_char c s = Some r \<Longrightarrow> read_char c (s @ z) = Some (r @ z)"
  by (cases s) (auto split: if_splits)

lemma read_digits_length: "read_digits n a s = Some (v, r) \<Longrightarrow> length s = n + length r"
  by (induction n a s rule: read_digits.induct) (auto split: if_splits)

lemma read_char_length: "read_char c s = Some r \<Longrightarrow> length s = Suc (length r)"
  by (cases s) (auto split: if_splits)

lemma localPatternE:
  assumes "localPattern text = Some (y, mo, d, h, mi, s)"
  obtains r1 r2 r3 r4 r5 r6 r7 r8 r9 where
    "read_digits 4 0 text = Some (y, r1)" "read_char CHR ''-'' r1 = Some r2" "read_digits 2 0 r2 = Some (mo, r3)"
    "read_char CHR ''-'' r3 = Some r4" "read_digits 2 0 r4 = Some (d, r5)" "read_char CHR ''T'' r5 = Some r6"
    "read_digits 2 0 r6 = Some (h, r7)" "read_char CHR '':'' r7 = Some r8" "read_digits 2 0 r8 = Some (mi, r9)"
    "(r9 = [] \<and> s = None) \<or> (\<exists>r10 n. read_char CHR '':'' r9 = Some r10 \<and> read_digits 2 0 r10 = Some (n, []) \<and> s = Some n)"
proof -
  from assms show thesis
    unfolding localPattern_def Option.bind_eq_Some_conv split_paired_Ex prod.case
    by (auto split: if_splits simp: bind_eq_Some_conv intro: that)
qed

lemma date_parse_local:
  assumes "localPattern text = Some (y, mo, d, h, mi, s)"
    and "date_parse (text @ (if length text = 16 then '':00'' else []) @ ''Z'') = Some wall"
  shows "wall = make_day y (mo - 1) d * day_ms + clock_ms h mi (num_or_zero s) 0"
    "length text = (if s = None then 16 else 19)"
    "1 \<le> mo \<and> mo \<le> 12 \<and> 1 \<le> d \<and> d \<le> 31 \<and> h \<le> 24 \<and> mi \<le> 59 \<and> num_or_zero s \<le> 59"
proof -
  define z where "z = (if length text = 16 then '':00'' else []) @ ''Z''"
  from assms(1) obtain r1 r2 r3 r4 r5 r6 r7 r8 r9 where r:
    "read_digits 4 0 text = Some (y, r1)" "read_char CHR ''-'' r1 = Some r2" "read_digits 2 0 r2 = Some (mo, r3)"
    "read_char CHR ''-'' r3 = Some r4" "read_digits 2 0 r4 = Some (d, r5)" "read_char CHR ''T'' r5 = Some r6"
    "read_digits 2 0 r6 = Some (h, r7)" "read_char CHR '':'' r7 = Some r8" "read_digits 2 0 r8 = Some (mi, r9)"
    and last: "(r9 = [] \<and> s = None) \<or> (\<exists>r10 n. read_char CHR '':'' r9 = Some r10 \<and> read_digits 2 0 r10 = Some (n, []) \<and> s = Some n)"
    by (rule localPatternE)
  have n: "length text = 16 + length r9"
    using read_digits_length [OF r(1)] read_char_length [OF r(2)] read_digits_length [OF r(3)] read_char_length [OF r(4)]
      read_digits_length [OF r(5)] read_char_length [OF r(6)] read_digits_length [OF r(7)] read_char_length [OF r(8)]
      read_digits_length [OF r(9)] by simp
  note a = read_digits_append [OF r(1), of z] read_char_append [OF r(2), of z] read_digits_append [OF r(3), of z]
    read_char_append [OF r(4), of z] read_digits_append [OF r(5), of z] read_char_append [OF r(6), of z]
    read_digits_append [OF r(7), of z] read_char_append [OF r(8), of z] read_digits_append [OF r(9), of z]
  have secs: "read_seconds (r9 @ z) = Some (num_or_zero s, 0, ''Z'') \<and> length text = (if s = None then 16 else 19)"
  proof (cases "r9 = []")
    case True
    then have "s = None" using last by auto
    moreover have "read_digits 2 0 ''00Z'' = Some (0, ''Z'')" by (simp add: numeral_2_eq_2 is_digit_def digit_val_def)
    ultimately show ?thesis using True n by (simp add: z_def read_seconds_def read_fraction_def)
  next
    case False
    then obtain r10 k where k: "read_char CHR '':'' r9 = Some r10" "read_digits 2 0 r10 = Some (k, [])" "s = Some k"
      using last by blast
    have "length text = 19" using n read_char_length [OF k(1)] read_digits_length [OF k(2)] by simp
    then show ?thesis
      using read_char_append [OF k(1), of z] read_digits_append [OF k(2), of z] k(3)
      by (simp add: z_def read_seconds_def read_fraction_def)
  qed
  then show "length text = (if s = None then 16 else 19)" by blast
  have ne: "r1 @ z \<noteq> []" "r3 @ z \<noteq> []" "r5 @ z \<noteq> []" by (simp_all add: z_def)
  have off: "read_offset ''Z'' = Some 0" by (simp add: read_offset_def)
  show "wall = make_day y (mo - 1) d * day_ms + clock_ms h mi (num_or_zero s) 0"
    "1 \<le> mo \<and> mo \<le> 12 \<and> 1 \<le> d \<and> d \<le> 31 \<and> h \<le> 24 \<and> mi \<le> 59 \<and> num_or_zero s \<le> 59"
    using assms(2) secs ne unfolding z_def [symmetric]
    by (auto simp: date_parse_def read_clock_def a off split: if_splits)
qed

lemma local_wall_parse:
  assumes "localPattern text = Some (y, mo, d, h, mi, s)" "100 \<le> y"
    and "date_parse (text @ (if length text = 16 then '':00'' else []) @ ''Z'') = Some wall"
  shows "local_wall text = Some wall"
  using date_parse_local(1) [OF assms(1,3)] assms(1,2) by (simp add: local_wall_def date_utc_def clock_ms_def)

lemma resolveLocalTime_shows:
  assumes "local_wall text = Some wall"
    and "resolveLocalTime parts text timeZone None = Some (Time_resolved i) \<or>
      resolveLocalTime parts text timeZone None = Some (Time_ambiguous i j) \<or>
      resolveLocalTime parts text timeZone None = Some (Time_ambiguous j i)"
    and "one_change parts timeZone wall"
  obtains t where "i = to_iso t" "t \<in> wall_shows parts timeZone wall"
proof -
  have "i \<in> to_iso ` set (candidate_instants parts timeZone wall)"
    using assms(2) unfolding resolveLocalTime_def assms(1)
    by (cases "candidate_instants parts timeZone wall" rule: remdups_adj.cases) auto
  then show thesis
    using that candidate_instants_set [OF local_wall_seconds [OF assms(1)] assms(3)] by auto
qed

text \<open>The parts of a text that parses are those of a day of the calendar.\<close>

lemma read_digits_nonneg: "read_digits n a s = Some (v, r) \<Longrightarrow> 0 \<le> a \<Longrightarrow> 0 \<le> v"
  by (induction n a s rule: read_digits.induct) (auto simp: is_digit_def digit_val_def split: if_splits)

lemma localPattern_nonneg:
  assumes "localPattern text = Some (y, mo, d, h, mi, s)"
  shows "0 \<le> h" "0 \<le> mi" "0 \<le> num_or_zero s"
  using assms by (auto elim!: localPatternE dest!: read_digits_nonneg)

lemma date_parse_range:
  assumes "localPattern text = Some (y, mo, d, h, mi, s)" "100 \<le> y" "y \<le> 9998"
    and "date_parse (text @ (if length text = 16 then '':00'' else []) @ ''Z'') = Some wall"
  shows "make_day 0 0 1 * day_ms + 86400000 \<le> wall" "wall + 86400000 < make_day 10000 0 1 * day_ms"
proof -
  have m: "1 \<le> mo" "mo \<le> 12" "1 \<le> d" "d \<le> 31" "h \<le> 24" "mi \<le> 59" "num_or_zero s \<le> 59"
    using date_parse_local(3) [OF assms(1,4)] by auto
  have w: "wall = make_day y (mo - 1) d * day_ms + clock_ms h mi (num_or_zero s) 0"
    by (rule date_parse_local(1) [OF assms(1,4)])
  have "0 \<le> clock_ms h mi (num_or_zero s) 0" "clock_ms h mi (num_or_zero s) 0 \<le> 2 * 86400000"
    using m localPattern_nonneg [OF assms(1)] by (simp_all add: clock_ms_def)
  moreover have "day_from_year 100 \<le> make_day y (mo - 1) d"
    "make_day y (mo - 1) d \<le> day_from_year 9998 + 400"
  proof -
    have "0 \<le> days_before_month lp k" "days_before_month lp k \<le> 360" if "0 \<le> k" "k \<le> 11" for lp k
      using that by (auto simp: days_before_month_def; presburger)+
    then have "0 \<le> days_before_month (leap y) (mo - 1)" "days_before_month (leap y) (mo - 1) \<le> 360"
      using m by simp_all
    moreover have "make_day y (mo - 1) d = day_from_year y + days_before_month (leap y) (mo - 1) + d - 1"
      using m by (simp add: make_day_def Let_def)
    ultimately show "day_from_year 100 \<le> make_day y (mo - 1) d"
      "make_day y (mo - 1) d \<le> day_from_year 9998 + 400"
      using m day_from_year_mono [OF assms(2)] day_from_year_mono [OF assms(3)] by linarith+
  qed
  moreover have "make_day 0 0 1 + 2 \<le> day_from_year 100" "day_from_year 9998 + 404 \<le> make_day 10000 0 1"
    by (simp_all add: make_day_def day_from_year_def days_before_month_def)
  ultimately show "make_day 0 0 1 * day_ms + 86400000 \<le> wall" "wall + 86400000 < make_day 10000 0 1 * day_ms"
    unfolding w day_ms_def by linarith+
qed

lemma readLocalInput_shows:
  assumes "readLocalInput parts text timeZone choice = Inr x" "local_wall text = Some wall" "one_change parts timeZone wall"
    and "localPattern text = Some (y, mo, d, h, mi, s)" "100 \<le> y" "y \<le> 9998"
  obtains t where "li_instant x = to_iso t" "t \<in> wall_shows parts timeZone wall" "date_parse (to_iso t) = Some t"
    "li_repeated x \<longleftrightarrow> card (wall_shows parts timeZone wall) = 2"
    "localInputValue parts (Given_text (li_instant x)) timeZone
       (if length text = 19 then Precise_second else Precise_minute) = text"
proof -
  obtain wall2 where p: "date_parse (text @ (if length text = 16 then '':00'' else []) @ ''Z'') = Some wall2"
    using assms(1) by (cases "date_parse (text @ (if length text = 16 then '':00'' else []) @ ''Z'')")
      (simp_all add: readLocalInput_def)
  obtain res where res: "resolveLocalTime parts text timeZone None = Some res"
    using assms(1) p by (cases "resolveLocalTime parts text timeZone None") (simp_all add: readLocalInput_def split: if_splits)
  have shown: "take (length text) (to_iso wall2) = text"
    using assms(1) unfolding readLocalInput_def p by (simp split: if_splits)
  have x: "res = Time_resolved (li_instant x) \<and> \<not> li_repeated x \<or>
      (\<exists>j. (res = Time_ambiguous (li_instant x) j \<or> res = Time_ambiguous j (li_instant x)) \<and> li_repeated x)"
    using assms(1) unfolding readLocalInput_def p by (cases res) (auto simp: res Let_def split: if_splits)
  have w: "wall2 = wall" using local_wall_parse [OF assms(4,5) p] assms(2) by simp
  obtain t where t: "li_instant x = to_iso t" "t \<in> wall_shows parts timeZone wall"
    using resolveLocalTime_shows [OF assms(2) _ assms(3), of "li_instant x"] res x by metis
  have "make_day 0 0 1 * day_ms \<le> t" "t < make_day 10000 0 1 * day_ms"
    using date_parse_range [OF assms(4-6) p] t(2) unfolding w wall_shows_def by auto
  then have parsed: "date_parse (to_iso t) = Some t" by (rule date_parse_to_iso)
  have "length text = 16 \<or> length text = 19" using date_parse_local(2) [OF assms(4) p] by auto
  then have again: "localInputValue parts (Given_text (li_instant x)) timeZone
      (if length text = 19 then Precise_second else Precise_minute) = text"
    using shown t by (auto simp: localInputValue_def t(1) parsed w wall_shows_def)
  note exact = resolveLocalTime_exact [OF assms(2,3)]
  define xs where "xs = sorted_list_of_set (wall_shows parts timeZone wall)"
  have card: "card (wall_shows parts timeZone wall) = length xs" using exact(2) by (simp add: xs_def)
  then have "length xs \<le> 2" using exact(3) by simp
  then consider "xs = []" | i where "xs = [i]" | i j where "xs = [i, j]"
    by (cases xs rule: remdups_adj.cases) auto
  then have "li_repeated x \<longleftrightarrow> length xs = 2"
    using x exact(1) [of None] res unfolding xs_def [symmetric] by cases auto
  then have "li_repeated x \<longleftrightarrow> card (wall_shows parts timeZone wall) = 2" unfolding card .
  from that [OF t parsed this again] show thesis .
qed

end
