(* ===== verification/OperatingPolicy.thy ===== *)
theory OperatingPolicy
  imports Dates Json MediaRendition
begin

text \<open>
  \<open>src/src/domain/operating-policy.ts\<close>: the agency's reviewed calendar and policy, and the staffed time
  between two instants. A stored policy is JSON of unknown shape until its schema has been read; the parts
  of a schema that the schema library itself decides (a UUID, an ISO date-time) are the parameter
  \<open>schemaChecks\<close>. What the runtime's zone data say of an hour in Sofia is the parameter \<open>sofia\<close>.
\<close>

subsection \<open>Reading a value by its schema\<close>

record schemaChecks =
  sk_uuid :: "string \<Rightarrow> bool"
  sk_datetime :: "string \<Rightarrow> bool"

definition read_string :: "(string \<Rightarrow> bool) \<Rightarrow> json \<Rightarrow> string option" where
  "read_string ok v = (case v of JString s \<Rightarrow> if ok s then Some s else None | _ \<Rightarrow> None)"

text \<open>\<open>z.string().trim().min(a).max(b)\<close>\<close>

definition read_trimmed :: "nat \<Rightarrow> nat \<Rightarrow> json \<Rightarrow> string option" where
  "read_trimmed a b v = (case v of
       JString s \<Rightarrow> let t = trim s in if a \<le> length t \<and> length t \<le> b then Some t else None
     | _ \<Rightarrow> None)"

definition read_nullable :: "(json \<Rightarrow> 'a option) \<Rightarrow> json \<Rightarrow> 'a option option" where
  "read_nullable f v = (if v = JNull then Some None else map_option Some (f v))"

fun read_all :: "(json \<Rightarrow> 'a option) \<Rightarrow> json list \<Rightarrow> 'a list option" where
  "read_all f [] = Some []"
| "read_all f (v # vs) = Option.bind (f v) (\<lambda>x. map_option ((#) x) (read_all f vs))"

definition read_array :: "nat \<Rightarrow> (json \<Rightarrow> 'a option) \<Rightarrow> json \<Rightarrow> 'a list option" where
  "read_array n f v = (case v of JArray vs \<Rightarrow> if length vs \<le> n then read_all f vs else None | _ \<Rightarrow> None)"

definition read_int :: "int \<Rightarrow> int \<Rightarrow> json \<Rightarrow> int option" where
  "read_int lo hi v = Option.bind (safe_integer_of v) (\<lambda>n. if lo \<le> n \<and> n \<le> hi then Some n else None)"

definition read_literal :: "string \<Rightarrow> json \<Rightarrow> unit option" where
  "read_literal s v = (if v = JString s then Some () else None)"

subsection \<open>The calendar\<close>

datatype weekday = Mon | Tue | Wed | Thu | Fri | Sat | Sun

definition policyWeekdays :: "weekday list" where
  "policyWeekdays = [Mon, Tue, Wed, Thu, Fri, Sat, Sun]"

primrec weekday_name :: "weekday \<Rightarrow> string" where
  "weekday_name Mon = ''mon''" | "weekday_name Tue = ''tue''" | "weekday_name Wed = ''wed''"
| "weekday_name Thu = ''thu''" | "weekday_name Fri = ''fri''" | "weekday_name Sat = ''sat''"
| "weekday_name Sun = ''sun''"

text \<open>\<open>day\<close>: a date of this century that the calendar has.\<close>

definition is_day :: "string \<Rightarrow> bool" where
  "is_day v =
     (length v = 10 \<and> take 2 v = ''20'' \<and> all_digits (take 4 v) \<and> v ! 4 = CHR ''-'' \<and>
      all_digits (take 2 (drop 5 v)) \<and> v ! 7 = CHR ''-'' \<and> all_digits (drop 8 v) \<and>
      (case date_parse (v @ ''T00:00:00Z'') of None \<Rightarrow> False | Some t \<Rightarrow> take 10 (to_iso t) = v))"

text \<open>\<open>clock\<close> and \<open>endClock\<close>\<close>

definition is_clock :: "string \<Rightarrow> bool" where
  "is_clock v =
     (length v = 5 \<and> is_digit (v ! 0) \<and> is_digit (v ! 1) \<and> v ! 2 = CHR '':'' \<and> is_digit (v ! 3) \<and> is_digit (v ! 4) \<and>
      digit_val (v ! 0) * 10 + digit_val (v ! 1) \<le> 23 \<and> digit_val (v ! 3) \<le> 5)"

definition is_end_clock :: "string \<Rightarrow> bool" where
  "is_end_clock v = (is_clock v \<or> v = ''24:00'')"

type_synonym clockWindow = "string \<times> string"

definition read_interval :: "json \<Rightarrow> clockWindow option" where
  "read_interval v = (case v of
       JArray [a, b] \<Rightarrow>
         Option.bind (read_string is_clock a) (\<lambda>s. Option.bind (read_string is_end_clock b) (\<lambda>e.
           if s < e then Some (s, e) else None))
     | _ \<Rightarrow> None)"

text \<open>Each window begins where the one before it has ended.\<close>

fun in_sequence :: "clockWindow list \<Rightarrow> bool" where
  "in_sequence ((a, b) # (c, d) # ws) = (b \<le> c \<and> in_sequence ((c, d) # ws))"
| "in_sequence _ = True"

definition read_intervals :: "json \<Rightarrow> clockWindow list option" where
  "read_intervals v = Option.bind (read_array 8 read_interval v) (\<lambda>ws. if in_sequence ws then Some ws else None)"

record calendarException =
  cx_date :: string
  cx_intervals :: "clockWindow list option"
  cx_reason :: string

record serviceCalendar =
  cal_validFrom :: string
  cal_validUntil :: string
  cal_weekly :: "weekday \<Rightarrow> clockWindow list option"
  cal_exceptions :: "calendarException list"
  cal_sourceReference :: string

definition read_weekly :: "json \<Rightarrow> (weekday \<Rightarrow> clockWindow list option) option" where
  "read_weekly v =
     (if \<forall>d \<in> set policyWeekdays. read_nullable read_intervals (json_get v (weekday_name d)) \<noteq> None
      then Some (\<lambda>d. the (read_nullable read_intervals (json_get v (weekday_name d)))) else None)"

definition read_exception :: "json \<Rightarrow> calendarException option" where
  "read_exception v =
     Option.bind (read_string is_day (json_get v ''date'')) (\<lambda>d.
     Option.bind (read_nullable read_intervals (json_get v ''intervals'')) (\<lambda>ws.
     map_option (\<lambda>r. \<lparr>cx_date = d, cx_intervals = ws, cx_reason = r\<rparr>) (read_trimmed 3 300 (json_get v ''reason''))))"

text \<open>The refinement over the whole calendar: its bounds, and every exception once and within them.\<close>

definition calendar_refined :: "serviceCalendar \<Rightarrow> bool" where
  "calendar_refined c =
     (cal_validFrom c \<le> cal_validUntil c \<and> distinct (map cx_date (cal_exceptions c)) \<and>
      list_all (\<lambda>e. cal_validFrom c \<le> cx_date e \<and> cx_date e \<le> cal_validUntil c) (cal_exceptions c))"

definition serviceCalendarSchema :: "json \<Rightarrow> serviceCalendar option" where
  "serviceCalendarSchema v =
     Option.bind (read_literal ''reviewed_calendar_v1'' (json_get v ''kind'')) (\<lambda>_.
     Option.bind (read_literal ''Europe/Sofia'' (json_get v ''timezone'')) (\<lambda>_.
     Option.bind (read_string is_day (json_get v ''validFrom'')) (\<lambda>from.
     Option.bind (read_string is_day (json_get v ''validUntil'')) (\<lambda>until.
     Option.bind (read_weekly (json_get v ''weekly'')) (\<lambda>weekly.
     Option.bind (read_array 400 read_exception (json_get v ''exceptions'')) (\<lambda>es.
     Option.bind (read_trimmed 3 1500 (json_get v ''sourceReference'')) (\<lambda>source.
       let c = \<lparr>cal_validFrom = from, cal_validUntil = until, cal_weekly = weekly, cal_exceptions = es,
                 cal_sourceReference = source\<rparr>
       in if calendar_refined c then Some c else None)))))))"

subsection \<open>The policy\<close>

record operatingPolicy =
  op_serviceCalendar :: "serviceCalendar option"
  op_coverage :: "string option"
  op_serviceOwner :: "string option"
  op_privacyOwner :: "string option"
  op_alertsOwner :: "string option"
  op_servicePurpose :: "string option"
  op_savedSearchPurpose :: "string option"
  op_marketingPurpose :: "string option"
  op_retentionReference :: "string option"
  op_vendorReference :: "string option"
  op_processReference :: "string option"
  op_alertReference :: "string option"
  op_reviewDaysSale :: "int option"
  op_reviewDaysRent :: "int option"

definition optionalReference :: "json \<Rightarrow> string option option" where
  "optionalReference = read_nullable (read_trimmed 3 1500)"

definition optionalOwner :: "schemaChecks \<Rightarrow> json \<Rightarrow> string option option" where
  "optionalOwner k = read_nullable (read_string (sk_uuid k))"

definition operatingPolicySchema :: "schemaChecks \<Rightarrow> json \<Rightarrow> operatingPolicy option" where
  "operatingPolicySchema k v =
     (let g = json_get v; r = json_get (g ''responsibilities''); c = json_get (g ''contactPurposes'');
          d = json_get (g ''availabilityReviewDays'') in
      Option.bind (read_literal ''agency_operating_policy_v1'' (g ''kind'')) (\<lambda>_.
      Option.bind (read_nullable serviceCalendarSchema (g ''serviceCalendar'')) (\<lambda>calendar.
      Option.bind (optionalReference (g ''coverage'')) (\<lambda>coverage.
      Option.bind (optionalOwner k (r ''service'')) (\<lambda>service.
      Option.bind (optionalOwner k (r ''privacy'')) (\<lambda>privacy.
      Option.bind (optionalOwner k (r ''alerts'')) (\<lambda>alerts.
      Option.bind (optionalReference (c ''service'')) (\<lambda>contact.
      Option.bind (optionalReference (c ''savedSearch'')) (\<lambda>saved.
      Option.bind (optionalReference (c ''marketing'')) (\<lambda>marketing.
      Option.bind (optionalReference (g ''retentionReference'')) (\<lambda>retention.
      Option.bind (optionalReference (g ''vendorReference'')) (\<lambda>vendor.
      Option.bind (optionalReference (g ''processReference'')) (\<lambda>process.
      Option.bind (optionalReference (g ''alertReference'')) (\<lambda>alert.
      Option.bind (read_nullable (read_int 1 14) (d ''sale'')) (\<lambda>sale.
      Option.bind (read_nullable (read_int 1 7) (d ''long_term_rent'')) (\<lambda>rent.
        Some \<lparr>op_serviceCalendar = calendar, op_coverage = coverage, op_serviceOwner = service,
          op_privacyOwner = privacy, op_alertsOwner = alerts, op_servicePurpose = contact,
          op_savedSearchPurpose = saved, op_marketingPurpose = marketing, op_retentionReference = retention,
          op_vendorReference = vendor, op_processReference = process, op_alertReference = alert,
          op_reviewDaysSale = sale, op_reviewDaysRent = rent\<rparr>))))))))))))))))"

definition emptyOperatingPolicy :: operatingPolicy where
  "emptyOperatingPolicy =
     \<lparr>op_serviceCalendar = None, op_coverage = None, op_serviceOwner = None, op_privacyOwner = None,
      op_alertsOwner = None, op_servicePurpose = None, op_savedSearchPurpose = None, op_marketingPurpose = None,
      op_retentionReference = None, op_vendorReference = None, op_processReference = None,
      op_alertReference = None, op_reviewDaysSale = None, op_reviewDaysRent = None\<rparr>"

record approvedPolicy =
  ap_policyId :: string
  ap_policyVersion :: int
  ap_contentHash :: string
  ap_approvedAt :: string
  ap_document :: operatingPolicy

definition readOperatingPolicySnapshot :: "schemaChecks \<Rightarrow> json \<Rightarrow> approvedPolicy option" where
  "readOperatingPolicySnapshot k v =
     Option.bind (read_literal ''approved_operating_policy_v1'' (json_get v ''kind'')) (\<lambda>_.
     Option.bind (read_string (sk_uuid k) (json_get v ''policyId'')) (\<lambda>i.
     Option.bind (read_int 1 max_safe_integer (json_get v ''policyVersion'')) (\<lambda>n.
     Option.bind (read_string is_sha256 (json_get v ''contentHash'')) (\<lambda>h.
     Option.bind (read_string (sk_datetime k) (json_get v ''approvedAt'')) (\<lambda>a.
     map_option (\<lambda>d. \<lparr>ap_policyId = i, ap_policyVersion = n, ap_contentHash = h, ap_approvedAt = a, ap_document = d\<rparr>)
       (operatingPolicySchema k (json_get v ''document'')))))))"

record effects =
  ef_staffedTiming :: bool
  ef_coverage :: bool
  ef_serviceContact :: bool
  ef_savedSearch :: bool
  ef_marketing :: bool

definition policyEffects :: "operatingPolicy \<Rightarrow> effects" where
  "policyEffects d =
     \<lparr>ef_staffedTiming = (case op_serviceCalendar d of None \<Rightarrow> False
        | Some c \<Rightarrow> list_all (\<lambda>w. cal_weekly c w \<noteq> None) policyWeekdays),
      ef_coverage = (op_coverage d \<noteq> None \<and> op_serviceOwner d \<noteq> None),
      ef_serviceContact = (op_servicePurpose d \<noteq> None \<and> op_retentionReference d \<noteq> None \<and>
        op_vendorReference d \<noteq> None \<and> op_privacyOwner d \<noteq> None),
      ef_savedSearch = (op_savedSearchPurpose d \<noteq> None \<and> op_alertReference d \<noteq> None \<and> op_alertsOwner d \<noteq> None),
      ef_marketing = (op_marketingPurpose d \<noteq> None)\<rparr>"

subsection \<open>Staffed time\<close>

definition hour_ms :: int where "hour_ms = 3600000"

text \<open>What the formatter says of an instant in Sofia: the date, the day of the week and the hour.\<close>

type_synonym sofiaClock = "int \<Rightarrow> string \<times> weekday \<times> int"

definition local_date :: "sofiaClock \<Rightarrow> int \<Rightarrow> string" where
  "local_date sofia t = fst (sofia t)"

definition windows_of :: "sofiaClock \<Rightarrow> serviceCalendar \<Rightarrow> int \<Rightarrow> clockWindow list option" where
  "windows_of sofia c hour =
     (case sofia hour of (date, day, _) \<Rightarrow>
        (case map_of (rev (map (\<lambda>e. (cx_date e, cx_intervals e)) (cal_exceptions c))) date of
           Some ws \<Rightarrow> ws
         | None \<Rightarrow> cal_weekly c day))"

text \<open>\<open>clockMs\<close>\<close>

definition clockMs :: "string \<Rightarrow> int" where
  "clockMs time = dec_val (take 2 time) * hour_ms + dec_val (drop 3 time) * 60000"

text \<open>The part of one window that lies in the slice of an hour and between the two instants.\<close>

definition slice_ms :: "int \<Rightarrow> int \<Rightarrow> int \<Rightarrow> int \<Rightarrow> clockWindow \<Rightarrow> int" where
  "slice_ms from until hour localHour w =
     (case w of (opens, closes) \<Rightarrow>
        let a = hour + max 0 (clockMs opens - localHour); b = hour + min hour_ms (clockMs closes - localHour)
        in max 0 (min until b - max from a))"

text \<open>The loop over the hours; \<open>None\<close> is the return for a day that is not stated.\<close>

function staffed_hours ::
    "sofiaClock \<Rightarrow> serviceCalendar \<Rightarrow> int \<Rightarrow> int \<Rightarrow> int \<Rightarrow> int \<Rightarrow> int option" where
  "staffed_hours sofia c from until hour milliseconds =
     (if hour < until then
        (case windows_of sofia c hour of
           None \<Rightarrow> None
         | Some ws \<Rightarrow> staffed_hours sofia c from until (hour + hour_ms)
             (milliseconds + sum_list (map (slice_ms from until hour (snd (snd (sofia hour)) * hour_ms)) ws)))
      else Some milliseconds)"
  by pat_completeness auto

termination
  by (relation "measure (\<lambda>(_, _, _, until, hour, _). nat (until - hour))") (auto simp: hour_ms_def)

declare staffed_hours.simps [simp del]

datatype unknownReason = No_reviewed_policy | Calendar_unknown | Outside_reviewed_calendar | Unknown_day
  | Invalid_interval | Interval_too_large

datatype calendarDuration = Known_duration int | Unknown_duration unknownReason

text \<open>
  An invalid \<open>Date\<close> is \<open>None\<close>. The code reads the calendar by its schema again; what the schema returned it
  returns unchanged, so the model passes the calendar on.
\<close>

definition calendarStaffedDuration ::
    "sofiaClock \<Rightarrow> serviceCalendar option \<Rightarrow> int option \<Rightarrow> int option \<Rightarrow> calendarDuration" where
  "calendarStaffedDuration sofia calendar start stop =
     (case calendar of None \<Rightarrow> Unknown_duration Calendar_unknown | Some c \<Rightarrow>
      (case (start, stop) of
         (Some from, Some until) \<Rightarrow>
           if from > until then Unknown_duration Invalid_interval
           else if until - from > 366 * 24 * hour_ms then Unknown_duration Interval_too_large
           else if local_date sofia from < cal_validFrom c \<or> cal_validUntil c < local_date sofia (max from (until - 1))
           then Unknown_duration Outside_reviewed_calendar
           else (case staffed_hours sofia c from until (from div hour_ms * hour_ms) 0 of
               None \<Rightarrow> Unknown_duration Unknown_day
             | Some ms \<Rightarrow> Known_duration ms)
       | _ \<Rightarrow> Unknown_duration Invalid_interval))"

datatype staffedDurationResult = Staffed_known int string int | Staffed_unknown unknownReason

definition snapshot_duration ::
    "sofiaClock \<Rightarrow> approvedPolicy \<Rightarrow> int option \<Rightarrow> int option \<Rightarrow> staffedDurationResult" where
  "snapshot_duration sofia s start stop =
     (case calendarStaffedDuration sofia (op_serviceCalendar (ap_document s)) start stop of
        Known_duration ms \<Rightarrow> Staffed_known ms (ap_policyId s) (ap_policyVersion s)
      | Unknown_duration r \<Rightarrow> Staffed_unknown r)"

definition staffedDuration ::
    "schemaChecks \<Rightarrow> sofiaClock \<Rightarrow> json \<Rightarrow> int option \<Rightarrow> int option \<Rightarrow> staffedDurationResult" where
  "staffedDuration k sofia v start stop =
     (case readOperatingPolicySnapshot k v of
        None \<Rightarrow> Staffed_unknown No_reviewed_policy
      | Some s \<Rightarrow> snapshot_duration sofia s start stop)"

subsection \<open>What staffed time is\<close>

text \<open>
  An instant is staffed when the Sofia clock, the hour of its slice with the minutes into it, is within a
  window of its day.
\<close>

definition staffed_at :: "sofiaClock \<Rightarrow> serviceCalendar \<Rightarrow> int \<Rightarrow> bool" where
  "staffed_at sofia c t =
     (let hour = t div hour_ms * hour_ms; local = snd (snd (sofia hour)) * hour_ms + t mod hour_ms
      in case windows_of sofia c hour of None \<Rightarrow> False
       | Some ws \<Rightarrow> \<exists>(opens, closes) \<in> set ws. clockMs opens \<le> local \<and> local < clockMs closes)"

lemma end_clockE:
  assumes "is_end_clock s"
  obtains h m where "s = h @ CHR '':'' # m" "length h = 2" "length m = 2" "all_digits h" "all_digits m"
    "dec_val m \<le> 59" "clockMs s = dec_val h * hour_ms + dec_val m * 60000"
proof -
  have "length s = 5" using assms by (auto simp: is_end_clock_def is_clock_def)
  then obtain a b x c d where s: "s = [a, b, x, c, d]"
    by (auto simp: length_Suc_conv eval_nat_numeral)
  have x: "x = CHR '':''" "is_digit a" "is_digit b" "is_digit c" "is_digit d" "digit_val c \<le> 5"
    using assms by (auto simp: s is_end_clock_def is_clock_def eval_nat_numeral is_digit_def digit_val_def)
  have "dec_val [c, d] \<le> 59" using x(5,6) by (simp add: dec_val_def is_digit_def digit_val_def)
  then show thesis
    using that [of "[a, b]" "[c, d]"] x by (simp add: s clockMs_def eval_nat_numeral)
qed

lemma digit_order: "is_digit a \<Longrightarrow> is_digit b \<Longrightarrow> a < b \<longleftrightarrow> digit_val a < digit_val b"
  by (auto simp: digit_val_def less_char_def)

lemma two_digits:
  assumes "length h = 2" "all_digits h"
  obtains a b where "h = [a, b]" "is_digit a" "is_digit b" "dec_val h = 10 * digit_val a + digit_val b"
    "0 \<le> digit_val b" "digit_val b \<le> 9"
proof -
  obtain a b where h: "h = [a, b]" using assms(1) by (auto simp: length_Suc_conv eval_nat_numeral)
  then show thesis using assms(2) that by (simp add: dec_val_def is_digit_def digit_val_def)
qed

lemma tens_order:
  fixes a b c d :: int
  assumes "0 \<le> b" "b \<le> 9" "0 \<le> d" "d \<le> 9"
  shows "10 * a + b < 10 * c + d \<longleftrightarrow> a < c \<or> a = c \<and> b < d" "10 * a + b = 10 * c + d \<longleftrightarrow> a = c \<and> b = d"
proof -
  show "10 * a + b < 10 * c + d \<longleftrightarrow> a < c \<or> a = c \<and> b < d" using assms by linarith
  have "a = c" if "10 * a + b = 10 * c + d" using assms that by linarith
  then show "10 * a + b = 10 * c + d \<longleftrightarrow> a = c \<and> b = d" by auto
qed

lemma digits_order:
  assumes "length h = 2" "all_digits h" "length k = 2" "all_digits k"
  shows "h < k \<longleftrightarrow> dec_val h < dec_val k" "h = k \<longleftrightarrow> dec_val h = dec_val k"
proof -
  obtain a b where h: "h = [a, b]" "is_digit a" "is_digit b" "dec_val h = 10 * digit_val a + digit_val b"
    "0 \<le> digit_val b" "digit_val b \<le> 9" by (rule two_digits [OF assms(1,2)])
  obtain c d where k: "k = [c, d]" "is_digit c" "is_digit d" "dec_val k = 10 * digit_val c + digit_val d"
    "0 \<le> digit_val d" "digit_val d \<le> 9" by (rule two_digits [OF assms(3,4)])
  have inj: "x = y \<longleftrightarrow> digit_val x = digit_val y" if "is_digit x" "is_digit y" for x y
    using digit_order [OF that] digit_order [OF that(2,1)] by (metis less_irrefl neqE)
  note arith = tens_order [OF h(5,6) k(5,6), of "digit_val a" "digit_val c"]
  show "h = k \<longleftrightarrow> dec_val h = dec_val k"
    using inj [OF h(2) k(2)] inj [OF h(3) k(3)] arith(2) unfolding h(4) k(4) by (simp add: h(1) k(1))
  have "h < k \<longleftrightarrow> a < c \<or> a = c \<and> b < d" by (auto simp: h(1) k(1))
  then show "h < k \<longleftrightarrow> dec_val h < dec_val k"
    using digit_order [OF h(2) k(2)] digit_order [OF h(3) k(3)] inj [OF h(2) k(2)] arith(1)
    unfolding h(4) k(4) by simp
qed

lemma append_order:
  fixes h k :: string
  shows "length h = length k \<Longrightarrow> h @ x \<le> k @ y \<longleftrightarrow> h < k \<or> h = k \<and> x \<le> y"
proof (induction h arbitrary: k)
  case (Cons a h)
  then show ?case by (cases k) auto
qed simp

lemma clock_order:
  assumes "is_end_clock s" "is_end_clock t" "s \<le> t"
  shows "clockMs s \<le> clockMs t"
proof -
  obtain h m where s: "s = h @ CHR '':'' # m" "length h = 2" "length m = 2" "all_digits h" "all_digits m"
    "dec_val m \<le> 59" "clockMs s = dec_val h * hour_ms + dec_val m * 60000"
    using assms(1) by (rule end_clockE)
  obtain h' m' where t: "t = h' @ CHR '':'' # m'" "length h' = 2" "length m' = 2" "all_digits h'" "all_digits m'"
    "dec_val m' \<le> 59" "clockMs t = dec_val h' * hour_ms + dec_val m' * 60000"
    using assms(2) by (rule end_clockE)
  have "h < h' \<or> h = h' \<and> m \<le> m'"
    using assms(3) append_order [of h h' "CHR '':'' # m" "CHR '':'' # m'"] s t by auto
  then have "dec_val h < dec_val h' \<or> dec_val h = dec_val h' \<and> dec_val m \<le> dec_val m'"
    using digits_order [OF s(2,4) t(2,4)] digits_order [OF s(3,5) t(3,5)] by (auto simp: order.order_iff_strict)
  then show ?thesis
    using s(6) t(6) dec_val_nonneg [OF s(5)] dec_val_nonneg [OF t(5)] unfolding s(7) t(7) hour_ms_def by auto
qed

text \<open>The windows of a schedule, as the schema leaves them.\<close>

definition windows_ok :: "clockWindow list \<Rightarrow> bool" where
  "windows_ok ws = (in_sequence ws \<and> list_all (\<lambda>(a, b). is_end_clock a \<and> is_end_clock b \<and> a < b) ws)"

lemma windows_ok_Cons:
  assumes "windows_ok ((a, b) # ws)"
  shows "windows_ok ws" "clockMs a \<le> clockMs b" "(c, d) \<in> set ws \<Longrightarrow> clockMs b \<le> clockMs c"
proof -
  show "windows_ok ws" using assms by (cases ws) (auto simp: windows_ok_def)
  show "clockMs a \<le> clockMs b" using assms by (auto simp: windows_ok_def intro!: clock_order)
  assume "(c, d) \<in> set ws"
  with assms show "clockMs b \<le> clockMs c"
  proof (induction ws arbitrary: a b)
    case (Cons w ws)
    obtain x y where w: "w = (x, y)" by (cases w)
    have bx: "clockMs b \<le> clockMs x" using Cons.prems(1) unfolding w
      by (auto simp: windows_ok_def intro!: clock_order)
    have ok: "windows_ok ((x, y) # ws)" using Cons.prems(1) unfolding w by (auto simp: windows_ok_def)
    have xy: "clockMs x \<le> clockMs y" using ok by (auto simp: windows_ok_def intro!: clock_order)
    show ?case
      using Cons.prems(2) Cons.IH [OF ok] bx xy by (auto simp: w)
  qed simp
qed

lemma slice_card:
  fixes l hour until "from" :: int
  defines "W \<equiv> \<lambda>(a, b). {t. from \<le> t \<and> t < until \<and> hour \<le> t \<and> t < hour + hour_ms \<and>
    clockMs a \<le> l + (t - hour) \<and> l + (t - hour) < clockMs b}"
  shows "finite (W w)" "slice_ms from until hour l w = int (card (W w))"
proof -
  obtain a b where w: "w = (a, b)" by (cases w)
  define lo where "lo = max from (hour + max 0 (clockMs a - l))"
  define hi where "hi = min until (hour + min hour_ms (clockMs b - l))"
  have W: "W w = {lo ..< hi}" unfolding W_def w lo_def hi_def by auto
  show "finite (W w)" unfolding W by simp
  have "slice_ms from until hour l w = max 0 (hi - lo)"
    by (simp add: slice_ms_def w lo_def hi_def Let_def)
  then show "slice_ms from until hour l w = int (card (W w))" unfolding W by simp
qed

lemma slices_card:
  fixes l hour until "from" :: int
  assumes "windows_ok ws"
  shows "sum_list (map (slice_ms from until hour l) ws) =
    int (card {t. from \<le> t \<and> t < until \<and> hour \<le> t \<and> t < hour + hour_ms \<and>
      (\<exists>(a, b) \<in> set ws. clockMs a \<le> l + (t - hour) \<and> l + (t - hour) < clockMs b)})" (is "_ = int (card (?S ws))")
  using assms
proof (induction ws)
  case (Cons w ws)
  obtain a b where w: "w = (a, b)" by (cases w)
  let ?W = "{t. from \<le> t \<and> t < until \<and> hour \<le> t \<and> t < hour + hour_ms \<and>
    clockMs a \<le> l + (t - hour) \<and> l + (t - hour) < clockMs b}"
  note ok = windows_ok_Cons [OF Cons.prems [unfolded w]]
  have split: "?S (w # ws) = ?W \<union> ?S ws" by (auto simp: w)
  have "finite ?W" "slice_ms from until hour l w = int (card ?W)"
    using slice_card [of "from" until hour l w] by (simp_all add: w)
  moreover have "finite (?S ws)" by (rule finite_subset [of _ "{from..<until}"]) auto
  moreover have "?W \<inter> ?S ws = {}" using ok(3) by fastforce
  ultimately show ?case
    using Cons.IH [OF ok(1)] unfolding split by (simp add: card_Un_disjoint)
qed simp

text \<open>What the schema leaves of a calendar: every schedule is a sequence of windows.\<close>

definition calendar_ok :: "serviceCalendar \<Rightarrow> bool" where
  "calendar_ok c \<longleftrightarrow> (\<forall>d ws. cal_weekly c d = Some ws \<longrightarrow> windows_ok ws) \<and>
     (\<forall>e \<in> set (cal_exceptions c). \<forall>ws. cx_intervals e = Some ws \<longrightarrow> windows_ok ws)"

lemma read_all_Some: "read_all f vs = Some xs \<Longrightarrow> x \<in> set xs \<Longrightarrow> \<exists>v \<in> set vs. f v = Some x"
  by (induction vs arbitrary: xs) (auto simp: bind_eq_Some_conv)

lemma read_array_Some: "read_array n f v = Some xs \<Longrightarrow> x \<in> set xs \<Longrightarrow> \<exists>v. f v = Some x"
  using read_all_Some by (fastforce simp: read_array_def split: json.splits if_splits)

lemma read_intervals_ok: "read_intervals v = Some ws \<Longrightarrow> windows_ok ws"
proof -
  assume v: "read_intervals v = Some ws"
  then have "in_sequence ws" "read_array 8 read_interval v = Some ws"
    by (auto simp: read_intervals_def bind_eq_Some_conv split: if_splits)
  moreover have "is_clock a \<and> is_end_clock b \<and> a < b" if "read_interval u = Some (a, b)" for u a b
    using that by (auto simp: read_interval_def read_string_def bind_eq_Some_conv split: json.splits list.splits if_splits)
  ultimately show ?thesis
    using read_array_Some by (fastforce simp: windows_ok_def list_all_iff is_end_clock_def)
qed

lemma read_nullable_Some: "read_nullable f v = Some (Some x) \<Longrightarrow> f v = Some x"
  by (auto simp: read_nullable_def split: if_splits)

lemma read_weekly_Some:
  assumes "read_weekly v = Some w"
  shows "read_nullable read_intervals (json_get v (weekday_name d)) = Some (w d)"
proof -
  have "d \<in> set policyWeekdays" by (cases d) (simp_all add: policyWeekdays_def)
  then have "read_nullable read_intervals (json_get v (weekday_name d)) \<noteq> None"
    "w d = the (read_nullable read_intervals (json_get v (weekday_name d)))"
    using assms by (auto simp: read_weekly_def split: if_splits)
  then show ?thesis by simp
qed

lemma read_exception_Some:
  assumes "read_exception v = Some e"
  shows "read_nullable read_intervals (json_get v ''intervals'') = Some (cx_intervals e)"
proof (cases "read_string is_day (json_get v ''date'')")
  case (Some d)
  then show ?thesis
    using assms unfolding read_exception_def
    by (cases "read_nullable read_intervals (json_get v ''intervals'')") auto
qed (use assms in \<open>simp add: read_exception_def\<close>)

lemma calendar_schema_ok: "serviceCalendarSchema v = Some c \<Longrightarrow> calendar_ok c"
proof -
  assume v: "serviceCalendarSchema v = Some c"
  then have w: "read_weekly (json_get v ''weekly'') = Some (cal_weekly c)"
    and es: "read_array 400 read_exception (json_get v ''exceptions'') = Some (cal_exceptions c)"
    by (auto simp: serviceCalendarSchema_def bind_eq_Some_conv Let_def split: if_splits)
  have "windows_ok ws" if "cal_weekly c d = Some ws" for d ws
    by (rule read_intervals_ok [OF read_nullable_Some [OF read_weekly_Some [OF w, of d, unfolded that]]])
  moreover have "windows_ok ws" if e: "e \<in> set (cal_exceptions c)" "cx_intervals e = Some ws" for e ws
  proof -
    obtain u where "read_exception u = Some e" using read_array_Some [OF es e(1)] by blast
    then have "read_nullable read_intervals (json_get u ''intervals'') = Some (Some ws)"
      by (simp add: read_exception_Some e(2))
    then show ?thesis by (rule read_intervals_ok [OF read_nullable_Some])
  qed
  ultimately show ?thesis unfolding calendar_ok_def by blast
qed

lemma windows_of_ok: "calendar_ok c \<Longrightarrow> windows_of sofia c h = Some ws \<Longrightarrow> windows_ok ws"
  by (auto simp: windows_of_def calendar_ok_def split: prod.splits option.splits dest!: map_of_SomeD)

text \<open>The loop counts the staffed instants from its hour on, and ends early only at an hour that is not stated.\<close>

lemma slice_staffed:
  assumes "calendar_ok c" "hour_ms dvd hour" "windows_of sofia c hour = Some ws"
  shows "sum_list (map (slice_ms from until hour (snd (snd (sofia hour)) * hour_ms)) ws) =
    int (card {t. from \<le> t \<and> t < until \<and> hour \<le> t \<and> t < hour + hour_ms \<and> staffed_at sofia c t})"
proof -
  have hour: "t div hour_ms * hour_ms = hour \<and> t mod hour_ms = t - hour" if "hour \<le> t" "t < hour + hour_ms" for t
  proof -
    obtain k where k: "hour = hour_ms * k" using assms(2) by (rule dvdE)
    have "t div hour_ms = k"
      by (rule int_div_pos_eq [of _ _ _ "t - hour"]) (use that in \<open>simp_all add: k\<close>)
    then show ?thesis by (simp add: k minus_mult_div_eq_mod [symmetric])
  qed
  have "staffed_at sofia c t \<longleftrightarrow> (\<exists>(a, b) \<in> set ws. clockMs a \<le> snd (snd (sofia hour)) * hour_ms + (t - hour) \<and>
      snd (snd (sofia hour)) * hour_ms + (t - hour) < clockMs b)" if "hour \<le> t" "t < hour + hour_ms" for t
    using hour [OF that] assms(3) by (simp add: staffed_at_def Let_def)
  then show ?thesis
    unfolding slices_card [OF windows_of_ok [OF assms(1,3)]] by (intro arg_cong [where f = int] arg_cong [where f = card]) blast
qed

lemma staffed_hours_counts:
  assumes "calendar_ok c" "hour_ms dvd hour" "staffed_hours sofia c from until hour acc = Some ms"
  shows "ms = acc + int (card {t. from \<le> t \<and> t < until \<and> hour \<le> t \<and> staffed_at sofia c t})"
  using assms
proof (induction sofia c "from" until hour acc rule: staffed_hours.induct)
  case (1 sofia c "from" until hour acc)
  show ?case
  proof (cases "hour < until")
    case True
    then obtain ws where ws: "windows_of sofia c hour = Some ws"
      using 1(4) by (subst (asm) staffed_hours.simps) (auto split: option.splits)
    let ?acc = "acc + sum_list (map (slice_ms from until hour (snd (snd (sofia hour)) * hour_ms)) ws)"
    have "staffed_hours sofia c from until (hour + hour_ms) ?acc = Some ms"
      using 1(4) ws True by (subst (asm) staffed_hours.simps) simp
    moreover have "hour_ms dvd hour + hour_ms" using 1(3) by simp
    ultimately have "ms = ?acc + int (card {t. from \<le> t \<and> t < until \<and> hour + hour_ms \<le> t \<and> staffed_at sofia c t})"
      using 1(1) [OF True ws 1(2)] by blast
    also have "?acc = acc + int (card {t. from \<le> t \<and> t < until \<and> hour \<le> t \<and> t < hour + hour_ms \<and> staffed_at sofia c t})"
      by (simp add: slice_staffed [OF 1(2,3) ws])
    finally have ms: "ms = acc + int (card {t. from \<le> t \<and> t < until \<and> hour \<le> t \<and> t < hour + hour_ms \<and> staffed_at sofia c t}
        + card {t. from \<le> t \<and> t < until \<and> hour + hour_ms \<le> t \<and> staffed_at sofia c t})" by simp
    have "{t. from \<le> t \<and> t < until \<and> hour \<le> t \<and> staffed_at sofia c t} =
        {t. from \<le> t \<and> t < until \<and> hour \<le> t \<and> t < hour + hour_ms \<and> staffed_at sofia c t} \<union>
        {t. from \<le> t \<and> t < until \<and> hour + hour_ms \<le> t \<and> staffed_at sofia c t}"
      by (auto simp: hour_ms_def)
    moreover have "finite {t. from \<le> t \<and> t < until \<and> P t}" for P
      by (rule finite_subset [of _ "{from..<until}"]) auto
    ultimately show ?thesis unfolding ms by (subst card_Un_disjoint [symmetric]) auto
  next
    case False
    then have e: "{t. from \<le> t \<and> t < until \<and> hour \<le> t \<and> staffed_at sofia c t} = {}" by auto
    show ?thesis using 1(4) False unfolding e by (subst (asm) staffed_hours.simps) simp
  qed
qed

lemma staffed_hours_None:
  "staffed_hours sofia c from until hour acc = None \<longleftrightarrow>
     (\<exists>k. 0 \<le> k \<and> hour + k * hour_ms < until \<and> windows_of sofia c (hour + k * hour_ms) = None)"
proof (induction sofia c "from" until hour acc rule: staffed_hours.induct)
  case (1 sofia c "from" until hour acc)
  show ?case
  proof (cases "hour < until")
    case True
    have shift: "(\<exists>k. 0 \<le> k \<and> P (hour + k * hour_ms)) \<longleftrightarrow> P hour \<or> (\<exists>k. 0 \<le> k \<and> P (hour + hour_ms + k * hour_ms))" for P
    proof
      assume "\<exists>k. 0 \<le> k \<and> P (hour + k * hour_ms)"
      then obtain k where k: "0 \<le> k" "P (hour + k * hour_ms)" by blast
      show "P hour \<or> (\<exists>k. 0 \<le> k \<and> P (hour + hour_ms + k * hour_ms))"
      proof (cases "k = 0")
        case False
        then have "0 \<le> k - 1 \<and> P (hour + hour_ms + (k - 1) * hour_ms)" using k by (simp add: algebra_simps)
        then show ?thesis by blast
      qed (use k in simp)
    next
      assume "P hour \<or> (\<exists>k. 0 \<le> k \<and> P (hour + hour_ms + k * hour_ms))"
      then show "\<exists>k. 0 \<le> k \<and> P (hour + k * hour_ms)"
      proof
        assume "P hour"
        then show ?thesis by (intro exI [of _ 0]) simp
      next
        assume "\<exists>k. 0 \<le> k \<and> P (hour + hour_ms + k * hour_ms)"
        then obtain k where "0 \<le> k" "P (hour + hour_ms + k * hour_ms)" by blast
        then show ?thesis by (intro exI [of _ "k + 1"]) (simp add: algebra_simps)
      qed
    qed
    show ?thesis
    proof (cases "windows_of sofia c hour")
      case None
      then show ?thesis using True by (subst staffed_hours.simps) (auto intro: exI [of _ 0])
    next
      case (Some ws)
      then show ?thesis
        using True 1 [OF True Some] shift [of "\<lambda>h. h < until \<and> windows_of sofia c h = None"]
        by (subst staffed_hours.simps) simp
    qed
  next
    case False
    then have "\<not> hour + k * hour_ms < until" if "0 \<le> k" for k using that by (simp add: hour_ms_def)
    then show ?thesis using False by (subst staffed_hours.simps) auto
  qed
qed

end
