(* ===== verification/JsonText.thy ===== *)
theory JsonText
  imports Json
begin

text \<open>
  \<open>JSON.stringify\<close> of a value, its properties in insertion order. Values without \<open>undefined\<close>, as a
  database returns them, are equal when their texts are, so a text can stand for its value as a key.
\<close>

fun stringify :: "json \<Rightarrow> string" where
  "stringify JUndefined = ''null''"
| "stringify JNull = ''null''"
| "stringify (JBool b) = (if b then ''true'' else ''false'')"
| "stringify (JNumber s) = s"
| "stringify (JString s) = json_string s"
| "stringify (JArray vs) = ''['' @ join '','' (map stringify vs) @ '']''"
| "stringify (JObject es) =
     ''{'' @ join '','' (map (\<lambda>(k, v). json_string k @ '':'' @ stringify v) (filter (\<lambda>(k, v). v \<noteq> JUndefined) es)) @ ''}''"

fun plain_json :: "json \<Rightarrow> bool" where
  "plain_json JUndefined = False"
| "plain_json (JNumber s) = (s \<noteq> [] \<and> is_num_start (hd s) \<and> list_all is_num_char s)"
| "plain_json (JArray vs) = list_all plain_json vs"
| "plain_json (JObject es) = list_all (\<lambda>(k, v). plain_json v) es"
| "plain_json _ = True"

lemma stringify_start:
  assumes "plain_json v"
  obtains c r where "stringify v = c # r" "json_start v c"
proof (cases v)
  case (JNumber s)
  then show thesis using assms that [of "hd s" "tl s"] by (auto simp: json_start_def)
next
  case (JBool b)
  then show thesis using that by (cases b) (auto simp: json_start_def)
qed (use that assms in \<open>auto simp: json_start_def json_string_def\<close>)

lemma stringify_hd: "plain_json v \<Longrightarrow> stringify v \<noteq> [] \<and> hd (stringify v) \<notin> set '']},:''"
  using start_char by (elim stringify_start) auto

lemma stringify_same_start:
  assumes "stringify v @ x = stringify w @ y" "plain_json v" "plain_json w"
  obtains c where "json_start v c" "json_start w c"
proof -
  obtain a r where a: "stringify v = a # r" "json_start v a" by (rule stringify_start [OF assms(2)])
  obtain b u where b: "stringify w = b # u" "json_start w b" by (rule stringify_start [OF assms(3)])
  from assms(1) a b show thesis using that [of a] by simp
qed

lemma stringify_leaf_cancel:
  assumes "is_leaf v" "plain_json v" "plain_json w" "stringify v @ x = stringify w @ y" "delim x" "delim y"
  shows "v = w \<and> x = y"
proof -
  obtain c where c: "json_start v c" "json_start w c" by (rule stringify_same_start [OF assms(4,2,3)])
  note starts = json_start_def is_num_start_def
  show ?thesis
  proof (cases v)
    case (JBool b)
    then show ?thesis using c assms by (cases w; cases b) (auto simp: starts split: if_splits)
  next
    case (JNumber s)
    then obtain t where "w = JNumber t" using c assms(3) by (cases w) (auto simp: starts split: if_splits)
    then show ?thesis using JNumber assms numeral_cancel [of s t x y] by simp
  next
    case (JString s)
    then obtain t where "w = JString t" using c assms(3) by (cases w) (auto simp: starts split: if_splits)
    then show ?thesis using JString assms json_string_cancel [of s x t y] by simp
  qed (use c assms in \<open>cases w; auto simp: starts split: if_splits\<close>)+
qed

lemma stored_entries:
  assumes "plain_json (JObject es)"
  shows "filter (\<lambda>(k, v). v \<noteq> JUndefined) es = es" "(k, v) \<in> set es \<Longrightarrow> plain_json v"
  using assms by (auto simp: list_all_iff filter_id_conv)

lemma stringify_cancel:
  "\<lbrakk>plain_json v; plain_json w; stringify v @ x = stringify w @ y; delim x; delim y\<rbrakk> \<Longrightarrow> v = w \<and> x = y"
proof (induction v arbitrary: w x y rule: stringify.induct)
  case (6 vs)
  obtain c where "json_start (JArray vs) c" "json_start w c" by (rule stringify_same_start [OF 6(4) 6(2,3)])
  then obtain ws where w: "w = JArray ws"
    by (cases w) (auto simp: json_start_def is_num_start_def split: if_splits)
  have ok: "a \<in> set vs \<union> set ws \<Longrightarrow> plain_json a" for a using 6(2,3) w by (auto simp: list_all_iff)
  have elem: "id a = id b \<and> x = y"
    if "a \<in> set vs" "b \<in> set ws" "stringify a @ x = stringify b @ y" "delim x" "delim y" for a b x y
    using 6(1) [OF that(1) _ _ that(3-5)] ok that(1,2) by simp
  have "map id vs = map id ws \<and> x = y"
  proof (rule seq_cancel [where f = stringify and c = "CHR '']''", OF elem])
    show "stringify a \<noteq> [] \<and> hd (stringify a) \<noteq> CHR '']''" if "a \<in> set vs \<union> set ws" for a
      using stringify_hd [OF ok [OF that]] by simp
    show "join '','' (map stringify vs) @ CHR '']'' # x = join '','' (map stringify ws) @ CHR '']'' # y"
      using 6(4) w by simp
  qed simp_all
  then show ?case using w by simp
next
  case (7 es)
  obtain c where "json_start (JObject es) c" "json_start w c" by (rule stringify_same_start [OF 7(4) 7(2,3)])
  then obtain fs where w: "w = JObject fs"
    using 7(3) by (cases w) (auto simp: json_start_def is_num_start_def split: if_splits)
  let ?f = "\<lambda>(k, v). json_string k @ '':'' @ stringify v"
  note es = stored_entries [OF 7(2)] and fs = stored_entries [OF 7(3) [unfolded w]]
  have elem: "id p = id q \<and> x = y"
    if pq: "p \<in> set es" "q \<in> set fs" and eq: "?f p @ x = ?f q @ y" and d: "delim x" "delim y" for p q x y
  proof -
    obtain k a where p: "p = (k, a)" by (cases p)
    obtain l b where q: "q = (l, b)" by (cases q)
    have "k = l \<and> '':'' @ stringify a @ x = '':'' @ stringify b @ y"
      by (rule json_string_cancel) (use eq p q in simp)
    moreover have "a = b \<and> x = y" if "stringify a @ x = stringify b @ y"
      by (rule 7(1) [OF _ p [symmetric] _ _ that d]) (use pq p q es fs in auto)
    ultimately show ?thesis using p q by simp
  qed
  have "map id es = map id fs \<and> x = y"
  proof (rule seq_cancel [where f = ?f and c = "CHR ''}''", OF elem])
    show "?f p \<noteq> [] \<and> hd (?f p) \<noteq> CHR ''}''" for p by (cases p) (simp add: json_string_def)
    show "join '','' (map ?f es) @ CHR ''}'' # x = join '','' (map ?f fs) @ CHR ''}'' # y"
      using 7(4) w es(1) fs(1) by simp
  qed simp_all
  then show ?case using w by simp
qed (rule stringify_leaf_cancel; simp)+

theorem stringify_inject: "plain_json v \<Longrightarrow> plain_json w \<Longrightarrow> stringify v = stringify w \<longleftrightarrow> v = w"
  using stringify_cancel [of v w "[]" "[]"] by (auto simp: delim_def)

text \<open>\<open>JSON.stringify(value) ?? "undefined"\<close>\<close>

definition json_key :: "json \<Rightarrow> string" where
  "json_key v = (if v = JUndefined then ''undefined'' else stringify v)"

end
