(* ===== verification/StaffedReport.thy ===== *)
theory StaffedReport
  imports OperatingPolicy JsonText Complex_Main
begin

text \<open>
  \<open>src/src/server/reports/staffed-response.ts\<close>: the reader of staffed durations that a report shares over its
  observations. It splits an interval into UTC days, keeps the days it has computed per policy, and stops at
  a budget of computed slices. Against the reader without cache and days of \<open>operating-policy.ts\<close> it gives the
  same durations.
\<close>

definition maxStaffedResponses :: int where "maxStaffedResponses = 1000"

definition dayMs :: int where "dayMs = 86400000"

datatype reportDuration = Report_known int string int | Report_unknown unknownReason | Calculation_limit

record policyCache =
  pc_snapshot :: "approvedPolicy option"
  pc_days :: "(int \<times> staffedDurationResult) list"

record reportReader =
  rd_policies :: "(string \<times> policyCache) list"
  rd_slices :: int

definition createReportStaffedDurationReader :: reportReader where
  "createReportStaffedDurationReader = \<lparr>rd_policies = [], rd_slices = 0\<rparr>"

text \<open>The canonical reader's answer in the type of the report's.\<close>

fun as_report :: "staffedDurationResult \<Rightarrow> reportDuration" where
  "as_report (Staffed_known ms i v) = Report_known ms i v"
| "as_report (Staffed_unknown r) = Report_unknown r"

lemma next_slice [simp]:
  fixes t d :: int
  assumes "0 < d"
  shows "t < (t div d + 1) * d"
proof -
  have "t mod d < d" using assms by simp
  moreover have "t = d * (t div d) + t mod d" by simp
  moreover have "(t div d + 1) * d = d * (t div d) + d" by (simp add: algebra_simps)
  ultimately show ?thesis by linarith
qed

lemma dayMs_pos [simp]: "0 < dayMs"
  by (simp add: dayMs_def)

text \<open>The loop over the days: its answer, the days kept and the slices computed.\<close>

function report_days ::
    "sofiaClock \<Rightarrow> approvedPolicy \<Rightarrow> int \<Rightarrow> int \<Rightarrow> int \<Rightarrow> int \<Rightarrow> (int \<times> staffedDurationResult) list \<Rightarrow> int
      \<Rightarrow> reportDuration \<times> (int \<times> staffedDurationResult) list \<times> int" where
  "report_days sofia s maxSlices until cursor ms days slices =
     (if cursor < until then
        let next = min until ((cursor div dayMs + 1) * dayMs);
            full = (cursor mod dayMs = 0 \<and> next - cursor = dayMs);
            cached = (if full then map_of days cursor else None)
        in if cached = None \<and> maxSlices \<le> slices then (Calculation_limit, days, slices)
           else let r = (case cached of Some r \<Rightarrow> r | None \<Rightarrow> snapshot_duration sofia s (Some cursor) (Some next));
                    days2 = (if cached = None \<and> full then (cursor, r) # days else days);
                    slices2 = (if cached = None then slices + 1 else slices)
                in (case r of
                      Staffed_unknown u \<Rightarrow> (Report_unknown u, days2, slices2)
                    | Staffed_known m _ _ \<Rightarrow> report_days sofia s maxSlices until next (ms + m) days2 slices2)
      else (Report_known ms (ap_policyId s) (ap_policyVersion s), days, slices))"
  by pat_completeness auto

termination
  by (relation "measure (\<lambda>(_, _, _, until, cursor, _). nat (until - cursor))") (auto simp: next_slice)

declare report_days.simps [simp del]

definition boundary :: "sofiaClock \<Rightarrow> approvedPolicy \<Rightarrow> int \<Rightarrow> unknownReason option" where
  "boundary sofia s i = (case snapshot_duration sofia s (Some i) (Some i) of
       Staffed_unknown r \<Rightarrow> Some r | Staffed_known _ _ _ \<Rightarrow> None)"

definition read_policy ::
    "sofiaClock \<Rightarrow> int \<Rightarrow> policyCache \<Rightarrow> int option \<Rightarrow> int option \<Rightarrow> int
      \<Rightarrow> reportDuration \<times> (int \<times> staffedDurationResult) list \<times> int" where
  "read_policy sofia maxSlices p start stop slices =
     (case pc_snapshot p of
        None \<Rightarrow> (Report_unknown No_reviewed_policy, pc_days p, slices)
      | Some s \<Rightarrow>
          (case (start, stop) of
             (Some from, Some until) \<Rightarrow>
               if until \<le> from \<or> 366 * dayMs < until - from
               then (as_report (snapshot_duration sofia s start stop), pc_days p, slices)
               else (case boundary sofia s from of
                   Some r \<Rightarrow> (Report_unknown r, pc_days p, slices)
                 | None \<Rightarrow> (case boundary sofia s (until - 1) of
                       Some r \<Rightarrow> (Report_unknown r, pc_days p, slices)
                     | None \<Rightarrow> report_days sofia s maxSlices until from 0 (pc_days p) slices))
           | _ \<Rightarrow> (as_report (snapshot_duration sofia s start stop), pc_days p, slices)))"

definition read_report ::
    "schemaChecks \<Rightarrow> sofiaClock \<Rightarrow> int \<Rightarrow> json \<Rightarrow> int option \<Rightarrow> int option \<Rightarrow> reportReader
      \<Rightarrow> reportDuration \<times> reportReader" where
  "read_report k sofia maxSlices v start stop rd =
     (let key = json_key v;
          p = (case map_of (rd_policies rd) key of Some p \<Rightarrow> p
             | None \<Rightarrow> \<lparr>pc_snapshot = readOperatingPolicySnapshot k v, pc_days = []\<rparr>);
          (r, days, slices) = read_policy sofia maxSlices p start stop (rd_slices rd)
      in (r, \<lparr>rd_policies = (key, p\<lparr>pc_days := days\<rparr>) # filter (\<lambda>e. fst e \<noteq> key) (rd_policies rd), rd_slices = slices\<rparr>))"

subsection \<open>summarizeStaffedResponses\<close>

record observation =
  ob_snapshot :: json
  ob_createdAt :: "int option"
  ob_firstResponseAt :: "int option"

datatype summaryState = Sum_observed | Sum_unknown | Sum_unobserved | Sum_denied | Sum_held

datatype heldReason = Cohort_limit | Held_calculation_limit

record staffedSummary =
  sm_state :: summaryState
  sm_eligible :: "int option"
  sm_known :: "int option"
  sm_unknown :: "int option"
  sm_medianMinutes :: "rat option"
  sm_smallSample :: bool
  sm_reason :: "heldReason option"
  sm_unknownReasons :: "unknownReason \<Rightarrow> int"

text \<open>The loop over the observations: the known durations and the reasons of the others, or the limit.\<close>

fun read_observations ::
    "schemaChecks \<Rightarrow> sofiaClock \<Rightarrow> int \<Rightarrow> observation list \<Rightarrow> int list \<Rightarrow> (unknownReason \<Rightarrow> int) \<Rightarrow> reportReader
      \<Rightarrow> (int list \<times> (unknownReason \<Rightarrow> int)) option" where
  "read_observations k sofia maxSlices [] known reasons rd = Some (known, reasons)"
| "read_observations k sofia maxSlices (o1 # os) known reasons rd =
     (case read_report k sofia maxSlices (ob_snapshot o1) (ob_createdAt o1) (ob_firstResponseAt o1) rd of
        (Report_known ms _ _, rd2) \<Rightarrow> read_observations k sofia maxSlices os (known @ [ms]) reasons rd2
      | (Calculation_limit, _) \<Rightarrow> None
      | (Report_unknown r, rd2) \<Rightarrow>
          read_observations k sofia maxSlices os known (reasons(r := reasons r + 1)) rd2)"

definition minutes_of :: "int \<Rightarrow> rat" where
  "minutes_of ms = of_int ms / 60000"

definition median_minutes :: "int list \<Rightarrow> rat option" where
  "median_minutes durations =
     (let known = sort durations; n = length known
      in if n = 0 then None
         else Some ((minutes_of (known ! (n div 2)) + minutes_of (known ! ((n - 1) div 2))) / 2))"

definition summarizeStaffedResponses ::
    "schemaChecks \<Rightarrow> sofiaClock \<Rightarrow> int \<Rightarrow> observation list \<Rightarrow> int option \<Rightarrow> staffedSummary" where
  "summarizeStaffedResponses k sofia maxSlices os eligible =
     (let empty = \<lparr>sm_state = Sum_denied, sm_eligible = eligible, sm_known = None, sm_unknown = None,
                   sm_medianMinutes = None, sm_smallSample = False, sm_reason = None,
                   sm_unknownReasons = (\<lambda>_. 0)\<rparr>
      in case eligible of
           None \<Rightarrow> empty
         | Some n \<Rightarrow>
             if maxStaffedResponses < n then empty\<lparr>sm_state := Sum_held, sm_reason := Some Cohort_limit\<rparr>
             else if int (length os) \<noteq> n then empty\<lparr>sm_state := Sum_held, sm_reason := Some Held_calculation_limit\<rparr>
             else (case read_observations k sofia maxSlices os [] (\<lambda>_. 0) createReportStaffedDurationReader of
                 None \<Rightarrow> empty\<lparr>sm_state := Sum_held, sm_reason := Some Held_calculation_limit\<rparr>
               | Some (known, reasons) \<Rightarrow>
                   empty\<lparr>sm_state := (if known \<noteq> [] then Sum_observed else if n \<noteq> 0 then Sum_unknown else Sum_unobserved),
                     sm_known := Some (int (length known)), sm_unknown := Some (n - int (length known)),
                     sm_medianMinutes := median_minutes known,
                     sm_smallSample := (0 < length known \<and> length known < 5),
                     sm_unknownReasons := reasons\<rparr>))"

subsection \<open>The reader against the canonical one\<close>

text \<open>
  The canonical duration in closed form: what its hours are known to be, and the number of staffed
  milliseconds.
\<close>

definition hours_known :: "sofiaClock \<Rightarrow> serviceCalendar \<Rightarrow> int \<Rightarrow> int \<Rightarrow> bool" where
  "hours_known sofia c from until \<longleftrightarrow>
     (\<forall>k. from div hour_ms \<le> k \<and> k * hour_ms < until \<longrightarrow> windows_of sofia c (k * hour_ms) \<noteq> None)"

definition staffed_count :: "sofiaClock \<Rightarrow> serviceCalendar \<Rightarrow> int \<Rightarrow> int \<Rightarrow> int" where
  "staffed_count sofia c from until = int (card {t. from \<le> t \<and> t < until \<and> staffed_at sofia c t})"

definition within_calendar :: "sofiaClock \<Rightarrow> serviceCalendar \<Rightarrow> int \<Rightarrow> int \<Rightarrow> bool" where
  "within_calendar sofia c from until \<longleftrightarrow>
     cal_validFrom c \<le> local_date sofia from \<and> local_date sofia (max from (until - 1)) \<le> cal_validUntil c"

lemma staffed_hours_exact:
  assumes "calendar_ok c"
  shows "staffed_hours sofia c from until (from div hour_ms * hour_ms) 0 =
    (if hours_known sofia c from until then Some (staffed_count sofia c from until) else None)"
proof (cases "staffed_hours sofia c from until (from div hour_ms * hour_ms) 0")
  case None
  then obtain k where k: "0 \<le> k" "from div hour_ms * hour_ms + k * hour_ms < until"
    "windows_of sofia c (from div hour_ms * hour_ms + k * hour_ms) = None"
    unfolding staffed_hours_None by blast
  have "from div hour_ms \<le> from div hour_ms + k" "(from div hour_ms + k) * hour_ms < until"
    "windows_of sofia c ((from div hour_ms + k) * hour_ms) = None"
    using k by (simp_all add: distrib_right)
  then have "\<not> hours_known sofia c from until" unfolding hours_known_def by blast
  then show ?thesis using None by simp
next
  case (Some ms)
  have "windows_of sofia c (k * hour_ms) \<noteq> None" if "from div hour_ms \<le> k" "k * hour_ms < until" for k
  proof -
    have "from div hour_ms * hour_ms + (k - from div hour_ms) * hour_ms = k * hour_ms" by (simp add: algebra_simps)
    moreover have "\<not> (\<exists>k. 0 \<le> k \<and> from div hour_ms * hour_ms + k * hour_ms < until \<and>
        windows_of sofia c (from div hour_ms * hour_ms + k * hour_ms) = None)"
      using Some staffed_hours_None [of sofia c "from" until "from div hour_ms * hour_ms" 0] by simp
    ultimately show ?thesis using that by (metis diff_ge_0_iff_ge)
  qed
  then have "hours_known sofia c from until" unfolding hours_known_def by blast
  moreover have "ms = staffed_count sofia c from until"
  proof -
    have "from div hour_ms * hour_ms \<le> from"
      using mult_div_mod_eq [of hour_ms "from"] pos_mod_sign [of hour_ms "from"] by (simp add: hour_ms_def mult.commute)
    then have "{t. from \<le> t \<and> t < until \<and> from div hour_ms * hour_ms \<le> t \<and> staffed_at sofia c t} =
        {t. from \<le> t \<and> t < until \<and> staffed_at sofia c t}" by auto
    then show ?thesis using staffed_hours_counts [OF assms _ Some] by (simp add: staffed_count_def)
  qed
  ultimately show ?thesis using Some by simp
qed

lemma calendar_duration_exact:
  assumes "calendar_ok c" "from \<le> until" "until - from \<le> 366 * dayMs"
  shows "calendarStaffedDuration sofia (Some c) (Some from) (Some until) =
    (if \<not> within_calendar sofia c from until then Unknown_duration Outside_reviewed_calendar
     else if hours_known sofia c from until then Known_duration (staffed_count sofia c from until)
     else Unknown_duration Unknown_day)"
  using assms(2,3) staffed_hours_exact [OF assms(1), of sofia "from" until]
  by (auto simp: calendarStaffedDuration_def within_calendar_def dayMs_def hour_ms_def not_less)

text \<open>Between two instants, the texts of the days come in order as time goes on.\<close>

definition dates_advance :: "sofiaClock \<Rightarrow> int \<Rightarrow> int \<Rightarrow> bool" where
  "dates_advance sofia from until \<longleftrightarrow>
     (\<forall>t u. from \<le> t \<and> t \<le> u \<and> u \<le> until \<longrightarrow> local_date sofia t \<le> local_date sofia u)"

lemma staffed_count_split:
  assumes "from \<le> mid" "mid \<le> until"
  shows "staffed_count sofia c from until = staffed_count sofia c from mid + staffed_count sofia c mid until"
proof -
  have fin: "finite {t :: int. a \<le> t \<and> t < b \<and> P t}" for a b P
    by (rule finite_subset [of _ "{a..<b}"]) auto
  have "{t. from \<le> t \<and> t < until \<and> staffed_at sofia c t} =
      {t. from \<le> t \<and> t < mid \<and> staffed_at sofia c t} \<union> {t. mid \<le> t \<and> t < until \<and> staffed_at sofia c t}"
    using assms by auto
  then show ?thesis
    unfolding staffed_count_def by (simp add: card_Un_disjoint fin disjoint_iff)
qed

lemma hours_known_split:
  assumes "from \<le> mid" "mid \<le> until" "hour_ms dvd mid"
  shows "hours_known sofia c from until \<longleftrightarrow> hours_known sofia c from mid \<and> hours_known sofia c mid until"
proof -
  obtain m where m: "mid = hour_ms * m" using assms(3) by (rule dvdE)
  have md: "mid div hour_ms = m" by (simp add: m hour_ms_def)
  have le: "from div hour_ms \<le> m" using zdiv_mono1 [OF assms(1), of hour_ms] md by (simp add: hour_ms_def)
  have lt: "k * hour_ms < mid \<longleftrightarrow> k < m" for k by (simp add: m hour_ms_def)
  let ?P = "\<lambda>k. windows_of sofia c (k * hour_ms) \<noteq> None"
  show ?thesis
    unfolding hours_known_def md
  proof (intro iffI conjI allI impI; (elim conjE)?)
    fix k assume "\<forall>k. from div hour_ms \<le> k \<and> k * hour_ms < until \<longrightarrow> ?P k"
    then have all: "from div hour_ms \<le> k \<Longrightarrow> k * hour_ms < until \<Longrightarrow> ?P k" by blast
    show "?P k" if "from div hour_ms \<le> k" "k * hour_ms < mid" using all that assms(2) by simp
    show "?P k" if "m \<le> k" "k * hour_ms < until" using all that le by simp
  next
    fix k
    assume a: "\<forall>k. from div hour_ms \<le> k \<and> k * hour_ms < mid \<longrightarrow> ?P k"
      "\<forall>k. m \<le> k \<and> k * hour_ms < until \<longrightarrow> ?P k" "from div hour_ms \<le> k" "k * hour_ms < until"
    show "?P k"
    proof (cases "k < m")
      case True
      then show ?thesis using a(1,3) lt by blast
    next
      case False
      then show ?thesis using a(2,4) by simp
    qed
  qed
qed

text \<open>The days kept are those the canonical reader gives.\<close>

definition days_ok :: "sofiaClock \<Rightarrow> approvedPolicy \<Rightarrow> (int \<times> staffedDurationResult) list \<Rightarrow> bool" where
  "days_ok sofia s days \<longleftrightarrow>
     (\<forall>(d, r) \<in> set days. r = snapshot_duration sofia s (Some d) (Some (d + dayMs)))"

definition policy_ok :: "approvedPolicy \<Rightarrow> bool" where
  "policy_ok s \<longleftrightarrow> (\<forall>c. op_serviceCalendar (ap_document s) = Some c \<longrightarrow> calendar_ok c)"

lemma slice_within:
  assumes "within_calendar sofia c from until" "dates_advance sofia from until" "from \<le> cursor" "cursor < ends" "ends \<le> until"
  shows "within_calendar sofia c cursor ends"
proof -
  have "local_date sofia from \<le> local_date sofia cursor"
    "local_date sofia (max cursor (ends - 1)) \<le> local_date sofia (max from (until - 1))"
    using assms(2-5) unfolding dates_advance_def by simp_all
  then show ?thesis using assms(1) unfolding within_calendar_def by (metis order_trans)
qed

lemma slice_unknown:
  assumes "from \<le> cursor" "ends \<le> until" "\<not> hours_known sofia c cursor ends"
  shows "\<not> hours_known sofia c from until"
proof -
  obtain k where k: "cursor div hour_ms \<le> k" "k * hour_ms < ends" "windows_of sofia c (k * hour_ms) = None"
    using assms(3) unfolding hours_known_def by blast
  moreover have "from div hour_ms \<le> cursor div hour_ms"
    using assms(1) by (intro zdiv_mono1) (simp_all add: hour_ms_def)
  ultimately show ?thesis using assms(2) unfolding hours_known_def by force
qed

lemma report_days_exact:
  assumes c: "op_serviceCalendar (ap_document s) = Some c" "calendar_ok c" "dates_advance sofia from until"
    and span: "from < until" "until - from \<le> 366 * dayMs" "within_calendar sofia c from until"
    and "from \<le> cursor" "cursor \<le> until"
    and "cursor = from \<or> hours_known sofia c from cursor \<and> (dayMs dvd cursor \<or> cursor = until)"
    and "ms = staffed_count sofia c from cursor" "days_ok sofia s days"
    and "report_days sofia s maxSlices until cursor ms days slices = (r, days2, slices2)"
  shows "days_ok sofia s days2 \<and>
    (r = Calculation_limit \<or> r = as_report (snapshot_duration sofia s (Some from) (Some until)))"
  using assms(7-12)
proof (induction "nat (until - cursor)" arbitrary: cursor ms days slices rule: less_induct)
  case less
  note canonical = calendar_duration_exact [OF c(2) less_imp_le [OF span(1)] span(2), of sofia]
  show ?case
  proof (cases "cursor < until")
    case False
    then have "cursor = until" using less.prems(2) by simp
    then have "hours_known sofia c from until" using less.prems(3) span(1) by auto
    then have "as_report (snapshot_duration sofia s (Some from) (Some until)) =
        Report_known ms (ap_policyId s) (ap_policyVersion s)"
      using canonical span(3) less.prems(4) \<open>cursor = until\<close> by (simp add: snapshot_duration_def c(1))
    then show ?thesis using less.prems(5,6) False by (subst (asm) report_days.simps) simp
  next
    case True
    define ends where "ends = min until ((cursor div dayMs + 1) * dayMs)"
    define full where "full \<longleftrightarrow> cursor mod dayMs = 0 \<and> ends - cursor = dayMs"
    define cached where "cached = (if full then map_of days cursor else None)"
    define q where "q = snapshot_duration sofia s (Some cursor) (Some ends)"
    define days3 where "days3 = (if cached = None \<and> full then (cursor, q) # days else days)"
    define slices3 where "slices3 = (if cached = None then slices + 1 else slices)"
    have nx: "cursor < ends" "ends \<le> until" using True by (auto simp: ends_def)
    have "dayMs * (cursor div dayMs) \<le> cursor"
      using mult_div_mod_eq [of dayMs cursor] pos_mod_sign [OF dayMs_pos, of cursor] by linarith
    then have "ends - cursor \<le> dayMs" by (simp add: ends_def algebra_simps min_le_iff_disj)
    then have short: "ends - cursor \<le> 366 * dayMs" by (simp add: dayMs_def)
    have hit: "the cached = q" if "cached \<noteq> None"
    proof -
      have "full" "map_of days cursor = Some (the cached)" using that by (auto simp: cached_def split: if_splits)
      then have "(cursor, the cached) \<in> set days" "ends = cursor + dayMs" by (auto simp: full_def dest: map_of_SomeD)
      then show ?thesis using less.prems(5) by (auto simp: days_ok_def q_def)
    qed
    have kept: "days_ok sofia s days3"
      using less.prems(5) by (auto simp: days3_def days_ok_def q_def full_def algebra_simps)
    show ?thesis
    proof (cases "cached = None \<and> maxSlices \<le> slices")
      case True
      then show ?thesis
        using less.prems(5,6) \<open>cursor < until\<close>
        by (subst (asm) report_days.simps) (simp add: Let_def ends_def [symmetric] full_def [symmetric] cached_def [symmetric])
    next
      case go: False
      have pick: "(case cached of None \<Rightarrow> snapshot_duration sofia s (Some cursor) (Some ends) | Some r \<Rightarrow> r) = q"
        using hit by (cases cached) (auto simp: q_def)
      have run: "(case q of Staffed_unknown u \<Rightarrow> (Report_unknown u, days3, slices3)
          | Staffed_known m _ _ \<Rightarrow> report_days sofia s maxSlices until ends (ms + m) days3 slices3) = (r, days2, slices2)"
        using less.prems(6) True go unfolding days3_def slices3_def
        by (subst (asm) report_days.simps)
          (simp add: Let_def ends_def [symmetric] full_def [symmetric] cached_def [symmetric] pick
            split del: if_split)
      have within: "within_calendar sofia c cursor ends"
        by (rule slice_within [OF span(3) c(3) less.prems(1) nx])
      show ?thesis
      proof (cases "hours_known sofia c cursor ends")
        case False
        have "q = Staffed_unknown Unknown_day"
          using calendar_duration_exact [OF c(2) less_imp_le [OF nx(1)] short, of sofia] within False
          by (simp add: q_def snapshot_duration_def c(1))
        moreover have "as_report (snapshot_duration sofia s (Some from) (Some until)) = Report_unknown Unknown_day"
          using canonical span(3) slice_unknown [OF less.prems(1) nx(2) False] by (simp add: snapshot_duration_def c(1))
        ultimately show ?thesis using run kept by auto
      next
        case known: True
        have q: "q = Staffed_known (staffed_count sofia c cursor ends) (ap_policyId s) (ap_policyVersion s)"
          using calendar_duration_exact [OF c(2) less_imp_le [OF nx(1)] short, of sofia] within known
          by (simp add: q_def snapshot_duration_def c(1))
        have "hours_known sofia c from ends"
        proof (cases "cursor = from")
          case False
          then have "hours_known sofia c from cursor" "dayMs dvd cursor" using less.prems(3) \<open>cursor < until\<close> by auto
          moreover have "hour_ms dvd cursor" using \<open>dayMs dvd cursor\<close> by (rule dvd_trans [rotated]) (simp add: dayMs_def hour_ms_def)
          ultimately show ?thesis
            using hours_known_split [OF less.prems(1) less_imp_le [OF nx(1)]] known by blast
        qed (use known in simp)
        moreover have "dayMs dvd ends \<or> ends = until" by (auto simp: ends_def min_def)
        moreover have "ms + staffed_count sofia c cursor ends = staffed_count sofia c from ends"
          using staffed_count_split [OF less.prems(1) less_imp_le [OF nx(1)], of sofia c] less.prems(4) by simp
        moreover have "report_days sofia s maxSlices until ends (ms + staffed_count sofia c cursor ends) days3 slices3 = (r, days2, slices2)"
          using run by (simp add: q)
        moreover have "nat (until - ends) < nat (until - cursor)" "from \<le> ends" using nx less.prems(1) by simp_all
        ultimately show ?thesis by (intro less.hyps [OF _ _ nx(2) _ _ kept]) auto
      qed
    qed
  qed
qed

text \<open>
  The keys of the cache are texts of stored values, or that of no value, and each entry is what its value
  reads as.
\<close>

definition policy_value :: "json \<Rightarrow> bool" where
  "policy_value v = (v = JUndefined \<or> plain_json v)"

lemma json_key_inject:
  assumes "policy_value v" "policy_value w" "json_key v = json_key w"
  shows "v = w"
proof -
  have start: "json_key v \<noteq> ''undefined''" if st: "plain_json v" for v
  proof -
    obtain c r where "stringify v = c # r" "json_start v c" by (rule stringify_start [OF st])
    moreover have "v \<noteq> JUndefined" using st by auto
    ultimately show ?thesis
      by (cases v) (auto simp: json_key_def json_start_def is_num_start_def split: if_splits)
  qed
  have u: "json_key JUndefined = ''undefined''" by (simp add: json_key_def)
  show ?thesis
  proof (cases "v = JUndefined \<or> w = JUndefined")
    case True
    then show ?thesis using assms u start unfolding policy_value_def by metis
  next
    case False
    then show ?thesis
      using assms stringify_inject [of v w] by (simp add: policy_value_def json_key_def)
  qed
qed

definition reader_ok :: "schemaChecks \<Rightarrow> sofiaClock \<Rightarrow> reportReader \<Rightarrow> bool" where
  "reader_ok k sofia rd \<longleftrightarrow>
     (\<forall>(key, p) \<in> set (rd_policies rd). \<exists>v. policy_value v \<and> key = json_key v \<and>
        pc_snapshot p = readOperatingPolicySnapshot k v \<and>
        (\<forall>s. pc_snapshot p = Some s \<longrightarrow> days_ok sofia s (pc_days p)))"

lemma bindE:
  assumes "Option.bind x f = Some y"
  obtains a where "x = Some a" "f a = Some y"
  using assms by (cases x) auto

lemma policy_schema_calendar:
  assumes "operatingPolicySchema k v = Some d"
  shows "read_nullable serviceCalendarSchema (json_get v ''serviceCalendar'') = Some (op_serviceCalendar d)"
  using assms unfolding operatingPolicySchema_def Let_def by (elim bindE) (auto simp del: json_get.simps)

lemma snapshot_policy_ok:
  assumes "readOperatingPolicySnapshot k v = Some s"
  shows "policy_ok s"
proof -
  obtain d where "operatingPolicySchema k d = Some (ap_document s)"
    using assms unfolding readOperatingPolicySnapshot_def by (elim bindE) (auto simp del: json_get.simps)
  note d = policy_schema_calendar [OF this]
  show ?thesis
    unfolding policy_ok_def
  proof (intro allI impI)
    fix c assume "op_serviceCalendar (ap_document s) = Some c"
    with d have "read_nullable serviceCalendarSchema (json_get d ''serviceCalendar'') = Some (Some c)" by simp
    then show "calendar_ok c" by (rule calendar_schema_ok [OF read_nullable_Some])
  qed
qed

text \<open>
  What the reader of a report gives for one policy: the canonical duration, or that its budget is used up.
  Only the reason of an unknown can differ: an interval whose first day is not stated and whose end is
  outside the calendar is an unknown day here.
\<close>

definition agrees :: "reportDuration \<Rightarrow> staffedDurationResult \<Rightarrow> bool" where
  "agrees r q \<longleftrightarrow> r = Calculation_limit \<or> r = as_report q \<or>
     r = Report_unknown Unknown_day \<and> q = Staffed_unknown Outside_reviewed_calendar"

lemma boundary_exact:
  assumes "op_serviceCalendar (ap_document s) = Some c" "calendar_ok c"
  shows "boundary sofia s i =
    (if \<not> (cal_validFrom c \<le> local_date sofia i \<and> local_date sofia i \<le> cal_validUntil c) then Some Outside_reviewed_calendar
     else if hours_known sofia c i i then None else Some Unknown_day)"
proof -
  have "calendarStaffedDuration sofia (Some c) (Some i) (Some i) =
    (if \<not> within_calendar sofia c i i then Unknown_duration Outside_reviewed_calendar
     else if hours_known sofia c i i then Known_duration (staffed_count sofia c i i)
     else Unknown_duration Unknown_day)"
    by (rule calendar_duration_exact [OF assms(2)]) (simp_all add: dayMs_def)
  then show ?thesis by (simp add: boundary_def snapshot_duration_def assms(1) within_calendar_def)
qed

lemma read_policy_exact:
  assumes p: "pc_snapshot p = Some s" "policy_ok s" "days_ok sofia s (pc_days p)" 
    and advance: "\<And>from until. start = Some from \<Longrightarrow> stop = Some until \<Longrightarrow> dates_advance sofia from until"
    and "read_policy sofia maxSlices p start stop slices = (r, days, slices2)"
  shows "days_ok sofia s days \<and> agrees r (snapshot_duration sofia s start stop)"
proof (cases "\<exists>from until. start = Some from \<and> stop = Some until \<and> \<not> (until \<le> from \<or> 366 * dayMs < until - from)")
  case False
  then show ?thesis using p assms(5) by (auto simp: read_policy_def agrees_def split: option.splits if_splits)
next
  case True
  then obtain "from" until where i: "start = Some from" "stop = Some until" "from < until" "until - from \<le> 366 * dayMs"
    by force
  note adv = advance [OF i(1,2)]
  have run: "(case boundary sofia s from of Some r \<Rightarrow> (Report_unknown r, pc_days p, slices)
      | None \<Rightarrow> (case boundary sofia s (until - 1) of Some r \<Rightarrow> (Report_unknown r, pc_days p, slices)
         | None \<Rightarrow> report_days sofia s maxSlices until from 0 (pc_days p) slices)) = (r, days, slices2)"
    using assms(5) i p(1) by (simp add: read_policy_def)
  show ?thesis
  proof (cases "op_serviceCalendar (ap_document s)")
    case None
    then have b: "boundary sofia s j = Some Calendar_unknown" for j
      by (simp add: boundary_def snapshot_duration_def calendarStaffedDuration_def)
    show ?thesis
      using run p(3) None unfolding b by (auto simp: agrees_def snapshot_duration_def calendarStaffedDuration_def)
  next
    case (Some c)
    have ok: "calendar_ok c" using p(2) Some by (simp add: policy_ok_def)
    note b = boundary_exact [OF Some ok, of sofia]
    note canonical = calendar_duration_exact [OF ok less_imp_le [OF i(3)] i(4), of sofia]
    have e: "max from (until - 1) = until - 1" using i(3) by simp
    have fu: "local_date sofia from \<le> local_date sofia (until - 1)" using adv i(3) by (simp add: dates_advance_def)
    have sd: "snapshot_duration sofia s start stop =
      (if \<not> within_calendar sofia c from until then Staffed_unknown Outside_reviewed_calendar
       else if hours_known sofia c from until
         then Staffed_known (staffed_count sofia c from until) (ap_policyId s) (ap_policyVersion s)
         else Staffed_unknown Unknown_day)"
      unfolding i(1,2) by (simp add: snapshot_duration_def Some canonical)
    have hk: "\<not> hours_known sofia c from until" if "j = from \<or> j = until - 1" "\<not> hours_known sofia c j j" for j
      by (rule slice_unknown [OF _ _ that(2)]) (use that(1) i(3) in auto)
    show ?thesis
    proof (cases "boundary sofia s from = None \<and> boundary sofia s (until - 1) = None")
      case True
      then have "within_calendar sofia c from until"
        unfolding within_calendar_def e b by (simp split: if_splits)
      moreover have "report_days sofia s maxSlices until from 0 (pc_days p) slices = (r, days, slices2)"
        using run True by simp
      moreover have "0 = staffed_count sofia c from from"
      proof -
        have none: "{t. from \<le> t \<and> t < from \<and> staffed_at sofia c t} = {}" by auto
        show ?thesis unfolding staffed_count_def none by simp
      qed
      ultimately show ?thesis
        using report_days_exact [OF Some ok adv i(3,4) _ order_refl less_imp_le [OF i(3)] _ _ p(3)]
        unfolding agrees_def i(1,2) by blast
    next
      case False
      then obtain j x where j: "j = from \<or> j = until - 1" "boundary sofia s j = Some x" "r = Report_unknown x" "days = pc_days p"
        using run by (auto split: option.splits)
      have "agrees (Report_unknown x) (snapshot_duration sofia s start stop)"
      proof (cases "cal_validFrom c \<le> local_date sofia j \<and> local_date sofia j \<le> cal_validUntil c")
        case True
        then have "x = Unknown_day" "\<not> hours_known sofia c j j" using j(2) unfolding b by (simp_all split: if_splits)
        then show ?thesis using hk [OF j(1)] unfolding sd by (simp add: agrees_def)
      next
        case False
        then have "x = Outside_reviewed_calendar" using j(2) unfolding b by simp
        moreover have "\<not> within_calendar sofia c from until"
          using False j(1) fu unfolding within_calendar_def e by (metis order_trans)
        ultimately show ?thesis unfolding sd by (simp add: agrees_def)
      qed
      then show ?thesis using j p(3) by simp
    qed
  qed
qed

lemma read_report_exact:
  assumes "reader_ok k sofia rd" "policy_value v"
    and "\<And>from until. start = Some from \<Longrightarrow> stop = Some until \<Longrightarrow> dates_advance sofia from until"
    and "read_report k sofia maxSlices v start stop rd = (r, rd2)"
  shows "reader_ok k sofia rd2 \<and> agrees r (staffedDuration k sofia v start stop)"
proof -
  let ?key = "json_key v"
  define p where "p = (case map_of (rd_policies rd) ?key of Some p \<Rightarrow> p
     | None \<Rightarrow> \<lparr>pc_snapshot = readOperatingPolicySnapshot k v, pc_days = []\<rparr>)"
  obtain r' days slices where run: "read_policy sofia maxSlices p start stop (rd_slices rd) = (r', days, slices)"
    by (metis prod_cases3)
  have rd2: "r = r'" "rd_policies rd2 = (?key, p\<lparr>pc_days := days\<rparr>) # filter (\<lambda>e. fst e \<noteq> ?key) (rd_policies rd)"
    using assms(4) run by (auto simp: read_report_def Let_def p_def)
  have p: "pc_snapshot p = readOperatingPolicySnapshot k v \<and> (\<forall>s. pc_snapshot p = Some s \<longrightarrow> days_ok sofia s (pc_days p))"
  proof (cases "map_of (rd_policies rd) ?key")
    case (Some q)
    then have "(?key, q) \<in> set (rd_policies rd)" by (rule map_of_SomeD)
    then obtain w where w: "policy_value w" "?key = json_key w" "pc_snapshot q = readOperatingPolicySnapshot k w"
      "\<forall>s. pc_snapshot q = Some s \<longrightarrow> days_ok sofia s (pc_days q)"
      using assms(1) by (auto simp: reader_ok_def)
    then show ?thesis using json_key_inject [OF assms(2) w(1,2)] Some by (simp add: p_def)
  qed (simp add: p_def days_ok_def)
  have entry: "agrees r (staffedDuration k sofia v start stop) \<and> (\<forall>s. pc_snapshot p = Some s \<longrightarrow> days_ok sofia s days)"
  proof (cases "pc_snapshot p")
    case None
    then show ?thesis using run p rd2(1) by (auto simp: read_policy_def staffedDuration_def agrees_def)
  next
    case (Some s)
    have rs: "readOperatingPolicySnapshot k v = Some s" using p Some by simp
    from read_policy_exact [OF Some snapshot_policy_ok [OF rs] _ assms(3) run] show ?thesis
      using p Some rd2(1) by (simp add: staffedDuration_def rs)
  qed
  then show ?thesis
    using assms(1,2) p unfolding reader_ok_def rd2 by auto
qed

text \<open>A report that has read some observations already.\<close>

primrec read_all_reports ::
    "schemaChecks \<Rightarrow> sofiaClock \<Rightarrow> int \<Rightarrow> (json \<times> int option \<times> int option) list \<Rightarrow> reportReader" where
  "read_all_reports k sofia maxSlices [] = createReportStaffedDurationReader"
| "read_all_reports k sofia maxSlices (o1 # os) =
     (case o1 of (v, start, stop) \<Rightarrow> snd (read_report k sofia maxSlices v start stop (read_all_reports k sofia maxSlices os)))"

lemma read_all_reports_ok:
  assumes "\<And>v start stop. (v, start, stop) \<in> set os \<Longrightarrow> policy_value v \<and>
    (\<forall>from until. start = Some from \<and> stop = Some until \<longrightarrow> dates_advance sofia from until)"
  shows "reader_ok k sofia (read_all_reports k sofia maxSlices os)"
  using assms
proof (induction os)
  case (Cons o1 os)
  obtain v start stop where o1: "o1 = (v, start, stop)" by (metis prod_cases3)
  obtain r rd where run: "read_report k sofia maxSlices v start stop (read_all_reports k sofia maxSlices os) = (r, rd)"
    by (metis surj_pair)
  have "reader_ok k sofia (read_all_reports k sofia maxSlices os)" by (rule Cons.IH) (rule Cons.prems, simp)
  from read_report_exact [OF this _ _ run] Cons.prems [of v start stop] show ?case by (simp add: o1 run)
qed (simp add: createReportStaffedDurationReader_def reader_ok_def)

end
