(* ===== verification/RateLimit.thy ===== *)
theory RateLimit
  imports Decimal Errors Complex_Main
begin

text \<open>
  \<open>src/src/server/rate-limit.ts\<close>: token buckets in the database. A bucket's tokens are exact rationals here,
  where the table keeps a rounded real. The keyed hash of an identifier is a parameter. A consumption is one
  transaction that holds its bucket's row, so the order of the calls is the order of their effects.
\<close>

record rateLimitPolicy =
  rlp_capacity :: int
  rlp_refillPerSecond :: rat

datatype rateLimitPurpose = Sign_in_email | Sign_in_ip | Passkey_ip | Invitation_ip | Inquiry_ip
  | Public_share_creator | Public_share_ip

primrec purpose_name :: "rateLimitPurpose \<Rightarrow> string" where
  "purpose_name Sign_in_email = ''sign_in.email''" | "purpose_name Sign_in_ip = ''sign_in.ip''"
| "purpose_name Passkey_ip = ''passkey.ip''" | "purpose_name Invitation_ip = ''invitation.ip''"
| "purpose_name Inquiry_ip = ''inquiry.ip''" | "purpose_name Public_share_creator = ''public_share.creator''"
| "purpose_name Public_share_ip = ''public_share.ip''"

primrec rateLimitPolicies :: "rateLimitPurpose \<Rightarrow> rateLimitPolicy" where
  "rateLimitPolicies Sign_in_email = \<lparr>rlp_capacity = 5, rlp_refillPerSecond = 1 / 180\<rparr>"
| "rateLimitPolicies Sign_in_ip = \<lparr>rlp_capacity = 20, rlp_refillPerSecond = 1 / 30\<rparr>"
| "rateLimitPolicies Passkey_ip = \<lparr>rlp_capacity = 30, rlp_refillPerSecond = 1 / 10\<rparr>"
| "rateLimitPolicies Invitation_ip = \<lparr>rlp_capacity = 20, rlp_refillPerSecond = 1 / 30\<rparr>"
| "rateLimitPolicies Inquiry_ip = \<lparr>rlp_capacity = 5, rlp_refillPerSecond = 1 / 120\<rparr>"
| "rateLimitPolicies Public_share_creator = \<lparr>rlp_capacity = 10, rlp_refillPerSecond = 1 / 180\<rparr>"
| "rateLimitPolicies Public_share_ip = \<lparr>rlp_capacity = 20, rlp_refillPerSecond = 1 / 30\<rparr>"

record rateLimitDecision =
  rld_allowed :: bool
  rld_remaining :: int
  rld_retryAfterSeconds :: int

record bucketRow =
  bk_key :: string
  bk_tokens :: rat
  bk_refilledAt :: int
  bk_expiresAt :: int

record consumeOptions =
  co_cost :: "int option"
  co_now :: int
  co_policy :: "rateLimitPolicy option"

definition bucket_key :: "(string \<Rightarrow> string) \<Rightarrow> rateLimitPurpose \<Rightarrow> string \<Rightarrow> string" where
  "bucket_key keyedHash purpose identifier = purpose_name purpose @ '':'' @ keyedHash (to_lower (trim identifier))"

definition full_after :: "rateLimitPolicy \<Rightarrow> int" where
  "full_after p = \<lfloor>of_int (rlp_capacity p) / rlp_refillPerSecond p * 1000\<rfloor>"

definition bucket_of :: "string \<Rightarrow> bucketRow list \<Rightarrow> bucketRow option" where
  "bucket_of key rows = List.find (\<lambda>b. bk_key b = key) rows"

text \<open>What a bucket holds after it has been refilled for the time since its last use.\<close>

definition available :: "rateLimitPolicy \<Rightarrow> int \<Rightarrow> bucketRow \<Rightarrow> rat" where
  "available p now b =
     (let elapsed = max 0 (of_int (now - bk_refilledAt b) / 1000)
      in min (of_int (rlp_capacity p)) (bk_tokens b + elapsed * rlp_refillPerSecond p))"

definition consumeRateLimit ::
    "(string \<Rightarrow> string) \<Rightarrow> rateLimitPurpose \<Rightarrow> string \<Rightarrow> consumeOptions \<Rightarrow> bucketRow list
      \<Rightarrow> rateLimitDecision \<times> bucketRow list" where
  "consumeRateLimit keyedHash purpose identifier options rows =
     (let p = the_or (rateLimitPolicies purpose) (co_policy options);
          cost = the_or 1 (co_cost options);
          now = co_now options;
          key = bucket_key keyedHash purpose identifier;
          expiresAt = now + full_after p;
          rows1 = (if bucket_of key rows = None
            then rows @ [\<lparr>bk_key = key, bk_tokens = of_int (rlp_capacity p), bk_refilledAt = now, bk_expiresAt = expiresAt\<rparr>]
            else rows);
          b = the (bucket_of key rows1);
          avail = available p now b;
          ok = (of_int cost \<le> avail);
          tokens = (if ok then avail - of_int cost else avail)
      in (\<lparr>rld_allowed = ok, rld_remaining = \<lfloor>tokens\<rfloor>,
           rld_retryAfterSeconds = (if ok then 0 else \<lceil>(of_int cost - tokens) / rlp_refillPerSecond p\<rceil>)\<rparr>,
          map (\<lambda>x. if bk_key x = key then x\<lparr>bk_tokens := tokens, bk_refilledAt := now, bk_expiresAt := expiresAt\<rparr> else x)
            rows1))"

definition enforceRateLimit ::
    "(string \<Rightarrow> string) \<Rightarrow> rateLimitPurpose \<Rightarrow> string \<Rightarrow> consumeOptions \<Rightarrow> bucketRow list
      \<Rightarrow> (thrown + unit) \<times> bucketRow list" where
  "enforceRateLimit keyedHash purpose identifier options rows =
     (let (d, rows2) = consumeRateLimit keyedHash purpose identifier options rows
      in (if rld_allowed d then Inr ()
          else Inl (ThrownApp (AppError Err_rate_limited
            (no_options\<lparr>aeo_retryAfterSeconds := Some (rld_retryAfterSeconds d)\<rparr>))), rows2))"

definition pruneRateLimits :: "int \<Rightarrow> bucketRow list \<Rightarrow> int \<times> bucketRow list" where
  "pruneRateLimits now rows =
     (int (length (filter (\<lambda>b. bk_expiresAt b < now) rows)), filter (\<lambda>b. \<not> bk_expiresAt b < now) rows)"

subsection \<open>How much a key can use\<close>

text \<open>
  What happens to the table: calls under the named policies at their default cost, and the worker's pruning,
  each at its time. The count is of the calls for one key that were let through.
\<close>

datatype limitEvent = Consume rateLimitPurpose string int | Prune int

primrec event_time :: "limitEvent \<Rightarrow> int" where
  "event_time (Consume p i t) = t" | "event_time (Prune t) = t"

definition at_default :: "int \<Rightarrow> consumeOptions" where
  "at_default t = \<lparr>co_cost = None, co_now = t, co_policy = None\<rparr>"

fun limit_event :: "(string \<Rightarrow> string) \<Rightarrow> limitEvent \<Rightarrow> bucketRow list \<Rightarrow> bucketRow list" where
  "limit_event h (Consume p i t) rows = snd (consumeRateLimit h p i (at_default t) rows)"
| "limit_event h (Prune t) rows = snd (pruneRateLimits t rows)"

fun let_through :: "(string \<Rightarrow> string) \<Rightarrow> string \<Rightarrow> limitEvent list \<Rightarrow> bucketRow list \<Rightarrow> int" where
  "let_through h key [] rows = 0"
| "let_through h key (e # es) rows =
     (case e of
        Consume p i t \<Rightarrow> (if bucket_key h p i = key \<and> rld_allowed (fst (consumeRateLimit h p i (at_default t) rows)) then 1 else 0)
      | Prune t \<Rightarrow> 0) + let_through h key es (limit_event h e rows)"

text \<open>Events in the order of their times, none before the first instant and none after the last.\<close>

fun times_in_order :: "int \<Rightarrow> limitEvent list \<Rightarrow> int \<Rightarrow> bool" where
  "times_in_order a [] b = (a \<le> b)"
| "times_in_order a (e # es) b = (a \<le> event_time e \<and> times_in_order (event_time e) es b)"

lemma in_order_le: "times_in_order a es b \<Longrightarrow> a \<le> b"
  by (induction a es b rule: times_in_order.induct) auto

lemma policy_positive: "0 < rlp_capacity (rateLimitPolicies p)" "0 < rlp_refillPerSecond (rateLimitPolicies p)"
  by (cases p; simp)+

lemma bucket_key_purpose: "bucket_key h p i = bucket_key h q j \<Longrightarrow> p = q"
proof -
  have "takeWhile (\<lambda>c. c \<noteq> CHR '':'') (bucket_key h p i) = purpose_name p" for p i
    by (cases p) (simp_all add: bucket_key_def)
  moreover have "purpose_name p = purpose_name q \<longleftrightarrow> p = q" for p q by (cases p; cases q) simp_all
  ultimately show "bucket_key h p i = bucket_key h q j \<Longrightarrow> p = q" by metis
qed

text \<open>
  What a key could use at an instant: all of the capacity where it has no row. A row of a purpose is kept
  sane: its tokens are not negative, and it expires no sooner than it is full.
\<close>

definition potential :: "rateLimitPolicy \<Rightarrow> string \<Rightarrow> int \<Rightarrow> bucketRow list \<Rightarrow> rat" where
  "potential p key now rows = (case bucket_of key rows of None \<Rightarrow> of_int (rlp_capacity p) | Some b \<Rightarrow> available p now b)"

definition bucket_ok :: "rateLimitPolicy \<Rightarrow> int \<Rightarrow> bucketRow \<Rightarrow> bool" where
  "bucket_ok p now b \<longleftrightarrow> 0 \<le> bk_tokens b \<and> bk_refilledAt b \<le> now \<and> bk_expiresAt b = bk_refilledAt b + full_after p"

definition key_ok :: "rateLimitPolicy \<Rightarrow> string \<Rightarrow> int \<Rightarrow> bucketRow list \<Rightarrow> bool" where
  "key_ok p key now rows \<longleftrightarrow> distinct (map bk_key rows) \<and> (\<forall>b \<in> set rows. bk_key b = key \<longrightarrow> bucket_ok p now b)"

lemma bucket_of_Some: "bucket_of key rows = Some b \<Longrightarrow> b \<in> set rows \<and> bk_key b = key"
  by (auto simp: bucket_of_def find_Some_iff)

lemma available_bounds:
  assumes "bucket_ok p now b" "0 < rlp_capacity p" "0 < rlp_refillPerSecond p"
  shows "0 \<le> available p now b" "available p now b \<le> of_int (rlp_capacity p)"
  using assms by (auto simp: available_def bucket_ok_def Let_def max_def)

lemma available_later:
  assumes "bucket_ok p now b" "now \<le> later" "0 < rlp_refillPerSecond p"
  shows "available p later b \<le> available p now b + of_int (later - now) / 1000 * rlp_refillPerSecond p"
proof -
  let ?r = "rlp_refillPerSecond p"
  have e: "max 0 (of_int (later - bk_refilledAt b) / 1000) = of_int (later - bk_refilledAt b) / (1000 :: rat)"
    "max 0 (of_int (now - bk_refilledAt b) / 1000) = of_int (now - bk_refilledAt b) / (1000 :: rat)"
    using assms by (simp_all add: bucket_ok_def)
  have "of_int (later - bk_refilledAt b) / 1000 * ?r =
      of_int (now - bk_refilledAt b) / 1000 * ?r + of_int (later - now) / 1000 * ?r"
    by (simp add: field_simps)
  moreover have "0 \<le> of_int (later - now) / 1000 * ?r" using assms(2,3) by simp
  ultimately show ?thesis unfolding available_def Let_def e by linarith
qed

text \<open>A row that has expired was full.\<close>

lemma expired_full:
  assumes "bucket_ok p now b" "bk_expiresAt b < now" "0 < rlp_refillPerSecond p"
  shows "available p now b = of_int (rlp_capacity p)"
proof -
  let ?r = "rlp_refillPerSecond p" and ?c = "of_int (rlp_capacity p) :: rat"
  have "?c / ?r * 1000 < of_int (full_after p + 1)" unfolding full_after_def by linarith
  also have "\<dots> \<le> of_int (now - bk_refilledAt b)" using assms(1,2) by (simp add: bucket_ok_def)
  finally have "?c < of_int (now - bk_refilledAt b) / 1000 * ?r" using assms(3) by (simp add: field_simps)
  moreover have "0 \<le> bk_tokens b" "bk_refilledAt b \<le> now" using assms(1) by (simp_all add: bucket_ok_def)
  ultimately show ?thesis by (simp add: available_def)
qed

lemma bucket_of_iff:
  assumes "distinct (map bk_key rows)"
  shows "bucket_of key rows = Some b \<longleftrightarrow> b \<in> set rows \<and> bk_key b = key"
  unfolding bucket_of_def using assms by (rule find_distinct)

lemma bucket_of_None: "bucket_of key rows = None \<longleftrightarrow> key \<notin> bk_key ` set rows"
  by (auto simp: bucket_of_def find_None_iff)

lemma potential_bounds:
  assumes "key_ok (rateLimitPolicies p) key now rows"
  shows "0 \<le> potential (rateLimitPolicies p) key now rows"
    "potential (rateLimitPolicies p) key now rows \<le> of_int (rlp_capacity (rateLimitPolicies p))"
  using available_bounds [OF _ policy_positive] assms policy_positive(1) [of p]
  by (auto simp: potential_def key_ok_def less_imp_le dest!: bucket_of_Some split: option.splits)

lemma potential_later:
  assumes "key_ok (rateLimitPolicies p) key now rows" "now \<le> later"
  shows "potential (rateLimitPolicies p) key later rows \<le>
      potential (rateLimitPolicies p) key now rows + of_int (later - now) / 1000 * rlp_refillPerSecond (rateLimitPolicies p)"
    "key_ok (rateLimitPolicies p) key later rows"
proof -
  show "potential (rateLimitPolicies p) key later rows \<le>
      potential (rateLimitPolicies p) key now rows + of_int (later - now) / 1000 * rlp_refillPerSecond (rateLimitPolicies p)"
  proof (cases "bucket_of key rows")
    case None
    have "0 \<le> of_int (later - now) / 1000 * rlp_refillPerSecond (rateLimitPolicies p)"
      using assms(2) policy_positive(2) [of p] by simp
    then show ?thesis using None by (simp add: potential_def)
  next
    case (Some b)
    have "bucket_ok (rateLimitPolicies p) now b" using assms(1) bucket_of_Some [OF Some] by (simp add: key_ok_def)
    from available_later [OF this assms(2) policy_positive(2)] show ?thesis using Some by (simp add: potential_def)
  qed
  show "key_ok (rateLimitPolicies p) key later rows"
    using assms by (auto simp: key_ok_def bucket_ok_def)
qed

text \<open>One consumption: its own key gives up what it lets through, every other key is as it was.\<close>

lemma consume_default:
  "consumeRateLimit h p i (at_default t) rows =
     (let r = rateLimitPolicies p; key = bucket_key h p i;
          rows1 = (if bucket_of key rows = None
            then rows @ [\<lparr>bk_key = key, bk_tokens = of_int (rlp_capacity r), bk_refilledAt = t, bk_expiresAt = t + full_after r\<rparr>]
            else rows);
          avail = available r t (the (bucket_of key rows1));
          tokens = (if 1 \<le> avail then avail - 1 else avail)
      in (\<lparr>rld_allowed = (1 \<le> avail), rld_remaining = \<lfloor>tokens\<rfloor>,
           rld_retryAfterSeconds = (if 1 \<le> avail then 0 else \<lceil>(1 - tokens) / rlp_refillPerSecond r\<rceil>)\<rparr>,
          map (\<lambda>x. if bk_key x = key then x\<lparr>bk_tokens := tokens, bk_refilledAt := t, bk_expiresAt := t + full_after r\<rparr> else x)
            rows1))"
  by (simp add: consumeRateLimit_def at_default_def Let_def)

lemma consume_same:
  assumes "key_ok (rateLimitPolicies p) (bucket_key h p i) t rows"
    and c_def: "c = consumeRateLimit h p i (at_default t) rows"
  shows "key_ok (rateLimitPolicies p) (bucket_key h p i) t (snd c)"
    "potential (rateLimitPolicies p) (bucket_key h p i) t (snd c) + (if rld_allowed (fst c) then 1 else 0) =
      potential (rateLimitPolicies p) (bucket_key h p i) t rows"
proof -
  let ?p = "rateLimitPolicies p" and ?key = "bucket_key h p i"
  define fresh where "fresh = \<lparr>bk_key = ?key, bk_tokens = of_int (rlp_capacity ?p), bk_refilledAt = t,
    bk_expiresAt = t + full_after ?p\<rparr>"
  define rows1 where "rows1 = (if bucket_of ?key rows = None then rows @ [fresh] else rows)"
  have d1: "distinct (map bk_key rows1)"
    using assms(1) by (auto simp: rows1_def key_ok_def bucket_of_None fresh_def)
  obtain b where b: "bucket_of ?key rows1 = Some b"
    unfolding rows1_def by (cases "bucket_of ?key rows") (auto simp: bucket_of_def find_append fresh_def)
  have ok1: "bucket_ok ?p t x" if "x \<in> set rows1" "bk_key x = ?key" for x
    using that assms(1) policy_positive(1) [of p]
    by (auto simp: rows1_def key_ok_def bucket_ok_def fresh_def split: if_splits)
  have okb: "bucket_ok ?p t b" using ok1 bucket_of_Some [OF b] by blast
  have pot: "potential ?p ?key t rows = available ?p t b"
  proof (cases "bucket_of ?key rows")
    case None
    then have "b = fresh" using b d1 unfolding rows1_def by (simp add: bucket_of_def find_append fresh_def)
    then show ?thesis using None by (simp add: potential_def available_def fresh_def)
  qed (use b in \<open>simp add: potential_def rows1_def\<close>)
  note av = available_bounds [OF okb policy_positive]
  define ok where "ok \<longleftrightarrow> 1 \<le> available ?p t b"
  define tokens where "tokens = (if ok then available ?p t b - 1 else available ?p t b)"
  define upd where "upd = (\<lambda>x :: bucketRow. if bk_key x = ?key
    then x\<lparr>bk_tokens := tokens, bk_refilledAt := t, bk_expiresAt := t + full_after ?p\<rparr> else x)"
  have c: "snd c = map upd rows1" "rld_allowed (fst c) \<longleftrightarrow> ok"
    unfolding c_def consume_default Let_def rows1_def [unfolded fresh_def, symmetric] b
    by (simp_all add: ok_def tokens_def upd_def)
  have tokens: "0 \<le> tokens" "tokens \<le> of_int (rlp_capacity ?p)" using av by (auto simp: tokens_def ok_def)
  have key: "bk_key (upd x) = bk_key x" for x by (simp add: upd_def)
  have d2: "distinct (map bk_key (map upd rows1))" using d1 by (simp add: comp_def key)
  then show "key_ok ?p ?key t (snd c)"
    using tokens by (auto simp: key_ok_def c key bucket_ok_def upd_def)
  have "bucket_of ?key (map upd rows1) = Some (upd b)"
    using bucket_of_iff [OF d2, of ?key "upd b"] bucket_of_Some [OF b] by (simp add: key)
  moreover have "available ?p t (upd b) = tokens"
    using bucket_of_Some [OF b] tokens by (simp add: available_def upd_def)
  ultimately show "potential ?p ?key t (snd c) + (if rld_allowed (fst c) then 1 else 0) = potential ?p ?key t rows"
    unfolding pot c by (simp add: potential_def tokens_def)
qed

lemma consume_other:
  assumes "bucket_key h p i \<noteq> key" "distinct (map bk_key rows)"
  shows "bucket_of key (snd (consumeRateLimit h p i (at_default t) rows)) = bucket_of key rows"
    "distinct (map bk_key (snd (consumeRateLimit h p i (at_default t) rows)))"
    "\<lbrakk>b \<in> set (snd (consumeRateLimit h p i (at_default t) rows)); bk_key b = key\<rbrakk> \<Longrightarrow> b \<in> set rows"
proof -
  have keep: "List.find (\<lambda>b. bk_key b = key) (map (\<lambda>x. if bk_key x = k then f x else x) xs) = List.find (\<lambda>b. bk_key b = key) xs"
    if "k \<noteq> key" "\<And>x. bk_key (f x) = bk_key x" for k xs f using that by (induction xs) auto
  show "bucket_of key (snd (consumeRateLimit h p i (at_default t) rows)) = bucket_of key rows"
    using assms by (simp add: consumeRateLimit_def Let_def bucket_of_def keep find_append split: option.split)
  show "distinct (map bk_key (snd (consumeRateLimit h p i (at_default t) rows)))"
    using assms(2) by (auto simp: consumeRateLimit_def Let_def comp_def bucket_of_None if_distrib cong: if_cong)
  show "b \<in> set (snd (consumeRateLimit h p i (at_default t) rows)) \<Longrightarrow> bk_key b = key \<Longrightarrow> b \<in> set rows"
    using assms(1) by (auto simp: consumeRateLimit_def Let_def split: if_splits)
qed

lemma prune_potential:
  assumes "key_ok (rateLimitPolicies p) key t rows"
  shows "potential (rateLimitPolicies p) key t (snd (pruneRateLimits t rows)) = potential (rateLimitPolicies p) key t rows"
    "key_ok (rateLimitPolicies p) key t (snd (pruneRateLimits t rows))"
proof -
  let ?rows = "filter (\<lambda>b. \<not> bk_expiresAt b < t) rows"
  have d: "distinct (map bk_key rows)" "distinct (map bk_key ?rows)"
    using assms by (simp_all add: key_ok_def distinct_map_filter)
  show "key_ok (rateLimitPolicies p) key t (snd (pruneRateLimits t rows))"
    using assms d by (simp add: pruneRateLimits_def key_ok_def)
  show "potential (rateLimitPolicies p) key t (snd (pruneRateLimits t rows)) = potential (rateLimitPolicies p) key t rows"
  proof (cases "bucket_of key rows")
    case None
    then have "bucket_of key ?rows = None" by (auto simp: bucket_of_None)
    then show ?thesis using None by (simp add: pruneRateLimits_def potential_def)
  next
    case (Some b)
    have b: "b \<in> set rows" "bk_key b = key" "bucket_ok (rateLimitPolicies p) t b"
      using bucket_of_Some [OF Some] assms by (auto simp: key_ok_def)
    show ?thesis
    proof (cases "bk_expiresAt b < t")
      case True
      have "bucket_of key ?rows = None"
      proof (rule ccontr)
        assume "bucket_of key ?rows \<noteq> None"
        then obtain x where "bucket_of key ?rows = Some x" by blast
        then have "x \<in> set rows" "\<not> bk_expiresAt x < t" "bk_key x = key" by (auto dest: bucket_of_Some)
        then have "x = b" using Some bucket_of_iff [OF d(1), of key x] by simp
        then show False using True \<open>\<not> bk_expiresAt x < t\<close> by simp
      qed
      then show ?thesis
        using Some expired_full [OF b(3) True policy_positive(2)] by (simp add: pruneRateLimits_def potential_def)
    next
      case False
      then have "bucket_of key ?rows = Some b" using b(1,2) bucket_of_iff [OF d(2), of key b] by simp
      then show ?thesis using Some by (simp add: pruneRateLimits_def potential_def)
    qed
  qed
qed

lemma let_through_potential:
  assumes "key_ok (rateLimitPolicies p) (bucket_key h p i) a rows" "times_in_order a es b"
  shows "of_int (let_through h (bucket_key h p i) es rows) \<le>
    potential (rateLimitPolicies p) (bucket_key h p i) a rows +
    of_int (b - a) / 1000 * rlp_refillPerSecond (rateLimitPolicies p)"
  using assms
proof (induction es arbitrary: a rows)
  case Nil
  then show ?case
    using potential_bounds(1) [OF Nil(1)] policy_positive(2) [of p] by (simp add: add_nonneg_nonneg)
next
  case (Cons e es)
  let ?p = "rateLimitPolicies p" and ?key = "bucket_key h p i" and ?t = "event_time e"
  let ?r = "rlp_refillPerSecond (rateLimitPolicies p)"
  have t: "a \<le> ?t" "times_in_order ?t es b" using Cons.prems(2) by auto
  note later = potential_later [OF Cons.prems(1) t(1)]
  let ?n = "let_through h ?key (e # es) rows - let_through h ?key es (limit_event h e rows)"
  have step: "key_ok ?p ?key ?t (limit_event h e rows) \<and>
      potential ?p ?key ?t (limit_event h e rows) + of_int ?n = potential ?p ?key ?t rows"
  proof (cases e)
    case (Consume q j u)
    show ?thesis
    proof (cases "bucket_key h q j = ?key")
      case True
      then have "q = p" by (rule bucket_key_purpose)
      then show ?thesis
        using consume_same [OF later(2) [folded True [unfolded \<open>q = p\<close>]] refl, unfolded \<open>q = p\<close>] True Consume
        by (auto simp: \<open>q = p\<close>)
    next
      case False
      have "distinct (map bk_key rows)" using Cons.prems(1) by (simp add: key_ok_def)
      note o1 = consume_other [OF False this, where t = u]
      show ?thesis using o1 later(2) False Consume by (auto simp: potential_def key_ok_def)
    qed
  next
    case (Prune u)
    then show ?thesis using prune_potential [OF later(2)] by simp
  qed
  have "of_int (let_through h ?key es (limit_event h e rows)) \<le>
      potential ?p ?key ?t (limit_event h e rows) + of_int (b - ?t) / 1000 * ?r"
    using Cons.IH step t(2) by blast
  moreover have "of_int (b - a) / 1000 * ?r = of_int (?t - a) / 1000 * ?r + of_int (b - ?t) / 1000 * ?r"
    by (simp add: field_simps)
  moreover have "of_int (let_through h ?key (e # es) rows) =
      of_int ?n + (of_int (let_through h ?key es (limit_event h e rows)) :: rat)" by simp
  ultimately show ?case using step later(1) by linarith
qed

text \<open>The state of a table that has only seen such events.\<close>

lemma events_key_ok:
  assumes "key_ok (rateLimitPolicies p) (bucket_key h p i) a rows" "times_in_order a es b"
  shows "key_ok (rateLimitPolicies p) (bucket_key h p i) b (fold (limit_event h) es rows)"
  using assms
proof (induction es arbitrary: a rows)
  case Nil
  then show ?case using potential_later(2) by simp
next
  case (Cons e es)
  have t: "a \<le> event_time e" "times_in_order (event_time e) es b" using Cons.prems(2) by auto
  note later = potential_later(2) [OF Cons.prems(1) t(1)]
  have "key_ok (rateLimitPolicies p) (bucket_key h p i) (event_time e) (limit_event h e rows)"
  proof (cases e)
    case (Consume q j u)
    show ?thesis
    proof (cases "bucket_key h q j = bucket_key h p i")
      case True
      then have "q = p" by (rule bucket_key_purpose)
      then show ?thesis
        using consume_same(1) [OF later [folded True [unfolded \<open>q = p\<close>]] refl] True Consume by (simp add: \<open>q = p\<close>)
    next
      case False
      have "distinct (map bk_key rows)" using Cons.prems(1) by (simp add: key_ok_def)
      note o1 = consume_other [OF False this, where t = u]
      show ?thesis using o1 later Consume by (auto simp: key_ok_def)
    qed
  qed (use prune_potential(2) [OF later] in simp)
  from Cons.IH [OF this t(2)] show ?case by simp
qed

text \<open>Whoever is told to wait for so many seconds is let through then.\<close>

lemma consume_row:
  assumes "consumeRateLimit h p i (at_default t) rows = (d, rows2)"
  obtains b avail where "bucket_of (bucket_key h p i) rows2 = Some b" "bk_refilledAt b = t"
    "bk_tokens b = (if rld_allowed d then avail - 1 else avail)" "rld_allowed d \<longleftrightarrow> 1 \<le> avail"
    "rld_retryAfterSeconds d = (if rld_allowed d then 0 else \<lceil>(1 - avail) / rlp_refillPerSecond (rateLimitPolicies p)\<rceil>)"
proof -
  let ?p = "rateLimitPolicies p" and ?key = "bucket_key h p i"
  define rows1 where "rows1 = (if bucket_of ?key rows = None
    then rows @ [\<lparr>bk_key = ?key, bk_tokens = of_int (rlp_capacity ?p), bk_refilledAt = t, bk_expiresAt = t + full_after ?p\<rparr>]
    else rows)"
  obtain b where b: "bucket_of ?key rows1 = Some b"
    unfolding rows1_def by (cases "bucket_of ?key rows") (auto simp: bucket_of_def find_append)
  define avail where "avail = available ?p t b"
  define f where "f = (\<lambda>x :: bucketRow. x\<lparr>bk_tokens := (if 1 \<le> avail then avail - 1 else avail), bk_refilledAt := t,
    bk_expiresAt := t + full_after ?p\<rparr>)"
  have "List.find (\<lambda>b. bk_key b = ?key) (map (\<lambda>x. if bk_key x = ?key then f x else x) xs) =
      map_option f (List.find (\<lambda>b. bk_key b = ?key) xs)" for xs
    by (induction xs) (auto simp: f_def)
  then have "bucket_of ?key (map (\<lambda>x. if bk_key x = ?key then f x else x) rows1) = Some (f b)"
    using b by (simp add: bucket_of_def)
  moreover have "rows2 = map (\<lambda>x. if bk_key x = ?key then f x else x) rows1"
    "d = \<lparr>rld_allowed = (1 \<le> avail), rld_remaining = \<lfloor>if 1 \<le> avail then avail - 1 else avail\<rfloor>,
      rld_retryAfterSeconds = (if 1 \<le> avail then 0
        else \<lceil>(1 - (if 1 \<le> avail then avail - 1 else avail)) / rlp_refillPerSecond ?p\<rceil>)\<rparr>"
    using assms unfolding consume_default Let_def rows1_def [symmetric] b option.sel avail_def [symmetric]
    by (auto simp: f_def cong: if_cong)
  ultimately show thesis by (intro that [of "f b" avail]) (simp_all add: f_def)
qed

lemma allowed_iff:
  "rld_allowed (fst (consumeRateLimit h p i (at_default t) rows)) \<longleftrightarrow>
    1 \<le> potential (rateLimitPolicies p) (bucket_key h p i) t rows"
proof (cases "bucket_of (bucket_key h p i) rows")
  case None
  then show ?thesis
    by (simp add: consume_default Let_def potential_def available_def bucket_of_def find_append)
qed (simp add: consume_default Let_def potential_def)

text \<open>As long as nobody uses a key, what it could use at an instant only grows.\<close>

lemma idle_event:
  assumes "distinct (map bk_key rows)" "\<And>q j u. e = Consume q j u \<Longrightarrow> bucket_key h q j \<noteq> key"
  shows "potential p key later rows \<le> potential p key later (limit_event h e rows)"
    "distinct (map bk_key (limit_event h e rows))"
proof -
  show "potential p key later rows \<le> potential p key later (limit_event h e rows)"
  proof (cases e)
    case (Consume q j u)
    then show ?thesis using consume_other(1) [OF assms(2) assms(1), OF Consume] by (simp add: potential_def)
  next
    case (Prune u)
    let ?rows = "filter (\<lambda>b. \<not> bk_expiresAt b < u) rows"
    have d: "distinct (map bk_key ?rows)" using assms(1) by (simp add: distinct_map_filter)
    have "bucket_of key ?rows = None \<or> bucket_of key ?rows = bucket_of key rows"
    proof (cases "bucket_of key ?rows")
      case (Some b)
      then have "b \<in> set rows" "bk_key b = key" by (auto dest: bucket_of_Some)
      then have "bucket_of key rows = Some b" using bucket_of_iff [OF assms(1)] by blast
      then show ?thesis using Some by simp
    qed simp
    moreover have "potential p key later rows \<le> of_int (rlp_capacity p)"
      by (auto simp: potential_def available_def Let_def split: option.split)
    ultimately show ?thesis using Prune by (auto simp: pruneRateLimits_def potential_def)
  qed
  show "distinct (map bk_key (limit_event h e rows))"
  proof (cases e)
    case (Consume q j u)
    then show ?thesis using consume_other(2) [OF assms(2) assms(1), OF Consume] by simp
  qed (use assms(1) in \<open>simp add: pruneRateLimits_def distinct_map_filter\<close>)
qed

lemma idle_events:
  assumes "distinct (map bk_key rows)" "\<And>q j u. Consume q j u \<in> set es \<Longrightarrow> bucket_key h q j \<noteq> key"
  shows "potential p key later rows \<le> potential p key later (fold (limit_event h) es rows)"
  using assms
proof (induction es arbitrary: rows)
  case (Cons e es)
  note e = idle_event [of rows e h key, OF Cons.prems(1)]
  have "potential p key later rows \<le> potential p key later (limit_event h e rows)"
    by (rule e(1)) (use Cons.prems(2) in auto)
  also have "\<dots> \<le> potential p key later (fold (limit_event h) es (limit_event h e rows))"
    by (rule Cons.IH [OF e(2)]) (use Cons.prems(2) in auto)
  finally show ?case by simp
qed simp

lemma retry_works:
  assumes "consumeRateLimit h p i (at_default t) rows = (d, rows2)" "\<not> rld_allowed d"
    and "t + 1000 * rld_retryAfterSeconds d \<le> later"
  shows "1 \<le> potential (rateLimitPolicies p) (bucket_key h p i) later rows2"
proof -
  let ?r = "rlp_refillPerSecond (rateLimitPolicies p)" and ?key = "bucket_key h p i"
  obtain b avail where b: "bucket_of ?key rows2 = Some b" "bk_refilledAt b = t" "bk_tokens b = avail" "avail < 1"
    and s: "rld_retryAfterSeconds d = \<lceil>(1 - avail) / ?r\<rceil>"
    using consume_row [OF assms(1)] assms(2) by (metis not_less)
  note r = policy_positive(2) [of p]
  have wait: "(1 - avail) / ?r \<le> of_int (rld_retryAfterSeconds d)" unfolding s by (rule le_of_int_ceiling)
  have "of_int (1000 * rld_retryAfterSeconds d) \<le> (of_int (later - t) :: rat)"
    using assms(3) by (subst of_int_le_iff) simp
  then have "1000 * of_int (rld_retryAfterSeconds d) \<le> (of_int (later - t) :: rat)" by simp
  moreover have scale: "x \<le> z / 1000" if "x \<le> y" "1000 * y \<le> z" for x y z :: rat using that by linarith
  ultimately have q: "(1 - avail) / ?r \<le> of_int (later - t) / 1000" using wait by blast
  moreover have "0 < (1 - avail) / ?r" using r b(4) by simp
  ultimately have e: "1 - avail \<le> of_int (later - t) / 1000 * ?r" "0 \<le> of_int (later - t) / (1000 :: rat)"
    using r by (simp add: pos_divide_le_eq, linarith)
  have "1 \<le> rlp_capacity (rateLimitPolicies p)" using policy_positive(1) [of p] by simp
  then have "(1 :: rat) \<le> of_int (rlp_capacity (rateLimitPolicies p))" by simp
  then have "1 \<le> available (rateLimitPolicies p) later b"
    using e unfolding available_def Let_def b(2,3) by (simp add: max_def)
  then show ?thesis using b(1) by (simp add: potential_def)
qed

lemma consume_distinct:
  assumes "distinct (map bk_key rows)"
  shows "distinct (map bk_key (snd (consumeRateLimit h p i (at_default t) rows)))"
  using assms by (auto simp: consume_default Let_def comp_def bucket_of_None if_distrib cong: if_cong)

lemma retry_idle:
  assumes "consumeRateLimit h p i (at_default t) rows = (d, rows2)" "\<not> rld_allowed d" "distinct (map bk_key rows)"
    and "\<And>q j u. Consume q j u \<in> set es \<Longrightarrow> bucket_key h q j \<noteq> bucket_key h p i"
    and "t + 1000 * rld_retryAfterSeconds d \<le> later"
  shows "rld_allowed (fst (consumeRateLimit h p i (at_default later) (fold (limit_event h) es rows2)))"
proof -
  have "distinct (map bk_key rows2)" using consume_distinct [OF assms(3), of h p i t] assms(1) by simp
  note idle = idle_events [OF this, of es h "bucket_key h p i" "rateLimitPolicies p" later]
  show ?thesis
    unfolding allowed_iff by (rule order_trans [OF retry_works [OF assms(1,2,5)] idle]) (rule assms(4))
qed

end
