(* ===== verification/Sessions.thy ===== *)
theory Sessions
  imports Authz Errors
begin

text \<open>
  \<open>src/src/server/auth/sessions.ts\<close>: server-side sessions. The browser holds a token, the table its SHA-256,
  which is a parameter, as are the generated tokens and identifiers. A row is never deleted; it ends by idle
  time, absolute lifetime, revocation or a closed account. The unique index on the hash refuses a second row.
\<close>

definition minute :: int where "minute = 60000"
definition hour :: int where "hour = 60 * minute"
definition day :: int where "day = 24 * hour"

record limits =
  lim_idleMs :: int
  lim_absoluteMs :: int
  lim_stepUpMs :: int

fun sessionPolicy :: "accountKind \<Rightarrow> limits" where
  "sessionPolicy Account_staff = \<lparr>lim_idleMs = 30 * minute, lim_absoluteMs = 12 * hour, lim_stepUpMs = 5 * minute\<rparr>"
| "sessionPolicy Account_client = \<lparr>lim_idleMs = 24 * hour, lim_absoluteMs = 7 * day, lim_stepUpMs = 15 * minute\<rparr>"

definition touchIntervalMs :: int where "touchIntervalMs = minute"

record accountRef =
  acc_kind :: accountKind
  acc_id :: string

record sessionRow =
  se_id :: string
  se_tokenHash :: string
  se_account :: accountRef
  se_createdAt :: int
  se_expiresAt :: int
  se_lastSeenAt :: int
  se_reverifiedAt :: "int option"
  se_revokedAt :: "int option"

record session =
  ss_id :: string
  ss_account :: accountRef
  ss_createdAt :: int
  ss_expiresAt :: int
  ss_lastSeenAt :: int
  ss_reverifiedAt :: "int option"

record issuedSession =
  is_token :: string
  is_session :: session

text \<open>The tables of the accounts, which sessions only read, and the sessions.\<close>

record signInAccount = principalRow +
  pr_email :: string
  pr_displayName :: string
  pr_version :: int

record accountTables =
  ac_principals :: "signInAccount list"
  ac_memberships :: "membershipRow list"
  ac_restrictions :: "(string \<times> string) list"

record authTables =
  au_accounts :: accountTables
  au_sessions :: "sessionRow list"

definition toSession :: "sessionRow \<Rightarrow> session" where
  "toSession r = \<lparr>ss_id = se_id r, ss_account = se_account r, ss_createdAt = se_createdAt r,
     ss_expiresAt = se_expiresAt r, ss_lastSeenAt = se_lastSeenAt r, ss_reverifiedAt = se_reverifiedAt r\<rparr>"

text \<open>What the server generates for a new session.\<close>

record newSession =
  ns_token :: string
  ns_id :: string

definition insertSession ::
    "(string \<Rightarrow> string) \<Rightarrow> newSession \<Rightarrow> accountRef \<Rightarrow> int \<Rightarrow> int \<Rightarrow> int option \<Rightarrow> sessionRow list
      \<Rightarrow> thrown + issuedSession \<times> sessionRow list" where
  "insertSession sha new account now expiresAt reverifiedAt rows =
     (let r = \<lparr>se_id = ns_id new, se_tokenHash = sha (ns_token new), se_account = account, se_createdAt = now,
               se_expiresAt = expiresAt, se_lastSeenAt = now, se_reverifiedAt = reverifiedAt, se_revokedAt = None\<rparr>
      in if se_tokenHash r \<in> se_tokenHash ` set rows \<or> se_id r \<in> se_id ` set rows
         then Inl (ThrownOther ''duplicate_key'')
         else Inr (\<lparr>is_token = ns_token new, is_session = toSession r\<rparr>, rows @ [r]))"

definition createSession ::
    "(string \<Rightarrow> string) \<Rightarrow> newSession \<Rightarrow> accountRef \<Rightarrow> int \<Rightarrow> sessionRow list
      \<Rightarrow> thrown + issuedSession \<times> sessionRow list" where
  "createSession sha new account now rows =
     insertSession sha new account now (now + lim_absoluteMs (sessionPolicy (acc_kind account))) (Some now) rows"

definition privacyProcessingRestricted :: "(string \<times> string) list \<Rightarrow> string \<Rightarrow> string \<Rightarrow> bool" where
  "privacyProcessingRestricted restrictions partyId purpose = ((partyId, purpose) \<in> set restrictions)"

definition accountIsActive :: "accountTables \<Rightarrow> accountRef \<Rightarrow> bool" where
  "accountIsActive t a =
     (case List.find (\<lambda>p. pr_id p = acc_id a) (ac_principals t) of
        None \<Rightarrow> False
      | Some p \<Rightarrow>
          pr_status p = Account_active \<and> pr_kind p = acc_kind a \<and>
          \<not> (acc_kind a = Account_client \<and> privacyProcessingRestricted (ac_restrictions t) (pr_partyId p) ''client_access'') \<and>
          (acc_kind a = Account_client \<or>
             map_option mb_state (List.find (\<lambda>m. mb_principalId m = pr_id p) (ac_memberships t)) = Some Member_active))"

text \<open>Neither past its absolute end nor idle for too long.\<close>

definition in_time :: "int \<Rightarrow> sessionRow \<Rightarrow> bool" where
  "in_time now r =
     (\<not> se_expiresAt r \<le> now \<and> \<not> lim_idleMs (sessionPolicy (acc_kind (se_account r))) \<le> now - se_lastSeenAt r)"

definition findLiveRow :: "(string \<Rightarrow> string) \<Rightarrow> string \<Rightarrow> int \<Rightarrow> sessionRow list \<Rightarrow> sessionRow option" where
  "findLiveRow sha token now rows =
     (case List.find (\<lambda>r. se_tokenHash r = sha token \<and> se_revokedAt r = None) rows of
        None \<Rightarrow> None
      | Some r \<Rightarrow> if in_time now r then Some r else None)"

definition requireLiveSession :: "authTables \<Rightarrow> session \<Rightarrow> int \<Rightarrow> thrown + session" where
  "requireLiveSession t s now =
     (case List.find (\<lambda>r. se_id r = ss_id s \<and> se_account r = ss_account s \<and> se_revokedAt r = None) (au_sessions t) of
        None \<Rightarrow> Inl (ThrownApp (AppError Err_unauthenticated no_options))
      | Some r \<Rightarrow>
          if in_time now r \<and> accountIsActive (au_accounts t) (ss_account s) then Inr (toSession r)
          else Inl (ThrownApp (AppError Err_unauthenticated no_options)))"

datatype access = Access_active | Access_denied

record resolvedSession =
  rs_session :: session
  rs_access :: access

definition update_session :: "string \<Rightarrow> (sessionRow \<Rightarrow> sessionRow) \<Rightarrow> sessionRow list \<Rightarrow> sessionRow list" where
  "update_session i f rows = map (\<lambda>r. if se_id r = i then f r else r) rows"

definition resolveSession ::
    "(string \<Rightarrow> string) \<Rightarrow> string \<Rightarrow> int \<Rightarrow> authTables \<Rightarrow> resolvedSession option \<times> authTables" where
  "resolveSession sha token now t =
     (case findLiveRow sha token now (au_sessions t) of
        None \<Rightarrow> (None, t)
      | Some r \<Rightarrow>
          if \<not> accountIsActive (au_accounts t) (se_account r)
          then (Some \<lparr>rs_session = toSession r, rs_access = Access_denied\<rparr>, t)
          else if touchIntervalMs \<le> now - se_lastSeenAt r
          then (Some \<lparr>rs_session = (toSession r)\<lparr>ss_lastSeenAt := now\<rparr>, rs_access = Access_active\<rparr>,
                t\<lparr>au_sessions := update_session (se_id r) (\<lambda>x. x\<lparr>se_lastSeenAt := now\<rparr>) (au_sessions t)\<rparr>)
          else (Some \<lparr>rs_session = toSession r, rs_access = Access_active\<rparr>, t))"

definition readSession ::
    "(string \<Rightarrow> string) \<Rightarrow> string \<Rightarrow> int \<Rightarrow> authTables \<Rightarrow> session option \<times> authTables" where
  "readSession sha token now t =
     (case resolveSession sha token now t of
        (Some x, t2) \<Rightarrow> ((if rs_access x = Access_active then Some (rs_session x) else None), t2)
      | (None, t2) \<Rightarrow> (None, t2))"

text \<open>A thrown insert undoes the transaction, the revocation with it.\<close>

definition rotateSession ::
    "(string \<Rightarrow> string) \<Rightarrow> newSession \<Rightarrow> string \<Rightarrow> int \<Rightarrow> bool \<Rightarrow> authTables
      \<Rightarrow> (thrown + issuedSession option) \<times> authTables" where
  "rotateSession sha new token now reverified t =
     (case findLiveRow sha token now (au_sessions t) of
        None \<Rightarrow> (Inr None, t)
      | Some r \<Rightarrow>
          if \<not> accountIsActive (au_accounts t) (se_account r) then (Inr None, t)
          else let revoked = update_session (se_id r) (\<lambda>x. if se_revokedAt x = None then x\<lparr>se_revokedAt := Some now\<rparr> else x)
                     (au_sessions t)
               in (case insertSession sha new (se_account r) now (se_expiresAt r)
                      (if reverified then Some now else se_reverifiedAt r) revoked of
                     Inl e \<Rightarrow> (Inl e, t)
                   | Inr (x, rows) \<Rightarrow> (Inr (Some x), t\<lparr>au_sessions := rows\<rparr>)))"

definition revokeSession :: "(string \<Rightarrow> string) \<Rightarrow> string \<Rightarrow> int \<Rightarrow> sessionRow list \<Rightarrow> sessionRow list" where
  "revokeSession sha token now rows =
     map (\<lambda>r. if se_tokenHash r = sha token \<and> se_revokedAt r = None then r\<lparr>se_revokedAt := Some now\<rparr> else r) rows"

definition revokeAllSessions ::
    "accountRef \<Rightarrow> string option \<Rightarrow> int \<Rightarrow> sessionRow list \<Rightarrow> int \<times> sessionRow list" where
  "revokeAllSessions account exceptSessionId now rows =
     (let hit = (\<lambda>r. acc_id (se_account r) = acc_id account \<and> se_revokedAt r = None \<and>
            \<not> (truthy exceptSessionId \<and> exceptSessionId = Some (se_id r)))
      in (int (length (filter hit rows)), map (\<lambda>r. if hit r then r\<lparr>se_revokedAt := Some now\<rparr> else r) rows))"

definition isFresh :: "session \<Rightarrow> int \<Rightarrow> int \<Rightarrow> bool" where
  "isFresh s now maxAgeMs =
     (case ss_reverifiedAt s of None \<Rightarrow> False
      | Some v \<Rightarrow> now < ss_expiresAt s \<and> v \<le> now \<and> now - v \<le> maxAgeMs)"

definition requireFreshAuth :: "session \<Rightarrow> int \<Rightarrow> thrown + unit" where
  "requireFreshAuth s now =
     (if isFresh s now (lim_stepUpMs (sessionPolicy (acc_kind (ss_account s)))) then Inr ()
      else Inl (ThrownApp (AppError Err_step_up_required no_options)))"

subsection \<open>What happens to the sessions\<close>

text \<open>
  The calls in the order in which they take effect, each at the time its caller saw. \<open>Accounts\<close> is any change
  of the account tables by other parts of the program.
\<close>

datatype sessionStep =
    Create newSession accountRef int
  | Resolve string int
  | Rotate newSession string int bool
  | Revoke string int
  | Revoke_all accountRef "string option" int
  | Accounts accountTables

fun session_step :: "(string \<Rightarrow> string) \<Rightarrow> sessionStep \<Rightarrow> authTables \<Rightarrow> authTables" where
  "session_step sha (Create new a now) t =
     (case createSession sha new a now (au_sessions t) of Inl e \<Rightarrow> t | Inr (x, rows) \<Rightarrow> t\<lparr>au_sessions := rows\<rparr>)"
| "session_step sha (Resolve token now) t = snd (resolveSession sha token now t)"
| "session_step sha (Rotate new token now reverified) t = snd (rotateSession sha new token now reverified t)"
| "session_step sha (Revoke token now) t = t\<lparr>au_sessions := revokeSession sha token now (au_sessions t)\<rparr>"
| "session_step sha (Revoke_all a except now) t = t\<lparr>au_sessions := snd (revokeAllSessions a except now (au_sessions t))\<rparr>"
| "session_step sha (Accounts accounts) t = t\<lparr>au_accounts := accounts\<rparr>"

definition run_sessions :: "(string \<Rightarrow> string) \<Rightarrow> sessionStep list \<Rightarrow> authTables \<Rightarrow> authTables" where
  "run_sessions sha steps t = fold (session_step sha) steps t"

definition sessions_ok :: "sessionRow list \<Rightarrow> bool" where
  "sessions_ok rows \<longleftrightarrow> distinct (map se_tokenHash rows) \<and> distinct (map se_id rows)"

text \<open>The accounts a step may sign in.\<close>

primrec signs_in :: "sessionStep \<Rightarrow> string option" where
  "signs_in (Create new a now) = Some (acc_id a)"
| "signs_in (Resolve token now) = None"
| "signs_in (Rotate new token now reverified) = None"
| "signs_in (Revoke token now) = None"
| "signs_in (Revoke_all a except now) = None"
| "signs_in (Accounts accounts) = None"

text \<open>
  What a step does to the rows: the old ones keep their place, identity, account and end, a revocation stays,
  and a new row is unrevoked and unlike the old ones in its hash and identifier.
\<close>

definition kept :: "sessionRow \<Rightarrow> sessionRow \<Rightarrow> bool" where
  "kept r r' \<longleftrightarrow> se_id r' = se_id r \<and> se_tokenHash r' = se_tokenHash r \<and> se_account r' = se_account r \<and>
     se_createdAt r' = se_createdAt r \<and> se_expiresAt r' = se_expiresAt r \<and>
     (se_revokedAt r \<noteq> None \<longrightarrow> se_revokedAt r' = se_revokedAt r)"

definition rows_kept :: "sessionRow list \<Rightarrow> sessionRow list \<Rightarrow> bool" where
  "rows_kept rows rows' \<longleftrightarrow> (\<exists>f. (\<forall>r. kept r (f r)) \<and> rows' = map f rows)"

definition row_added :: "sessionRow list \<Rightarrow> sessionRow \<Rightarrow> sessionRow list \<Rightarrow> bool" where
  "row_added rows r rows' \<longleftrightarrow> (\<exists>mid. rows_kept rows mid \<and> rows' = mid @ [r] \<and> se_revokedAt r = None \<and>
     se_tokenHash r \<notin> se_tokenHash ` set mid \<and> se_id r \<notin> se_id ` set mid)"

lemma kept_refl [simp]: "kept r r" by (simp add: kept_def)

lemma rows_kept_map: "(\<And>r. kept r (f r)) \<Longrightarrow> rows_kept rows (map f rows)"
  by (auto simp: rows_kept_def)

lemma rows_kept_refl [simp]: "rows_kept rows rows"
  using rows_kept_map [of "\<lambda>r. r" rows] by simp

lemma rows_kept_from: "rows_kept rows mid \<Longrightarrow> r' \<in> set mid \<Longrightarrow> \<exists>r \<in> set rows. kept r r'"
  unfolding rows_kept_def by fastforce

lemma rows_kept_to: "rows_kept rows mid \<Longrightarrow> r \<in> set rows \<Longrightarrow> \<exists>r' \<in> set mid. kept r r'"
  unfolding rows_kept_def by fastforce

lemma rows_kept_hash: "rows_kept rows mid \<Longrightarrow> h \<in> se_tokenHash ` set rows \<Longrightarrow> h \<in> se_tokenHash ` set mid"
proof -
  assume kept: "rows_kept rows mid" and "h \<in> se_tokenHash ` set rows"
  then obtain r where r: "r \<in> set rows" "h = se_tokenHash r" by blast
  from rows_kept_to [OF kept r(1)] obtain r' where "r' \<in> set mid" "se_tokenHash r' = se_tokenHash r"
    by (auto simp: kept_def)
  then show ?thesis unfolding r(2) by (metis imageI)
qed

lemma kept_fields:
  assumes "kept r r'"
  shows "se_id r' = se_id r" "se_tokenHash r' = se_tokenHash r" "se_account r' = se_account r"
    "se_expiresAt r' = se_expiresAt r" "se_revokedAt r' = None \<Longrightarrow> se_revokedAt r = None"
  using assms by (auto simp: kept_def)

lemma rows_kept_touch: "rows_kept rows (update_session i (\<lambda>x. x\<lparr>se_lastSeenAt := now\<rparr>) rows)"
  unfolding update_session_def by (rule rows_kept_map) (simp add: kept_def)

lemma rows_kept_end:
  "rows_kept rows (update_session i (\<lambda>x. if se_revokedAt x = None then x\<lparr>se_revokedAt := Some now\<rparr> else x) rows)"
  unfolding update_session_def by (rule rows_kept_map) (auto simp: kept_def)

lemma rows_kept_revoke: "rows_kept rows (revokeSession sha token now rows)"
  unfolding revokeSession_def by (rule rows_kept_map) (auto simp: kept_def)

lemma rows_kept_revoke_all: "rows_kept rows (snd (revokeAllSessions a except now rows))"
  unfolding revokeAllSessions_def Let_def snd_conv by (rule rows_kept_map) (auto simp: kept_def)

lemma insert_adds:
  assumes "insertSession sha new a now expiry v rows = Inr (x, rows')"
  shows "\<exists>r. rows' = rows @ [r] \<and> se_revokedAt r = None \<and> se_tokenHash r \<notin> se_tokenHash ` set rows \<and>
    se_id r \<notin> se_id ` set rows \<and> se_account r = a \<and> se_createdAt r = now \<and> se_expiresAt r = expiry \<and>
    se_tokenHash r = sha (ns_token new) \<and> is_session x = toSession r"
  using assms by (auto simp: insertSession_def Let_def split: if_splits)

lemma findLiveRow_row:
  assumes "findLiveRow sha token now rows = Some r"
  shows "r \<in> set rows" "se_tokenHash r = sha token" "se_revokedAt r = None" "in_time now r"
  using assms by (auto simp: findLiveRow_def find_Some_iff split: option.splits if_splits)

lemma findLiveRow_None: "(\<And>r. r \<in> set rows \<Longrightarrow> se_tokenHash r = sha token \<Longrightarrow> se_revokedAt r \<noteq> None) \<Longrightarrow>
    findLiveRow sha token now rows = None"
  by (force simp: findLiveRow_def find_Some_iff split: option.splits)

text \<open>Every step keeps the rows, or adds one for a sign-in or in the place of a live row.\<close>

lemma step_rows:
  shows "rows_kept (au_sessions t) (au_sessions (session_step sha e t)) \<or>
    (\<exists>r. row_added (au_sessions t) r (au_sessions (session_step sha e t)) \<and>
      ((\<exists>new a now. e = Create new a now \<and> se_account r = a \<and> se_createdAt r = now \<and>
          se_expiresAt r = now + lim_absoluteMs (sessionPolicy (acc_kind a))) \<or>
       (\<exists>q \<in> set (au_sessions t). se_revokedAt q = None \<and> se_account r = se_account q \<and> se_expiresAt r = se_expiresAt q)))"
proof (cases e)
  case (Create new a now)
  show ?thesis
  proof (cases "createSession sha new a now (au_sessions t)")
    case (Inr p)
    obtain x rows where p: "p = (x, rows)" by (cases p)
    obtain r where r: "rows = au_sessions t @ [r]" "se_revokedAt r = None"
        "se_tokenHash r \<notin> se_tokenHash ` set (au_sessions t)" "se_id r \<notin> se_id ` set (au_sessions t)"
        "se_account r = a" "se_createdAt r = now" "se_expiresAt r = now + lim_absoluteMs (sessionPolicy (acc_kind a))"
      using insert_adds [OF Inr [unfolded createSession_def p]] by auto
    have "row_added (au_sessions t) r rows"
      unfolding row_added_def using r by (intro exI [of _ "au_sessions t"]) simp
    then show ?thesis using Create Inr p r by auto
  qed (simp add: Create)
next
  case (Resolve token now)
  then show ?thesis by (auto simp: resolveSession_def rows_kept_touch split: option.splits)
next
  case (Rotate new token now reverified)
  show ?thesis
  proof (cases "findLiveRow sha token now (au_sessions t)")
    case None
    then show ?thesis using Rotate by (simp add: rotateSession_def)
  next
    case (Some q)
    let ?mid = "update_session (se_id q) (\<lambda>x. if se_revokedAt x = None then x\<lparr>se_revokedAt := Some now\<rparr> else x) (au_sessions t)"
      and ?ins = "\<lambda>rows. insertSession sha new (se_account q) now (se_expiresAt q) (if reverified then Some now else se_reverifiedAt q) rows"
    show ?thesis
    proof (cases "?ins ?mid")
      case (Inr p)
      obtain x rows where p: "p = (x, rows)" by (cases p)
      obtain r where r: "rows = ?mid @ [r]" "se_revokedAt r = None" "se_tokenHash r \<notin> se_tokenHash ` set ?mid"
          "se_id r \<notin> se_id ` set ?mid" "se_account r = se_account q" "se_expiresAt r = se_expiresAt q"
        using insert_adds [OF Inr [unfolded p]] by auto
      have "row_added (au_sessions t) r rows"
        unfolding row_added_def using r rows_kept_end by blast
      then show ?thesis using Rotate Some Inr p r findLiveRow_row [OF Some] by (auto simp: rotateSession_def)
    qed (simp add: Rotate Some rotateSession_def)
  qed
next
  case (Revoke token now)
  then show ?thesis by (simp add: rows_kept_revoke)
next
  case (Revoke_all a except now)
  then show ?thesis by (simp add: rows_kept_revoke_all)
qed simp

text \<open>An unrevoked row comes from an unrevoked row with its account and end, or from a sign-in.\<close>

lemma step_lineage:
  assumes "r' \<in> set (au_sessions (session_step sha e t))" "se_revokedAt r' = None"
  shows "(\<exists>r \<in> set (au_sessions t). se_revokedAt r = None \<and> se_account r = se_account r' \<and> se_expiresAt r = se_expiresAt r') \<or>
    (\<exists>new now. e = Create new (se_account r') now \<and> se_expiresAt r' = now + lim_absoluteMs (sessionPolicy (acc_kind (se_account r'))))"
proof -
  have old: "\<exists>r \<in> set (au_sessions t). se_revokedAt r = None \<and> se_account r = se_account r' \<and> se_expiresAt r = se_expiresAt r'"
    if mid: "rows_kept (au_sessions t) mid" "r' \<in> set mid" for mid
  proof -
    obtain r where "r \<in> set (au_sessions t)" "kept r r'" using rows_kept_from [OF mid] by blast
    then show ?thesis using assms(2) kept_fields(3-5) [of r r'] by (intro bexI [of _ r]) auto
  qed
  show ?thesis
  proof (cases "rows_kept (au_sessions t) (au_sessions (session_step sha e t))")
    case True
    then show ?thesis using old [OF _ assms(1)] by blast
  next
    case False
    then obtain r where added: "row_added (au_sessions t) r (au_sessions (session_step sha e t))"
      and how: "(\<exists>new a now. e = Create new a now \<and> se_account r = a \<and> se_createdAt r = now \<and>
          se_expiresAt r = now + lim_absoluteMs (sessionPolicy (acc_kind a))) \<or>
        (\<exists>q \<in> set (au_sessions t). se_revokedAt q = None \<and> se_account r = se_account q \<and> se_expiresAt r = se_expiresAt q)"
      using step_rows [of t sha e] by blast
    from added obtain mid where mid: "rows_kept (au_sessions t) mid" "au_sessions (session_step sha e t) = mid @ [r]"
      by (auto simp: row_added_def)
    show ?thesis
    proof (cases "r' = r")
      case True
      then show ?thesis using how by auto
    next
      case False
      then show ?thesis using old [OF mid(1)] mid(2) assms(1) by auto
    qed
  qed
qed

lemma run_lineage:
  assumes "r' \<in> set (au_sessions (run_sessions sha steps t))" "se_revokedAt r' = None"
  shows "(\<exists>r \<in> set (au_sessions t). se_revokedAt r = None \<and> se_account r = se_account r' \<and> se_expiresAt r = se_expiresAt r') \<or>
    (\<exists>new now. Create new (se_account r') now \<in> set steps \<and>
      se_expiresAt r' = now + lim_absoluteMs (sessionPolicy (acc_kind (se_account r'))))"
  using assms
proof (induction steps arbitrary: t)
  case (Cons e steps)
  from Cons.IH [of "session_step sha e t"] Cons.prems
  consider (old) r where "r \<in> set (au_sessions (session_step sha e t))" "se_revokedAt r = None"
      "se_account r = se_account r'" "se_expiresAt r = se_expiresAt r'"
    | (new) "\<exists>new now. Create new (se_account r') now \<in> set steps \<and>
      se_expiresAt r' = now + lim_absoluteMs (sessionPolicy (acc_kind (se_account r')))"
    by (auto simp: run_sessions_def)
  then show ?case
  proof cases
    case old
    then show ?thesis using step_lineage [OF old(1,2)] by auto
  qed auto
qed (auto simp: run_sessions_def)

lemma readSession_row:
  assumes "fst (readSession sha token now t) = Some s"
  shows "\<exists>r \<in> set (au_sessions t). se_revokedAt r = None \<and> in_time now r \<and> se_tokenHash r = sha token \<and>
    ss_account s = se_account r \<and> ss_expiresAt s = se_expiresAt r \<and> ss_id s = se_id r \<and>
    accountIsActive (au_accounts t) (se_account r)"
proof -
  obtain x where x: "fst (resolveSession sha token now t) = Some x" "rs_access x = Access_active" "s = rs_session x"
    using assms by (auto simp: readSession_def split: option.splits prod.splits if_splits)
  obtain r where r: "findLiveRow sha token now (au_sessions t) = Some r"
    using x(1) by (cases "findLiveRow sha token now (au_sessions t)") (simp_all add: resolveSession_def)
  show ?thesis using x findLiveRow_row [OF r] r
    by (auto simp: resolveSession_def toSession_def split: if_splits intro!: bexI [of _ r])
qed

text \<open>A token whose every row is revoked stays useless: its hash is taken, so no new row has it.\<close>

definition token_dead :: "string \<Rightarrow> sessionRow list \<Rightarrow> bool" where
  "token_dead h rows \<longleftrightarrow> h \<in> se_tokenHash ` set rows \<and> (\<forall>r \<in> set rows. se_tokenHash r = h \<longrightarrow> se_revokedAt r \<noteq> None)"

lemma token_dead_kept: "token_dead h rows \<Longrightarrow> rows_kept rows mid \<Longrightarrow> token_dead h mid"
proof -
  assume dead: "token_dead h rows" and kept: "rows_kept rows mid"
  have "h \<in> se_tokenHash ` set mid" using rows_kept_hash [OF kept] dead by (simp add: token_dead_def)
  moreover have "se_revokedAt r' \<noteq> None" if r': "r' \<in> set mid" "se_tokenHash r' = h" for r'
  proof -
    obtain r where "r \<in> set rows" "kept r r'" using rows_kept_from [OF kept r'(1)] by blast
    then show ?thesis using dead r'(2) unfolding token_dead_def kept_def by force
  qed
  ultimately show "token_dead h mid" by (simp add: token_dead_def)
qed

lemma token_dead_added: "token_dead h rows \<Longrightarrow> row_added rows r rows' \<Longrightarrow> token_dead h rows'"
  using token_dead_kept [of h rows] by (fastforce simp: row_added_def token_dead_def)

lemma token_dead_step: "token_dead h (au_sessions t) \<Longrightarrow> token_dead h (au_sessions (session_step sha e t))"
  using step_rows [of t sha e] token_dead_kept token_dead_added by metis

lemma token_dead_run: "token_dead h (au_sessions t) \<Longrightarrow> token_dead h (au_sessions (run_sessions sha steps t))"
  unfolding run_sessions_def
  by (induction steps arbitrary: t) (simp_all add: token_dead_step)

lemma token_dead_read:
  "token_dead (sha token) (au_sessions t) \<Longrightarrow> resolveSession sha token now t = (None, t)"
  "token_dead (sha token) (au_sessions t) \<Longrightarrow> rotateSession sha new token now v t = (Inr None, t)"
  using findLiveRow_None [of "au_sessions t" sha token now]
  by (auto simp: token_dead_def resolveSession_def rotateSession_def)

lemma revoke_token_dead:
  assumes "sha token \<in> se_tokenHash ` set rows"
  shows "token_dead (sha token) (revokeSession sha token now rows)"
  unfolding token_dead_def using rows_kept_hash [OF rows_kept_revoke assms]
  by (auto simp: revokeSession_def split: if_splits)

text \<open>The table's unique columns stay unique.\<close>

lemma sessions_ok_kept: "sessions_ok rows \<Longrightarrow> rows_kept rows mid \<Longrightarrow> sessions_ok mid"
  by (auto simp: sessions_ok_def rows_kept_def kept_def comp_def)

lemma sessions_ok_added: "sessions_ok rows \<Longrightarrow> row_added rows r rows' \<Longrightarrow> sessions_ok rows'"
  using sessions_ok_kept [of rows] by (auto simp: row_added_def sessions_ok_def)

lemma sessions_ok_step: "sessions_ok (au_sessions t) \<Longrightarrow> sessions_ok (au_sessions (session_step sha e t))"
  using step_rows [of t sha e] sessions_ok_kept sessions_ok_added by metis

lemma sessions_ok_run: "sessions_ok (au_sessions t) \<Longrightarrow> sessions_ok (au_sessions (run_sessions sha steps t))"
  unfolding run_sessions_def by (induction steps arbitrary: t) (simp_all add: sessions_ok_step)

text \<open>After a rotation the old token is useless.\<close>

lemma rotate_token_dead:
  assumes "rotateSession sha new token now v t = (Inr (Some x), t')" "sessions_ok (au_sessions t)"
  shows "token_dead (sha token) (au_sessions t')" "is_token x = ns_token new"
proof -
  obtain q where q: "findLiveRow sha token now (au_sessions t) = Some q"
    using assms(1) by (cases "findLiveRow sha token now (au_sessions t)") (simp_all add: rotateSession_def)
  note row = findLiveRow_row [OF q]
  let ?mid = "update_session (se_id q) (\<lambda>x. if se_revokedAt x = None then x\<lparr>se_revokedAt := Some now\<rparr> else x) (au_sessions t)"
  have ins: "insertSession sha new (se_account q) now (se_expiresAt q) (if v then Some now else se_reverifiedAt q) ?mid =
      Inr (x, au_sessions t')"
    using assms(1) q by (auto simp: rotateSession_def Let_def split: if_splits sum.splits)
  have unique: "r = q" if "r \<in> set (au_sessions t)" "se_tokenHash r = sha token" for r
    using assms(2) that row(1,2) by (intro inj_onD [of se_tokenHash "set (au_sessions t)"]) (auto simp: sessions_ok_def distinct_map)
  have "sha token \<in> se_tokenHash ` set ?mid"
    using row(1,2) by (intro rows_kept_hash [OF rows_kept_end] image_eqI [of _ _ q]) simp_all
  moreover have "se_revokedAt r \<noteq> None" if mid: "r \<in> set ?mid" "se_tokenHash r = sha token" for r
  proof -
    obtain r0 where r0: "r0 \<in> set (au_sessions t)"
        "r = (if se_id r0 = se_id q then if se_revokedAt r0 = None then r0\<lparr>se_revokedAt := Some now\<rparr> else r0 else r0)"
      using mid(1) by (auto simp: update_session_def)
    have "se_tokenHash r = se_tokenHash r0" unfolding r0(2) by simp
    then have "r0 = q" using unique [OF r0(1)] mid(2) by simp
    then show ?thesis unfolding r0(2) using row(3) by simp
  qed
  ultimately have "token_dead (sha token) ?mid" by (simp add: token_dead_def)
  then show "token_dead (sha token) (au_sessions t')"
    using insert_adds [OF ins] by (auto simp: token_dead_def)
  show "is_token x = ns_token new" using ins by (auto simp: insertSession_def Let_def split: if_splits)
qed

end
