(* ===== verification/EmailLink.thy ===== *)
theory EmailLink
  imports Sessions RateLimit Records Outbox Dates
begin

text \<open>
  \<open>src/src/server/auth/email-link.ts\<close> and \<open>email-link-delivery.ts\<close>: sign-in of clients by a link. A link is a row
  with the hash of its token; looking at it changes nothing, using it consumes the row and starts a session in
  one transaction. What the platform provides is a record of parameters: SHA-256, the keyed hash, the parser of
  URLs, the encoding of a query value, and the checks of email, URL and datetime texts.
\<close>

definition emailLinkTtlMs :: int where "emailLinkTtlMs = 15 * 60000"

record parsedUrl =
  pu_origin :: string
  pu_pathname :: string
  pu_search :: string
  pu_hash :: string
  pu_username :: string
  pu_password :: string
  pu_searchParams :: "(string \<times> string) list"

text \<open>\<open>le_url\<close> parses a URL against a base where there is one; it throws where it yields nothing.\<close>

record linkEnv =
  le_sha :: "string \<Rightarrow> string"
  le_keyedHash :: "string \<Rightarrow> string"
  le_url :: "string \<Rightarrow> string option \<Rightarrow> parsedUrl option"
  le_encode :: "string \<Rightarrow> string"
  le_isEmail :: "string \<Rightarrow> bool"
  le_isUrl :: "string \<Rightarrow> bool"
  le_isDatetime :: "string \<Rightarrow> bool"
  le_clientHost :: string

datatype tokenPurpose = Purpose_sign_in | Purpose_invitation

record signInToken =
  st_id :: string
  st_tokenHash :: string
  st_purpose :: tokenPurpose
  st_principalKind :: accountKind
  st_principalId :: "string option"
  st_email :: string
  st_returnTo :: "string option"
  st_createdAt :: int
  st_expiresAt :: int
  st_consumedAt :: "int option"
  st_revokedAt :: "int option"

datatype contactKind = Contact_email | Contact_phone | Contact_whatsapp | Contact_viber | Contact_postal
datatype contactVerification = Contact_unverified | Contact_pending | Contact_verified | Contact_failed

record contactMethod =
  cm_id :: string
  cm_partyId :: string
  cm_kind :: contactKind
  cm_value :: string
  cm_normalizedValue :: string
  cm_verification :: contactVerification
  cm_verifiedAt :: "int option"
  cm_lastFailureAt :: "int option"
  cm_version :: int

record emailLinkJob =
  lj_email :: string
  lj_returnTo :: "string option"
  lj_locale :: publicLocale

record linkTables =
  lt_auth :: authTables
  lt_tokens :: "signInToken list"
  lt_contacts :: "contactMethod list"
  lt_buckets :: "bucketRow list"
  lt_jobs :: "emailLinkJob list"
  lt_outbox :: outbox
  lt_audit :: "json auditRecord list"

definition emailLinkUrl :: "linkEnv \<Rightarrow> publicLocale \<Rightarrow> string \<Rightarrow> thrown + string" where
  "emailLinkUrl env locale token =
     (case le_url env (''/'' @ locale_name locale @ ''/access/confirm'') (Some (le_clientHost env)) of
        None \<Rightarrow> Inl (ThrownOther ''invalid_url'')
      | Some u \<Rightarrow> Inr (pu_origin u @ pu_pathname u @ ''?token='' @ le_encode env token))"

definition forbidden_char :: "char \<Rightarrow> bool" where
  "forbidden_char c = (c = CHR 0x5C \<or> (of_char c :: nat) \<le> 31 \<or> (of_char c :: nat) = 127)"

definition safeReturnPath :: "linkEnv \<Rightarrow> string option \<Rightarrow> string option" where
  "safeReturnPath env value =
     (case value of None \<Rightarrow> None
      | Some v \<Rightarrow>
          if \<not> starts_with ''/'' v \<or> starts_with ''//'' v then None
          else if list_ex forbidden_char v then None
          else (case le_url env v (Some (le_clientHost env)) of
                  None \<Rightarrow> None
                | Some u \<Rightarrow>
                    if pu_origin u \<noteq> le_clientHost env then None
                    else Some (pu_pathname u @ pu_search u @ pu_hash u)))"

definition findActiveClient :: "accountTables \<Rightarrow> string \<Rightarrow> signInAccount option" where
  "findActiveClient t email =
     (case List.find (\<lambda>p. pr_kind p = Account_client \<and> to_lower (pr_email p) = email \<and> pr_status p = Account_active)
        (ac_principals t) of
        None \<Rightarrow> None
      | Some p \<Rightarrow>
          if privacyProcessingRestricted (ac_restrictions t) (pr_partyId p) ''client_access'' then None else Some p)"

subsection \<open>Asking for a link\<close>

record emailLinkRequest =
  lq_email :: string
  lq_returnTo :: "string option"
  lq_clientIp :: string
  lq_locale :: "publicLocale option"
  lq_now :: int

text \<open>The limits are consumed in transactions of their own, so they stay consumed when the request is refused.\<close>

definition requestEmailLink :: "linkEnv \<Rightarrow> emailLinkRequest \<Rightarrow> linkTables \<Rightarrow> (thrown + unit) \<times> linkTables" where
  "requestEmailLink env q t =
     (let parsed = trim (lq_email q)
      in if \<not> (le_isEmail env parsed \<and> length parsed \<le> 254)
         then (Inl (ThrownApp (AppError Err_validation_failed (no_options\<lparr>aeo_fieldErrors :=
                 Some (JObject [(''email'', JArray [JString ''invalid_email''])])\<rparr>))), t)
         else let email = to_lower parsed;
                  (r1, b1) = enforceRateLimit (le_keyedHash env) Sign_in_ip (lq_clientIp q) (at_default (lq_now q)) (lt_buckets t)
              in (case r1 of Inl e \<Rightarrow> (Inl e, t\<lparr>lt_buckets := b1\<rparr>)
                  | Inr _ \<Rightarrow>
                      let (r2, b2) = enforceRateLimit (le_keyedHash env) Sign_in_email (email @ '' '' @ lq_clientIp q)
                            (at_default (lq_now q)) b1
                      in (case r2 of Inl e \<Rightarrow> (Inl e, t\<lparr>lt_buckets := b2\<rparr>)
                          | Inr _ \<Rightarrow> (Inr (), t\<lparr>lt_buckets := b2, lt_jobs := lt_jobs t @
                              [\<lparr>lj_email = email, lj_returnTo = lq_returnTo q, lj_locale = the_or Loc_bg (lq_locale q)\<rparr>]\<rparr>))))"

text \<open>What the job generates: the token and the identifiers of the rows it inserts.\<close>

record newLink =
  nl_token :: string
  nl_id :: string
  nl_actionId :: string

definition new_token_row :: "linkEnv \<Rightarrow> newLink \<Rightarrow> emailLinkJob \<Rightarrow> string \<Rightarrow> int \<Rightarrow> signInToken" where
  "new_token_row env new job accountId now =
     \<lparr>st_id = nl_id new, st_tokenHash = le_sha env (nl_token new), st_purpose = Purpose_sign_in,
      st_principalKind = Account_client, st_principalId = Some accountId, st_email = lj_email job,
      st_returnTo = safeReturnPath env (lj_returnTo job), st_createdAt = now,
      st_expiresAt = now + emailLinkTtlMs, st_consumedAt = None, st_revokedAt = None\<rparr>"

definition link_message :: "newLink \<Rightarrow> emailLinkJob \<Rightarrow> string \<Rightarrow> int \<Rightarrow> newOutboxMessage" where
  "link_message new job link now =
     \<lparr>nm_idempotencyKey = ''email_link:'' @ nl_id new, nm_channel = Chan_email, nm_recipient = lj_email job,
      nm_template = emailLinkTemplate,
      nm_params = JObject [(''locale'', JString (locale_name (lj_locale job))),
        (''expiresAt'', JString (to_iso (now + emailLinkTtlMs)))],
      nm_secretParams = Some (JObject [(''url'', JString link)]), nm_messageId = None, nm_outboxEventId = None,
      nm_subject = Some (emailLinkSubject, nl_id new)\<rparr>"

definition issueEmailLink ::
    "linkEnv \<Rightarrow> newLink \<Rightarrow> emailLinkJob \<Rightarrow> int \<Rightarrow> linkTables \<Rightarrow> (thrown + unit) \<times> linkTables" where
  "issueEmailLink env new job now t =
     (case findActiveClient (au_accounts (lt_auth t)) (lj_email job) of
        None \<Rightarrow> (Inr (), t)
      | Some account \<Rightarrow>
          let row = new_token_row env new job (pr_id account) now
          in if st_tokenHash row \<in> st_tokenHash ` set (lt_tokens t) \<or> st_id row \<in> st_id ` set (lt_tokens t)
             then (Inl (ThrownOther ''duplicate_key''), t)
             else (case emailLinkUrl env (lj_locale job) (nl_token new) of
                     Inl e \<Rightarrow> (Inl e, t)
                   | Inr link \<Rightarrow>
                       (case enqueueMessage (le_sha env) (link_message new job link now) (nl_actionId new) now (lt_outbox t) of
                          (Inl e, _) \<Rightarrow> (Inl e, t)
                        | (Inr _, ob) \<Rightarrow> (Inr (), t\<lparr>lt_tokens := lt_tokens t @ [row], lt_outbox := ob\<rparr>))))"

subsection \<open>Looking at a link\<close>

datatype emailLinkState = Link_valid | Link_invalid | Link_expired | Link_consumed | Link_revoked

record emailLinkInspection =
  li_state :: emailLinkState
  li_returnTo :: "string option"

definition token_of :: "string \<Rightarrow> signInToken list \<Rightarrow> signInToken option" where
  "token_of hash rows = List.find (\<lambda>r. st_tokenHash r = hash) rows"

definition without_return :: "emailLinkState \<Rightarrow> emailLinkInspection" where
  "without_return s = \<lparr>li_state = s, li_returnTo = None\<rparr>"

text \<open>The account is still the active client with the address the link went to.\<close>

definition account_current :: "accountTables \<Rightarrow> string \<Rightarrow> string \<Rightarrow> bool" where
  "account_current t principalId email =
     (case List.find (\<lambda>p. pr_id p = principalId) (ac_principals t) of
        None \<Rightarrow> False
      | Some p \<Rightarrow>
          pr_kind p = Account_client \<and> pr_status p = Account_active \<and> to_lower (pr_email p) = to_lower email \<and>
          \<not> privacyProcessingRestricted (ac_restrictions t) (pr_partyId p) ''client_access'')"

definition inspectEmailLink :: "linkEnv \<Rightarrow> string \<Rightarrow> int \<Rightarrow> linkTables \<Rightarrow> emailLinkInspection" where
  "inspectEmailLink env token now t =
     (case token_of (le_sha env token) (lt_tokens t) of
        None \<Rightarrow> without_return Link_invalid
      | Some r \<Rightarrow>
          if st_purpose r \<noteq> Purpose_sign_in \<or> st_principalKind r \<noteq> Account_client \<or> \<not> truthy (st_principalId r)
          then without_return Link_invalid
          else if st_revokedAt r \<noteq> None then without_return Link_revoked
          else if st_consumedAt r \<noteq> None then without_return Link_consumed
          else if st_expiresAt r \<le> now then without_return Link_expired
          else if \<not> account_current (au_accounts (lt_auth t)) (the_or [] (st_principalId r)) (st_email r)
          then without_return Link_revoked
          else \<lparr>li_state = Link_valid, li_returnTo = st_returnTo r\<rparr>)"

primrec linkErrors :: "emailLinkState \<Rightarrow> errorCode" where
  "linkErrors Link_valid = Err_link_invalid"
| "linkErrors Link_invalid = Err_link_invalid"
| "linkErrors Link_expired = Err_link_expired"
| "linkErrors Link_consumed = Err_link_consumed"
| "linkErrors Link_revoked = Err_link_revoked"

subsection \<open>Using a link\<close>

record consumedEmailLink =
  ce_issued :: issuedSession
  ce_returnTo :: "string option"

definition consumable :: "string \<Rightarrow> int \<Rightarrow> signInToken \<Rightarrow> bool" where
  "consumable hash now r =
     (st_tokenHash r = hash \<and> st_purpose r = Purpose_sign_in \<and> st_principalKind r = Account_client \<and>
      st_consumedAt r = None \<and> st_revokedAt r = None \<and> now < st_expiresAt r)"

definition matching_contact :: "string \<Rightarrow> string \<Rightarrow> contactMethod \<Rightarrow> bool" where
  "matching_contact partyId email c =
     (cm_partyId c = partyId \<and> cm_kind c = Contact_email \<and> cm_normalizedValue c = email)"

definition verify_contact :: "string \<Rightarrow> string \<Rightarrow> string \<Rightarrow> int \<Rightarrow> contactMethod list \<Rightarrow> contactMethod list" where
  "verify_contact newId partyId email now rows =
     (if list_ex (matching_contact partyId (to_lower email)) rows
      then map (\<lambda>c. if matching_contact partyId (to_lower email) c
             then c\<lparr>cm_verification := Contact_verified, cm_verifiedAt := Some now, cm_lastFailureAt := None\<rparr> else c) rows
      else rows @ [\<lparr>cm_id = newId, cm_partyId = partyId, cm_kind = Contact_email, cm_value = email, cm_normalizedValue = to_lower email,
             cm_verification = Contact_verified, cm_verifiedAt = Some now, cm_lastFailureAt = None,
             cm_version = 1\<rparr>])"

text \<open>The options, and the identifier generated for a new contact method.\<close>

record consumeLinkOptions =
  cl_now :: int
  cl_currentSessionToken :: "string option"
  cl_correlationId :: "string option"
  cl_contactId :: string

definition sign_in_audit :: "consumeLinkOptions \<Rightarrow> string \<Rightarrow> session \<Rightarrow> json auditRecord" where
  "sign_in_audit options accountId s =
     \<lparr>adr_action = ''session.sign_in'', adr_actor = \<lparr>actor_kind = Actor_client, actor_id = accountId\<rparr>,
      adr_capability = None, adr_recordType = Some ''principal'', adr_recordId = Some accountId, adr_operationId = None,
      adr_correlationId = (if truthy (cl_correlationId options) then cl_correlationId options else None),
      adr_payload = JObject [(''method'', JString ''email_link''), (''sessionId'', JString (ss_id s))],
      adr_at = cl_now options\<rparr>"

text \<open>The transaction: nothing where no row can be consumed, an error, or the session with the new tables.\<close>

definition consume_link ::
    "linkEnv \<Rightarrow> newSession \<Rightarrow> string \<Rightarrow> consumeLinkOptions \<Rightarrow> linkTables
      \<Rightarrow> thrown + (consumedEmailLink \<times> linkTables) option" where
  "consume_link env new token options t =
     (let now = cl_now options; hash = le_sha env token; auth = lt_auth t
      in case List.find (consumable hash now) (lt_tokens t) of
           None \<Rightarrow> Inr None
         | Some r \<Rightarrow>
             (case findActiveClient (au_accounts auth) (to_lower (st_email r)) of
                None \<Rightarrow> Inl (ThrownApp (AppError Err_link_invalid no_options))
              | Some account \<Rightarrow>
                  if st_principalId r \<noteq> Some (pr_id account) then Inl (ThrownApp (AppError Err_link_invalid no_options))
                  else
                    let ended = (if truthy (cl_currentSessionToken options)
                          then revokeSession (le_sha env) (the_or [] (cl_currentSessionToken options)) now (au_sessions auth)
                          else au_sessions auth)
                    in if \<not> list_ex (matching_contact (pr_partyId account) (to_lower (st_email r))) (lt_contacts t) \<and>
                          cl_contactId options \<in> cm_id ` set (lt_contacts t)
                       then Inl (ThrownOther ''duplicate_key'')
                       else case createSession (le_sha env) new \<lparr>acc_kind = Account_client, acc_id = pr_id account\<rparr> now ended of
                         Inl e \<Rightarrow> Inl e
                       | Inr (issued, rows) \<Rightarrow>
                           Inr (Some (\<lparr>ce_issued = issued, ce_returnTo = st_returnTo r\<rparr>,
                             t\<lparr>lt_tokens := map (\<lambda>x. if consumable hash now x then x\<lparr>st_consumedAt := Some now\<rparr> else x) (lt_tokens t),
                               lt_contacts := verify_contact (cl_contactId options) (pr_partyId account) (st_email r) now (lt_contacts t),
                               lt_auth := auth\<lparr>au_sessions := rows\<rparr>,
                               lt_audit := recordAudit (sign_in_audit options (pr_id account) (is_session issued)) (lt_audit t)\<rparr>))))"

definition consumeEmailLink ::
    "linkEnv \<Rightarrow> newSession \<Rightarrow> string \<Rightarrow> consumeLinkOptions \<Rightarrow> linkTables
      \<Rightarrow> (thrown + consumedEmailLink) \<times> linkTables" where
  "consumeEmailLink env new token options t =
     (case consume_link env new token options t of
        Inl e \<Rightarrow> (Inl e, t)
      | Inr (Some (c, t2)) \<Rightarrow> (Inr c, t2)
      | Inr None \<Rightarrow> (Inl (ThrownApp (AppError
           (linkErrors (li_state (inspectEmailLink env token (cl_now options) t))) no_options)), t))"

subsection \<open>Whether a queued link may still go out\<close>

definition hex_char :: "char \<Rightarrow> bool" where
  "hex_char c = (is_digit c \<or> c \<in> set ''abcdef'')"

definition token_char :: "char \<Rightarrow> bool" where
  "token_char c = (is_digit c \<or> is_lower c \<or> is_upper c \<or> c \<in> set ''_-'')"

definition strict_object :: "string list \<Rightarrow> json \<Rightarrow> bool" where
  "strict_object ks v = (case v of JObject es \<Rightarrow> set (map fst es) \<subseteq> set ks | _ \<Rightarrow> False)"

definition text_field :: "(string \<Rightarrow> bool) \<Rightarrow> string \<Rightarrow> json \<Rightarrow> string option" where
  "text_field ok k v = (case json_get v k of JString s \<Rightarrow> if ok s then Some s else None | _ \<Rightarrow> None)"

record linkPayload =
  lp_recipient :: string
  lp_locale :: string
  lp_expiresAt :: string
  lp_secretDigest :: string

definition payloadSchema :: "linkEnv \<Rightarrow> json \<Rightarrow> linkPayload option" where
  "payloadSchema env v =
     (let params = json_get v ''params''
      in if \<not> strict_object [''channel'', ''recipient'', ''template'', ''params'', ''secretDigest''] v
            \<or> \<not> strict_object [''locale'', ''expiresAt''] params then None
         else case (text_field (\<lambda>s. s = ''email'') ''channel'' v, text_field (le_isEmail env) ''recipient'' v,
                    text_field (\<lambda>s. s = emailLinkTemplate) ''template'' v, text_field isPublicLocale ''locale'' params,
                    text_field (le_isDatetime env) ''expiresAt'' params,
                    text_field (\<lambda>s. length s = 64 \<and> list_all hex_char s) ''secretDigest'' v) of
             (Some _, Some recipient, Some _, Some locale, Some expiresAt, Some digest) \<Rightarrow>
               Some \<lparr>lp_recipient = recipient, lp_locale = locale, lp_expiresAt = expiresAt, lp_secretDigest = digest\<rparr>
           | _ \<Rightarrow> None)"

definition secret_url :: "linkEnv \<Rightarrow> json option \<Rightarrow> string option" where
  "secret_url env v =
     (case v of None \<Rightarrow> None
      | Some s \<Rightarrow> if strict_object [''url''] s then text_field (le_isUrl env) ''url'' s else None)"

text \<open>The token of a well formed link of this site.\<close>

definition link_token :: "linkEnv \<Rightarrow> string \<Rightarrow> string \<Rightarrow> string option" where
  "link_token env locale text =
     (case (le_url env text None, le_url env (le_clientHost env) None) of
        (Some u, Some host) \<Rightarrow>
          (case map_of (pu_searchParams u) ''token'' of
             None \<Rightarrow> None
           | Some token \<Rightarrow>
               if pu_origin u \<noteq> pu_origin host \<or> pu_pathname u \<noteq> ''/'' @ locale @ ''/access/confirm'' \<or> pu_hash u \<noteq> []
                  \<or> pu_username u \<noteq> [] \<or> pu_password u \<noteq> [] \<or> length (pu_searchParams u) \<noteq> 1 \<or> token = []
                  \<or> \<not> (length token = 43 \<and> list_all token_char token)
               then None else Some token)
      | _ \<Rightarrow> None)"

definition credential_matches :: "externalActionRow \<Rightarrow> linkPayload \<Rightarrow> int \<Rightarrow> signInToken \<Rightarrow> bool" where
  "credential_matches row payload now c =
     (truthy (st_principalId c) \<and> st_purpose c = Purpose_sign_in \<and> st_principalKind c = Account_client \<and>
      st_revokedAt c = None \<and> st_consumedAt c = None \<and> now < st_expiresAt c \<and> st_createdAt c \<le> now \<and>
      to_lower (st_email c) = to_lower (lp_recipient payload) \<and> to_iso (st_expiresAt c) = lp_expiresAt payload \<and>
      xa_effectKey row = ''email_link:'' @ st_id c \<and>
      ((xa_subjectType row = Some emailLinkSubject \<and> xa_subjectId row = Some (st_id c)) \<or>
       (xa_subjectType row = None \<and> xa_subjectId row = None)))"

definition emailLinkDeliveryIsCurrent :: "linkEnv \<Rightarrow> externalActionRow \<Rightarrow> int \<Rightarrow> linkTables \<Rightarrow> bool" where
  "emailLinkDeliveryIsCurrent env row now t =
     (case (payloadSchema env (xa_payload row), secret_url env (xa_secretPayload row)) of
        (Some payload, Some url) \<Rightarrow>
          xa_kind row = Ext_email_send \<and> xa_payloadDigest row = le_sha env (canonicalJson (xa_payload row)) \<and>
          lp_secretDigest payload = le_sha env (canonicalJson (JObject [(''url'', JString url)])) \<and>
          (case link_token env (lp_locale payload) url of
             None \<Rightarrow> False
           | Some token \<Rightarrow>
               (case token_of (le_sha env token) (lt_tokens t) of
                  None \<Rightarrow> False
                | Some c \<Rightarrow> credential_matches row payload now c \<and>
                    account_current (au_accounts (lt_auth t)) (the_or [] (st_principalId c)) (st_email c)))
      | _ \<Rightarrow> False)"

end
