(* ===== verification/LinkUse.thy ===== *)
theory LinkUse
  imports EmailLink
begin

text \<open>
  What can happen to sign-in links over time, and what follows: a link is issued for fifteen minutes to the
  account of its address, used at most once, and its use starts a session of that account and nothing else.
\<close>

text \<open>
  The events in the order of their effects. Other parts of the program only revoke links that are neither used nor
  revoked: \<open>privacy/safety-ledger.ts\<close> those of some accounts, \<open>recovery/quarantine.ts\<close> all of them (\<open>None\<close>).
\<close>

datatype linkEvent =
    Ask emailLinkRequest
  | Issue newLink emailLinkJob int
  | Use newSession string consumeLinkOptions
  | Session_event sessionStep
  | Revoke_links "string list option" int

definition revoke_links :: "string list option \<Rightarrow> int \<Rightarrow> signInToken list \<Rightarrow> signInToken list" where
  "revoke_links principalIds now rows =
     map (\<lambda>r. if st_revokedAt r = None \<and> st_consumedAt r = None \<and>
            (case principalIds of None \<Rightarrow> True
             | Some l \<Rightarrow> st_principalKind r = Account_client \<and> st_principalId r \<in> Some ` set l)
          then r\<lparr>st_revokedAt := Some now\<rparr> else r) rows"

primrec link_event :: "linkEnv \<Rightarrow> linkEvent \<Rightarrow> linkTables \<Rightarrow> linkTables" where
  "link_event env (Ask q) t = snd (requestEmailLink env q t)"
| "link_event env (Issue new job now) t = snd (issueEmailLink env new job now t)"
| "link_event env (Use new token options) t = snd (consumeEmailLink env new token options t)"
| "link_event env (Session_event e) t = t\<lparr>lt_auth := session_step (le_sha env) e (lt_auth t)\<rparr>"
| "link_event env (Revoke_links l now) t = t\<lparr>lt_tokens := revoke_links l now (lt_tokens t)\<rparr>"

definition run_links :: "linkEnv \<Rightarrow> linkEvent list \<Rightarrow> linkTables \<Rightarrow> linkTables" where
  "run_links env events t = fold (link_event env) events t"

text \<open>Every row was issued: it is a client's sign-in link for fifteen minutes, and its hash is its own.\<close>

definition issued_row :: "signInToken \<Rightarrow> bool" where
  "issued_row r \<longleftrightarrow> st_purpose r = Purpose_sign_in \<and> st_principalKind r = Account_client \<and>
     st_expiresAt r = st_createdAt r + emailLinkTtlMs"

definition links_ok :: "signInToken list \<Rightarrow> bool" where
  "links_ok rows \<longleftrightarrow> distinct (map st_tokenHash rows) \<and> distinct (map st_id rows) \<and> list_all issued_row rows"

definition link_kept :: "signInToken \<Rightarrow> signInToken \<Rightarrow> bool" where
  "link_kept r r' \<longleftrightarrow> st_id r' = st_id r \<and> st_tokenHash r' = st_tokenHash r \<and> st_purpose r' = st_purpose r \<and>
     st_principalKind r' = st_principalKind r \<and> st_principalId r' = st_principalId r \<and> st_email r' = st_email r \<and>
     st_createdAt r' = st_createdAt r \<and> st_expiresAt r' = st_expiresAt r \<and>
     (st_consumedAt r \<noteq> None \<longrightarrow> st_consumedAt r' \<noteq> None) \<and> (st_revokedAt r \<noteq> None \<longrightarrow> st_revokedAt r' \<noteq> None)"

lemma link_kept_refl [simp]: "link_kept r r" by (simp add: link_kept_def)

inductive links_step :: "signInToken list \<Rightarrow> signInToken list \<Rightarrow> bool" where
  kept: "(\<And>r. link_kept r (f r)) \<Longrightarrow> links_step rows (map f rows)"
| added: "st_tokenHash r \<notin> st_tokenHash ` set rows \<Longrightarrow> st_id r \<notin> st_id ` set rows \<Longrightarrow> issued_row r \<Longrightarrow>
    links_step rows (rows @ [r])"

lemma links_step_refl [simp]: "links_step rows rows"
  using links_step.kept [of "\<lambda>r. r" rows] by simp

lemma request_keeps: "lt_tokens (snd (requestEmailLink env q t)) = lt_tokens t"
  "lt_auth (snd (requestEmailLink env q t)) = lt_auth t"
  by (auto simp: requestEmailLink_def Let_def split: prod.splits sum.splits)

lemma issue_step: "links_step (lt_tokens t) (lt_tokens (snd (issueEmailLink env new job now t)))"
proof (cases "findActiveClient (au_accounts (lt_auth t)) (lj_email job)")
  case None
  then show ?thesis by (simp add: issueEmailLink_def)
next
  case (Some account)
  let ?row = "new_token_row env new job (pr_id account) now"
  have "lt_tokens (snd (issueEmailLink env new job now t)) = lt_tokens t \<or>
      st_tokenHash ?row \<notin> st_tokenHash ` set (lt_tokens t) \<and> st_id ?row \<notin> st_id ` set (lt_tokens t) \<and>
      lt_tokens (snd (issueEmailLink env new job now t)) = lt_tokens t @ [?row]"
    by (auto simp: issueEmailLink_def Some Let_def split: sum.split prod.split)
  moreover have "issued_row ?row" by (simp add: issued_row_def new_token_row_def)
  ultimately show ?thesis by (metis links_step.added links_step_refl)
qed

text \<open>A use that succeeds, in full.\<close>

lemma consume_cases:
  assumes "consumeEmailLink env new token options t = (Inr c, t')"
  obtains r account ended rows where
    "List.find (consumable (le_sha env token) (cl_now options)) (lt_tokens t) = Some r"
    "findActiveClient (au_accounts (lt_auth t)) (to_lower (st_email r)) = Some account"
    "st_principalId r = Some (pr_id account)"
    "ended = (if truthy (cl_currentSessionToken options)
       then revokeSession (le_sha env) (the_or [] (cl_currentSessionToken options)) (cl_now options) (au_sessions (lt_auth t))
       else au_sessions (lt_auth t))"
    "createSession (le_sha env) new \<lparr>acc_kind = Account_client, acc_id = pr_id account\<rparr> (cl_now options) ended =
       Inr (ce_issued c, rows)"
    "ce_returnTo c = st_returnTo r"
    "t' = t\<lparr>lt_tokens := map (\<lambda>x. if consumable (le_sha env token) (cl_now options) x
              then x\<lparr>st_consumedAt := Some (cl_now options)\<rparr> else x) (lt_tokens t),
            lt_contacts := verify_contact (cl_contactId options) (pr_partyId account) (st_email r) (cl_now options) (lt_contacts t),
            lt_auth := (lt_auth t)\<lparr>au_sessions := rows\<rparr>,
            lt_audit := recordAudit (sign_in_audit options (pr_id account) (is_session (ce_issued c))) (lt_audit t)\<rparr>"
  using assms unfolding consumeEmailLink_def consume_link_def
  by (auto simp: Let_def split: option.splits sum.splits prod.splits if_splits)

lemma consume_tokens:
  assumes "consumeEmailLink env new token options t = (Inr c, t')"
  obtains r where "List.find (consumable (le_sha env token) (cl_now options)) (lt_tokens t) = Some r"
    "lt_tokens t' = map (\<lambda>x. if consumable (le_sha env token) (cl_now options) x
       then x\<lparr>st_consumedAt := Some (cl_now options)\<rparr> else x) (lt_tokens t)"
  by (rule consume_cases [OF assms]) (rule that, assumption, simp)

text \<open>A use that fails changes nothing.\<close>

lemma consume_error: "consumeEmailLink env new token options t = (Inl e, t') \<Longrightarrow> t' = t"
  by (auto simp: consumeEmailLink_def split: sum.splits option.splits)

lemma use_step: "links_step (lt_tokens t) (lt_tokens (snd (consumeEmailLink env new token options t)))"
proof (cases "consumeEmailLink env new token options t")
  case (Pair res t')
  show ?thesis
  proof (cases res)
    case (Inl e)
    then show ?thesis using Pair consume_error [of env new token options t e t'] by simp
  next
    case (Inr c)
    then obtain r where "lt_tokens t' = map (\<lambda>x. if consumable (le_sha env token) (cl_now options) x
              then x\<lparr>st_consumedAt := Some (cl_now options)\<rparr> else x) (lt_tokens t)"
      using Pair consume_tokens [of env new token options t c t'] by metis
    then show ?thesis using Pair by (auto intro!: links_step.kept simp: link_kept_def)
  qed
qed

lemma event_step: "links_step (lt_tokens t) (lt_tokens (link_event env e t))"
proof (cases e)
  case (Revoke_links l now)
  then show ?thesis by (auto simp: revoke_links_def link_kept_def intro!: links_step.kept)
qed (simp_all add: request_keeps issue_step use_step)

lemma links_step_ok: "links_step rows rows' \<Longrightarrow> links_ok rows \<Longrightarrow> links_ok rows'"
proof (induction rule: links_step.induct)
  case (kept f rows)
  have "map st_tokenHash (map f rows) = map st_tokenHash rows" "map st_id (map f rows) = map st_id rows"
    using kept.hyps by (simp_all add: link_kept_def)
  moreover have "issued_row (f r) = issued_row r" for r using kept.hyps [of r] by (simp add: link_kept_def issued_row_def)
  ultimately show ?case using kept.prems by (simp add: links_ok_def list_all_iff del: map_map)
qed (auto simp: links_ok_def)

lemma run_links_ok: "links_ok (lt_tokens t) \<Longrightarrow> links_ok (lt_tokens (run_links env events t))"
  unfolding run_links_def
  by (induction events arbitrary: t) (auto intro: links_step_ok [OF event_step])

subsection \<open>A used link stays used\<close>

definition link_dead :: "string \<Rightarrow> signInToken list \<Rightarrow> bool" where
  "link_dead hash rows \<longleftrightarrow> hash \<in> st_tokenHash ` set rows \<and>
     (\<forall>r \<in> set rows. st_tokenHash r = hash \<longrightarrow> st_consumedAt r \<noteq> None \<or> st_revokedAt r \<noteq> None)"

lemma link_dead_step: "links_step rows rows' \<Longrightarrow> link_dead hash rows \<Longrightarrow> link_dead hash rows'"
proof (induction rule: links_step.induct)
  case (kept f rows)
  have f: "st_tokenHash (f r) = st_tokenHash r" "st_consumedAt r \<noteq> None \<Longrightarrow> st_consumedAt (f r) \<noteq> None"
    "st_revokedAt r \<noteq> None \<Longrightarrow> st_revokedAt (f r) \<noteq> None" for r using kept.hyps [of r] by (auto simp: link_kept_def)
  have "st_tokenHash ` set (map f rows) = st_tokenHash ` set rows" using f(1) by (simp add: image_image)
  moreover have "st_consumedAt (f r) \<noteq> None \<or> st_revokedAt (f r) \<noteq> None" if "r \<in> set rows" "st_tokenHash (f r) = hash" for r
    using that f [of r] kept.prems by (auto simp: link_dead_def)
  ultimately show ?case using kept.prems by (simp add: link_dead_def)
qed (auto simp: link_dead_def)

lemma link_dead_run: "link_dead hash (lt_tokens t) \<Longrightarrow> link_dead hash (lt_tokens (run_links env events t))"
  unfolding run_links_def
  by (induction events arbitrary: t) (auto intro: link_dead_step [OF event_step])

lemma consumed_dead:
  assumes "consumeEmailLink env new token options t = (Inr c, t')" "links_ok (lt_tokens t)"
  shows "link_dead (le_sha env token) (lt_tokens t')"
proof -
  obtain r where r: "List.find (consumable (le_sha env token) (cl_now options)) (lt_tokens t) = Some r"
    and t': "lt_tokens t' = map (\<lambda>x. if consumable (le_sha env token) (cl_now options) x
              then x\<lparr>st_consumedAt := Some (cl_now options)\<rparr> else x) (lt_tokens t)"
    by (rule consume_tokens [OF assms(1)])
  have m: "r \<in> set (lt_tokens t)" "consumable (le_sha env token) (cl_now options) r" using r by (auto simp: find_Some_iff)
  have unique: "x = r" if "x \<in> set (lt_tokens t)" "st_tokenHash x = le_sha env token" for x
    using assms(2) that m by (intro inj_onD [of st_tokenHash "set (lt_tokens t)"]) (auto simp: links_ok_def distinct_map consumable_def)
  have "le_sha env token \<in> st_tokenHash ` set (lt_tokens t')"
    unfolding t' using m by (intro image_eqI [of _ _ "r\<lparr>st_consumedAt := Some (cl_now options)\<rparr>"]) (auto simp: consumable_def)
  moreover have "st_consumedAt x \<noteq> None" if "x \<in> set (lt_tokens t')" "st_tokenHash x = le_sha env token" for x
  proof -
    obtain y where y: "y \<in> set (lt_tokens t)"
        "x = (if consumable (le_sha env token) (cl_now options) y then y\<lparr>st_consumedAt := Some (cl_now options)\<rparr> else y)"
      using \<open>x \<in> set (lt_tokens t')\<close> unfolding t' by auto
    have "st_tokenHash x = st_tokenHash y" unfolding y(2) by simp
    then have "y = r" using unique y(1) that(2) by simp
    then show ?thesis unfolding y(2) using m(2) by simp
  qed
  ultimately show ?thesis by (auto simp: link_dead_def)
qed

lemma dead_refused:
  assumes "link_dead (le_sha env token) (lt_tokens t)"
  shows "\<exists>e. consumeEmailLink env new token options t = (Inl e, t)"
    "li_state (inspectEmailLink env token now t) \<noteq> Link_valid"
proof -
  have "List.find (consumable (le_sha env token) (cl_now options)) (lt_tokens t) = None"
    using assms by (auto simp: find_None_iff link_dead_def consumable_def)
  then show "\<exists>e. consumeEmailLink env new token options t = (Inl e, t)"
    by (simp add: consumeEmailLink_def consume_link_def Let_def)
  show "li_state (inspectEmailLink env token now t) \<noteq> Link_valid"
  proof (cases "token_of (le_sha env token) (lt_tokens t)")
    case (Some r)
    then have "r \<in> set (lt_tokens t)" "st_tokenHash r = le_sha env token" by (auto simp: token_of_def find_Some_iff)
    then have "st_consumedAt r \<noteq> None \<or> st_revokedAt r \<noteq> None" using assms by (auto simp: link_dead_def)
    then show ?thesis by (auto simp: inspectEmailLink_def Some without_return_def)
  qed (simp add: inspectEmailLink_def without_return_def)
qed

text \<open>Nor is its email handed to the provider.\<close>

lemma dead_not_delivered:
  assumes "link_dead (le_sha env token) (lt_tokens t)" "secret_url env (xa_secretPayload row) = Some url"
    and "\<And>locale. link_token env locale url \<in> {None, Some token}"
  shows "\<not> emailLinkDeliveryIsCurrent env row now t"
proof
  assume d: "emailLinkDeliveryIsCurrent env row now t"
  then obtain payload tok c where p: "payloadSchema env (xa_payload row) = Some payload"
      "link_token env (lp_locale payload) url = Some tok" "token_of (le_sha env tok) (lt_tokens t) = Some c"
      "credential_matches row payload now c"
    using assms(2) by (auto simp: emailLinkDeliveryIsCurrent_def split: option.splits)
  have "tok = token" using assms(3) [of "lp_locale payload"] p(2) by auto
  then have "c \<in> set (lt_tokens t)" "st_tokenHash c = le_sha env token" using p(3) by (auto simp: token_of_def find_Some_iff)
  then show False using assms(1) p(4) by (auto simp: link_dead_def credential_matches_def)
qed

subsection \<open>Whose session a link starts\<close>

lemma findActiveClient_Some:
  assumes "findActiveClient t email = Some p"
  shows "p \<in> set (ac_principals t)" "pr_kind p = Account_client" "pr_status p = Account_active"
    "to_lower (pr_email p) = email" "\<not> privacyProcessingRestricted (ac_restrictions t) (pr_partyId p) ''client_access''"
  using assms by (auto simp: findActiveClient_def find_Some_iff split: option.splits if_splits)

lemma client_active:
  assumes "findActiveClient t email = Some p" "distinct (map pr_id (ac_principals t))"
  shows "accountIsActive t \<lparr>acc_kind = Account_client, acc_id = pr_id p\<rparr>"
proof -
  note p = findActiveClient_Some [OF assms(1)]
  have "List.find (\<lambda>q. pr_id q = pr_id p) (ac_principals t) = Some p"
    using p(1) by (simp add: find_distinct [OF assms(2)])
  then show ?thesis using p by (simp add: accountIsActive_def)
qed

lemma contact_verified:
  "\<exists>m \<in> set (verify_contact newId partyId email now rows). matching_contact partyId (to_lower email) m \<and>
     cm_verification m = Contact_verified"
proof (cases "list_ex (matching_contact partyId (to_lower email)) rows")
  case True
  then obtain m where m: "m \<in> set rows" "matching_contact partyId (to_lower email) m" by (auto simp: list_ex_iff)
  then show ?thesis
    using True
    by (intro bexI [of _ "m\<lparr>cm_verification := Contact_verified, cm_verifiedAt := Some now, cm_lastFailureAt := None\<rparr>"])
      (auto simp: verify_contact_def matching_contact_def image_iff)
qed (simp add: verify_contact_def matching_contact_def)

lemma created_readable:
  assumes "createSession sha new a now old = Inr (x, rows)" "accountIsActive (au_accounts t) a"
  shows "readSession sha (ns_token new) now (t\<lparr>au_sessions := rows\<rparr>) = (Some (is_session x), t\<lparr>au_sessions := rows\<rparr>)"
    "ss_account (is_session x) = a" "ss_expiresAt (is_session x) = now + lim_absoluteMs (sessionPolicy (acc_kind a))"
    "is_token x = ns_token new"
proof -
  let ?r = "\<lparr>se_id = ns_id new, se_tokenHash = sha (ns_token new), se_account = a, se_createdAt = now,
    se_expiresAt = now + lim_absoluteMs (sessionPolicy (acc_kind a)), se_lastSeenAt = now, se_reverifiedAt = Some now,
    se_revokedAt = None\<rparr>"
  have rows: "rows = old @ [?r]" "sha (ns_token new) \<notin> se_tokenHash ` set old"
    and x: "x = \<lparr>is_token = ns_token new, is_session = toSession ?r\<rparr>"
    using assms(1) by (auto simp: createSession_def insertSession_def Let_def split: if_splits)
  have "List.find (\<lambda>r. se_tokenHash r = sha (ns_token new) \<and> se_revokedAt r = None) rows = Some ?r"
  proof -
    have "List.find (\<lambda>r. se_tokenHash r = sha (ns_token new) \<and> se_revokedAt r = None) old = None"
      unfolding find_None_iff using rows(2) by (metis imageI)
    then show ?thesis unfolding rows(1) by (simp add: find_append)
  qed
  moreover have "in_time now ?r"
    by (cases "acc_kind a") (simp_all add: in_time_def minute_def hour_def day_def)
  ultimately have "findLiveRow sha (ns_token new) now rows = Some ?r" by (simp add: findLiveRow_def)
  then show "readSession sha (ns_token new) now (t\<lparr>au_sessions := rows\<rparr>) = (Some (is_session x), t\<lparr>au_sessions := rows\<rparr>)"
    using assms(2) by (simp add: readSession_def resolveSession_def x toSession_def touchIntervalMs_def minute_def)
  show "ss_account (is_session x) = a" "ss_expiresAt (is_session x) = now + lim_absoluteMs (sessionPolicy (acc_kind a))"
    "is_token x = ns_token new" by (simp_all add: x toSession_def)
qed

end
