(* ===== verification/TimeSamples.thy ===== *)
theory TimeSamples
  imports LocalTime StaffedReport
begin

text \<open>
  A zone and a calendar at which the properties of local and staffed time are applied: Sofia around the end of
  summer time on 25 October 2026, when the clock goes back from four to three.
\<close>

definition zone_of :: "(int \<Rightarrow> int) \<Rightarrow> zoneParts" where
  "zone_of offset timeZone t =
     (let u = t + offset t; r = u mod day_ms
      in case civil_of_day (u div day_ms) of (y, m, d) \<Rightarrow>
           (y, m + 1, d, r div 3600000, r div 60000 mod 60, r div 1000 mod 60))"

lemma zone_of_wall:
  assumes "1000 dvd t + offset t" "day_from_year 100 \<le> (t + offset t) div day_ms"
  shows "wallClockAsUtc (zone_of offset) t timeZone = t + offset t"
proof -
  define u where "u = t + offset t"
  obtain y m d where c: "civil_of_day (u div day_ms) = (y, m, d)" by (metis prod_cases3)
  have y: "y = year_of_day (u div day_ms)" using c by (simp add: civil_of_day_def Let_def)
  have "100 \<le> y"
  proof (rule ccontr)
    assume "\<not> 100 \<le> y"
    then have "day_from_year (y + 1) \<le> day_from_year 100" by (intro day_from_year_mono) simp
    then show False using year_of_day(2) [of "u div day_ms"] assms(2) y by (simp add: u_def)
  qed
  then have date: "date_utc y m d h mi s = u div day_ms * day_ms + clock_ms h mi s 0" for h mi s
    using make_day_civil(1) [OF c] by (simp add: date_utc_def clock_ms_def)
  have "0 \<le> u mod day_ms" "u mod day_ms < day_ms" by (simp_all add: day_ms_def)
  then obtain h mi s ms where p: "u mod day_ms div 3600000 = h" "u mod day_ms div 60000 mod 60 = mi"
      "u mod day_ms div 1000 mod 60 = s" "u mod day_ms mod 1000 = ms" "clock_ms h mi s ms = u mod day_ms"
    by (rule clock_parts) blast
  have "1000 dvd u" using assms(1) by (simp add: u_def)
  then have "ms = 0" using p(4) by (simp add: day_ms_def mod_mod_cancel)
  have "wallClockAsUtc (zone_of offset) t timeZone = date_utc y m d h mi s"
    unfolding wallClockAsUtc_def zone_of_def Let_def u_def [symmetric] c prod.case p(1-3) by simp
  also have "\<dots> = u" unfolding date using p(5) \<open>ms = 0\<close> by simp
  finally show ?thesis by (simp add: u_def)
qed

definition sofia_offset :: "int \<Rightarrow> int" where
  "sofia_offset t = (if t < 1792890000000 then 10800000 else 7200000)"

definition sofia_zone :: zoneParts where "sofia_zone = zone_of sofia_offset"

text \<open>Half past three on that day, which the clock shows twice.\<close>

definition repeated_time :: string where "repeated_time = ''2026-10-25T03:30''"

lemma repeated_wall: "local_wall repeated_time = Some 1792899000000"
  by code_simp

lemma sofia_wall: "1000 dvd t \<Longrightarrow> \<bar>t - 1792899000000\<bar> \<le> 86400000 \<Longrightarrow> wallClockAsUtc sofia_zone t z = t + sofia_offset t"
  unfolding sofia_zone_def
  by (rule zone_of_wall) (auto simp: sofia_offset_def day_from_year_def day_ms_def)

lemma repeated_one_change: "one_change sofia_zone z 1792899000000"
  unfolding one_change_def zone_offset_def
  by (auto simp: sofia_wall) (simp_all add: sofia_offset_def split: if_splits)

lemma repeated_pattern: "localPattern repeated_time = Some (2026, 10, 25, 3, 30, None)"
  by code_simp

lemma repeated_candidates: "candidate_instants sofia_zone z 1792899000000 = [1792888200000, 1792891800000]"
  unfolding candidate_instants_def Let_def
  by (simp add: sofia_wall sofia_offset_def js_unique_def)

lemma repeated_texts: "to_iso 1792891800000 = ''2026-10-25T01:30:00.000Z''" "to_iso 1792888200000 = ''2026-10-25T00:30:00.000Z''"
  "date_parse (repeated_time @ '':00Z'') = Some 1792899000000" "take 16 (to_iso 1792899000000) = repeated_time"
  "date_parse ''2026-10-25T01:30:00.000Z'' = Some 1792891800000" "offset_text 1792899000000 1792891800000 = Some ''+02:00''"
  "length repeated_time = 16"
  by code_simp+

lemma repeated_read: "readLocalInput sofia_zone repeated_time ''Europe/Sofia'' Repeat_later =
    Inr \<lparr>li_instant = ''2026-10-25T01:30:00.000Z'', li_offset = Some ''+02:00'', li_repeated = True\<rparr>"
  using repeated_texts
  by (simp add: readLocalInput_def resolveLocalTime_def repeated_wall repeated_candidates repeated_pattern)

text \<open>A reviewed calendar, and an approved policy that has it, read in Sofia's winter time.\<close>

definition sofia_clock :: sofiaClock where
  "sofia_clock t = (let u = t + 7200000
     in (show_date (u div day_ms), policyWeekdays ! nat ((u div day_ms + 3) mod 7), u mod day_ms div 3600000))"

definition weekday_json :: json where
  "weekday_json = JArray [JArray [JString ''09:00'', JString ''13:00''], JArray [JString ''14:00'', JString ''18:00'']]"

definition calendar_json :: json where
  "calendar_json = JObject [(''kind'', JString ''reviewed_calendar_v1''), (''timezone'', JString ''Europe/Sofia''),
     (''validFrom'', JString ''2026-10-26''), (''validUntil'', JString ''2026-12-31''),
     (''weekly'', JObject [(''mon'', weekday_json), (''tue'', weekday_json), (''wed'', weekday_json),
        (''thu'', weekday_json), (''fri'', weekday_json), (''sat'', JArray []), (''sun'', JNull)]),
     (''exceptions'', JArray []), (''sourceReference'', JString ''office rota'')]"

definition policy_json :: json where
  "policy_json = JObject [(''kind'', JString ''approved_operating_policy_v1''), (''policyId'', JString ''p1''),
     (''policyVersion'', JNumber ''1''), (''contentHash'', JString (replicate 64 CHR ''a'')),
     (''approvedAt'', JString ''2026-10-01T00:00:00Z''),
     (''document'', JObject [(''kind'', JString ''agency_operating_policy_v1''), (''serviceCalendar'', calendar_json),
        (''coverage'', JNull),
        (''responsibilities'', JObject [(''service'', JNull), (''privacy'', JNull), (''alerts'', JNull)]),
        (''contactPurposes'', JObject [(''service'', JNull), (''savedSearch'', JNull), (''marketing'', JNull)]),
        (''retentionReference'', JNull), (''vendorReference'', JNull), (''processReference'', JNull),
        (''alertReference'', JNull),
        (''availabilityReviewDays'', JObject [(''sale'', JNull), (''long_term_rent'', JNull)])])]"

definition any_text :: schemaChecks where
  "any_text = \<lparr>sk_uuid = (\<lambda>_. True), sk_datetime = (\<lambda>_. True)\<rparr>"

lemma calendar_read: "serviceCalendarSchema calendar_json \<noteq> None"
  by code_simp

text \<open>From half past eight to half past ten on a Monday.\<close>

lemma calendar_counted:
  "calendarStaffedDuration sofia_clock (serviceCalendarSchema calendar_json) (Some 1792996200000) (Some 1793003400000) =
     Known_duration 5400000"
  by code_simp

lemma policy_counted:
  "staffedDuration any_text sofia_clock policy_json (Some 1792996200000) (Some 1793003400000) = Staffed_known 5400000 ''p1'' 1"
  by code_simp

lemma policy_stored: "policy_value policy_json"
  by code_simp

lemma monday_advances: "dates_advance sofia_clock 1792996200000 1793003400000"
proof -
  have "(t + 7200000) div day_ms = 20752" if "1792996200000 \<le> t" "t \<le> 1793003400000" for t :: int
    using that by (simp add: day_ms_def)
  then show ?thesis by (simp add: dates_advance_def local_date_def sofia_clock_def Let_def)
qed

lemma policy_in_budget:
  "fst (read_report any_text sofia_clock 4096 policy_json (Some 1792996200000) (Some 1793003400000)
     (read_all_reports any_text sofia_clock 4096 [])) \<noteq> Calculation_limit"
  by code_simp

end
