(* ===== verification/AccessSamples.thy ===== *)
theory AccessSamples
  imports LinkUse Samples
begin

text \<open>A client, a link sent to its address, and the calls at which the properties of sign-in are applied.\<close>

definition ann :: signInAccount where
  "ann = \<lparr>pr_id = ''p1'', pr_kind = Account_client, pr_status = Account_active, pr_partyId = ''q1'', pr_email = ''Ann@b.c'',
     pr_displayName = ''Ann'', pr_version = 1\<rparr>"

definition ann_account :: accountRef where
  "ann_account = \<lparr>acc_kind = Account_client, acc_id = ''p1''\<rparr>"

definition ann_tables :: authTables where
  "ann_tables = \<lparr>au_accounts = \<lparr>ac_principals = [ann], ac_memberships = [], ac_restrictions = []\<rparr>, au_sessions = []\<rparr>"

definition link_tables :: linkTables where
  "link_tables = \<lparr>lt_auth = ann_tables, lt_tokens = [], lt_contacts = [], lt_buckets = [], lt_jobs = [],
     lt_outbox = empty_outbox, lt_audit = []\<rparr>"

definition link_secret :: string where "link_secret = replicate 43 CHR ''t''"

definition link_text :: string where "link_text = ''https://c/bg/access/confirm?token='' @ link_secret"

definition plain_url :: "string \<Rightarrow> string \<Rightarrow> parsedUrl" where
  "plain_url origin path = \<lparr>pu_origin = origin, pu_pathname = path, pu_search = [], pu_hash = [], pu_username = [],
     pu_password = [], pu_searchParams = []\<rparr>"

text \<open>A parser that knows the paths of this site and the one link.\<close>

definition link_url :: "string \<Rightarrow> string option \<Rightarrow> parsedUrl option" where
  "link_url text base =
     (case base of Some origin \<Rightarrow> Some (plain_url origin text)
      | None \<Rightarrow>
          if text = link_text
          then Some ((plain_url ''https://c'' ''/bg/access/confirm'')\<lparr>pu_searchParams := [(''token'', link_secret)]\<rparr>)
          else Some (plain_url text ''/''))"

definition link_env :: linkEnv where
  "link_env = \<lparr>le_sha = id, le_keyedHash = id, le_url = link_url, le_encode = id, le_isEmail = (\<lambda>_. True),
     le_isUrl = (\<lambda>_. True), le_isDatetime = (\<lambda>_. True), le_clientHost = ''https://c''\<rparr>"

definition link_job :: emailLinkJob where
  "link_job = \<lparr>lj_email = ''ann@b.c'', lj_returnTo = Some ''/bg/saved'', lj_locale = Loc_bg\<rparr>"

definition link_new :: newLink where
  "link_new = \<lparr>nl_token = link_secret, nl_id = ''l1'', nl_actionId = ''x1''\<rparr>"

definition first_session :: newSession where "first_session = \<lparr>ns_token = ''s1'', ns_id = ''i1''\<rparr>"

definition second_session :: newSession where "second_session = \<lparr>ns_token = ''s2'', ns_id = ''i2''\<rparr>"

definition link_use :: consumeLinkOptions where
  "link_use = \<lparr>cl_now = 60000, cl_currentSessionToken = None, cl_correlationId = None, cl_contactId = ''k1''\<rparr>"

definition issued_tables :: linkTables where
  "issued_tables = run_links link_env [Issue link_new link_job 0] link_tables"

lemma link_signs_in:
  "(case consumeEmailLink link_env first_session link_secret link_use issued_tables of
      (Inl e, _) \<Rightarrow> False
    | (Inr c, t) \<Rightarrow> is_token (ce_issued c) = ''s1'' \<and> ce_returnTo c = Some ''/bg/saved'' \<and> length (au_sessions (lt_auth t)) = 1)"
  by code_simp

lemma issued_accounts: "au_accounts (lt_auth issued_tables) = au_accounts ann_tables"
  by code_simp

lemma link_use_result:
  obtains c t where "consumeEmailLink link_env first_session link_secret link_use issued_tables = (Inr c, t)"
    "ce_returnTo c = Some ''/bg/saved''" "is_token (ce_issued c) = ''s1''"
proof (cases "consumeEmailLink link_env first_session link_secret link_use issued_tables")
  case (Pair r t)
  then show ?thesis using link_signs_in that by (cases r) auto
qed

text \<open>The row of the outbox that carries the link.\<close>

definition link_mail :: externalActionRow where
  "link_mail = new_action id (link_message link_new link_job link_text 0) ''x1'' 0"

lemma link_mail_secret: "secret_url link_env (xa_secretPayload link_mail) = Some link_text"
  by code_simp

lemma link_mail_token: "link_token link_env l link_text \<in> {None, Some link_secret}"
proof -
  have "le_url link_env link_text None =
      Some ((plain_url ''https://c'' ''/bg/access/confirm'')\<lparr>pu_searchParams := [(''token'', link_secret)]\<rparr>)"
    by (simp add: link_env_def link_url_def)
  then show ?thesis by (auto simp: link_token_def split: option.splits)
qed

text \<open>Two sign-ins of the client, a rotation between them.\<close>

definition ann_steps :: "sessionStep list" where
  "ann_steps = [Create first_session ann_account 0, Resolve ''s1'' 70000, Rotate second_session ''s1'' 80000 True]"

lemma ann_signed_in: "\<exists>s. fst (readSession id ''s2'' 90000 (run_sessions id ann_steps ann_tables)) = Some s \<and>
    ss_account s = ann_account \<and> ss_expiresAt s = 604800000"
proof -
  have "(case fst (readSession id ''s2'' 90000 (run_sessions id ann_steps ann_tables)) of None \<Rightarrow> False
      | Some s \<Rightarrow> ss_account s = ann_account \<and> ss_expiresAt s = 604800000)" by code_simp
  then show ?thesis by (auto split: option.splits)
qed

text \<open>A bucket with nothing left.\<close>

definition empty_bucket :: bucketRow where
  "empty_bucket = \<lparr>bk_key = bucket_key id Inquiry_ip ''a'', bk_tokens = 0, bk_refilledAt = 0, bk_expiresAt = 600000\<rparr>"

lemma bucket_refused: "consumeRateLimit id Inquiry_ip ''a'' (at_default 0) [empty_bucket] =
    (\<lparr>rld_allowed = False, rld_remaining = 0, rld_retryAfterSeconds = 120\<rparr>, [empty_bucket])"
  by (simp add: consume_default Let_def empty_bucket_def bucket_of_def available_def full_after_def)

end
