(* ===== verification/SafetyLedger.thy ===== *)
theory SafetyLedger
  imports Approval Errors Dates
begin

text \<open>
  The ledger of privacy decisions of \<open>src/src/server/privacy/safety-ledger.ts\<close> and
  \<open>src/src/domain/privacy-erasure.ts\<close>, and its reapplication to a restored database by
  \<open>src/src/server/recovery/privacy-tail.ts\<close>. Every entry carries the digest of the one before it. SHA-256 and the
  verification of signatures are parameters, as is what a decision does to the other tables.
\<close>

record restrictionEffect =
  re_partyId :: string
  re_requestId :: string
  re_purposes :: "string list"
  re_clientIds :: "string list"
  re_erasePreferences :: bool
  re_eraseAliases :: bool
  re_contactIds :: "string list"
  re_clientProfileIds :: "string list"
  re_searchSubscriptionIds :: "string list"
  re_inventoryDigest :: string

record withdrawalEffect =
  we_partyId :: string
  we_subscriptionIds :: "string list"

datatype privacySafetyEffect = Privacy_restriction restrictionEffect | Subscription_withdrawal withdrawalEffect

primrec effect_party :: "privacySafetyEffect \<Rightarrow> string" where
  "effect_party (Privacy_restriction e) = re_partyId e"
| "effect_party (Subscription_withdrawal e) = we_partyId e"

definition strings_json :: "string list \<Rightarrow> json" where
  "strings_json xs = JArray (map JString xs)"

primrec effect_entries :: "privacySafetyEffect \<Rightarrow> (string \<times> json) list" where
  "effect_entries (Privacy_restriction e) =
     [(''kind'', JString ''privacy_restriction_v1''), (''partyId'', JString (re_partyId e)),
      (''requestId'', JString (re_requestId e)), (''purposes'', strings_json (re_purposes e)),
      (''clientIds'', strings_json (re_clientIds e)), (''erasePreferences'', JBool (re_erasePreferences e)),
      (''eraseAliases'', JBool (re_eraseAliases e)), (''contactIds'', strings_json (re_contactIds e)),
      (''clientProfileIds'', strings_json (re_clientProfileIds e)),
      (''searchSubscriptionIds'', strings_json (re_searchSubscriptionIds e)),
      (''inventoryDigest'', JString (re_inventoryDigest e))]"
| "effect_entries (Subscription_withdrawal e) =
     [(''kind'', JString ''subscription_withdrawal_v1''), (''partyId'', JString (we_partyId e)),
      (''subscriptionIds'', strings_json (we_subscriptionIds e))]"

text \<open>An entry, its time a text in a tail and an instant in the table.\<close>

record 't safetyEntry =
  en_sequence :: int
  en_id :: string
  en_operationId :: string
  en_partyId :: string
  en_requestId :: "string option"
  en_requestHash :: string
  en_review :: json
  en_effect :: privacySafetyEffect
  en_previousDigest :: string
  en_digest :: string
  en_recordedAt :: 't

definition normalized :: "int safetyEntry \<Rightarrow> string safetyEntry" where
  "normalized e = \<lparr>en_sequence = en_sequence e, en_id = en_id e, en_operationId = en_operationId e,
     en_partyId = en_partyId e, en_requestId = en_requestId e, en_requestHash = en_requestHash e,
     en_review = en_review e, en_effect = en_effect e, en_previousDigest = en_previousDigest e,
     en_digest = en_digest e, en_recordedAt = to_iso (en_recordedAt e)\<rparr>"

definition stored_entry :: "string safetyEntry \<Rightarrow> int \<Rightarrow> int safetyEntry" where
  "stored_entry e t = \<lparr>en_sequence = en_sequence e, en_id = en_id e, en_operationId = en_operationId e,
     en_partyId = en_partyId e, en_requestId = en_requestId e, en_requestHash = en_requestHash e,
     en_review = en_review e, en_effect = en_effect e, en_previousDigest = en_previousDigest e,
     en_digest = en_digest e, en_recordedAt = t\<rparr>"

definition entry_fields :: "string safetyEntry \<Rightarrow> (string \<times> json) list" where
  "entry_fields e =
     [(''operationId'', JString (en_operationId e)), (''partyId'', JString (en_partyId e)),
      (''requestId'', (case en_requestId e of None \<Rightarrow> JNull | Some r \<Rightarrow> JString r)),
      (''requestHash'', JString (en_requestHash e)), (''review'', en_review e),
      (''effect'', JObject (effect_entries (en_effect e))), (''sequence'', json_int (en_sequence e)),
      (''id'', JString (en_id e)), (''previousDigest'', JString (en_previousDigest e)),
      (''recordedAt'', JString (en_recordedAt e))]"

definition emptySafetyDigest :: string where "emptySafetyDigest = replicate 64 CHR ''0''"

definition safetyEntryDigest :: "(string \<Rightarrow> string) \<Rightarrow> string safetyEntry \<Rightarrow> string" where
  "safetyEntryDigest sha e = sha (canonicalJson (JObject (entry_fields e)))"

definition entry_json :: "string safetyEntry \<Rightarrow> json" where
  "entry_json e = JObject (entry_fields e @ [(''digest'', JString (en_digest e))])"

definition privacySafetyHead :: "int safetyEntry list \<Rightarrow> int \<times> string" where
  "privacySafetyHead rows =
     (case rev (sort_key en_sequence rows) of [] \<Rightarrow> (0, emptySafetyDigest) | r # _ \<Rightarrow> (en_sequence r, en_digest r))"

subsection \<open>Appending\<close>

record decisionInput =
  di_operationId :: string
  di_partyId :: string
  di_requestId :: "string option"
  di_requestHash :: string
  di_review :: json
  di_effect :: privacySafetyEffect

text \<open>The sequence is the primary key; identifiers and operations are unique.\<close>

definition insert_entry :: "int safetyEntry \<Rightarrow> int safetyEntry list \<Rightarrow> thrown + int safetyEntry list" where
  "insert_entry e rows =
     (if en_sequence e \<in> en_sequence ` set rows \<or> en_id e \<in> en_id ` set rows
         \<or> en_operationId e \<in> en_operationId ` set rows
      then Inl (ThrownOther ''unique_violation'') else Inr (rows @ [e]))"

definition appendPrivacySafetyDecision ::
    "(string \<Rightarrow> string) \<Rightarrow> decisionInput \<Rightarrow> string \<Rightarrow> int \<Rightarrow> int safetyEntry list
      \<Rightarrow> thrown + int safetyEntry \<times> int safetyEntry list" where
  "appendPrivacySafetyDecision sha input newId now rows =
     (case privacySafetyHead rows of (sequence, digest) \<Rightarrow>
        if max_safe_integer < sequence + 1 then Inl (ThrownApp (AppError Err_unavailable no_options))
        else
          let fields = \<lparr>en_sequence = sequence + 1, en_id = newId, en_operationId = di_operationId input,
                en_partyId = di_partyId input, en_requestId = di_requestId input, en_requestHash = di_requestHash input,
                en_review = di_review input, en_effect = di_effect input, en_previousDigest = digest, en_digest = [],
                en_recordedAt = now\<rparr>;
              e = fields\<lparr>en_digest := safetyEntryDigest sha (normalized fields)\<rparr>
          in (case insert_entry e rows of Inl x \<Rightarrow> Inl x | Inr rows2 \<Rightarrow> Inr (e, rows2)))"

subsection \<open>Reapplying a tail\<close>

record syntheticPrivacyTail =
  tl_restoreId :: string
  tl_snapshotDigest :: string
  tl_snapshotSequence :: int
  tl_snapshotLedgerDigest :: string
  tl_throughSequence :: int
  tl_headDigest :: string
  tl_entries :: "string safetyEntry list"

record syntheticPrivacyCheckpoint =
  ck_restoreId :: string
  ck_snapshotDigest :: string
  ck_throughSequence :: int
  ck_headDigest :: string

definition syntheticPrivacySafetyEntries :: "int safetyEntry list \<Rightarrow> int \<Rightarrow> string safetyEntry list" where
  "syntheticPrivacySafetyEntries rows after =
     map normalized (sort_key en_sequence (filter (\<lambda>r. after < en_sequence r) rows))"

definition entry_in_scope :: "string safetyEntry \<Rightarrow> bool" where
  "entry_in_scope e =
     (en_partyId e = effect_party (en_effect e) \<and>
      (case en_effect e of
         Privacy_restriction x \<Rightarrow> en_requestId e = Some (re_requestId x)
       | Subscription_withdrawal x \<Rightarrow> en_requestId e = None))"

text \<open>The loop over the entries: the last sequence and digest, or nothing where it throws.\<close>

fun check_chain :: "(string \<Rightarrow> string) \<Rightarrow> int \<Rightarrow> string \<Rightarrow> string safetyEntry list \<Rightarrow> (int \<times> string) option" where
  "check_chain sha sequence digest [] = Some (sequence, digest)"
| "check_chain sha sequence digest (e # es) =
     (if en_sequence e \<noteq> sequence + 1 \<or> en_previousDigest e \<noteq> digest \<or> safetyEntryDigest sha e \<noteq> en_digest e
         \<or> \<not> entry_in_scope e
      then None else check_chain sha (sequence + 1) (en_digest e) es)"

definition refused :: "string \<Rightarrow> thrown + 'a" where "refused message = Inl (ThrownOther message)"

text \<open>The loop inside the transaction: how many entries it applied, the ledger and the other tables.\<close>

fun reapply_entries ::
    "(privacySafetyEffect \<Rightarrow> int \<Rightarrow> 'w \<Rightarrow> 'w) \<Rightarrow> string safetyEntry list \<Rightarrow> int \<Rightarrow> int safetyEntry list \<Rightarrow> 'w
      \<Rightarrow> thrown + int \<times> int safetyEntry list \<times> 'w" where
  "reapply_entries effect [] applied rows w = Inr (applied, rows, w)"
| "reapply_entries effect (e # es) applied rows w =
     (case List.find (\<lambda>r. en_sequence r = en_sequence e) rows of
        Some existing \<Rightarrow>
          if canonicalJson (entry_json (normalized existing)) \<noteq> canonicalJson (entry_json e)
          then refused ''Conflicting destination safety decision.''
          else reapply_entries effect es applied rows w
      | None \<Rightarrow>
          (case privacySafetyHead rows of (sequence, digest) \<Rightarrow>
             if sequence + 1 \<noteq> en_sequence e \<or> digest \<noteq> en_previousDigest e
             then refused ''Destination safety history has a gap.''
             else (case date_parse (en_recordedAt e) of
                     None \<Rightarrow> refused ''invalid_date''
                   | Some t \<Rightarrow>
                       (case insert_entry (stored_entry e t) rows of
                          Inl x \<Rightarrow> Inl x
                        | Inr rows2 \<Rightarrow>
                            reapply_entries effect es (applied + 1) rows2 (effect (en_effect e) (en_sequence e) w)))))"

definition test_database :: "string \<Rightarrow> bool" where
  "test_database name = (take 5 name = ''test_'' \<and> length name = 37 \<and>
     list_all (\<lambda>c. is_digit c \<or> c \<in> set ''abcdef'') (drop 5 name))"

record tailEnv =
  te_sha :: "string \<Rightarrow> string"
  te_verify :: "string \<Rightarrow> string \<Rightarrow> bool"
  te_database :: string

record tailInput =
  ti_restoreId :: string
  ti_snapshotDigest :: string
  ti_manifest :: syntheticPrivacyTail
  ti_manifestText :: string
  ti_signature :: string
  ti_checkpoint :: syntheticPrivacyCheckpoint
  ti_checkpointText :: string
  ti_checkpointSignature :: string

definition tail_problem :: "tailEnv \<Rightarrow> tailInput \<Rightarrow> string option" where
  "tail_problem env i =
     (let m = ti_manifest i; c = ti_checkpoint i
      in if \<not> (te_verify env (ti_manifestText i) (ti_signature i) \<and>
               te_verify env (ti_checkpointText i) (ti_checkpointSignature i))
            \<or> tl_restoreId m \<noteq> ti_restoreId i \<or> tl_snapshotDigest m \<noteq> ti_snapshotDigest i
         then Some ''Synthetic privacy tail signature or restore binding is invalid.''
         else if ck_restoreId c \<noteq> ti_restoreId i \<or> ck_snapshotDigest c \<noteq> ti_snapshotDigest i
                 \<or> ck_throughSequence c \<noteq> tl_throughSequence m \<or> ck_headDigest c \<noteq> tl_headDigest m
         then Some ''Synthetic tail does not reach the separately trusted signed watermark.''
         else if tl_throughSequence m < tl_snapshotSequence m
                 \<or> int (length (tl_entries m)) \<noteq> tl_throughSequence m - tl_snapshotSequence m
         then Some ''Synthetic privacy tail is incomplete.''
         else if tl_snapshotSequence m = 0 \<and> tl_snapshotLedgerDigest m \<noteq> emptySafetyDigest
         then Some ''Invalid empty snapshot ledger.''
         else (case check_chain (te_sha env) (tl_snapshotSequence m) (tl_snapshotLedgerDigest m) (tl_entries m) of
                 None \<Rightarrow> Some ''Synthetic privacy tail chain or scope is invalid.''
               | Some (sequence, digest) \<Rightarrow>
                   if sequence \<noteq> tl_throughSequence m \<or> digest \<noteq> tl_headDigest m
                   then Some ''Synthetic privacy tail watermark does not match its complete chain.'' else None))"

text \<open>The anchor of the tail in the restored ledger.\<close>

definition belongs_to :: "syntheticPrivacyTail \<Rightarrow> int safetyEntry list \<Rightarrow> bool" where
  "belongs_to m rows =
     (let anchor = (if tl_snapshotSequence m = 0 then None
            else List.find (\<lambda>r. en_sequence r = tl_snapshotSequence m) rows);
          head = fst (privacySafetyHead rows)
      in (case anchor of None \<Rightarrow> emptySafetyDigest | Some r \<Rightarrow> en_digest r) = tl_snapshotLedgerDigest m \<and>
         \<not> head < tl_snapshotSequence m \<and> \<not> tl_throughSequence m < head)"

text \<open>
  Quarantine commits before the tail is looked at; the rest is one transaction. A canonical text of the manifest
  is what the signature is over.
\<close>

definition reapplySyntheticPrivacyTail ::
    "tailEnv \<Rightarrow> ('w \<Rightarrow> thrown + 'w) \<Rightarrow> (privacySafetyEffect \<Rightarrow> int \<Rightarrow> 'w \<Rightarrow> 'w) \<Rightarrow> tailInput
      \<Rightarrow> int safetyEntry list \<Rightarrow> 'w \<Rightarrow> (thrown + int) \<times> int safetyEntry list \<times> 'w" where
  "reapplySyntheticPrivacyTail env quarantine effect i rows w =
     (if \<not> test_database (te_database env)
      then (refused ''Privacy-tail rehearsal only accepts an owned disposable test database.'', rows, w)
      else (case quarantine w of
          Inl e \<Rightarrow> (Inl e, rows, w)
        | Inr w1 \<Rightarrow>
            (case tail_problem env i of
               Some p \<Rightarrow> (refused p, rows, w1)
             | None \<Rightarrow>
                 let m = ti_manifest i
                 in if \<not> belongs_to m rows
                    then (refused ''Synthetic tail does not belong to this restored snapshot ledger.'', rows, w1)
                    else (case reapply_entries effect (tl_entries m) 0 rows w1 of
                        Inl e \<Rightarrow> (Inl e, rows, w1)
                      | Inr (applied, rows2, w2) \<Rightarrow>
                          if privacySafetyHead rows2 \<noteq> (tl_throughSequence m, tl_headDigest m)
                          then (refused ''Destination did not reach the signed synthetic watermark.'', rows, w1)
                          else (Inr applied, rows2, w2)))))"

subsection \<open>A ledger in order\<close>

definition review_ok :: "json \<Rightarrow> bool" where
  "review_ok v \<longleftrightarrow> wf_json v \<and> v \<noteq> JUndefined"

fun chain_ok :: "(string \<Rightarrow> string) \<Rightarrow> int \<Rightarrow> string \<Rightarrow> int safetyEntry list \<Rightarrow> bool" where
  "chain_ok sha sequence digest [] = True"
| "chain_ok sha sequence digest (r # rs) =
     (en_sequence r = sequence + 1 \<and> en_previousDigest r = digest \<and>
      en_digest r = safetyEntryDigest sha (normalized r) \<and> review_ok (en_review r) \<and>
      chain_ok sha (sequence + 1) (en_digest r) rs)"

definition ledger_ok :: "(string \<Rightarrow> string) \<Rightarrow> int safetyEntry list \<Rightarrow> bool" where
  "ledger_ok sha rows \<longleftrightarrow> chain_ok sha 0 emptySafetyDigest rows"

definition chain_end :: "int \<Rightarrow> string \<Rightarrow> int safetyEntry list \<Rightarrow> int \<times> string" where
  "chain_end sequence digest rows = (if rows = [] then (sequence, digest) else (en_sequence (last rows), en_digest (last rows)))"

lemma chain_append:
  "chain_ok sha s d (xs @ ys) \<longleftrightarrow> chain_ok sha s d xs \<and> (case chain_end s d xs of (s2, d2) \<Rightarrow> chain_ok sha s2 d2 ys)"
  by (induction xs arbitrary: s d) (auto simp: chain_end_def)

lemma chain_sequence: "chain_ok sha s d rows \<Longrightarrow> i < length rows \<Longrightarrow> en_sequence (rows ! i) = s + 1 + int i"
proof (induction rows arbitrary: s d i)
  case (Cons r rows)
  then show ?case by (cases i) auto
qed simp

lemma chain_sorted:
  assumes "chain_ok sha s d rows"
  shows "sorted (map en_sequence rows)" "distinct (map en_sequence rows)"
  using chain_sequence [OF assms] by (simp_all add: sorted_iff_nth_mono distinct_conv_nth)

lemma head_chain: "ledger_ok sha rows \<Longrightarrow> privacySafetyHead rows = chain_end 0 emptySafetyDigest rows"
proof -
  assume ok: "ledger_ok sha rows"
  have "sort_key en_sequence rows = rows"
    using chain_sorted(1) [OF ok [unfolded ledger_ok_def]] by (simp add: sorted_sort_id sort_key_id_if_sorted)
  then show ?thesis by (cases rows rule: rev_cases) (simp_all add: privacySafetyHead_def chain_end_def)
qed

lemma chain_end_sequence: "chain_ok sha s d rows \<Longrightarrow> fst (chain_end s d rows) = s + int (length rows)"
  using chain_sequence [of sha s d rows "length rows - 1"] by (auto simp: chain_end_def last_conv_nth)

subsection \<open>What a digest fixes\<close>

text \<open>Two entries say the same: their fields agree, and their reviews have the same content.\<close>

definition same_entry :: "string safetyEntry \<Rightarrow> string safetyEntry \<Rightarrow> bool" where
  "same_entry e f \<longleftrightarrow> en_sequence e = en_sequence f \<and> en_id e = en_id f \<and> en_operationId e = en_operationId f \<and>
     en_partyId e = en_partyId f \<and> en_requestId e = en_requestId f \<and> en_requestHash e = en_requestHash f \<and>
     content_of (en_review e) = content_of (en_review f) \<and> en_effect e = en_effect f \<and>
     en_previousDigest e = en_previousDigest f \<and> en_digest e = en_digest f \<and> en_recordedAt e = en_recordedAt f"

lemma wf_effect: "wf_json (JObject (effect_entries x))" "distinct (map fst (effect_entries x))"
  "(k, v) \<in> set (effect_entries x) \<Longrightarrow> v \<noteq> JUndefined"
  by (cases x; auto simp: strings_json_def list_all_iff)+

lemma object_content:
  assumes "content_of (JObject es) = content_of (JObject fs)" "distinct (map fst es)" "distinct (map fst fs)"
    and "\<And>k v. (k, v) \<in> set es \<Longrightarrow> v \<noteq> JUndefined" "\<And>k v. (k, v) \<in> set fs \<Longrightarrow> v \<noteq> JUndefined"
  shows "map_option content_of (map_of es k) = map_option content_of (map_of fs k)"
proof -
  have "content_of (JObject es) = CObject (\<lambda>k. map_option content_of (map_of es k))"
    by (rule content_of_object [OF assms(2)]) (rule assms(4))
  moreover have "content_of (JObject fs) = CObject (\<lambda>k. map_option content_of (map_of fs k))"
    by (rule content_of_object [OF assms(3)]) (rule assms(5))
  ultimately have "(\<lambda>k. map_option content_of (map_of es k)) = (\<lambda>k. map_option content_of (map_of fs k))"
    using assms(1) by (simp only: content.inject)
  from fun_cong [OF this, of k] show ?thesis .
qed

lemma effect_content:
  assumes "content_of (JObject (effect_entries x)) = content_of (JObject (effect_entries y))"
  shows "x = y"
proof -
  have eq: "map_option content_of (map_of (effect_entries x) k) = map_option content_of (map_of (effect_entries y) k)" for k
    by (rule object_content [OF assms wf_effect(2) wf_effect(2)]) (rule wf_effect(3), assumption)+
  note eqs = eq [of "''kind''"] eq [of "''partyId''"] eq [of "''requestId''"] eq [of "''purposes''"] eq [of "''clientIds''"]
    eq [of "''erasePreferences''"] eq [of "''eraseAliases''"] eq [of "''contactIds''"] eq [of "''clientProfileIds''"]
    eq [of "''searchSubscriptionIds''"] eq [of "''inventoryDigest''"] eq [of "''subscriptionIds''"]
  show ?thesis
    by (cases x; cases y) (use eqs in \<open>simp_all add: strings_json_def content_strings [simplified]\<close>)
qed

lemma entry_fields_ok:
  assumes "review_ok (en_review e)"
  shows "wf_json (JObject (entry_fields e))" "wf_json (entry_json e)" "distinct (map fst (entry_fields e))"
    "(k, v) \<in> set (entry_fields e) \<Longrightarrow> v \<noteq> JUndefined"
  using assms wf_effect(1) [of "en_effect e"]
  by (auto simp: entry_fields_def entry_json_def review_ok_def json_int_defined [THEN not_sym] split: option.splits simp del: effect_entries.simps)

lemma fields_same:
  assumes "\<And>k. k \<noteq> ''digest'' \<Longrightarrow> map_option content_of (map_of (entry_fields e) k) = map_option content_of (map_of (entry_fields f) k)"
  shows "same_entry (e\<lparr>en_digest := []\<rparr>) (f\<lparr>en_digest := []\<rparr>)"
proof -
  note eqs = assms [of "''operationId''"] assms [of "''partyId''"] assms [of "''requestId''"] assms [of "''requestHash''"]
    assms [of "''review''"] assms [of "''sequence''"] assms [of "''id''"] assms [of "''previousDigest''"]
    assms [of "''recordedAt''"]
  have "content_of (JObject (effect_entries (en_effect e))) = content_of (JObject (effect_entries (en_effect f)))"
    using assms [of "''effect''"] by (simp add: entry_fields_def del: effect_entries.simps content_of.simps)
  then have "en_effect e = en_effect f" by (rule effect_content)
  then show ?thesis
    using eqs by (simp add: same_entry_def entry_fields_def split: option.splits del: effect_entries.simps)
qed

lemma digest_content:
  assumes "safetyEntryDigest sha e = safetyEntryDigest sha f" "inj sha" "review_ok (en_review e)" "review_ok (en_review f)"
  shows "same_entry (e\<lparr>en_digest := []\<rparr>) (f\<lparr>en_digest := []\<rparr>)"
proof -
  have "canonicalJson (JObject (entry_fields e)) = canonicalJson (JObject (entry_fields f))"
    using assms(1) injD [OF assms(2)] by (simp only: safetyEntryDigest_def)
  then have c: "content_of (JObject (entry_fields e)) = content_of (JObject (entry_fields f))"
    using canonicalJson_iff [OF entry_fields_ok(1) [OF assms(3)] entry_fields_ok(1) [OF assms(4)]] by blast
  show ?thesis
  proof (rule fields_same)
    fix k :: string
    show "map_option content_of (map_of (entry_fields e) k) = map_option content_of (map_of (entry_fields f) k)"
      by (rule object_content [OF c entry_fields_ok(3) [OF assms(3)] entry_fields_ok(3) [OF assms(4)]])
        (use entry_fields_ok(4) [OF assms(3)] entry_fields_ok(4) [OF assms(4)] in blast)+
  qed
qed

lemma entry_content:
  assumes "canonicalJson (entry_json e) = canonicalJson (entry_json f)" "review_ok (en_review e)" "review_ok (en_review f)"
  shows "same_entry e f"
proof -
  have c: "content_of (JObject (entry_fields e @ [(''digest'', JString (en_digest e))])) =
      content_of (JObject (entry_fields f @ [(''digest'', JString (en_digest f))]))"
    unfolding entry_json_def [symmetric]
    using assms(1) canonicalJson_iff [OF entry_fields_ok(2) [OF assms(2)] entry_fields_ok(2) [OF assms(3)]] by blast
  have d: "distinct (map fst (entry_fields g @ [(''digest'', JString x)]))" for g x
    by (simp add: entry_fields_def)
  have u: "v \<noteq> JUndefined" if "review_ok (en_review g)" "(k, v) \<in> set (entry_fields g @ [(''digest'', JString x)])" for g x k v
    using entry_fields_ok(4) [OF that(1), of k v] that(2) by auto
  have l: "map_of (entry_fields g @ [(''digest'', JString x)]) k = (if k = ''digest'' then Some (JString x) else map_of (entry_fields g) k)" for g x k
    by (simp add: entry_fields_def)
  have eq: "map_option content_of (map_of (entry_fields e @ [(''digest'', JString (en_digest e))]) k) =
      map_option content_of (map_of (entry_fields f @ [(''digest'', JString (en_digest f))]) k)" for k
    by (rule object_content [OF c d d]) (use u [OF assms(2)] u [OF assms(3)] in blast)+
  have "same_entry (e\<lparr>en_digest := []\<rparr>) (f\<lparr>en_digest := []\<rparr>)"
  proof (rule fields_same)
    fix k :: string assume "k \<noteq> ''digest''"
    then show "map_option content_of (map_of (entry_fields e) k) = map_option content_of (map_of (entry_fields f) k)"
      using eq [of k] unfolding l by simp
  qed
  moreover have "en_digest e = en_digest f" using eq [of "''digest''"] unfolding l by simp
  ultimately show ?thesis by (simp add: same_entry_def)
qed

text \<open>The head of a ledger fixes all of its history.\<close>

lemma chain_unique:
  assumes "inj sha" "chain_ok sha s d xs" "chain_ok sha s d ys" "chain_end s d xs = chain_end s d ys"
  shows "list_all2 same_entry (map normalized xs) (map normalized ys)"
  using assms(2-4)
proof (induction xs arbitrary: ys rule: rev_induct)
  case Nil
  have "int (length ys) = 0"
    using chain_end_sequence [OF Nil(2)] Nil(3) by (simp add: chain_end_def split: if_splits)
  then show ?case by simp
next
  case (snoc x xs)
  have "int (length ys) = int (length (xs @ [x]))"
    using chain_end_sequence [OF snoc.prems(1)] chain_end_sequence [OF snoc.prems(2)] snoc.prems(3) by simp
  then obtain zs y where ys: "ys = zs @ [y]" by (cases ys rule: rev_cases) auto
  obtain sx dx sy dy where ends: "chain_end s d xs = (sx, dx)" "chain_end s d zs = (sy, dy)" by (metis surj_pair)
  have x: "chain_ok sha s d xs" "en_sequence x = sx + 1" "en_previousDigest x = dx"
      "en_digest x = safetyEntryDigest sha (normalized x)" "review_ok (en_review x)"
    and y: "chain_ok sha s d zs" "en_sequence y = sy + 1" "en_previousDigest y = dy"
      "en_digest y = safetyEntryDigest sha (normalized y)" "review_ok (en_review y)"
    using snoc.prems(1,2) unfolding ys chain_append by (simp_all add: ends)
  have dig: "en_digest x = en_digest y" using snoc.prems(3) by (simp add: ys chain_end_def)
  have "safetyEntryDigest sha (normalized x) = safetyEntryDigest sha (normalized y)" using x(4) y(4) dig by argo
  then have "same_entry ((normalized x)\<lparr>en_digest := []\<rparr>) ((normalized y)\<lparr>en_digest := []\<rparr>)"
    by (rule digest_content [OF _ assms(1)]) (use x(5) y(5) in \<open>simp_all add: normalized_def\<close>)
  then have same: "same_entry (normalized x) (normalized y)" using dig by (simp add: same_entry_def normalized_def)
  then have "sx = sy" "dx = dy" using x(2,3) y(2,3) by (simp_all add: same_entry_def normalized_def)
  then have "list_all2 same_entry (map normalized xs) (map normalized zs)"
    by (intro snoc.IH [OF x(1) y(1)]) (simp add: ends)
  then show ?case using same by (simp add: ys list_all2_appendI)
qed

subsection \<open>Appending and reapplying keep the chain\<close>

lemma head_ok: "ledger_ok sha rows \<Longrightarrow> privacySafetyHead rows = (int (length rows), snd (chain_end 0 emptySafetyDigest rows))"
  using head_chain chain_end_sequence [of sha 0 emptySafetyDigest rows]
  by (metis add.left_neutral ledger_ok_def prod.collapse)

lemma ledger_append:
  assumes "ledger_ok sha rows" "privacySafetyHead rows = (sequence, digest)"
    and "en_sequence r = sequence + 1" "en_previousDigest r = digest" "en_digest r = safetyEntryDigest sha (normalized r)"
    and "review_ok (en_review r)"
  shows "ledger_ok sha (rows @ [r])"
  using assms head_chain [OF assms(1)] by (simp add: ledger_ok_def chain_append)

lemma digest_ignores_itself: "safetyEntryDigest sha (normalized (e\<lparr>en_digest := d\<rparr>)) = safetyEntryDigest sha (normalized e)"
  by (simp add: safetyEntryDigest_def entry_fields_def normalized_def)

lemma append_ok:
  assumes "appendPrivacySafetyDecision sha input newId now rows = Inr (e, rows2)" "ledger_ok sha rows" "review_ok (di_review input)"
  shows "rows2 = rows @ [e]" "ledger_ok sha rows2" "en_effect e = di_effect input" "en_sequence e = int (length rows) + 1"
proof -
  obtain sequence digest where h: "privacySafetyHead rows = (sequence, digest)" by (metis surj_pair)
  define fields where "fields = \<lparr>en_sequence = sequence + 1, en_id = newId, en_operationId = di_operationId input,
                en_partyId = di_partyId input, en_requestId = di_requestId input, en_requestHash = di_requestHash input,
                en_review = di_review input, en_effect = di_effect input, en_previousDigest = digest, en_digest = [],
                en_recordedAt = now\<rparr>"
  have e: "e = fields\<lparr>en_digest := safetyEntryDigest sha (normalized fields)\<rparr>" "rows2 = rows @ [e]"
    using assms(1) unfolding appendPrivacySafetyDecision_def h fields_def [symmetric] Let_def
    by (auto simp: insert_entry_def fields_def [symmetric] split: if_splits sum.splits)
  then show "rows2 = rows @ [e]" by simp
  show "ledger_ok sha rows2"
    unfolding e(2) by (rule ledger_append [OF assms(2) h]) (simp_all add: e(1) digest_ignores_itself, simp_all add: fields_def assms(3))
  show "en_effect e = di_effect input" "en_sequence e = int (length rows) + 1"
    using h head_ok [OF assms(2)] by (simp_all add: e(1) fields_def)
qed

text \<open>An entry whose time is in the form in which the table gives it back.\<close>

definition entry_ok :: "(string \<Rightarrow> string) \<Rightarrow> string safetyEntry \<Rightarrow> bool" where
  "entry_ok sha e \<longleftrightarrow> review_ok (en_review e) \<and> safetyEntryDigest sha e = en_digest e \<and>
     (\<exists>t. en_recordedAt e = to_iso t \<and> date_parse (to_iso t) = Some t)"

lemma check_chain_digests: "check_chain sha s d es = Some x \<Longrightarrow> e \<in> set es \<Longrightarrow> safetyEntryDigest sha e = en_digest e"
  by (induction es arbitrary: s d) (auto split: if_splits)

definition effects_of :: "(privacySafetyEffect \<Rightarrow> int \<Rightarrow> 'w \<Rightarrow> 'w) \<Rightarrow> int safetyEntry list \<Rightarrow> 'w \<Rightarrow> 'w" where
  "effects_of effect rows w = fold (\<lambda>r. effect (en_effect r) (en_sequence r)) rows w"

lemma reapply_entries_ok:
  assumes "reapply_entries effect es n rows w = Inr (n2, rows2, w2)" "ledger_ok sha rows" "\<And>e. e \<in> set es \<Longrightarrow> entry_ok sha e"
  shows "\<exists>new. rows2 = rows @ new \<and> ledger_ok sha rows2 \<and> n2 = n + int (length new) \<and> w2 = effects_of effect new w"
  using assms
proof (induction es arbitrary: n rows w)
  case Nil
  then show ?case by (simp add: effects_of_def)
next
  case (Cons e es)
  show ?case
  proof (cases "List.find (\<lambda>r. en_sequence r = en_sequence e) rows")
    case (Some existing)
    then have "reapply_entries effect es n rows w = Inr (n2, rows2, w2)"
      using Cons.prems(1) by (simp add: refused_def split: if_splits)
    then show ?thesis using Cons by simp
  next
    case None
    obtain t where t: "en_recordedAt e = to_iso t" "date_parse (to_iso t) = Some t"
      and ok: "review_ok (en_review e)" "safetyEntryDigest sha e = en_digest e"
      using Cons.prems(3) [of e] by (auto simp: entry_ok_def)
    obtain sequence digest where h: "privacySafetyHead rows = (sequence, digest)" by (metis surj_pair)
    let ?r = "stored_entry e t"
    have norm: "normalized ?r = e" by (simp add: normalized_def stored_entry_def t(1))
    have step: "sequence + 1 = en_sequence e" "digest = en_previousDigest e"
      "reapply_entries effect es (n + 1) (rows @ [?r]) (effect (en_effect e) (en_sequence e) w) = Inr (n2, rows2, w2)"
      using Cons.prems(1) None h t by (auto simp: refused_def insert_entry_def split: if_splits)
    have "ledger_ok sha (rows @ [?r])"
      by (rule ledger_append [OF Cons.prems(2) h]) (simp_all add: norm ok step(1,2), simp_all add: stored_entry_def ok(1))
    from Cons.IH [OF step(3) this] Cons.prems(3) obtain new where
      "rows2 = (rows @ [?r]) @ new" "ledger_ok sha rows2" "n2 = n + 1 + int (length new)"
      "w2 = effects_of effect new (effect (en_effect e) (en_sequence e) w)" by auto
    then show ?thesis
      by (intro exI [of _ "?r # new"]) (simp add: effects_of_def stored_entry_def)
  qed
qed

lemma reapply_ok:
  assumes "reapplySyntheticPrivacyTail env quarantine effect i rows w = (Inr applied, rows2, w2)" "ledger_ok (te_sha env) rows"
    and "\<And>e. e \<in> set (tl_entries (ti_manifest i)) \<Longrightarrow> review_ok (en_review e) \<and>
      (\<exists>t. en_recordedAt e = to_iso t \<and> date_parse (to_iso t) = Some t)"
  obtains w1 new where "quarantine w = Inr w1" "rows2 = rows @ new" "ledger_ok (te_sha env) rows2" "applied = int (length new)"
    "w2 = effects_of effect new w1" "privacySafetyHead rows2 = (tl_throughSequence (ti_manifest i), tl_headDigest (ti_manifest i))"
proof -
  let ?m = "ti_manifest i"
  obtain w1 where q: "quarantine w = Inr w1"
    and p: "tail_problem env i = None"
    and run: "reapply_entries effect (tl_entries ?m) 0 rows w1 = Inr (applied, rows2, w2)"
    and h: "privacySafetyHead rows2 = (tl_throughSequence ?m, tl_headDigest ?m)"
    using assms(1) by (auto simp: reapplySyntheticPrivacyTail_def refused_def Let_def split: if_splits sum.splits option.splits)
  obtain x where chain: "check_chain (te_sha env) (tl_snapshotSequence ?m) (tl_snapshotLedgerDigest ?m) (tl_entries ?m) = Some x"
    using p by (auto simp: tail_problem_def Let_def split: if_splits option.splits)
  have "entry_ok (te_sha env) e" if "e \<in> set (tl_entries ?m)" for e
    using assms(3) [OF that] check_chain_digests [OF chain that] by (simp add: entry_ok_def)
  from reapply_entries_ok [OF run assms(2) this] obtain new where
    "rows2 = rows @ new" "ledger_ok (te_sha env) rows2" "applied = int (length new)" "w2 = effects_of effect new w1" by auto
  then show ?thesis using that q h by blast
qed

subsection \<open>What every decision keeps in force\<close>

text \<open>
  What the ledger asks of the tables its decisions act on: an applied decision is in force, and no later one
  lifts it. Then a reapplied tail leaves every decision of the ledger in force.
\<close>

locale decision_effect =
  fixes effect :: "privacySafetyEffect \<Rightarrow> int \<Rightarrow> 'w \<Rightarrow> 'w"
    and in_force :: "privacySafetyEffect \<Rightarrow> 'w \<Rightarrow> bool"
  assumes takes: "in_force e (effect e n w)"
    and keeps: "in_force e w \<Longrightarrow> in_force e (effect f n w)"
begin

lemma effects_keep: "in_force e w \<Longrightarrow> in_force e (effects_of effect rows w)"
  unfolding effects_of_def by (induction rows arbitrary: w) (simp_all add: keeps)

lemma effects_take: "r \<in> set rows \<Longrightarrow> in_force (en_effect r) (effects_of effect rows w)"
proof (induction rows arbitrary: w)
  case (Cons x rows)
  show ?case
  proof (cases "r = x")
    case True
    then have "in_force (en_effect r) (effects_of effect rows (effect (en_effect x) (en_sequence x) w))"
      by (simp add: effects_keep takes)
    then show ?thesis by (simp add: effects_of_def)
  next
    case False
    then show ?thesis using Cons by (simp add: effects_of_def)
  qed
qed simp

lemma reapplied_in_force:
  assumes "reapplySyntheticPrivacyTail env quarantine effect i rows w = (Inr applied, rows2, w2)" "ledger_ok (te_sha env) rows"
    and "\<And>e. e \<in> set (tl_entries (ti_manifest i)) \<Longrightarrow> review_ok (en_review e) \<and>
      (\<exists>t. en_recordedAt e = to_iso t \<and> date_parse (to_iso t) = Some t)"
    and "\<And>w1 e. quarantine w = Inr w1 \<Longrightarrow> in_force e w \<Longrightarrow> in_force e w1"
    and "\<And>r. r \<in> set rows \<Longrightarrow> in_force (en_effect r) w" and "r \<in> set rows2"
  shows "in_force (en_effect r) w2"
proof -
  obtain w1 new where q: "quarantine w = Inr w1" and new: "rows2 = rows @ new" "w2 = effects_of effect new w1"
    by (rule reapply_ok [OF assms(1,2)]) (rule assms(3), assumption)
  then show ?thesis
    using assms(6) effects_take [of r new w1] effects_keep [OF assms(4) [OF q assms(5)]] by auto
qed

end

end
