(* ===== verification/Subscription.thy ===== *)
theory Subscription
  imports StateMachine
begin

text \<open>\<open>src/src/domain/subscription.ts\<close>: what a person may be written to about, and whether a message may go out.\<close>

datatype subscriptionPurpose = Service_updates | Search_alerts | Marketing

definition subscriptionPurposes :: "subscriptionPurpose list" where
  "subscriptionPurposes = [Service_updates, Search_alerts, Marketing]"

fun purpose_word :: "subscriptionPurpose \<Rightarrow> string" where
  "purpose_word Service_updates = ''service_updates''"
| "purpose_word Search_alerts = ''search_alerts''"
| "purpose_word Marketing = ''marketing''"

datatype subscriptionState = Sub_pending_verification | Sub_active | Sub_paused | Sub_withdrawn

definition subscriptionStates :: "subscriptionState list" where
  "subscriptionStates = [Sub_pending_verification, Sub_active, Sub_paused, Sub_withdrawn]"

fun subscription_transitions :: "subscriptionState \<Rightarrow> subscriptionState list" where
  "subscription_transitions Sub_pending_verification = [Sub_active, Sub_withdrawn]"
| "subscription_transitions Sub_active = [Sub_paused, Sub_withdrawn]"
| "subscription_transitions Sub_paused = [Sub_active, Sub_withdrawn]"
| "subscription_transitions Sub_withdrawn = []"

definition subscriptionMachine :: "subscriptionState machine" where
  "subscriptionMachine = defineMachine subscriptionStates subscription_transitions"

datatype consentEventKind = Opted_in | Channel_verified | Criteria_changed | Consent_paused | Consent_resumed
  | Consent_withdrawn

datatype alertFrequency = Alert_daily | Alert_weekly

definition alertFrequencies :: "alertFrequency list" where "alertFrequencies = [Alert_daily, Alert_weekly]"

record subscriptionView =
  sv_purpose :: subscriptionPurpose
  sv_state :: subscriptionState
  sv_verifiedAt :: "string option"

definition checkSendEligibility :: "subscriptionView option \<Rightarrow> subscriptionPurpose \<Rightarrow> decision" where
  "checkSendEligibility subscription purpose =
     firstDenial
       [Some (need (subscription \<noteq> None) ''no_subscription''),
        Some (need (map_option sv_purpose subscription = Some purpose) ''purpose_mismatch''),
        Some (need (map_option sv_state subscription = Some Sub_active) ''subscription_not_active''),
        Some (need (truthy (Option.bind subscription sv_verifiedAt)) ''channel_not_verified'')]"

lemma purpose_word_inj [simp]: "purpose_word p = purpose_word q \<longleftrightarrow> p = q"
  by (cases p; cases q) simp_all

lemma withdrawn_final: "check subscriptionMachine Sub_withdrawn s \<noteq> Allowed"
  by (cases s) (simp_all add: check_def subscriptionMachine_def defineMachine_def denied_def)

lemma eligible_active:
  "checkSendEligibility (Some v) purpose = Allowed \<Longrightarrow> sv_purpose v = purpose \<and> sv_state v = Sub_active"
  by (auto simp: checkSendEligibility_def need_def denied_def split: if_splits)

end
