(* ===== verification/PrivacyEffect.thy ===== *)
theory PrivacyEffect
  imports SafetyLedger Subscription EmailLink PublicationTables Privacy
begin

text \<open>
  What a privacy decision does to the other tables (\<open>applyPrivacySafetyEffect\<close> of
  \<open>src/src/server/privacy/safety-ledger.ts\<close>), the quarantine of a restored database
  (\<open>src/src/server/recovery/quarantine.ts\<close>), and the reapplication of a tail on both. Of a table's columns those
  appear that this code reads or writes, without \<open>updatedAt\<close>; a restriction is the pair of its party and purpose.
\<close>

record subscriptionRow =
  sb_id :: string
  sb_partyId :: string
  sb_contactMethodId :: string
  sb_purpose :: subscriptionPurpose
  sb_state :: subscriptionState
  sb_verifiedAt :: "int option"
  sb_criteria :: "json option"
  sb_criteriaSummary :: "string option"
  sb_frequency :: "alertFrequency option"
  sb_timezone :: string
  sb_policyVersion :: string
  sb_unsubscribeTokenHash :: string
  sb_lastSentAt :: "int option"
  sb_version :: int

record consentEventRow =
  cv_subscriptionId :: string
  cv_kind :: consentEventKind
  cv_policyVersion :: string
  cv_source :: string
  cv_actor :: actor

record partyProfile =
  py_id :: string
  py_preferredLocale :: "publicLocale option"
  py_contactPreferences :: json
  py_matchingAliases :: "string list"
  py_version :: int

datatype invitationKind = Invite_staff_enrolment | Invite_staff_recovery | Invite_client_access

record invitationRow =
  iv_id :: string
  iv_kind :: invitationKind
  iv_principalId :: string
  iv_acceptedAt :: "int option"
  iv_declinedAt :: "int option"
  iv_revokedAt :: "int option"

record passkeyRow =
  pk_id :: string
  pk_principalId :: string
  pk_revokedAt :: "int option"

record versionedGrant = grantRow +
  gr_version :: int

datatype exportState = Export_draft | Export_issued | Export_revoked

record exportRow =
  px_id :: string
  px_partyId :: string
  px_state :: exportState
  px_revokedAt :: "int option"
  px_version :: int

record challengeRow =
  ch_id :: string
  ch_consumedAt :: "int option"

datatype propagationBoundary = Bound_application | Bound_business_and_history | Bound_private_files
  | Bound_provider_data | Bound_independent_archive | Bound_restore_reapplication

datatype propagationState = Prop_applied | Prop_held | Prop_unsupported

record propagationEvent =
  pv_sequence :: int
  pv_boundary :: propagationBoundary
  pv_state :: propagationState
  pv_evidence :: json

datatype controlState = Control_normal | Control_quarantined

record recoveryControl =
  rc_state :: controlState
  rc_restoreId :: "string option"
  rc_snapshotDigest :: "string option"
  rc_quarantinedAt :: "int option"
  rc_invalidated :: "json option"

record privacyRequestRow =
  rq_id :: string
  rq_kind :: privacyRequestKind
  rq_state :: privacyRequestState
  rq_partyId :: "string option"
  rq_verifiedAt :: "int option"
  rq_responsibleId :: "string option"
  rq_scope :: json
  rq_version :: int

text \<open>\<open>sf_control\<close> is the row of the runtime, \<open>None\<close> where it or its table is missing.\<close>

record safetyTables =
  sf_links :: linkTables
  sf_parties :: "partyProfile list"
  sf_subscriptions :: "subscriptionRow list"
  sf_consents :: "consentEventRow list"
  sf_invitations :: "invitationRow list"
  sf_passkeys :: "passkeyRow list"
  sf_grants :: "versionedGrant list"
  sf_exports :: "exportRow list"
  sf_requests :: "privacyRequestRow list"
  sf_challenges :: "challengeRow list"
  sf_propagation :: "propagationEvent list"
  sf_events :: "outboxEventRow list"
  sf_control :: "recoveryControl option"
  sf_ledger :: "int safetyEntry list"

abbreviation sf_auth :: "safetyTables \<Rightarrow> authTables" where "sf_auth t \<equiv> lt_auth (sf_links t)"
abbreviation sf_accounts :: "safetyTables \<Rightarrow> accountTables" where "sf_accounts t \<equiv> au_accounts (sf_auth t)"
abbreviation sf_restrictions :: "safetyTables \<Rightarrow> (string \<times> string) list" where
  "sf_restrictions t \<equiv> ac_restrictions (sf_accounts t)"

definition map_links :: "(linkTables \<Rightarrow> linkTables) \<Rightarrow> safetyTables \<Rightarrow> safetyTables" where
  "map_links f t = t\<lparr>sf_links := f (sf_links t)\<rparr>"

definition map_accounts :: "(accountTables \<Rightarrow> accountTables) \<Rightarrow> safetyTables \<Rightarrow> safetyTables" where
  "map_accounts f = map_links (\<lambda>l. l\<lparr>lt_auth := (lt_auth l)\<lparr>au_accounts := f (au_accounts (lt_auth l))\<rparr>\<rparr>)"

definition map_principals :: "(signInAccount \<Rightarrow> signInAccount) \<Rightarrow> safetyTables \<Rightarrow> safetyTables" where
  "map_principals f = map_accounts (\<lambda>a. a\<lparr>ac_principals := map f (ac_principals a)\<rparr>)"

definition map_sessions :: "(sessionRow \<Rightarrow> sessionRow) \<Rightarrow> safetyTables \<Rightarrow> safetyTables" where
  "map_sessions f = map_links (\<lambda>l. l\<lparr>lt_auth := (lt_auth l)\<lparr>au_sessions := map f (au_sessions (lt_auth l))\<rparr>\<rparr>)"

definition map_tokens :: "(signInToken \<Rightarrow> signInToken) \<Rightarrow> safetyTables \<Rightarrow> safetyTables" where
  "map_tokens f = map_links (\<lambda>l. l\<lparr>lt_tokens := map f (lt_tokens l)\<rparr>)"

definition map_contacts :: "(contactMethod \<Rightarrow> contactMethod) \<Rightarrow> safetyTables \<Rightarrow> safetyTables" where
  "map_contacts f = map_links (\<lambda>l. l\<lparr>lt_contacts := map f (lt_contacts l)\<rparr>)"

definition map_actions :: "(externalActionRow \<Rightarrow> externalActionRow) \<Rightarrow> safetyTables \<Rightarrow> safetyTables" where
  "map_actions f = map_links (\<lambda>l. l\<lparr>lt_outbox := (lt_outbox l)\<lparr>ob_actions := map f (ob_actions (lt_outbox l))\<rparr>\<rparr>)"

definition count_of :: "('a \<Rightarrow> bool) \<Rightarrow> 'a list \<Rightarrow> json" where
  "count_of p xs = json_int (int (length (filter p xs)))"

subsection \<open>Subscriptions and restrictions\<close>

definition selected_subscription :: "privacySafetyEffect \<Rightarrow> subscriptionRow \<Rightarrow> bool" where
  "selected_subscription effect s =
     (case effect of
        Subscription_withdrawal e \<Rightarrow> sb_partyId s = we_partyId e \<and> sb_id s \<in> set (we_subscriptionIds e)
      | Privacy_restriction e \<Rightarrow> sb_partyId s = re_partyId e \<and> purpose_word (sb_purpose s) \<in> set (re_purposes e))"

definition withdraw_row :: "subscriptionRow \<Rightarrow> subscriptionRow" where
  "withdraw_row s = s\<lparr>sb_state := Sub_withdrawn, sb_version := sb_version s + 1\<rparr>"

definition withdrawal_event :: "int \<Rightarrow> actor \<Rightarrow> subscriptionRow \<Rightarrow> consentEventRow" where
  "withdrawal_event sequence a s =
     \<lparr>cv_subscriptionId = sb_id s, cv_kind = Consent_withdrawn, cv_policyVersion = sb_policyVersion s,
      cv_source = ''privacy_safety:'' @ int_text sequence, cv_actor = a\<rparr>"

definition withdraw_selected :: "privacySafetyEffect \<Rightarrow> int \<Rightarrow> actor \<Rightarrow> safetyTables \<Rightarrow> safetyTables" where
  "withdraw_selected effect sequence a t =
     (let hit = (\<lambda>s. selected_subscription effect s \<and> sb_state s \<noteq> Sub_withdrawn)
      in t\<lparr>sf_subscriptions := map (\<lambda>s. if hit s then withdraw_row s else s) (sf_subscriptions t),
           sf_consents := sf_consents t @ map (withdrawal_event sequence a) (filter hit (sf_subscriptions t))\<rparr>)"

definition restrict_purposes :: "restrictionEffect \<Rightarrow> safetyTables \<Rightarrow> safetyTables" where
  "restrict_purposes e =
     map_accounts (\<lambda>x. x\<lparr>ac_restrictions := fold (\<lambda>p rows. if (re_partyId e, p) \<in> set rows then rows else rows @ [(re_partyId e, p)])
       (re_purposes e @ [''client_access'']) (ac_restrictions x)\<rparr>)"

subsection \<open>Access\<close>

text \<open>The credentials the decision reaches, by identifier and party and kind.\<close>

definition client_ids :: "restrictionEffect \<Rightarrow> safetyTables \<Rightarrow> string list" where
  "client_ids e t = map pr_id (filter (\<lambda>p. pr_id p \<in> set (re_clientIds e) \<and> pr_partyId p = re_partyId e \<and>
     pr_kind p = Account_client) (ac_principals (sf_accounts t)))"

definition own_token :: "string list \<Rightarrow> signInToken \<Rightarrow> bool" where
  "own_token clients k = (st_principalKind k = Account_client \<and> (case st_principalId k of None \<Rightarrow> False | Some i \<Rightarrow> i \<in> set clients))"

definition own_session :: "string list \<Rightarrow> sessionRow \<Rightarrow> bool" where
  "own_session clients r = (acc_id (se_account r) \<in> set clients \<and> acc_kind (se_account r) = Account_client \<and> se_revokedAt r = None)"

definition own_mail :: "string list \<Rightarrow> externalActionRow \<Rightarrow> bool" where
  "own_mail credentials x =
     (xa_kind x = Ext_email_send \<and> xa_state x = Ext_queued \<and>
      (xa_effectKey x \<in> (\<lambda>i. ''email_link:'' @ i) ` set credentials \<or>
       (xa_subjectType x = Some emailLinkSubject \<and> (case xa_subjectId x of None \<Rightarrow> False | Some i \<Rightarrow> i \<in> set credentials))))"

definition token_ids :: "string list \<Rightarrow> safetyTables \<Rightarrow> string list" where
  "token_ids clients t = map st_id (filter (own_token clients) (lt_tokens (sf_links t)))"

definition cancel_mail :: "externalActionRow \<Rightarrow> externalActionRow" where
  "cancel_mail x = x\<lparr>xa_state := Ext_cancelled, xa_secretPayload := None,
     xa_lastErrorCode := Some ''auth_email_link_ineligible'', xa_version := xa_version x + 1\<rparr>"

definition open_invitation :: "invitationRow \<Rightarrow> bool" where
  "open_invitation i = (iv_revokedAt i = None \<and> iv_acceptedAt i = None \<and> iv_declinedAt i = None)"

definition revoke_access :: "string list \<Rightarrow> int \<Rightarrow> safetyTables \<Rightarrow> safetyTables" where
  "revoke_access clients now t =
     (let credentials = token_ids clients t;
          t1 = map_principals (\<lambda>p. if pr_id p \<in> set clients \<and> pr_status p = Account_active
                 then p\<lparr>pr_status := Account_suspended, pr_version := pr_version p + 1\<rparr> else p) t;
          t2 = map_sessions (\<lambda>r. if own_session clients r then r\<lparr>se_revokedAt := Some now\<rparr> else r) t1;
          t3 = map_tokens (\<lambda>k. if own_token clients k \<and> st_revokedAt k = None \<and> st_consumedAt k = None
                 then k\<lparr>st_revokedAt := Some now\<rparr> else k) t2;
          t4 = map_actions (\<lambda>x. if own_mail credentials x then cancel_mail x else x) t3
      in t4\<lparr>sf_invitations := map (\<lambda>i. if iv_principalId i \<in> set clients \<and> iv_kind i = Invite_client_access \<and> open_invitation i
               then i\<lparr>iv_revokedAt := Some now\<rparr> else i) (sf_invitations t4),
             sf_passkeys := map (\<lambda>k. if pk_principalId k \<in> set clients \<and> pk_revokedAt k = None
               then k\<lparr>pk_revokedAt := Some now\<rparr> else k) (sf_passkeys t4),
             sf_grants := map (\<lambda>g. if (case gr_principalId g of None \<Rightarrow> False | Some i \<Rightarrow> i \<in> set clients) \<and> gr_revokedAt g = None
               then g\<lparr>gr_revokedAt := Some now, gr_version := gr_version g + 1\<rparr> else g) (sf_grants t4)\<rparr>)"

definition revoke_exports :: "string \<Rightarrow> int \<Rightarrow> safetyTables \<Rightarrow> safetyTables" where
  "revoke_exports partyId now t =
     t\<lparr>sf_exports := map (\<lambda>x. if px_partyId x = partyId \<and> px_state x \<noteq> Export_revoked
         then x\<lparr>px_state := Export_revoked, px_revokedAt := Some now, px_version := px_version x + 1\<rparr> else x) (sf_exports t)\<rparr>"

subsection \<open>Optional copies\<close>

definition erase_party :: "restrictionEffect \<Rightarrow> safetyTables \<Rightarrow> safetyTables" where
  "erase_party e t =
     (if \<not> (re_erasePreferences e \<or> re_eraseAliases e) then t
      else t\<lparr>sf_parties := map (\<lambda>p. if py_id p = re_partyId e
         then p\<lparr>py_contactPreferences := (if re_erasePreferences e then JObject [] else py_contactPreferences p),
                py_matchingAliases := (if re_eraseAliases e then [] else py_matchingAliases p),
                py_version := py_version p + 1\<rparr>
         else p) (sf_parties t)\<rparr>)"

definition erase_contact :: "restrictionEffect \<Rightarrow> string \<Rightarrow> safetyTables \<Rightarrow> safetyTables" where
  "erase_contact e i = map_contacts (\<lambda>c. if cm_id c = i \<and> cm_partyId c = re_partyId e
     then c\<lparr>cm_value := i @ ''@erased.invalid'', cm_normalizedValue := ''erased:'' @ i, cm_verification := Contact_unverified,
            cm_verifiedAt := None, cm_lastFailureAt := None, cm_version := cm_version c + 1\<rparr> else c)"

definition erase_profile :: "restrictionEffect \<Rightarrow> string \<Rightarrow> safetyTables \<Rightarrow> safetyTables" where
  "erase_profile e i = map_principals (\<lambda>p. if pr_id p = i \<and> pr_partyId p = re_partyId e \<and> pr_kind p = Account_client
     then p\<lparr>pr_email := i @ ''@erased.invalid'', pr_displayName := ''[restricted client]'', pr_version := pr_version p + 1\<rparr>
     else p)"

definition erase_criteria :: "restrictionEffect \<Rightarrow> safetyTables \<Rightarrow> safetyTables" where
  "erase_criteria e t =
     t\<lparr>sf_subscriptions := map (\<lambda>s. if sb_partyId s = re_partyId e \<and> sb_purpose s = Search_alerts \<and>
           sb_id s \<in> set (re_searchSubscriptionIds e) \<and> sb_state s = Sub_withdrawn
         then s\<lparr>sb_criteria := Some (JObject []), sb_criteriaSummary := None, sb_version := sb_version s + 1\<rparr> else s)
       (sf_subscriptions t)\<rparr>"

subsection \<open>The decision\<close>

definition restriction_counts :: "restrictionEffect \<Rightarrow> string list \<Rightarrow> safetyTables \<Rightarrow> (string \<times> json) list" where
  "restriction_counts e clients t =
     [(''clientCredentialsRestricted'', json_int (int (length clients))),
      (''revokedSessions'', count_of (own_session clients) (au_sessions (sf_auth t))),
      (''authEmailsCancelled'', count_of (own_mail (token_ids clients t)) (ob_actions (lt_outbox (sf_links t)))),
      (''exportsRevoked'', count_of (\<lambda>x. px_partyId x = re_partyId e \<and> px_state x \<noteq> Export_revoked) (sf_exports t)),
      (''physicalFileDeletion'', JBool False), (''providerDeletion'', JBool False)]"

definition applyPrivacySafetyEffect ::
    "privacySafetyEffect \<Rightarrow> int \<Rightarrow> actor \<Rightarrow> int \<Rightarrow> safetyTables \<Rightarrow> json \<times> safetyTables" where
  "applyPrivacySafetyEffect effect sequence a now t =
     (let withdrawn = (''withdrawn'', count_of (\<lambda>s. selected_subscription effect s \<and> sb_state s \<noteq> Sub_withdrawn) (sf_subscriptions t));
          t1 = withdraw_selected effect sequence a t
      in case effect of
           Subscription_withdrawal _ \<Rightarrow> (JObject [withdrawn], t1)
         | Privacy_restriction e \<Rightarrow>
             let t2 = restrict_purposes e t1;
                 clients = client_ids e t2;
                 t3 = (if clients = [] then t2 else revoke_access clients now t2);
                 t4 = erase_party e (revoke_exports (re_partyId e) now t3);
                 t5 = fold (erase_contact e) (re_contactIds e) t4;
                 t6 = fold (erase_profile e) (filter (\<lambda>i. i \<in> set clients) (re_clientProfileIds e)) t5;
                 t7 = (if re_searchSubscriptionIds e = [] then t6 else erase_criteria e t6)
             in (JObject (withdrawn # restriction_counts e clients t2), t7))"

definition recordPrivacyPropagation ::
    "int \<Rightarrow> propagationBoundary \<Rightarrow> propagationState \<Rightarrow> json \<Rightarrow> safetyTables \<Rightarrow> safetyTables" where
  "recordPrivacyPropagation sequence boundary state evidence t =
     t\<lparr>sf_propagation := sf_propagation t @
        [\<lparr>pv_sequence = sequence, pv_boundary = boundary, pv_state = state, pv_evidence = evidence\<rparr>]\<rparr>"

definition reason_json :: "string \<Rightarrow> json" where "reason_json r = JObject [(''reason'', JString r)]"

definition recordSubscriptionWithdrawal ::
    "(string \<Rightarrow> string) \<Rightarrow> string \<Rightarrow> string \<Rightarrow> string \<Rightarrow> string \<Rightarrow> int \<Rightarrow> safetyTables
      \<Rightarrow> thrown + int safetyEntry \<times> safetyTables" where
  "recordSubscriptionWithdrawal sha operationId partyId subscriptionId newId now t =
     (let effect = Subscription_withdrawal \<lparr>we_partyId = partyId, we_subscriptionIds = [subscriptionId]\<rparr>;
          input = \<lparr>di_operationId = operationId, di_partyId = partyId, di_requestId = None,
            di_requestHash = sha (canonicalJson (JObject (effect_entries effect))),
            di_review = JObject [(''kind'', JString ''own_purpose_withdrawal_v1'')], di_effect = effect\<rparr>
      in proceed (appendPrivacySafetyDecision sha input newId now (sf_ledger t)) (\<lambda>(e, rows).
         let t1 = recordPrivacyPropagation (en_sequence e) Bound_application Prop_applied
               (JObject [(''subscriptionId'', JString subscriptionId)]) (t\<lparr>sf_ledger := rows\<rparr>);
             t2 = recordPrivacyPropagation (en_sequence e) Bound_independent_archive Prop_held
               (reason_json ''independent_archive_not_implemented'') t1
         in Inr (e, t2)))"

subsection \<open>Quarantine\<close>

definition assertRecoveryOpen :: "safetyTables \<Rightarrow> thrown + unit" where
  "assertRecoveryOpen t =
     (if map_option rc_state (sf_control t) = Some Control_normal then Inr ()
      else refused ''Recovery quarantine: runtime is not cleared to serve or dispatch.'')"

definition invalidated_json :: "safetyTables \<Rightarrow> json" where
  "invalidated_json t =
     JObject [(''sessions'', count_of (\<lambda>r. se_revokedAt r = None) (au_sessions (sf_auth t))),
       (''emailLinks'', count_of (\<lambda>k. st_revokedAt k = None \<and> st_consumedAt k = None) (lt_tokens (sf_links t))),
       (''invitations'', count_of open_invitation (sf_invitations t)),
       (''challenges'', count_of (\<lambda>c. ch_consumedAt c = None) (sf_challenges t))]"

definition invalidate_credentials :: "int \<Rightarrow> safetyTables \<Rightarrow> safetyTables" where
  "invalidate_credentials now t =
     (let t1 = map_sessions (\<lambda>r. if se_revokedAt r = None then r\<lparr>se_revokedAt := Some now\<rparr> else r) t;
          t2 = map_tokens (\<lambda>k. if st_revokedAt k = None \<and> st_consumedAt k = None then k\<lparr>st_revokedAt := Some now\<rparr> else k) t1
      in t2\<lparr>sf_invitations := map (\<lambda>i. if open_invitation i then i\<lparr>iv_revokedAt := Some now\<rparr> else i) (sf_invitations t2),
             sf_challenges := map (\<lambda>c. if ch_consumedAt c = None then c\<lparr>ch_consumedAt := Some now\<rparr> else c) (sf_challenges t2)\<rparr>)"

definition quarantine_audit :: "string \<Rightarrow> string \<Rightarrow> json \<Rightarrow> int \<Rightarrow> json auditRecord" where
  "quarantine_audit restoreId snapshotDigest invalidated now =
     \<lparr>adr_action = ''recovery.quarantined'', adr_actor = \<lparr>actor_kind = Actor_system, actor_id = ''offline-restore''\<rparr>,
      adr_capability = None, adr_recordType = Some ''recovery'', adr_recordId = Some restoreId, adr_operationId = None,
      adr_correlationId = None, adr_payload = JObject [(''snapshotDigest'', JString snapshotDigest),
        (''invalidated'', invalidated), (''safetyTail'', JString ''unverified'')], adr_at = now\<rparr>"

definition quarantineRestoredDatabase ::
    "string \<Rightarrow> string \<Rightarrow> int \<Rightarrow> safetyTables \<Rightarrow> thrown + recoveryControl \<times> safetyTables" where
  "quarantineRestoredDatabase restoreId snapshotDigest now t =
     (case sf_control t of
        None \<Rightarrow> refused ''Recovery control is missing; migrate the offline destination first.''
      | Some control \<Rightarrow>
          if rc_state control = Control_quarantined
          then (if rc_restoreId control \<noteq> Some restoreId \<or> rc_snapshotDigest control \<noteq> Some snapshotDigest
                then refused ''This destination is already bound to a different restore.''
                else Inr (control, t))
          else let saved = \<lparr>rc_state = Control_quarantined, rc_restoreId = Some restoreId,
                     rc_snapshotDigest = Some snapshotDigest, rc_quarantinedAt = Some now,
                     rc_invalidated = Some (invalidated_json t)\<rparr>;
                   t1 = (invalidate_credentials now t)\<lparr>sf_control := Some saved\<rparr>
               in Inr (saved, map_links (\<lambda>l. l\<lparr>lt_audit :=
                    recordAudit (quarantine_audit restoreId snapshotDigest (invalidated_json t) now) (lt_audit l)\<rparr>) t1))"

subsection \<open>A tail on the tables\<close>

definition merge_entries :: "json \<Rightarrow> (string \<times> json) list" where
  "merge_entries v = (case v of JObject es \<Rightarrow> es | _ \<Rightarrow> [])"

definition reapply_effect :: "string \<Rightarrow> int \<Rightarrow> privacySafetyEffect \<Rightarrow> int \<Rightarrow> safetyTables \<Rightarrow> safetyTables" where
  "reapply_effect restoreId now effect sequence t =
     (case applyPrivacySafetyEffect effect sequence \<lparr>actor_kind = Actor_system, actor_id = ''offline-privacy-tail''\<rparr> now t of
        (result, t1) \<Rightarrow>
          recordPrivacyPropagation sequence Bound_independent_archive Prop_held
            (reason_json ''synthetic_tail_is_not_independent_production_completeness_proof'')
            (recordPrivacyPropagation sequence Bound_restore_reapplication Prop_applied
              (JObject ((''restoreId'', JString restoreId) # merge_entries result)) t1))"

text \<open>The ledger is one of the tables; the rest of them is what the loop threads through.\<close>

definition reapply_tail :: "tailEnv \<Rightarrow> tailInput \<Rightarrow> int \<Rightarrow> safetyTables \<Rightarrow> (thrown + int) \<times> safetyTables" where
  "reapply_tail env i now t =
     (case reapplySyntheticPrivacyTail env
         (\<lambda>w. map_sum id snd (quarantineRestoredDatabase (ti_restoreId i) (ti_snapshotDigest i) now w))
         (reapply_effect (ti_restoreId i) now) i (sf_ledger t) t of
        (r, rows, w) \<Rightarrow> (r, w\<lparr>sf_ledger := rows\<rparr>))"

subsection \<open>What a decision leaves alone, and what it puts in force\<close>

lemmas map_tables = map_links_def map_accounts_def map_principals_def map_sessions_def map_tokens_def map_contacts_def
  map_actions_def

lemma map_tables_kept [simp]:
  "sf_subscriptions (map_links f t) = sf_subscriptions t" "sf_ledger (map_links f t) = sf_ledger t"
  "sf_subscriptions (map_accounts g t) = sf_subscriptions t" "sf_ledger (map_accounts g t) = sf_ledger t"
  "sf_subscriptions (map_principals h t) = sf_subscriptions t" "sf_ledger (map_principals h t) = sf_ledger t"
  "sf_subscriptions (map_sessions j t) = sf_subscriptions t" "sf_ledger (map_sessions j t) = sf_ledger t"
  "sf_subscriptions (map_tokens k t) = sf_subscriptions t" "sf_ledger (map_tokens k t) = sf_ledger t"
  "sf_subscriptions (map_contacts m t) = sf_subscriptions t" "sf_ledger (map_contacts m t) = sf_ledger t"
  "sf_subscriptions (map_actions n t) = sf_subscriptions t" "sf_ledger (map_actions n t) = sf_ledger t"
  "sf_restrictions (map_principals h t) = sf_restrictions t" "sf_restrictions (map_sessions j t) = sf_restrictions t"
  "sf_restrictions (map_tokens k t) = sf_restrictions t" "sf_restrictions (map_contacts m t) = sf_restrictions t"
  "sf_restrictions (map_actions n t) = sf_restrictions t"
  by (simp_all add: map_tables)

lemma revoke_access_kept [simp]:
  "sf_subscriptions (revoke_access cs now t) = sf_subscriptions t" "sf_ledger (revoke_access cs now t) = sf_ledger t"
  "sf_restrictions (revoke_access cs now t) = sf_restrictions t"
  by (simp_all add: revoke_access_def Let_def)

lemma erase_kept [simp]:
  "sf_subscriptions (erase_party e t) = sf_subscriptions t" "sf_ledger (erase_party e t) = sf_ledger t"
  "sf_restrictions (erase_party e t) = sf_restrictions t"
  "sf_subscriptions (revoke_exports p now t) = sf_subscriptions t" "sf_ledger (revoke_exports p now t) = sf_ledger t"
  "sf_restrictions (revoke_exports p now t) = sf_restrictions t"
  "sf_subscriptions (fold (erase_contact e) xs t) = sf_subscriptions t" "sf_ledger (fold (erase_contact e) xs t) = sf_ledger t"
  "sf_restrictions (fold (erase_contact e) xs t) = sf_restrictions t"
  "sf_subscriptions (fold (erase_profile e) xs t) = sf_subscriptions t" "sf_ledger (fold (erase_profile e) xs t) = sf_ledger t"
  "sf_restrictions (fold (erase_profile e) xs t) = sf_restrictions t"
  "sf_ledger (erase_criteria e t) = sf_ledger t" "sf_restrictions (erase_criteria e t) = sf_restrictions t"
proof -
  show "sf_subscriptions (fold (erase_contact e) xs t) = sf_subscriptions t" "sf_ledger (fold (erase_contact e) xs t) = sf_ledger t"
    "sf_restrictions (fold (erase_contact e) xs t) = sf_restrictions t"
    by (induction xs arbitrary: t) (simp_all add: erase_contact_def)
  show "sf_subscriptions (fold (erase_profile e) xs t) = sf_subscriptions t" "sf_ledger (fold (erase_profile e) xs t) = sf_ledger t"
    "sf_restrictions (fold (erase_profile e) xs t) = sf_restrictions t"
    by (induction xs arbitrary: t) (simp_all add: erase_profile_def)
qed (simp_all add: erase_party_def revoke_exports_def erase_criteria_def)

lemma withdraw_selected_kept [simp]:
  "sf_ledger (withdraw_selected e n a t) = sf_ledger t" "sf_restrictions (withdraw_selected e n a t) = sf_restrictions t"
  by (simp_all add: withdraw_selected_def Let_def)

lemma fold_restrict: "set (fold (\<lambda>p rows. if (x, p) \<in> set rows then rows else rows @ [(x, p)]) ps rows) = set rows \<union> Pair x ` set ps"
  by (induction ps arbitrary: rows) auto

lemma restrict_purposes_kept [simp]:
  "sf_subscriptions (restrict_purposes e t) = sf_subscriptions t" "sf_ledger (restrict_purposes e t) = sf_ledger t"
  by (simp_all add: restrict_purposes_def)

lemma restrict_purposes_set:
  "set (sf_restrictions (restrict_purposes e t)) =
     set (sf_restrictions t) \<union> Pair (re_partyId e) ` insert ''client_access'' (set (re_purposes e))"
  unfolding restrict_purposes_def map_accounts_def map_links_def
  by (simp add: fold_restrict del: fold_append fold_Cons)

text \<open>A subscription after a change that may withdraw it and keeps what identifies it.\<close>

definition same_stream :: "subscriptionRow \<Rightarrow> subscriptionRow \<Rightarrow> bool" where
  "same_stream s s' \<longleftrightarrow> sb_id s' = sb_id s \<and> sb_partyId s' = sb_partyId s \<and> sb_purpose s' = sb_purpose s \<and>
     sb_contactMethodId s' = sb_contactMethodId s"

definition streams_after :: "(subscriptionRow \<Rightarrow> bool) \<Rightarrow> subscriptionRow list \<Rightarrow> subscriptionRow list \<Rightarrow> bool" where
  "streams_after P rows rows' \<longleftrightarrow>
     list_all2 (\<lambda>s s'. same_stream s s' \<and> (sb_state s' = Sub_withdrawn \<longleftrightarrow> sb_state s = Sub_withdrawn \<or> P s)) rows rows'"

lemma streams_afterD:
  assumes "streams_after P rows rows'" "s' \<in> set rows'"
  obtains s where "s \<in> set rows" "same_stream s s'" "sb_state s' = Sub_withdrawn \<longleftrightarrow> sb_state s = Sub_withdrawn \<or> P s"
proof -
  obtain i where "i < length rows'" "s' = rows' ! i" using assms(2) by (auto simp: in_set_conv_nth)
  then show ?thesis
    using assms(1) that [of "rows ! i"] unfolding streams_after_def list_all2_conv_all_nth by auto
qed

lemma streams_after_ids: "streams_after P rows rows' \<Longrightarrow> map sb_id rows' = map sb_id rows"
  unfolding streams_after_def same_stream_def list_all2_conv_all_nth by (intro nth_equalityI) auto

lemma withdraw_selected_streams: "streams_after (selected_subscription e) (sf_subscriptions t) (sf_subscriptions (withdraw_selected e n a t))"
  by (auto simp: streams_after_def withdraw_selected_def Let_def list_all2_conv_all_nth same_stream_def withdraw_row_def)

lemma erase_criteria_streams: "streams_after (\<lambda>_. False) (sf_subscriptions t) (sf_subscriptions (erase_criteria e t))"
  by (auto simp: streams_after_def erase_criteria_def list_all2_conv_all_nth same_stream_def)

lemma streams_after_trans: "streams_after P xs ys \<Longrightarrow> streams_after (\<lambda>_. False) ys zs \<Longrightarrow> streams_after P xs zs"
  by (auto simp: streams_after_def list_all2_conv_all_nth same_stream_def)

lemma streams_after_refl: "streams_after (\<lambda>_. False) xs xs"
  by (simp add: streams_after_def list_all2_same same_stream_def)

primrec restricted_by :: "privacySafetyEffect \<Rightarrow> (string \<times> string) set" where
  "restricted_by (Privacy_restriction e) = Pair (re_partyId e) ` insert ''client_access'' (set (re_purposes e))"
| "restricted_by (Subscription_withdrawal e) = {}"

lemma effect_tables:
  assumes "applyPrivacySafetyEffect e n a now t = (v, t2)"
  shows "sf_ledger t2 = sf_ledger t" "streams_after (selected_subscription e) (sf_subscriptions t) (sf_subscriptions t2)"
    "set (sf_restrictions t2) = set (sf_restrictions t) \<union> restricted_by e"
proof -
  note w = withdraw_selected_streams [of e t n a]
  have "sf_ledger t2 = sf_ledger t \<and> streams_after (selected_subscription e) (sf_subscriptions t) (sf_subscriptions t2) \<and>
    set (sf_restrictions t2) = set (sf_restrictions t) \<union> restricted_by e"
  proof (cases e)
    case (Subscription_withdrawal x)
    then show ?thesis using assms w by (auto simp: applyPrivacySafetyEffect_def Let_def)
  next
    case (Privacy_restriction x)
    define t6 where "t6 = (let t' = restrict_purposes x (withdraw_selected e n a t); clients = client_ids x t'
      in fold (erase_profile x) (filter (\<lambda>i. i \<in> set clients) (re_clientProfileIds x))
        (fold (erase_contact x) (re_contactIds x) (erase_party x (revoke_exports (re_partyId x) now
          (if clients = [] then t' else revoke_access clients now t')))))"
    have t6: "sf_ledger t6 = sf_ledger t" "sf_subscriptions t6 = sf_subscriptions (withdraw_selected e n a t)"
      "set (sf_restrictions t6) = set (sf_restrictions t) \<union> restricted_by e"
      unfolding t6_def Let_def using restrict_purposes_set [of x "withdraw_selected e n a t"] Privacy_restriction by simp_all
    have "t2 = (if re_searchSubscriptionIds x = [] then t6 else erase_criteria x t6)"
      using assms unfolding applyPrivacySafetyEffect_def t6_def by (simp add: Privacy_restriction Let_def split: if_splits)
    then show ?thesis
      using t6 w streams_after_trans [OF w, of "sf_subscriptions (erase_criteria x t6)"] erase_criteria_streams [of t6 x] by simp
  qed
  then show "sf_ledger t2 = sf_ledger t" "streams_after (selected_subscription e) (sf_subscriptions t) (sf_subscriptions t2)"
    "set (sf_restrictions t2) = set (sf_restrictions t) \<union> restricted_by e" by simp_all
qed

text \<open>A decision is in force: what it withdraws is withdrawn, what it restricts is restricted.\<close>

definition in_force :: "privacySafetyEffect \<Rightarrow> safetyTables \<Rightarrow> bool" where
  "in_force e t \<longleftrightarrow> (\<forall>s \<in> set (sf_subscriptions t). selected_subscription e s \<longrightarrow> sb_state s = Sub_withdrawn) \<and>
     restricted_by e \<subseteq> set (sf_restrictions t)"

lemma selected_same: "same_stream s s' \<Longrightarrow> selected_subscription e s' = selected_subscription e s"
  by (cases e) (simp_all add: selected_subscription_def same_stream_def)

lemma streams_withdrawn:
  assumes "streams_after P rows rows'" "\<And>s. s \<in> set rows \<Longrightarrow> selected_subscription e s \<Longrightarrow> sb_state s = Sub_withdrawn \<or> P s"
    and "s' \<in> set rows'" "selected_subscription e s'"
  shows "sb_state s' = Sub_withdrawn"
  by (rule streams_afterD [OF assms(1,3)]) (use assms(2,4) in \<open>simp add: selected_same\<close>)

lemma effect_takes:
  assumes "applyPrivacySafetyEffect e n a now t = (v, t2)"
  shows "in_force e t2"
  unfolding in_force_def using effect_tables(3) [OF assms] streams_withdrawn [OF effect_tables(2) [OF assms], of e] by blast

lemma effect_keeps:
  assumes "applyPrivacySafetyEffect f n a now t = (v, t2)" "in_force e t"
  shows "in_force e t2"
  using assms(2) unfolding in_force_def
  using effect_tables(3) [OF assms(1)] streams_withdrawn [OF effect_tables(2) [OF assms(1)], of e] by blast

lemma propagation_kept [simp]:
  "sf_subscriptions (recordPrivacyPropagation n b s v t) = sf_subscriptions t" "sf_ledger (recordPrivacyPropagation n b s v t) = sf_ledger t"
  "sf_links (recordPrivacyPropagation n b s v t) = sf_links t"
  by (simp_all add: recordPrivacyPropagation_def)

lemma in_force_propagation [simp]: "in_force e (recordPrivacyPropagation n b s v t) = in_force e t"
  by (simp add: in_force_def)

interpretation safety: decision_effect "reapply_effect restoreId now" in_force for restoreId now
  by unfold_locales
    (auto simp: reapply_effect_def split: prod.splits intro: effect_takes effect_keeps)

text \<open>A decision leaves the quarantine as it is.\<close>

lemma fold_control: "(\<And>x t. sf_control (f x t) = sf_control t) \<Longrightarrow> sf_control (fold f xs t) = sf_control t"
  by (induction xs arbitrary: t) simp_all

lemma control_kept [simp]:
  "sf_control (withdraw_selected e n a t) = sf_control t" "sf_control (restrict_purposes r t) = sf_control t"
  "sf_control (revoke_access cs now t) = sf_control t" "sf_control (revoke_exports p now t) = sf_control t"
  "sf_control (erase_party r t) = sf_control t" "sf_control (erase_contact r i t) = sf_control t"
  "sf_control (erase_profile r i t) = sf_control t" "sf_control (erase_criteria r t) = sf_control t"
  "sf_control (fold (erase_contact r) xs t) = sf_control t" "sf_control (fold (erase_profile r) xs t) = sf_control t"
proof -
  show c: "sf_control (erase_contact r i t) = sf_control t" and p: "sf_control (erase_profile r i t) = sf_control t" for i t
    by (simp_all add: erase_contact_def erase_profile_def map_tables)
  show "sf_control (fold (erase_contact r) xs t) = sf_control t" by (rule fold_control) (rule c)
  show "sf_control (fold (erase_profile r) xs t) = sf_control t" by (rule fold_control) (rule p)
qed (simp_all add: withdraw_selected_def restrict_purposes_def map_tables revoke_access_def erase_party_def revoke_exports_def
    erase_criteria_def Let_def)

lemma effect_control: "applyPrivacySafetyEffect e n a now t = (v, t2) \<Longrightarrow> sf_control t2 = sf_control t"
  by (cases e) (auto simp: applyPrivacySafetyEffect_def Let_def)

lemma reapply_effect_tables:
  "sf_control (reapply_effect r now e n t) = sf_control t"
  "list_all2 same_stream (sf_subscriptions t) (sf_subscriptions (reapply_effect r now e n t))"
proof -
  obtain v t2 where e: "applyPrivacySafetyEffect e n \<lparr>actor_kind = Actor_system, actor_id = ''offline-privacy-tail''\<rparr> now t = (v, t2)"
    by (metis surj_pair)
  show "sf_control (reapply_effect r now e n t) = sf_control t"
    by (simp add: reapply_effect_def e effect_control [OF e] recordPrivacyPropagation_def)
  show "list_all2 same_stream (sf_subscriptions t) (sf_subscriptions (reapply_effect r now e n t))"
    using effect_tables(2) [OF e] by (auto simp: reapply_effect_def e streams_after_def elim: list_all2_mono)
qed

lemma effects_of_tables:
  "sf_control (effects_of (reapply_effect r now) rows t) = sf_control t"
  "list_all2 same_stream (sf_subscriptions t) (sf_subscriptions (effects_of (reapply_effect r now) rows t))"
proof -
  show "sf_control (effects_of (reapply_effect r now) rows t) = sf_control t"
    unfolding effects_of_def by (rule fold_control) (rule reapply_effect_tables)
  show "list_all2 same_stream (sf_subscriptions t) (sf_subscriptions (effects_of (reapply_effect r now) rows t))"
  proof (induction rows arbitrary: t)
    case Nil
    then show ?case by (simp add: effects_of_def list_all2_same same_stream_def)
  next
    case (Cons x rows)
    have trans: "same_stream a b \<Longrightarrow> same_stream b c \<Longrightarrow> same_stream a c" for a b c by (simp add: same_stream_def)
    show ?case
      using list_all2_trans [OF _ reapply_effect_tables(2) Cons.IH, of same_stream] trans by (simp add: effects_of_def)
  qed
qed

lemma quarantine_tables:
  assumes "quarantineRestoredDatabase r d now t = Inr (c, t2)"
  shows "sf_subscriptions t2 = sf_subscriptions t" "sf_ledger t2 = sf_ledger t" "sf_restrictions t2 = sf_restrictions t"
    "map_option rc_state (sf_control t2) = Some Control_quarantined"
  using assms
  by (auto simp: quarantineRestoredDatabase_def refused_def invalidate_credentials_def Let_def map_links_def
      split: option.splits if_splits)

subsection \<open>Only one person is touched\<close>

lemma filter_map_same:
  assumes "\<And>x. P x \<Longrightarrow> f x = x" "\<And>x. \<not> P x \<Longrightarrow> \<not> P (f x)"
  shows "filter P (map f xs) = filter P xs"
  by (induction xs) (use assms in auto)

text \<open>The client accounts of a person.\<close>

definition own_client :: "string \<Rightarrow> safetyTables \<Rightarrow> string \<Rightarrow> bool" where
  "own_client partyId t i =
     list_ex (\<lambda>p. pr_id p = i \<and> pr_partyId p = partyId \<and> pr_kind p = Account_client) (ac_principals (sf_accounts t))"

text \<open>What of the tables belongs to others: the rows of other people, and of accounts that are not in \<open>own\<close>.\<close>

record othersRows =
  ot_subscriptions :: "subscriptionRow list"
  ot_contacts :: "contactMethod list"
  ot_parties :: "partyProfile list"
  ot_exports :: "exportRow list"
  ot_accounts :: "signInAccount list"
  ot_sessions :: "sessionRow list"
  ot_tokens :: "signInToken list"
  ot_grants :: "versionedGrant list"
  ot_passkeys :: "passkeyRow list"
  ot_invitations :: "invitationRow list"

definition not_of :: "(string \<Rightarrow> bool) \<Rightarrow> string option \<Rightarrow> bool" where
  "not_of own i = (case i of None \<Rightarrow> True | Some x \<Rightarrow> \<not> own x)"

definition others :: "string \<Rightarrow> (string \<Rightarrow> bool) \<Rightarrow> safetyTables \<Rightarrow> othersRows" where
  "others partyId own t =
     \<lparr>ot_subscriptions = filter (\<lambda>s. sb_partyId s \<noteq> partyId) (sf_subscriptions t),
      ot_contacts = filter (\<lambda>c. cm_partyId c \<noteq> partyId) (lt_contacts (sf_links t)),
      ot_parties = filter (\<lambda>p. py_id p \<noteq> partyId) (sf_parties t),
      ot_exports = filter (\<lambda>x. px_partyId x \<noteq> partyId) (sf_exports t),
      ot_accounts = filter (\<lambda>p. \<not> own (pr_id p)) (ac_principals (sf_accounts t)),
      ot_sessions = filter (\<lambda>r. \<not> own (acc_id (se_account r))) (au_sessions (sf_auth t)),
      ot_tokens = filter (\<lambda>k. not_of own (st_principalId k)) (lt_tokens (sf_links t)),
      ot_grants = filter (\<lambda>g. not_of own (gr_principalId g)) (sf_grants t),
      ot_passkeys = filter (\<lambda>k. \<not> own (pk_principalId k)) (sf_passkeys t),
      ot_invitations = filter (\<lambda>i. \<not> own (iv_principalId i)) (sf_invitations t)\<rparr>"

lemma others_withdraw: "others (effect_party e) own (withdraw_selected e n a t) = others (effect_party e) own t"
  by (cases e)
    (auto simp: others_def withdraw_selected_def Let_def selected_subscription_def withdraw_row_def intro!: filter_map_same
      split: if_splits)

lemma others_restrict: "others partyId own (restrict_purposes e t) = others partyId own t"
  by (simp add: others_def restrict_purposes_def map_tables)

lemma others_revoke:
  assumes "\<And>i. i \<in> set clients \<Longrightarrow> own i"
  shows "others partyId own (revoke_access clients now t) = others partyId own t"
  using assms
  by (auto simp: others_def revoke_access_def Let_def map_tables own_session_def own_token_def not_of_def intro!: filter_map_same
      split: option.splits if_splits)

lemma others_exports: "others partyId own (revoke_exports partyId now t) = others partyId own t"
  by (auto simp: others_def revoke_exports_def intro!: filter_map_same split: if_splits)

lemma others_erase:
  "others (re_partyId e) own (erase_party e t) = others (re_partyId e) own t"
  "others (re_partyId e) own (erase_contact e i t) = others (re_partyId e) own t"
  "own i \<Longrightarrow> others (re_partyId e) own (erase_profile e i t) = others (re_partyId e) own t"
  "others (re_partyId e) own (erase_criteria e t) = others (re_partyId e) own t"
  by (auto simp: others_def erase_party_def erase_contact_def erase_profile_def erase_criteria_def map_tables
      intro!: filter_map_same split: if_splits)

lemma others_folds:
  "others (re_partyId e) own (fold (erase_contact e) xs t) = others (re_partyId e) own t"
  "list_all own ys \<Longrightarrow> others (re_partyId e) own (fold (erase_profile e) ys t) = others (re_partyId e) own t"
proof -
  show "others (re_partyId e) own (fold (erase_contact e) xs t) = others (re_partyId e) own t"
    by (induction xs arbitrary: t) (simp_all add: others_erase)
  show "list_all own ys \<Longrightarrow> others (re_partyId e) own (fold (erase_profile e) ys t) = others (re_partyId e) own t"
    by (induction ys arbitrary: t) (simp_all add: others_erase)
qed

lemma client_ids_own:
  assumes "ac_principals (sf_accounts t') = ac_principals (sf_accounts t)" "i \<in> set (client_ids e t')"
  shows "own_client (re_partyId e) t i"
  using assms by (auto simp: client_ids_def own_client_def list_ex_iff)

lemma effect_others:
  assumes "applyPrivacySafetyEffect e n a now t = (v, t2)"
  shows "others (effect_party e) (own_client (effect_party e) t) t2 = others (effect_party e) (own_client (effect_party e) t) t"
proof (cases e)
  case (Subscription_withdrawal x)
  then show ?thesis
    using assms others_withdraw [of e "own_client (effect_party e) t" n a t] by (auto simp: applyPrivacySafetyEffect_def Let_def)
next
  case (Privacy_restriction x)
  let ?own = "own_client (re_partyId x) t"
  define t1 where "t1 = restrict_purposes x (withdraw_selected e n a t)"
  define clients where "clients = client_ids x t1"
  have own: "?own i" if "i \<in> set clients" for i
    using that client_ids_own [of t1 t i x] unfolding clients_def t1_def
    by (simp add: restrict_purposes_def withdraw_selected_def map_tables Let_def)
  have t1: "others (re_partyId x) ?own t1 = others (re_partyId x) ?own t"
    using others_withdraw [of e ?own n a t] Privacy_restriction by (simp add: t1_def others_restrict)
  have "t2 = (let t6 = fold (erase_profile x) (filter (\<lambda>i. i \<in> set clients) (re_clientProfileIds x))
      (fold (erase_contact x) (re_contactIds x) (erase_party x (revoke_exports (re_partyId x) now
        (if clients = [] then t1 else revoke_access clients now t1))))
    in if re_searchSubscriptionIds x = [] then t6 else erase_criteria x t6)"
    using assms unfolding applyPrivacySafetyEffect_def t1_def clients_def by (simp add: Privacy_restriction Let_def split: if_splits)
  moreover have "list_all ?own (filter (\<lambda>i. i \<in> set clients) (re_clientProfileIds x))" using own by (auto simp: list_all_iff)
  ultimately show ?thesis
    using others_revoke [of clients ?own, OF own] t1
    by (simp add: Privacy_restriction Let_def others_folds others_erase others_exports)
qed

end
