(* ===== verification/Preferences.thy ===== *)
theory Preferences
  imports PrivacyEffect Operations
begin

text \<open>
  \<open>src/src/server/privacy/preferences.ts\<close> and \<open>access.ts\<close>: a client's consent to be written to. The commands run
  inside \<open>runOperation\<close>, on the tables of \<open>PrivacyEffect\<close>. Parameters are SHA-256, the keyed hash, the approved
  terms that are current, the normalisation of a search and its summary; inputs are the values the schemas accept.
\<close>

subsection \<open>The caller\<close>

fun session_actor_kind :: "accountKind \<Rightarrow> actorKind" where
  "session_actor_kind Account_staff = Actor_staff" | "session_actor_kind Account_client = Actor_client"

definition session_actor :: "session \<Rightarrow> actor" where
  "session_actor s = \<lparr>actor_kind = session_actor_kind (acc_kind (ss_account s)), actor_id = acc_id (ss_account s)\<rparr>"

definition privacyClient :: "authTables \<Rightarrow> session \<Rightarrow> int \<Rightarrow> thrown + signInAccount" where
  "privacyClient auth s now =
     proceed (requireLiveSession auth s now) (\<lambda>live.
     proceed (require (acc_kind (ss_account live) = Account_client) (plain_error Err_not_found)) (\<lambda>_.
     proceed (requireFreshAuth live now) (\<lambda>_.
     found (List.find (\<lambda>p. pr_id p = acc_id (ss_account live)) (ac_principals (au_accounts auth))))))"

record consentTerms =
  ct_versionId :: string
  ct_number :: int
  ct_contentHash :: string
  ct_locale :: publicLocale

record preferenceEnv =
  pn_sha :: "string \<Rightarrow> string"
  pn_keyedHash :: "string \<Rightarrow> string"
  pn_terms :: "subscriptionPurpose \<Rightarrow> publicLocale \<Rightarrow> consentTerms option"
  pn_normalizeSearch :: "json \<Rightarrow> thrown + json"
  pn_searchSummary :: "json \<Rightarrow> string"

definition consentPolicyKey :: "consentTerms \<Rightarrow> string" where
  "consentPolicyKey k = ct_versionId k @ '':'' @ int_text (ct_number k) @ '':'' @ ct_contentHash k @ '':'' @ locale_name (ct_locale k)"

definition last_segment :: "string \<Rightarrow> string" where
  "last_segment s = rev (takeWhile (\<lambda>c. c \<noteq> CHR '':'') (rev s))"

definition policy_locale :: "string \<Rightarrow> publicLocale option" where
  "policy_locale key = List.find (\<lambda>l. locale_name l = last_segment key) publicLocales"

text \<open>The terms that are current in the locale of the terms a stream was agreed under.\<close>

definition current_terms :: "preferenceEnv \<Rightarrow> subscriptionPurpose \<Rightarrow> string \<Rightarrow> consentTerms option" where
  "current_terms env purpose key = Option.bind (policy_locale key) (pn_terms env purpose)"

text \<open>A call: its session and time, what the server generates, and whether the lock of its key was free.\<close>

record preferenceCall =
  pl_session :: session
  pl_now :: int
  pl_operationId :: string
  pl_newId :: string
  pl_locked :: bool

definition run_preference ::
    "preferenceEnv \<Rightarrow> preferenceCall \<Rightarrow> string \<Rightarrow> string \<Rightarrow> (string \<times> json) list
      \<Rightarrow> (signInAccount \<Rightarrow> operationContext \<Rightarrow> safetyTables \<Rightarrow> thrown + json \<times> safetyTables)
      \<Rightarrow> safetyTables database \<Rightarrow> (thrown + operationSuccess) \<times> safetyTables database" where
  "run_preference env call type key value body db =
     (case privacyClient (sf_auth (db_world db)) (pl_session call) (pl_now call) of
        Inl e \<Rightarrow> (Inl e, db)
      | Inr person \<Rightarrow>
          runOperation \<lparr>oi_actor = session_actor (pl_session call), oi_type = type, oi_idempotencyKey = key,
              oi_requestHash = pn_sha env (canonicalJson (JObject value)), oi_expectedVersion = None, oi_subject = None,
              oi_butlerAuthorization = None\<rparr>
            (\<lambda>ctx w. case proceed (privacyClient (sf_auth w) (pl_session call) (pl_now call)) (\<lambda>_. body person ctx w) of
                Inl e \<Rightarrow> (Inl e, w)
              | Inr (v, w2) \<Rightarrow> (Inr v, w2))
            (pl_locked call) (pl_operationId call) (pl_now call) db)"

definition preference_audit ::
    "preferenceCall \<Rightarrow> string \<Rightarrow> string \<Rightarrow> string \<Rightarrow> string \<Rightarrow> json \<Rightarrow> safetyTables \<Rightarrow> safetyTables" where
  "preference_audit call action type i operationId payload =
     map_links (\<lambda>l. l\<lparr>lt_audit := recordAudit
       \<lparr>adr_action = action, adr_actor = session_actor (pl_session call), adr_capability = None, adr_recordType = Some type,
        adr_recordId = Some i, adr_operationId = Some operationId, adr_correlationId = None, adr_payload = payload,
        adr_at = pl_now call\<rparr> (lt_audit l)\<rparr>)"

definition consent_event :: "preferenceCall \<Rightarrow> string \<Rightarrow> consentEventKind \<Rightarrow> string \<Rightarrow> string \<Rightarrow> consentEventRow" where
  "consent_event call i kind policy source =
     \<lparr>cv_subscriptionId = i, cv_kind = kind, cv_policyVersion = policy, cv_source = source,
      cv_actor = session_actor (pl_session call)\<rparr>"

subsection \<open>Contact preferences\<close>

datatype preferredChannel = Prefer_email | Prefer_phone

fun preferred_word :: "preferredChannel \<Rightarrow> string" where
  "preferred_word Prefer_email = ''email''" | "preferred_word Prefer_phone = ''phone''"

record contactPreferenceInput =
  cq_operationId :: string
  cq_expectedVersion :: int
  cq_locale :: publicLocale
  cq_timezone :: string
  cq_channel :: preferredChannel
  cq_contactWindow :: string

definition contact_preference_entries :: "contactPreferenceInput \<Rightarrow> (string \<times> json) list" where
  "contact_preference_entries q =
     [(''timezone'', JString (cq_timezone q)), (''channel'', JString (preferred_word (cq_channel q))),
      (''contactWindow'', JString (cq_contactWindow q))]"

definition contact_preference_body ::
    "preferenceCall \<Rightarrow> contactPreferenceInput \<Rightarrow> signInAccount \<Rightarrow> operationContext \<Rightarrow> safetyTables
      \<Rightarrow> thrown + json \<times> safetyTables" where
  "contact_preference_body call q person ctx t =
     (case List.find (\<lambda>p. py_id p = pr_partyId person) (sf_parties t) of
        None \<Rightarrow> Inl (plain_error Err_version_conflict)
      | Some party \<Rightarrow>
          proceed (require (py_version party = cq_expectedVersion q) (plain_error Err_version_conflict)) (\<lambda>_.
          Inr (JObject [(''partyId'', JString (py_id party))],
            preference_audit call ''preferences.contact.saved'' ''party'' (py_id party) (cx_operationId ctx) (JObject [])
              (t\<lparr>sf_parties := map (\<lambda>p. if py_id p = py_id party
                  then p\<lparr>py_preferredLocale := Some (cq_locale q), py_contactPreferences := JObject (contact_preference_entries q),
                         py_version := py_version party + 1\<rparr> else p) (sf_parties t)\<rparr>))))"

definition saveContactPreferences ::
    "preferenceEnv \<Rightarrow> preferenceCall \<Rightarrow> contactPreferenceInput \<Rightarrow> safetyTables database
      \<Rightarrow> (thrown + operationSuccess) \<times> safetyTables database" where
  "saveContactPreferences env call q =
     run_preference env call ''preferences.contact'' (cq_operationId q)
       ([(''operationId'', JString (cq_operationId q)), (''expectedVersion'', json_int (cq_expectedVersion q)),
         (''locale'', JString (locale_name (cq_locale q)))] @ contact_preference_entries q)
       (contact_preference_body call q)"

subsection \<open>Opting in\<close>

record optInInput =
  oq_operationId :: string
  oq_contactMethodId :: string
  oq_purpose :: subscriptionPurpose
  oq_locale :: publicLocale
  oq_termsVersionId :: string
  oq_timezone :: string
  oq_frequency :: alertFrequency
  oq_search :: json

fun frequency_word :: "alertFrequency \<Rightarrow> string" where
  "frequency_word Alert_daily = ''daily''" | "frequency_word Alert_weekly = ''weekly''"

text \<open>An object with some of its members set.\<close>

definition with_members :: "(string \<times> json) list \<Rightarrow> json \<Rightarrow> json" where
  "with_members ms v = JObject (filter (\<lambda>(k, _). k \<notin> fst ` set ms) (merge_entries v) @ ms)"

definition usable_contact :: "contactMethod \<Rightarrow> bool" where
  "usable_contact c = (cm_kind c = Contact_email \<and> cm_verification c = Contact_verified \<and> cm_verifiedAt c \<noteq> None)"

definition new_stream ::
    "preferenceEnv \<Rightarrow> string \<Rightarrow> optInInput \<Rightarrow> json option \<Rightarrow> consentTerms \<Rightarrow> string \<Rightarrow> contactMethod \<Rightarrow> subscriptionRow" where
  "new_stream env newId q search terms partyId contact =
     \<lparr>sb_id = newId, sb_partyId = partyId, sb_contactMethodId = cm_id contact, sb_purpose = oq_purpose q,
      sb_state = Sub_active, sb_verifiedAt = cm_verifiedAt contact,
      sb_criteria = map_option (with_members [(''consentLocale'', JString (locale_name (oq_locale q)))]) search,
      sb_criteriaSummary = map_option (pn_searchSummary env) search,
      sb_frequency = (if search = None then None else Some (oq_frequency q)), sb_timezone = oq_timezone q,
      sb_policyVersion = consentPolicyKey terms,
      sb_unsubscribeTokenHash = pn_sha env (pn_keyedHash env (''unsubscribe:'' @ newId)), sb_lastSentAt = None, sb_version = 1\<rparr>"

definition opted_in ::
    "preferenceCall \<Rightarrow> optInInput \<Rightarrow> consentTerms \<Rightarrow> subscriptionRow \<Rightarrow> operationContext \<Rightarrow> safetyTables \<Rightarrow> safetyTables" where
  "opted_in call q terms row ctx t =
     preference_audit call ''subscription.opted_in'' ''subscription'' (sb_id row) (cx_operationId ctx)
       (JObject [(''purpose'', JString (purpose_word (oq_purpose q))), (''policyVersion'', JString (sb_policyVersion row))])
       (t\<lparr>sf_subscriptions := sf_subscriptions t @ [row],
          sf_consents := sf_consents t @ map (\<lambda>kind. consent_event call (sb_id row) kind
            (sb_policyVersion row) (''client_preferences:'' @ ct_versionId terms)) [Opted_in, Channel_verified]\<rparr>)"

definition opt_in_body ::
    "preferenceEnv \<Rightarrow> preferenceCall \<Rightarrow> optInInput \<Rightarrow> json option \<Rightarrow> signInAccount \<Rightarrow> operationContext \<Rightarrow> safetyTables
      \<Rightarrow> thrown + json \<times> safetyTables" where
  "opt_in_body env call q search person ctx t =
     (let partyId = pr_partyId person
      in proceed (require (\<not> privacyProcessingRestricted (sf_restrictions t) partyId (purpose_word (oq_purpose q)))
           (plain_error Err_transition_denied)) (\<lambda>_.
         case pn_terms env (oq_purpose q) (oq_locale q) of
           None \<Rightarrow> Inl (plain_error Err_approval_stale)
         | Some terms \<Rightarrow>
             proceed (require (ct_versionId terms = oq_termsVersionId q) (plain_error Err_approval_stale)) (\<lambda>_.
             case List.find (\<lambda>c. cm_id c = oq_contactMethodId q \<and> cm_partyId c = partyId) (lt_contacts (sf_links t)) of
               None \<Rightarrow> Inl (plain_error Err_validation_failed)
             | Some contact \<Rightarrow>
                 proceed (require (usable_contact contact \<and> cm_lastFailureAt contact = None) (plain_error Err_validation_failed)) (\<lambda>_.
                 proceed (require (\<not> list_ex (\<lambda>s. sb_partyId s = partyId \<and> sb_contactMethodId s = cm_id contact \<and>
                     sb_purpose s = oq_purpose q \<and> sb_state s \<noteq> Sub_withdrawn) (sf_subscriptions t))
                   (plain_error Err_transition_denied)) (\<lambda>_.
                 let row = new_stream env (pl_newId call) q search terms partyId contact
                 in if sb_id row \<in> sb_id ` set (sf_subscriptions t)
                       \<or> sb_unsubscribeTokenHash row \<in> sb_unsubscribeTokenHash ` set (sf_subscriptions t)
                    then Inl (ThrownOther ''duplicate_key'')
                    else Inr (JObject [(''id'', JString (sb_id row)), (''state'', JString ''active'')],
                      opted_in call q terms row ctx t))))))"

definition opt_in_search :: "preferenceEnv \<Rightarrow> optInInput \<Rightarrow> thrown + json option" where
  "opt_in_search env q =
     (if oq_purpose q = Search_alerts
      then map_sum id Some (pn_normalizeSearch env (with_members [(''locale'', JString (locale_name (oq_locale q)))] (oq_search q)))
      else Inr None)"

definition optIn ::
    "preferenceEnv \<Rightarrow> preferenceCall \<Rightarrow> optInInput \<Rightarrow> safetyTables database
      \<Rightarrow> (thrown + operationSuccess) \<times> safetyTables database" where
  "optIn env call q db =
     (case proceed (privacyClient (sf_auth (db_world db)) (pl_session call) (pl_now call)) (\<lambda>_. opt_in_search env q) of
        Inl e \<Rightarrow> (Inl e, db)
      | Inr search \<Rightarrow>
          run_preference env call ''preferences.opt_in'' (oq_operationId q)
            [(''operationId'', JString (oq_operationId q)), (''contactMethodId'', JString (oq_contactMethodId q)),
             (''purpose'', JString (purpose_word (oq_purpose q))), (''locale'', JString (locale_name (oq_locale q))),
             (''termsVersionId'', JString (oq_termsVersionId q)), (''confirmed'', JBool True),
             (''timezone'', JString (oq_timezone q)), (''frequency'', JString (frequency_word (oq_frequency q))),
             (''search'', oq_search q)]
            (opt_in_body env call q search) db)"

subsection \<open>Pausing, resuming and withdrawing\<close>

datatype requestedState = To_paused | To_active | To_withdrawn

fun requested :: "requestedState \<Rightarrow> subscriptionState" where
  "requested To_paused = Sub_paused" | "requested To_active = Sub_active" | "requested To_withdrawn = Sub_withdrawn"

fun requested_word :: "requestedState \<Rightarrow> string" where
  "requested_word To_paused = ''paused''" | "requested_word To_active = ''active''"
| "requested_word To_withdrawn = ''withdrawn''"

fun requested_event :: "requestedState \<Rightarrow> consentEventKind" where
  "requested_event To_paused = Consent_paused" | "requested_event To_active = Consent_resumed"
| "requested_event To_withdrawn = Consent_withdrawn"

record changeInput =
  hq_operationId :: string
  hq_id :: string
  hq_expectedVersion :: int
  hq_state :: requestedState

definition own_stream :: "string \<Rightarrow> string \<Rightarrow> safetyTables \<Rightarrow> subscriptionRow option" where
  "own_stream i partyId t = List.find (\<lambda>s. sb_id s = i \<and> sb_partyId s = partyId) (sf_subscriptions t)"

definition contact_of :: "string \<Rightarrow> safetyTables \<Rightarrow> contactMethod option" where
  "contact_of i t = List.find (\<lambda>c. cm_id c = i) (lt_contacts (sf_links t))"

text \<open>What resuming needs: no restriction, the same terms still current, and a contact that still works.\<close>

definition may_resume :: "preferenceEnv \<Rightarrow> string \<Rightarrow> subscriptionRow \<Rightarrow> safetyTables \<Rightarrow> thrown + unit" where
  "may_resume env partyId row t =
     proceed (require (\<not> privacyProcessingRestricted (sf_restrictions t) partyId (purpose_word (sb_purpose row)))
       (plain_error Err_transition_denied)) (\<lambda>_.
     require ((case current_terms env (sb_purpose row) (sb_policyVersion row) of
           None \<Rightarrow> False | Some terms \<Rightarrow> consentPolicyKey terms = sb_policyVersion row) \<and>
         (case contact_of (sb_contactMethodId row) t of
           None \<Rightarrow> False
         | Some c \<Rightarrow> usable_contact c \<and> cm_partyId c = sb_partyId row \<and> cm_lastFailureAt c = None))
       (plain_error Err_approval_stale))"

definition changed_stream :: "preferenceCall \<Rightarrow> changeInput \<Rightarrow> subscriptionRow \<Rightarrow> safetyTables \<Rightarrow> safetyTables" where
  "changed_stream call q row t =
     t\<lparr>sf_subscriptions := map (\<lambda>s. if sb_id s = sb_id row
          then s\<lparr>sb_state := requested (hq_state q), sb_version := sb_version row + 1\<rparr> else s) (sf_subscriptions t),
        sf_consents := sf_consents t @ [consent_event call (sb_id row) (requested_event (hq_state q))
          (sb_policyVersion row) ''client_preferences'']\<rparr>"

definition announced_change ::
    "preferenceCall \<Rightarrow> changeInput \<Rightarrow> subscriptionRow \<Rightarrow> operationContext \<Rightarrow> safetyTables \<Rightarrow> safetyTables" where
  "announced_change call q row ctx t =
     (let word = ''subscription.'' @ requested_word (hq_state q);
          t3 = preference_audit call word ''subscription'' (sb_id row) (cx_operationId ctx) (JObject []) t
      in t3\<lparr>sf_events := sf_events t3 @ [\<lparr>oe_eventType = word, oe_subjectType = ''subscription'',
           oe_subjectId = sb_id row, oe_payload = JObject [], oe_sourceGeneration = None,
           oe_operationId = Some (cx_operationId ctx)\<rparr>]\<rparr>)"

definition change_body ::
    "preferenceEnv \<Rightarrow> preferenceCall \<Rightarrow> changeInput \<Rightarrow> signInAccount \<Rightarrow> operationContext \<Rightarrow> safetyTables
      \<Rightarrow> thrown + json \<times> safetyTables" where
  "change_body env call q person ctx t =
     (let partyId = pr_partyId person
      in case own_stream (hq_id q) partyId t of
           None \<Rightarrow> Inl (plain_error Err_not_found)
         | Some row \<Rightarrow>
             proceed (require (sb_version row = hq_expectedVersion q) (plain_error Err_version_conflict)) (\<lambda>_.
             proceed (require (check subscriptionMachine (sb_state row) (requested (hq_state q)) = Allowed)
               (plain_error Err_transition_denied)) (\<lambda>_.
             proceed (if hq_state q = To_active then may_resume env partyId row t else Inr ()) (\<lambda>_.
             proceed (require (hq_state q \<noteq> To_active \<or> sb_verifiedAt row \<noteq> None) (ThrownOther ''check_violation'')) (\<lambda>_.
             proceed (if hq_state q = To_withdrawn
                 then map_sum id snd (recordSubscriptionWithdrawal (pn_sha env) (cx_operationId ctx) partyId (sb_id row)
                   (pl_newId call) (pl_now call) (changed_stream call q row t))
                 else Inr (changed_stream call q row t)) (\<lambda>t2.
             Inr (JObject [(''id'', JString (sb_id row)), (''state'', JString (requested_word (hq_state q)))],
               announced_change call q row ctx t2)))))))"

definition changeSubscription ::
    "preferenceEnv \<Rightarrow> preferenceCall \<Rightarrow> changeInput \<Rightarrow> safetyTables database
      \<Rightarrow> (thrown + operationSuccess) \<times> safetyTables database" where
  "changeSubscription env call q =
     run_preference env call ''preferences.subscription'' (hq_operationId q)
       [(''operationId'', JString (hq_operationId q)), (''id'', JString (hq_id q)),
        (''expectedVersion'', json_int (hq_expectedVersion q)), (''state'', JString (requested_word (hq_state q)))]
       (change_body env call q)"

subsection \<open>Editing a search\<close>

fun listing_purpose_word :: "listingPurpose \<Rightarrow> string" where
  "listing_purpose_word Purpose_sale = ''sale''" | "listing_purpose_word Purpose_long_term_rent = ''long_term_rent''"

record editInput =
  eq_operationId :: string
  eq_id :: string
  eq_expectedVersion :: int
  eq_locale :: publicLocale
  eq_termsVersionId :: string
  eq_timezone :: string
  eq_frequency :: alertFrequency
  eq_q :: string
  eq_purpose :: listingPurpose
  eq_maxPrice :: "int option"

text \<open>The search of a stored stream with the edited members; the other filters stay.\<close>

definition edited_search :: "editInput \<Rightarrow> json \<Rightarrow> json" where
  "edited_search q current =
     (let criteria = json_get current ''criteria''; low = json_get (json_get criteria ''price'') ''min''
      in with_members
           [(''locale'', JString (locale_name (eq_locale q))), (''sort'', json_get current ''sort''),
            (''purpose'', JString (listing_purpose_word (eq_purpose q))), (''q'', JString (eq_q q)),
            (''includeUnconfirmed'', json_get criteria ''includeNeedsConfirmation''),
            (''price'', (if eq_maxPrice q = None \<and> low = JUndefined then JUndefined
               else JObject ([(''currency'', JString ''EUR''), (''min'', low)] @
                 (case eq_maxPrice q of None \<Rightarrow> [] | Some m \<Rightarrow> [(''max'', json_int m)]))))]
           (JObject (filter (\<lambda>(k, _). k \<noteq> ''includeNeedsConfirmation'') (merge_entries criteria))))"

definition editable_search :: "json \<Rightarrow> bool" where
  "editable_search current =
     (let criteria = json_get current ''criteria''; price = json_get criteria ''price''
      in json_truthy criteria \<and> \<not> (json_truthy price \<and> json_get price ''currency'' \<noteq> JString ''EUR''))"

definition edited_stream ::
    "preferenceEnv \<Rightarrow> preferenceCall \<Rightarrow> editInput \<Rightarrow> consentTerms \<Rightarrow> subscriptionRow \<Rightarrow> json \<Rightarrow> operationContext
      \<Rightarrow> safetyTables \<Rightarrow> safetyTables" where
  "edited_stream env call q terms row search ctx t =
     preference_audit call ''subscription.criteria_changed'' ''subscription'' (sb_id row) (cx_operationId ctx)
       (JObject [(''previousCriteria'', the_or JNull (sb_criteria row)), (''criteria'', search),
         (''frequency'', JString (frequency_word (eq_frequency q))), (''timezone'', JString (eq_timezone q)),
         (''policyVersion'', JString (consentPolicyKey terms))])
       (t\<lparr>sf_subscriptions := map (\<lambda>s. if sb_id s = sb_id row
            then s\<lparr>sb_criteria := Some (with_members [(''consentLocale'', JString (locale_name (eq_locale q)))] search),
                   sb_criteriaSummary := Some (pn_searchSummary env search), sb_timezone := eq_timezone q,
                   sb_frequency := Some (eq_frequency q), sb_policyVersion := consentPolicyKey terms,
                   sb_version := sb_version row + 1\<rparr> else s) (sf_subscriptions t),
          sf_consents := sf_consents t @ [consent_event call (sb_id row) Criteria_changed
            (consentPolicyKey terms) ''client_preferences'']\<rparr>)"

definition edit_body ::
    "preferenceEnv \<Rightarrow> preferenceCall \<Rightarrow> editInput \<Rightarrow> signInAccount \<Rightarrow> operationContext \<Rightarrow> safetyTables
      \<Rightarrow> thrown + json \<times> safetyTables" where
  "edit_body env call q person ctx t =
     (let partyId = pr_partyId person
      in case own_stream (eq_id q) partyId t of
           None \<Rightarrow> Inl (plain_error Err_not_found)
         | Some row \<Rightarrow>
             proceed (require (sb_purpose row = Search_alerts) (plain_error Err_not_found)) (\<lambda>_.
             proceed (require (sb_version row = eq_expectedVersion q) (plain_error Err_version_conflict)) (\<lambda>_.
             proceed (require (sb_state row \<in> {Sub_active, Sub_paused}) (plain_error Err_transition_denied)) (\<lambda>_.
             case pn_terms env Search_alerts (eq_locale q) of
               None \<Rightarrow> Inl (plain_error Err_approval_stale)
             | Some terms \<Rightarrow>
                 proceed (require (ct_versionId terms = eq_termsVersionId q) (plain_error Err_approval_stale)) (\<lambda>_.
                 proceed (require (case contact_of (sb_contactMethodId row) t of
                       None \<Rightarrow> False | Some c \<Rightarrow> usable_contact c \<and> cm_partyId c = partyId)
                     (plain_error Err_validation_failed)) (\<lambda>_.
                 let current = the_or JNull (sb_criteria row)
                 in proceed (require (editable_search current) (plain_error Err_validation_failed)) (\<lambda>_.
                    proceed (pn_normalizeSearch env (edited_search q current)) (\<lambda>search.
                    Inr (JObject [(''id'', JString (sb_id row)),
                          (''state'', JString (if sb_state row = Sub_active then ''active'' else ''paused''))],
                      edited_stream env call q terms row search ctx t)))))))))"

definition editSearchSubscription ::
    "preferenceEnv \<Rightarrow> preferenceCall \<Rightarrow> editInput \<Rightarrow> safetyTables database
      \<Rightarrow> (thrown + operationSuccess) \<times> safetyTables database" where
  "editSearchSubscription env call q =
     run_preference env call ''preferences.search.edit'' (eq_operationId q)
       [(''operationId'', JString (eq_operationId q)), (''id'', JString (eq_id q)),
        (''expectedVersion'', json_int (eq_expectedVersion q)), (''locale'', JString (locale_name (eq_locale q))),
        (''termsVersionId'', JString (eq_termsVersionId q)), (''confirmed'', JBool True),
        (''timezone'', JString (eq_timezone q)), (''frequency'', JString (frequency_word (eq_frequency q))),
        (''q'', JString (eq_q q)), (''purpose'', JString (listing_purpose_word (eq_purpose q))),
        (''maxPrice'', json_opt json_int (eq_maxPrice q))]
       (edit_body env call q)"

subsection \<open>Whether a message may go out\<close>

definition view_of :: "subscriptionRow \<Rightarrow> subscriptionView" where
  "view_of s = \<lparr>sv_purpose = sb_purpose s, sv_state = sb_state s, sv_verifiedAt = map_option to_iso (sb_verifiedAt s)\<rparr>"

definition eligibleSubscriptionRecipient ::
    "preferenceEnv \<Rightarrow> string \<Rightarrow> subscriptionPurpose \<Rightarrow> safetyTables \<Rightarrow> (string \<times> subscriptionRow) option" where
  "eligibleSubscriptionRecipient env i purpose t =
     (case List.find (\<lambda>s. sb_id s = i) (sf_subscriptions t) of
        None \<Rightarrow> None
      | Some s \<Rightarrow>
          (case contact_of (sb_contactMethodId s) t of
             None \<Rightarrow> None
           | Some c \<Rightarrow>
               if privacyProcessingRestricted (sf_restrictions t) (sb_partyId s) (purpose_word purpose)
                  \<or> checkSendEligibility (Some (view_of s)) purpose \<noteq> Allowed
                  \<or> \<not> usable_contact c \<or> cm_lastFailureAt c \<noteq> None \<or> cm_partyId c \<noteq> sb_partyId s
               then None
               else (case current_terms env purpose (sb_policyVersion s) of
                       None \<Rightarrow> None
                     | Some terms \<Rightarrow>
                         if consentPolicyKey terms \<noteq> sb_policyVersion s then None else Some (cm_value c, s))))"

end
