(* ===== verification/Erasure.thy ===== *)
theory Erasure
  imports Preferences OperatingPolicy
begin

text \<open>
  \<open>src/src/server/privacy/erasure.ts\<close> and \<open>erasure-inventory.ts\<close>: a reviewed decision on a person's optional copies.
  The inventory lists every source of the person with the digest of its rows, of which the columns of the model
  appear; the dependencies found by the database catalog, the retention hold and the operating policy in force are
  parameters, as are the tables of relationships that access is resolved from. The exclusive locks on the source
  tables make the command's reads and writes one step.
\<close>

datatype erasureCategory = Optional_processing | Contact_preferences | Matching_aliases | Optional_search_criteria
  | Optional_contacts | Client_profile_copies | Client_access_category

definition erasureCategories :: "erasureCategory list" where
  "erasureCategories = [Optional_processing, Contact_preferences, Matching_aliases, Optional_search_criteria,
     Optional_contacts, Client_profile_copies, Client_access_category]"

fun category_word :: "erasureCategory \<Rightarrow> string" where
  "category_word Optional_processing = ''optional_processing''"
| "category_word Contact_preferences = ''contact_preferences''"
| "category_word Matching_aliases = ''matching_aliases''"
| "category_word Optional_search_criteria = ''optional_search_criteria''"
| "category_word Optional_contacts = ''optional_contacts''"
| "category_word Client_profile_copies = ''client_profile_copies''"
| "category_word Client_access_category = ''client_access''"

datatype erasureDisposition = Restrict_processing | Erase_optional_copy | Revoke_client_access | Retain_restricted
  | Hold_unknown

fun disposition_word :: "erasureDisposition \<Rightarrow> string" where
  "disposition_word Restrict_processing = ''restrict_processing''"
| "disposition_word Erase_optional_copy = ''erase_optional_copy''"
| "disposition_word Revoke_client_access = ''revoke_client_access''"
| "disposition_word Retain_restricted = ''retain_restricted''"
| "disposition_word Hold_unknown = ''hold_unknown''"

datatype erasureClassification = Optional_only | Account_credentials | Retained_business | Unknown_classification

fun classification_word :: "erasureClassification \<Rightarrow> string" where
  "classification_word Optional_only = ''optional_only''"
| "classification_word Account_credentials = ''account_credentials''"
| "classification_word Retained_business = ''retained_business''"
| "classification_word Unknown_classification = ''unknown''"

record erasureDecision =
  ed_category :: erasureCategory
  ed_disposition :: erasureDisposition
  ed_classification :: erasureClassification
  ed_sourceKeys :: "string list"
  ed_evidenceReference :: string

definition optionalProcessingPurposes :: "subscriptionPurpose list" where
  "optionalProcessingPurposes = [Search_alerts, Marketing]"

record erasureSource =
  es_key :: string
  es_category :: erasureCategory
  es_digest :: string
  es_eligible :: bool

record erasureInventory =
  ei_requestId :: string
  ei_requestVersion :: int
  ei_partyId :: string
  ei_reviewerId :: string
  ei_reviewerSessionId :: string
  ei_authorityDigest :: string
  ei_sources :: "erasureSource list"
  ei_retentionHold :: bool
  ei_businessDependencies :: bool
  ei_dependencyDigest :: string
  ei_policy :: json

record erasureEnv =
  ee_sha :: "string \<Rightarrow> string"
  ee_checks :: schemaChecks
  ee_dependencies :: "string \<Rightarrow> string list \<Rightarrow> string list \<Rightarrow> bool \<times> string"
  ee_retentionHold :: "string \<Rightarrow> bool"
  ee_policy :: json
  ee_participants :: "relationshipRow list"
  ee_relationships :: "relationshipRow list"

definition hash_of :: "erasureEnv \<Rightarrow> json \<Rightarrow> string" where
  "hash_of env v = ee_sha env (canonicalJson v)"

subsection \<open>The operator\<close>

definition access_of :: "erasureEnv \<Rightarrow> safetyTables \<Rightarrow> accessTables" where
  "access_of env t =
     \<lparr>at_principals = map principalRow.truncate (ac_principals (sf_accounts t)), at_memberships = ac_memberships (sf_accounts t),
      at_grants = map grantRow.truncate (sf_grants t), at_participants = ee_participants env,
      at_relationships = ee_relationships env\<rparr>"

definition staffPasskeyMinimum :: nat where "staffPasskeyMinimum = 1"

definition countActivePasskeys :: "string \<Rightarrow> safetyTables \<Rightarrow> nat" where
  "countActivePasskeys i t = length (filter (\<lambda>k. pk_principalId k = i \<and> pk_revokedAt k = None) (sf_passkeys t))"

definition liveStaff :: "session \<Rightarrow> int \<Rightarrow> safetyTables \<Rightarrow> thrown + session" where
  "liveStaff s now t =
     proceed (requireLiveSession (sf_auth t) s now) (\<lambda>live.
     proceed (require (acc_kind (ss_account live) = Account_staff) (plain_error Err_not_found)) (\<lambda>_.
     proceed (require (staffPasskeyMinimum \<le> countActivePasskeys (acc_id (ss_account live)) t) (plain_error Err_forbidden)) (\<lambda>_.
     Inr live)))"

definition privacy_resource :: "string \<Rightarrow> resource" where
  "privacy_resource i = \<lparr>res_type = ''privacy_request'', res_id = Some i, res_locale = None, res_caseId = None,
     res_propertyId = None, res_audience = None\<rparr>"

definition may_as :: "erasureEnv \<Rightarrow> actor \<Rightarrow> capability \<Rightarrow> resource option \<Rightarrow> int \<Rightarrow> safetyTables \<Rightarrow> thrown + unit" where
  "may_as env a cap r now t = (case assertCan (access_of env t) a cap r now of None \<Rightarrow> Inr () | Some e \<Rightarrow> Inl e)"

definition privacyOperator :: "erasureEnv \<Rightarrow> session \<Rightarrow> string \<Rightarrow> int \<Rightarrow> safetyTables \<Rightarrow> thrown + session" where
  "privacyOperator env s i now t =
     proceed (liveStaff s now t) (\<lambda>live.
     proceed (requireFreshAuth live now) (\<lambda>_.
     proceed (may_as env (session_actor live) Cap_privacy_manage (Some (privacy_resource i)) now t) (\<lambda>_. Inr live)))"

definition authorizeEffect :: "erasureEnv \<Rightarrow> session \<Rightarrow> string \<Rightarrow> int \<Rightarrow> safetyTables \<Rightarrow> thrown + session" where
  "authorizeEffect env s i now t =
     proceed (privacyOperator env s i now t) (\<lambda>live.
     proceed (may_as env (session_actor live) Cap_access_grant None now t) (\<lambda>_. Inr live))"

definition privacyOwners :: "erasureEnv \<Rightarrow> int \<Rightarrow> safetyTables \<Rightarrow> string list" where
  "privacyOwners env now t =
     map pr_id (filter (\<lambda>p. pr_kind p = Account_staff \<and> pr_status p = Account_active \<and>
         list_ex (\<lambda>m. mb_principalId m = pr_id p \<and> mb_state m = Member_active) (ac_memberships (sf_accounts t)) \<and>
         can (access_of env t) \<lparr>actor_kind = Actor_staff, actor_id = pr_id p\<rparr> Cap_privacy_manage None now \<and>
         staffPasskeyMinimum \<le> countActivePasskeys (pr_id p) t)
       (sort_key pr_id (ac_principals (sf_accounts t))))"

definition erasureRequest ::
    "erasureEnv \<Rightarrow> session \<Rightarrow> string \<Rightarrow> int option \<Rightarrow> int \<Rightarrow> safetyTables \<Rightarrow> thrown + session \<times> privacyRequestRow" where
  "erasureRequest env s i version now t =
     proceed (privacyOperator env s i now t) (\<lambda>live.
     proceed (found (List.find (\<lambda>r. rq_id r = i) (sf_requests t))) (\<lambda>request.
     proceed (require (truthy (rq_partyId request) \<and> rq_kind request \<in> {Prk_deletion, Prk_restriction}) (plain_error Err_not_found)) (\<lambda>_.
     proceed (require (case version of None \<Rightarrow> True | Some v \<Rightarrow> rq_version request = v) (plain_error Err_version_conflict)) (\<lambda>_.
     Inr (live, request)))))"

subsection \<open>The inventory\<close>

definition opt_int :: "int option \<Rightarrow> json" where "opt_int v = json_opt (\<lambda>n. JString (to_iso n)) v"

fun stream_state_word :: "subscriptionState \<Rightarrow> string" where
  "stream_state_word Sub_pending_verification = ''pending_verification''"
| "stream_state_word Sub_active = ''active''"
| "stream_state_word Sub_paused = ''paused''"
| "stream_state_word Sub_withdrawn = ''withdrawn''"

definition stream_json :: "subscriptionRow \<Rightarrow> json" where
  "stream_json s = JObject
     [(''id'', JString (sb_id s)), (''partyId'', JString (sb_partyId s)), (''contactMethodId'', JString (sb_contactMethodId s)),
      (''purpose'', JString (purpose_word (sb_purpose s))), (''state'', JString (stream_state_word (sb_state s))),
      (''verifiedAt'', opt_int (sb_verifiedAt s)), (''criteria'', the_or JNull (sb_criteria s)),
      (''criteriaSummary'', json_opt JString (sb_criteriaSummary s)),
      (''frequency'', json_opt (\<lambda>f. JString (frequency_word f)) (sb_frequency s)), (''timezone'', JString (sb_timezone s)),
      (''policyVersion'', JString (sb_policyVersion s)), (''unsubscribeTokenHash'', JString (sb_unsubscribeTokenHash s)),
      (''lastSentAt'', opt_int (sb_lastSentAt s)), (''version'', json_int (sb_version s))]"

fun contact_kind_word :: "contactKind \<Rightarrow> string" where
  "contact_kind_word Contact_email = ''email''" | "contact_kind_word Contact_phone = ''phone''"
| "contact_kind_word Contact_whatsapp = ''whatsapp''" | "contact_kind_word Contact_viber = ''viber''"
| "contact_kind_word Contact_postal = ''postal''"

fun verification_word :: "contactVerification \<Rightarrow> string" where
  "verification_word Contact_unverified = ''unverified''" | "verification_word Contact_pending = ''pending''"
| "verification_word Contact_verified = ''verified''" | "verification_word Contact_failed = ''failed''"

definition contact_json :: "contactMethod \<Rightarrow> json" where
  "contact_json c = JObject
     [(''id'', JString (cm_id c)), (''partyId'', JString (cm_partyId c)), (''kind'', JString (contact_kind_word (cm_kind c))),
      (''value'', JString (cm_value c)), (''normalizedValue'', JString (cm_normalizedValue c)),
      (''verification'', JString (verification_word (cm_verification c))), (''verifiedAt'', opt_int (cm_verifiedAt c)),
      (''lastFailureAt'', opt_int (cm_lastFailureAt c)), (''version'', json_int (cm_version c))]"

fun status_word :: "accountStatus \<Rightarrow> string" where
  "status_word Account_active = ''active''" | "status_word Account_suspended = ''suspended''"
| "status_word Account_deactivated = ''deactivated''"

definition principal_json :: "signInAccount \<Rightarrow> json" where
  "principal_json p = JObject
     [(''id'', JString (pr_id p)), (''kind'', JString (if pr_kind p = Account_staff then ''staff'' else ''client'')),
      (''partyId'', JString (pr_partyId p)), (''email'', JString (pr_email p)), (''displayName'', JString (pr_displayName p)),
      (''status'', JString (status_word (pr_status p))), (''version'', json_int (pr_version p))]"

definition inventory_source ::
    "erasureEnv \<Rightarrow> string \<Rightarrow> erasureCategory \<Rightarrow> json \<Rightarrow> bool \<Rightarrow> erasureSource" where
  "inventory_source env key category v canErase =
     \<lparr>es_key = key, es_category = category, es_digest = hash_of env v, es_eligible = canErase\<rparr>"

definition party_streams :: "string \<Rightarrow> safetyTables \<Rightarrow> subscriptionRow list" where
  "party_streams partyId t = sort_key sb_id (filter (\<lambda>s. sb_partyId s = partyId) (sf_subscriptions t))"

definition party_contacts :: "string \<Rightarrow> safetyTables \<Rightarrow> contactMethod list" where
  "party_contacts partyId t = sort_key cm_id (filter (\<lambda>c. cm_partyId c = partyId) (lt_contacts (sf_links t)))"

definition party_accounts :: "string \<Rightarrow> safetyTables \<Rightarrow> signInAccount list" where
  "party_accounts partyId t = sort_key pr_id (filter (\<lambda>p. pr_partyId p = partyId) (ac_principals (sf_accounts t)))"

definition party_clients :: "string \<Rightarrow> safetyTables \<Rightarrow> signInAccount list" where
  "party_clients partyId t = filter (\<lambda>p. pr_kind p = Account_client) (party_accounts partyId t)"

text \<open>A contact that no service stream is sent to.\<close>

definition optional_contact :: "subscriptionRow list \<Rightarrow> contactMethod \<Rightarrow> bool" where
  "optional_contact streams c =
     (\<not> list_ex (\<lambda>s. sb_contactMethodId s = cm_id c \<and> sb_purpose s = Service_updates) streams)"

definition inventory_sources :: "erasureEnv \<Rightarrow> partyProfile \<Rightarrow> bool \<Rightarrow> safetyTables \<Rightarrow> erasureSource list" where
  "inventory_sources env party eligible t =
     (let i = py_id party; streams = party_streams i t; clients = party_clients i t
      in map (\<lambda>p. inventory_source env (''purpose:'' @ purpose_word p) Optional_processing
             (JArray (map stream_json (filter (\<lambda>s. sb_purpose s = p) streams))) True) optionalProcessingPurposes @
         [inventory_source env (''party:'' @ i @ '':preferences'') Contact_preferences
            (JObject [(''version'', json_int (py_version party)), (''value'', py_contactPreferences party)]) eligible,
          inventory_source env (''party:'' @ i @ '':aliases'') Matching_aliases
            (JObject [(''version'', json_int (py_version party)), (''value'', strings_json (py_matchingAliases party))]) eligible] @
         map (\<lambda>s. inventory_source env (''subscription:'' @ sb_id s @ '':criteria'') Optional_search_criteria (stream_json s) eligible)
           (filter (\<lambda>s. sb_purpose s = Search_alerts) streams) @
         map (\<lambda>c. inventory_source env (''contact:'' @ cm_id c) Optional_contacts (contact_json c)
             (eligible \<and> optional_contact streams c)) (party_contacts i t) @
         map (\<lambda>p. inventory_source env (''principal:'' @ pr_id p @ '':profile'') Client_profile_copies (principal_json p) eligible) clients @
         map (\<lambda>p. inventory_source env (''principal:'' @ pr_id p @ '':access'') Client_access_category (principal_json p) True) clients)"

text \<open>What the operator's authority rests on.\<close>

fun role_word :: "role \<Rightarrow> string" where
  "role_word Role_visitor = ''visitor''" | "role_word Role_verified_client = ''verified_client''"
| "role_word Role_invited_collaborator = ''invited_collaborator''" | "role_word Role_assigned_broker = ''assigned_broker''"
| "role_word Role_coordinator = ''coordinator''" | "role_word Role_content_editor = ''content_editor''"
| "role_word Role_translation_reviewer = ''translation_reviewer''"
| "role_word Role_publishing_approver = ''publishing_approver''" | "role_word Role_manager = ''manager''"
| "role_word Role_external_specialist = ''external_specialist''" | "role_word Role_ai_service = ''ai_service''"

definition grant_json :: "versionedGrant \<Rightarrow> json" where
  "grant_json g = JObject
     [(''principalId'', json_opt JString (gr_principalId g)), (''serviceName'', json_opt JString (gr_serviceName g)),
      (''role'', json_opt (\<lambda>r. JString (role_word r)) (gr_role g)),
      (''capability'', json_opt (\<lambda>c. JString (capability_name c)) (gr_capability g)),
      (''locales'', json_opt (\<lambda>ls. JArray (map (\<lambda>l. JString (locale_name l)) ls)) (gr_locales g)),
      (''recordType'', json_opt JString (gr_recordType g)), (''recordId'', json_opt JString (gr_recordId g)),
      (''expiresAt'', opt_int (gr_expiresAt g)), (''revokedAt'', opt_int (gr_revokedAt g)), (''version'', json_int (gr_version g))]"

definition authority_json :: "string \<Rightarrow> safetyTables \<Rightarrow> json" where
  "authority_json i t = JObject
     [(''actorGrants'', JArray (map grant_json (filter (\<lambda>g. gr_principalId g = Some i) (sf_grants t)))),
      (''actorKeys'', JArray (map (\<lambda>k. JObject [(''id'', JString (pk_id k)), (''principalId'', JString (pk_principalId k)),
          (''revokedAt'', opt_int (pk_revokedAt k))]) (sort_key pk_id (filter (\<lambda>k. pk_principalId k = i) (sf_passkeys t))))),
      (''membership'', (case List.find (\<lambda>m. mb_principalId m = i) (ac_memberships (sf_accounts t)) of
          None \<Rightarrow> JUndefined
        | Some m \<Rightarrow> JObject [(''principalId'', JString i), (''state'', JString (case mb_state m of
              Member_active \<Rightarrow> ''active'' | Member_suspended \<Rightarrow> ''suspended'' | Member_ended \<Rightarrow> ''ended''))])),
      (''operator'', (case List.find (\<lambda>p. pr_id p = i) (ac_principals (sf_accounts t)) of
          None \<Rightarrow> JUndefined | Some p \<Rightarrow> principal_json p))]"

definition collectErasureInventory ::
    "erasureEnv \<Rightarrow> session \<Rightarrow> string \<Rightarrow> int \<Rightarrow> safetyTables \<Rightarrow> thrown + erasureInventory" where
  "collectErasureInventory env s i now t =
     proceed (erasureRequest env s i None now t) (\<lambda>(live, request).
     let partyId = the_or [] (rq_partyId request)
     in proceed (found (List.find (\<lambda>p. py_id p = partyId) (sf_parties t))) (\<lambda>party.
        let contacts = party_contacts partyId t; accounts = party_accounts partyId t; streams = party_streams partyId t;
            clients = party_clients partyId t
        in proceed (require (length contacts + length accounts + length streams \<le> 450) (plain_error Err_unavailable)) (\<lambda>_.
           let dependency = ee_dependencies env partyId (map cm_id contacts) (map pr_id clients);
                 hold = ee_retentionHold env partyId;
                 eligible = (\<not> hold \<and> \<not> fst dependency \<and> \<not> list_ex (\<lambda>p. pr_kind p = Account_staff) accounts)
             in Inr \<lparr>ei_requestId = rq_id request, ei_requestVersion = rq_version request, ei_partyId = partyId,
                  ei_reviewerId = acc_id (ss_account live), ei_reviewerSessionId = ss_id live,
                  ei_authorityDigest = hash_of env (authority_json (acc_id (ss_account live)) t),
                  ei_sources = inventory_sources env party eligible t, ei_retentionHold = hold,
                  ei_businessDependencies = fst dependency, ei_dependencyDigest = snd dependency, ei_policy = ee_policy env\<rparr>)))"

definition source_json :: "erasureSource \<Rightarrow> json" where
  "source_json x = JObject [(''key'', JString (es_key x)), (''category'', JString (category_word (es_category x))),
     (''digest'', JString (es_digest x)), (''eligible'', JBool (es_eligible x))]"

definition inventory_json :: "erasureInventory \<Rightarrow> json" where
  "inventory_json x = JObject
     [(''kind'', JString ''privacy_erasure_inventory_v1''), (''requestId'', JString (ei_requestId x)),
      (''requestVersion'', json_int (ei_requestVersion x)), (''partyId'', JString (ei_partyId x)),
      (''reviewerId'', JString (ei_reviewerId x)), (''reviewerSessionId'', JString (ei_reviewerSessionId x)),
      (''authorityDigest'', JString (ei_authorityDigest x)), (''sources'', JArray (map source_json (ei_sources x))),
      (''retentionHold'', JBool (ei_retentionHold x)), (''businessDependencies'', JBool (ei_businessDependencies x)),
      (''dependencyDigest'', JString (ei_dependencyDigest x)), (''policy'', ei_policy x)]"

subsection \<open>Checking the decisions\<close>

definition category_sources :: "erasureInventory \<Rightarrow> erasureCategory \<Rightarrow> erasureSource list" where
  "category_sources x c = filter (\<lambda>y. es_category y = c) (ei_sources x)"

definition erasable :: "erasureEnv \<Rightarrow> erasureInventory \<Rightarrow> erasureDecision \<Rightarrow> thrown + unit" where
  "erasable env x d =
     (case readOperatingPolicySnapshot (ee_checks env) (ei_policy x) of
        None \<Rightarrow> Inl (plain_error Err_transition_denied)
      | Some p \<Rightarrow>
          proceed (require (truthy (op_retentionReference (ap_document p)) \<and> ed_classification d = Optional_only \<and>
              \<not> ei_retentionHold x \<and> \<not> ei_businessDependencies x \<and>
              list_all es_eligible (category_sources x (ed_category d))) (plain_error Err_transition_denied)) (\<lambda>_.
          require (truthy (op_savedSearchPurpose (ap_document p)) \<and> truthy (op_marketingPurpose (ap_document p)))
            (plain_error Err_transition_denied)))"

definition check_decision :: "erasureEnv \<Rightarrow> erasureInventory \<Rightarrow> erasureDecision \<Rightarrow> thrown + unit" where
  "check_decision env x d =
     (let wrong = plain_error Err_validation_failed
      in proceed (require (hash_of env (strings_json (sort (ed_sourceKeys d))) =
             hash_of env (strings_json (sort (map es_key (category_sources x (ed_category d))))))
           (plain_error Err_version_conflict)) (\<lambda>_.
         if ed_category d = Optional_processing
         then require (ed_disposition d = Restrict_processing \<and> ed_classification d = Optional_only) wrong
         else if ed_category d = Client_access_category
         then require (ed_disposition d = Revoke_client_access \<and> ed_classification d = Account_credentials) wrong
         else if ed_disposition d = Erase_optional_copy then erasable env x d
         else proceed (require (ed_disposition d \<in> {Retain_restricted, Hold_unknown}) wrong) (\<lambda>_.
              require (ed_disposition d \<noteq> Hold_unknown \<or> ed_classification d = Unknown_classification) wrong)))"

fun check_decisions :: "erasureEnv \<Rightarrow> erasureInventory \<Rightarrow> erasureDecision list \<Rightarrow> thrown + unit" where
  "check_decisions env x [] = Inr ()"
| "check_decisions env x (d # ds) = proceed (check_decision env x d) (\<lambda>_. check_decisions env x ds)"

definition validateDecisions :: "erasureEnv \<Rightarrow> erasureInventory \<Rightarrow> erasureDecision list \<Rightarrow> thrown + unit" where
  "validateDecisions env x ds =
     proceed (require (card (ed_category ` set ds) = length erasureCategories) (plain_error Err_validation_failed)) (\<lambda>_.
     check_decisions env x ds)"

subsection \<open>Applying\<close>

record erasureInput =
  ri_operationId :: string
  ri_requestId :: string
  ri_expectedVersion :: int
  ri_inventoryDigest :: string
  ri_purposes :: "subscriptionPurpose list"
  ri_decisions :: "erasureDecision list"

text \<open>What the schema of the input asks for.\<close>

definition erasure_input_ok :: "erasureInput \<Rightarrow> bool" where
  "erasure_input_ok q =
     (0 < ri_expectedVersion q \<and> length (ri_inventoryDigest q) = 64 \<and> list_all hex_char (ri_inventoryDigest q) \<and>
      list_all (\<lambda>p. p \<in> set optionalProcessingPurposes) (ri_purposes q) \<and> length (ri_purposes q) \<in> {1, 2} \<and>
      length (ri_decisions q) = length erasureCategories)"

definition decision_json :: "erasureDecision \<Rightarrow> json" where
  "decision_json d = JObject
     [(''category'', JString (category_word (ed_category d))), (''disposition'', JString (disposition_word (ed_disposition d))),
      (''classification'', JString (classification_word (ed_classification d))), (''sourceKeys'', strings_json (ed_sourceKeys d)),
      (''evidenceReference'', JString (ed_evidenceReference d))]"

definition erasure_value :: "erasureInput \<Rightarrow> json" where
  "erasure_value q = JObject
     [(''operationId'', JString (ri_operationId q)), (''requestId'', JString (ri_requestId q)),
      (''expectedVersion'', json_int (ri_expectedVersion q)), (''inventoryDigest'', JString (ri_inventoryDigest q)),
      (''purposes'', strings_json (map purpose_word (ri_purposes q))), (''decisions'', JArray (map decision_json (ri_decisions q))),
      (''confirmed'', JBool True)]"

definition second_segment :: "string \<Rightarrow> string" where
  "second_segment s = takeWhile (\<lambda>c. c \<noteq> CHR '':'') (drop 1 (dropWhile (\<lambda>c. c \<noteq> CHR '':'') s))"

definition erase_category :: "erasureInput \<Rightarrow> erasureCategory \<Rightarrow> bool" where
  "erase_category q c =
     (map_option ed_disposition (List.find (\<lambda>d. ed_category d = c) (ri_decisions q)) = Some Erase_optional_copy)"

definition source_ids :: "erasureInventory \<Rightarrow> erasureCategory \<Rightarrow> string list" where
  "source_ids x c = map (\<lambda>y. second_segment (es_key y)) (category_sources x c)"

definition erasure_effect :: "erasureInput \<Rightarrow> erasureInventory \<Rightarrow> restrictionEffect" where
  "erasure_effect q x =
     \<lparr>re_partyId = ei_partyId x, re_requestId = ri_requestId q, re_purposes = map purpose_word (ri_purposes q),
      re_clientIds = source_ids x Client_access_category, re_erasePreferences = erase_category q Contact_preferences,
      re_eraseAliases = erase_category q Matching_aliases,
      re_contactIds = (if erase_category q Optional_contacts then source_ids x Optional_contacts else []),
      re_clientProfileIds = (if erase_category q Client_profile_copies then source_ids x Client_profile_copies else []),
      re_searchSubscriptionIds = (if erase_category q Optional_search_criteria \<and> Search_alerts \<in> set (ri_purposes q)
        then source_ids x Optional_search_criteria else []),
      re_inventoryDigest = ri_inventoryDigest q\<rparr>"

definition erasure_review :: "erasureInput \<Rightarrow> erasureInventory \<Rightarrow> string \<Rightarrow> json" where
  "erasure_review q x reviewer = JObject
     [(''kind'', JString ''privacy_erasure_review_v1''), (''inventory'', inventory_json x),
      (''decisions'', JArray (map decision_json (ri_decisions q))), (''reviewedById'', JString reviewer),
      (''policyClassification'', JString ''per_source_human_disposition'')]"

text \<open>The decision recorded and carried out: the entry, the ledger and the tables.\<close>

definition decide ::
    "(string \<Rightarrow> string) \<Rightarrow> decisionInput \<Rightarrow> string \<Rightarrow> actor \<Rightarrow> int \<Rightarrow> safetyTables
      \<Rightarrow> thrown + int safetyEntry \<times> json \<times> safetyTables" where
  "decide sha input newId a now t =
     proceed (appendPrivacySafetyDecision sha input newId now (sf_ledger t)) (\<lambda>(e, rows).
       case applyPrivacySafetyEffect (di_effect input) (en_sequence e) a now (t\<lparr>sf_ledger := rows\<rparr>) of
         (result, t2) \<Rightarrow> Inr (e, result, t2))"

definition held_boundaries :: "erasureInventory \<Rightarrow> int \<Rightarrow> json \<Rightarrow> safetyTables \<Rightarrow> safetyTables" where
  "held_boundaries x n result t =
     (let t1 = recordPrivacyPropagation n Bound_application Prop_applied result t;
          t2 = recordPrivacyPropagation n Bound_business_and_history Prop_held (reason_json (if ei_retentionHold x
             then ''retention_obligation'' else ''legal_joint_and_immutable_history_require_separate_disposition'')) t1;
          t3 = recordPrivacyPropagation n Bound_private_files Prop_unsupported (JObject
             [(''reason'', JString ''storage_has_no_delete_or_retained_recovery_point_proof''), (''physicalDeletion'', JBool False)]) t2;
          t4 = recordPrivacyPropagation n Bound_provider_data Prop_unsupported (JObject
             [(''reason'', JString ''existing_provider_adapter_supports_sending_only''), (''providerDeletion'', JBool False)]) t3
      in recordPrivacyPropagation n Bound_independent_archive Prop_held
           (reason_json ''independent_archive_and_current_watermark_unverified'') t4)"

definition erasure_audit :: "actor \<Rightarrow> string \<Rightarrow> string \<Rightarrow> json \<Rightarrow> int \<Rightarrow> safetyTables \<Rightarrow> safetyTables" where
  "erasure_audit a i operationId payload now =
     map_links (\<lambda>l. l\<lparr>lt_audit := recordAudit
       \<lparr>adr_action = ''privacy.erasure.applied'', adr_actor = a, adr_capability = Some Cap_privacy_manage,
        adr_recordType = Some ''privacy_request'', adr_recordId = Some i, adr_operationId = Some operationId,
        adr_correlationId = None, adr_payload = payload, adr_at = now\<rparr> (lt_audit l)\<rparr>)"

definition erasure_decision :: "erasureEnv \<Rightarrow> erasureInput \<Rightarrow> erasureInventory \<Rightarrow> session \<Rightarrow> string \<Rightarrow> decisionInput" where
  "erasure_decision env q x live operationId =
     \<lparr>di_operationId = operationId, di_partyId = ei_partyId x, di_requestId = Some (ri_requestId q),
      di_requestHash = hash_of env (erasure_value q), di_review = erasure_review q x (acc_id (ss_account live)),
      di_effect = Privacy_restriction (erasure_effect q x)\<rparr>"

definition erasure_recorded ::
    "erasureInventory \<Rightarrow> privacyRequestRow \<Rightarrow> session \<Rightarrow> string \<Rightarrow> int \<Rightarrow> int safetyEntry \<Rightarrow> json \<Rightarrow> safetyTables \<Rightarrow> safetyTables" where
  "erasure_recorded x request live operationId now e result t1 =
     (let t2 = held_boundaries x (en_sequence e) result t1;
          t3 = t2\<lparr>sf_requests := map (\<lambda>r. if rq_id r = rq_id request \<and> rq_version r = rq_version request
            then r\<lparr>rq_version := rq_version request + 1, rq_scope := with_members
              [(''erasureDecisionSequence'', json_int (en_sequence e)), (''dueCondition'', JString ''erasure_propagation_partial'')]
              (rq_scope request)\<rparr> else r) (sf_requests t2)\<rparr>
      in erasure_audit (session_actor live) (rq_id request) operationId
           (JObject ([(''sequence'', json_int (en_sequence e)), (''digest'', JString (en_digest e)),
             (''fulfilment'', JString ''partial'')] @ merge_entries result)) now t3)"

definition erasure_body ::
    "erasureEnv \<Rightarrow> preferenceCall \<Rightarrow> erasureInput \<Rightarrow> operationContext \<Rightarrow> safetyTables \<Rightarrow> thrown + json \<times> safetyTables" where
  "erasure_body env call q ctx t =
     (let s = pl_session call; now = pl_now call
      in proceed (authorizeEffect env s (ri_requestId q) now t) (\<lambda>live.
         proceed (erasureRequest env s (ri_requestId q) (Some (ri_expectedVersion q)) now t) (\<lambda>(_, request).
         proceed (require (rq_state request \<in> {Prv_in_progress, Prv_on_legal_hold} \<and> rq_verifiedAt request \<noteq> None \<and>
             truthy (rq_responsibleId request) \<and> the_or [] (rq_responsibleId request) \<in> set (privacyOwners env now t))
           (plain_error Err_transition_denied)) (\<lambda>_.
         proceed (collectErasureInventory env s (rq_id request) now t) (\<lambda>x.
         proceed (require (hash_of env (inventory_json x) = ri_inventoryDigest q) (plain_error Err_version_conflict)) (\<lambda>_.
         proceed (require (distinct (ri_purposes q)) (plain_error Err_validation_failed)) (\<lambda>_.
         proceed (validateDecisions env x (ri_decisions q)) (\<lambda>_.
         proceed (decide (ee_sha env) (erasure_decision env q x live (cx_operationId ctx)) (pl_newId call) (session_actor live) now t)
           (\<lambda>(e, result, t1).
            Inr (JObject [(''id'', JString (rq_id request)), (''decisionId'', JString (en_id e)),
                 (''sequence'', json_int (en_sequence e)), (''digest'', JString (en_digest e)),
                 (''requestVersion'', json_int (rq_version request + 1)), (''fulfilment'', JString ''partial''),
                 (''localEffect'', JString ''applied''), (''independentArchive'', JString ''unverified'')],
               erasure_recorded x request live (cx_operationId ctx) now e result t1))))))))))"

definition applyPrivacyErasure ::
    "erasureEnv \<Rightarrow> preferenceCall \<Rightarrow> erasureInput \<Rightarrow> safetyTables database \<Rightarrow> (thrown + operationSuccess) \<times> safetyTables database" where
  "applyPrivacyErasure env call q db =
     (if \<not> erasure_input_ok q then (Inl (plain_error Err_validation_failed), db)
      else case authorizeEffect env (pl_session call) (ri_requestId q) (pl_now call) (db_world db) of
        Inl e \<Rightarrow> (Inl e, db)
      | Inr _ \<Rightarrow>
          runOperation \<lparr>oi_actor = session_actor (pl_session call), oi_type = ''privacy.erasure.apply'',
              oi_idempotencyKey = ri_operationId q, oi_requestHash = hash_of env (erasure_value q),
              oi_expectedVersion = Some (ri_expectedVersion q), oi_subject = Some (''privacy_request'', ri_requestId q),
              oi_butlerAuthorization = None\<rparr>
            (\<lambda>ctx w. case erasure_body env call q ctx w of Inl e \<Rightarrow> (Inl e, w) | Inr (v, w2) \<Rightarrow> (Inr v, w2))
            (pl_locked call) (pl_operationId call) (pl_now call) db)"

subsection \<open>What an applied erasure has been checked against\<close>

lemma erasure_cases:
  assumes "erasure_body env call q ctx t = Inr (v, t')"
  obtains live request x e result t1 where
    "erasureRequest env (pl_session call) (ri_requestId q) (Some (ri_expectedVersion q)) (pl_now call) t = Inr (live, request)"
    "collectErasureInventory env (pl_session call) (rq_id request) (pl_now call) t = Inr x"
    "rq_state request \<in> {Prv_in_progress, Prv_on_legal_hold}" "rq_verifiedAt request \<noteq> None"
    "hash_of env (inventory_json x) = ri_inventoryDigest q" "validateDecisions env x (ri_decisions q) = Inr ()"
    "decide (ee_sha env) (erasure_decision env q x live (cx_operationId ctx)) (pl_newId call) (session_actor live) (pl_now call) t = Inr (e, result, t1)"
    "t' = erasure_recorded x request live (cx_operationId ctx) (pl_now call) e result t1"
proof -
  have same: "live = live2" if "authorizeEffect env s i now t = Inr live" "erasureRequest env s i n now t = Inr (live2, r)" for s i now n r live live2
    using that by (auto simp: authorizeEffect_def erasureRequest_def)
  show thesis
    using assms that unfolding erasure_body_def Let_def by (auto split: prod.splits dest!: same)
qed

lemma check_decisions_all: "check_decisions env x ds = Inr () \<Longrightarrow> d \<in> set ds \<Longrightarrow> check_decision env x d = Inr ()"
  by (induction ds) auto

lemma strings_hash:
  assumes "hash_of env (strings_json xs) = hash_of env (strings_json ys)" "inj (ee_sha env)"
  shows "xs = ys"
proof -
  have "canonicalJson (strings_json xs) = canonicalJson (strings_json ys)"
    using assms by (simp add: hash_of_def inj_def)
  then have "content_of (strings_json xs) = content_of (strings_json ys)"
    using canonicalJson_iff [of "strings_json xs" "strings_json ys"] by (simp add: strings_json_def list_all_iff)
  then show ?thesis by (simp add: strings_json_def content_strings [simplified])
qed

text \<open>A decision that passed names exactly the sources of its category, and erases only what may be erased.\<close>

lemma decision_checked:
  assumes "check_decision env x d = Inr ()" "inj (ee_sha env)"
  shows "mset (ed_sourceKeys d) = mset (map es_key (category_sources x (ed_category d)))"
    "ed_disposition d = Erase_optional_copy \<Longrightarrow> \<not> ei_retentionHold x \<and> \<not> ei_businessDependencies x \<and>
       list_all es_eligible (category_sources x (ed_category d)) \<and> ed_classification d = Optional_only \<and>
       ed_category d \<notin> {Optional_processing, Client_access_category}"
proof -
  have "hash_of env (strings_json (sort (ed_sourceKeys d))) =
      hash_of env (strings_json (sort (map es_key (category_sources x (ed_category d)))))"
    using assms(1) by (simp add: check_decision_def Let_def)
  then show "mset (ed_sourceKeys d) = mset (map es_key (category_sources x (ed_category d)))"
    using strings_hash [OF _ assms(2)] by (metis mset_sort)
  show "\<not> ei_retentionHold x \<and> \<not> ei_businessDependencies x \<and> list_all es_eligible (category_sources x (ed_category d)) \<and>
      ed_classification d = Optional_only \<and> ed_category d \<notin> {Optional_processing, Client_access_category}"
    if "ed_disposition d = Erase_optional_copy"
    using assms(1) that
    by (auto simp: check_decision_def Let_def erasable_def split: if_splits option.splits)
qed

text \<open>A contact that is erased is the person's own and no service stream goes to it.\<close>

lemma second_segment_contact: "CHR '':'' \<notin> set i \<Longrightarrow> second_segment (''contact:'' @ i) = i"
  by (auto simp: second_segment_def takeWhile_eq_all_conv)

lemma erasureRequest_found:
  "erasureRequest env s i version now t = Inr (live, request) \<Longrightarrow>
     List.find (\<lambda>r. rq_id r = i) (sf_requests t) = Some request \<and> rq_id request = i \<and> truthy (rq_partyId request)"
  by (auto simp: erasureRequest_def find_Some_iff)

lemma inventory_of:
  assumes "collectErasureInventory env s i now t = Inr x"
  obtains request party eligible where "List.find (\<lambda>r. rq_id r = i) (sf_requests t) = Some request"
    "rq_partyId request = Some (ei_partyId x)" "py_id party = ei_partyId x" "ei_sources x = inventory_sources env party eligible t"
    "ei_policy x = ee_policy env"
proof -
  obtain live request where r: "erasureRequest env s i None now t = Inr (live, request)"
    using assms by (auto simp: collectErasureInventory_def)
  obtain party where p: "List.find (\<lambda>p. py_id p = the_or [] (rq_partyId request)) (sf_parties t) = Some party"
    using assms by (auto simp: collectErasureInventory_def r Let_def)
  have x: "ei_partyId x = the_or [] (rq_partyId request)" "ei_policy x = ee_policy env"
    using assms by (auto simp: collectErasureInventory_def r p Let_def)
  have "\<exists>eligible. ei_sources x = inventory_sources env party eligible t"
    using assms by (auto simp: collectErasureInventory_def r p Let_def)
  then obtain eligible where e: "ei_sources x = inventory_sources env party eligible t" ..
  show thesis
    by (rule that [of request party eligible])
      (use erasureRequest_found [OF r] p x e in \<open>auto simp: find_Some_iff the_or_def truthy_def split: option.splits\<close>)
qed

lemma contact_sources:
  assumes "ei_sources x = inventory_sources env party eligible t" "y \<in> set (category_sources x Optional_contacts)"
  obtains c where "c \<in> set (party_contacts (py_id party) t)" "es_key y = ''contact:'' @ cm_id c"
    "es_eligible y \<longleftrightarrow> eligible \<and> optional_contact (party_streams (py_id party) t) c"
  using assms by (auto simp: category_sources_def inventory_sources_def inventory_source_def Let_def)

text \<open>A contact that is erased is the person's own and no service stream goes to it.\<close>

lemma erased_contact:
  assumes "validateDecisions env x (ri_decisions q) = Inr ()" "inj (ee_sha env)"
    and "ei_sources x = inventory_sources env party eligible t" "py_id party = ei_partyId x"
    and "\<forall>c \<in> set (lt_contacts (sf_links t)). CHR '':'' \<notin> set (cm_id c)"
    and "i \<in> set (re_contactIds (erasure_effect q x))"
  shows "\<not> ei_retentionHold x \<and> \<not> ei_businessDependencies x \<and>
    (\<exists>c \<in> set (lt_contacts (sf_links t)). cm_id c = i \<and> cm_partyId c = ei_partyId x \<and>
       optional_contact (party_streams (ei_partyId x) t) c)"
proof -
  have erase: "erase_category q Optional_contacts" and i: "i \<in> set (source_ids x Optional_contacts)"
    using assms(6) by (auto simp: erasure_effect_def split: if_splits)
  obtain d where d: "d \<in> set (ri_decisions q)" "ed_category d = Optional_contacts" "ed_disposition d = Erase_optional_copy"
    using erase by (auto simp: erase_category_def find_Some_iff) (metis nth_mem)
  have "check_decision env x d = Inr ()"
    using assms(1) d(1) by (auto simp: validateDecisions_def intro: check_decisions_all)
  note checked = decision_checked(2) [OF this assms(2) d(3)]
  obtain y where y: "y \<in> set (category_sources x Optional_contacts)" "second_segment (es_key y) = i"
    using i by (auto simp: source_ids_def)
  obtain c where c: "c \<in> set (party_contacts (py_id party) t)" "es_key y = ''contact:'' @ cm_id c"
    "es_eligible y \<longleftrightarrow> eligible \<and> optional_contact (party_streams (py_id party) t) c"
    by (rule contact_sources [OF assms(3) y(1)])
  have "es_eligible y" using checked y(1) d(2) by (simp add: list_all_iff)
  moreover have "c \<in> set (lt_contacts (sf_links t))" "cm_partyId c = ei_partyId x"
    using c(1) assms(4) by (auto simp: party_contacts_def)
  moreover have "cm_id c = i" using y(2) c(2) second_segment_contact assms(5) calculation(2) by auto
  ultimately show ?thesis using checked c(3) assms(4) by auto
qed

lemma others_recorded:
  "others partyId own (erasure_recorded x request live o' now e v t) = others partyId own t"
  by (simp add: erasure_recorded_def erasure_audit_def held_boundaries_def recordPrivacyPropagation_def map_tables others_def Let_def)

lemma ledger_others [simp]:
  "own_client partyId (t\<lparr>sf_ledger := rows\<rparr>) = own_client partyId t"
  "others partyId own (t\<lparr>sf_ledger := rows\<rparr>) = others partyId own t"
  by (rule ext) (simp_all add: own_client_def others_def)

lemma others_decided:
  assumes "decide sha input newId a now t = Inr (e, v, t')" "effect_party (di_effect input) = partyId"
  shows "others partyId (own_client partyId t) t' = others partyId (own_client partyId t) t"
proof -
  obtain rows where "applyPrivacySafetyEffect (di_effect input) (en_sequence e) a now (t\<lparr>sf_ledger := rows\<rparr>) = (v, t')"
    using assms(1) by (auto simp: decide_def split: prod.splits)
  from effect_others [OF this] show ?thesis by (simp add: assms(2) ledger_others)
qed

lemma erasure_others:
  assumes "erasure_body env call q ctx t = Inr (v, t')" "List.find (\<lambda>r. rq_id r = ri_requestId q) (sf_requests t) = Some request"
    "rq_partyId request = Some partyId"
  shows "others partyId (own_client partyId t) t' = others partyId (own_client partyId t) t"
proof (rule erasure_cases [OF assms(1)])
  fix live r x e result t1
  assume r: "erasureRequest env (pl_session call) (ri_requestId q) (Some (ri_expectedVersion q)) (pl_now call) t = Inr (live, r)"
    and x: "collectErasureInventory env (pl_session call) (rq_id r) (pl_now call) t = Inr x"
    and d: "decide (ee_sha env) (erasure_decision env q x live (cx_operationId ctx)) (pl_newId call) (session_actor live) (pl_now call) t = Inr (e, result, t1)"
    and t': "t' = erasure_recorded x r live (cx_operationId ctx) (pl_now call) e result t1"
  have "rq_id r = ri_requestId q" using erasureRequest_found [OF r] by simp
  then have "ei_partyId x = partyId" by (metis x assms(2,3) inventory_of option.inject)
  then show ?thesis
    using others_decided [OF d, of partyId] by (simp add: t' others_recorded erasure_decision_def erasure_effect_def)
qed

end
