(* ===== verification/OptOut.thy ===== *)
theory OptOut
  imports Erasure
begin

text \<open>
  Everything that writes a subscription, a restriction or the ledger of privacy decisions, as one history: the
  client's commands, erasure decisions and quarantine, each at the terms and with the reads its caller saw.
  \<open>Elsewhere\<close> is any change by other parts of the program, which leave those three alone except for the time a
  stream was last sent to. The invariant says that the tables and the ledger explain each other.
\<close>

datatype privacyEvent =
    Opt_in preferenceEnv preferenceCall optInInput
  | Change preferenceEnv preferenceCall changeInput
  | Edit_search preferenceEnv preferenceCall editInput
  | Save_contact preferenceEnv preferenceCall contactPreferenceInput
  | Erase erasureEnv preferenceCall erasureInput
  | Quarantine string string int
  | Elsewhere "safetyTables database"

definition unsent :: "subscriptionRow \<Rightarrow> subscriptionRow" where "unsent s = s\<lparr>sb_lastSentAt := None\<rparr>"

definition same_privacy :: "safetyTables \<Rightarrow> safetyTables \<Rightarrow> bool" where
  "same_privacy t t' = (map unsent (sf_subscriptions t) = map unsent (sf_subscriptions t') \<and> sf_ledger t = sf_ledger t' \<and>
     sf_restrictions t = sf_restrictions t')"

fun privacy_event :: "(string \<Rightarrow> string) \<Rightarrow> privacyEvent \<Rightarrow> safetyTables database \<Rightarrow> safetyTables database" where
  "privacy_event sha (Opt_in env call q) db = snd (optIn (env\<lparr>pn_sha := sha\<rparr>) call q db)"
| "privacy_event sha (Change env call q) db = snd (changeSubscription (env\<lparr>pn_sha := sha\<rparr>) call q db)"
| "privacy_event sha (Edit_search env call q) db = snd (editSearchSubscription (env\<lparr>pn_sha := sha\<rparr>) call q db)"
| "privacy_event sha (Save_contact env call q) db = snd (saveContactPreferences (env\<lparr>pn_sha := sha\<rparr>) call q db)"
| "privacy_event sha (Erase env call q) db = snd (applyPrivacyErasure (env\<lparr>ee_sha := sha\<rparr>) call q db)"
| "privacy_event sha (Quarantine restoreId snapshotDigest now) db =
     (case quarantineRestoredDatabase restoreId snapshotDigest now (db_world db) of
        Inl e \<Rightarrow> db | Inr (c, t) \<Rightarrow> db\<lparr>db_world := t\<rparr>)"
| "privacy_event sha (Elsewhere db2) db = (if same_privacy (db_world db) (db_world db2) then db2 else db)"

definition run_privacy :: "(string \<Rightarrow> string) \<Rightarrow> privacyEvent list \<Rightarrow> safetyTables database \<Rightarrow> safetyTables database" where
  "run_privacy sha events db = fold (privacy_event sha) events db"

text \<open>The operating policy an erasure read is a stored document.\<close>

definition event_ok :: "privacyEvent \<Rightarrow> bool" where
  "event_ok ev = (case ev of Erase env call q \<Rightarrow> wf_json (ee_policy env) | _ \<Rightarrow> True)"

subsection \<open>The invariant\<close>

definition names_streams :: "privacySafetyEffect \<Rightarrow> safetyTables \<Rightarrow> bool" where
  "names_streams e t = (case e of Subscription_withdrawal x \<Rightarrow> set (we_subscriptionIds x) \<subseteq> sb_id ` set (sf_subscriptions t)
     | Privacy_restriction _ \<Rightarrow> True)"

definition privacy_ok :: "(string \<Rightarrow> string) \<Rightarrow> safetyTables \<Rightarrow> bool" where
  "privacy_ok sha t \<longleftrightarrow> ledger_ok sha (sf_ledger t) \<and> distinct (map sb_id (sf_subscriptions t)) \<and>
     (\<forall>r \<in> set (sf_ledger t). in_force (en_effect r) t \<and> names_streams (en_effect r) t) \<and>
     (\<forall>s \<in> set (sf_subscriptions t). sb_state s = Sub_withdrawn \<longrightarrow> (\<exists>r \<in> set (sf_ledger t). selected_subscription (en_effect r) s)) \<and>
     (\<forall>x \<in> set (sf_restrictions t). \<exists>r \<in> set (sf_ledger t). x \<in> restricted_by (en_effect r))"

lemma privacy_okD:
  assumes "privacy_ok sha t"
  shows "ledger_ok sha (sf_ledger t)" "distinct (map sb_id (sf_subscriptions t))"
    "\<And>r. r \<in> set (sf_ledger t) \<Longrightarrow> in_force (en_effect r) t" "\<And>r. r \<in> set (sf_ledger t) \<Longrightarrow> names_streams (en_effect r) t"
    "\<And>s. s \<in> set (sf_subscriptions t) \<Longrightarrow> sb_state s = Sub_withdrawn \<Longrightarrow> \<exists>r \<in> set (sf_ledger t). selected_subscription (en_effect r) s"
    "\<And>x. x \<in> set (sf_restrictions t) \<Longrightarrow> \<exists>r \<in> set (sf_ledger t). x \<in> restricted_by (en_effect r)"
  using assms by (simp_all add: privacy_ok_def)

lemma privacy_okI:
  assumes "ledger_ok sha (sf_ledger t)" "distinct (map sb_id (sf_subscriptions t))"
    "\<And>r. r \<in> set (sf_ledger t) \<Longrightarrow> in_force (en_effect r) t" "\<And>r. r \<in> set (sf_ledger t) \<Longrightarrow> names_streams (en_effect r) t"
    "\<And>s. s \<in> set (sf_subscriptions t) \<Longrightarrow> sb_state s = Sub_withdrawn \<Longrightarrow> \<exists>r \<in> set (sf_ledger t). selected_subscription (en_effect r) s"
    "\<And>x. x \<in> set (sf_restrictions t) \<Longrightarrow> \<exists>r \<in> set (sf_ledger t). x \<in> restricted_by (en_effect r)"
  shows "privacy_ok sha t"
  using assms by (simp add: privacy_ok_def)

inductive privacy_step :: "(string \<Rightarrow> string) \<Rightarrow> safetyTables \<Rightarrow> safetyTables \<Rightarrow> bool" for sha where
  calm: "streams_after (\<lambda>_. False) (sf_subscriptions t) (sf_subscriptions t') \<Longrightarrow> sf_ledger t' = sf_ledger t
    \<Longrightarrow> sf_restrictions t' = sf_restrictions t \<Longrightarrow> privacy_step sha t t'"
| joined: "sf_subscriptions t' = sf_subscriptions t @ [row] \<Longrightarrow> sb_id row \<notin> sb_id ` set (sf_subscriptions t)
    \<Longrightarrow> sb_state row = Sub_active \<Longrightarrow> (sb_partyId row, purpose_word (sb_purpose row)) \<notin> set (sf_restrictions t)
    \<Longrightarrow> sf_ledger t' = sf_ledger t \<Longrightarrow> sf_restrictions t' = sf_restrictions t \<Longrightarrow> privacy_step sha t t'"
| decided: "appendPrivacySafetyDecision sha input newId now (sf_ledger t) = Inr (e, sf_ledger t')
    \<Longrightarrow> review_ok (di_review input)
    \<Longrightarrow> streams_after (selected_subscription (di_effect input)) (sf_subscriptions t) (sf_subscriptions t')
    \<Longrightarrow> set (sf_restrictions t') = set (sf_restrictions t) \<union> restricted_by (di_effect input)
    \<Longrightarrow> names_streams (di_effect input) t \<Longrightarrow> privacy_step sha t t'"

lemma streams_after_set: "streams_after P xs ys \<Longrightarrow> sb_id ` set ys = sb_id ` set xs"
  using streams_after_ids by (metis set_map)

lemma joined_outside:
  assumes "privacy_ok sha t" "sb_id row \<notin> sb_id ` set (sf_subscriptions t)"
    "(sb_partyId row, purpose_word (sb_purpose row)) \<notin> set (sf_restrictions t)" "r \<in> set (sf_ledger t)"
  shows "\<not> selected_subscription (en_effect r) row"
proof -
  have "restricted_by (en_effect r) \<subseteq> set (sf_restrictions t)" "names_streams (en_effect r) t"
    using privacy_okD(3,4) [OF assms(1,4)] by (simp_all add: in_force_def)
  then show ?thesis using assms(2,3) by (cases "en_effect r") (auto simp: selected_subscription_def names_streams_def)
qed

lemma in_force_after:
  assumes "in_force e t" "streams_after P (sf_subscriptions t) (sf_subscriptions t')"
    "set (sf_restrictions t) \<subseteq> set (sf_restrictions t')"
  shows "in_force e t'"
  using assms(1,3) streams_withdrawn [OF assms(2), of e] unfolding in_force_def by blast

lemma named_after:
  assumes "streams_after P (sf_subscriptions t) (sf_subscriptions t')"
  shows "sb_id ` set (sf_subscriptions t') = sb_id ` set (sf_subscriptions t)"
    "distinct (map sb_id (sf_subscriptions t')) = distinct (map sb_id (sf_subscriptions t))"
  using streams_after_ids [OF assms] streams_after_set [OF assms] by simp_all

lemma covered_after:
  assumes "streams_after P (sf_subscriptions t) (sf_subscriptions t')" "s' \<in> set (sf_subscriptions t')" "sb_state s' = Sub_withdrawn"
    and "\<And>s. s \<in> set (sf_subscriptions t) \<Longrightarrow> sb_state s = Sub_withdrawn \<Longrightarrow> \<exists>r \<in> R. selected_subscription (en_effect r) s"
    and "\<And>s. s \<in> set (sf_subscriptions t) \<Longrightarrow> P s \<Longrightarrow> \<exists>r \<in> R. selected_subscription (en_effect r) s"
  shows "\<exists>r \<in> R. selected_subscription (en_effect r) s'"
  by (rule streams_afterD [OF assms(1,2)]) (use assms(3-5) in \<open>auto simp: selected_same\<close>)

lemma named_effect_after:
  "streams_after P (sf_subscriptions t) (sf_subscriptions t') \<Longrightarrow> names_streams e t' = names_streams e t"
  by (simp add: names_streams_def named_after(1) split: privacySafetyEffect.splits)

lemma calm_ok:
  assumes "streams_after (\<lambda>_. False) (sf_subscriptions t) (sf_subscriptions t')" "sf_ledger t' = sf_ledger t"
    "sf_restrictions t' = sf_restrictions t" "privacy_ok sha t"
  shows "privacy_ok sha t'"
proof (rule privacy_okI)
  show "\<exists>r \<in> set (sf_ledger t'). selected_subscription (en_effect r) s" if "s \<in> set (sf_subscriptions t')" "sb_state s = Sub_withdrawn" for s
    by (rule covered_after [OF assms(1) that]) (use privacy_okD(5) [OF assms(4)] assms(2) in auto)
  show "in_force (en_effect r) t'" if "r \<in> set (sf_ledger t')" for r
    using in_force_after [OF privacy_okD(3) [OF assms(4)] assms(1)] assms(2,3) that by simp
qed (use privacy_okD [OF assms(4)] assms(2,3) named_after(2) [OF assms(1)] named_effect_after [OF assms(1)] in simp_all)

lemma joined_ok:
  assumes "sf_subscriptions t' = sf_subscriptions t @ [row]" "sb_id row \<notin> sb_id ` set (sf_subscriptions t)"
    "sb_state row = Sub_active" "(sb_partyId row, purpose_word (sb_purpose row)) \<notin> set (sf_restrictions t)"
    "sf_ledger t' = sf_ledger t" "sf_restrictions t' = sf_restrictions t" "privacy_ok sha t"
  shows "privacy_ok sha t'"
proof (rule privacy_okI)
  note ok = privacy_okD [OF assms(7)] and out = joined_outside [OF assms(7,2,4)]
  show "in_force (en_effect r) t'" if "r \<in> set (sf_ledger t')" for r
    using ok(3) [of r] out [of r] that assms(1,5,6) unfolding in_force_def by auto
  show "names_streams (en_effect r) t'" if "r \<in> set (sf_ledger t')" for r
    using ok(4) [of r] that assms(1,5) by (auto simp: names_streams_def split: privacySafetyEffect.splits)
  show "\<exists>r \<in> set (sf_ledger t'). selected_subscription (en_effect r) s" if "s \<in> set (sf_subscriptions t')" "sb_state s = Sub_withdrawn" for s
    using ok(5) [of s] that assms(1,3,5) by auto
qed (use privacy_okD [OF assms(7)] assms in simp_all)

lemma decided_ok:
  assumes "appendPrivacySafetyDecision sha input newId now (sf_ledger t) = Inr (e, sf_ledger t')" "review_ok (di_review input)"
    "streams_after (selected_subscription (di_effect input)) (sf_subscriptions t) (sf_subscriptions t')"
    "set (sf_restrictions t') = set (sf_restrictions t) \<union> restricted_by (di_effect input)"
    "names_streams (di_effect input) t" "privacy_ok sha t"
  shows "privacy_ok sha t'"
proof (rule privacy_okI)
  note ok = privacy_okD [OF assms(6)]
  note app = append_ok [OF assms(1) ok(1) assms(2)]
  show "ledger_ok sha (sf_ledger t')" by (rule app(2))
  show "distinct (map sb_id (sf_subscriptions t'))" using ok(2) named_after(2) [OF assms(3)] by simp
  have new: "in_force (di_effect input) t'"
    using assms(4) streams_withdrawn [OF assms(3), of "di_effect input"] unfolding in_force_def by auto
  have old: "in_force (en_effect r) t'" if "r \<in> set (sf_ledger t)" for r
    by (rule in_force_after [OF ok(3) [OF that] assms(3)]) (simp add: assms(4))
  show "in_force (en_effect r) t'" if "r \<in> set (sf_ledger t')" for r
    using that app(1,3) new old by auto
  show "names_streams (en_effect r) t'" if "r \<in> set (sf_ledger t')" for r
    using that app(1,3) ok(4) assms(5) named_effect_after [OF assms(3)] by auto
  show "\<exists>r \<in> set (sf_ledger t'). selected_subscription (en_effect r) s" if "s \<in> set (sf_subscriptions t')" "sb_state s = Sub_withdrawn" for s
    by (rule covered_after [OF assms(3) that]) (use app(1,3) ok(5) in auto)
  show "\<exists>r \<in> set (sf_ledger t'). x \<in> restricted_by (en_effect r)" if "x \<in> set (sf_restrictions t')" for x
    using that assms(4) app(1,3) ok(6) [of x] by auto
qed

lemma step_ok: "privacy_step sha t t' \<Longrightarrow> privacy_ok sha t \<Longrightarrow> privacy_ok sha t'"
  by (induction rule: privacy_step.induct) (rule calm_ok joined_ok decided_ok; assumption)+

text \<open>A later state: streams keep their identity and stay withdrawn, restrictions stay, the ledger only grows.\<close>

definition grows_to :: "safetyTables \<Rightarrow> safetyTables \<Rightarrow> bool" where
  "grows_to t t' \<longleftrightarrow>
     (\<forall>s \<in> set (sf_subscriptions t). \<exists>s' \<in> set (sf_subscriptions t'). same_stream s s' \<and>
        (sb_state s = Sub_withdrawn \<longrightarrow> sb_state s' = Sub_withdrawn)) \<and>
     set (sf_restrictions t) \<subseteq> set (sf_restrictions t') \<and> (\<exists>new. sf_ledger t' = sf_ledger t @ new)"

lemma grows_to_refl: "grows_to t t"
  by (auto simp: grows_to_def same_stream_def)

lemma grows_to_trans:
  assumes "grows_to t u" "grows_to u v"
  shows "grows_to t v"
  unfolding grows_to_def
proof (intro conjI ballI)
  fix s assume "s \<in> set (sf_subscriptions t)"
  then obtain s1 where 1: "s1 \<in> set (sf_subscriptions u)" "same_stream s s1" "sb_state s = Sub_withdrawn \<longrightarrow> sb_state s1 = Sub_withdrawn"
    using assms(1) by (auto simp: grows_to_def)
  then obtain s2 where "s2 \<in> set (sf_subscriptions v)" "same_stream s1 s2" "sb_state s1 = Sub_withdrawn \<longrightarrow> sb_state s2 = Sub_withdrawn"
    using assms(2) by (auto simp: grows_to_def)
  with 1 show "\<exists>s' \<in> set (sf_subscriptions v). same_stream s s' \<and> (sb_state s = Sub_withdrawn \<longrightarrow> sb_state s' = Sub_withdrawn)"
    by (intro bexI [of _ s2]) (simp_all add: same_stream_def)
qed (use assms in \<open>auto simp: grows_to_def\<close>)

lemma streams_later:
  assumes "streams_after P xs ys" "s \<in> set xs"
  shows "\<exists>s' \<in> set ys. same_stream s s' \<and> (sb_state s = Sub_withdrawn \<longrightarrow> sb_state s' = Sub_withdrawn)"
  using assms unfolding streams_after_def list_all2_conv_all_nth in_set_conv_nth by (metis nth_mem)

lemma step_later:
  assumes "privacy_step sha t t'" "privacy_ok sha t"
  shows "grows_to t t'"
  using assms(1)
proof cases
  case calm
  then show ?thesis using streams_later [OF calm(1)] by (simp add: grows_to_def)
next
  case (joined row)
  then show ?thesis by (auto simp: grows_to_def same_stream_def)
next
  case (decided input newId now e)
  then show ?thesis
    using streams_later [OF decided(3)] append_ok(1) [OF decided(1) privacy_okD(1) [OF assms(2)] decided(2)] decided(4) by (auto simp: grows_to_def)
qed

subsection \<open>Every event is a step\<close>

lemma operation_world:
  obtains "db_world (snd (runOperation i fn locked n now db)) = db_world db"
  | ctx v w' where "fn ctx (db_world db) = (Inr v, w')" "db_world (snd (runOperation i fn locked n now db)) = w'"
proof (cases "effective i fn locked n now db")
  case True
  then obtain v w' ctx where "fn ctx (db_world db) = (Inr v, w')" "db_world (snd (runOperation i fn locked n now db)) = w'"
    by (elim effective_run) simp
  then show thesis by (rule that(2))
qed (rule that(1), rule not_effective_world)

lemma run_preference_world:
  obtains "db_world (snd (run_preference env call ty key v0 body db)) = db_world db"
  | person ctx v where "body person ctx (db_world db) = Inr (v, db_world (snd (run_preference env call ty key v0 body db)))"
proof (cases "privacyClient (sf_auth (db_world db)) (pl_session call) (pl_now call)")
  case (Inl e)
  then show thesis using that(1) by (simp add: run_preference_def)
next
  case (Inr person)
  let ?fn = "\<lambda>ctx w. case proceed (privacyClient (sf_auth w) (pl_session call) (pl_now call)) (\<lambda>_. body person ctx w) of
      Inl e \<Rightarrow> (Inl e, w) | Inr (v, w2) \<Rightarrow> (Inr v, w2)"
  show thesis
    by (rule operation_world [of _ ?fn])
      (use that Inr in \<open>auto simp: run_preference_def proceed_def split: sum.splits prod.splits\<close>)
qed

lemma preference_audit_kept [simp]:
  "sf_subscriptions (preference_audit call a ty i o' v t) = sf_subscriptions t" "sf_ledger (preference_audit call a ty i o' v t) = sf_ledger t"
  "sf_restrictions (preference_audit call a ty i o' v t) = sf_restrictions t"
  by (simp_all add: preference_audit_def map_links_def)

lemma calm_refl: "privacy_step sha t t"
  by (rule privacy_step.calm) (simp_all add: streams_after_refl)

lemma contact_preference_step:
  assumes "contact_preference_body call q person ctx t = Inr (v, t')"
  shows "privacy_step sha t t'"
  by (rule privacy_step.calm)
    (use assms in \<open>auto simp: contact_preference_body_def streams_after_refl split: option.splits\<close>)

lemma opt_in_step:
  assumes "opt_in_body env call q search person ctx t = Inr (v, t')"
  shows "privacy_step sha t t'"
proof -
  let ?row = "\<lambda>terms contact. new_stream env (pl_newId call) q search terms (pr_partyId person) contact"
  obtain terms contact where "sb_id (?row terms contact) \<notin> sb_id ` set (sf_subscriptions t)"
    "(pr_partyId person, purpose_word (oq_purpose q)) \<notin> set (sf_restrictions t)"
    "t' = opted_in call q terms (?row terms contact) ctx t"
    using assms that unfolding opt_in_body_def Let_def privacyProcessingRestricted_def
    by (simp split: option.splits if_splits) blast
  then show ?thesis
    by (intro privacy_step.joined [of t' t "?row terms contact"]) (simp_all add: opted_in_def, simp_all add: new_stream_def)
qed

lemma edit_step:
  assumes "edit_body env call q person ctx t = Inr (v, t')"
  shows "privacy_step sha t t'"
proof -
  obtain terms row search where "t' = edited_stream env call q terms row search ctx t"
    using assms unfolding edit_body_def Let_def by (auto split: option.splits)
  then show ?thesis
    by (intro privacy_step.calm) (auto simp: edited_stream_def streams_after_def list_all2_conv_all_nth same_stream_def)
qed

lemma own_review: "review_ok (JObject [(''kind'', JString ''own_purpose_withdrawal_v1'')])"
  by (simp add: review_ok_def)

lemma withdrawal_recorded:
  assumes "recordSubscriptionWithdrawal sha o' partyId i newId now t = Inr (e, t')"
  obtains input where "appendPrivacySafetyDecision sha input newId now (sf_ledger t) = Inr (e, sf_ledger t')"
    "review_ok (di_review input)" "di_effect input = Subscription_withdrawal \<lparr>we_partyId = partyId, we_subscriptionIds = [i]\<rparr>"
    "sf_subscriptions t' = sf_subscriptions t" "sf_restrictions t' = sf_restrictions t"
proof -
  let ?input = "\<lparr>di_operationId = o', di_partyId = partyId, di_requestId = None,
      di_requestHash = sha (canonicalJson (JObject (effect_entries (Subscription_withdrawal \<lparr>we_partyId = partyId, we_subscriptionIds = [i]\<rparr>)))),
      di_review = JObject [(''kind'', JString ''own_purpose_withdrawal_v1'')],
      di_effect = Subscription_withdrawal \<lparr>we_partyId = partyId, we_subscriptionIds = [i]\<rparr>\<rparr>"
  show thesis
    by (rule that [of ?input])
      (use assms own_review in \<open>auto simp: recordSubscriptionWithdrawal_def Let_def simp del: effect_entries.simps\<close>)
qed

lemma streams_after_map:
  assumes "\<And>s. s \<in> set xs \<Longrightarrow> same_stream s (f s) \<and> (sb_state (f s) = Sub_withdrawn \<longleftrightarrow> sb_state s = Sub_withdrawn \<or> P s)"
  shows "streams_after P xs (map f xs)"
  using assms by (simp add: streams_after_def list_all2_map2 list_all2_same)

lemma changed_stream_kept [simp]:
  "sf_ledger (changed_stream call q row t) = sf_ledger t" "sf_restrictions (changed_stream call q row t) = sf_restrictions t"
  by (simp_all add: changed_stream_def)

lemma announced_change_kept [simp]:
  "sf_subscriptions (announced_change call q row ctx t) = sf_subscriptions t" "sf_ledger (announced_change call q row ctx t) = sf_ledger t"
  "sf_restrictions (announced_change call q row ctx t) = sf_restrictions t"
  by (simp_all add: announced_change_def Let_def)

lemma change_step:
  assumes "change_body env call q person ctx t = Inr (v, t')" "distinct (map sb_id (sf_subscriptions t))"
  shows "privacy_step (pn_sha env) t t'"
proof -
  obtain row t2 where row: "own_stream (hq_id q) (pr_partyId person) t = Some row"
    and allowed: "check subscriptionMachine (sb_state row) (requested (hq_state q)) = Allowed"
    and t2: "(if hq_state q = To_withdrawn then map_sum id snd (recordSubscriptionWithdrawal (pn_sha env) (cx_operationId ctx)
        (pr_partyId person) (sb_id row) (pl_newId call) (pl_now call) (changed_stream call q row t))
        else Inr (changed_stream call q row t)) = Inr t2"
    and t': "t' = announced_change call q row ctx t2"
    using assms(1) that unfolding change_body_def Let_def by (simp split: option.splits) blast
  have r: "row \<in> set (sf_subscriptions t)" "sb_partyId row = pr_partyId person"
    using row by (auto simp: own_stream_def find_Some_iff)
  have only: "s = row" if "s \<in> set (sf_subscriptions t)" "sb_id s = sb_id row" for s
    using assms(2) r(1) that by (auto simp: distinct_map inj_on_def)
  show ?thesis
  proof (cases "hq_state q = To_withdrawn")
    case True
    then obtain e where "recordSubscriptionWithdrawal (pn_sha env) (cx_operationId ctx) (pr_partyId person) (sb_id row)
        (pl_newId call) (pl_now call) (changed_stream call q row t) = Inr (e, t2)"
      using t2 by (auto simp: map_sum_def split: sum.splits)
    then obtain input where rec: "appendPrivacySafetyDecision (pn_sha env) input (pl_newId call) (pl_now call)
        (sf_ledger (changed_stream call q row t)) = Inr (e, sf_ledger t2)"
      "review_ok (di_review input)"
      "di_effect input = Subscription_withdrawal \<lparr>we_partyId = pr_partyId person, we_subscriptionIds = [sb_id row]\<rparr>"
      "sf_subscriptions t2 = sf_subscriptions (changed_stream call q row t)"
      "sf_restrictions t2 = sf_restrictions (changed_stream call q row t)"
      by (rule withdrawal_recorded)
    have "streams_after (selected_subscription (di_effect input)) (sf_subscriptions t) (sf_subscriptions t')"
      unfolding t' announced_change_kept rec(4) changed_stream_def
      using True r(2) only by (simp, intro streams_after_map) (auto simp: rec(3) same_stream_def selected_subscription_def)
    then show ?thesis
      by (intro privacy_step.decided [of _ input]) (use rec t' r(1) in \<open>simp_all add: names_streams_def\<close>)
  next
    case False
    have live: "sb_state row \<noteq> Sub_withdrawn" "requested (hq_state q) \<noteq> Sub_withdrawn"
      using allowed withdrawn_final False by (auto, cases "hq_state q", auto)
    have eq: "t2 = changed_stream call q row t" using False t2 by simp
    have "streams_after (\<lambda>_. False) (sf_subscriptions t) (sf_subscriptions (changed_stream call q row t))"
      unfolding changed_stream_def
    proof (simp, rule streams_after_map)
      fix s assume s: "s \<in> set (sf_subscriptions t)"
      let ?s = "if sb_id s = sb_id row then s\<lparr>sb_state := requested (hq_state q), sb_version := sb_version row + 1\<rparr> else s"
      show "same_stream s ?s \<and> (sb_state ?s = Sub_withdrawn \<longleftrightarrow> sb_state s = Sub_withdrawn \<or> False)"
        using only [OF s] live by (cases "sb_id s = sb_id row") (simp_all add: same_stream_def)
    qed
    then have "streams_after (\<lambda>_. False) (sf_subscriptions t) (sf_subscriptions t')" by (simp add: t' eq)
    then show ?thesis by (intro privacy_step.calm) (use False t2 t' in auto)
  qed
qed

lemma held_boundaries_kept [simp]:
  "sf_subscriptions (held_boundaries x n v t) = sf_subscriptions t" "sf_ledger (held_boundaries x n v t) = sf_ledger t"
  "sf_links (held_boundaries x n v t) = sf_links t"
  by (simp_all add: held_boundaries_def Let_def)

lemma erasure_audit_kept [simp]:
  "sf_subscriptions (erasure_audit a i o' v now t) = sf_subscriptions t" "sf_ledger (erasure_audit a i o' v now t) = sf_ledger t"
  "sf_restrictions (erasure_audit a i o' v now t) = sf_restrictions t"
  by (simp_all add: erasure_audit_def map_links_def)

lemma decide_step:
  assumes "decide sha input newId a now t = Inr (e, v, t')" "review_ok (di_review input)" "names_streams (di_effect input) t"
    and "sf_subscriptions t2 = sf_subscriptions t'" "sf_ledger t2 = sf_ledger t'" "sf_restrictions t2 = sf_restrictions t'"
  shows "privacy_step sha t t2"
proof -
  obtain rows where rows: "appendPrivacySafetyDecision sha input newId now (sf_ledger t) = Inr (e, rows)"
    "applyPrivacySafetyEffect (di_effect input) (en_sequence e) a now (t\<lparr>sf_ledger := rows\<rparr>) = (v, t')"
    using assms(1) by (auto simp: decide_def split: prod.splits)
  show ?thesis
    by (rule privacy_step.decided [of sha input newId now t e])
      (use rows(1) effect_tables [OF rows(2)] assms(2-6) in simp_all)
qed

lemma review_wf: "wf_json (ei_policy x) \<Longrightarrow> review_ok (erasure_review q x reviewer)"
  by (simp add: review_ok_def erasure_review_def inventory_json_def decision_json_def source_json_def strings_json_def
      wf_json_int list_all_iff)

lemma erasure_recorded_kept [simp]:
  "sf_subscriptions (erasure_recorded x r l o' now e v t) = sf_subscriptions t" "sf_ledger (erasure_recorded x r l o' now e v t) = sf_ledger t"
  "sf_restrictions (erasure_recorded x r l o' now e v t) = sf_restrictions t"
  by (simp_all add: erasure_recorded_def Let_def)

lemma inventory_policy: "collectErasureInventory env s i now t = Inr x \<Longrightarrow> ei_policy x = ee_policy env"
  by (auto simp: collectErasureInventory_def Let_def split: prod.splits)

lemma erasure_step:
  assumes "erasure_body env call q ctx t = Inr (v, t')" "wf_json (ee_policy env)"
  shows "privacy_step (ee_sha env) t t'"
proof (rule erasure_cases [OF assms(1)])
  fix live request x e result t1
  assume "collectErasureInventory env (pl_session call) (rq_id request) (pl_now call) t = Inr x"
    and d: "decide (ee_sha env) (erasure_decision env q x live (cx_operationId ctx)) (pl_newId call) (session_actor live) (pl_now call) t = Inr (e, result, t1)"
    and t': "t' = erasure_recorded x request live (cx_operationId ctx) (pl_now call) e result t1"
  then have "review_ok (erasure_review q x r)" for r using assms(2) by (simp add: review_wf inventory_policy)
  then show ?thesis
    by (intro decide_step [OF d]) (simp_all add: t' erasure_decision_def names_streams_def)
qed

lemma quarantine_step:
  assumes "quarantineRestoredDatabase r d now t = Inr (c, t')"
  shows "privacy_step sha t t'"
  by (rule privacy_step.calm) (simp_all add: quarantine_tables [OF assms] streams_after_refl)

lemma unsent_same: "unsent s = unsent s' \<Longrightarrow> same_stream s s' \<and> sb_state s' = sb_state s"
  by (cases s; cases s') (simp add: unsent_def same_stream_def)

lemma elsewhere_step:
  assumes "same_privacy t t'"
  shows "privacy_step sha t t'"
proof (rule privacy_step.calm)
  have "list_all2 (=) (map unsent (sf_subscriptions t)) (map unsent (sf_subscriptions t'))"
    using assms by (simp add: same_privacy_def list.rel_eq)
  then have "list_all2 (\<lambda>s s'. unsent s = unsent s') (sf_subscriptions t) (sf_subscriptions t')"
    unfolding list_all2_map1 list_all2_map2 .
  then show "streams_after (\<lambda>_. False) (sf_subscriptions t) (sf_subscriptions t')"
    unfolding streams_after_def by (rule list_all2_mono) (metis unsent_same)
qed (use assms in \<open>simp_all add: same_privacy_def\<close>)

lemma operation_step:
  assumes "\<And>ctx v t'. fn ctx (db_world db) = (Inr v, t') \<Longrightarrow> privacy_step sha (db_world db) t'"
  shows "privacy_step sha (db_world db) (db_world (snd (runOperation i fn locked n now db)))"
  by (rule operation_world [of i fn locked n now db]) (simp only: calm_refl, metis assms)

lemma preference_step:
  assumes "\<And>person ctx v t'. body person ctx (db_world db) = Inr (v, t') \<Longrightarrow> privacy_step sha (db_world db) t'"
  shows "privacy_step sha (db_world db) (db_world (snd (run_preference env call ty key v0 body db)))"
  by (rule run_preference_world [of env call ty key v0 body db]) (simp only: calm_refl, rule assms)

lemma privacy_event_step:
  assumes "distinct (map sb_id (sf_subscriptions (db_world db)))" "event_ok ev"
  shows "privacy_step sha (db_world db) (db_world (privacy_event sha ev db))"
proof (cases ev)
  case (Opt_in env call q)
  then show ?thesis
    by (auto simp: optIn_def calm_refl split: sum.split intro!: preference_step intro: opt_in_step)
next
  case (Change env call q)
  show ?thesis
    unfolding Change privacy_event.simps changeSubscription_def
    by (rule preference_step) (use change_step [of "env\<lparr>pn_sha := sha\<rparr>", OF _ assms(1)] in simp)
next
  case (Edit_search env call q)
  show ?thesis
    unfolding Edit_search privacy_event.simps editSearchSubscription_def by (rule preference_step) (rule edit_step)
next
  case (Save_contact env call q)
  show ?thesis
    unfolding Save_contact privacy_event.simps saveContactPreferences_def
    by (rule preference_step) (rule contact_preference_step)
next
  case (Erase env call q)
  let ?e = "env\<lparr>ee_sha := sha\<rparr>"
  have step: "privacy_step sha t t'" if "erasure_body ?e call q ctx t = Inr (v, t')" for ctx t v t'
    using erasure_step [OF that] assms(2) by (simp add: Erase event_ok_def)
  show ?thesis
    unfolding Erase privacy_event.simps applyPrivacyErasure_def
    by (auto simp: calm_refl split: sum.split sum.splits prod.splits intro!: operation_step intro: step)
next
  case (Quarantine r d now)
  then show ?thesis by (auto simp: calm_refl intro: quarantine_step split: sum.split)
next
  case (Elsewhere db2)
  then show ?thesis by (simp add: calm_refl elsewhere_step)
qed

subsection \<open>Histories\<close>

lemma event_kept:
  assumes "privacy_ok sha (db_world db)" "event_ok ev"
  shows "privacy_ok sha (db_world (privacy_event sha ev db))" "grows_to (db_world db) (db_world (privacy_event sha ev db))"
proof -
  have "privacy_step sha (db_world db) (db_world (privacy_event sha ev db))"
    by (rule privacy_event_step [OF privacy_okD(2) [OF assms(1)] assms(2)])
  then show "privacy_ok sha (db_world (privacy_event sha ev db))" "grows_to (db_world db) (db_world (privacy_event sha ev db))"
    using step_ok step_later assms(1) by blast+
qed

lemma run_kept:
  assumes "privacy_ok sha (db_world db)" "list_all event_ok events"
  shows "privacy_ok sha (db_world (run_privacy sha events db))" "grows_to (db_world db) (db_world (run_privacy sha events db))"
proof -
  have "privacy_ok sha (db_world (run_privacy sha events db)) \<and> grows_to (db_world db) (db_world (run_privacy sha events db))"
    using assms
  proof (induction events arbitrary: db)
    case Nil
    then show ?case by (simp add: run_privacy_def grows_to_refl)
  next
    case (Cons ev events)
    then show ?case
      using event_kept [of sha db ev] by (auto simp: run_privacy_def intro: grows_to_trans)
  qed
  then show "privacy_ok sha (db_world (run_privacy sha events db))" "grows_to (db_world db) (db_world (run_privacy sha events db))"
    by simp_all
qed

lemma run_append: "run_privacy sha (xs @ ys) db = run_privacy sha ys (run_privacy sha xs db)"
  by (simp add: run_privacy_def)

lemma empty_ok: "sf_subscriptions t = [] \<Longrightarrow> sf_restrictions t = [] \<Longrightarrow> sf_ledger t = [] \<Longrightarrow> privacy_ok sha t"
  by (simp add: privacy_ok_def ledger_ok_def)

text \<open>The tables are what the ledger says.\<close>

lemma withdrawn_iff:
  assumes "privacy_ok sha t" "s \<in> set (sf_subscriptions t)"
  shows "sb_state s = Sub_withdrawn \<longleftrightarrow> (\<exists>r \<in> set (sf_ledger t). selected_subscription (en_effect r) s)"
  using privacy_okD(3,5) [OF assms(1)] assms(2) by (auto simp: in_force_def)

lemma restricted_iff:
  assumes "privacy_ok sha t"
  shows "x \<in> set (sf_restrictions t) \<longleftrightarrow> (\<exists>r \<in> set (sf_ledger t). x \<in> restricted_by (en_effect r))"
  using privacy_okD(3,6) [OF assms] unfolding in_force_def by blast

lemma not_eligible:
  assumes "\<And>s. s \<in> set (sf_subscriptions t) \<Longrightarrow> sb_id s = i \<Longrightarrow> sb_state s = Sub_withdrawn"
  shows "eligibleSubscriptionRecipient env i purpose t = None"
proof (cases "List.find (\<lambda>s. sb_id s = i) (sf_subscriptions t)")
  case (Some s)
  then have "sb_state s = Sub_withdrawn" using assms by (auto simp: find_Some_iff)
  then have "checkSendEligibility (Some (view_of s)) purpose \<noteq> Allowed"
    using eligible_active [of "view_of s" purpose] by (auto simp: view_of_def)
  then show ?thesis using Some by (simp add: eligibleSubscriptionRecipient_def split: option.split)
qed (simp add: eligibleSubscriptionRecipient_def)

lemma eligible_unrestricted:
  "eligibleSubscriptionRecipient env i purpose t = Some (a, s) \<Longrightarrow>
     (sb_partyId s, purpose_word purpose) \<notin> set (sf_restrictions t) \<and> s \<in> set (sf_subscriptions t) \<and> sb_state s = Sub_active \<and>
     sb_purpose s = purpose"
  using eligible_active [of "view_of s" purpose]
  by (auto simp: eligibleSubscriptionRecipient_def privacyProcessingRestricted_def view_of_def find_Some_iff
      split: option.splits if_splits)

lemma reapply_tailE:
  assumes "reapply_tail env i now t = (Inr applied, t2)" "ledger_ok (te_sha env) (sf_ledger t)"
    and "\<And>e. e \<in> set (tl_entries (ti_manifest i)) \<Longrightarrow> review_ok (en_review e) \<and>
      (\<exists>t. en_recordedAt e = to_iso t \<and> date_parse (to_iso t) = Some t)"
  obtains c t1 new where "quarantineRestoredDatabase (ti_restoreId i) (ti_snapshotDigest i) now t = Inr (c, t1)"
    "sf_ledger t2 = sf_ledger t @ new" "ledger_ok (te_sha env) (sf_ledger t2)" "applied = int (length new)"
    "t2 = (effects_of (reapply_effect (ti_restoreId i) now) new t1)\<lparr>sf_ledger := sf_ledger t @ new\<rparr>"
    "privacySafetyHead (sf_ledger t2) = (tl_throughSequence (ti_manifest i), tl_headDigest (ti_manifest i))"
proof -
  let ?q = "\<lambda>w. map_sum id snd (quarantineRestoredDatabase (ti_restoreId i) (ti_snapshotDigest i) now w)"
  obtain rows w where run: "reapplySyntheticPrivacyTail env ?q (reapply_effect (ti_restoreId i) now) i (sf_ledger t) t = (Inr applied, rows, w)"
    and t2: "t2 = w\<lparr>sf_ledger := rows\<rparr>"
    using assms(1) by (auto simp: reapply_tail_def split: prod.splits)
  obtain t1 new where q: "?q t = Inr t1" and n: "rows = sf_ledger t @ new" "ledger_ok (te_sha env) rows" "applied = int (length new)"
    "w = effects_of (reapply_effect (ti_restoreId i) now) new t1"
    "privacySafetyHead rows = (tl_throughSequence (ti_manifest i), tl_headDigest (ti_manifest i))"
    by (rule reapply_ok [OF run assms(2)]) (rule assms(3), assumption)
  from q obtain c where "quarantineRestoredDatabase (ti_restoreId i) (ti_snapshotDigest i) now t = Inr (c, t1)"
    by (cases "quarantineRestoredDatabase (ti_restoreId i) (ti_snapshotDigest i) now t") auto
  then show thesis by (rule that) (use t2 n in simp_all)
qed

text \<open>Two ledgers in order with the same head hold the same entries.\<close>

lemma same_head_same_entries:
  assumes "ledger_ok sha xs" "ledger_ok sha ys" "privacySafetyHead xs = privacySafetyHead ys" "inj sha"
  shows "list_all2 same_entry (map normalized xs) (map normalized ys)"
  using chain_unique [OF assms(4)] assms(1-3) head_chain unfolding ledger_ok_def by metis

lemma same_entry_effect:
  assumes "list_all2 same_entry (map normalized xs) (map normalized ys)" "r \<in> set ys"
  shows "\<exists>r' \<in> set xs. en_effect r' = en_effect r"
proof -
  obtain i where i: "i < length ys" "r = ys ! i" using assms(2) by (auto simp: in_set_conv_nth)
  then have "same_entry (normalized (xs ! i)) (normalized (ys ! i))" "i < length xs"
    using assms(1) by (auto simp: list_all2_conv_all_nth)
  then show ?thesis using i(2) by (intro bexI [of _ "xs ! i"]) (simp_all add: same_entry_def normalized_def)
qed

lemma in_force_ledger [simp]: "in_force e (t\<lparr>sf_ledger := rows\<rparr>) = in_force e t"
  by (simp add: in_force_def)

lemma restored:
  assumes run: "reapply_tail env i now snap = (Inr applied, t)"
    and ok: "privacy_ok (te_sha env) snap" "privacy_ok (te_sha env) src" "grows_to snap src" "inj (te_sha env)"
    and entries: "\<forall>e \<in> set (tl_entries (ti_manifest i)). review_ok (en_review e) \<and>
      (\<exists>t. en_recordedAt e = to_iso t \<and> date_parse (to_iso t) = Some t)"
    and head: "privacySafetyHead (sf_ledger src) = (tl_throughSequence (ti_manifest i), tl_headDigest (ti_manifest i))"
  shows "list_all2 same_entry (map normalized (sf_ledger t)) (map normalized (sf_ledger src))"
    "set (sf_restrictions src) \<subseteq> set (sf_restrictions t)"
    "s \<in> set (sf_subscriptions src) \<Longrightarrow> sb_state s = Sub_withdrawn \<Longrightarrow> s' \<in> set (sf_subscriptions t) \<Longrightarrow> sb_id s' = sb_id s
       \<Longrightarrow> sb_state s' = Sub_withdrawn"
    "assertRecoveryOpen t \<noteq> Inr ()"
proof -
  obtain c t1 new where q: "quarantineRestoredDatabase (ti_restoreId i) (ti_snapshotDigest i) now snap = Inr (c, t1)"
    and l: "sf_ledger t = sf_ledger snap @ new" "ledger_ok (te_sha env) (sf_ledger t)"
    and t: "t = (effects_of (reapply_effect (ti_restoreId i) now) new t1)\<lparr>sf_ledger := sf_ledger snap @ new\<rparr>"
    and h: "privacySafetyHead (sf_ledger t) = (tl_throughSequence (ti_manifest i), tl_headDigest (ti_manifest i))"
    by (rule reapply_tailE [OF run privacy_okD(1) [OF ok(1)] bspec [OF entries]])
  note q' = quarantine_tables [OF q]
  show same: "list_all2 same_entry (map normalized (sf_ledger t)) (map normalized (sf_ledger src))"
    by (rule same_head_same_entries [OF l(2) privacy_okD(1) [OF ok(2)] _ ok(4)]) (simp add: h head)
  have force: "in_force (en_effect r) t" if "r \<in> set (sf_ledger t)" for r
  proof (cases "r \<in> set new")
    case True
    then show ?thesis by (simp add: t safety.effects_take)
  next
    case False
    then have "in_force (en_effect r) snap" using that l(1) privacy_okD(3) [OF ok(1)] by auto
    then have "in_force (en_effect r) t1" using q' by (simp add: in_force_def)
    then show ?thesis by (simp add: t safety.effects_keep)
  qed
  have force_src: "in_force (en_effect r) t" if "r \<in> set (sf_ledger src)" for r
    using same_entry_effect [OF same that] force by metis
  show "set (sf_restrictions src) \<subseteq> set (sf_restrictions t)"
    using restricted_iff [OF ok(2)] force_src unfolding in_force_def by blast
  show "assertRecoveryOpen t \<noteq> Inr ()"
    using q'(4) by (auto simp: assertRecoveryOpen_def refused_def t effects_of_tables)
  assume s: "s \<in> set (sf_subscriptions src)" "sb_state s = Sub_withdrawn" "s' \<in> set (sf_subscriptions t)" "sb_id s' = sb_id s"
  obtain r where r: "r \<in> set (sf_ledger src)" "selected_subscription (en_effect r) s" using withdrawn_iff [OF ok(2) s(1)] s(2) by blast
  have "list_all2 same_stream (sf_subscriptions snap) (sf_subscriptions t)"
    using effects_of_tables(2) [of t1 "ti_restoreId i" now new] by (simp add: t q')
  then obtain s0 where s0: "s0 \<in> set (sf_subscriptions snap)" "same_stream s0 s'"
    using s(3) by (metis in_set_conv_nth list_all2_conv_all_nth)
  then obtain s1 where s1: "s1 \<in> set (sf_subscriptions src)" "same_stream s0 s1" using ok(3) by (auto simp: grows_to_def)
  then have "s1 = s"
    using s0(2) s(1,4) privacy_okD(2) [OF ok(2)] by (auto simp: same_stream_def distinct_map inj_on_def)
  then have "selected_subscription (en_effect r) s'"
    using r(2) s0(2) s1(2) selected_same [of s s' "en_effect r"] by (simp add: same_stream_def)
  then show "sb_state s' = Sub_withdrawn" using force_src [OF r(1)] s(3) by (simp add: in_force_def)
qed

subsection \<open>An erasure as an operation\<close>

lemma erasure_world:
  obtains "db_world (snd (applyPrivacyErasure env call q db)) = db_world db"
  | ctx v where "erasure_body env call q ctx (db_world db) = Inr (v, db_world (snd (applyPrivacyErasure env call q db)))"
proof -
  let ?fn = "\<lambda>ctx w. case erasure_body env call q ctx w of Inl e \<Rightarrow> (Inl e, w) | Inr (v, w2) \<Rightarrow> (Inr v, w2)"
  let ?i = "\<lparr>oi_actor = session_actor (pl_session call), oi_type = ''privacy.erasure.apply'',
              oi_idempotencyKey = ri_operationId q, oi_requestHash = hash_of env (erasure_value q),
              oi_expectedVersion = Some (ri_expectedVersion q), oi_subject = Some (''privacy_request'', ri_requestId q),
              oi_butlerAuthorization = None\<rparr>"
  show thesis
  proof (cases "erasure_input_ok q \<and> \<not> isl (authorizeEffect env (pl_session call) (ri_requestId q) (pl_now call) (db_world db))")
    case False
    then show thesis by (intro that(1)) (auto simp: applyPrivacyErasure_def split: sum.split)
  next
    case True
    then have run: "applyPrivacyErasure env call q db = runOperation ?i ?fn (pl_locked call) (pl_operationId call) (pl_now call) db"
      by (auto simp: applyPrivacyErasure_def split: sum.split)
    show thesis
      by (rule operation_world [of ?i ?fn "pl_locked call" "pl_operationId call" "pl_now call" db])
        (use that run in \<open>auto split: sum.splits prod.splits\<close>)
  qed
qed

lemma erasure_applied:
  assumes "applyPrivacyErasure env call q db = (Inr result, db')" "\<not> os_replayed result"
  obtains v ctx where "erasure_body env call q ctx (db_world db) = Inr (v, db_world db')"
proof -
  let ?fn = "\<lambda>ctx w. case erasure_body env call q ctx w of Inl e \<Rightarrow> (Inl e, w) | Inr (v, w2) \<Rightarrow> (Inr v, w2)"
  let ?i = "\<lparr>oi_actor = session_actor (pl_session call), oi_type = ''privacy.erasure.apply'',
              oi_idempotencyKey = ri_operationId q, oi_requestHash = hash_of env (erasure_value q),
              oi_expectedVersion = Some (ri_expectedVersion q), oi_subject = Some (''privacy_request'', ri_requestId q),
              oi_butlerAuthorization = None\<rparr>"
  have run: "runOperation ?i ?fn (pl_locked call) (pl_operationId call) (pl_now call) db = (Inr result, db')"
    using assms(1) by (auto simp: applyPrivacyErasure_def split: if_splits sum.splits)
  then have "effective ?i ?fn (pl_locked call) (pl_operationId call) (pl_now call) db" using assms(2) by (simp add: effective_def)
  then obtain v w' ctx where "?fn ctx (db_world db) = (Inr v, w')" "db_world db' = w'"
    using run by (elim effective_run) auto
  then show thesis using that by (auto split: sum.splits prod.splits)
qed

lemma decide_entry:
  assumes "decide sha input newId a now t = Inr (e, v, t')"
  shows "sf_ledger t' = sf_ledger t @ [e] \<and> en_effect e = di_effect input"
proof -
  obtain rows where rows: "appendPrivacySafetyDecision sha input newId now (sf_ledger t) = Inr (e, rows)"
    "applyPrivacySafetyEffect (di_effect input) (en_sequence e) a now (t\<lparr>sf_ledger := rows\<rparr>) = (v, t')"
    using assms by (auto simp: decide_def split: prod.splits)
  have "rows = sf_ledger t @ [e] \<and> en_effect e = di_effect input"
    using rows(1) unfolding appendPrivacySafetyDecision_def
    by (auto simp: Let_def insert_entry_def split: prod.splits if_splits sum.splits)
  then show ?thesis using effect_tables(1) [OF rows(2)] by simp
qed

end
