(* ===== verification/Spec2Isabelle.thy ===== *)
theory Spec2Isabelle
  imports Samples Cases Inquiry Interest ListingReadiness LocalizedRevision Proposal Approval ExternalAction Money Publication PublicationSafety PublicationBinding PublicationSamples EditorialReview OutboxLiveness LocalTime OperatingPolicy JsonText StaffedReport RateLimit Sessions EmailLink LinkUse TimeSamples AccessSamples SafetyLedger Subscription PrivacyEffect Preferences Erasure OptOut
begin

text \<open>
  ms-realty is a real-estate agency's website and back office in TypeScript: a public site that shows
  released listings, a staff interface, a client interface, and a job worker that sends mail. The core is
  written as pure domain rules (\<open>src/src/domain\<close>) that server commands (\<open>src/src/server\<close>) run inside one
  database transaction each. This library models both layers and proves what they promise together.

  How the parts fit. A person or service (an \<^emph>\<open>actor\<close>) holds \<^emph>\<open>capabilities\<close>, resolved from access tables
  by \<open>authz.ts\<close>. A command arrives with an idempotency key and an expected version; \<open>operations.ts\<close> runs it
  at most once per key and keeps its receipt. Inside, the command reads its record, asks the pure rules of
  the record's state machine (\<open>state-machine.ts\<close> and the guards), checks the capability, and writes record,
  timeline and audit in one step (\<open>transition.ts\<close>, \<open>transitions.ts\<close>). What must reach the outside world is
  a row of the ledger of external actions, which \<open>jobs/outbox.ts\<close> claims, hands to the mail provider and
  settles. What becomes public goes through \<open>publication/commands.ts\<close>: reviewed content becomes an immutable
  manifest, a person releases it, and \<open>publication/presentation.ts\<close> reads it back for visitors.

  \<^bold>\<open>Theories and sources.\<close> Each definition is a translation of the function or type it is named after;
  suffixes mark names HOL already has.

  \<^item> \<open>Prelude\<close>, \<open>Decimal\<close>, \<open>Dates\<close>, \<open>Json\<close>: the JavaScript the program rests on: truthiness, trimming,
    safe integers, decimal texts, \<open>Date.parse\<close>, \<open>Date.UTC\<close> and \<open>toISOString\<close> (a calendar proved to be a
    bijection between days and civil dates), JSON values and their canonical text (\<open>domain/approval.ts\<close>).
  \<^item> \<open>StateMachine\<close>, \<open>Transition\<close>: \<open>domain/state-machine.ts\<close>, \<open>domain/transition.ts\<close>. A machine is its
    table, a guard a function to a decision, \<open>applyTransition\<close> a function to a result.
  \<^item> \<open>Capabilities\<close>, \<open>Authz\<close>: \<open>domain/capabilities.ts\<close>, \<open>server/authz.ts\<close>. The access tables are a record of
    lists of rows; a query is a list operation in the order of the tables.
  \<^item> \<open>Appointment\<close>, \<open>Cases\<close>, \<open>Document\<close>, \<open>Inquiry\<close>, \<open>Interest\<close>, \<open>Listing\<close>, \<open>ListingReadiness\<close>,
    \<open>LocalizedRevision\<close>, \<open>Message\<close>, \<open>Media\<close>, \<open>MediaRendition\<close>, \<open>FactRevision\<close>, \<open>Proposal\<close>, \<open>Approval\<close>,
    \<open>Privacy\<close>, \<open>ExternalAction\<close>, \<open>SellerInstruction\<close>, \<open>Publication\<close>, \<open>PublicMap\<close>, \<open>Butler\<close>, \<open>Facts\<close>,
    \<open>Money\<close>, \<open>Ids\<close>, \<open>CheckCode\<close>, \<open>OperationReceipt\<close>: the file of the same name under \<open>domain\<close>.
  \<^item> \<open>Errors\<close>, \<open>OnceOnly\<close>, \<open>Operations\<close>: \<open>server/errors.ts\<close>, \<open>server/operations.ts\<close> and
    \<open>server/butler/authority.ts\<close>. A thrown error is a left injection; the database is a record of the
    receipts, the audit rows and a world of any type. \<open>OnceOnly\<close> states the interface of a once-only store.
  \<^item> \<open>Records\<close>, \<open>EditorialReview\<close>: \<open>server/transitions.ts\<close>, \<open>activity.ts\<close>, \<open>audit.ts\<close>. \<open>Records\<close> has the locale
    of a record store, interpreted on the table store and again on the listings of the publication tables.
  \<^item> \<open>Outbox\<close>, \<open>OutboxLiveness\<close>: \<open>server/jobs/outbox.ts\<close>. The ledger rows, the claims in flight and the calls
    made to the provider; each transaction of a dispatch is a function of that state.
  \<^item> \<open>PublicationTables\<close>, \<open>SellerEvidence\<close>, \<open>Places\<close>, \<open>Presentation\<close>, \<open>Eligibility\<close>, \<open>SearchProjection\<close>,
    \<open>PublicationCommands\<close>: \<open>server/publication/*.ts\<close>, \<open>server/media/eligibility.ts\<close>, \<open>server/media/verify.ts\<close>,
    \<open>server/search/projection.ts\<close>. The state is the record \<open>publicationTables\<close>; what the commands only read is
    \<open>reviewTables\<close>; a command is a function from envelope and tables to an error or an outcome with new tables.
  \<^item> \<open>PublicationSafety\<close>, \<open>PublicationBinding\<close>: the invariant of the publication tables over every command,
    and the binding of a manifest to the content that was reviewed.
  \<^item> \<open>LocalTime\<close>, \<open>OperatingPolicy\<close>, \<open>JsonText\<close>, \<open>StaffedReport\<close>: \<open>domain/time.ts\<close>, \<open>domain/operating-policy.ts\<close>,
    \<open>JSON.stringify\<close> and \<open>server/reports/staffed-response.ts\<close>. The zone
    data of the runtime is a parameter.
  \<^item> \<open>RateLimit\<close>, \<open>Sessions\<close>, \<open>EmailLink\<close>, \<open>LinkUse\<close>: \<open>server/rate-limit.ts\<close>, \<open>server/auth/sessions.ts\<close>,
    \<open>email-link.ts\<close> and \<open>email-link-delivery.ts\<close>: who may sign in, how long it lasts, and how often anyone may try.
  \<^item> \<open>Samples\<close>, \<open>PublicationSamples\<close>, \<open>AccessSamples\<close>, \<open>TimeSamples\<close>: the concrete inputs at which properties are applied.

  \<^bold>\<open>What the lemmas show.\<close> Commands run once (C1 and what follows it); records move only along their
  tables, by who may move them, and their audit trail replays to the row; access is never wider than the
  tables grant; an approval covers exactly its content; evidence a state claims was really given; what is
  public was released, is current and is never resurrected; mail is sent at most once and always settles;
  local times, staffed hours and rate limits are what a calendar says; sessions end when they must; texts
  round trip.

  \<^bold>\<open>Bounds and fuel.\<close> \<open>load_nodes\<close> terminates because every round but the last adds a place of the finite
  table; with fuel, one round more than there are places is enough. A place chain is cut at eight, as in the
  code. A dispatch is retried while fewer than \<open>maxDeliveryAttempts\<close> (three) attempts were made. No other
  definition needs fuel: recursion is structural or has its termination proof.

  \<^bold>\<open>Parameters.\<close> SHA-256 and HMAC are functions from texts to texts, assumed injective only where a
  theorem says so; the object storage and the image library are functions from keys and bytes; generated
  identifiers, tokens, the clock, advisory locks and the answers of the mail provider are inputs of each call.

  \<^bold>\<open>Conventions.\<close> A transaction is one step, so interleaving is the order of steps; a row lock has no other
  effect in the model. Instants are integers in milliseconds. Strings are character lists; no modelled code
  relies on a code unit above 255. Numbers that the code keeps as doubles are integers where it checks
  for safe integers, and otherwise exact rationals.

  \<^bold>\<open>Not modelled.\<close> Screens, routes, styles and translations; calls to language models and their transcripts;
  the import of legacy data; release, backup and production scripts; passkey ceremonies (a third-party
  library verifies them); SQL beyond the meaning of its conditions; the browser. The manifest of the
  development lists every part with its reason.
\<close>

subsection \<open>Commands that run once\<close>



text \<open>
  C1: In any sequence of calls and reconciliations, whatever their order, retries, lock outcomes
  and identifiers, at most one call per actor, type and idempotency key has an effect on the
  world.
\<close>

theorem operation_effect_once:
  assumes "ok_database db"
  shows "length (filter (\<lambda>c. step_key c = Some k) (effects exec_step effect_step db steps)) \<le> 1"
  using assms by (rule ops.at_most_once)

theorem operation_effect_once_witness:
  "ok_database sample_db \<and>
   length (filter (\<lambda>c. step_key c = Some (input_key sample_input)) (effects exec_step effect_step sample_db
     [CallStep sample_input sample_command True ''o1'' 10, CallStep sample_input sample_command True ''o2'' 20])) \<le> 1"
  using operation_effect_once [OF sample_db_ok] sample_db_ok by blast

text \<open>
  C2: A call that succeeded answers every later retry of the same request, under the lock and
  after any further calls and reconciliations, with the same operation and the same outcome,
  marked as replayed, and changes nothing; the command is not run again.
\<close>

theorem operation_retry_same_answer:
  assumes "ok_database db" "effective i fn locked n now db"
    and "fst (runOperation i fn locked n now db) = Inr s" "\<not> storedButlerSuccess (os_outcome s)"
    and after_def: "after = run_steps exec_step (snd (runOperation i fn locked n now db)) steps"
  shows "runOperation i fn' True m later after = (Inr (s\<lparr>os_replayed := True\<rparr>), after)"
proof -
  obtain v where v: "fst (runOperation i fn locked n now db) =
      Inr \<lparr>os_operationId = n, os_replayed = False, os_outcome = v, os_butlerReceipt = None\<rparr>"
    "row_of (snd (runOperation i fn locked n now db)) (input_key i) = Some (settle_row Op_succeeded v now (new_row i n))"
    using assms(1,2) by (rule effective_row)
  have "step_row (snd (runOperation i fn locked n now db)) (Some (input_key i)) = Some (settle_row Op_succeeded v now (new_row i n))"
    using v(2) by (simp add: step_row_def)
  then have "step_row after (Some (input_key i)) = Some (settle_row Op_succeeded v now (new_row i n))"
    unfolding after_def
    by (rule ops.final_stays [OF runOperation_ok [OF assms(1)]]) (simp add: final_row_def)
  then have "row_of after (input_key i) = Some (settle_row Op_succeeded v now (new_row i n))"
    by (simp add: step_row_def)
  then show ?thesis using assms(3,4) v(1) by (subst replay_succeeded) auto
qed

theorem operation_retry_same_answer_witness:
  "fst (runOperation sample_input sample_command True ''o2'' 20
     (run_steps exec_step (snd (runOperation sample_input sample_command True ''o1'' 10 sample_db)) []))
   = Inr \<lparr>os_operationId = ''o1'', os_replayed = True, os_outcome = json_int 7, os_butlerReceipt = None\<rparr>"
proof -
  have r: "fst (runOperation sample_input sample_command True ''o1'' 10 sample_db) =
      Inr \<lparr>os_operationId = ''o1'', os_replayed = False, os_outcome = json_int 7, os_butlerReceipt = None\<rparr>"
    by (simp add: operation_eval sample_simps)
  show ?thesis
    using operation_retry_same_answer [OF sample_db_ok sample_effect r _ refl, where steps = "[]"]
    by (simp add: storedButlerSuccess_def json_int_def)
qed



text \<open>
  C4: A call made by or through the assistant never changes the world: whatever it asks for, the
  command itself is not reached.
\<close>

theorem assistant_never_writes:
  assumes "isButlerOperation i"
  shows "db_world (snd (runOperation i fn locked n now db)) = db_world db"
  by (rule not_effective_world [OF butler_no_effect [OF assms]])

theorem assistant_never_writes_witness:
  "db_world (snd (runOperation (sample_input\<lparr>oi_type := ''butler.task.create''\<rparr>) sample_command True ''o1'' 10 sample_db)) = 7"
  by (subst assistant_never_writes) (simp_all add: isButlerOperation_def sample_simps)

subsection \<open>Versioned records\<close>



text \<open>
  C5: Of all the commands prepared against one version of a record, whatever the record type and
  however the commands are interleaved, at most one is accepted.
\<close>

theorem transition_once_per_version:
  "length (filter (\<lambda>q. tr_expectedVersion q = v) (accepted (run_transition spec) r qs)) \<le> 1"
  by (rule commands.accepted_once)

text \<open>
  After any sequence of commands the version has grown by exactly the number of accepted ones, and
  the state is one the table of the record type reaches from where it was.
\<close>

theorem transition_history:
  "vr_version (submit_all (run_transition spec) r qs) = vr_version r + int (length (accepted (run_transition spec) r qs)) \<and>
   reaches (spec_machine spec) (vr_state r) (vr_state (submit_all (run_transition spec) r qs))"
  using commands.version_counts commands.submit_all_reaches by blast


subsection \<open>Access\<close>



text \<open>
  Whatever it was granted, the assistant service can only do the three drafting capabilities.
\<close>

theorem assistant_only_drafts:
  assumes "actor_kind a = Actor_ai_service" "can db a c r now"
  shows "c \<in> {Cap_ai_draft, Cap_translation_draft, Cap_message_draft}"
  using can_ai [OF assms] by (simp add: isDraftOnly_iff)

theorem assistant_only_drafts_witness:
  "can sample_tables sample_assistant Cap_ai_draft (Some sample_case) 5 \<and>
   \<not> can sample_tables sample_assistant Cap_publication_release (Some sample_case) 5"
  using sample_can_assistant
    assistant_only_drafts [of sample_assistant sample_tables Cap_publication_release "Some sample_case" 5]
  by (auto simp: sample_assistant_def)

text \<open>
  C7: A record whose audience is internal is out of reach of clients and visitors whatever they
  were granted, and reading it answers not_found.
\<close>

theorem internal_records_unreachable:
  assumes "res_audience r = Some Audience_internal" "actor_kind a \<in> {Actor_client, Actor_visitor}"
  shows "\<not> can db a c (Some r) now \<and> assertCanRead db a c r now = Some (ThrownApp (AppError Err_not_found no_options))"
  using can_internal [OF assms] by (simp add: assertCanRead_def)

theorem internal_records_unreachable_witness:
  "can sample_tables sample_client Cap_portal_case_read (Some sample_case) 5 \<and>
   \<not> can sample_tables sample_client Cap_portal_case_read (Some (sample_case\<lparr>res_audience := Some Audience_internal\<rparr>)) 5"
  using sample_can_client
    internal_records_unreachable [of "sample_case\<lparr>res_audience := Some Audience_internal\<rparr>" sample_client]
  by (simp add: sample_client_def)

text \<open>
  C8: Where every target of a relationship is named, a client reaches a record only through a
  grant whose scope names that record, its case, or the property it belongs to.
\<close>

theorem client_reach_is_scoped:
  assumes "named_targets db" "actor_kind a = Actor_client" "can db a c (Some r) now"
  shows "\<exists>g sc i. g \<in> set (resolveGrants db a now) \<and> grant_capability g = c \<and> grant_scope g = Some sc \<and>
    scope_recordId sc = Some i \<and> i \<noteq> [] \<and>
    (res_id r = Some i \<or> res_caseId r = Some i \<or> res_propertyId r = Some i \<and> res_type r \<in> set propertyRecordTypes)"
  using client_reach [OF assms] assms(2) by (simp add: resolveGrants_def)

theorem client_reach_is_scoped_witness:
  "\<exists>g sc. g \<in> set (resolveGrants sample_tables sample_client 5) \<and> grant_scope g = Some sc \<and>
     scope_recordId sc = Some ''k1''"
proof -
  have "named_targets sample_tables" by (simp add: named_targets_def scope_targets_def sample_tables_def)
  from client_reach_is_scoped [OF this _ sample_can_client] show ?thesis
    by (auto simp: sample_client_def sample_case_def)
qed

text \<open>
  C9: Checking the grants restated for one record, with any context of its locale, is the same as
  checking access to the record against everything the actor holds.
\<close>

theorem grantsFor_agrees_with_can:
  assumes "context_locale ctx = res_locale r"
  shows "hasCapability a (grantsFor db a r now) c ctx \<longleftrightarrow> can db a c (Some r) now"
  by (rule grantsFor_exact [OF assms])

theorem grantsFor_agrees_with_can_witness:
  "hasCapability sample_client (grantsFor sample_tables sample_client sample_case 5) Cap_portal_case_read
     \<lparr>context_recordType = None, context_recordId = None, context_locale = None, context_now = None\<rparr>"
  by (subst grantsFor_agrees_with_can) (simp add: sample_case_def, rule sample_can_client)

subsection \<open>What an approval covers\<close>



text \<open>
  C10: Two JSON values have the same canonical text exactly when they have the same content: the
  same defined properties whatever their order, with undefined items read as null.
\<close>

theorem canonical_text_is_content:
  assumes "wf_json v" "wf_json w"
  shows "canonicalJson v = canonicalJson w \<longleftrightarrow> content_of v = content_of w"
  by (rule canonicalJson_iff [OF assms])

theorem canonical_text_is_content_witness:
  "canonicalJson (JObject [(''b'', JUndefined), (''a'', JArray [JBool True])]) =
     canonicalJson (JObject [(''a'', JArray [JBool True])]) \<and>
   canonicalJson (JObject [(''a'', JNull)]) \<noteq> canonicalJson (JObject [])"
  using canonical_text_is_content [of "JObject [(''b'', JUndefined), (''a'', JArray [JBool True])]"
      "JObject [(''a'', JArray [JBool True])]"]
    canonical_text_is_content [of "JObject [(''a'', JNull)]" "JObject []"]
  by (simp add: sorted_entries_def fun_eq_iff)

text \<open>
  C11: The content an approval of a proposal covers is the same for two versions exactly when
  amount, currency, period, conditions, parties, deadline and time zone are.
\<close>

theorem proposal_approval_binds_terms:
  "proposalApprovalContent p = proposalApprovalContent n \<longleftrightarrow> material_terms p = material_terms n"
  by (rule proposalApprovalContent_iff)

text \<open>
  Once the content of its subject has changed an approval is not valid at any time, and the
  invalidation leaves no approved one.
\<close>

theorem approval_of_changed_subject:
  assumes "subj_hash (apv_subject ap) \<noteq> h"
  shows "\<not> isApprovalValid ap h now \<and> apv_state (invalidateIfChanged ap h) \<noteq> Apv_approved"
  using invalidateIfChanged_invalid [OF assms] isApprovalValid_hash assms by blast

theorem approval_of_changed_subject_witness:
  "\<not> isApprovalValid \<lparr>apv_kind = Apk_factual, apv_subject = \<lparr>subj_type = ''listing'', subj_id = ''l1'',
       subj_version = 1, subj_hash = ''h1''\<rparr>, apv_state = Apv_approved, apv_decidedBy = Some ''s1'', apv_expiresAt = None\<rparr>
     ''h2'' None"
  by (rule conjunct1 [OF approval_of_changed_subject]) simp

text \<open>
  C12: A revision of the facts is material exactly when a fact that changed was known before or is
  conflicting now, and unchanged exactly when no fact changed in state, value, unit or basis.
\<close>

theorem fact_change_exact:
  assumes "wf_factSet prev" "wf_factSet next"
  shows "fcc_classification (classifyFactChanges (Some prev) next) =
    (if \<exists>k. fact_changed prev next k \<and> (fact_is Fact_known (map_of prev k) \<or> fact_is Fact_conflicting (map_of next k))
     then Mat_material else if \<exists>k. fact_changed prev next k then Mat_non_material else Mat_none)"
proof -
  let ?c = "classifyFactChanges (Some prev) next"
  have "fcc_changedKeys ?c = [] \<longleftrightarrow> (\<nexists>k. fact_changed prev next k)"
    using set_changedKeys [OF assms] by (metis (mono_tags, lifting) empty_set mem_Collect_eq set_empty empty_iff ex_in_conv)
  moreover have "fcc_materialKeys ?c = [] \<longleftrightarrow>
      (\<nexists>k. fact_changed prev next k \<and> (fact_is Fact_known (map_of prev k) \<or> fact_is Fact_conflicting (map_of next k)))"
    using set_materialKeys [OF assms] by (metis (mono_tags, lifting) empty_set mem_Collect_eq set_empty empty_iff ex_in_conv)
  ultimately show ?thesis unfolding classification_keys by auto
qed

theorem fact_change_exact_witness:
  "fcc_classification (classifyFactChanges (Some [(''rooms'', sample_fact ''3'')]) [(''rooms'', sample_fact ''4'')]) = Mat_material"
  by (subst fact_change_exact)
    (auto simp: wf_factSet_def sample_fact_def fact_changed_def fact_content_def fact_is_def)

subsection \<open>States and their evidence\<close>



text \<open>
  C13: A message in any state of sending was approved by a person (or is a service message) and
  was queued with the approved payload.
\<close>

theorem message_sent_was_approved:
  assumes "message_history s h" "s \<in> set sending_states"
  shows "approved_by_human h \<and> queued_as_approved h"
  using message_history_sending [OF assms(1)] assms(2) by blast

theorem message_sent_was_approved_witness:
  "message_history Msg_queued [(Msg_queued, sample_message, sample_staff), (Msg_approved, sample_message, sample_staff)] \<and>
   approved_by_human [(Msg_queued, sample_message, sample_staff), (Msg_approved, sample_message, sample_staff)]"
proof -
  have "message_move Msg_draft Msg_approved sample_message sample_staff"
    "message_move Msg_approved Msg_queued sample_message sample_staff"
    by (simp_all add: message_move_def check_def messageMachine_def guardMessageTransition_def sample_message_def
        sample_staff_def guard_simps)
  then have h: "message_history Msg_queued [(Msg_queued, sample_message, sample_staff), (Msg_approved, sample_message, sample_staff)]"
    by (blast intro: message_history.intros)
  from message_sent_was_approved [OF this] h show ?thesis by (simp add: sending_states_def)
qed

text \<open>
  A document that reached review, or a state after it, was sealed with a digest and a key and was
  found clean by the scan.
\<close>

theorem document_shown_was_sealed_and_scanned:
  assumes "document_steps s h" "s \<in> set scanned_states"
  shows "history_has (\<lambda>e. truthy (doe_sealedSha256 e) \<and> truthy (doe_sealedKey e)) Doc_sealed h \<and>
    history_has (\<lambda>e. doe_scan e = Some Scan_clean) Doc_ready_for_review h"
  using document_sealed_before [OF assms(1)] assms(2) by blast

theorem document_shown_was_sealed_and_scanned_witness:
  "\<exists>h. document_steps Doc_ready_for_review h \<and> history_has (\<lambda>e. truthy (doe_sealedSha256 e) \<and> truthy (doe_sealedKey e)) Doc_sealed h"
proof -
  let ?m = "\<lambda>s. (s, sample_document, sample_staff)"
  have step: "document_steps t (?m t # h)"
    if "document_steps s h" "(s, t) \<in> {(Doc_selected, Doc_uploading), (Doc_uploading, Doc_uploaded),
      (Doc_uploaded, Doc_sealed), (Doc_sealed, Doc_scanning), (Doc_scanning, Doc_ready_for_review)}" for s t h
    using that(1)
    by (rule document_step) (use that(2) in \<open>auto simp: check_def documentMachine_def guardDocumentTransition_def
      sample_document_def guard_simps\<close>)
  have "document_steps Doc_ready_for_review
    [?m Doc_ready_for_review, ?m Doc_scanning, ?m Doc_sealed, ?m Doc_uploaded, ?m Doc_uploading]"
    by (rule step [OF step [OF step [OF step [OF step [OF document_selected]]]]]) simp_all
  from document_shown_was_sealed_and_scanned [OF this] this show ?thesis
    by (auto simp: scanned_states_def)
qed

text \<open>
  Work on a privacy request, a legal hold and a completion come only after an identity
  verification and a responsible person were recorded.
\<close>

theorem privacy_work_was_verified:
  assumes "privacy_steps s h" "s \<in> {Prv_in_progress, Prv_on_legal_hold, Prv_completed}"
  shows "verified_before h"
  using privacy_verified [OF assms(1)] assms(2) by blast

theorem privacy_work_was_verified_witness:
  "privacy_steps Prv_in_progress
     [(Prv_in_progress, sample_privacy, sample_staff), (Prv_verifying, sample_privacy, sample_staff)] \<and>
   verified_before [(Prv_in_progress, sample_privacy, sample_staff), (Prv_verifying, sample_privacy, sample_staff)]"
proof -
  have "check privacyRequestMachine Prv_received Prv_verifying = Allowed"
    "check privacyRequestMachine Prv_verifying Prv_in_progress = Allowed"
    "guardPrivacyRequestTransition Prv_received Prv_verifying sample_privacy sample_staff = Allowed"
    "guardPrivacyRequestTransition Prv_verifying Prv_in_progress sample_privacy sample_staff = Allowed"
    by (simp_all add: check_def privacyRequestMachine_def guardPrivacyRequestTransition_def sample_privacy_def
        sample_staff_def guard_simps)
  then have h: "privacy_steps Prv_in_progress
     [(Prv_in_progress, sample_privacy, sample_staff), (Prv_verifying, sample_privacy, sample_staff)]"
    by (blast intro: privacy_steps.intros)
  from privacy_work_was_verified [OF this] h show ?thesis by simp
qed

text \<open>
  A listing is presented as available exactly when it is so commercially, was confirmed, has no
  conflict, and the review the confirmation makes due is still ahead.
\<close>

theorem listing_reads_available_exactly:
  "presentedAvailability c (fst (assessFreshness i)) = Com_available \<longleftrightarrow>
     c = Com_available \<and> truthy (fi_lastConfirmedAt i) \<and> \<not> is_true (fi_conflicting i) \<and>
     (\<exists>due. freshness_due i = Some due \<and>
        \<not> num_le (Some due) (date_parse (the_or [] (fi_lastConfirmedAt i))) \<and>
        \<not> num_le (Some due) (date_parse (fi_now i)))"
  by (auto simp: presented_available_iff assessFreshness_current_iff)

text \<open>
  A routine action of the assistant is left as a draft for a person exactly when the case is the
  current one and active, nothing protected is touched and the evidence of the action is complete.
\<close>

theorem butler_draft_exact:
  assumes "isButlerRoutineAction action"
  shows "butlerEligibility_of action caseId evidence = approval_needed ''draft_only'' \<longleftrightarrow>
    (\<exists>ev. evidence = Some ev \<and> bev_caseId ev = caseId \<and> bev_caseActive ev \<and> bev_protectedEffects ev = [] \<and>
       routine_check action ev = None)"
  by (rule draft_only_iff [OF assms])

theorem butler_draft_exact_witness:
  "butlerEligibility_of ''task.create'' ''k1'' (Some \<lparr>bev_caseId = ''k1'', bev_caseActive = True, bev_protectedEffects = [],
     bev_message = None, bev_viewing = None, bev_document = None,
     bev_task = Some \<lparr>btk_internalCreationOnly = True, btk_ownerAvailable = True, btk_makesClientPromise = False\<rparr>\<rparr>)
   = approval_needed ''draft_only''"
  by (subst butler_draft_exact)
    (simp_all add: isButlerRoutineAction_def butlerRoutineActions_def routine_check_def task_check_def)

subsection \<open>Values\<close>



text \<open>
  Moving a relation loses and duplicates none, keeps the order of the others, and puts the moved
  one directly before or after its anchor.
\<close>

theorem relation_move_keeps_all:
  assumes "moveRelation ps r tgt = Some qs" "distinct (ids ps)"
  shows "mset (ids qs) = mset (ids ps) \<and>
    (\<exists>us vs. in_order qs = ids qs \<and> filter (\<lambda>x. x \<noteq> r) (in_order ps) = us @ vs \<and> ids qs = us @ r # vs \<and>
      (case tgt of Before a \<Rightarrow> vs \<noteq> [] \<and> hd vs = a | After a \<Rightarrow> us \<noteq> [] \<and> last us = a))"
  using moveRelation_mset [OF assms] moveRelation_ids [OF assms(1)] by blast

theorem relation_move_keeps_all_witness:
  "\<exists>qs. moveRelation sample_placements ''c'' (Before ''a'') = Some qs \<and> mset (ids qs) = mset (ids sample_placements)"
proof -
  obtain qs where "moveRelation sample_placements ''c'' (Before ''a'') = Some qs"
    using moveRelation_defined [of sample_placements "''c''" "Before ''a''"] by (auto simp: sample_placements_def)
  then show ?thesis using relation_move_keeps_all [of sample_placements "''c''" "Before ''a''" qs]
    by (simp add: sample_placements_def)
qed

text \<open>
  The renditions that are published are exactly those in both the current evidence and the
  manifest, each valid, by strictly increasing width.
\<close>

theorem published_renditions_are_shared:
  assumes "publishedMediaRenditions current snapshot assetId = Some rs"
  shows "\<exists>asset manifest. parseMediaRenditions current assetId = Some asset \<and>
    parseMediaRenditions snapshot assetId = Some manifest \<and> set rs = set asset \<inter> set manifest \<and>
    sorted_wrt (<) (map rn_width rs) \<and> list_all (valid_rendition assetId) rs"
  by (rule publishedMediaRenditions_Some [OF assms]) blast

theorem published_renditions_are_shared_witness:
  "\<exists>rs. publishedMediaRenditions (JArray [sample_rendition]) (JArray [sample_rendition]) ''m1'' = Some rs \<and>
     map rn_width rs = [800] \<and> list_all (valid_rendition ''m1'') rs"
proof -
  obtain rs where rs: "publishedMediaRenditions (JArray [sample_rendition]) (JArray [sample_rendition]) ''m1'' = Some rs"
    "map rn_width rs = [800]"
    by (simp add: publishedMediaRenditions_def parseMediaRenditions_def sample_rendition_item)
  from published_renditions_are_shared [OF rs(1)] have "list_all (valid_rendition ''m1'') rs"
    by (elim exE conjE)
  with rs show ?thesis by (intro exI [of _ rs]) simp
qed

text \<open>
  A formatted reference of a four-digit year reads back as its kind and itself.
\<close>

theorem reference_roundtrip:
  assumes "formatReference k y n = Some r" "k \<noteq> Ref_listing" "1000 \<le> y" "y \<le> 9999"
  shows "parseReference r = Some (k, r)"
  by (rule parse_format_reference [OF assms])

theorem reference_roundtrip_witness:
  "parseReference ''RQ-2026-000042'' = Some (Ref_inquiry, ''RQ-2026-000042'')"
  by (rule reference_roundtrip [of _ 2026 42])
    (code_simp, simp_all)

text \<open>
  C14: The euro amount shown for a price in leva is the nearest number of cents at the fixed rate.
\<close>

theorem euro_amount_nearest:
  assumes "0 \<le> a"
  shows "2 * \<bar>pm_amountMinor (presentInEuro a BGN) * bgn_numerator - a * bgn_denominator\<bar> \<le> bgn_numerator"
proof -
  have "0 \<le> a * bgn_denominator" "0 < bgn_numerator"
    using assms by (simp_all add: bgn_denominator_def bgn_numerator_def)
  note half = half_up [OF this]
  define q where "q = (2 * (a * bgn_denominator) div bgn_numerator + 1) div 2"
  define x where "x = q * bgn_numerator"
  have "2 * x \<le> 2 * (a * bgn_denominator) + bgn_numerator"
    "2 * (a * bgn_denominator) + bgn_numerator < 2 * x + 2 * bgn_numerator"
    using half unfolding q_def [symmetric] x_def by (simp_all add: algebra_simps)
  then show ?thesis
    unfolding presentInEuro_amount [OF assms] q_def [symmetric] x_def [symmetric] by (simp add: abs_if)
qed

theorem euro_amount_nearest_witness:
  "pm_amountMinor (presentInEuro 19558 BGN) = 10000 \<and>
   2 * \<bar>10000 * bgn_numerator - 19558 * bgn_denominator\<bar> \<le> bgn_numerator"
proof -
  have "pm_amountMinor (presentInEuro 19558 BGN) = 10000" by code_simp
  with euro_amount_nearest [of 19558] show ?thesis by simp
qed

text \<open>
  C15: Every issued submission key has a six-character check code, and the code gives back the
  five characters of the key it stands for.
\<close>

theorem check_code_roundtrip:
  assumes "issuedKeyShape key"
  shows "\<exists>code. inquiryCheckCode key = Some code \<and> length code = 6 \<and> set code \<subseteq> set crockford \<and>
    checkCodeNoncePrefix code = Some (take 5 key)"
  by (rule checkCode_roundtrip [OF assms])

theorem check_code_roundtrip_witness:
  "\<exists>code. inquiryCheckCode sample_key = Some code \<and> checkCodeNoncePrefix code = Some ''AAAAA''"
proof -
  have "issuedKeyShape sample_key" "take 5 sample_key = ''AAAAA''" by code_simp+
  with check_code_roundtrip [of sample_key] show ?thesis by auto
qed

subsection \<open>Records and their audit trail\<close>



text \<open>
  C16: Start with a record that has no audit entries. Whatever commands then reach its table, on
  whichever records, by whomever, at whatever time, and accepted or not, following the audit
  entries of the record from its first state and version goes through without a gap and ends in
  the state and version the table holds.
\<close>

theorem audit_trail_replays:
  assumes "ok_table (ws_rows ws)" "table_load (ws_rows ws) i = Some r" "trail i (ws_audit ws) = []"
  shows "\<exists>r'. table_load (ws_rows (run_commands spec tableStore cs ws)) i = Some r' \<and>
    audit_replay (stored spec r) (trail i (ws_audit (run_commands spec tableStore cs ws))) = Some (stored spec r')"
  using table.commands_trail [of ws i r "stored spec r" spec cs] assms by (simp add: tableStore_def)

theorem audit_trail_replays_witness:
  "\<exists>r'. table_load (ws_rows (run_commands appointmentTransitions tableStore
        [(sample_tables, sample_decline, 0)] sample_workspace)) ''a1'' = Some r' \<and>
     audit_replay (''requested'', 4) (trail ''a1'' (ws_audit (run_commands appointmentTransitions tableStore
        [(sample_tables, sample_decline, 0)] sample_workspace))) = Some (stored appointmentTransitions r')"
  using audit_trail_replays [OF sample_row_loaded, of appointmentTransitions "[(sample_tables, sample_decline, 0)]"]
  by (simp add: sample_workspace_def trail_def stored_def sample_row_def appointmentTransitions_def)

text \<open>
  C17: A transition is applied only to the record at the version the command expects, and only if
  the access tables let the actor use the capability of the move on that record, its case or its
  property; the record then differs in nothing but state and version.
\<close>

theorem applied_transition_was_permitted:
  assumes "ok_table (ws_rows ws)"
    and "fst (executeTransition db spec tableStore c now ws) = Inr (Outcome_applied r')"
  shows "\<exists>r. table_load (ws_rows ws) (tc_recordId c) = Some r \<and> vr_version r = tc_expectedVersion c \<and>
    r' = r\<lparr>vr_state := tc_to c, vr_version := tc_expectedVersion c + 1\<rparr> \<and>
    can db (tc_actor c) (spec_capabilityFor spec (vr_state r) (tc_to c) (tc_actor c))
      (Some (resource_of spec (table_parents r) r)) now"
  using table.applied_can [OF assms] by (simp add: tableStore_def)

theorem applied_transition_was_permitted_witness:
  "can sample_tables sample_staff Cap_appointment_manage
     (Some (resource_of appointmentTransitions (table_parents sample_row) sample_row)) 0"
  using applied_transition_was_permitted [OF sample_row_loaded(1) sample_decline_applied] sample_row_loaded(2)
  by (simp add: sample_decline_def appointmentTransitions_def sample_staff_def)

subsection \<open>Publication\<close>





text \<open>
  C19: After a restriction or withdrawal of a listing, the next public reading of it returns
  nothing, and no later sequence of commands brings any manifest back that existed at the removal:
  what is shown of the listing afterwards was prepared anew.
\<close>

theorem removal_is_final:
  assumes "ok_publication (db_world db)" "listing_by_reference (db_world db) r = Some l"
    and x: "x = Restrict_publication r s \<or> x = Withdraw_publication r s"
    and "fst (run env c x locked newId db) = Inr su" "\<not> os_replayed su"
    and down_def: "down = snd (run env c x locked newId db)"
  shows "loadPublishedListings rt (db_world down) clock [ls_id l] [] loc = [] \<and>
    (\<forall>y \<in> set (loadPublishedListings rt (db_world (run_steps exec_publication down ss)) clock idKeys refs loc).
       pl_listingId y = ls_id l \<longrightarrow> manifest_of (db_world db) (pl_manifestId y) = None)"
proof -
  obtain o1 v kind where body: "removeExposure env kind c r s o1 (db_world db) = Inr (v, db_world down)"
    using run_effect [OF assms(4,5)] x unfolding down_def by (elim disjE) (simp, blast)+
  note ok = removeExposure_ok(1) [OF body assms(1)]
  note later = run_publication_ok [OF ok, of ss]
  show ?thesis
    using removed_not_shown [OF assms(1) body assms(2)] removed_never_returns [OF assms(1) body assms(2)] later by blast
qed

theorem removal_is_final_witness:
  "pb_pointers (db_world published_db) = [sample_pointer] \<and>
   loadPublishedListings sample_review (db_world (snd (run sample_env (sample_envelope ''k3'' 0)
     (Restrict_publication ''L-1'' ''wrong'') True ''o3'' published_db))) 5 [''l1''] [] Loc_bg = []"
proof -
  obtain v where v: "fst (run sample_env (sample_envelope ''k3'' 0) (Restrict_publication ''L-1'' ''wrong'') True ''o3'' published_db) =
     Inr \<lparr>os_operationId = ''o3'', os_replayed = False, os_outcome = v, os_butlerReceipt = None\<rparr>"
    using sample_restricted_run by blast
  have ok: "ok_publication (db_world published_db)"
    using run_publication_ok [OF sample_publication_ok, of publish_steps] by (simp add: published_steps)
  have l: "listing_by_reference (db_world published_db) ''L-1'' = Some sample_listing"
    by (simp add: sample_published_run sample_listed)
  show ?thesis
    using removal_is_final [OF ok l _ v _ refl, of "''wrong''" sample_review 5 Loc_bg "[]" "[]" "[]"]
    by (simp add: sample_published_run sample_activate)
qed




text \<open>
  C22: With a digest that does not collide, the manifest a successful activation puts on the
  website carries, column by column, the content that is eligible at the activation: facts, copy,
  media, map and disclosures are not those of an earlier review.
\<close>

theorem activated_is_prepared:
  assumes "ok_publication (db_world db)" "all_prepared sha (db_world db)" "list_all (step_sha sha) ss" "inj sha"
    and before_def: "before = run_steps exec_publication db ss"
    and "env_sha env = sha" "readable_assets (env_review env)"
    and "fst (run env c (Activate_manifest i) locked newId before) = Inr su" "\<not> os_replayed su"
  shows "\<exists>m l k. manifest_of (db_world before) i = Some m \<and> listing_of (db_world before) (mf_listingId m) = Some l \<and>
    snd (currentEligibility sha (env_review env) (db_world before) l (mf_locale m) (mf_generation m)
      (command_now env c)) = Some k \<and> carries m k"
proof -
  obtain o1 v t2 where body: "activateManifest env c i o1 (db_world before) = Inr (v, t2)"
    using run_effect [OF assms(8,9)] by auto
  have "all_prepared (env_sha env) (db_world before)"
    using run_all_prepared [OF assms(1-3)] assms(6) by (simp add: before_def)
  from activated_carries [OF body this assms(7)] show ?thesis using assms(4,6) by metis
qed

theorem activated_is_prepared_witness:
  "\<exists>k. snd (currentEligibility id sample_review sample_prepared sample_listing Loc_bg 0 5) = Some k \<and> carries sample_manifest k"
proof -
  obtain v where v: "run sample_env (sample_envelope ''k2'' 0) (Activate_manifest ''n1'') True ''o2'' prepared_db =
     (Inr \<lparr>os_operationId = ''o2'', os_replayed = False, os_outcome = v, os_butlerReceipt = None\<rparr>, published_db)"
    using sample_published_run(1) by blast
  let ?p = "Command_step sample_env (sample_envelope ''k1'' 0) (Prepare_manifest ''L-1'' Loc_bg) True ''o1''"
  have b: "prepared_db = run_steps exec_publication sample_publication [?p]" by (simp add: prepared_db_def)
  have "all_prepared id (db_world sample_publication)"
    by (simp add: all_prepared_def sample_publication_def sample_unpublished_def)
  moreover have "list_all (step_sha id) [?p]" by (simp add: step_sha_def sample_readable)
  moreover have m: "manifest_of (db_world prepared_db) ''n1'' = Some sample_manifest"
    "listing_of (db_world prepared_db) ''l1'' = Some sample_listing"
    by (simp_all add: manifest_of_def listing_of_def sample_prepared_run sample_prepare)
  ultimately show ?thesis
    using activated_is_prepared [OF sample_publication_ok _ _ inj_on_id b, of sample_env "sample_envelope ''k2'' 0" "''n1''" True "''o2''"]
      v sample_readable by (auto simp: sample_prepared_run)
qed

text \<open>
  C23: While a listing is public, no command changes which fact revision of its property is the
  approved one.
\<close>

theorem facts_fixed_while_public:
  assumes "y \<in> set (loadPublishedListings rt (db_world db) clock idKeys refs loc)"
    and "listing_of (db_world db) (pl_listingId y) = Some l"
  shows "map_option pt_approvedFactRevisionId (property_of (db_world (snd (run env c x locked newId db))) (ls_propertyId l)) =
    map_option pt_approvedFactRevisionId (property_of (db_world db) (ls_propertyId l))"
proof (cases rule: run_world [of env c x locked newId db, case_names kept ran])
  case (ran o1 v)
  let ?t = "db_world db" and ?t2 = "db_world (snd (run env c x locked newId db))"
  have exposed: "active_exposure ?t (ls_propertyId l)"
  proof -
    obtain p where "p \<in> set (pb_pointers ?t)" "cp_listingId p = pl_listingId y" "cp_state p = Ptr_active"
      using assms(1) by (rule shown_active)
    moreover have "l \<in> set (pb_listings ?t)" "ls_id l = pl_listingId y" using listing_of_Some [OF assms(2)] by auto
    ultimately show ?thesis unfolding active_exposure_def list_ex_iff by metis
  qed
  show ?thesis
  proof (cases "\<exists>i s. x = Approve_fact_revision i s")
    case True
    then obtain i s where "approveFactRevision env c i s o1 ?t = Inr (v, ?t2)" using ran by auto
    then obtain f p where p: "property_of ?t (fv_propertyId f) = Some p"
      "pt_approvedFactRevisionId p = Some (fv_id f) \<or> \<not> active_exposure ?t (pt_id p)"
      and t2: "pb_properties ?t2 = map (approved_property p f) (pb_properties ?t)"
      by (rule approveFactRevision_Inr)
    have find: "List.find P (map g xs) = map_option g (List.find P xs)" if "\<And>x. P (g x) = P x"
      for P and g :: "propertyRow \<Rightarrow> propertyRow" and xs using that by (induction xs) auto
    have "property_of ?t2 (ls_propertyId l) = map_option (approved_property p f) (property_of ?t (ls_propertyId l))"
      unfolding property_of_def t2 by (rule find) (simp add: approved_property_def)
    moreover have "pt_approvedFactRevisionId (approved_property p f z) = pt_approvedFactRevisionId z"
      if "property_of ?t (ls_propertyId l) = Some z" for z
    proof (cases "pt_id z = pt_id p")
      case True
      have "pt_id z = ls_propertyId l" "pt_id p = fv_propertyId f" using that p(1) by (auto dest: property_of_Some)
      then have "z = p" "pt_id p = ls_propertyId l" using True that p(1) by simp_all
      then show ?thesis using p(2) exposed by (simp add: approved_property_def)
    qed (simp add: approved_property_def)
    ultimately show ?thesis by (cases "property_of ?t (ls_propertyId l)") simp_all
  next
    case False
    then have "pb_properties ?t2 = pb_properties ?t" using body_properties [OF ran] by blast
    then show ?thesis by (simp add: property_of_def)
  qed
qed simp

theorem facts_fixed_while_public_witness:
  "map_option pt_approvedFactRevisionId (property_of (db_world (snd (run sample_env (sample_envelope ''k3'' 1)
     (Approve_fact_revision ''f2'' ''all'') True ''o3'' published_db))) ''q1'') = Some (Some ''f1'')"
proof -
  obtain y where y: "y \<in> set (loadPublishedListings sample_review (db_world published_db) 5 [''l1''] [] Loc_bg)"
    "pl_listingId y = ''l1''"
    using sample_public_shown by (auto simp: shown_def sample_published_run)
  have l: "listing_of (db_world published_db) (pl_listingId y) = Some sample_listing"
    by (simp add: y listing_of_def sample_published_run sample_activate)
  have "property_of sample_public ''q1'' = Some (hd (pb_properties sample_unpublished))"
    by (simp add: property_of_def sample_activate) (simp add: sample_unpublished_def)
  then show ?thesis
    using facts_fixed_while_public [OF y(1) l] by (simp add: sample_published_run) (simp add: sample_unpublished_def)
qed

text \<open>
  C24: Every photograph a public reader gets is an item of the published manifest whose asset is
  eligible now and whose bytes are still those the manifest was made with, and no internal fact is
  in the facts of the page.
\<close>

theorem public_reading_is_safe:
  assumes "y \<in> set (loadPublishedListings rt t clock idKeys refs loc)"
  shows "(\<forall>x \<in> set (pl_media y). \<exists>m item. manifest_of t (pl_manifestId y) = Some m \<and> item \<in> set (items_of (mf_media m)) \<and>
      (\<exists>a \<in> set (rt_assets rt). pme_assetId x = mas_id a \<and> mediaAssetEligible a \<and> bound_bytes a item)) \<and>
    (\<forall>k \<in> set internalFactKeys. fact_at (pl_facts y) k = None)"
proof -
  obtain p l m q r where "eligible_pointer rt t clock loc p" "listing_of t (cp_listingId p) = Some l" and m: "manifest_of t (cp_manifestId p) = Some m"
    and y: "y = published_of rt loc (cp_activatedAt p) l q m r"
    using assms by (rule loaded_eligible) blast
  have "pl_manifestId y = cp_manifestId p" using manifest_of_id [OF m] by (simp add: y)
  then show ?thesis using m publicFacts_internal by (auto simp: y elim!: shown_media_Some)
qed

theorem public_reading_is_safe_witness:
  "\<exists>y x a. y \<in> set (loadPublishedListings sample_review sample_public 5 [''l1''] [] Loc_bg) \<and> x \<in> set (pl_media y) \<and>
    a \<in> set (rt_assets sample_review) \<and> pme_assetId x = mas_id a \<and> mediaAssetEligible a"
proof -
  let ?y = "published_of sample_review Loc_bg 5 sample_listing (hd (pb_properties sample_unpublished)) sample_manifest sample_revision"
  have y: "?y \<in> set (loadPublishedListings sample_review sample_public 5 [''l1''] [] Loc_bg)"
    using sample_shown [of sample_public] by (simp add: shown_def sample_activate)
  obtain x where x: "x \<in> set (pl_media ?y)" using sample_gallery by (meson list.set_sel(1))
  then show ?thesis using public_reading_is_safe [OF y] y by blast
qed

text \<open>
  C25: An approval of a listing revision that succeeds was given by a member of staff who may
  review the facts of the listing, on its newest revision and at the version the command expected,
  with the listing in review; afterwards the listing has the approved state, the next version and
  that revision, and exactly one approval is added, bound to the digest of the revision.
\<close>

theorem editorial_approval_exact:
  assumes "ok_listings (pb_listings (db_world db))"
    and "fst (run env c (Approve_listing_revision reference i note1) locked newId db) = Inr su" "\<not> os_replayed su"
    and after_def: "after = db_world (snd (run env c (Approve_listing_revision reference i note1) locked newId db))"
  shows "\<exists>l r a. listing_by_reference (db_world db) reference = Some l \<and> r \<in> set (rt_revisions (env_review env)) \<and>
    lr_id r = i \<and> lr_listingId r = ls_id l \<and> lr_revisionNumber r = ls_latestRevisionNumber l \<and>
    ls_editorialState l = Edi_in_review \<and> cmd_expectedRevision c = ls_version l \<and> actor_kind (cmd_actor c) = Actor_staff \<and>
    can (env_access env) (cmd_actor c) Cap_listing_review_facts
      (Some (resource_of editorialTransitions (table_parents (editorial_view l)) (editorial_view l))) (command_now env c) \<and>
    listing_of after (ls_id l) = Some (l\<lparr>ls_editorialState := Edi_approved_revision, ls_version := ls_version l + 1,
      ls_approvedRevisionId := Some i\<rparr>) \<and>
    pb_approvals after = pb_approvals (db_world db) @ [a] \<and> approved_for Apk_editorial ''listing_revision'' i a \<and>
    apr_subjectHash a = lr_contentDigest r \<and> apr_decidedBy a = cmd_actor c"
proof -
  obtain o1 v where "approveListingRevision env c reference i note1 o1 (db_world db) = Inr (v, after)"
    using run_effect [OF assms(2,3)] unfolding after_def by auto
  from this assms(1) show ?thesis by (rule approveListingRevision_effect) blast
qed

theorem editorial_approval_exact_witness:
  "\<exists>a. listing_of (db_world (snd (run sample_env (sample_envelope ''k4'' 3) (Approve_listing_revision ''L-1'' ''v1'' None) True ''o4''
       review_db))) ''l1'' = Some (sample_listing\<lparr>ls_version := 4\<rparr>) \<and>
     pb_approvals (db_world (snd (run sample_env (sample_envelope ''k4'' 3) (Approve_listing_revision ''L-1'' ''v1'' None) True ''o4''
       review_db))) = pb_approvals sample_unpublished @ [a] \<and> apr_subjectHash a = ''revision''"
proof -
  obtain v where v: "fst (run sample_env (sample_envelope ''k4'' 3) (Approve_listing_revision ''L-1'' ''v1'' None) True ''o4'' review_db) =
     Inr \<lparr>os_operationId = ''o4'', os_replayed = False, os_outcome = v, os_butlerReceipt = None\<rparr>"
    using sample_approved_run by blast
  have ok: "ok_listings (pb_listings (db_world review_db))" by (simp add: ok_listings_def review_db_def)
  have l: "listing_by_reference (db_world review_db) ''L-1'' = Some sample_in_review"
    by (simp add: listing_by_reference_def sample_reference review_db_def sample_in_review_def sample_listing_def)
  have e: "rt_revisions (env_review sample_env) = [sample_revision]" "pb_approvals (db_world review_db) = pb_approvals sample_unpublished"
    by (simp_all add: sample_env_def sample_review_def sample_revision_def review_db_def)
  have h: "lr_contentDigest sample_revision = ''revision''" by (simp add: sample_revision_def sample_review_def)
  have s: "sample_in_review\<lparr>ls_editorialState := Edi_approved_revision, ls_version := ls_version sample_in_review + 1,
      ls_approvedRevisionId := Some ''v1''\<rparr> = sample_listing\<lparr>ls_version := 4\<rparr>" "ls_id sample_in_review = ''l1''"
    by (simp_all add: sample_in_review_def sample_listing_def)
  show ?thesis
    using editorial_approval_exact [OF ok v _ refl] unfolding l e using s h by auto
qed

text \<open>
  C26: Loading the chains of places ends after at most one round more than there are places, also
  where places name each other as parents, and the chains are those of the whole table.
\<close>

theorem place_loading_ends:
  assumes "distinct (map gp_id places)"
  shows "load_nodes_fuel (Suc (length places)) places (\<lambda>_. None) (js_unique placeIds) =
      Some (load_nodes places (\<lambda>_. None) (js_unique placeIds)) \<and>
    loadPlaceChains places placeIds = map (\<lambda>i. (i, place_chain 8 (find_place places) i)) (js_unique placeIds)"
proof -
  have "card (gp_id ` set places) \<le> length places"
    using card_image_le [of "set places" gp_id] card_length [of places] by simp
  then have "missing_places places (\<lambda>_. None) < Suc (length places)"
    by (simp add: missing_places_def dom_def)
  then obtain n where "load_nodes_fuel (Suc (length places)) places (\<lambda>_. None) (js_unique placeIds) = Some n"
    using load_nodes_enough [of "js_unique placeIds" "\<lambda>_. None"] by (auto simp: dom_def)
  then show ?thesis using load_nodes_fuel_eq loadPlaceChains_table [OF assms] by metis
qed

theorem place_loading_ends_witness:
  "load_nodes_fuel 3 [sample_place ''p1'' (Some ''p2''), sample_place ''p2'' (Some ''p1'')] (\<lambda>_. None) [''p1''] =
    Some (load_nodes [sample_place ''p1'' (Some ''p2''), sample_place ''p2'' (Some ''p1'')] (\<lambda>_. None) [''p1''])"
proof -
  let ?ps = "[sample_place ''p1'' (Some ''p2''), sample_place ''p2'' (Some ''p1'')]"
  have "distinct (map gp_id ?ps)" "length ?ps = 2" "js_unique [''p1''] = [''p1'']" 
    by (simp_all add: sample_place_def js_unique_def)
  then show ?thesis using place_loading_ends [of ?ps "[''p1'']"] by (simp add: eval_nat_numeral del: load_nodes_fuel.simps)
qed

subsection \<open>Messages to the outside\<close>



text \<open>
  C27: However enqueues, claims, answers, reports and reconciliations of the outbox interleave,
  the provider is asked at most three times for one logical send.
\<close>

theorem send_calls_bounded:
  assumes "outbox_ok ob" "outbox_steps sha ob ob'"
  shows "count_list (ob_calls ob') i \<le> 3"
  by (rule outbox_calls [OF outbox_steps_ok [OF assms(2,1)]])

theorem send_calls_bounded_witness:
  "ob_calls sent_outbox = [''x1''] \<and> count_list (ob_calls sent_outbox) ''x1'' \<le> 3"
  using send_calls_bounded [OF sample_outbox_ok sample_sent_steps] sample_sent by blast

text \<open>
  C28: An action that was accepted, verified, failed, cancelled or left with an unknown outcome,
  and whose worker has come back, stays settled and is never handed to the provider again.
\<close>

theorem settled_send_never_repeated:
  assumes "outbox_ok ob" "done_with i ob" "outbox_steps sha ob ob'"
  shows "count_list (ob_calls ob') i = count_list (ob_calls ob) i \<and> done_with i ob'"
  using steps_done [OF assms(3,1,2)] by blast

theorem settled_send_never_repeated_witness:
  "count_list (ob_calls (claimMessage id open_gates ''resend'' 2 ''x1'' sent_outbox)) ''x1'' = 1"
proof -
  have ok: "outbox_ok sent_outbox" by (rule outbox_steps_ok [OF sample_sent_steps sample_outbox_ok])
  have d: "done_with ''x1'' sent_outbox" using sample_sent by (auto simp: done_with_def settled_def)
  have "outbox_steps id sent_outbox (claimMessage id open_gates ''resend'' 2 ''x1'' sent_outbox)"
    by (blast intro: step_claim)
  from settled_send_never_repeated [OF ok d this] show ?thesis using sample_sent by simp
qed

text \<open>
  C29: No step of the outbox loses an action, and every change of its state is a move of the
  external-action machine or one of the three the code makes beside it.
\<close>

theorem ledger_moves_exact:
  assumes "outbox_ok ob" "outbox_step sha ob ob'" "action_of i ob = Some r"
  shows "\<exists>r'. action_of i ob' = Some r' \<and>
    (xa_state r' = xa_state r \<or> check externalActionMachine (xa_state r) (xa_state r') = Allowed \<or>
     (xa_state r, xa_state r') \<in> {(Ext_attempting, Ext_cancelled), (Ext_attempting, Ext_verified), (Ext_verified, Ext_failed)})"
  using step_moves [OF assms(2,1,3)] by (auto simp: ledger_move_def beside_the_table_def)

theorem ledger_moves_exact_witness:
  "\<exists>r'. action_of ''x1'' (claimMessage id open_gates ''resend'' 1 ''x1'' sample_outbox) = Some r'"
proof -
  have "action_of ''x1'' sample_outbox = Some (new_action id sample_mail ''x1'' 0)"
    by (simp add: sample_outbox_eq action_of_def new_action_def)
  from ledger_moves_exact [OF sample_outbox_ok step_claim this] show ?thesis by blast
qed



subsection \<open>Sign-in, limits and time\<close>



text \<open>
  C31: A sign-in link that was used once never works again: whatever happens afterwards, using it
  is refused and changes nothing, the page that shows it never calls it valid, and an email that
  carries it is no longer handed to the provider.
\<close>

theorem link_used_once:
  assumes "lt_tokens t0 = []"
    and "consumeEmailLink env new token options (run_links env earlier t0) = (Inr c, t)"
    and "secret_url env (xa_secretPayload row) = Some url" "\<And>l. link_token env l url \<in> {None, Some token}"
  shows "(\<exists>e. consumeEmailLink env again token options2 (run_links env events t) = (Inl e, run_links env events t)) \<and>
    li_state (inspectEmailLink env token later (run_links env events t)) \<noteq> Link_valid \<and>
    \<not> emailLinkDeliveryIsCurrent env row later (run_links env events t)"
proof -
  have "links_ok (lt_tokens (run_links env earlier t0))" by (rule run_links_ok) (simp add: assms(1) links_ok_def)
  then have dead: "link_dead (le_sha env token) (lt_tokens (run_links env events t))"
    by (intro link_dead_run consumed_dead [OF assms(2)])
  then show ?thesis using dead_refused [OF dead] dead_not_delivered [OF dead assms(3,4)] by blast
qed

theorem link_used_once_witness:
  "\<exists>c t. consumeEmailLink link_env first_session link_secret link_use issued_tables = (Inr c, t) \<and>
     (\<exists>e. consumeEmailLink link_env second_session link_secret link_use t = (Inl e, t)) \<and>
     \<not> emailLinkDeliveryIsCurrent link_env link_mail 60001 t"
proof -
  obtain c t where used: "consumeEmailLink link_env first_session link_secret link_use issued_tables = (Inr c, t)"
    by (rule link_use_result)
  have "lt_tokens link_tables = []" by (simp add: link_tables_def)
  from link_used_once [OF this used [unfolded issued_tables_def] link_mail_secret link_mail_token,
      of second_session link_use "[]" 60001] used
  show ?thesis by (auto simp: run_links_def)
qed

text \<open>
  C32: Using a link works only within fifteen minutes of its issue, and only for the active,
  unrestricted client whose address it went to and for whom it was issued. It starts a session of
  exactly that account, readable at once with the new token and ending seven days later, and
  records the address as verified.
\<close>

theorem link_starts_own_session:
  assumes "lt_tokens t0 = []"
    and "consumeEmailLink env new token options (run_links env earlier t0) = (Inr c, t)"
    and "distinct (map pr_id (ac_principals (au_accounts (lt_auth (run_links env earlier t0)))))"
  shows "\<exists>r account.
    r \<in> set (lt_tokens (run_links env earlier t0)) \<and> st_tokenHash r = le_sha env token \<and>
    cl_now options < st_createdAt r + 900000 \<and> st_principalId r = Some (pr_id account) \<and>
    account \<in> set (ac_principals (au_accounts (lt_auth (run_links env earlier t0)))) \<and>
    pr_kind account = Account_client \<and> pr_status account = Account_active \<and>
    to_lower (pr_email account) = to_lower (st_email r) \<and>
    \<not> privacyProcessingRestricted (ac_restrictions (au_accounts (lt_auth (run_links env earlier t0)))) (pr_partyId account) ''client_access'' \<and>
    readSession (le_sha env) (ns_token new) (cl_now options) (lt_auth t) = (Some (is_session (ce_issued c)), lt_auth t) \<and>
    ss_account (is_session (ce_issued c)) = \<lparr>acc_kind = Account_client, acc_id = pr_id account\<rparr> \<and>
    ss_expiresAt (is_session (ce_issued c)) = cl_now options + 604800000 \<and>
    (\<exists>m \<in> set (lt_contacts t). matching_contact (pr_partyId account) (to_lower (st_email r)) m \<and> cm_verification m = Contact_verified)"
proof -
  let ?t = "run_links env earlier t0"
  have ok: "links_ok (lt_tokens ?t)" by (rule run_links_ok) (simp add: assms(1) links_ok_def)
  obtain r account ended rows where
    r: "List.find (consumable (le_sha env token) (cl_now options)) (lt_tokens ?t) = Some r"
    and a: "findActiveClient (au_accounts (lt_auth ?t)) (to_lower (st_email r)) = Some account"
      "st_principalId r = Some (pr_id account)"
    and s: "createSession (le_sha env) new \<lparr>acc_kind = Account_client, acc_id = pr_id account\<rparr> (cl_now options) ended =
        Inr (ce_issued c, rows)"
    and t: "lt_contacts t = verify_contact (cl_contactId options) (pr_partyId account) (st_email r) (cl_now options) (lt_contacts ?t)"
      "lt_auth t = (lt_auth ?t)\<lparr>au_sessions := rows\<rparr>"
    by (rule consume_cases [OF assms(2)]) simp
  have row: "r \<in> set (lt_tokens ?t)" "st_tokenHash r = le_sha env token" "cl_now options < st_expiresAt r"
    using r by (auto simp: find_Some_iff consumable_def)
  have "st_expiresAt r = st_createdAt r + emailLinkTtlMs" using ok row(1) by (simp add: links_ok_def list_all_iff issued_row_def)
  moreover have session: "readSession (le_sha env) (ns_token new) (cl_now options) (lt_auth t) =
      (Some (is_session (ce_issued c)), lt_auth t)"
    "ss_account (is_session (ce_issued c)) = \<lparr>acc_kind = Account_client, acc_id = pr_id account\<rparr>"
    "ss_expiresAt (is_session (ce_issued c)) = cl_now options + 604800000"
    using created_readable [OF s client_active [OF a(1) assms(3)]] by (simp_all add: t(2) minute_def hour_def day_def)
  moreover note findActiveClient_Some [OF a(1)] contact_verified [of "cl_contactId options" "pr_partyId account" "st_email r" "cl_now options" "lt_contacts ?t"]
  ultimately show ?thesis using row a(2) unfolding t(1) by (intro exI [of _ r] exI [of _ account]) (auto simp: emailLinkTtlMs_def)
qed

theorem link_starts_own_session_witness:
  "\<exists>c t. consumeEmailLink link_env first_session link_secret link_use issued_tables = (Inr c, t) \<and>
     ss_account (is_session (ce_issued c)) = ann_account \<and> ss_expiresAt (is_session (ce_issued c)) = 604860000"
proof -
  obtain c t where used: "consumeEmailLink link_env first_session link_secret link_use issued_tables = (Inr c, t)"
    by (rule link_use_result)
  have "lt_tokens link_tables = []" by (simp add: link_tables_def)
  moreover have "distinct (map pr_id (ac_principals (au_accounts (lt_auth issued_tables))))"
    by (simp add: issued_accounts ann_tables_def)
  moreover have "ac_principals (au_accounts (lt_auth issued_tables)) = [ann]" by (simp add: issued_accounts ann_tables_def)
  ultimately show ?thesis
    using link_starts_own_session [of link_tables link_env first_session link_secret link_use "[Issue link_new link_job 0]" c t] used
    by (auto simp: issued_tables_def [symmetric] ann_account_def ann_def link_use_def)
qed

text \<open>
  C33: Whatever sign-ins, readings, rotations and revocations happen, a token gives a session only
  while its account is active and only within the lifetime of a sign-in of that account: rotating
  and touching a session never lengthen it.
\<close>

theorem session_traces_to_sign_in:
  assumes "au_sessions t = []" "fst (readSession sha token later (run_sessions sha steps t)) = Some s"
  shows "\<exists>new now. Create new (ss_account s) now \<in> set steps \<and>
    ss_expiresAt s = now + lim_absoluteMs (sessionPolicy (acc_kind (ss_account s))) \<and> later < ss_expiresAt s \<and>
    accountIsActive (au_accounts (run_sessions sha steps t)) (ss_account s)"
proof -
  obtain r where r: "r \<in> set (au_sessions (run_sessions sha steps t))" "se_revokedAt r = None" "in_time later r"
      "ss_account s = se_account r" "ss_expiresAt s = se_expiresAt r"
      "accountIsActive (au_accounts (run_sessions sha steps t)) (se_account r)"
    using readSession_row [OF assms(2)] by blast
  show ?thesis using run_lineage [OF r(1,2)] r assms(1) by (auto simp: in_time_def)
qed

theorem session_traces_to_sign_in_witness:
  "\<exists>s new now. fst (readSession id ''s2'' 90000 (run_sessions id ann_steps ann_tables)) = Some s \<and>
     Create new ann_account now \<in> set ann_steps \<and> ss_expiresAt s = now + 604800000"
proof -
  obtain s where s: "fst (readSession id ''s2'' 90000 (run_sessions id ann_steps ann_tables)) = Some s" "ss_account s = ann_account"
    using ann_signed_in by blast
  have "au_sessions ann_tables = []" by (simp add: ann_tables_def)
  from session_traces_to_sign_in [OF this s(1)] s show ?thesis
    by (auto simp: ann_account_def minute_def hour_def day_def)
qed

text \<open>
  C34: After all sessions of an account were revoked, no token gives a session of that account
  until it signs in again, whatever other sign-ins, rotations and readings of any token happen.
\<close>

theorem ended_access_stays_ended:
  assumes "\<forall>e \<in> set steps. signs_in e \<noteq> Some (acc_id a)"
    and "fst (readSession sha token later
      (run_sessions sha steps (t\<lparr>au_sessions := snd (revokeAllSessions a None now (au_sessions t))\<rparr>))) = Some s"
  shows "acc_id (ss_account s) \<noteq> acc_id a"
proof
  assume same: "acc_id (ss_account s) = acc_id a"
  let ?t = "t\<lparr>au_sessions := snd (revokeAllSessions a None now (au_sessions t))\<rparr>"
  obtain r where r: "r \<in> set (au_sessions (run_sessions sha steps ?t))" "se_revokedAt r = None" "ss_account s = se_account r"
    using readSession_row [OF assms(2)] by blast
  have "signs_in (Create new (se_account r) n) = Some (acc_id a)" for new n using same r(3) by simp
  then obtain q where "q \<in> set (au_sessions ?t)" "se_revokedAt q = None" "se_account q = se_account r"
    using run_lineage [OF r(1,2)] assms(1) by metis
  then show False using same r(3) by (auto simp: revokeAllSessions_def split: if_splits)
qed

theorem ended_access_stays_ended_witness:
  "\<exists>s. fst (readSession id ''s1'' 5 (run_sessions id [Create first_session \<lparr>acc_kind = Account_client, acc_id = ''p1''\<rparr> 1]
      (ann_tables\<lparr>au_sessions := snd (revokeAllSessions \<lparr>acc_kind = Account_client, acc_id = ''p2''\<rparr> None 0 (au_sessions ann_tables))\<rparr>))) = Some s \<and>
    acc_id (ss_account s) \<noteq> ''p2''"
proof -
  let ?read = "fst (readSession id ''s1'' 5 (run_sessions id [Create first_session \<lparr>acc_kind = Account_client, acc_id = ''p1''\<rparr> 1]
      (ann_tables\<lparr>au_sessions := snd (revokeAllSessions \<lparr>acc_kind = Account_client, acc_id = ''p2''\<rparr> None 0 (au_sessions ann_tables))\<rparr>)))"
  have "?read \<noteq> None" by code_simp
  then obtain s where s: "?read = Some s" by blast
  have "\<forall>e \<in> set [Create first_session \<lparr>acc_kind = Account_client, acc_id = ''p1''\<rparr> 1].
      signs_in e \<noteq> Some (acc_id \<lparr>acc_kind = Account_client, acc_id = ''p2''\<rparr>)" by simp
  from ended_access_stays_ended [OF this s] s show ?thesis by simp
qed





text \<open>
  C37: Where a zone changes its offset at most once around a local time, the time is resolved
  exactly: nonexistent if no clock ever shows it, the one instant at which clocks show it, or both
  instants in order when they show it twice, of which the choice picks one.
\<close>

theorem local_time_exact:
  assumes "local_wall text = Some wall" "one_change parts timeZone wall"
  shows "resolveLocalTime parts text timeZone chosen =
    Some (case map to_iso (sorted_list_of_set (wall_shows parts timeZone wall)) of
         [] \<Rightarrow> Time_nonexistent
       | [earlier] \<Rightarrow> Time_resolved earlier
       | earlier # later # _ \<Rightarrow>
           (case chosen of
              Some c \<Rightarrow> Time_resolved (if c = Earlier then earlier else later)
            | None \<Rightarrow> Time_ambiguous earlier later)) \<and>
    finite (wall_shows parts timeZone wall) \<and> card (wall_shows parts timeZone wall) \<le> 2"
  using resolveLocalTime_exact [OF assms] by blast

theorem local_time_exact_witness:
  "resolveLocalTime sofia_zone repeated_time ''Europe/Sofia'' None =
     Some (Time_ambiguous ''2026-10-25T00:30:00.000Z'' ''2026-10-25T01:30:00.000Z'') \<and>
   sorted_list_of_set (wall_shows sofia_zone ''Europe/Sofia'' 1792899000000) \<noteq> []"
  using local_time_exact [OF repeated_wall repeated_one_change, of "''Europe/Sofia''" None] repeated_texts
  by (auto simp: resolveLocalTime_def repeated_wall repeated_candidates)





text \<open>
  C40: The report's reader, with its cache of days shared between observations and its budget,
  answers like the canonical reader after any earlier readings: the same duration or the same
  reason, except that it may stop at its budget, and may call an unknown day what is outside the
  calendar.
\<close>

theorem report_reader_agrees:
  assumes "\<forall>(v, start, stop) \<in> set ((v0, start0, stop0) # earlier). policy_value v \<and>
      (\<forall>from until. start = Some from \<and> stop = Some until \<longrightarrow> dates_advance sofia from until)"
    and "read_report k sofia maxSlices v0 start0 stop0 (read_all_reports k sofia maxSlices earlier) = (r, reader)"
  shows "r = Calculation_limit \<or> r = as_report (staffedDuration k sofia v0 start0 stop0) \<or>
    r = Report_unknown Unknown_day \<and> staffedDuration k sofia v0 start0 stop0 = Staffed_unknown Outside_reviewed_calendar"
proof -
  have "reader_ok k sofia (read_all_reports k sofia maxSlices earlier)"
    by (rule read_all_reports_ok) (use assms(1) in auto)
  from read_report_exact [OF this _ _ assms(2)] assms(1) show ?thesis by (auto simp: agrees_def)
qed

theorem report_reader_agrees_witness:
  "fst (read_report any_text sofia_clock 4096 policy_json (Some 1792996200000) (Some 1793003400000)
     (read_all_reports any_text sofia_clock 4096 [])) = Report_known 5400000 ''p1'' 1"
proof -
  obtain r reader where run: "read_report any_text sofia_clock 4096 policy_json (Some 1792996200000) (Some 1793003400000)
      (read_all_reports any_text sofia_clock 4096 []) = (r, reader)" by (metis surj_pair)
  have "r = Calculation_limit \<or> r = Report_known 5400000 ''p1'' 1"
    using report_reader_agrees [OF _ run] policy_stored monday_advances policy_counted by auto
  moreover have "r \<noteq> Calculation_limit" using policy_in_budget run by simp
  ultimately show ?thesis using run by simp
qed

end
